(* ===== verification/Prelude.thy ===== *)
theory Prelude
  imports Main "HOL-Library.Word"
begin

text \<open>
  Shared ground of the development: what a Go call can return, the maps the program keeps
  (Go \<^verbatim>\<open>map\<close> values as partial functions), counting and summing over the entries of a
  finite map, transition systems with an invariant, and the fact collections the component
  theories fill.
\<close>

named_theorems model_defs \<open>definitions of operations, unfolded when an operation is run\<close>
named_theorems frame_simps \<open>what an operation leaves unchanged\<close>
named_theorems concrete_simps \<open>evaluation of the model on concrete values\<close>

section \<open>Outcomes of a call\<close>

text \<open>
  A Go function with an \<^verbatim>\<open>error\<close> result either returns normally (\<open>Ok\<close>), returns a non-nil
  error (\<open>Err\<close>), or panics (a nil dereference), which unwinds the goroutine.  An operation on
  a mutable object returns its outcome together with the object as it leaves it, so a failing
  call that has already changed something shows it.
\<close>

datatype ('e, 'a) outcome = Ok (okval: 'a) | Err (errval: 'e) | Panic

type_synonym ('e, 'a, 's) call = "('e, 'a) outcome \<times> 's"

fun is_ok :: "('e, 'a) outcome \<Rightarrow> bool" where
  "is_ok (Ok _) = True"
| "is_ok (Err _) = False"
| "is_ok Panic = False"

lemma is_ok_iff: "is_ok r \<longleftrightarrow> (\<exists>x. r = Ok x)"
  by (cases r) auto

lemma not_is_okE:
  assumes "\<not> is_ok r"
  obtains (Err) e where "r = Err e" | (Panic) "r = Panic"
  using assms by (cases r) auto

text \<open>
  \<^verbatim>\<open>if err != nil { return err }\<close> after a call: the rest runs on its result.  \<open>sbind\<close> is the same
  for a call that changes a state.
\<close>

fun obind :: "('e, 'a) outcome \<Rightarrow> ('a \<Rightarrow> ('e, 'b) outcome) \<Rightarrow> ('e, 'b) outcome" where
  "obind (Ok x) f = f x"
| "obind (Err e) f = Err e"
| "obind Panic f = Panic"

fun sbind :: "('e, 'a, 's) call \<Rightarrow> ('a \<Rightarrow> 's \<Rightarrow> ('e, 'b, 's) call) \<Rightarrow> ('e, 'b, 's) call" where
  "sbind (Ok x, s) f = f x s"
| "sbind (Err e, s) f = (Err e, s)"
| "sbind (Panic, s) f = (Panic, s)"

lemma obind_Ok_iff: "obind r f = Ok y \<longleftrightarrow> (\<exists>x. r = Ok x \<and> f x = Ok y)"
  by (cases r) auto

lemma sbind_Ok_iff: "sbind c f = (Ok y, s') \<longleftrightarrow> (\<exists>x s. c = (Ok x, s) \<and> f x s = (Ok y, s'))"
  by (cases "(c, f)" rule: sbind.cases) auto

section \<open>Machine integers\<close>

text \<open>
  Go's \<^verbatim>\<open>uint64\<close> and \<^verbatim>\<open>int64\<close> are both 64 bits; a conversion between them keeps the
  bits, so both are \<open>64 word\<close> and an \<open>int64\<close> is read with \<open>sint\<close>.
\<close>

type_synonym uint64 = "64 word"
type_synonym int64 = "64 word"
type_synonym byte = "8 word"

lemma unat_of_nat_u64: "n < 2 ^ 64 \<Longrightarrow> unat (of_nat n :: uint64) = n"
  by (simp add: unat_of_nat take_bit_nat_eq_self)

lemma unat_byte: "unat (b :: byte) < 256"
  by (rule order_less_le_trans [OF unsigned_less]) simp

lemma of_nat_u64_neq:
  "m < n \<Longrightarrow> n < m + 2 ^ 64 \<Longrightarrow> (of_nat m :: uint64) \<noteq> of_nat n"
proof
  assume *: "m < n" "n < m + 2 ^ 64" "(of_nat m :: uint64) = of_nat n"
  then have "(of_nat (n - m) :: uint64) = 0"
    by (simp add: of_nat_diff)
  moreover have "unat (of_nat (n - m) :: uint64) = n - m"
    by (rule unat_of_nat_u64) (use * in linarith)
  ultimately show False using * by simp
qed

section \<open>Counting and summing over finite maps\<close>

definition count_map :: "('v \<Rightarrow> bool) \<Rightarrow> ('k \<rightharpoonup> 'v) \<Rightarrow> nat" where
  "count_map P m = card {k. \<exists>v. m k = Some v \<and> P v}"

lemma count_map_empty [simp]: "count_map P Map.empty = 0"
  by (simp add: count_map_def)

lemma finite_count_set: "finite (dom m) \<Longrightarrow> finite {k. \<exists>v. m k = Some v \<and> P v}"
  by (rule finite_subset [of _ "dom m"]) auto

lemma count_map_upd_new:
  assumes "finite (dom m)" "m k = None"
  shows "count_map P (m(k \<mapsto> v)) = count_map P m + (if P v then 1 else 0)"
proof (cases "P v")
  case True
  have "{j. \<exists>w. (m(k \<mapsto> v)) j = Some w \<and> P w} = insert k {j. \<exists>w. m j = Some w \<and> P w}"
    using True by auto
  moreover have "k \<notin> {j. \<exists>w. m j = Some w \<and> P w}"
    using assms(2) by auto
  ultimately show ?thesis
    using True finite_count_set [OF assms(1)] by (simp add: count_map_def)
next
  case False
  have "{j. \<exists>w. (m(k \<mapsto> v)) j = Some w \<and> P w} = {j. \<exists>w. m j = Some w \<and> P w}"
    using False assms(2) by auto
  then show ?thesis using False by (simp add: count_map_def)
qed

lemma finite_dom_del: "finite (dom m) \<Longrightarrow> finite (dom (m(k := None)))"
  by simp

lemma count_map_del:
  assumes "finite (dom m)" "m k = Some v"
  shows "count_map P m = count_map P (m(k := None)) + (if P v then 1 else 0)"
proof -
  have "m = (m(k := None))(k \<mapsto> v)" using assms(2) by (simp add: fun_upd_idem)
  moreover have "count_map P ((m(k := None))(k \<mapsto> v))
      = count_map P (m(k := None)) + (if P v then 1 else 0)"
    by (rule count_map_upd_new) (use assms(1) in auto)
  ultimately show ?thesis by simp
qed

lemma count_map_upd_old:
  assumes "finite (dom m)" "m k = Some w"
  shows "count_map P (m(k \<mapsto> v)) + (if P w then 1 else 0)
       = count_map P m + (if P v then 1 else 0)"
proof -
  have "count_map P ((m(k := None))(k \<mapsto> v))
      = count_map P (m(k := None)) + (if P v then 1 else 0)"
    by (rule count_map_upd_new) (use assms(1) in auto)
  with count_map_del [OF assms, of P] show ?thesis by simp
qed

definition sum_map :: "('v \<Rightarrow> int) \<Rightarrow> ('k \<rightharpoonup> 'v) \<Rightarrow> int" where
  "sum_map f m = (\<Sum>k\<in>dom m. f (the (m k)))"

lemma sum_map_upd_old:
  assumes "finite (dom m)" "m k = Some w"
  shows "sum_map f (m(k \<mapsto> v)) = sum_map f m - f w + f v"
proof -
  have k: "k \<in> dom m" using assms(2) by auto
  have "sum_map f (m(k \<mapsto> v)) = (\<Sum>j\<in>dom m. f (the ((m(k \<mapsto> v)) j)))"
    using k by (simp add: sum_map_def insert_absorb)
  also have "\<dots> = f v + (\<Sum>j\<in>dom m - {k}. f (the ((m(k \<mapsto> v)) j)))"
    using assms(1) k by (simp add: sum.remove)
  also have "(\<Sum>j\<in>dom m - {k}. f (the ((m(k \<mapsto> v)) j))) = (\<Sum>j\<in>dom m - {k}. f (the (m j)))"
    by (rule sum.cong) auto
  also have "\<dots> = sum_map f m - f w"
    using assms k by (simp add: sum_map_def sum.remove)
  finally show ?thesis by (simp add: fun_upd_def)
qed

section \<open>Transition systems with an invariant\<close>

text \<open>
  The contract every stateful component of the program offers: its start states satisfy the
  invariant and each of its operations keeps it.  What follows is that every state reachable
  by any sequence of operations satisfies it.
\<close>

locale transition_invariant =
  fixes start :: "'s \<Rightarrow> bool"
    and step :: "'s \<Rightarrow> 's \<Rightarrow> bool"
    and inv :: "'s \<Rightarrow> bool"
  assumes start_inv: "start s \<Longrightarrow> inv s"
    and step_inv: "step s t \<Longrightarrow> inv s \<Longrightarrow> inv t"
begin

lemma steps_inv: "step\<^sup>*\<^sup>* s t \<Longrightarrow> inv s \<Longrightarrow> inv t"
  by (induction rule: rtranclp_induct) (auto intro: step_inv)

lemma reachable_inv: "start s \<Longrightarrow> step\<^sup>*\<^sup>* s t \<Longrightarrow> inv t"
  by (blast intro: steps_inv start_inv)

end

end
