(* ===== verification/Float64.thy ===== *)
theory Float64
  imports Prelude
begin

text \<open>
  Go's \<^verbatim>\<open>float64\<close>: IEEE 754 binary64 with round-to-nearest, ties-to-even.  Every finite
  double is an integer multiple of the least positive one, \<open>2 powr -1074\<close>, so a finite value
  is \<open>Fin n\<close> for that integer \<open>n\<close> and an operation is the exact integer operation followed by
  one rounding.  The emulator only adds, subtracts and compares, and never divides, so the
  two zeros are one value here.  \<open>dy k m\<close> writes \<open>m * 2 ^ k\<close> units without expanding the power:
  \<open>dy 1074 1\<close> is 1.0 and \<open>dy 1073 1\<close> is 0.5.
\<close>

datatype float64 = Fin int | PInf | NInf | NaN

section \<open>Rounding\<close>

fun nbits :: "nat \<Rightarrow> nat" where
  "nbits n = (if n = 0 then 0 else Suc (nbits (n div 2)))"

declare nbits.simps [simp del]

definition ulp_shift :: "int \<Rightarrow> nat" where
  "ulp_shift m = nbits (nat \<bar>m\<bar>) - 53"

definition rne :: "nat \<Rightarrow> int \<Rightarrow> int" where
  "rne e m = (let p = 2 ^ e; q = m div p; r = m mod p
     in (if 2 * r < p \<or> 2 * r = p \<and> even q then q else q + 1) * p)"

definition overflow_bound :: int where
  "overflow_bound = 2 ^ 2098"

definition fround :: "int \<Rightarrow> float64" where
  "fround m = (let r = rne (ulp_shift m) m
     in if overflow_bound \<le> r then PInf else if r \<le> - overflow_bound then NInf else Fin r)"

definition representable :: "int \<Rightarrow> bool" where
  "representable m \<longleftrightarrow> 2 ^ ulp_shift m dvd m \<and> \<bar>m\<bar> < overflow_bound"

section \<open>Arithmetic and comparison\<close>

fun fadd :: "float64 \<Rightarrow> float64 \<Rightarrow> float64" where
  "fadd (Fin a) (Fin b) = fround (a + b)"
| "fadd NaN _ = NaN"
| "fadd _ NaN = NaN"
| "fadd PInf NInf = NaN"
| "fadd NInf PInf = NaN"
| "fadd PInf _ = PInf"
| "fadd _ PInf = PInf"
| "fadd NInf _ = NInf"
| "fadd _ NInf = NInf"

fun fneg :: "float64 \<Rightarrow> float64" where
  "fneg (Fin a) = Fin (- a)"
| "fneg PInf = NInf"
| "fneg NInf = PInf"
| "fneg NaN = NaN"

definition fsub :: "float64 \<Rightarrow> float64 \<Rightarrow> float64" where
  "fsub x y = fadd x (fneg y)"

fun flt :: "float64 \<Rightarrow> float64 \<Rightarrow> bool" where
  "flt (Fin a) (Fin b) \<longleftrightarrow> a < b"
| "flt (Fin _) PInf \<longleftrightarrow> True"
| "flt NInf (Fin _) \<longleftrightarrow> True"
| "flt NInf PInf \<longleftrightarrow> True"
| "flt _ _ \<longleftrightarrow> False"

definition fle :: "float64 \<Rightarrow> float64 \<Rightarrow> bool" where
  "fle x y \<longleftrightarrow> flt x y \<or> x = y \<and> x \<noteq> NaN"

text \<open>Go's \<^verbatim>\<open>==\<close>: a NaN equals nothing.\<close>

definition feq :: "float64 \<Rightarrow> float64 \<Rightarrow> bool" where
  "feq x y \<longleftrightarrow> x = y \<and> x \<noteq> NaN"

definition f0 :: float64 where
  "f0 = Fin 0"

definition dy :: "nat \<Rightarrow> int \<Rightarrow> float64" where
  "dy k m = Fin (m * 2 ^ k)"

definition is_fin :: "float64 \<Rightarrow> bool" where
  "is_fin x \<longleftrightarrow> (\<exists>n. x = Fin n)"

fun funits :: "float64 \<Rightarrow> int" where
  "funits (Fin n) = n"
| "funits _ = 0"

section \<open>Bit length\<close>

lemma nbits_0 [simp]: "nbits 0 = 0"
  by (simp add: nbits.simps)

lemma nbits_upper: "n < 2 ^ nbits n"
proof (induction n rule: nbits.induct)
  case (1 n)
  show ?case
  proof (cases "n = 0")
    case True then show ?thesis by simp
  next
    case False
    with 1 have "n div 2 < 2 ^ nbits (n div 2)" by simp
    with False show ?thesis by (simp add: nbits.simps [of n])
  qed
qed

lemma nbits_lower: "n > 0 \<Longrightarrow> 2 ^ nbits n \<le> 2 * n"
proof (induction n rule: nbits.induct)
  case (1 n)
  show ?case
  proof (cases "n div 2 = 0")
    case True
    with 1 have "n = 1" by simp
    then show ?thesis by (simp add: nbits.simps [of "Suc 0"])
  next
    case False
    with 1 have "2 ^ nbits (n div 2) \<le> 2 * (n div 2)" by simp
    with 1 show ?thesis by (simp add: nbits.simps [of n])
  qed
qed

lemma nbits_le: "n < 2 ^ k \<Longrightarrow> nbits n \<le> k"
proof (rule ccontr)
  assume *: "n < 2 ^ k" "\<not> nbits n \<le> k"
  then have "n > 0" by (cases n) auto
  have "(2::nat) ^ Suc k \<le> 2 ^ nbits n"
    by (rule power_increasing) (use * in auto)
  also have "\<dots> \<le> 2 * n" by (rule nbits_lower) fact
  finally show False using * by simp
qed

lemma nbits_ge: "2 ^ k \<le> n \<Longrightarrow> k < nbits n"
proof (rule ccontr)
  assume *: "2 ^ k \<le> n" "\<not> k < nbits n"
  have "n < 2 ^ nbits n" by (rule nbits_upper)
  also have "(2::nat) ^ nbits n \<le> 2 ^ k"
    by (rule power_increasing) (use * in auto)
  finally show False using * by simp
qed

lemma nbits_shift: "n > 0 \<Longrightarrow> nbits (n * 2 ^ k) = nbits n + k"
proof (induction k)
  case (Suc k)
  then have "nbits (n * 2 ^ Suc k) = Suc (nbits (n * 2 ^ k))"
    by (subst nbits.simps) (simp add: mult.assoc)
  with Suc show ?case by simp
qed simp

lemma ulp_shift_small: "\<bar>m\<bar> < 2 ^ 53 \<Longrightarrow> ulp_shift m = 0"
proof -
  assume "\<bar>m\<bar> < 2 ^ 53"
  then have "nat \<bar>m\<bar> < 2 ^ 53" by (simp add: nat_less_iff)
  then show ?thesis using nbits_le [of "nat \<bar>m\<bar>" 53] by (simp add: ulp_shift_def)
qed

lemma ulp_shift_scale:
  assumes "2 ^ 52 \<le> \<bar>m\<bar>"
  shows "ulp_shift (m * 2 ^ k) = ulp_shift m + k"
proof -
  have pos: "nat \<bar>m\<bar> > 0" using assms by simp
  have "(2::nat) ^ 52 \<le> nat \<bar>m\<bar>" using assms by (simp add: le_nat_iff)
  then have "52 < nbits (nat \<bar>m\<bar>)" by (rule nbits_ge)
  moreover have "nat \<bar>m * 2 ^ k\<bar> = nat \<bar>m\<bar> * 2 ^ k"
    by (simp add: abs_mult nat_mult_distrib nat_power_eq)
  ultimately show ?thesis using nbits_shift [OF pos, of k] by (simp add: ulp_shift_def)
qed

lemma ulp_shift_scale_le:
  assumes "\<bar>m\<bar> < 2 ^ 53"
  shows "ulp_shift (m * 2 ^ k) \<le> k"
proof -
  have "nat \<bar>m * 2 ^ k\<bar> < 2 ^ (53 + k)"
    using assms by (simp add: nat_less_iff abs_mult power_add)
  then have "nbits (nat \<bar>m * 2 ^ k\<bar>) \<le> 53 + k" by (rule nbits_le)
  then show ?thesis by (simp add: ulp_shift_def)
qed

section \<open>Rounding is exact where it can be, and monotone\<close>

lemma rne_exact: "2 ^ e dvd m \<Longrightarrow> rne e m = m"
  by (auto simp: rne_def Let_def)

lemma fround_exact: "representable m \<Longrightarrow> fround m = Fin m"
  by (auto simp: fround_def representable_def rne_exact Let_def)

lemma rne_scale: "rne (e + k) (m * 2 ^ k) = rne e m * 2 ^ k"
proof -
  have q: "(m * 2 ^ k) div 2 ^ (e + k) = m div 2 ^ e"
    by (simp add: power_add)
  have r: "(m * 2 ^ k) mod 2 ^ (e + k) = (m mod 2 ^ e) * (2 ^ k)"
    by (simp add: power_add mult_mod_left [symmetric])
  have "(2 * ((m mod 2 ^ e) * 2 ^ k) < 2 ^ (e + k)) = (2 * (m mod 2 ^ e) < 2 ^ e)"
    by (simp add: power_add mult.assoc [symmetric])
  moreover have "(2 * ((m mod 2 ^ e) * 2 ^ k) = 2 ^ (e + k)) = (2 * (m mod 2 ^ e) = 2 ^ e)"
    by (simp add: power_add mult.assoc [symmetric])
  ultimately show ?thesis
    by (simp add: rne_def Let_def q r power_add algebra_simps)
qed

lemma representable_0 [simp]: "representable 0"
  by (simp add: representable_def overflow_bound_def)

lemma representable_dyadic:
  assumes "\<bar>m\<bar> \<le> 2 ^ 53" "k \<le> 2044"
  shows "representable (m * 2 ^ k)"
proof -
  have "\<bar>m * 2 ^ k\<bar> \<le> 2 ^ 53 * 2 ^ k"
    using assms(1) by (simp add: abs_mult)
  also have "\<dots> = (2::int) ^ (53 + k)" by (simp add: power_add)
  also have "\<dots> < 2 ^ 2098" by (rule power_strict_increasing) (use assms in auto)
  finally have b: "\<bar>m * 2 ^ k\<bar> < overflow_bound" by (simp only: overflow_bound_def)
  show ?thesis
  proof (cases "\<bar>m\<bar> = 2 ^ 53")
    case False
    with assms have "ulp_shift (m * 2 ^ k) \<le> k" by (intro ulp_shift_scale_le) simp
    then have "(2::int) ^ ulp_shift (m * 2 ^ k) dvd m * 2 ^ k"
      by (intro dvd_mult le_imp_power_dvd)
    with b show ?thesis by (simp add: representable_def)
  next
    case True
    have "ulp_shift (m * 2 ^ k) \<le> 1 + k"
    proof -
      have "nat \<bar>m * 2 ^ k\<bar> < 2 ^ (54 + k)"
        using True by (simp add: nat_less_iff abs_mult power_add)
      then show ?thesis using nbits_le [of "nat \<bar>m * 2 ^ k\<bar>" "54 + k"] by (simp add: ulp_shift_def)
    qed
    moreover have "(2::int) ^ (1 + k) dvd m * 2 ^ k"
    proof -
      have "2 dvd \<bar>m\<bar>" using True by simp
      then show ?thesis by (simp add: power_add mult.commute [of m] mult_dvd_mono)
    qed
    ultimately have "(2::int) ^ ulp_shift (m * 2 ^ k) dvd m * 2 ^ k"
      using power_le_dvd by blast
    with b show ?thesis by (simp add: representable_def)
  qed
qed

lemma rne_dist: "\<bar>rne e m - m\<bar> \<le> 2 ^ e"
proof -
  let ?p = "2 ^ e :: int"
  have m: "m = m div ?p * ?p + m mod ?p" by (rule div_mult_mod_eq [symmetric])
  have "0 \<le> m mod ?p" "m mod ?p < ?p" by simp_all
  moreover have "rne e m = m div ?p * ?p \<or> rne e m = m div ?p * ?p + ?p"
    by (simp add: rne_def Let_def algebra_simps)
  ultimately show ?thesis using m by linarith
qed

lemma rne_dvd: "2 ^ e dvd rne e m"
  by (simp add: rne_def Let_def)

lemma ulp_shift_bound: "\<bar>m\<bar> < 2 ^ (53 + ulp_shift m)"
proof -
  have "nat \<bar>m\<bar> < 2 ^ nbits (nat \<bar>m\<bar>)" by (rule nbits_upper)
  also have "(2::nat) ^ nbits (nat \<bar>m\<bar>) \<le> 2 ^ (53 + ulp_shift m)"
    by (rule power_increasing) (auto simp: ulp_shift_def)
  finally show ?thesis by (simp add: nat_less_iff)
qed

lemma ulp_shift_pos_lower: "0 < ulp_shift m \<Longrightarrow> 2 ^ (52 + ulp_shift m) \<le> \<bar>m\<bar>"
proof -
  assume "0 < ulp_shift m"
  then have n: "nbits (nat \<bar>m\<bar>) = 53 + ulp_shift m" and "nat \<bar>m\<bar> > 0"
    by (auto simp: ulp_shift_def intro!: Nat.gr0I)
  then have "(2::nat) ^ (53 + ulp_shift m) \<le> 2 * nat \<bar>m\<bar>"
    using nbits_lower [of "nat \<bar>m\<bar>"] by simp
  then have "(2::nat) ^ (52 + ulp_shift m) \<le> nat \<bar>m\<bar>"
    by (simp add: power_add)
  then show ?thesis by (simp add: le_nat_iff)
qed

lemma ulp_shift_le:
  assumes "\<bar>m\<bar> < 2 ^ (53 + e)"
  shows "ulp_shift m \<le> e"
proof -
  have "nat \<bar>m\<bar> < 2 ^ (53 + e)" using assms by (simp add: nat_less_iff)
  then have "nbits (nat \<bar>m\<bar>) \<le> 53 + e" by (rule nbits_le)
  then show ?thesis by (simp add: ulp_shift_def)
qed

lemma rne_multiple_bound:
  assumes "2 ^ e dvd b" "m \<le> b"
  shows "rne e m \<le> b"
proof (cases "m mod 2 ^ e = 0")
  case True
  then have "rne e m = m" by (intro rne_exact) (simp add: dvd_eq_mod_eq_0)
  with assms show ?thesis by simp
next
  case False
  from assms(1) obtain c where c: "b = 2 ^ e * c" ..
  have "m div 2 ^ e \<le> c"
    using zdiv_mono1 [OF assms(2), of "2 ^ e"] by (simp add: c)
  moreover have "m div 2 ^ e \<noteq> c"
  proof
    assume mc: "m div 2 ^ e = c"
    have "2 ^ e * (m div 2 ^ e) + m mod 2 ^ e = m" by (rule mult_div_mod_eq)
    then have "b + m mod 2 ^ e = m" unfolding mc c .
    moreover have "0 \<le> m mod 2 ^ e" by simp
    ultimately show False using assms(2) False by linarith
  qed
  ultimately have "m div 2 ^ e + 1 \<le> c" by simp
  then have "(m div 2 ^ e + 1) * 2 ^ e \<le> c * 2 ^ e" by (rule mult_right_mono) simp
  moreover have "rne e m \<le> (m div 2 ^ e + 1) * 2 ^ e"
    by (simp add: rne_def Let_def)
  ultimately have "rne e m \<le> c * 2 ^ e" by (rule order_trans [rotated])
  then show ?thesis by (simp only: c mult.commute)
qed

lemma rne_multiple_bound_ge:
  assumes "2 ^ e dvd b" "b \<le> m"
  shows "b \<le> rne e m"
proof -
  from assms(1) obtain c where c: "b = 2 ^ e * c" ..
  have "c \<le> m div 2 ^ e"
    using zdiv_mono1 [OF assms(2), of "2 ^ e"] by (simp add: c)
  then have "c * 2 ^ e \<le> m div 2 ^ e * 2 ^ e" by simp
  also have "\<dots> \<le> rne e m" by (simp add: rne_def Let_def)
  finally show ?thesis using c by (simp add: mult.commute)
qed

lemma rne_abs_le: "\<bar>rne (ulp_shift m) m\<bar> \<le> 2 ^ (53 + ulp_shift m)"
proof -
  have "2 ^ ulp_shift m dvd (2::int) ^ (53 + ulp_shift m)" by (simp add: power_add)
  then have "rne (ulp_shift m) m \<le> 2 ^ (53 + ulp_shift m)"
    "- (2 ^ (53 + ulp_shift m)) \<le> rne (ulp_shift m) m"
    using ulp_shift_bound [of m]
    by (intro rne_multiple_bound rne_multiple_bound_ge; simp)+
  then show ?thesis by simp
qed

text \<open>A rounded result is a double: rounding it again changes nothing.\<close>

lemma fround_representable: "fround m = Fin r \<Longrightarrow> representable r"
proof -
  assume *: "fround m = Fin r"
  define e where "e = ulp_shift m"
  have r: "r = rne e m" and b: "\<bar>r\<bar> < overflow_bound"
    using * by (auto simp: fround_def e_def Let_def split: if_splits)
  have d: "2 ^ e dvd r" unfolding r by (rule rne_dvd)
  have le: "\<bar>r\<bar> \<le> 2 ^ (53 + e)" unfolding r e_def by (rule rne_abs_le)
  show ?thesis
  proof (cases "\<bar>r\<bar> = 2 ^ (53 + e)")
    case False
    with le have "ulp_shift r \<le> e" by (intro ulp_shift_le) simp
    with d b show ?thesis unfolding representable_def using power_le_dvd by blast
  next
    case True
    have "\<bar>r\<bar> < 2 ^ (53 + Suc e)" unfolding True by (rule power_strict_increasing) auto
    then have "ulp_shift r \<le> Suc e" by (rule ulp_shift_le)
    moreover have "(2::int) ^ Suc e dvd \<bar>r\<bar>"
      unfolding True by (rule le_imp_power_dvd) simp
    ultimately have "2 ^ ulp_shift r dvd r" using power_le_dvd by (metis dvd_abs_iff)
    with b show ?thesis by (simp add: representable_def)
  qed
qed

text \<open>Rounding never crosses a double: it is monotone against every representable value.\<close>

lemma rne_ge_representable:
  assumes "representable m" "m \<le> x"
  shows "m \<le> rne (ulp_shift x) x"
proof (cases "2 ^ ulp_shift x dvd m")
  case True
  then show ?thesis using assms(2) by (rule rne_multiple_bound_ge)
next
  case False
  have lt: "ulp_shift m < ulp_shift x"
  proof (rule ccontr)
    assume "\<not> ulp_shift m < ulp_shift x"
    then have "ulp_shift x \<le> ulp_shift m" by simp
    moreover have "2 ^ ulp_shift m dvd m" using assms(1) by (simp only: representable_def)
    ultimately have "2 ^ ulp_shift x dvd m" by (metis power_le_dvd)
    with False show False ..
  qed
  have "\<bar>m\<bar> < 2 ^ (53 + ulp_shift m)" by (rule ulp_shift_bound)
  also have "(2::int) ^ (53 + ulp_shift m) \<le> 2 ^ (52 + ulp_shift x)"
    by (rule power_increasing) (use lt in auto)
  finally have m: "\<bar>m\<bar> < 2 ^ (52 + ulp_shift x)" .
  have x: "2 ^ (52 + ulp_shift x) \<le> \<bar>x\<bar>"
    using lt by (intro ulp_shift_pos_lower) simp
  with m assms(2) have "2 ^ (52 + ulp_shift x) \<le> x" by linarith
  then have "2 ^ (52 + ulp_shift x) \<le> rne (ulp_shift x) x"
    by (intro rne_multiple_bound_ge) (simp_all add: power_add)
  with m show ?thesis by linarith
qed

lemma fround_ge:
  assumes "representable m" "m \<le> x"
  shows "fle (Fin m) (fround x)"
proof -
  have "m \<le> rne (ulp_shift x) x" using assms by (rule rne_ge_representable)
  moreover have "- overflow_bound < m" using assms(1) by (auto simp: representable_def)
  ultimately show ?thesis by (auto simp: fround_def fle_def Let_def)
qed

section \<open>Evaluation on dyadic values\<close>

lemma flt_dy [concrete_simps]: "flt (dy k a) (dy k b) \<longleftrightarrow> a < b"
  by (simp add: dy_def)

lemma dy_inject [concrete_simps]: "dy k a = dy k b \<longleftrightarrow> a = b"
  by (simp add: dy_def)

lemma dy_not_NaN [simp]: "dy k a \<noteq> NaN" "dy k a \<noteq> PInf" "dy k a \<noteq> NInf"
  by (simp_all add: dy_def)

lemma f0_dy: "f0 = dy k 0"
  by (simp add: f0_def dy_def)

lemma fneg_dy [concrete_simps]: "fneg (dy k a) = dy k (- a)"
  by (simp add: dy_def)

lemma dy_rescale: "dy (k + j) m = dy k (m * 2 ^ j)"
  by (simp add: dy_def power_add algebra_simps)

lemma fadd_dy [concrete_simps]:
  assumes "\<bar>a + b\<bar> \<le> 2 ^ 53" "k \<le> 2044"
  shows "fadd (dy k a) (dy k b) = dy k (a + b)"
  using representable_dyadic [OF assms]
  by (simp add: dy_def fround_exact distrib_right [symmetric])

lemma fsub_dy [concrete_simps]:
  assumes "\<bar>a - b\<bar> \<le> 2 ^ 53" "k \<le> 2044"
  shows "fsub (dy k a) (dy k b) = dy k (a - b)"
  using fadd_dy [of a "- b" k] assms by (simp add: fsub_def fneg_dy)

lemma fround_dyadic:
  assumes "2 ^ 52 \<le> \<bar>m\<bar>" "\<bar>m\<bar> < 2 ^ 100" "k \<le> 1900"
  shows "fround (m * 2 ^ k) = dy k (rne (ulp_shift m) m)"
proof -
  have r: "rne (ulp_shift (m * 2 ^ k)) (m * 2 ^ k) = rne (ulp_shift m) m * 2 ^ k"
    using assms(1) by (simp only: ulp_shift_scale rne_scale)
  have "ulp_shift m \<le> 47" by (rule ulp_shift_le) (use assms(2) in simp)
  then have "(2::int) ^ (53 + ulp_shift m) \<le> 2 ^ 100" by (intro power_increasing) auto
  with rne_abs_le [of m] have "\<bar>rne (ulp_shift m) m\<bar> * 2 ^ k \<le> 2 ^ 100 * 2 ^ k"
    by (intro mult_right_mono) (linarith, simp)
  also have "(2::int) ^ 100 * 2 ^ k = 2 ^ (100 + k)" by (simp add: power_add)
  also have "\<dots> < (2::int) ^ 2098" by (rule power_strict_increasing) (use assms(3) in auto)
  finally have "\<bar>rne (ulp_shift m) m * 2 ^ k\<bar> < overflow_bound"
    by (simp only: overflow_bound_def abs_mult abs_power2 abs_numeral power_abs)
  then show ?thesis by (auto simp: fround_def r dy_def Let_def)
qed

lemma fadd_dy_round [concrete_simps]:
  assumes "2 ^ 52 \<le> \<bar>a + b\<bar>" "\<bar>a + b\<bar> < 2 ^ 100" "k \<le> 1900"
  shows "fadd (dy k a) (dy k b) = dy k (rne (ulp_shift (a + b)) (a + b))"
  using fround_dyadic [OF assms] by (simp add: dy_def distrib_right [symmetric])

lemma fsub_dy_round [concrete_simps]:
  assumes "2 ^ 52 \<le> \<bar>a - b\<bar>" "\<bar>a - b\<bar> < 2 ^ 100" "k \<le> 1900"
  shows "fsub (dy k a) (dy k b) = dy k (rne (ulp_shift (a - b)) (a - b))"
  using fadd_dy_round [of a "- b" k] assms by (simp add: fsub_def fneg_dy)

lemma fsub_Fin: "fsub (Fin a) (Fin b) = fround (a - b)"
  by (simp add: fsub_def)

text \<open>
  The guard the ledger uses: if \<^verbatim>\<open>balance - locked\<close> is computed without rounding and is not less
  than \<^verbatim>\<open>amount\<close>, what remains after paying \<^verbatim>\<open>amount\<close> still covers \<^verbatim>\<open>locked\<close>.
\<close>

lemma guard_covers:
  assumes "representable (b - l)" "representable l" "\<not> flt (fsub (Fin b) (Fin l)) (Fin a)"
  shows "fle (Fin l) (fsub (Fin b) (Fin a))"
proof -
  have "a \<le> b - l" using assms(1,3) by (simp add: fsub_Fin fround_exact)
  then show ?thesis using fround_ge [OF assms(2), of "b - a"] by (simp add: fsub_Fin)
qed

end
