(* ===== verification/Ids.thy ===== *)
theory Ids
  imports Prelude
begin

text \<open>
  \<^verbatim>\<open>internal/scalegraph/id.go\<close>: the 160-bit \<^verbatim>\<open>ScalegraphId\<close>, its hexadecimal printing and
  parsing (with the part of Go's \<^verbatim>\<open>encoding/hex\<close> they call), and the id derived from a public
  key.  The SHA-1 digest is the parameter \<open>sha1\<close>; \<^verbatim>\<open>NewScalegraphId\<close> draws from
  \<^verbatim>\<open>crypto/rand\<close>, so every operation of the model that creates an id takes the drawn value
  as an argument.
\<close>

unbundle bit_operations_syntax

section \<open>Identifiers\<close>

typedef ScalegraphId = "{bs :: byte list. length bs = 20}"
  morphisms id_bytes mk_id
  by (rule exI [of _ "replicate 20 0"]) simp

setup_lifting type_definition_ScalegraphId

lemma length_id_bytes [simp]: "length (id_bytes i) = 20"
  using id_bytes [of i] by simp

lemma id_bytes_mk_id [simp]: "length bs = 20 \<Longrightarrow> id_bytes (mk_id bs) = bs"
  by (simp add: mk_id_inverse)

lemma mk_id_eq_iff [simp]:
  "length xs = 20 \<Longrightarrow> length ys = 20 \<Longrightarrow> mk_id xs = mk_id ys \<longleftrightarrow> xs = ys"
  by (simp add: mk_id_inject)

instantiation ScalegraphId :: equal
begin

definition equal_ScalegraphId :: "ScalegraphId \<Rightarrow> ScalegraphId \<Rightarrow> bool" where
  "equal_ScalegraphId i j \<longleftrightarrow> id_bytes i = id_bytes j"

instance
  by standard (simp add: equal_ScalegraphId_def id_bytes_inject)

end

text \<open>Ids used in concrete runs: the byte \<open>n\<close> repeated twenty times.\<close>

definition test_id :: "nat \<Rightarrow> ScalegraphId" where
  "test_id n = mk_id (replicate 20 (of_nat n))"

lemma test_id_eq [concrete_simps]: "test_id m = test_id n \<longleftrightarrow> (of_nat m :: byte) = of_nat n"
  by (simp add: test_id_def)

section \<open>Hexadecimal text\<close>

definition hexdigit :: "nat \<Rightarrow> char" where
  "hexdigit n = char_of (if n < 10 then 48 + n else 87 + n)"

definition fromHexChar :: "char \<Rightarrow> nat option" where
  "fromHexChar c = (let n = of_char c :: nat in
     if 48 \<le> n \<and> n \<le> 57 then Some (n - 48)
     else if 97 \<le> n \<and> n \<le> 102 then Some (n - 87)
     else if 65 \<le> n \<and> n \<le> 70 then Some (n - 55)
     else None)"

fun EncodeToString :: "byte list \<Rightarrow> string" where
  "EncodeToString [] = []"
| "EncodeToString (b # bs) =
     hexdigit (unat b div 16) # hexdigit (unat b mod 16) # EncodeToString bs"

datatype hex_error = InvalidByteError char | ErrLength

fun DecodeString :: "string \<Rightarrow> (hex_error, byte list) outcome" where
  "DecodeString [] = Ok []"
| "DecodeString [c] = (case fromHexChar c of None \<Rightarrow> Err (InvalidByteError c) | Some _ \<Rightarrow> Err ErrLength)"
| "DecodeString (c # d # s) =
     (case fromHexChar c of
        None \<Rightarrow> Err (InvalidByteError c)
      | Some h \<Rightarrow>
        (case fromHexChar d of
           None \<Rightarrow> Err (InvalidByteError d)
         | Some l \<Rightarrow>
           (case DecodeString s of
              Ok bs \<Rightarrow> Ok (of_nat (16 * h + l) # bs)
            | Err e \<Rightarrow> Err e
            | Panic \<Rightarrow> Panic)))"

section \<open>Printing and parsing ids\<close>

datatype id_error = InvalidHex hex_error | InvalidLength nat

definition ScalegraphIdFromString :: "string \<Rightarrow> (id_error, ScalegraphId) outcome" where
  "ScalegraphIdFromString s =
     (case DecodeString s of
        Ok bs \<Rightarrow> if length bs \<noteq> 20 then Err (InvalidLength (length bs)) else Ok (mk_id bs)
      | Err e \<Rightarrow> Err (InvalidHex e)
      | Panic \<Rightarrow> Panic)"

definition id_String :: "ScalegraphId \<Rightarrow> string" where
  "id_String i = EncodeToString (id_bytes i)"

section \<open>Derivation from a public key\<close>

definition DeriveAccountID :: "(byte list \<Rightarrow> ScalegraphId) \<Rightarrow> byte list \<Rightarrow> ScalegraphId" where
  "DeriveAccountID sha1 pubKey = sha1 pubKey"

definition ScalegraphIdFromPublicKey :: "(byte list \<Rightarrow> ScalegraphId) \<Rightarrow> byte list \<Rightarrow> ScalegraphId" where
  "ScalegraphIdFromPublicKey sha1 pubKey = DeriveAccountID sha1 pubKey"

section \<open>Properties\<close>

lemma fromHexChar_hexdigit: "n < 16 \<Longrightarrow> fromHexChar (hexdigit n) = Some n"
  by (auto simp: fromHexChar_def hexdigit_def of_char_of take_bit_nat_eq_self Let_def)

lemma fromHexChar_bound: "fromHexChar c = Some n \<Longrightarrow> n < 16"
  by (auto simp: fromHexChar_def Let_def split: if_splits)

lemma DecodeString_EncodeToString: "DecodeString (EncodeToString bs) = Ok bs"
proof (induction bs)
  case (Cons b bs)
  have "unat b < 256" using unsigned_less [of b] by simp
  then have "unat b div 16 < 16" by simp
  then have "fromHexChar (hexdigit (unat b div 16)) = Some (unat b div 16)"
    by (rule fromHexChar_hexdigit)
  moreover have "fromHexChar (hexdigit (unat b mod 16)) = Some (unat b mod 16)"
    by (rule fromHexChar_hexdigit) simp
  moreover have "(of_nat (16 * (unat b div 16) + unat b mod 16) :: byte) = b"
    by (simp only: mult_div_mod_eq of_nat_unat ucast_id)
  ultimately show ?case using Cons by simp
qed simp

lemma length_EncodeToString [simp]: "length (EncodeToString bs) = 2 * length bs"
  by (induction bs) auto

lemma DecodeString_length: "DecodeString s = Ok bs \<Longrightarrow> length s = 2 * length bs"
  by (induction s arbitrary: bs rule: DecodeString.induct)
    (auto split: option.splits outcome.splits)

lemma DecodeString_no_panic: "DecodeString s \<noteq> Panic"
proof (induction s rule: DecodeString.induct)
  case (3 c d s)
  then show ?case
    by (cases "fromHexChar c"; cases "fromHexChar d") (simp_all split: outcome.splits)
qed (simp_all split: option.splits)

lemma DecodeString_chars: "DecodeString s = Ok bs \<Longrightarrow> c \<in> set s \<Longrightarrow> fromHexChar c \<noteq> None"
  by (induction s arbitrary: bs rule: DecodeString.induct)
    (auto split: option.splits outcome.splits)

lemma DecodeString_total:
  "even (length s) \<Longrightarrow> \<forall>c\<in>set s. fromHexChar c \<noteq> None \<Longrightarrow> \<exists>bs. DecodeString s = Ok bs"
proof (induction s rule: DecodeString.induct)
  case (3 c d s)
  then obtain h l where "fromHexChar c = Some h" "fromHexChar d = Some l" by auto
  moreover from 3 this obtain bs where "DecodeString s = Ok bs" by fastforce
  ultimately show ?case by simp
qed auto

lemma id_String_inject: "id_String i = id_String j \<longleftrightarrow> i = j"
proof
  assume "id_String i = id_String j"
  then have "DecodeString (id_String i) = DecodeString (id_String j)" by simp
  then show "i = j"
    by (simp add: id_String_def DecodeString_EncodeToString id_bytes_inject)
qed simp

lemma FromString_String [simp]: "ScalegraphIdFromString (id_String i) = Ok i"
  by (simp add: ScalegraphIdFromString_def id_String_def DecodeString_EncodeToString id_bytes_inverse)

lemma FromString_no_panic: "ScalegraphIdFromString s \<noteq> Panic"
  using DecodeString_no_panic [of s]
  by (auto simp: ScalegraphIdFromString_def split: outcome.splits)

lemma FromString_ok_iff:
  "(\<exists>i. ScalegraphIdFromString s = Ok i) \<longleftrightarrow>
   length s = 40 \<and> (\<forall>c\<in>set s. fromHexChar c \<noteq> None)"
  (is "?L \<longleftrightarrow> ?R")
proof
  assume ?L
  then obtain bs where "DecodeString s = Ok bs" "length bs = 20"
    by (auto simp: ScalegraphIdFromString_def split: outcome.splits if_splits)
  then show ?R using DecodeString_length [of s bs] DecodeString_chars [of s bs] by auto
next
  assume R: ?R
  then obtain bs where bs: "DecodeString s = Ok bs"
    using DecodeString_total [of s] by auto
  with R show ?L using DecodeString_length [of s bs]
    by (auto simp: ScalegraphIdFromString_def)
qed

text \<open>
  Property C26.  Printing an id and parsing the text gives the id back, and the parser accepts
  exactly the 40-character texts of hexadecimal digits (either case); on any other text it
  returns an error and never panics.
\<close>

theorem id_roundtrip:
  "ScalegraphIdFromString (id_String i) = Ok i \<and>
   length (id_String i) = 40 \<and>
   ((\<exists>j. ScalegraphIdFromString s = Ok j) \<longleftrightarrow>
      length s = 40 \<and> {c \<in> set s. fromHexChar c = None} = {}) \<and>
   ScalegraphIdFromString s \<noteq> Panic"
  using FromString_ok_iff [of s] FromString_no_panic [of s]
  by (auto simp: id_String_def ScalegraphIdFromString_def
      DecodeString_EncodeToString id_bytes_inverse)

end
