(* ===== verification/Errors.thy ===== *)
theory Errors
  imports Float64 Ids
begin

text \<open>
  The error values of the program.  Go builds them with \<^verbatim>\<open>fmt.Errorf\<close>; here each message is
  a constructor with the values that are formatted into it, and \<^verbatim>\<open>%w\<close> wrapping is a
  constructor around the wrapped error.  The first group is
  \<^verbatim>\<open>internal/crypto/errors.go\<close>.
\<close>

datatype error =
    ErrNoVerifier
  | ErrMissingSignature
  | ErrInvalidSignature error
  | ErrSignerMismatch string string
  | ErrPayloadMismatch error
  | FieldMismatch string
      \<comment> \<open>"From mismatch", "Nonce mismatch", ...: the closures passed to VerifyRequest\<close>
  | InvalidSignerID id_error
  | InvalidAccountID id_error
  | CertificateNil
  | CertificateInvalid
  | CertificateKeyNotEd25519
  | CertificateChainFailed error
  | SignerIDMismatch string string
  | UnsupportedAlgorithm string
  | InvalidSignatureSize nat
  | SignatureNotVerified
  | TimestampInFuture
  | TimestampTooOld
  | SignerLookupFailed error
  | InvalidPrivateKeySize nat
  | SignPayloadFailed error
  | AccountNotFound string ScalegraphId
      \<comment> \<open>"source account not found: %s", "destination account not found: %s", ...\<close>
  | AccountExists ScalegraphId
  | SelfTransferNotAllowed
  | NonceMismatch uint64 uint64
  | InsufficientBalance string float64 float64 float64
      \<comment> \<open>operation, current balance, mbr, required amount\<close>
  | TokenNotFound string ScalegraphId
  | TokenAlreadyExists string ScalegraphId
  | TokenAlreadyOwned string ScalegraphId
  | TokenNotOwned string ScalegraphId
  | TokenNotAuthorized string ScalegraphId
  | TokenWrongSigner string string ScalegraphId
  | TokenIsFrozen string
  | TokenAlreadyFrozen string
  | TokenNotFrozen string
  | TokenIsPlaceholder string
  | NotFreezeAuthority ScalegraphId string
  | ClawbackAddressMismatch ScalegraphId ScalegraphId
  | NotParticipant string
      \<comment> \<open>"either sender or receiver must be this account for ... transaction"\<close>
  | UnexpectedSender string
  | UnexpectedReceiver string
  | NotLatestTransaction
  | RollbackHandlerFailed error
  | Failed string error
      \<comment> \<open>"failed to mint token: %w", "failed to remove token: %w", ...\<close>
  | NotPositiveK
  | AlreadyRegistered ScalegraphId
  | UnknownRequestType
  | ServerShuttingDown
  | CredentialsFailed
  | IdError id_error
      \<comment> \<open>the error of ScalegraphIdFromString returned unwrapped\<close>
  | ContextDone
  | RequestSendTimeout
  | ResponseTimeout
  | UnexpectedResponseType
  | Base64CorruptInput
  | SubscriptionAlreadyActive
  | PemNoBlock
  | PemWrongType string
  | KeyMarshalFailed
  | KeyParseFailed
  | NotEd25519Key
  | CertificateParseFailed
  | CertificateCreateFailed
  | RandomSourceFailed
  | FileError
  | CANotAvailable
  | InvalidField string error
      \<comment> \<open>"invalid account_id: %v", "invalid to_id: %v", ...\<close>
  | FieldRequired string
  | AmountNotPositive
  | UnsupportedRequestType string
  | JsonEncodeFailed
  | FailedFor string string error
      \<comment> \<open>"failed to get private key for account %s: %v", ...\<close>
  | ErrSkipAppend
      \<comment> \<open>account.go's sentinel errSkipAppend\<close>

text \<open>\<^verbatim>\<open>fmt.Errorf("failed to ...: %w", err)\<close> around the error of a call.\<close>

fun wrap :: "string \<Rightarrow> (error, 'a) outcome \<Rightarrow> (error, 'a) outcome" where
  "wrap msg (Ok x) = Ok x"
| "wrap msg (Err e) = Err (Failed msg e)"
| "wrap msg Panic = Panic"

lemma wrap_Ok_iff: "wrap msg r = Ok x \<longleftrightarrow> r = Ok x"
  by (cases r) auto

end
