(* ===== verification/Crypto.thy ===== *)
theory Crypto
  imports Errors
begin

text \<open>
  \<^verbatim>\<open>internal/crypto/signer.go\<close> and \<^verbatim>\<open>verifiable.go\<close>: signatures, signed envelopes, the
  payload of each signed request with its canonical bytes, and \<^verbatim>\<open>VerifyRequest\<close>.
  \<^verbatim>\<open>json.Marshal\<close> is the parameter \<open>marshal\<close> on the JSON value a payload's struct
  tags describe; it returns \<open>None\<close> where Go returns an error, and \<^verbatim>\<open>Bytes\<close> then yields the
  nil slice.  Ed25519 signing is the parameter \<open>ed_sign\<close>.
\<close>

section \<open>Signatures and envelopes\<close>

record Signature =
  sig_Algorithm :: string
  sig_Value :: "byte list"
  SignerID :: string
  sig_Timestamp :: int64

record 'p SignedEnvelope =
  Payload :: 'p
  env_Signature :: Signature

text \<open>
  What the program reads of an X.509 certificate: its public key, when that is an Ed25519 key,
  and the DER bytes.  Parsing and chain verification are parameters where they are used.
\<close>

record Certificate =
  cert_PublicKey :: "byte list option"
  cert_Raw :: "byte list"

datatype json =
    JStr string
  | JFloat float64
  | JUint uint64
  | JInt int64
  | JArr "json list"
  | JObj "(string \<times> json) list"

type_synonym marshaller = "json \<Rightarrow> byte list option"

definition json_bytes :: "marshaller \<Rightarrow> json \<Rightarrow> byte list" where
  "json_bytes marshal j = (case marshal j of None \<Rightarrow> [] | Some b \<Rightarrow> b)"

text \<open>An \<^verbatim>\<open>omitempty\<close> pointer field appears only when it is not nil.\<close>

definition opt_field :: "string \<Rightarrow> string option \<Rightarrow> (string \<times> json) list" where
  "opt_field n v = (case v of None \<Rightarrow> [] | Some s \<Rightarrow> [(n, JStr s)])"

section \<open>Payloads\<close>

record TransferPayload =
  tp_From :: string
  tp_To :: string
  tp_Amount :: float64
  tp_Nonce :: uint64
  tp_Timestamp :: int64

definition TransferPayload_Bytes :: "marshaller \<Rightarrow> TransferPayload \<Rightarrow> byte list" where
  "TransferPayload_Bytes marshal r = json_bytes marshal (JObj
     [(''from'', JStr (tp_From r)), (''to'', JStr (tp_To r)),
      (''amount'', JFloat (tp_Amount r)), (''nonce'', JUint (tp_Nonce r)),
      (''timestamp'', JInt (tp_Timestamp r))])"

record CreateAccountPayload =
  cap_InitialBalance :: float64

definition CreateAccountPayload_Bytes :: "marshaller \<Rightarrow> CreateAccountPayload \<Rightarrow> byte list" where
  "CreateAccountPayload_Bytes marshal r = json_bytes marshal (JObj
     [(''initial_balance'', JFloat (cap_InitialBalance r))])"

record GetAccountPayload =
  gap_AccountID :: string

definition GetAccountPayload_Bytes :: "marshaller \<Rightarrow> GetAccountPayload \<Rightarrow> byte list" where
  "GetAccountPayload_Bytes marshal r = json_bytes marshal (JObj
     [(''account_id'', JStr (gap_AccountID r))])"

record MintTokenPayload =
  mtp_TokenValue :: string
  mtp_ClawbackAddress :: "string option"
  mtp_FreezeAddress :: "string option"
  mtp_Nonce :: int64

definition MintTokenPayload_Bytes :: "marshaller \<Rightarrow> MintTokenPayload \<Rightarrow> byte list" where
  "MintTokenPayload_Bytes marshal r = json_bytes marshal (JObj
     ([(''token_value'', JStr (mtp_TokenValue r))] @
      opt_field ''clawback_address'' (mtp_ClawbackAddress r) @
      opt_field ''freeze_address'' (mtp_FreezeAddress r) @
      [(''nonce'', JInt (mtp_Nonce r))]))"

record BurnTokenPayload =
  btp_AccountID :: string
  btp_TokenID :: string
  btp_Nonce :: uint64

definition BurnTokenPayload_Bytes :: "marshaller \<Rightarrow> BurnTokenPayload \<Rightarrow> byte list" where
  "BurnTokenPayload_Bytes marshal r = json_bytes marshal (JObj
     [(''account_id'', JStr (btp_AccountID r)), (''token_id'', JStr (btp_TokenID r)),
      (''nonce'', JUint (btp_Nonce r))])"

record TransferTokenPayload =
  ttp_From :: string
  ttp_To :: string
  ttp_TokenID :: string
  ttp_Nonce :: uint64

definition TransferTokenPayload_Bytes :: "marshaller \<Rightarrow> TransferTokenPayload \<Rightarrow> byte list" where
  "TransferTokenPayload_Bytes marshal r = json_bytes marshal (JObj
     [(''from'', JStr (ttp_From r)), (''to'', JStr (ttp_To r)),
      (''token_id'', JStr (ttp_TokenID r)), (''nonce'', JUint (ttp_Nonce r))])"

record AuthorizeTokenTransferPayload =
  atp_AccountID :: string
  atp_TokenID :: string
  atp_TokenOwnerID :: string
  atp_Nonce :: uint64

definition AuthorizeTokenTransferPayload_Bytes ::
    "marshaller \<Rightarrow> AuthorizeTokenTransferPayload \<Rightarrow> byte list" where
  "AuthorizeTokenTransferPayload_Bytes marshal r = json_bytes marshal (JObj
     [(''account_id'', JStr (atp_AccountID r)), (''token_id'', JStr (atp_TokenID r)),
      (''token_owner_id'', JStr (atp_TokenOwnerID r)), (''nonce'', JUint (atp_Nonce r))])"

record UnauthorizeTokenTransferPayload =
  utp_AccountID :: string
  utp_TokenID :: string
  utp_TokenOwnerID :: string
  utp_Nonce :: uint64

definition UnauthorizeTokenTransferPayload_Bytes ::
    "marshaller \<Rightarrow> UnauthorizeTokenTransferPayload \<Rightarrow> byte list" where
  "UnauthorizeTokenTransferPayload_Bytes marshal r = json_bytes marshal (JObj
     [(''account_id'', JStr (utp_AccountID r)), (''token_id'', JStr (utp_TokenID r)),
      (''token_owner_id'', JStr (utp_TokenOwnerID r)), (''nonce'', JUint (utp_Nonce r))])"

record ClawbackTokenPayload =
  ctp_From :: string
  ctp_To :: string
  ctp_TokenID :: string
  ctp_Nonce :: uint64

definition ClawbackTokenPayload_Bytes :: "marshaller \<Rightarrow> ClawbackTokenPayload \<Rightarrow> byte list" where
  "ClawbackTokenPayload_Bytes marshal r = json_bytes marshal (JObj
     [(''from'', JStr (ctp_From r)), (''to'', JStr (ctp_To r)),
      (''token_id'', JStr (ctp_TokenID r)), (''nonce'', JUint (ctp_Nonce r))])"

text \<open>\<^verbatim>\<open>event_types\<close> is \<^verbatim>\<open>omitempty\<close>: an empty list is left out.\<close>

record SubscribePayload =
  sp_AccountID :: string
  sp_EventTypes :: "string list"

definition SubscribePayload_Bytes :: "marshaller \<Rightarrow> SubscribePayload \<Rightarrow> byte list" where
  "SubscribePayload_Bytes marshal r = json_bytes marshal (JObj
     ([(''account_id'', JStr (sp_AccountID r))] @
      (if sp_EventTypes r = [] then []
       else [(''event_types'', JArr (List.map JStr (sp_EventTypes r)))])))"

record FreezeTokenPayload =
  fzp_FreezeAuthority :: string
  fzp_TokenHolder :: string
  fzp_TokenID :: string
  fzp_Nonce :: uint64

definition FreezeTokenPayload_Bytes :: "marshaller \<Rightarrow> FreezeTokenPayload \<Rightarrow> byte list" where
  "FreezeTokenPayload_Bytes marshal r = json_bytes marshal (JObj
     [(''freeze_authority'', JStr (fzp_FreezeAuthority r)),
      (''token_holder'', JStr (fzp_TokenHolder r)),
      (''token_id'', JStr (fzp_TokenID r)), (''nonce'', JUint (fzp_Nonce r))])"

record UnfreezeTokenPayload =
  ufp_FreezeAuthority :: string
  ufp_TokenHolder :: string
  ufp_TokenID :: string
  ufp_Nonce :: uint64

definition UnfreezeTokenPayload_Bytes :: "marshaller \<Rightarrow> UnfreezeTokenPayload \<Rightarrow> byte list" where
  "UnfreezeTokenPayload_Bytes marshal r = json_bytes marshal (JObj
     [(''freeze_authority'', JStr (ufp_FreezeAuthority r)),
      (''token_holder'', JStr (ufp_TokenHolder r)),
      (''token_id'', JStr (ufp_TokenID r)), (''nonce'', JUint (ufp_Nonce r))])"

record LookupTokenPayload =
  ltp_TokenID :: string
  ltp_AccountID :: string

definition LookupTokenPayload_Bytes :: "marshaller \<Rightarrow> LookupTokenPayload \<Rightarrow> byte list" where
  "LookupTokenPayload_Bytes marshal r = json_bytes marshal (JObj
     [(''token_id'', JStr (ltp_TokenID r)), (''account_id'', JStr (ltp_AccountID r))])"

section \<open>Signing\<close>

definition SignWithTimestamp ::
    "(byte list \<Rightarrow> byte list \<Rightarrow> byte list) \<Rightarrow> byte list \<Rightarrow> byte list \<Rightarrow> string \<Rightarrow> int64 \<Rightarrow>
     (error, Signature) outcome" where
  "SignWithTimestamp ed_sign data privKey signer timestamp =
     (if length privKey \<noteq> 64 then Err (InvalidPrivateKeySize (length privKey))
      else Ok \<lparr>sig_Algorithm = ''Ed25519'', sig_Value = ed_sign privKey data,
               SignerID = signer, sig_Timestamp = timestamp\<rparr>)"

text \<open>\<^verbatim>\<open>Sign\<close> reads the clock; the second it reads is the argument \<open>nowSec\<close>.\<close>

definition Sign ::
    "(byte list \<Rightarrow> byte list \<Rightarrow> byte list) \<Rightarrow> int64 \<Rightarrow> byte list \<Rightarrow> byte list \<Rightarrow> string \<Rightarrow>
     (error, Signature) outcome" where
  "Sign ed_sign nowSec data privKey signer =
     (if length privKey \<noteq> 64 then Err (InvalidPrivateKeySize (length privKey))
      else Ok \<lparr>sig_Algorithm = ''Ed25519'', sig_Value = ed_sign privKey data,
               SignerID = signer, sig_Timestamp = nowSec\<rparr>)"

definition CreateSignedEnvelope ::
    "(byte list \<Rightarrow> byte list \<Rightarrow> byte list) \<Rightarrow> int64 \<Rightarrow> ('p \<Rightarrow> byte list) \<Rightarrow> 'p \<Rightarrow> byte list \<Rightarrow> string \<Rightarrow>
     (error, 'p SignedEnvelope) outcome" where
  "CreateSignedEnvelope ed_sign nowSec Bytes p privKey signer =
     (case Sign ed_sign nowSec (Bytes p) privKey signer of
        Ok sig \<Rightarrow> Ok \<lparr>Payload = p, env_Signature = sig\<rparr>
      | Err e \<Rightarrow> Err (SignPayloadFailed e)
      | Panic \<Rightarrow> Panic)"

section \<open>Verification of a request\<close>

text \<open>
  \<^verbatim>\<open>SignatureVerifier\<close> is a Go interface with the one method \<^verbatim>\<open>VerifyEnvelopeData\<close>; the
  argument \<open>verify\<close> is that method of the verifier the caller passes.  An empty
  \<open>expectedSignerID\<close> asks for the CA's signature.
\<close>

type_synonym verify_method = "string \<Rightarrow> byte list \<Rightarrow> Signature \<Rightarrow> (error, unit) outcome"

definition VerifyRequest ::
    "(byte list \<Rightarrow> ScalegraphId) \<Rightarrow> verify_method \<Rightarrow> byte list \<Rightarrow> ('p \<Rightarrow> byte list) \<Rightarrow>
     'p SignedEnvelope option \<Rightarrow> string \<Rightarrow> ('p \<Rightarrow> error option) option \<Rightarrow> (error, unit) outcome" where
  "VerifyRequest sha1 verify caPublicKey Bytes envelope expectedSignerID verifyData =
     (case envelope of
        None \<Rightarrow> Err ErrMissingSignature
      | Some env \<Rightarrow>
        (case verify (SignerID (env_Signature env)) (Bytes (Payload env)) (env_Signature env) of
           Panic \<Rightarrow> Panic
         | Err e \<Rightarrow> Err (ErrInvalidSignature e)
         | Ok _ \<Rightarrow>
           (let caID = id_String (DeriveAccountID sha1 caPublicKey);
                signer = SignerID (env_Signature env) in
            if expectedSignerID = '''' \<and> signer \<noteq> caID then Err (ErrSignerMismatch caID signer)
            else if expectedSignerID \<noteq> '''' \<and> signer \<noteq> expectedSignerID
              then Err (ErrSignerMismatch expectedSignerID signer)
            else (case verifyData of
                    None \<Rightarrow> Ok ()
                  | Some f \<Rightarrow>
                    (case f (Payload env) of
                       None \<Rightarrow> Ok ()
                     | Some e \<Rightarrow> Err (ErrPayloadMismatch e))))))"

text \<open>
  The interface as a contract: whatever the verifier accepts is authentic, in the provider's
  sense of the word.  The lemmas of the block are what every \<^verbatim>\<open>Verify\<close> method of a request
  type rests on.
\<close>

locale signature_verifier =
  fixes verify :: verify_method
    and authentic :: "string \<Rightarrow> byte list \<Rightarrow> Signature \<Rightarrow> bool"
  assumes verify_sound: "verify signer data sig = Ok () \<Longrightarrow> authentic signer data sig"
begin

lemma VerifyRequest_ok:
  assumes "VerifyRequest sha1 verify ca Bytes envelope expected (Some f) = Ok ()"
  obtains env where "envelope = Some env"
    and "authentic (SignerID (env_Signature env)) (Bytes (Payload env)) (env_Signature env)"
    and "SignerID (env_Signature env) =
         (if expected = '''' then id_String (DeriveAccountID sha1 ca) else expected)"
    and "f (Payload env) = None"
proof -
  from assms(1) obtain env where e: "envelope = Some env"
    and v: "verify (SignerID (env_Signature env)) (Bytes (Payload env)) (env_Signature env) = Ok ()"
    by (auto simp: VerifyRequest_def split: option.splits outcome.splits)
  from assms(1) v have "SignerID (env_Signature env) =
      (if expected = '''' then id_String (DeriveAccountID sha1 ca) else expected)"
    and "f (Payload env) = None"
    by (auto simp: VerifyRequest_def Let_def e split: if_splits option.splits)
  with that e verify_sound [OF v] show ?thesis by blast
qed

lemma VerifyRequest_signed:
  assumes "VerifyRequest sha1 verify ca Bytes envelope expected (Some f) = Ok ()" "expected \<noteq> ''''"
  shows "\<exists>env. envelope = Some env \<and>
    authentic expected (Bytes (Payload env)) (env_Signature env) \<and> f (Payload env) = None"
  using assms by (auto elim!: VerifyRequest_ok)

end

lemma VerifyRequest_complete:
  assumes "envelope = Some env"
    and "verify (SignerID (env_Signature env)) (Bytes (Payload env)) (env_Signature env) = Ok ()"
    and "SignerID (env_Signature env) = expected" "expected \<noteq> ''''"
    and "f (Payload env) = None"
  shows "VerifyRequest sha1 verify ca Bytes envelope expected (Some f) = Ok ()"
  using assms by (simp add: VerifyRequest_def Let_def)

section \<open>Payloads of different requests with the same bytes\<close>

text \<open>
  The canonical bytes carry no request type.  Three pairs of payloads have the same field
  names in the same order, so a signature made for one is a signature for the other.
\<close>

definition as_unfreeze :: "FreezeTokenPayload \<Rightarrow> UnfreezeTokenPayload" where
  "as_unfreeze p = \<lparr>ufp_FreezeAuthority = fzp_FreezeAuthority p, ufp_TokenHolder = fzp_TokenHolder p,
     ufp_TokenID = fzp_TokenID p, ufp_Nonce = fzp_Nonce p\<rparr>"

definition as_clawback :: "TransferTokenPayload \<Rightarrow> ClawbackTokenPayload" where
  "as_clawback p = \<lparr>ctp_From = ttp_From p, ctp_To = ttp_To p,
     ctp_TokenID = ttp_TokenID p, ctp_Nonce = ttp_Nonce p\<rparr>"

definition as_unauthorize :: "AuthorizeTokenTransferPayload \<Rightarrow> UnauthorizeTokenTransferPayload" where
  "as_unauthorize p = \<lparr>utp_AccountID = atp_AccountID p, utp_TokenID = atp_TokenID p,
     utp_TokenOwnerID = atp_TokenOwnerID p, utp_Nonce = atp_Nonce p\<rparr>"

lemma freeze_bytes_eq_unfreeze:
  "UnfreezeTokenPayload_Bytes marshal (as_unfreeze p) = FreezeTokenPayload_Bytes marshal p"
  by (simp add: UnfreezeTokenPayload_Bytes_def FreezeTokenPayload_Bytes_def as_unfreeze_def)

lemma transfer_token_bytes_eq_clawback:
  "ClawbackTokenPayload_Bytes marshal (as_clawback p) = TransferTokenPayload_Bytes marshal p"
  by (simp add: ClawbackTokenPayload_Bytes_def TransferTokenPayload_Bytes_def as_clawback_def)

lemma authorize_bytes_eq_unauthorize:
  "UnauthorizeTokenTransferPayload_Bytes marshal (as_unauthorize p)
   = AuthorizeTokenTransferPayload_Bytes marshal p"
  by (simp add: UnauthorizeTokenTransferPayload_Bytes_def
      AuthorizeTokenTransferPayload_Bytes_def as_unauthorize_def)

end
