(* ===== verification/Tokens.thy ===== *)
theory Tokens
  imports Crypto
begin

text \<open>
  \<^verbatim>\<open>internal/scalegraph/token.go\<close>: tokens.  The code keeps \<^verbatim>\<open>*Token\<close> pointers; a token's
  only mutable field is \<^verbatim>\<open>frozen\<close>, and at any time at most one account's store holds a given
  pointer (a transfer takes it out of one store before putting it into the other, a clawback
  copies the struct), so the stores are modelled with token values.  A transaction keeps the
  token as it was when the transaction was made.
\<close>

record Token =
  tok_value :: string
  tok_signature :: Signature
  clawbackAddress :: "ScalegraphId option"
  freezeAddress :: "ScalegraphId option"
  tok_nonce :: int64
  frozen :: bool

definition newToken ::
    "string \<Rightarrow> Signature \<Rightarrow> ScalegraphId option \<Rightarrow> ScalegraphId option \<Rightarrow> int64 \<Rightarrow> Token" where
  "newToken v sig cb fr n =
     \<lparr>tok_value = v, tok_signature = sig, clawbackAddress = cb, freezeAddress = fr,
      tok_nonce = n, frozen = False\<rparr>"

definition token_ID :: "Token \<Rightarrow> string" where
  "token_ID t = EncodeToString (sig_Value (tok_signature t))"

text \<open>
  \<^verbatim>\<open>TokenEqual\<close> compares the two interface values with nil first; its callers pass two
  non-nil tokens.
\<close>

definition TokenEqual :: "Token \<Rightarrow> Token \<Rightarrow> bool" where
  "TokenEqual t1 t2 =
     (let sig1 = tok_signature t1; sig2 = tok_signature t2;
          signaturesEqual =
            (sig_Algorithm sig1 = sig_Algorithm sig2 \<and> sig_Value sig1 = sig_Value sig2 \<and>
             SignerID sig1 = SignerID sig2 \<and> sig_Timestamp sig1 = sig_Timestamp sig2);
          cb1 = clawbackAddress t1; cb2 = clawbackAddress t2;
          clawbackEqual =
            ((cb1 = None \<and> cb2 = None) \<or> (cb1 \<noteq> None \<and> cb2 \<noteq> None \<and> the cb1 = the cb2))
      in token_ID t1 = token_ID t2 \<and> tok_value t1 = tok_value t2 \<and> signaturesEqual \<and> clawbackEqual)"

text \<open>\<^verbatim>\<open>&Token{}\<close>: Go's zero value, the placeholder for an authorized but not yet owned token.\<close>

definition emptySignature :: Signature where
  "emptySignature = \<lparr>sig_Algorithm = [], sig_Value = [], SignerID = [], sig_Timestamp = 0\<rparr>"

definition emptyToken :: Token where
  "emptyToken = \<lparr>tok_value = [], tok_signature = emptySignature, clawbackAddress = None,
     freezeAddress = None, tok_nonce = 0, frozen = False\<rparr>"

abbreviation is_placeholder :: "Token \<Rightarrow> bool" where
  "is_placeholder t \<equiv> TokenEqual t emptyToken"

lemma TokenEqual_refl [simp]: "TokenEqual t t"
  by (cases "clawbackAddress t") (simp_all add: TokenEqual_def Let_def)

lemma TokenEqual_sym: "TokenEqual s t \<Longrightarrow> TokenEqual t s"
  by (auto simp: TokenEqual_def Let_def)

lemma TokenEqual_trans: "TokenEqual s t \<Longrightarrow> TokenEqual t u \<Longrightarrow> TokenEqual s u"
  by (auto simp: TokenEqual_def Let_def)

text \<open>The nonce, the freeze address and the frozen flag do not take part in the comparison.\<close>

lemma TokenEqual_frozen [simp]:
  "TokenEqual (t\<lparr>frozen := b\<rparr>) u \<longleftrightarrow> TokenEqual t u"
  by (simp add: TokenEqual_def Let_def token_ID_def)

lemma token_ID_frozen [simp]: "token_ID (t\<lparr>frozen := b\<rparr>) = token_ID t"
  by (simp add: token_ID_def)

lemma EncodeToString_eq_Nil [simp]: "EncodeToString bs = [] \<longleftrightarrow> bs = []"
  by (cases bs) auto

lemma id_String_not_Nil [simp]: "id_String i \<noteq> []"
proof
  assume "id_String i = []"
  then have "id_bytes i = []" by (simp add: id_String_def)
  then show False using length_id_bytes [of i] by simp
qed

lemma signed_not_placeholder:
  "sig_Value (tok_signature t) \<noteq> [] \<Longrightarrow> \<not> is_placeholder t"
  by (simp add: TokenEqual_def Let_def emptyToken_def emptySignature_def)

lemma token_ID_inject:
  "token_ID s = token_ID t \<longleftrightarrow> sig_Value (tok_signature s) = sig_Value (tok_signature t)"
proof
  assume "token_ID s = token_ID t"
  then have "DecodeString (token_ID s) = DecodeString (token_ID t)" by simp
  then show "sig_Value (tok_signature s) = sig_Value (tok_signature t)"
    by (simp add: token_ID_def DecodeString_EncodeToString)
qed (simp add: token_ID_def)

lemma newToken_simps [simp]:
  "frozen (newToken v s c f n) = False"
  "tok_signature (newToken v s c f n) = s"
  "tok_nonce (newToken v s c f n) = n"
  "clawbackAddress (newToken v s c f n) = c"
  "freezeAddress (newToken v s c f n) = f"
  "tok_value (newToken v s c f n) = v"
  by (simp_all add: newToken_def)

end
