(* ===== verification/Transactions.thy ===== *)
theory Transactions
  imports Tokens
begin

text \<open>
  \<^verbatim>\<open>internal/scalegraph/transaction.go\<close>: the eleven transaction types.  A transaction points
  to the accounts it involves; the handlers only ever read the account's id through such a
  pointer, so a pointer is the id of the account it points to, and nil is \<open>None\<close>.  Each
  constructor of \<open>transaction\<close> is one struct of the source with its fields in order.
\<close>

datatype TransactionType =
    Transfer | Mint | Burn | MintToken | BurnToken | TransferToken
  | AuthorizeTokenTransfer | UnauthorizeTokenTransfer | ClawbackTokenTransfer
  | FreezeToken | UnfreezeToken

fun TransactionType_String :: "TransactionType \<Rightarrow> string" where
  "TransactionType_String Transfer = ''Transfer''"
| "TransactionType_String Mint = ''Mint''"
| "TransactionType_String Burn = ''Burn''"
| "TransactionType_String MintToken = ''MintToken''"
| "TransactionType_String BurnToken = ''BurnToken''"
| "TransactionType_String TransferToken = ''TransferToken''"
| "TransactionType_String AuthorizeTokenTransfer = ''AuthorizeTokenTransfer''"
| "TransactionType_String UnauthorizeTokenTransfer = ''UnauthorizeTokenTransfer''"
| "TransactionType_String ClawbackTokenTransfer = ''ClawbackTokenTransfer''"
| "TransactionType_String FreezeToken = ''FreezeToken''"
| "TransactionType_String UnfreezeToken = ''UnfreezeToken''"

fun EnumIndex :: "TransactionType \<Rightarrow> nat" where
  "EnumIndex Transfer = 0"
| "EnumIndex Mint = 1"
| "EnumIndex Burn = 2"
| "EnumIndex MintToken = 3"
| "EnumIndex BurnToken = 4"
| "EnumIndex TransferToken = 5"
| "EnumIndex AuthorizeTokenTransfer = 6"
| "EnumIndex UnauthorizeTokenTransfer = 7"
| "EnumIndex ClawbackTokenTransfer = 8"
| "EnumIndex FreezeToken = 9"
| "EnumIndex UnfreezeToken = 10"

type_synonym acct_ref = "ScalegraphId option"

datatype transaction =
    MintTransaction ScalegraphId acct_ref acct_ref float64
      \<comment> \<open>id, sender, receiver, amount\<close>
  | TransferTransaction ScalegraphId acct_ref acct_ref float64
      \<comment> \<open>id, sender, receiver, amount\<close>
  | BurnTransaction ScalegraphId acct_ref acct_ref float64
      \<comment> \<open>id, sender, receiver, amount\<close>
  | MintTokenTransaction ScalegraphId acct_ref acct_ref Token
      \<comment> \<open>id, sender, receiver, token\<close>
  | AuthorizeTokenTransferTransaction ScalegraphId acct_ref acct_ref string uint64
      \<comment> \<open>id, authorizer, token owner, token id, nonce\<close>
  | TransferTokenTransaction ScalegraphId acct_ref acct_ref Token uint64
      \<comment> \<open>id, sender, receiver, token, nonce\<close>
  | UnauthorizeTokenTransferTransaction ScalegraphId acct_ref acct_ref string uint64
      \<comment> \<open>id, authorizer, token owner, token id, nonce\<close>
  | BurnTokenTransaction ScalegraphId acct_ref string uint64
      \<comment> \<open>id, account, token id, nonce\<close>
  | ClawbackTokenTransaction ScalegraphId acct_ref acct_ref Token uint64
      \<comment> \<open>id, from, to, token, nonce\<close>
  | FreezeTokenTransaction ScalegraphId acct_ref acct_ref string uint64
      \<comment> \<open>id, freeze authority, token holder, token id, nonce\<close>
  | UnfreezeTokenTransaction ScalegraphId acct_ref acct_ref string uint64
      \<comment> \<open>id, freeze authority, token holder, token id, nonce\<close>

section \<open>The ITransaction interface\<close>

fun tx_ID :: "transaction \<Rightarrow> ScalegraphId" where
  "tx_ID (MintTransaction i _ _ _) = i"
| "tx_ID (TransferTransaction i _ _ _) = i"
| "tx_ID (BurnTransaction i _ _ _) = i"
| "tx_ID (MintTokenTransaction i _ _ _) = i"
| "tx_ID (AuthorizeTokenTransferTransaction i _ _ _ _) = i"
| "tx_ID (TransferTokenTransaction i _ _ _ _) = i"
| "tx_ID (UnauthorizeTokenTransferTransaction i _ _ _ _) = i"
| "tx_ID (BurnTokenTransaction i _ _ _) = i"
| "tx_ID (ClawbackTokenTransaction i _ _ _ _) = i"
| "tx_ID (FreezeTokenTransaction i _ _ _ _) = i"
| "tx_ID (UnfreezeTokenTransaction i _ _ _ _) = i"

fun tx_Type :: "transaction \<Rightarrow> TransactionType" where
  "tx_Type (MintTransaction _ _ _ _) = Mint"
| "tx_Type (TransferTransaction _ _ _ _) = Transfer"
| "tx_Type (BurnTransaction _ _ _ _) = Burn"
| "tx_Type (MintTokenTransaction _ _ _ _) = MintToken"
| "tx_Type (AuthorizeTokenTransferTransaction _ _ _ _ _) = AuthorizeTokenTransfer"
| "tx_Type (TransferTokenTransaction _ _ _ _ _) = TransferToken"
| "tx_Type (UnauthorizeTokenTransferTransaction _ _ _ _ _) = UnauthorizeTokenTransfer"
| "tx_Type (BurnTokenTransaction _ _ _ _) = BurnToken"
| "tx_Type (ClawbackTokenTransaction _ _ _ _ _) = ClawbackTokenTransfer"
| "tx_Type (FreezeTokenTransaction _ _ _ _ _) = FreezeToken"
| "tx_Type (UnfreezeTokenTransaction _ _ _ _ _) = UnfreezeToken"

fun tx_Sender :: "transaction \<Rightarrow> acct_ref" where
  "tx_Sender (MintTransaction _ s _ _) = s"
| "tx_Sender (TransferTransaction _ s _ _) = s"
| "tx_Sender (BurnTransaction _ s _ _) = s"
| "tx_Sender (MintTokenTransaction _ s _ _) = s"
| "tx_Sender (AuthorizeTokenTransferTransaction _ s _ _ _) = s"
| "tx_Sender (TransferTokenTransaction _ s _ _ _) = s"
| "tx_Sender (UnauthorizeTokenTransferTransaction _ s _ _ _) = s"
| "tx_Sender (BurnTokenTransaction _ s _ _) = s"
| "tx_Sender (ClawbackTokenTransaction _ s _ _ _) = s"
| "tx_Sender (FreezeTokenTransaction _ s _ _ _) = s"
| "tx_Sender (UnfreezeTokenTransaction _ s _ _ _) = s"

fun tx_Receiver :: "transaction \<Rightarrow> acct_ref" where
  "tx_Receiver (MintTransaction _ _ r _) = r"
| "tx_Receiver (TransferTransaction _ _ r _) = r"
| "tx_Receiver (BurnTransaction _ _ r _) = r"
| "tx_Receiver (MintTokenTransaction _ _ r _) = r"
| "tx_Receiver (AuthorizeTokenTransferTransaction _ _ r _ _) = r"
| "tx_Receiver (TransferTokenTransaction _ _ r _ _) = r"
| "tx_Receiver (UnauthorizeTokenTransferTransaction _ _ r _ _) = r"
| "tx_Receiver (BurnTokenTransaction _ _ _ _) = None"
| "tx_Receiver (ClawbackTokenTransaction _ _ r _ _) = r"
| "tx_Receiver (FreezeTokenTransaction _ _ r _ _) = r"
| "tx_Receiver (UnfreezeTokenTransaction _ _ r _ _) = r"

section \<open>Constructors\<close>

text \<open>Each \<^verbatim>\<open>newXxxTransaction\<close> draws a random id, the argument \<open>i\<close>.\<close>

definition newMintTransaction :: "ScalegraphId \<Rightarrow> ScalegraphId \<Rightarrow> float64 \<Rightarrow> transaction" where
  "newMintTransaction i receiver amount = MintTransaction i None (Some receiver) amount"

definition newTransferTransaction ::
    "ScalegraphId \<Rightarrow> ScalegraphId \<Rightarrow> ScalegraphId \<Rightarrow> float64 \<Rightarrow> transaction" where
  "newTransferTransaction i sender receiver amount =
     TransferTransaction i (Some sender) (Some receiver) amount"

definition newBurnTransaction :: "ScalegraphId \<Rightarrow> ScalegraphId \<Rightarrow> float64 \<Rightarrow> transaction" where
  "newBurnTransaction i receiver amount = BurnTransaction i None (Some receiver) amount"

definition newMintTokenTransaction :: "ScalegraphId \<Rightarrow> ScalegraphId \<Rightarrow> Token \<Rightarrow> transaction" where
  "newMintTokenTransaction i receiver token = MintTokenTransaction i None (Some receiver) token"

definition newAuthorizeTokenTransferTransaction ::
    "ScalegraphId \<Rightarrow> ScalegraphId \<Rightarrow> ScalegraphId \<Rightarrow> string \<Rightarrow> uint64 \<Rightarrow> transaction" where
  "newAuthorizeTokenTransferTransaction i authorizer tokenOwner tokenId nonce =
     AuthorizeTokenTransferTransaction i (Some authorizer) (Some tokenOwner) tokenId nonce"

definition newTransferTokenTransaction ::
    "ScalegraphId \<Rightarrow> ScalegraphId \<Rightarrow> ScalegraphId \<Rightarrow> Token \<Rightarrow> uint64 \<Rightarrow> transaction" where
  "newTransferTokenTransaction i sender receiver token nonce =
     TransferTokenTransaction i (Some sender) (Some receiver) token nonce"

definition newUnauthorizeTokenTransferTransaction ::
    "ScalegraphId \<Rightarrow> ScalegraphId \<Rightarrow> ScalegraphId \<Rightarrow> string \<Rightarrow> uint64 \<Rightarrow> transaction" where
  "newUnauthorizeTokenTransferTransaction i authorizer tokenOwner tokenId nonce =
     UnauthorizeTokenTransferTransaction i (Some authorizer) (Some tokenOwner) tokenId nonce"

definition newBurnTokenTransaction ::
    "ScalegraphId \<Rightarrow> ScalegraphId \<Rightarrow> string \<Rightarrow> uint64 \<Rightarrow> transaction" where
  "newBurnTokenTransaction i account tokenID nonce =
     BurnTokenTransaction i (Some account) tokenID nonce"

definition newClawbackTokenTransaction ::
    "ScalegraphId \<Rightarrow> ScalegraphId \<Rightarrow> ScalegraphId \<Rightarrow> Token \<Rightarrow> uint64 \<Rightarrow> transaction" where
  "newClawbackTokenTransaction i from_acc to_acc token nonce =
     ClawbackTokenTransaction i (Some from_acc) (Some to_acc) token nonce"

definition newFreezeTokenTransaction ::
    "ScalegraphId \<Rightarrow> ScalegraphId \<Rightarrow> ScalegraphId \<Rightarrow> string \<Rightarrow> uint64 \<Rightarrow> transaction" where
  "newFreezeTokenTransaction i authority holder tokenID nonce =
     FreezeTokenTransaction i (Some authority) (Some holder) tokenID nonce"

definition newUnfreezeTokenTransaction ::
    "ScalegraphId \<Rightarrow> ScalegraphId \<Rightarrow> ScalegraphId \<Rightarrow> string \<Rightarrow> uint64 \<Rightarrow> transaction" where
  "newUnfreezeTokenTransaction i authority holder tokenID nonce =
     UnfreezeTokenTransaction i (Some authority) (Some holder) tokenID nonce"

lemmas new_tx_defs = newMintTransaction_def newTransferTransaction_def newBurnTransaction_def
  newMintTokenTransaction_def newAuthorizeTokenTransferTransaction_def
  newTransferTokenTransaction_def newUnauthorizeTokenTransferTransaction_def
  newBurnTokenTransaction_def newClawbackTokenTransaction_def
  newFreezeTokenTransaction_def newUnfreezeTokenTransaction_def

declare new_tx_defs [model_defs]

lemma EnumIndex_inject: "EnumIndex s = EnumIndex t \<Longrightarrow> s = t"
  by (cases s; cases t) simp_all

end
