(* ===== verification/Chain.thy ===== *)
theory Chain
  imports Transactions
begin

text \<open>
  \<^verbatim>\<open>internal/scalegraph/block.go\<close> and \<^verbatim>\<open>blockchain.go\<close>: the per-account chain, a linked list
  of immutable blocks with head, tail and cached length.  A block's \<^verbatim>\<open>prevBlock\<close> pointer is the
  block it points to.  Block ids are random draws, passed as arguments.  The contract
  \<open>tx_log\<close> says what an account relies on; \<open>Blockchain\<close> provides it.
\<close>

section \<open>Blocks\<close>

datatype Block = Block (block_ID: ScalegraphId) (PrevBlock: "Block option")
  (block_Transaction: "transaction option")

definition genesisBlock :: "ScalegraphId \<Rightarrow> Block" where
  "genesisBlock genesisId = Block genesisId None None"

definition newBlock :: "ScalegraphId \<Rightarrow> Block \<Rightarrow> transaction \<Rightarrow> Block" where
  "newBlock newId b trx = Block newId (Some b) (Some trx)"

section \<open>The chain\<close>

record Blockchain =
  bc_head :: Block
  bc_tail :: Block
  bc_length :: int

definition newBlockchain :: "ScalegraphId \<Rightarrow> Blockchain" where
  "newBlockchain genesisId =
     (let genesis = genesisBlock genesisId
      in \<lparr>bc_head = genesis, bc_tail = genesis, bc_length = 1\<rparr>)"

definition bc_append :: "ScalegraphId \<Rightarrow> transaction \<Rightarrow> Blockchain \<Rightarrow> Blockchain" where
  "bc_append newId trx bc =
     bc\<lparr>bc_tail := newBlock newId (bc_tail bc) trx, bc_length := bc_length bc + 1\<rparr>"

text \<open>
  \<^verbatim>\<open>bc.tail = bc.tail.PrevBlock()\<close> stores nil when the tail has no predecessor although the
  cached length is above 1; the chain invariant excludes it, and the model keeps the tail then.
\<close>

definition removeLatestBlock :: "Blockchain \<Rightarrow> Blockchain" where
  "removeLatestBlock bc =
     (if bc_length bc \<le> 1 then bc
      else (case PrevBlock (bc_tail bc) of
              None \<Rightarrow> bc
            | Some p \<Rightarrow> bc\<lparr>bc_tail := p, bc_length := bc_length bc - 1\<rparr>))"

definition bc_Len :: "Blockchain \<Rightarrow> int" where
  "bc_Len bc = bc_length bc"

definition Head :: "Blockchain \<Rightarrow> Block" where
  "Head bc = bc_head bc"

definition Tail :: "Blockchain \<Rightarrow> Block" where
  "Tail bc = bc_tail bc"

text \<open>The loop of \<^verbatim>\<open>GetBlocks\<close>: follow \<^verbatim>\<open>PrevBlock\<close> until nil, collecting.\<close>

fun walk_back :: "Block \<Rightarrow> Block list" where
  "walk_back (Block i p t) =
     Block i p t # (case p of None \<Rightarrow> [] | Some b \<Rightarrow> walk_back b)"

definition GetBlocks :: "Blockchain \<Rightarrow> Block list" where
  "GetBlocks bc = rev (walk_back (Tail bc))"

section \<open>The chain as a list of transactions\<close>

definition chain_txs :: "Blockchain \<Rightarrow> transaction list" where
  "chain_txs bc = List.map_filter block_Transaction (GetBlocks bc)"

definition chain_ok :: "Blockchain \<Rightarrow> bool" where
  "chain_ok bc \<longleftrightarrow>
     bc_length bc = int (length (GetBlocks bc)) \<and>
     hd (GetBlocks bc) = bc_head bc \<and>
     PrevBlock (bc_head bc) = None \<and> block_Transaction (bc_head bc) = None \<and>
     (\<forall>b\<in>set (tl (GetBlocks bc)). block_Transaction b \<noteq> None \<and> PrevBlock b \<noteq> None)"

lemma walk_back_Cons: "walk_back b = b # (case PrevBlock b of None \<Rightarrow> [] | Some p \<Rightarrow> walk_back p)"
  by (cases b) simp

lemma walk_back_not_Nil [simp]: "walk_back b \<noteq> []"
  by (subst walk_back_Cons) simp

lemma GetBlocks_not_Nil [simp]: "GetBlocks bc \<noteq> []"
  by (simp add: GetBlocks_def)

lemma GetBlocks_append: "GetBlocks (bc_append i t bc) = GetBlocks bc @ [newBlock i (Tail bc) t]"
  by (simp add: GetBlocks_def bc_append_def Tail_def newBlock_def)

lemma GetBlocks_new: "GetBlocks (newBlockchain g) = [genesisBlock g]"
  by (simp add: GetBlocks_def newBlockchain_def Tail_def genesisBlock_def Let_def)

lemma chain_ok_new: "chain_ok (newBlockchain g)"
  by (simp add: chain_ok_def GetBlocks_new) (simp add: newBlockchain_def genesisBlock_def Let_def)

lemma chain_txs_new: "chain_txs (newBlockchain g) = []"
  by (simp add: chain_txs_def GetBlocks_new genesisBlock_def map_filter_simps)

lemma map_filter_append: "List.map_filter f (xs @ ys) = List.map_filter f xs @ List.map_filter f ys"
  by (simp add: map_filter_def)

lemma chain_txs_append: "chain_txs (bc_append i t bc) = chain_txs bc @ [t]"
  by (simp add: chain_txs_def GetBlocks_append map_filter_append newBlock_def map_filter_simps)

lemma chain_ok_append: "chain_ok bc \<Longrightarrow> chain_ok (bc_append i t bc)"
  unfolding chain_ok_def GetBlocks_append
  by (auto simp: newBlock_def bc_append_def)

lemma remove_append:
  "chain_ok bc \<Longrightarrow> removeLatestBlock (bc_append i t bc) = bc"
proof -
  assume "chain_ok bc"
  then have "bc_length bc = int (length (GetBlocks bc))" by (simp add: chain_ok_def)
  moreover have "length (GetBlocks bc) > 0" by simp
  ultimately have "1 \<le> bc_length bc" by linarith
  then show ?thesis
    by (cases bc) (simp add: removeLatestBlock_def bc_append_def newBlock_def)
qed

lemma chain_length: "chain_ok bc \<Longrightarrow> bc_Len bc = int (length (chain_txs bc)) + 1"
proof -
  assume ok: "chain_ok bc"
  obtain b bs where b: "GetBlocks bc = b # bs" by (cases "GetBlocks bc") auto
  with ok have h: "block_Transaction b = None"
    and t: "\<forall>b\<in>set bs. block_Transaction b \<noteq> None"
    by (auto simp: chain_ok_def)
  from t have "length (List.map_filter block_Transaction bs) = length bs"
    by (induction bs) (auto simp: map_filter_simps)
  with h b have "length (chain_txs bc) = length bs"
    by (simp add: chain_txs_def map_filter_simps)
  with b ok show ?thesis by (simp add: bc_Len_def chain_ok_def)
qed

section \<open>The contract of an account's log\<close>

text \<open>
  What an account needs of its log, over the operations it calls: appending adds the
  transaction at the end, the block just appended can be looked up and removed again, and
  removing it gives the log before.
\<close>

locale tx_log =
  fixes log_ok :: "'l \<Rightarrow> bool"
    and empty_log :: "'i \<Rightarrow> 'l"
    and append_tx :: "'i \<Rightarrow> 't \<Rightarrow> 'l \<Rightarrow> 'l"
    and remove_tx :: "'l \<Rightarrow> 'l"
    and latest :: "'l \<Rightarrow> 't option"
    and txs :: "'l \<Rightarrow> 't list"
  assumes ok_empty: "log_ok (empty_log i)"
    and txs_empty: "txs (empty_log i) = []"
    and ok_append: "log_ok l \<Longrightarrow> log_ok (append_tx i t l)"
    and txs_append: "txs (append_tx i t l) = txs l @ [t]"
    and latest_append: "latest (append_tx i t l) = Some t"
    and undo_append: "log_ok l \<Longrightarrow> remove_tx (append_tx i t l) = l"
begin

lemma append_list: "log_ok l \<Longrightarrow> \<exists>l'. log_ok l' \<and> txs l' = txs l @ ts"
proof (induction ts arbitrary: l)
  case (Cons t ts)
  have "log_ok (append_tx undefined t l)" using Cons.prems by (rule ok_append)
  from Cons.IH [OF this] show ?case by (simp add: txs_append)
qed auto

lemma undo_last:
  assumes "log_ok l" "l' = append_tx i t l"
  shows "latest l' = Some t \<and> remove_tx l' = l \<and> txs (remove_tx l') = butlast (txs l')"
  using assms by (simp add: latest_append undo_append txs_append)

end

interpretation chain: tx_log chain_ok newBlockchain bc_append removeLatestBlock
  "\<lambda>bc. block_Transaction (Tail bc)" chain_txs
  by unfold_locales
    (simp_all add: chain_ok_new chain_txs_new chain_ok_append chain_txs_append remove_append,
      simp add: Tail_def bc_append_def newBlock_def)

declare chain_txs_append [frame_simps] chain_txs_new [frame_simps]

text \<open>
  Property C25.  The linked chain refines a list of transactions: a new chain is the empty list,
  \<^verbatim>\<open>append\<close> adds at the end, \<^verbatim>\<open>removeLatestBlock\<close> after it restores the chain exactly, the
  cached length is the number of blocks, and \<^verbatim>\<open>GetBlocks\<close> lists them from the genesis block to
  the tail.
\<close>

theorem blockchain_refines_list:
  assumes "chain_ok bc"
  shows "chain_txs (bc_append i t bc) = chain_txs bc @ [t] \<and>
    chain_ok (bc_append i t bc) \<and>
    removeLatestBlock (bc_append i t bc) = bc \<and>
    chain_ok (newBlockchain g) \<and> chain_txs (newBlockchain g) = [] \<and>
    bc_Len bc = int (length (GetBlocks bc)) \<and> bc_Len bc = int (length (chain_txs bc)) + 1 \<and>
    hd (GetBlocks bc) = Head bc \<and> last (GetBlocks bc) = Tail bc"
proof -
  have "last (GetBlocks bc) = Tail bc"
    unfolding GetBlocks_def by (subst walk_back_Cons) simp
  moreover have "bc_Len bc = int (length (GetBlocks bc))" "hd (GetBlocks bc) = Head bc"
    using assms by (simp_all add: chain_ok_def bc_Len_def Head_def)
  ultimately show ?thesis
    using chain.ok_append [OF assms, of i t] chain.undo_append [OF assms, of i t]
      chain.txs_append [of i t bc] chain.ok_empty [of g] chain.txs_empty [of g]
      chain_length [OF assms]
    by blast
qed

theorem blockchain_refines_list_witness:
  "chain_txs (bc_append (test_id 2) (newMintTransaction (test_id 3) (test_id 4) f0)
     (newBlockchain (test_id 1))) = [MintTransaction (test_id 3) None (Some (test_id 4)) f0]"
  using blockchain_refines_list [OF chain_ok_new, of "test_id 2"
      "newMintTransaction (test_id 3) (test_id 4) f0" "test_id 1"]
  by (simp add: newMintTransaction_def)

end
