(* ===== verification/Accounts.thy ===== *)
theory Accounts
  imports Chain
begin

text \<open>
  \<^verbatim>\<open>internal/scalegraph/account.go\<close>: the account, one handler and one rollback handler per
  transaction type, \<^verbatim>\<open>appendTransaction\<close> and \<^verbatim>\<open>rollbacklatestTransaction\<close>.  A handler takes the
  account and returns its outcome with the account as it leaves it.  The server runs requests in
  one goroutine, so the mutexes do not appear.  A nil map entry is \<open>None\<close>; the store never holds
  a nil pointer, since every write stores a non-nil one.
\<close>

section \<open>Minimum balance requirement\<close>

definition MBR_SLOT_COST :: float64 where
  "MBR_SLOT_COST = dy 1073 1"

definition MBR_TOKEN_COST :: float64 where
  "MBR_TOKEN_COST = dy 1073 2"

text \<open>The constant 0.1 as the nearest double, \<open>3602879701896397 / 2 ^ 55\<close>.\<close>

definition MBR_FREEZE_COST :: float64 where
  "MBR_FREEZE_COST = dy 1019 3602879701896397"

definition MBR_UNFREEZE_COST :: float64 where
  "MBR_UNFREEZE_COST = dy 1019 3602879701896397"

lemma MBR_FREEZE_COST_nearest:
  "\<bar>10 * 3602879701896397 - (2::int) ^ 55\<bar> * 2 \<le> 10 \<and> (2::int) ^ 51 \<le> 3602879701896397"
  by simp

section \<open>The account\<close>

record Account =
  acc_id :: ScalegraphId
  balance :: float64
  mbr :: float64
  blockchain :: Blockchain
  valuestore :: "string \<rightharpoonup> string"
  publicKey :: "byte list"
  certificate :: "Certificate option"
  tokenStore :: "string \<rightharpoonup> Token"
  outgoingTxCount :: uint64

type_synonym acct_call = "(error, unit, Account) call"

definition newAccountWithPublicKey ::
    "(byte list \<Rightarrow> ScalegraphId) \<Rightarrow> ScalegraphId \<Rightarrow> byte list \<Rightarrow> Certificate option \<Rightarrow> Account" where
  "newAccountWithPublicKey sha1 genesisId pubKey cert =
     \<lparr>acc_id = ScalegraphIdFromPublicKey sha1 pubKey, balance = f0, mbr = f0,
      blockchain = newBlockchain genesisId, valuestore = Map.empty, publicKey = pubKey,
      certificate = cert, tokenStore = Map.empty, outgoingTxCount = 0\<rparr>"

definition GetNonce :: "Account \<Rightarrow> uint64" where
  "GetNonce a = outgoingTxCount a"

definition GetToken :: "string \<Rightarrow> Account \<Rightarrow> Token option" where
  "GetToken tokenId a =
     (case tokenStore a tokenId of
        None \<Rightarrow> None
      | Some token \<Rightarrow> if TokenEqual token emptyToken then None else Some token)"

text \<open>\<^verbatim>\<open>GetTokens\<close> ranges over a Go map, whose order is unspecified: a set.\<close>

definition GetTokens :: "Account \<Rightarrow> Token set" where
  "GetTokens a = {t. \<exists>k. tokenStore a k = Some t \<and> \<not> TokenEqual t emptyToken}"

section \<open>Token store operations\<close>

definition mintToken :: "Token \<Rightarrow> Account \<Rightarrow> acct_call" where
  "mintToken token a =
     (if tokenStore a (token_ID token) \<noteq> None
      then (Err (TokenAlreadyExists (token_ID token) (acc_id a)), a)
      else (case ScalegraphIdFromString (SignerID (tok_signature token)) of
              Panic \<Rightarrow> (Panic, a)
            | Err e \<Rightarrow> (Err (InvalidSignerID e), a)
            | Ok signerID \<Rightarrow>
              if signerID \<noteq> acc_id a
              then (Err (TokenWrongSigner (token_ID token) (SignerID (tok_signature token)) (acc_id a)), a)
              else if flt (fsub (balance a) (mbr a)) MBR_TOKEN_COST
              then (Err (InsufficientBalance ''mint token'' (balance a) (mbr a) MBR_TOKEN_COST), a)
              else (Ok (), a\<lparr>mbr := fadd (mbr a) MBR_TOKEN_COST,
                             tokenStore := (tokenStore a)(token_ID token \<mapsto> token)\<rparr>)))"

definition addTokenFromTransfer :: "Token \<Rightarrow> Account \<Rightarrow> acct_call" where
  "addTokenFromTransfer token a =
     (case tokenStore a (token_ID token) of
        None \<Rightarrow> (Err (TokenNotAuthorized (token_ID token) (acc_id a)), a)
      | Some slot \<Rightarrow>
        if \<not> TokenEqual slot emptyToken
        then (Err (TokenNotAuthorized (token_ID token) (acc_id a)), a)
        else (Ok (), a\<lparr>tokenStore := (tokenStore a)(token_ID token \<mapsto> token),
                       mbr := fsub (mbr a) MBR_SLOT_COST\<rparr>))"

definition removeToken :: "string \<Rightarrow> Account \<Rightarrow> acct_call" where
  "removeToken tokenId a =
     (if tokenStore a tokenId = None then (Err (TokenNotFound tokenId (acc_id a)), a)
      else (Ok (), a\<lparr>tokenStore := (tokenStore a)(tokenId := None)\<rparr>))"

definition addToken :: "Token \<Rightarrow> Account \<Rightarrow> acct_call" where
  "addToken token a =
     (if tokenStore a (token_ID token) \<noteq> None
      then (Err (TokenAlreadyExists (token_ID token) (acc_id a)), a)
      else (Ok (), a\<lparr>tokenStore := (tokenStore a)(token_ID token \<mapsto> token)\<rparr>))"

definition burnToken :: "string \<Rightarrow> Account \<Rightarrow> acct_call" where
  "burnToken tokenId a =
     (case tokenStore a tokenId of
        None \<Rightarrow> (Err (TokenNotFound tokenId (acc_id a)), a)
      | Some t \<Rightarrow>
        if TokenEqual t emptyToken then (Err (TokenNotOwned tokenId (acc_id a)), a)
        else (case ScalegraphIdFromString (SignerID (tok_signature t)) of
                Panic \<Rightarrow> (Panic, a)
              | Err e \<Rightarrow> (Err (InvalidSignerID e), a)
              | Ok signer \<Rightarrow>
                if signer \<noteq> acc_id a
                then (Err (TokenWrongSigner tokenId (SignerID (tok_signature t)) (acc_id a)), a)
                else (Ok (), a\<lparr>tokenStore := (tokenStore a)(tokenId := None),
                               mbr := fsub (mbr a) MBR_TOKEN_COST\<rparr>)))"

section \<open>Transaction handlers\<close>

text \<open>
  A handler wraps the error of the store operation it calls; \<open>and_then\<close> is
  \<^verbatim>\<open>if err := op; err != nil { return fmt.Errorf("...: %w", err) }\<close> followed by the rest.
\<close>

fun and_then :: "string \<Rightarrow> acct_call \<Rightarrow> (Account \<Rightarrow> Account) \<Rightarrow> acct_call" where
  "and_then msg (Ok _, a) f = (Ok (), f a)"
| "and_then msg (Err e, a) f = (Err (Failed msg e), a)"
| "and_then msg (Panic, a) f = (Panic, a)"

definition bump :: "Account \<Rightarrow> Account" where
  "bump a = a\<lparr>outgoingTxCount := outgoingTxCount a + 1\<rparr>"

definition handleMintTx :: "float64 \<Rightarrow> Account \<Rightarrow> acct_call" where
  "handleMintTx amount a = (Ok (), a\<lparr>balance := fadd (balance a) amount\<rparr>)"

definition handleTransferTx :: "acct_ref \<Rightarrow> acct_ref \<Rightarrow> float64 \<Rightarrow> Account \<Rightarrow> acct_call" where
  "handleTransferTx sender receiver amount a =
     (if sender = Some (acc_id a) \<and> flt (fsub (balance a) (mbr a)) amount
      then (Err (InsufficientBalance ''transfer'' (balance a) (mbr a) amount), a)
      else (let a1 = (if sender = Some (acc_id a)
                      then bump (a\<lparr>balance := fsub (balance a) amount\<rparr>) else a);
                a2 = (if receiver = Some (acc_id a1)
                      then a1\<lparr>balance := fadd (balance a1) amount\<rparr> else a1)
            in (Ok (), a2)))"

definition handleBurnTx :: "acct_ref \<Rightarrow> float64 \<Rightarrow> Account \<Rightarrow> acct_call" where
  "handleBurnTx receiver amount a =
     (if receiver = Some (acc_id a)
      then (if flt (fsub (balance a) (mbr a)) amount
            then (Err (InsufficientBalance ''burn'' (balance a) (mbr a) amount), a)
            else (Ok (), a\<lparr>balance := fsub (balance a) amount\<rparr>))
      else (Ok (), a))"

definition handleMintTokenTx :: "acct_ref \<Rightarrow> acct_ref \<Rightarrow> Token \<Rightarrow> Account \<Rightarrow> acct_call" where
  "handleMintTokenTx sender receiver token a =
     (if receiver = Some (acc_id a)
      then (if tok_nonce token \<noteq> outgoingTxCount a
            then (Err (NonceMismatch (outgoingTxCount a) (tok_nonce token)), a)
            else and_then ''mint token'' (mintToken token a) bump)
      else if sender = Some (acc_id a) then (Err (UnexpectedSender ''mint token''), a)
      else (Ok (), a))"

definition handleTransferTokenTx ::
    "acct_ref \<Rightarrow> acct_ref \<Rightarrow> Token \<Rightarrow> uint64 \<Rightarrow> Account \<Rightarrow> acct_call" where
  "handleTransferTokenTx sender receiver token nonce a =
     (if sender = Some (acc_id a)
      then (if nonce \<noteq> outgoingTxCount a then (Err (NonceMismatch (outgoingTxCount a) nonce), a)
            else (case tokenStore a (token_ID token) of
                    None \<Rightarrow> (Err (TokenNotFound (token_ID token) (acc_id a)), a)
                  | Some tok \<Rightarrow>
                    if frozen tok then (Err (TokenIsFrozen (token_ID tok)), a)
                    else and_then ''remove token'' (removeToken (token_ID token) a) bump))
      else if receiver = Some (acc_id a)
      then and_then ''add token'' (addTokenFromTransfer token a) (\<lambda>a'. a')
      else (Err (NotParticipant ''transfer token''), a))"

definition handleAuthorizeTokenTransferTx ::
    "acct_ref \<Rightarrow> acct_ref \<Rightarrow> string \<Rightarrow> uint64 \<Rightarrow> Account \<Rightarrow> acct_call" where
  "handleAuthorizeTokenTransferTx sender receiver tokenId nonce a =
     (if sender = Some (acc_id a)
      then (if nonce \<noteq> outgoingTxCount a then (Err (NonceMismatch (outgoingTxCount a) nonce), a)
            else (case tokenStore a tokenId of
                    None \<Rightarrow>
                      if flt (fsub (balance a) (mbr a)) MBR_SLOT_COST
                      then (Err (InsufficientBalance ''authorize'' (balance a) (mbr a) MBR_SLOT_COST), a)
                      else (Ok (), bump (a\<lparr>mbr := fadd (mbr a) MBR_SLOT_COST,
                              tokenStore := (tokenStore a)(tokenId \<mapsto> emptyToken)\<rparr>))
                  | Some slot \<Rightarrow>
                      if \<not> TokenEqual slot emptyToken
                      then (Err (TokenAlreadyOwned tokenId (acc_id a)), a)
                      else (Ok (), bump a)))
      else if receiver = Some (acc_id a)
      then (case tokenStore a tokenId of
              None \<Rightarrow> (Err (TokenNotFound tokenId (acc_id a)), a)
            | Some slot \<Rightarrow>
                if TokenEqual slot emptyToken then (Err (TokenNotFound tokenId (acc_id a)), a)
                else (Ok (), a))
      else (Err (NotParticipant ''authorize token transfer''), a))"

definition handleUnauthorizeTokenTransferTx ::
    "acct_ref \<Rightarrow> acct_ref \<Rightarrow> string \<Rightarrow> uint64 \<Rightarrow> Account \<Rightarrow> acct_call" where
  "handleUnauthorizeTokenTransferTx sender receiver tokenId nonce a =
     (if sender = Some (acc_id a)
      then (if nonce \<noteq> outgoingTxCount a then (Err (NonceMismatch (outgoingTxCount a) nonce), a)
            else (case tokenStore a tokenId of
                    None \<Rightarrow> (Err (TokenNotAuthorized tokenId (acc_id a)), a)
                  | Some slot \<Rightarrow>
                      if \<not> TokenEqual slot emptyToken
                      then (Err (TokenAlreadyOwned tokenId (acc_id a)), a)
                      else (Ok (), bump (a\<lparr>tokenStore := (tokenStore a)(tokenId := None),
                                           mbr := fsub (mbr a) MBR_SLOT_COST\<rparr>))))
      else if receiver = Some (acc_id a)
      then (case tokenStore a tokenId of
              None \<Rightarrow> (Err (TokenNotFound tokenId (acc_id a)), a)
            | Some slot \<Rightarrow>
                if TokenEqual slot emptyToken then (Err (TokenNotFound tokenId (acc_id a)), a)
                else (Ok (), a))
      else (Err (NotParticipant ''unauthorize token transfer''), a))"

text \<open>\<^verbatim>\<open>BurnTokenTransaction.Receiver()\<close> is always nil; the handler tests it all the same.\<close>

definition handleBurnTokenTx ::
    "acct_ref \<Rightarrow> acct_ref \<Rightarrow> string \<Rightarrow> uint64 \<Rightarrow> Account \<Rightarrow> acct_call" where
  "handleBurnTokenTx sender receiver tokenID nonce a =
     (if sender = Some (acc_id a)
      then (if nonce \<noteq> outgoingTxCount a then (Err (NonceMismatch (outgoingTxCount a) nonce), a)
            else and_then ''burn token'' (burnToken tokenID a) bump)
      else if receiver = Some (acc_id a) then (Err (UnexpectedReceiver ''burn token''), a)
      else (Err (NotParticipant ''burn token''), a))"

definition handleClawbackTokenTx ::
    "acct_ref \<Rightarrow> acct_ref \<Rightarrow> Token \<Rightarrow> uint64 \<Rightarrow> Account \<Rightarrow> acct_call" where
  "handleClawbackTokenTx sender receiver token nonce a =
     (if sender = Some (acc_id a)
      then (if tokenStore a (token_ID token) = None
            then (Err (TokenNotFound (token_ID token) (acc_id a)), a)
            else and_then ''remove token during clawback'' (removeToken (token_ID token) a) (\<lambda>a'. a'))
      else if receiver = Some (acc_id a)
      then (if nonce \<noteq> outgoingTxCount a then (Err (NonceMismatch (outgoingTxCount a) nonce), a)
            else and_then ''add token during clawback'' (addToken token a) bump)
      else (Err (NotParticipant ''clawback token''), a))"

text \<open>
  The holder's branch of the freeze handler reads \<^verbatim>\<open>trx.Sender().ID()\<close>, which panics when the
  sender is nil.
\<close>

definition handleFreezeTokenTx ::
    "acct_ref \<Rightarrow> acct_ref \<Rightarrow> string \<Rightarrow> uint64 \<Rightarrow> Account \<Rightarrow> acct_call" where
  "handleFreezeTokenTx sender receiver tokenID nonce a =
     (if sender = Some (acc_id a)
      then (if nonce \<noteq> outgoingTxCount a then (Err (NonceMismatch (outgoingTxCount a) nonce), a)
            else if flt (fsub (balance a) (mbr a)) MBR_FREEZE_COST
            then (Err (InsufficientBalance ''freeze'' (balance a) (mbr a) MBR_FREEZE_COST), a)
            else (Ok (), bump (a\<lparr>mbr := fadd (mbr a) MBR_FREEZE_COST\<rparr>)))
      else if receiver = Some (acc_id a)
      then (case tokenStore a tokenID of
              None \<Rightarrow> (Err (TokenNotFound tokenID (acc_id a)), a)
            | Some tok \<Rightarrow>
                if TokenEqual tok emptyToken then (Err (TokenIsPlaceholder tokenID), a)
                else if frozen tok then (Err (TokenAlreadyFrozen tokenID), a)
                else (case sender of
                        None \<Rightarrow> (Panic, a)
                      | Some s \<Rightarrow>
                        (case freezeAddress tok of
                           None \<Rightarrow> (Err (NotFreezeAuthority s tokenID), a)
                         | Some freezeAddr \<Rightarrow>
                           if id_String freezeAddr \<noteq> id_String s
                           then (Err (NotFreezeAuthority s tokenID), a)
                           else (Ok (), a\<lparr>tokenStore := (tokenStore a)(tokenID \<mapsto> tok\<lparr>frozen := True\<rparr>)\<rparr>))))
      else (Err (NotParticipant ''freeze token''), a))"

definition handleUnfreezeTokenTx ::
    "acct_ref \<Rightarrow> acct_ref \<Rightarrow> string \<Rightarrow> uint64 \<Rightarrow> Account \<Rightarrow> acct_call" where
  "handleUnfreezeTokenTx sender receiver tokenID nonce a =
     (if sender = Some (acc_id a)
      then (if nonce \<noteq> outgoingTxCount a then (Err (NonceMismatch (outgoingTxCount a) nonce), a)
            else (Ok (), bump (a\<lparr>mbr := fsub (mbr a) MBR_UNFREEZE_COST\<rparr>)))
      else if receiver = Some (acc_id a)
      then (case tokenStore a tokenID of
              None \<Rightarrow> (Err (TokenNotFound tokenID (acc_id a)), a)
            | Some tok \<Rightarrow>
                if \<not> frozen tok then (Err (TokenNotFrozen tokenID), a)
                else (Ok (), a\<lparr>tokenStore := (tokenStore a)(tokenID \<mapsto> tok\<lparr>frozen := False\<rparr>)\<rparr>))
      else (Err (NotParticipant ''unfreeze token''), a))"

text \<open>
  \<^verbatim>\<open>registerTxHandlers\<close> fills the table from transaction type to handler.  \<^verbatim>\<open>Type()\<close> is fixed by
  the transaction's Go type, so the type assertion inside a registered handler cannot fail and
  the table lookup is a case distinction on the transaction.
\<close>

fun txHandler :: "transaction \<Rightarrow> Account \<Rightarrow> acct_call" where
  "txHandler (MintTransaction _ _ _ amt) = handleMintTx amt"
| "txHandler (TransferTransaction _ s r amt) = handleTransferTx s r amt"
| "txHandler (BurnTransaction _ _ r amt) = handleBurnTx r amt"
| "txHandler (MintTokenTransaction _ s r t) = handleMintTokenTx s r t"
| "txHandler (TransferTokenTransaction _ s r t n) = handleTransferTokenTx s r t n"
| "txHandler (AuthorizeTokenTransferTransaction _ s r k n) = handleAuthorizeTokenTransferTx s r k n"
| "txHandler (UnauthorizeTokenTransferTransaction _ s r k n) = handleUnauthorizeTokenTransferTx s r k n"
| "txHandler (BurnTokenTransaction _ s k n) = handleBurnTokenTx s None k n"
| "txHandler (ClawbackTokenTransaction _ s r t n) = handleClawbackTokenTx s r t n"
| "txHandler (FreezeTokenTransaction _ s r k n) = handleFreezeTokenTx s r k n"
| "txHandler (UnfreezeTokenTransaction _ s r k n) = handleUnfreezeTokenTx s r k n"

section \<open>Rollback handlers\<close>

definition unbump :: "Account \<Rightarrow> Account" where
  "unbump a = a\<lparr>outgoingTxCount := outgoingTxCount a - 1\<rparr>"

definition rollbackMintTx :: "float64 \<Rightarrow> Account \<Rightarrow> acct_call" where
  "rollbackMintTx amount a = (Ok (), a\<lparr>balance := fsub (balance a) amount\<rparr>)"

definition rollbackTransferTx :: "acct_ref \<Rightarrow> acct_ref \<Rightarrow> float64 \<Rightarrow> Account \<Rightarrow> acct_call" where
  "rollbackTransferTx sender receiver amount a =
     (let a1 = (if sender = Some (acc_id a)
                then unbump (a\<lparr>balance := fadd (balance a) amount\<rparr>) else a);
          a2 = (if receiver = Some (acc_id a1)
                then a1\<lparr>balance := fsub (balance a1) amount\<rparr> else a1)
      in (Ok (), a2))"

definition rollbackBurnTx :: "acct_ref \<Rightarrow> float64 \<Rightarrow> Account \<Rightarrow> acct_call" where
  "rollbackBurnTx receiver amount a =
     (Ok (), if receiver = Some (acc_id a) then a\<lparr>balance := fadd (balance a) amount\<rparr> else a)"

definition rollbackMintTokenTx :: "acct_ref \<Rightarrow> Token \<Rightarrow> Account \<Rightarrow> acct_call" where
  "rollbackMintTokenTx receiver token a =
     (if receiver \<noteq> Some (acc_id a) then (Ok (), a)
      else if tokenStore a (token_ID token) = None
      then (Err (TokenNotFound (token_ID token) (acc_id a)), a)
      else (Ok (), unbump (a\<lparr>tokenStore := (tokenStore a)(token_ID token := None),
                            mbr := fsub (mbr a) MBR_TOKEN_COST\<rparr>)))"

definition rollbackTransferTokenTx ::
    "acct_ref \<Rightarrow> acct_ref \<Rightarrow> Token \<Rightarrow> Account \<Rightarrow> acct_call" where
  "rollbackTransferTokenTx sender receiver token a =
     (if sender = Some (acc_id a)
      then (Ok (), unbump (a\<lparr>tokenStore := (tokenStore a)(token_ID token \<mapsto> token)\<rparr>))
      else if receiver = Some (acc_id a)
      then (Ok (), a\<lparr>tokenStore := (tokenStore a)(token_ID token \<mapsto> emptyToken),
                     mbr := fsub (mbr a) MBR_TOKEN_COST\<rparr>)
      else (Ok (), a))"

definition rollbackAuthorizeTokenTransferTx :: "acct_ref \<Rightarrow> string \<Rightarrow> Account \<Rightarrow> acct_call" where
  "rollbackAuthorizeTokenTransferTx sender tokenId a =
     (if sender = Some (acc_id a)
      then (Ok (), unbump (a\<lparr>tokenStore := (tokenStore a)(tokenId := None),
                            mbr := fsub (mbr a) MBR_SLOT_COST\<rparr>))
      else (Ok (), a))"

definition rollbackUnauthorizeTokenTransferTx :: "acct_ref \<Rightarrow> string \<Rightarrow> Account \<Rightarrow> acct_call" where
  "rollbackUnauthorizeTokenTransferTx sender tokenId a =
     (if sender = Some (acc_id a)
      then (Ok (), unbump (a\<lparr>tokenStore := (tokenStore a)(tokenId \<mapsto> emptyToken),
                            mbr := fadd (mbr a) MBR_SLOT_COST\<rparr>))
      else (Ok (), a))"

definition rollbackBurnTokenTx :: "acct_ref \<Rightarrow> Account \<Rightarrow> acct_call" where
  "rollbackBurnTokenTx sender a =
     (if sender = Some (acc_id a)
      then (Ok (), unbump (a\<lparr>mbr := fadd (mbr a) MBR_TOKEN_COST\<rparr>))
      else (Ok (), a))"

definition rollbackClawbackTokenTx ::
    "acct_ref \<Rightarrow> acct_ref \<Rightarrow> Token \<Rightarrow> Account \<Rightarrow> acct_call" where
  "rollbackClawbackTokenTx sender receiver token a =
     (if sender = Some (acc_id a)
      then and_then ''add token during clawback rollback'' (addToken token a) (\<lambda>a'. a')
      else if receiver = Some (acc_id a)
      then and_then ''remove token during clawback rollback'' (removeToken (token_ID token) a) unbump
      else (Ok (), a))"

definition set_frozen :: "string \<Rightarrow> bool \<Rightarrow> Account \<Rightarrow> Account" where
  "set_frozen tokenID b a =
     (case tokenStore a tokenID of
        None \<Rightarrow> a
      | Some tok \<Rightarrow> a\<lparr>tokenStore := (tokenStore a)(tokenID \<mapsto> tok\<lparr>frozen := b\<rparr>)\<rparr>)"

definition rollbackFreezeTokenTx :: "acct_ref \<Rightarrow> acct_ref \<Rightarrow> string \<Rightarrow> Account \<Rightarrow> acct_call" where
  "rollbackFreezeTokenTx sender receiver tokenID a =
     (if sender = Some (acc_id a)
      then (Ok (), unbump (a\<lparr>mbr := fsub (mbr a) MBR_FREEZE_COST\<rparr>))
      else if receiver = Some (acc_id a) then (Ok (), set_frozen tokenID False a)
      else (Ok (), a))"

definition rollbackUnfreezeTokenTx :: "acct_ref \<Rightarrow> acct_ref \<Rightarrow> string \<Rightarrow> Account \<Rightarrow> acct_call" where
  "rollbackUnfreezeTokenTx sender receiver tokenID a =
     (if sender = Some (acc_id a)
      then (Ok (), unbump (a\<lparr>mbr := fadd (mbr a) MBR_UNFREEZE_COST\<rparr>))
      else if receiver = Some (acc_id a) then (Ok (), set_frozen tokenID True a)
      else (Ok (), a))"

fun txRollbackHandler :: "transaction \<Rightarrow> Account \<Rightarrow> acct_call" where
  "txRollbackHandler (MintTransaction _ _ _ amt) = rollbackMintTx amt"
| "txRollbackHandler (TransferTransaction _ s r amt) = rollbackTransferTx s r amt"
| "txRollbackHandler (BurnTransaction _ _ r amt) = rollbackBurnTx r amt"
| "txRollbackHandler (MintTokenTransaction _ _ r t) = rollbackMintTokenTx r t"
| "txRollbackHandler (TransferTokenTransaction _ s r t _) = rollbackTransferTokenTx s r t"
| "txRollbackHandler (AuthorizeTokenTransferTransaction _ s _ k _) = rollbackAuthorizeTokenTransferTx s k"
| "txRollbackHandler (UnauthorizeTokenTransferTransaction _ s _ k _) = rollbackUnauthorizeTokenTransferTx s k"
| "txRollbackHandler (BurnTokenTransaction _ s _ _) = rollbackBurnTokenTx s"
| "txRollbackHandler (ClawbackTokenTransaction _ s r t _) = rollbackClawbackTokenTx s r t"
| "txRollbackHandler (FreezeTokenTransaction _ s r k _) = rollbackFreezeTokenTx s r k"
| "txRollbackHandler (UnfreezeTokenTransaction _ s r k _) = rollbackUnfreezeTokenTx s r k"

section \<open>Appending and rolling back\<close>

text \<open>The id of the block appended on success is the argument \<open>blockId\<close>.\<close>

definition appendTransaction :: "ScalegraphId \<Rightarrow> transaction \<Rightarrow> Account \<Rightarrow> acct_call" where
  "appendTransaction blockId trx a =
     (case txHandler trx a of
        (Ok _, a') \<Rightarrow> (Ok (), a'\<lparr>blockchain := bc_append blockId trx (blockchain a')\<rparr>)
      | (Err e, a') \<Rightarrow> if e = ErrSkipAppend then (Ok (), a') else (Err e, a')
      | (Panic, a') \<Rightarrow> (Panic, a'))"

definition rollbacklatestTransaction :: "transaction \<Rightarrow> Account \<Rightarrow> acct_call" where
  "rollbacklatestTransaction trx a =
     (if bc_Len (blockchain a) = 0 then (Ok (), a)
      else (case block_Transaction (Tail (blockchain a)) of
              None \<Rightarrow> (Err NotLatestTransaction, a)
            | Some latest \<Rightarrow>
              if tx_ID latest \<noteq> tx_ID trx then (Err NotLatestTransaction, a)
              else (let a1 = a\<lparr>blockchain := removeLatestBlock (blockchain a)\<rparr> in
                    (case txRollbackHandler trx a1 of
                       (Ok _, a2) \<Rightarrow> (Ok (), a2)
                     | (Err e, a2) \<Rightarrow> (Err (RollbackHandlerFailed e), a2)
                     | (Panic, a2) \<Rightarrow> (Panic, a2)))))"

lemmas store_op_defs = mintToken_def addTokenFromTransfer_def removeToken_def addToken_def
  burnToken_def bump_def unbump_def set_frozen_def

lemmas handler_defs = handleMintTx_def handleTransferTx_def handleBurnTx_def
  handleMintTokenTx_def handleTransferTokenTx_def handleAuthorizeTokenTransferTx_def
  handleUnauthorizeTokenTransferTx_def handleBurnTokenTx_def handleClawbackTokenTx_def
  handleFreezeTokenTx_def handleUnfreezeTokenTx_def

lemmas rollback_defs = rollbackMintTx_def rollbackTransferTx_def rollbackBurnTx_def
  rollbackMintTokenTx_def rollbackTransferTokenTx_def rollbackAuthorizeTokenTransferTx_def
  rollbackUnauthorizeTokenTransferTx_def rollbackBurnTokenTx_def rollbackClawbackTokenTx_def
  rollbackFreezeTokenTx_def rollbackUnfreezeTokenTx_def

declare handler_defs [model_defs] rollback_defs [model_defs] store_op_defs [model_defs]
  appendTransaction_def [model_defs] rollbacklatestTransaction_def [model_defs]

end
