(* ===== verification/Account_Laws.thy ===== *)
theory Account_Laws
  imports Accounts
begin

text \<open>
  What every transaction handler of \<^verbatim>\<open>account.go\<close> keeps: the frame, the account's invariant
  \<open>acct_ok\<close> (chain well formed, store keyed by token id, balance and nonce equal to the replay
  of the account's own chain), and where a rollback handler undoes its handler exactly.
\<close>

lemmas handler_splits = if_splits option.splits outcome.splits prod.splits

section \<open>Frame and failure\<close>

lemma handler_frame:
  assumes "txHandler trx a = (r, a')"
  shows "acc_id a' = acc_id a" "publicKey a' = publicKey a" "certificate a' = certificate a"
    "valuestore a' = valuestore a" "blockchain a' = blockchain a"
  using assms
  by (cases trx; auto simp: handler_defs store_op_defs Let_def split: handler_splits)+

lemma handler_failed:
  assumes "txHandler trx a = (r, a')" "\<not> is_ok r"
  shows "a' = a"
  using assms
  by (cases trx) (auto simp: handler_defs store_op_defs Let_def split: handler_splits)

lemma handler_no_skip: "fst (txHandler trx a) \<noteq> Err ErrSkipAppend"
  by (cases trx) (auto simp: handler_defs store_op_defs Let_def split: handler_splits)

lemma appendTransaction_ok_iff:
  "appendTransaction b trx a = (Ok (), a') \<longleftrightarrow>
   (\<exists>a1. txHandler trx a = (Ok (), a1) \<and> a' = a1\<lparr>blockchain := bc_append b trx (blockchain a)\<rparr>)"
  using handler_no_skip [of trx a] handler_frame(5) [of trx a]
  by (auto simp: appendTransaction_def split: prod.splits outcome.splits)

lemma appendTransaction_failed:
  assumes "appendTransaction b trx a = (r, a')" "\<not> is_ok r"
  shows "a' = a"
  using assms handler_failed [of trx a]
  by (auto simp: appendTransaction_def split: prod.splits outcome.splits if_splits)

lemma appendTransaction_frame:
  assumes "appendTransaction b trx a = (r, a')"
  shows "acc_id a' = acc_id a" "publicKey a' = publicKey a" "certificate a' = certificate a"
    "valuestore a' = valuestore a"
  using assms handler_frame [of trx a]
  by (auto simp: appendTransaction_def split: prod.splits outcome.splits if_splits)

lemma rollback_handler_frame:
  assumes "txRollbackHandler trx a = (r, a')"
  shows "acc_id a' = acc_id a" "publicKey a' = publicKey a" "certificate a' = certificate a"
    "valuestore a' = valuestore a" "blockchain a' = blockchain a"
  using assms
  by (cases trx; auto simp: rollback_defs store_op_defs Let_def split: handler_splits)+

lemma rollback_latest_frame:
  assumes "rollbacklatestTransaction trx a = (r, a')"
  shows "acc_id a' = acc_id a" "publicKey a' = publicKey a" "certificate a' = certificate a"
    "valuestore a' = valuestore a"
  using assms rollback_handler_frame [of trx]
  by (fastforce simp: rollbacklatestTransaction_def Let_def
      split: prod.splits outcome.splits if_splits option.splits)+

section \<open>Replaying the chain\<close>

text \<open>What a transaction on the account's own chain does to its balance.\<close>

fun bal_step :: "ScalegraphId \<Rightarrow> float64 \<Rightarrow> transaction \<Rightarrow> float64" where
  "bal_step me b (MintTransaction _ _ _ amt) = fadd b amt"
| "bal_step me b (TransferTransaction _ s r amt) =
     (let b1 = (if s = Some me then fsub b amt else b)
      in if r = Some me then fadd b1 amt else b1)"
| "bal_step me b (BurnTransaction _ _ r amt) = (if r = Some me then fsub b amt else b)"
| "bal_step me b _ = b"

definition replay_balance :: "ScalegraphId \<Rightarrow> transaction list \<Rightarrow> float64" where
  "replay_balance me ts = foldl (bal_step me) f0 ts"

text \<open>The transactions an account signs: those that use up one of its nonces.\<close>

fun outgoing_of :: "ScalegraphId \<Rightarrow> transaction \<Rightarrow> bool" where
  "outgoing_of me (MintTransaction _ _ _ _) \<longleftrightarrow> False"
| "outgoing_of me (TransferTransaction _ s _ _) \<longleftrightarrow> s = Some me"
| "outgoing_of me (BurnTransaction _ _ _ _) \<longleftrightarrow> False"
| "outgoing_of me (MintTokenTransaction _ _ r _) \<longleftrightarrow> r = Some me"
| "outgoing_of me (TransferTokenTransaction _ s _ _ _) \<longleftrightarrow> s = Some me"
| "outgoing_of me (AuthorizeTokenTransferTransaction _ s _ _ _) \<longleftrightarrow> s = Some me"
| "outgoing_of me (UnauthorizeTokenTransferTransaction _ s _ _ _) \<longleftrightarrow> s = Some me"
| "outgoing_of me (BurnTokenTransaction _ s _ _) \<longleftrightarrow> s = Some me"
| "outgoing_of me (ClawbackTokenTransaction _ s r _ _) \<longleftrightarrow> s \<noteq> Some me \<and> r = Some me"
| "outgoing_of me (FreezeTokenTransaction _ s _ _ _) \<longleftrightarrow> s = Some me"
| "outgoing_of me (UnfreezeTokenTransaction _ s _ _ _) \<longleftrightarrow> s = Some me"

definition replay_nonce :: "ScalegraphId \<Rightarrow> transaction list \<Rightarrow> uint64" where
  "replay_nonce me ts = of_nat (length (List.filter (outgoing_of me) ts))"

lemma replay_balance_snoc: "replay_balance me (ts @ [t]) = bal_step me (replay_balance me ts) t"
  by (simp add: replay_balance_def)

lemma replay_nonce_snoc:
  "replay_nonce me (ts @ [t]) = replay_nonce me ts + (if outgoing_of me t then 1 else 0)"
  by (simp add: replay_nonce_def)

definition keys_ok :: "(string \<rightharpoonup> Token) \<Rightarrow> bool" where
  "keys_ok store \<longleftrightarrow> (\<forall>k t. store k = Some t \<longrightarrow> \<not> is_placeholder t \<longrightarrow> token_ID t = k)"

lemma keys_ok_upd [intro]:
  "keys_ok m \<Longrightarrow> (\<not> is_placeholder t \<Longrightarrow> token_ID t = k) \<Longrightarrow> keys_ok (m(k \<mapsto> t))"
  by (auto simp: keys_ok_def)

lemma keys_ok_del [intro]: "keys_ok m \<Longrightarrow> keys_ok (m(k := None))"
  by (auto simp: keys_ok_def)

lemma keys_okD: "keys_ok m \<Longrightarrow> m k = Some t \<Longrightarrow> \<not> is_placeholder t \<Longrightarrow> token_ID t = k"
  by (auto simp: keys_ok_def)

lemma emptyToken_placeholder [simp]: "is_placeholder emptyToken"
  by simp

definition acct_ok :: "Account \<Rightarrow> bool" where
  "acct_ok a \<longleftrightarrow>
     chain_ok (blockchain a) \<and> finite (dom (tokenStore a)) \<and> keys_ok (tokenStore a) \<and>
     balance a = replay_balance (acc_id a) (chain_txs (blockchain a)) \<and>
     outgoingTxCount a = replay_nonce (acc_id a) (chain_txs (blockchain a))"

lemma acct_ok_new: "acct_ok (newAccountWithPublicKey sha1 g pk cert)"
  by (simp add: acct_ok_def newAccountWithPublicKey_def chain_ok_new chain_txs_new
      replay_balance_def replay_nonce_def keys_ok_def)

section \<open>Handlers keep the invariant\<close>

lemma handler_balance:
  "txHandler trx a = (Ok (), a') \<Longrightarrow> balance a' = bal_step (acc_id a) (balance a) trx"
  by (cases trx) (auto simp: handler_defs store_op_defs Let_def split: handler_splits)

lemma handler_nonce:
  "txHandler trx a = (Ok (), a') \<Longrightarrow>
   outgoingTxCount a' = outgoingTxCount a + (if outgoing_of (acc_id a) trx then 1 else 0)"
  by (cases trx) (auto simp: handler_defs store_op_defs Let_def split: handler_splits)

lemma handler_store:
  assumes "txHandler trx a = (r, a')" "finite (dom (tokenStore a))" "keys_ok (tokenStore a)"
  shows "finite (dom (tokenStore a')) \<and> keys_ok (tokenStore a')"
  using assms
  by (cases trx)
    (auto simp: handler_defs store_op_defs Let_def split: handler_splits
      intro!: keys_ok_upd dest!: keys_okD [OF assms(3)])

lemma appendTransaction_acct_ok:
  assumes "appendTransaction b trx a = (r, a')" "acct_ok a"
  shows "acct_ok a'"
proof (cases "is_ok r")
  case False
  with assms appendTransaction_failed show ?thesis by blast
next
  case True
  then have "r = Ok ()" by (auto simp: is_ok_iff)
  with assms(1) obtain a1 where a1: "txHandler trx a = (Ok (), a1)"
    and a': "a' = a1\<lparr>blockchain := bc_append b trx (blockchain a)\<rparr>"
    by (auto simp: appendTransaction_ok_iff)
  show ?thesis
    using assms(2) handler_frame [OF a1] handler_balance [OF a1] handler_nonce [OF a1]
      handler_store [OF a1] chain.ok_append [of "blockchain a" b trx]
    by (auto simp: acct_ok_def a' chain_txs_append replay_balance_snoc replay_nonce_snoc)
qed

section \<open>Undoing a transaction\<close>

text \<open>
  A rollback handler restores the account exactly when the arithmetic of the two steps cancels
  and nothing the handler overwrote is lost; \<open>undoable\<close> says when.
\<close>

fun undoable :: "transaction \<Rightarrow> Account \<Rightarrow> bool" where
  "undoable (MintTransaction _ _ _ amt) a \<longleftrightarrow> fsub (fadd (balance a) amt) amt = balance a"
| "undoable (TransferTransaction _ s r amt) a \<longleftrightarrow>
     (s = Some (acc_id a) \<longrightarrow> r \<noteq> Some (acc_id a) \<and> fadd (fsub (balance a) amt) amt = balance a) \<and>
     (r = Some (acc_id a) \<longrightarrow> fsub (fadd (balance a) amt) amt = balance a)"
| "undoable (BurnTransaction _ _ r amt) a \<longleftrightarrow>
     (r = Some (acc_id a) \<longrightarrow> fadd (fsub (balance a) amt) amt = balance a)"
| "undoable (MintTokenTransaction _ s r t) a \<longleftrightarrow>
     (r = Some (acc_id a) \<longrightarrow> fsub (fadd (mbr a) MBR_TOKEN_COST) MBR_TOKEN_COST = mbr a)"
| "undoable (TransferTokenTransaction _ s r t _) a \<longleftrightarrow>
     s = Some (acc_id a) \<and> tokenStore a (token_ID t) = Some t"
| "undoable (AuthorizeTokenTransferTransaction _ s _ k _) a \<longleftrightarrow>
     (s = Some (acc_id a) \<longrightarrow> tokenStore a k = None \<and>
        fsub (fadd (mbr a) MBR_SLOT_COST) MBR_SLOT_COST = mbr a)"
| "undoable (UnauthorizeTokenTransferTransaction _ s _ k _) a \<longleftrightarrow>
     (s = Some (acc_id a) \<longrightarrow> (tokenStore a k = Some emptyToken \<and>
        fadd (fsub (mbr a) MBR_SLOT_COST) MBR_SLOT_COST = mbr a))"
| "undoable (BurnTokenTransaction _ _ _ _) a \<longleftrightarrow> False"
| "undoable (ClawbackTokenTransaction _ s r t _) a \<longleftrightarrow>
     (s = Some (acc_id a) \<longrightarrow> tokenStore a (token_ID t) = Some t)"
| "undoable (FreezeTokenTransaction _ s _ _ _) a \<longleftrightarrow>
     (s = Some (acc_id a) \<longrightarrow> fsub (fadd (mbr a) MBR_FREEZE_COST) MBR_FREEZE_COST = mbr a)"
| "undoable (UnfreezeTokenTransaction _ s _ _ _) a \<longleftrightarrow>
     (s = Some (acc_id a) \<longrightarrow> fadd (fsub (mbr a) MBR_UNFREEZE_COST) MBR_UNFREEZE_COST = mbr a)"

lemma handler_undone:
  assumes "txHandler trx a = (Ok (), a')" "undoable trx a"
  shows "txRollbackHandler trx a' = (Ok (), a)"
  using assms
  by (cases trx; cases a)
    (auto simp: handler_defs rollback_defs store_op_defs Let_def fun_upd_idem split: handler_splits)

lemma txHandler_chain_indep:
  "txRollbackHandler trx (a\<lparr>blockchain := c\<rparr>) =
   (fst (txRollbackHandler trx a), (snd (txRollbackHandler trx a))\<lparr>blockchain := c\<rparr>)"
  by (cases trx)
    (auto simp: rollback_defs store_op_defs Let_def split: handler_splits)

lemma rollback_after_append:
  assumes "appendTransaction b trx a = (Ok (), a')" "chain_ok (blockchain a)"
  shows "rollbacklatestTransaction trx a' =
    (case txRollbackHandler trx (snd (txHandler trx a)) of
       (Ok _, a2) \<Rightarrow> (Ok (), a2)
     | (Err e, a2) \<Rightarrow> (Err (RollbackHandlerFailed e), a2)
     | (Panic, a2) \<Rightarrow> (Panic, a2))"
proof -
  from assms(1) obtain a1 where a1: "txHandler trx a = (Ok (), a1)"
    and a': "a' = a1\<lparr>blockchain := bc_append b trx (blockchain a)\<rparr>"
    by (auto simp: appendTransaction_ok_iff)
  have bc: "blockchain a1 = blockchain a" using handler_frame(5) [OF a1] .
  have len: "bc_Len (bc_append b trx (blockchain a)) \<noteq> 0"
    using chain_length [OF chain.ok_append [OF assms(2)], of b trx] by simp
  have same: "a1\<lparr>blockchain := blockchain a\<rparr> = a1" using bc by (metis Account.surjective Account.update_convs(4))
  show ?thesis
    using len chain.latest_append [of b trx "blockchain a"] chain.undo_append [OF assms(2), of b trx]
    by (simp add: rollbacklatestTransaction_def a' a1 same Let_def)
qed

lemma rollback_undoes_append:
  assumes "undoable trx a" "chain_ok (blockchain a)" "appendTransaction b trx a = (Ok (), a')"
  shows "rollbacklatestTransaction trx a' = (Ok (), a)"
proof -
  from assms(3) obtain a1 where a1: "txHandler trx a = (Ok (), a1)"
    by (auto simp: appendTransaction_ok_iff)
  show ?thesis
    using rollback_after_append [OF assms(3,2)] handler_undone [OF a1 assms(1)] by (simp add: a1)
qed

end
