(* ===== verification/Requests.thy ===== *)
theory Requests
  imports Tokens
begin

text \<open>
  \<^verbatim>\<open>internal/scalegraph/requests.go\<close>: the request structs and their \<^verbatim>\<open>Verify\<close> methods.  Each
  method hands \<open>VerifyRequest\<close> the expected signer and a closure that compares the signed
  payload with the request field by field; here the closure is a list of comparisons, of which
  the first that fails is reported.  \<^verbatim>\<open>SignedEnvelope\<close> is a Go pointer: \<open>None\<close> is nil.
\<close>

fun first_mismatch :: "(string \<times> bool) list \<Rightarrow> error option" where
  "first_mismatch [] = None"
| "first_mismatch ((field, agrees) # rest) =
     (if agrees then first_mismatch rest else Some (FieldMismatch field))"

lemma first_mismatch_None: "first_mismatch cs = None \<longleftrightarrow> (\<forall>(f, b)\<in>set cs. b)"
  by (induction cs rule: first_mismatch.induct) auto

section \<open>Requests\<close>

record CreateAccountRequest =
  ca_InitialBalance :: float64
  ca_SignedEnvelope :: "CreateAccountPayload SignedEnvelope option"

record GetAccountRequest =
  ga_AccountID :: ScalegraphId
  ga_SignedEnvelope :: "GetAccountPayload SignedEnvelope option"

record TransferRequest =
  tr_From :: ScalegraphId
  tr_To :: ScalegraphId
  tr_Amount :: float64
  tr_Nonce :: uint64
  tr_SignedEnvelope :: "TransferPayload SignedEnvelope option"

record MintRequest =
  mr_To :: ScalegraphId
  mr_Amount :: float64

record MintTokenRequest =
  mt_TokenValue :: string
  mt_ClawbackAddress :: "ScalegraphId option"
  mt_FreezeAddress :: "ScalegraphId option"
  mt_Nonce :: int64
  mt_SignedEnvelope :: "MintTokenPayload SignedEnvelope option"

record TransferTokenRequest =
  tt_From :: ScalegraphId
  tt_To :: ScalegraphId
  tt_TokenId :: string
  tt_Nonce :: uint64
  tt_SignedEnvelope :: "TransferTokenPayload SignedEnvelope option"

record AuthorizeTokenTransferRequest =
  at_AccountID :: ScalegraphId
  at_TokenOwnerID :: ScalegraphId
  at_TokenId :: string
  at_Nonce :: uint64
  at_SignedEnvelope :: "AuthorizeTokenTransferPayload SignedEnvelope option"

record UnauthorizeTokenTransferRequest =
  ut_AccountID :: ScalegraphId
  ut_TokenOwnerID :: ScalegraphId
  ut_TokenId :: string
  ut_Nonce :: uint64
  ut_SignedEnvelope :: "UnauthorizeTokenTransferPayload SignedEnvelope option"

record BurnTokenRequest =
  bt_AccountID :: ScalegraphId
  bt_TokenId :: string
  bt_Nonce :: uint64
  bt_SignedEnvelope :: "BurnTokenPayload SignedEnvelope option"

record ClawbackTokenRequest =
  ct_From :: ScalegraphId
  ct_To :: ScalegraphId
  ct_TokenId :: string
  ct_Nonce :: uint64
  ct_SignedEnvelope :: "ClawbackTokenPayload SignedEnvelope option"

record AdminCreateAccountRequest =
  ac_InitialBalance :: float64

record AdminMintRequest =
  am_To :: ScalegraphId
  am_Amount :: float64

record SubscribeEventsRequest =
  se_AccountID :: ScalegraphId
  se_EventTypes :: "string list"
  se_SignedEnvelope :: "SubscribePayload SignedEnvelope option"

record FreezeTokenRequest =
  fz_FreezeAuthority :: ScalegraphId
  fz_TokenHolder :: ScalegraphId
  fz_TokenId :: string
  fz_Nonce :: uint64
  fz_SignedEnvelope :: "FreezeTokenPayload SignedEnvelope option"

record UnfreezeTokenRequest =
  uf_FreezeAuthority :: ScalegraphId
  uf_TokenHolder :: ScalegraphId
  uf_TokenId :: string
  uf_Nonce :: uint64
  uf_SignedEnvelope :: "UnfreezeTokenPayload SignedEnvelope option"

record LookupTokenRequest =
  lt_TokenID :: string
  lt_AccountID :: ScalegraphId
  lt_SignedEnvelope :: "LookupTokenPayload SignedEnvelope option"

section \<open>Verify methods\<close>

text \<open>
  The common arguments: SHA-1, the JSON encoder, the verifier's method, the CA's public key.
\<close>

definition CreateAccountRequest_Verify ::
    "(byte list \<Rightarrow> ScalegraphId) \<Rightarrow> marshaller \<Rightarrow> verify_method \<Rightarrow> byte list \<Rightarrow>
     CreateAccountRequest \<Rightarrow> (error, unit) outcome" where
  "CreateAccountRequest_Verify sha1 marshal verify ca r =
     VerifyRequest sha1 verify ca (CreateAccountPayload_Bytes marshal) (ca_SignedEnvelope r) ''''
       (Some (\<lambda>sgnd. first_mismatch
         [(''InitialBalance'', feq (cap_InitialBalance sgnd) (ca_InitialBalance r))]))"

definition GetAccountRequest_Verify ::
    "(byte list \<Rightarrow> ScalegraphId) \<Rightarrow> marshaller \<Rightarrow> verify_method \<Rightarrow> byte list \<Rightarrow>
     GetAccountRequest \<Rightarrow> (error, unit) outcome" where
  "GetAccountRequest_Verify sha1 marshal verify ca r =
     VerifyRequest sha1 verify ca (GetAccountPayload_Bytes marshal) (ga_SignedEnvelope r)
       (id_String (ga_AccountID r))
       (Some (\<lambda>sgnd. first_mismatch
         [(''AccountID'', gap_AccountID sgnd = id_String (ga_AccountID r))]))"

definition TransferRequest_Verify ::
    "(byte list \<Rightarrow> ScalegraphId) \<Rightarrow> marshaller \<Rightarrow> verify_method \<Rightarrow> byte list \<Rightarrow>
     TransferRequest \<Rightarrow> (error, unit) outcome" where
  "TransferRequest_Verify sha1 marshal verify ca r =
     VerifyRequest sha1 verify ca (TransferPayload_Bytes marshal) (tr_SignedEnvelope r)
       (id_String (tr_From r))
       (Some (\<lambda>sgnd. first_mismatch
         [(''From'', tp_From sgnd = id_String (tr_From r)),
          (''To'', tp_To sgnd = id_String (tr_To r)),
          (''Amount'', feq (tp_Amount sgnd) (tr_Amount r)),
          (''Nonce'', tp_Nonce sgnd = tr_Nonce r)]))"

text \<open>
  The two \<^verbatim>\<open>switch\<close> statements on optional addresses: nil must meet nil, and a non-nil address
  must print as the signed one.  \<^verbatim>\<open>Verify\<close> reads the envelope before its nil check.
\<close>

definition addresses_agree :: "ScalegraphId option \<Rightarrow> string option \<Rightarrow> bool" where
  "addresses_agree requested sgnd =
     (case requested of
        None \<Rightarrow> sgnd = None
      | Some i \<Rightarrow> (case sgnd of None \<Rightarrow> False | Some s \<Rightarrow> id_String i = s))"

definition MintTokenRequest_Verify ::
    "(byte list \<Rightarrow> ScalegraphId) \<Rightarrow> marshaller \<Rightarrow> verify_method \<Rightarrow> byte list \<Rightarrow>
     MintTokenRequest \<Rightarrow> (error, unit) outcome" where
  "MintTokenRequest_Verify sha1 marshal verify ca r =
     (case mt_SignedEnvelope r of
        None \<Rightarrow> Panic
      | Some env \<Rightarrow>
        VerifyRequest sha1 verify ca (MintTokenPayload_Bytes marshal) (Some env)
          (SignerID (env_Signature env))
          (Some (\<lambda>sgnd. first_mismatch
            [(''TokenValue'', mtp_TokenValue sgnd = mt_TokenValue r),
             (''Nonce'', mtp_Nonce sgnd = mt_Nonce r),
             (''FreezeAddress'', addresses_agree (mt_FreezeAddress r) (mtp_FreezeAddress sgnd)),
             (''ClawbackAddress'',
                addresses_agree (mt_ClawbackAddress r) (mtp_ClawbackAddress sgnd))])))"

definition TransferTokenRequest_Verify ::
    "(byte list \<Rightarrow> ScalegraphId) \<Rightarrow> marshaller \<Rightarrow> verify_method \<Rightarrow> byte list \<Rightarrow>
     TransferTokenRequest \<Rightarrow> (error, unit) outcome" where
  "TransferTokenRequest_Verify sha1 marshal verify ca r =
     VerifyRequest sha1 verify ca (TransferTokenPayload_Bytes marshal) (tt_SignedEnvelope r)
       (id_String (tt_From r))
       (Some (\<lambda>sgnd. first_mismatch
         [(''TokenId'', ttp_TokenID sgnd = tt_TokenId r),
          (''From'', ttp_From sgnd = id_String (tt_From r)),
          (''To'', ttp_To sgnd = id_String (tt_To r)),
          (''Nonce'', ttp_Nonce sgnd = tt_Nonce r)]))"

definition AuthorizeTokenTransferRequest_Verify ::
    "(byte list \<Rightarrow> ScalegraphId) \<Rightarrow> marshaller \<Rightarrow> verify_method \<Rightarrow> byte list \<Rightarrow>
     AuthorizeTokenTransferRequest \<Rightarrow> (error, unit) outcome" where
  "AuthorizeTokenTransferRequest_Verify sha1 marshal verify ca r =
     VerifyRequest sha1 verify ca (AuthorizeTokenTransferPayload_Bytes marshal)
       (at_SignedEnvelope r) (id_String (at_AccountID r))
       (Some (\<lambda>sgnd. first_mismatch
         [(''TokenId'', atp_TokenID sgnd = at_TokenId r),
          (''AccountID'', atp_AccountID sgnd = id_String (at_AccountID r)),
          (''TokenOwnerID'', atp_TokenOwnerID sgnd = id_String (at_TokenOwnerID r)),
          (''Nonce'', atp_Nonce sgnd = at_Nonce r)]))"

definition UnauthorizeTokenTransferRequest_Verify ::
    "(byte list \<Rightarrow> ScalegraphId) \<Rightarrow> marshaller \<Rightarrow> verify_method \<Rightarrow> byte list \<Rightarrow>
     UnauthorizeTokenTransferRequest \<Rightarrow> (error, unit) outcome" where
  "UnauthorizeTokenTransferRequest_Verify sha1 marshal verify ca r =
     VerifyRequest sha1 verify ca (UnauthorizeTokenTransferPayload_Bytes marshal)
       (ut_SignedEnvelope r) (id_String (ut_AccountID r))
       (Some (\<lambda>sgnd. first_mismatch
         [(''TokenId'', utp_TokenID sgnd = ut_TokenId r),
          (''AccountID'', utp_AccountID sgnd = id_String (ut_AccountID r)),
          (''TokenOwnerID'', utp_TokenOwnerID sgnd = id_String (ut_TokenOwnerID r)),
          (''Nonce'', utp_Nonce sgnd = ut_Nonce r)]))"

definition BurnTokenRequest_Verify ::
    "(byte list \<Rightarrow> ScalegraphId) \<Rightarrow> marshaller \<Rightarrow> verify_method \<Rightarrow> byte list \<Rightarrow>
     BurnTokenRequest \<Rightarrow> (error, unit) outcome" where
  "BurnTokenRequest_Verify sha1 marshal verify ca r =
     VerifyRequest sha1 verify ca (BurnTokenPayload_Bytes marshal) (bt_SignedEnvelope r)
       (id_String (bt_AccountID r))
       (Some (\<lambda>sgnd. first_mismatch
         [(''TokenId'', btp_TokenID sgnd = bt_TokenId r),
          (''From'', btp_AccountID sgnd = id_String (bt_AccountID r)),
          (''Nonce'', btp_Nonce sgnd = bt_Nonce r)]))"

text \<open>A clawback is signed by the account that receives the token.\<close>

definition ClawbackTokenRequest_Verify ::
    "(byte list \<Rightarrow> ScalegraphId) \<Rightarrow> marshaller \<Rightarrow> verify_method \<Rightarrow> byte list \<Rightarrow>
     ClawbackTokenRequest \<Rightarrow> (error, unit) outcome" where
  "ClawbackTokenRequest_Verify sha1 marshal verify ca r =
     VerifyRequest sha1 verify ca (ClawbackTokenPayload_Bytes marshal) (ct_SignedEnvelope r)
       (id_String (ct_To r))
       (Some (\<lambda>sgnd. first_mismatch
         [(''TokenId'', ctp_TokenID sgnd = ct_TokenId r),
          (''From'', ctp_From sgnd = id_String (ct_From r)),
          (''To'', ctp_To sgnd = id_String (ct_To r)),
          (''Nonce'', ctp_Nonce sgnd = ct_Nonce r)]))"

text \<open>The closure of \<^verbatim>\<open>SubscribeEventsRequest\<close> does not compare the event types.\<close>

definition SubscribeEventsRequest_Verify ::
    "(byte list \<Rightarrow> ScalegraphId) \<Rightarrow> marshaller \<Rightarrow> verify_method \<Rightarrow> byte list \<Rightarrow>
     SubscribeEventsRequest \<Rightarrow> (error, unit) outcome" where
  "SubscribeEventsRequest_Verify sha1 marshal verify ca r =
     VerifyRequest sha1 verify ca (SubscribePayload_Bytes marshal) (se_SignedEnvelope r)
       (id_String (se_AccountID r))
       (Some (\<lambda>sgnd. first_mismatch
         [(''AccountID'', sp_AccountID sgnd = id_String (se_AccountID r))]))"

definition FreezeTokenRequest_Verify ::
    "(byte list \<Rightarrow> ScalegraphId) \<Rightarrow> marshaller \<Rightarrow> verify_method \<Rightarrow> byte list \<Rightarrow>
     FreezeTokenRequest \<Rightarrow> (error, unit) outcome" where
  "FreezeTokenRequest_Verify sha1 marshal verify ca r =
     VerifyRequest sha1 verify ca (FreezeTokenPayload_Bytes marshal) (fz_SignedEnvelope r)
       (id_String (fz_FreezeAuthority r))
       (Some (\<lambda>sgnd. first_mismatch
         [(''FreezeAuthority'', fzp_FreezeAuthority sgnd = id_String (fz_FreezeAuthority r)),
          (''TokenHolder'', fzp_TokenHolder sgnd = id_String (fz_TokenHolder r)),
          (''TokenID'', fzp_TokenID sgnd = fz_TokenId r),
          (''Nonce'', fzp_Nonce sgnd = fz_Nonce r)]))"

definition UnfreezeTokenRequest_Verify ::
    "(byte list \<Rightarrow> ScalegraphId) \<Rightarrow> marshaller \<Rightarrow> verify_method \<Rightarrow> byte list \<Rightarrow>
     UnfreezeTokenRequest \<Rightarrow> (error, unit) outcome" where
  "UnfreezeTokenRequest_Verify sha1 marshal verify ca r =
     VerifyRequest sha1 verify ca (UnfreezeTokenPayload_Bytes marshal) (uf_SignedEnvelope r)
       (id_String (uf_FreezeAuthority r))
       (Some (\<lambda>sgnd. first_mismatch
         [(''FreezeAuthority'', ufp_FreezeAuthority sgnd = id_String (uf_FreezeAuthority r)),
          (''TokenHolder'', ufp_TokenHolder sgnd = id_String (uf_TokenHolder r)),
          (''TokenID'', ufp_TokenID sgnd = uf_TokenId r),
          (''Nonce'', ufp_Nonce sgnd = uf_Nonce r)]))"

text \<open>
  A lookup expects whatever signer the envelope names: any account may look up any token.
\<close>

definition LookupTokenRequest_Verify ::
    "(byte list \<Rightarrow> ScalegraphId) \<Rightarrow> marshaller \<Rightarrow> verify_method \<Rightarrow> byte list \<Rightarrow>
     LookupTokenRequest \<Rightarrow> (error, unit) outcome" where
  "LookupTokenRequest_Verify sha1 marshal verify ca r =
     (case lt_SignedEnvelope r of
        None \<Rightarrow> Panic
      | Some env \<Rightarrow>
        VerifyRequest sha1 verify ca (LookupTokenPayload_Bytes marshal) (Some env)
          (SignerID (env_Signature env))
          (Some (\<lambda>sgnd. first_mismatch
            [(''TokenID'', ltp_TokenID sgnd = lt_TokenID r),
             (''AccountID'', ltp_AccountID sgnd = id_String (lt_AccountID r))])))"

lemmas Verify_defs = CreateAccountRequest_Verify_def GetAccountRequest_Verify_def
  TransferRequest_Verify_def MintTokenRequest_Verify_def TransferTokenRequest_Verify_def
  AuthorizeTokenTransferRequest_Verify_def UnauthorizeTokenTransferRequest_Verify_def
  BurnTokenRequest_Verify_def ClawbackTokenRequest_Verify_def SubscribeEventsRequest_Verify_def
  FreezeTokenRequest_Verify_def UnfreezeTokenRequest_Verify_def LookupTokenRequest_Verify_def

lemma addresses_agree_unique:
  "addresses_agree x s \<Longrightarrow> addresses_agree y s \<Longrightarrow> x = y"
  by (auto simp: addresses_agree_def id_String_inject split: option.splits)

section \<open>One payload type of requests\<close>

text \<open>
  A request reaches the server as a value of Go type \<^verbatim>\<open>any\<close>; \<open>request\<close> is the sum of the types
  the program sends, with \<open>OtherRequest\<close> for any other dynamic type.
\<close>

datatype request =
    ReqTransfer TransferRequest
  | ReqMint MintRequest
  | ReqAccountCount
  | ReqCreateAccount CreateAccountRequest
  | ReqGetAccount GetAccountRequest
  | ReqGetAccounts
  | ReqAdminCreateAccount AdminCreateAccountRequest
  | ReqAdminMint AdminMintRequest
  | ReqMintToken MintTokenRequest
  | ReqAuthorize AuthorizeTokenTransferRequest
  | ReqUnauthorize UnauthorizeTokenTransferRequest
  | ReqTransferToken TransferTokenRequest
  | ReqBurnToken BurnTokenRequest
  | ReqClawback ClawbackTokenRequest
  | ReqLookupToken LookupTokenRequest
  | ReqFreeze FreezeTokenRequest
  | ReqUnfreeze UnfreezeTokenRequest
  | ReqSubscribe SubscribeEventsRequest
  | OtherRequest

text \<open>
  The assertion \<^verbatim>\<open>req.Payload.(crypto.Verifiable)\<close>: \<open>None\<close> for the types without a
  \<^verbatim>\<open>Verify\<close> method.  Every \<^verbatim>\<open>RequiresSignature\<close> returns true.
\<close>

fun request_Verify ::
    "(byte list \<Rightarrow> ScalegraphId) \<Rightarrow> marshaller \<Rightarrow> verify_method \<Rightarrow> byte list \<Rightarrow>
     request \<Rightarrow> (error, unit) outcome option" where
  "request_Verify h m v ca (ReqTransfer r) = Some (TransferRequest_Verify h m v ca r)"
| "request_Verify h m v ca (ReqMint r) = None"
| "request_Verify h m v ca ReqAccountCount = None"
| "request_Verify h m v ca (ReqCreateAccount r) = Some (CreateAccountRequest_Verify h m v ca r)"
| "request_Verify h m v ca (ReqGetAccount r) = Some (GetAccountRequest_Verify h m v ca r)"
| "request_Verify h m v ca ReqGetAccounts = None"
| "request_Verify h m v ca (ReqAdminCreateAccount r) = None"
| "request_Verify h m v ca (ReqAdminMint r) = None"
| "request_Verify h m v ca (ReqMintToken r) = Some (MintTokenRequest_Verify h m v ca r)"
| "request_Verify h m v ca (ReqAuthorize r) = Some (AuthorizeTokenTransferRequest_Verify h m v ca r)"
| "request_Verify h m v ca (ReqUnauthorize r) = Some (UnauthorizeTokenTransferRequest_Verify h m v ca r)"
| "request_Verify h m v ca (ReqTransferToken r) = Some (TransferTokenRequest_Verify h m v ca r)"
| "request_Verify h m v ca (ReqBurnToken r) = Some (BurnTokenRequest_Verify h m v ca r)"
| "request_Verify h m v ca (ReqClawback r) = Some (ClawbackTokenRequest_Verify h m v ca r)"
| "request_Verify h m v ca (ReqLookupToken r) = Some (LookupTokenRequest_Verify h m v ca r)"
| "request_Verify h m v ca (ReqFreeze r) = Some (FreezeTokenRequest_Verify h m v ca r)"
| "request_Verify h m v ca (ReqUnfreeze r) = Some (UnfreezeTokenRequest_Verify h m v ca r)"
| "request_Verify h m v ca (ReqSubscribe r) = Some (SubscribeEventsRequest_Verify h m v ca r)"
| "request_Verify h m v ca OtherRequest = None"

end
