(* ===== verification/TwoPhase.thy ===== *)
theory TwoPhase
  imports Prelude
begin

text \<open>
  The update every two-account operation of \<^verbatim>\<open>app.go\<close> performs on the account map: append to
  the first account, then to the second, and roll the first one back when the second append
  fails.  The operations on one account are parameters; \<open>two_phase\<close> is the contract they offer,
  interpreted on the account's own operations in theory \<open>App\<close>.
\<close>

text \<open>
  Run an operation on the object a map entry points to.  A missing entry is Go's nil pointer.
\<close>

definition on_entry :: "'k \<Rightarrow> ('a \<Rightarrow> ('e, unit, 'a) call) \<Rightarrow> ('k \<rightharpoonup> 'a) \<Rightarrow> ('e, unit, 'k \<rightharpoonup> 'a) call" where
  "on_entry k f m =
     (case m k of
        None \<Rightarrow> (Panic, m)
      | Some a \<Rightarrow> (case f a of (r, a') \<Rightarrow> (r, m(k \<mapsto> a'))))"

text \<open>The error of the rollback itself is dropped by the callers.\<close>

definition append_both ::
    "('b \<Rightarrow> 't \<Rightarrow> 'a \<Rightarrow> ('e, unit, 'a) call) \<Rightarrow> ('t \<Rightarrow> 'a \<Rightarrow> ('e, unit, 'a) call) \<Rightarrow>
     'b \<Rightarrow> 'b \<Rightarrow> 'k \<Rightarrow> 'k \<Rightarrow> 't \<Rightarrow> ('k \<rightharpoonup> 'a) \<Rightarrow> ('e, unit, 'k \<rightharpoonup> 'a) call" where
  "append_both app rb b1 b2 x y t m =
     (case on_entry x (app b1 t) m of
        (Panic, m1) \<Rightarrow> (Panic, m1)
      | (Err e, m1) \<Rightarrow> (Err e, m1)
      | (Ok _, m1) \<Rightarrow>
        (case on_entry y (app b2 t) m1 of
           (Ok _, m2) \<Rightarrow> (Ok (), m2)
         | (Panic, m2) \<Rightarrow> (Panic, m2)
         | (Err e, m2) \<Rightarrow>
           (case on_entry x (rb t) m2 of
              (Panic, m3) \<Rightarrow> (Panic, m3)
            | (_, m3) \<Rightarrow> (Err e, m3))))"

lemma on_entry_ok:
  "on_entry k f m = (Ok (), m') \<longleftrightarrow>
   (\<exists>a a'. m k = Some a \<and> f a = (Ok (), a') \<and> m' = m(k \<mapsto> a'))"
  by (auto simp: on_entry_def split: option.splits prod.splits)

lemma on_entry_dom: "on_entry k f m = (r, m') \<Longrightarrow> dom m' = dom m"
  by (auto simp: on_entry_def split: option.splits prod.splits if_splits)

lemma on_entry_other: "on_entry k f m = (r, m') \<Longrightarrow> j \<noteq> k \<Longrightarrow> m' j = m j"
  by (auto simp: on_entry_def split: option.splits prod.splits)

lemma append_both_ok:
  "append_both app rb b1 b2 x y t m = (Ok (), m') \<longleftrightarrow>
   (\<exists>a a1 c c1. m x = Some a \<and> app b1 t a = (Ok (), a1) \<and>
      (m(x \<mapsto> a1)) y = Some c \<and> app b2 t c = (Ok (), c1) \<and> m' = m(x \<mapsto> a1, y \<mapsto> c1))"
  by (auto simp: append_both_def on_entry_def split: option.splits prod.splits outcome.splits)

lemma append_both_dom: "append_both app rb b1 b2 x y t m = (r, m') \<Longrightarrow> dom m' = dom m"
  by (auto simp: append_both_def dest!: on_entry_dom split: prod.splits outcome.splits)
    (metis domD domI)+

lemma append_both_other:
  "append_both app rb b1 b2 x y t m = (r, m') \<Longrightarrow> j \<noteq> x \<Longrightarrow> j \<noteq> y \<Longrightarrow> m' j = m j"
  by (auto simp: append_both_def dest!: on_entry_other split: prod.splits outcome.splits)

section \<open>The contract of the two operations\<close>

locale two_phase =
  fixes app :: "'b \<Rightarrow> 't \<Rightarrow> 'a \<Rightarrow> ('e, unit, 'a) call"
    and rb :: "'t \<Rightarrow> 'a \<Rightarrow> ('e, unit, 'a) call"
    and undoable :: "'t \<Rightarrow> 'a \<Rightarrow> bool"
  assumes append_failed: "app b t a = (r, a') \<Longrightarrow> \<not> is_ok r \<Longrightarrow> a' = a"
    and rollback_undoes: "undoable t a \<Longrightarrow> app b t a = (Ok (), a') \<Longrightarrow> rb t a' = (Ok (), a)"
begin

text \<open>A failed operation leaves every account as it was, when its first half can be undone.\<close>

lemma append_both_atomic:
  assumes "append_both app rb b1 b2 x y t m = (Err e, m')"
    and "\<And>a. m x = Some a \<Longrightarrow> undoable t a"
  shows "m' = m"
proof (cases "m x")
  case None
  then show ?thesis using assms(1) by (simp add: append_both_def on_entry_def)
next
  case (Some a)
  obtain r1 a1 where 1: "app b1 t a = (r1, a1)" by fastforce
  show ?thesis
  proof (cases r1)
    case (Ok u)
    obtain r2 m2 where 2: "on_entry y (app b2 t) (m(x \<mapsto> a1)) = (r2, m2)" by fastforce
    have r2: "\<not> is_ok r2" "r2 \<noteq> Panic"
      using assms(1) Some 1 2 Ok by (auto simp: append_both_def on_entry_def is_ok_iff)
    obtain c r c1 where c: "(m(x \<mapsto> a1)) y = Some c" "app b2 t c = (r, c1)"
      using 2 r2 by (auto simp: on_entry_def split: option.splits prod.splits)
    have "r = r2" and m2: "m2 = m(x \<mapsto> a1, y \<mapsto> c1)"
      using 2 c by (auto simp: on_entry_def)
    then have "c1 = c" using append_failed [OF c(2)] r2 by simp
    then have m2': "m2 = m(x \<mapsto> a1)" using m2 c(1) by (simp add: fun_upd_idem)
    have "rb t a1 = (Ok (), a)"
      using rollback_undoes [OF assms(2) [OF Some], of b1 a1] 1 Ok by simp
    then have "m' = m2(x \<mapsto> a)"
      using assms(1) Some 1 2 Ok r2 m2'
      by (cases r2) (auto simp: append_both_def on_entry_def)
    then show ?thesis using m2' Some by (simp add: fun_upd_idem)
  next
    case (Err e')
    then have "a1 = a" using append_failed [OF 1] by simp
    then show ?thesis using assms(1) Some 1 Err
      by (simp add: append_both_def on_entry_def fun_upd_idem)
  next
    case Panic
    then show ?thesis using assms(1) Some 1 by (simp add: append_both_def on_entry_def)
  qed
qed

text \<open>
  Anything that one append keeps, and that append followed by rollback keeps, holds of every
  account after the operation.
\<close>

lemma append_both_keeps:
  assumes run: "append_both app rb b1 b2 x y t m = (r, m')"
    and pre: "\<And>k a. m k = Some a \<Longrightarrow> P k a"
    and app: "\<And>k b a r a'. app b t a = (r, a') \<Longrightarrow> P k a \<Longrightarrow> P k a'"
    and rb: "\<And>b a a1 r a2. m x = Some a \<Longrightarrow> app b t a = (Ok (), a1) \<Longrightarrow> rb t a1 = (r, a2) \<Longrightarrow> P x a \<Longrightarrow> P x a2"
  shows "m' k = Some a \<Longrightarrow> P k a"
proof -
  have entry: "\<forall>k a. m2 k = Some a \<longrightarrow> P k a"
    if "on_entry z (app b t) m1 = (r', m2)" "\<forall>k a. m1 k = Some a \<longrightarrow> P k a" for z b m1 r' m2
    using that app by (fastforce simp: on_entry_def split: option.splits prod.splits if_splits)
  obtain r1 m1 where 1: "on_entry x (app b1 t) m = (r1, m1)" by fastforce
  have p1: "\<forall>k a. m1 k = Some a \<longrightarrow> P k a" using entry [OF 1] pre by blast
  show "m' k = Some a \<Longrightarrow> P k a"
  proof (cases "is_ok r1")
    case False
    then have "m' = m1" using run 1 by (cases r1) (auto simp: append_both_def)
    then show "m' k = Some a \<Longrightarrow> P k a" using p1 by simp
  next
    case True
    then have r1: "r1 = Ok ()" by (auto simp: is_ok_iff)
    obtain a0 a1 where a: "m x = Some a0" "app b1 t a0 = (Ok (), a1)" "m1 = m(x \<mapsto> a1)"
      using 1 r1 by (auto simp: on_entry_ok)
    obtain r2 m2 where 2: "on_entry y (app b2 t) m1 = (r2, m2)" by fastforce
    have p2: "\<forall>k a. m2 k = Some a \<longrightarrow> P k a" using entry [OF 2 p1] .
    show "m' k = Some a \<Longrightarrow> P k a"
    proof (cases "\<exists>e. r2 = Err e")
      case False
      then have "m' = m2" using run 1 2 r1 by (cases r2) (auto simp: append_both_def)
      then show "m' k = Some a \<Longrightarrow> P k a" using p2 by simp
    next
      case True
      then obtain e where r2: "r2 = Err e" by blast
      have m2: "m2 = m1"
        using 2 r2 append_failed [of b2 t]
        by (auto simp: on_entry_def fun_upd_idem split: option.splits prod.splits)
      obtain r3 a2 where 3: "rb t a1 = (r3, a2)" by fastforce
      have "m' = m2(x \<mapsto> a2)"
        using run 1 2 r1 r2 m2 a 3
        by (cases r3) (auto simp: append_both_def on_entry_def)
      then show "m' k = Some a \<Longrightarrow> P k a"
        using p2 rb [OF a(1,2) 3] pre [OF a(1)] by (auto split: if_splits)
    qed
  qed
qed

end

end
