(* ===== verification/App.thy ===== *)
theory App
  imports Account_Laws Requests TwoPhase
begin

text \<open>
  \<^verbatim>\<open>internal/scalegraph/app.go\<close>: the map of accounts and the operations on it.  Logging is left
  out, and so are the mutexes: all requests run in the server's one goroutine.  An account
  pointer in the map is the account itself, found under its id; the ids a call draws at random
  (transaction, blocks, genesis block) are the argument \<open>d\<close>.
\<close>

record App =
  accounts :: "ScalegraphId \<rightharpoonup> Account"

type_synonym 'r app_call = "(error, 'r, App) call"

record draws =
  d_tx :: ScalegraphId
  d_block1 :: ScalegraphId
  d_block2 :: ScalegraphId
  d_genesis :: ScalegraphId

definition NewApp :: App where
  "NewApp = \<lparr>accounts = Map.empty\<rparr>"

text \<open>\<^verbatim>\<open>acc.appendTransaction(trx)\<close> on the account stored under \<open>x\<close>.\<close>

definition append_one :: "ScalegraphId \<Rightarrow> ScalegraphId \<Rightarrow> transaction \<Rightarrow> App \<Rightarrow> unit app_call" where
  "append_one b x t app =
     (case on_entry x (appendTransaction b t) (accounts app) of
        (r, m) \<Rightarrow> (r, app\<lparr>accounts := m\<rparr>))"

text \<open>Append to \<open>x\<close>, then to \<open>y\<close>; when the second fails, roll \<open>x\<close> back and report its error.\<close>

definition append_rollback ::
    "ScalegraphId \<Rightarrow> ScalegraphId \<Rightarrow> ScalegraphId \<Rightarrow> ScalegraphId \<Rightarrow> transaction \<Rightarrow> App \<Rightarrow> unit app_call" where
  "append_rollback b1 b2 x y t app =
     (case append_both appendTransaction rollbacklatestTransaction b1 b2 x y t (accounts app) of
        (r, m) \<Rightarrow> (r, app\<lparr>accounts := m\<rparr>))"

section \<open>Funds\<close>

text \<open>\<^verbatim>\<open>Mint\<close> drops the error of \<^verbatim>\<open>appendTransaction\<close>.\<close>

definition app_Mint :: "draws \<Rightarrow> MintRequest \<Rightarrow> App \<Rightarrow> unit app_call" where
  "app_Mint d req app =
     (case accounts app (mr_To req) of
        None \<Rightarrow> (Err (AccountNotFound ''destination'' (mr_To req)), app)
      | Some toAcc \<Rightarrow>
        (let mintTx = newMintTransaction (d_tx d) (acc_id toAcc) (mr_Amount req) in
         case append_one (d_block1 d) (mr_To req) mintTx app of
           (Panic, app') \<Rightarrow> (Panic, app')
         | (_, app') \<Rightarrow> (Ok (), app')))"

definition CreateAccountWithKeys ::
    "(byte list \<Rightarrow> ScalegraphId) \<Rightarrow> draws \<Rightarrow> byte list \<Rightarrow> Certificate option \<Rightarrow> float64 \<Rightarrow> App \<Rightarrow> Account app_call" where
  "CreateAccountWithKeys sha1 d pubKey cert initialBalance app =
     (let i = ScalegraphIdFromPublicKey sha1 pubKey in
      if accounts app i \<noteq> None then (Err (AccountExists i), app)
      else
        (let acc = newAccountWithPublicKey sha1 (d_genesis d) pubKey cert;
             app1 = app\<lparr>accounts := (accounts app)(acc_id acc \<mapsto> acc)\<rparr> in
         if flt f0 initialBalance
         then (case app_Mint d \<lparr>mr_To = acc_id acc, mr_Amount = initialBalance\<rparr> app1 of
                 (Ok _, app2) \<Rightarrow>
                   (case accounts app2 (acc_id acc) of
                      None \<Rightarrow> (Panic, app2)
                    | Some acc' \<Rightarrow> (Ok acc', app2))
               | (Err e, app2) \<Rightarrow>
                   (Err (Failed ''mint initial balance'' e),
                    app2\<lparr>accounts := (accounts app2)(acc_id acc := None)\<rparr>)
               | (Panic, app2) \<Rightarrow> (Panic, app2))
         else (Ok acc, app1)))"

definition GetAccountCertAndPublicKey ::
    "ScalegraphId \<Rightarrow> App \<Rightarrow> (error, Certificate option \<times> byte list) outcome" where
  "GetAccountCertAndPublicKey accountID app =
     (case accounts app accountID of
        None \<Rightarrow> Err (AccountNotFound ''account'' accountID)
      | Some acc \<Rightarrow> Ok (certificate acc, publicKey acc))"

text \<open>The slice is filled by ranging over a Go map: a set.\<close>

definition GetAccounts :: "App \<Rightarrow> Account set" where
  "GetAccounts app = ran (accounts app)"

definition GetAccount :: "GetAccountRequest \<Rightarrow> App \<Rightarrow> (error, Account) outcome" where
  "GetAccount req app =
     (case accounts app (ga_AccountID req) of
        None \<Rightarrow> Err (AccountNotFound ''account'' (ga_AccountID req))
      | Some acc \<Rightarrow> Ok acc)"

definition AccountCount :: "App \<Rightarrow> int" where
  "AccountCount app = int (card (dom (accounts app)))"

text \<open>The token of the response is nil when the account does not exist.\<close>

definition LookupToken :: "LookupTokenRequest \<Rightarrow> App \<Rightarrow> (error, Token option) outcome" where
  "LookupToken req app =
     (case accounts app (lt_AccountID req) of
        None \<Rightarrow> Ok None
      | Some acc \<Rightarrow>
        (case GetToken (lt_TokenID req) acc of
           None \<Rightarrow> Err (TokenNotFound (lt_TokenID req) (lt_AccountID req))
         | Some token \<Rightarrow> Ok (Some token)))"

definition app_Transfer :: "draws \<Rightarrow> TransferRequest \<Rightarrow> App \<Rightarrow> unit app_call" where
  "app_Transfer d req app =
     (case accounts app (tr_From req) of
        None \<Rightarrow> (Err (AccountNotFound ''source'' (tr_From req)), app)
      | Some fromAcc \<Rightarrow>
     (case accounts app (tr_To req) of
        None \<Rightarrow> (Err (AccountNotFound ''destination'' (tr_To req)), app)
      | Some toAcc \<Rightarrow>
        if tr_From req = tr_To req then (Err SelfTransferNotAllowed, app)
        else if tr_Nonce req \<noteq> GetNonce fromAcc
        then (Err (NonceMismatch (GetNonce fromAcc) (tr_Nonce req)), app)
        else
          (let transferTx =
             newTransferTransaction (d_tx d) (acc_id fromAcc) (acc_id toAcc) (tr_Amount req) in
           case append_one (d_block1 d) (tr_From req) transferTx app of
             (Err e, app1) \<Rightarrow> (Err e, app1)
           | (Panic, app1) \<Rightarrow> (Panic, app1)
           | (Ok _, app1) \<Rightarrow> append_one (d_block2 d) (tr_To req) transferTx app1)))"

section \<open>Tokens\<close>

text \<open>
  \<^verbatim>\<open>MintToken\<close> reads the envelope without a nil check, and compares the signed nonce of the
  request with \<^verbatim>\<open>int64(toAcc.GetNonce())\<close>: the same 64 bits.
\<close>

definition app_MintToken :: "draws \<Rightarrow> MintTokenRequest \<Rightarrow> App \<Rightarrow> string app_call" where
  "app_MintToken d req app =
     (case mt_SignedEnvelope req of
        None \<Rightarrow> (Panic, app)
      | Some env \<Rightarrow>
     (case ScalegraphIdFromString (SignerID (env_Signature env)) of
        Panic \<Rightarrow> (Panic, app)
      | Err e \<Rightarrow> (Err (InvalidSignerID e), app)
      | Ok signerID \<Rightarrow>
     (case accounts app signerID of
        None \<Rightarrow> (Err (AccountNotFound ''destination'' signerID), app)
      | Some toAcc \<Rightarrow>
        if mt_Nonce req \<noteq> GetNonce toAcc
        then (Err (NonceMismatch (GetNonce toAcc) (mt_Nonce req)), app)
        else
          (let token = newToken (mt_TokenValue req) (env_Signature env) (mt_ClawbackAddress req)
                         (mt_FreezeAddress req) (mt_Nonce req);
               mintTokenTx = newMintTokenTransaction (d_tx d) (acc_id toAcc) token in
           case append_one (d_block1 d) signerID mintTokenTx app of
             (Ok _, app') \<Rightarrow> (Ok (token_ID token), app')
           | (Err e, app') \<Rightarrow> (Err e, app')
           | (Panic, app') \<Rightarrow> (Panic, app')))))"

definition app_AuthorizeTokenTransfer ::
    "draws \<Rightarrow> AuthorizeTokenTransferRequest \<Rightarrow> App \<Rightarrow> unit app_call" where
  "app_AuthorizeTokenTransfer d req app =
     (case accounts app (at_AccountID req) of
        None \<Rightarrow> (Err (AccountNotFound ''account'' (at_AccountID req)), app)
      | Some authorizerAcc \<Rightarrow>
     (case accounts app (at_TokenOwnerID req) of
        None \<Rightarrow> (Err (AccountNotFound ''token owner'' (at_TokenOwnerID req)), app)
      | Some tokenOwnerAcc \<Rightarrow>
        if at_Nonce req \<noteq> GetNonce authorizerAcc
        then (Err (NonceMismatch (GetNonce authorizerAcc) (at_Nonce req)), app)
        else append_rollback (d_block1 d) (d_block2 d) (at_AccountID req) (at_TokenOwnerID req)
               (newAuthorizeTokenTransferTransaction (d_tx d) (acc_id authorizerAcc)
                  (acc_id tokenOwnerAcc) (at_TokenId req) (at_Nonce req)) app))"

definition app_UnauthorizeTokenTransfer ::
    "draws \<Rightarrow> UnauthorizeTokenTransferRequest \<Rightarrow> App \<Rightarrow> unit app_call" where
  "app_UnauthorizeTokenTransfer d req app =
     (case accounts app (ut_AccountID req) of
        None \<Rightarrow> (Err (AccountNotFound ''account'' (ut_AccountID req)), app)
      | Some authorizerAcc \<Rightarrow>
     (case accounts app (ut_TokenOwnerID req) of
        None \<Rightarrow> (Err (AccountNotFound ''token owner'' (ut_TokenOwnerID req)), app)
      | Some tokenOwnerAcc \<Rightarrow>
        if ut_Nonce req \<noteq> GetNonce authorizerAcc
        then (Err (NonceMismatch (GetNonce authorizerAcc) (ut_Nonce req)), app)
        else append_rollback (d_block1 d) (d_block2 d) (ut_AccountID req) (ut_TokenOwnerID req)
               (newUnauthorizeTokenTransferTransaction (d_tx d) (acc_id authorizerAcc)
                  (acc_id tokenOwnerAcc) (ut_TokenId req) (ut_Nonce req)) app))"

definition app_TransferToken :: "draws \<Rightarrow> TransferTokenRequest \<Rightarrow> App \<Rightarrow> unit app_call" where
  "app_TransferToken d req app =
     (case accounts app (tt_From req) of
        None \<Rightarrow> (Err (AccountNotFound ''source'' (tt_From req)), app)
      | Some fromAcc \<Rightarrow>
     (case accounts app (tt_To req) of
        None \<Rightarrow> (Err (AccountNotFound ''destination'' (tt_To req)), app)
      | Some toAcc \<Rightarrow>
     (case GetToken (tt_TokenId req) fromAcc of
        None \<Rightarrow> (Err (TokenNotFound (tt_TokenId req) (tt_From req)), app)
      | Some token \<Rightarrow>
        if tt_Nonce req \<noteq> GetNonce fromAcc
        then (Err (NonceMismatch (GetNonce fromAcc) (tt_Nonce req)), app)
        else append_rollback (d_block1 d) (d_block2 d) (tt_From req) (tt_To req)
               (newTransferTokenTransaction (d_tx d) (acc_id fromAcc) (acc_id toAcc) token
                  (tt_Nonce req)) app)))"

definition app_BurnToken :: "draws \<Rightarrow> BurnTokenRequest \<Rightarrow> App \<Rightarrow> unit app_call" where
  "app_BurnToken d req app =
     (case accounts app (bt_AccountID req) of
        None \<Rightarrow> (Err (AccountNotFound ''account'' (bt_AccountID req)), app)
      | Some acc \<Rightarrow>
        if bt_Nonce req \<noteq> GetNonce acc
        then (Err (NonceMismatch (GetNonce acc) (bt_Nonce req)), app)
        else append_one (d_block1 d) (bt_AccountID req)
               (newBurnTokenTransaction (d_tx d) (acc_id acc) (bt_TokenId req) (bt_Nonce req)) app)"

text \<open>
  \<^verbatim>\<open>token.ClawbackAddress().String()\<close> on a token without a clawback address dereferences nil.
\<close>

definition app_ClawbackToken :: "draws \<Rightarrow> ClawbackTokenRequest \<Rightarrow> App \<Rightarrow> unit app_call" where
  "app_ClawbackToken d req app =
     (case accounts app (ct_From req) of
        None \<Rightarrow> (Err (AccountNotFound ''source'' (ct_From req)), app)
      | Some fromAcc \<Rightarrow>
     (case accounts app (ct_To req) of
        None \<Rightarrow> (Err (AccountNotFound ''destination'' (ct_To req)), app)
      | Some toAcc \<Rightarrow>
     (case GetToken (ct_TokenId req) fromAcc of
        None \<Rightarrow> (Err (TokenNotFound (ct_TokenId req) (ct_From req)), app)
      | Some token \<Rightarrow>
     (case clawbackAddress token of
        None \<Rightarrow> (Panic, app)
      | Some clawAddr \<Rightarrow>
        if id_String clawAddr \<noteq> id_String (acc_id toAcc)
        then (Err (ClawbackAddressMismatch clawAddr (ct_To req)), app)
        else if ct_Nonce req \<noteq> GetNonce toAcc
        then (Err (NonceMismatch (GetNonce toAcc) (ct_Nonce req)), app)
        else append_rollback (d_block1 d) (d_block2 d) (ct_From req) (ct_To req)
               (newClawbackTokenTransaction (d_tx d) (acc_id fromAcc) (acc_id toAcc) token
                  (ct_Nonce req)) app))))"

definition app_FreezeToken :: "draws \<Rightarrow> FreezeTokenRequest \<Rightarrow> App \<Rightarrow> unit app_call" where
  "app_FreezeToken d req app =
     (case accounts app (fz_FreezeAuthority req) of
        None \<Rightarrow> (Err (AccountNotFound ''freeze authority'' (fz_FreezeAuthority req)), app)
      | Some authorityAcc \<Rightarrow>
     (case accounts app (fz_TokenHolder req) of
        None \<Rightarrow> (Err (AccountNotFound ''token holder'' (fz_TokenHolder req)), app)
      | Some holderAcc \<Rightarrow>
     (case GetToken (fz_TokenId req) holderAcc of
        None \<Rightarrow> (Err (TokenNotFound (fz_TokenId req) (fz_TokenHolder req)), app)
      | Some token \<Rightarrow>
        if \<not> (case freezeAddress token of
               None \<Rightarrow> False
             | Some i \<Rightarrow> id_String i = id_String (fz_FreezeAuthority req))
        then (Err (NotFreezeAuthority (fz_FreezeAuthority req) (fz_TokenId req)), app)
        else if fz_Nonce req \<noteq> GetNonce authorityAcc
        then (Err (NonceMismatch (GetNonce authorityAcc) (fz_Nonce req)), app)
        else append_rollback (d_block1 d) (d_block2 d) (fz_FreezeAuthority req) (fz_TokenHolder req)
               (newFreezeTokenTransaction (d_tx d) (acc_id authorityAcc) (acc_id holderAcc)
                  (fz_TokenId req) (fz_Nonce req)) app)))"

definition app_UnfreezeToken :: "draws \<Rightarrow> UnfreezeTokenRequest \<Rightarrow> App \<Rightarrow> unit app_call" where
  "app_UnfreezeToken d req app =
     (case accounts app (uf_FreezeAuthority req) of
        None \<Rightarrow> (Err (AccountNotFound ''freeze authority'' (uf_FreezeAuthority req)), app)
      | Some authorityAcc \<Rightarrow>
     (case accounts app (uf_TokenHolder req) of
        None \<Rightarrow> (Err (AccountNotFound ''token holder'' (uf_TokenHolder req)), app)
      | Some holderAcc \<Rightarrow>
     (case GetToken (uf_TokenId req) holderAcc of
        None \<Rightarrow> (Err (TokenNotFound (uf_TokenId req) (uf_TokenHolder req)), app)
      | Some token \<Rightarrow>
        if \<not> (case freezeAddress token of
               None \<Rightarrow> False
             | Some i \<Rightarrow> id_String i = id_String (uf_FreezeAuthority req))
        then (Err (NotFreezeAuthority (uf_FreezeAuthority req) (uf_TokenId req)), app)
        else if uf_Nonce req \<noteq> GetNonce authorityAcc
        then (Err (NonceMismatch (GetNonce authorityAcc) (uf_Nonce req)), app)
        else append_rollback (d_block1 d) (d_block2 d) (uf_FreezeAuthority req) (uf_TokenHolder req)
               (newUnfreezeTokenTransaction (d_tx d) (acc_id authorityAcc) (acc_id holderAcc)
                  (uf_TokenId req) (uf_Nonce req)) app)))"

lemmas app_op_defs = app_Mint_def CreateAccountWithKeys_def app_Transfer_def app_MintToken_def
  app_AuthorizeTokenTransfer_def app_UnauthorizeTokenTransfer_def app_TransferToken_def
  app_BurnToken_def app_ClawbackToken_def app_FreezeToken_def app_UnfreezeToken_def

lemmas app_query_defs = GetAccountCertAndPublicKey_def GetAccounts_def GetAccount_def
  AccountCount_def LookupToken_def

declare app_op_defs [model_defs] append_one_def [model_defs] append_rollback_def [model_defs]

end
