(* ===== verification/App_Laws.thy ===== *)
theory App_Laws
  imports App
begin

text \<open>
  The invariant of the account map and its preservation by every operation of \<^verbatim>\<open>App\<close>, through
  the contract \<open>two_phase\<close> of appending to two accounts; the step relation of the App and its
  reachable states.
\<close>

section \<open>The contract of two-account updates, provided by accounts\<close>

interpretation two: two_phase appendTransaction rollbacklatestTransaction
  "\<lambda>t a. undoable t a \<and> chain_ok (blockchain a)"
  by unfold_locales (auto dest: appendTransaction_failed rollback_undoes_append)

text \<open>The transactions an App operation appends to two accounts with a rollback.\<close>

fun two_account_tx :: "transaction \<Rightarrow> bool" where
  "two_account_tx (TransferTokenTransaction _ _ _ _ _) = True"
| "two_account_tx (AuthorizeTokenTransferTransaction _ _ _ _ _) = True"
| "two_account_tx (UnauthorizeTokenTransferTransaction _ _ _ _ _) = True"
| "two_account_tx (ClawbackTokenTransaction _ _ _ _ _) = True"
| "two_account_tx (FreezeTokenTransaction _ _ _ _ _) = True"
| "two_account_tx (UnfreezeTokenTransaction _ _ _ _ _) = True"
| "two_account_tx _ = False"

lemma rollback_handler_keeps_aux:
  "(r, a2) = txRollbackHandler t (snd (txHandler t a)) \<Longrightarrow> fst (txHandler t a) = Ok () \<Longrightarrow>
   two_account_tx t \<Longrightarrow> tx_Sender t = Some (acc_id a) \<Longrightarrow>
   r = Ok () \<and> balance a2 = balance a \<and> outgoingTxCount a2 = outgoingTxCount a"
  by (cases a; cases t)
    (auto simp: handler_defs rollback_defs store_op_defs Let_def split: handler_splits)

lemma rollback_handler_keeps:
  assumes "txHandler t a = (Ok (), a1)" "txRollbackHandler t a1 = (r, a2)"
    and "two_account_tx t" "tx_Sender t = Some (acc_id a)"
  shows "r = Ok ()" "balance a2 = balance a" "outgoingTxCount a2 = outgoingTxCount a"
  using rollback_handler_keeps_aux [of r a2 t a] assms by auto

lemma rollback_handler_store:
  assumes "txRollbackHandler t a = (r, a')" "finite (dom (tokenStore a))" "keys_ok (tokenStore a)"
  shows "finite (dom (tokenStore a')) \<and> keys_ok (tokenStore a')"
  using assms
  by (cases t)
    (auto simp: rollback_defs store_op_defs Let_def split: handler_splits
      intro!: keys_ok_upd dest!: keys_okD [OF assms(3)])

lemma rollback_acct_ok:
  assumes "appendTransaction b t a = (Ok (), a1)" "rollbacklatestTransaction t a1 = (r, a2)"
    and "acct_ok a" "two_account_tx t" "tx_Sender t = Some (acc_id a)"
  shows "acct_ok a2"
proof -
  from assms(1) obtain h where h: "txHandler t a = (Ok (), h)"
    by (auto simp: appendTransaction_ok_iff)
  obtain s a3 where s: "txRollbackHandler t h = (s, a3)" by fastforce
  have "chain_ok (blockchain a)" using assms(3) by (simp add: acct_ok_def)
  from rollback_after_append [OF assms(1) this] assms(2) h s
  have "a2 = a3" by (cases s) auto
  moreover note rollback_handler_keeps [OF h s assms(4,5)] rollback_handler_frame [OF s]
    handler_frame [OF h] handler_store [OF h] rollback_handler_store [OF s]
  ultimately show ?thesis using assms(3) by (simp add: acct_ok_def)
qed

section \<open>The invariant of the account map\<close>

definition acct_at :: "(byte list \<Rightarrow> ScalegraphId) \<Rightarrow> ScalegraphId \<Rightarrow> Account \<Rightarrow> bool" where
  "acct_at sha1 i a \<longleftrightarrow>
     acc_id a = i \<and> i = ScalegraphIdFromPublicKey sha1 (publicKey a) \<and> acct_ok a"

definition app_ok :: "(byte list \<Rightarrow> ScalegraphId) \<Rightarrow> App \<Rightarrow> bool" where
  "app_ok sha1 app \<longleftrightarrow>
     finite (dom (accounts app)) \<and> (\<forall>i a. accounts app i = Some a \<longrightarrow> acct_at sha1 i a)"

lemma app_okD: "app_ok sha1 app \<Longrightarrow> accounts app i = Some a \<Longrightarrow> acct_at sha1 i a"
  by (simp add: app_ok_def)

lemma app_ok_id: "app_ok sha1 app \<Longrightarrow> accounts app i = Some a \<Longrightarrow> acc_id a = i"
  by (auto simp: app_ok_def acct_at_def)

lemma append_acct_at:
  "appendTransaction b t a = (r, a') \<Longrightarrow> acct_at sha1 i a \<Longrightarrow> acct_at sha1 i a'"
  using appendTransaction_frame [of b t a r a'] appendTransaction_acct_ok [of b t a r a']
  by (auto simp: acct_at_def)

lemma append_one_ok:
  assumes "append_one b x t app = (r, app')" "app_ok sha1 app"
  shows "app_ok sha1 app'"
  using assms append_acct_at
  by (fastforce simp: append_one_def on_entry_def app_ok_def
      split: prod.splits option.splits if_splits)

lemma append_rollback_ok:
  assumes "append_rollback b1 b2 x y t app = (r, app')" "app_ok sha1 app"
    and "two_account_tx t" "tx_Sender t = Some x"
  shows "app_ok sha1 app'"
proof -
  obtain m where m: "append_both appendTransaction rollbacklatestTransaction b1 b2 x y t
      (accounts app) = (r, m)" and app': "app' = app\<lparr>accounts := m\<rparr>"
    using assms(1) by (auto simp: append_rollback_def split: prod.splits)
  have "acct_at sha1 i a" if "m i = Some a" for i a
    using m _ _ _ that
  proof (rule two.append_both_keeps [where P = "acct_at sha1"])
    fix b a a1 r a2
    assume *: "accounts app x = Some a" "appendTransaction b t a = (Ok (), a1)"
      "rollbacklatestTransaction t a1 = (r, a2)" "acct_at sha1 x a"
    then have "acct_ok a2"
      using rollback_acct_ok [of b t a a1 r a2] assms(3,4) by (auto simp: acct_at_def)
    with * appendTransaction_frame [OF *(2)] rollback_latest_frame [OF *(3)]
    show "acct_at sha1 x a2" by (simp add: acct_at_def)
  qed (use assms(2) append_acct_at in \<open>auto simp: app_ok_def\<close>)
  then show ?thesis using append_both_dom [OF m] assms(2) by (simp add: app_ok_def app')
qed

lemma NewApp_ok: "app_ok sha1 NewApp"
  by (simp add: app_ok_def NewApp_def)

lemma new_account_at:
  "acct_at sha1 (ScalegraphIdFromPublicKey sha1 pk) (newAccountWithPublicKey sha1 g pk cert)"
  using acct_ok_new by (simp add: acct_at_def) (simp add: newAccountWithPublicKey_def)

lemma new_account_id [simp]:
  "acc_id (newAccountWithPublicKey sha1 g pk cert) = ScalegraphIdFromPublicKey sha1 pk"
  by (simp add: newAccountWithPublicKey_def)

lemma add_account_ok:
  "app_ok sha1 app \<Longrightarrow> acct_at sha1 i a \<Longrightarrow> app_ok sha1 (app\<lparr>accounts := (accounts app)(i \<mapsto> a)\<rparr>)"
  by (auto simp: app_ok_def)

lemma delete_account_ok:
  "app_ok sha1 app \<Longrightarrow> app_ok sha1 (app\<lparr>accounts := (accounts app)(i := None)\<rparr>)"
  by (auto simp: app_ok_def)

section \<open>Every operation keeps it\<close>

lemmas op_splits = option.splits prod.splits outcome.splits if_splits

lemma Mint_ok: "app_Mint d req app = (r, app') \<Longrightarrow> app_ok sha1 app \<Longrightarrow> app_ok sha1 app'"
  by (auto simp: app_Mint_def Let_def split: op_splits dest: append_one_ok)

lemma CreateAccountWithKeys_ok:
  "CreateAccountWithKeys sha1 d pk cert bal app = (r, app') \<Longrightarrow> app_ok sha1 app \<Longrightarrow> app_ok sha1 app'"
  using add_account_ok [OF _ new_account_at, of sha1 app pk "d_genesis d" cert]
  by (auto simp: CreateAccountWithKeys_def Let_def split: op_splits dest: Mint_ok delete_account_ok)

lemma Transfer_ok: "app_Transfer d req app = (r, app') \<Longrightarrow> app_ok sha1 app \<Longrightarrow> app_ok sha1 app'"
  by (auto simp: app_Transfer_def Let_def split: op_splits dest: append_one_ok)

lemma MintToken_ok: "app_MintToken d req app = (r, app') \<Longrightarrow> app_ok sha1 app \<Longrightarrow> app_ok sha1 app'"
  by (auto simp: app_MintToken_def Let_def split: op_splits dest: append_one_ok)

lemma BurnToken_ok: "app_BurnToken d req app = (r, app') \<Longrightarrow> app_ok sha1 app \<Longrightarrow> app_ok sha1 app'"
  by (auto simp: app_BurnToken_def Let_def split: op_splits dest: append_one_ok)

lemma AuthorizeTokenTransfer_ok:
  "app_AuthorizeTokenTransfer d req app = (r, app') \<Longrightarrow> app_ok sha1 app \<Longrightarrow> app_ok sha1 app'"
  by (auto simp: app_AuthorizeTokenTransfer_def new_tx_defs app_ok_id split: op_splits
      dest: append_rollback_ok)

lemma UnauthorizeTokenTransfer_ok:
  "app_UnauthorizeTokenTransfer d req app = (r, app') \<Longrightarrow> app_ok sha1 app \<Longrightarrow> app_ok sha1 app'"
  by (auto simp: app_UnauthorizeTokenTransfer_def new_tx_defs app_ok_id split: op_splits
      dest: append_rollback_ok)

lemma TransferToken_ok:
  "app_TransferToken d req app = (r, app') \<Longrightarrow> app_ok sha1 app \<Longrightarrow> app_ok sha1 app'"
  by (auto simp: app_TransferToken_def new_tx_defs app_ok_id split: op_splits
      dest: append_rollback_ok)

lemma ClawbackToken_ok:
  "app_ClawbackToken d req app = (r, app') \<Longrightarrow> app_ok sha1 app \<Longrightarrow> app_ok sha1 app'"
  by (auto simp: app_ClawbackToken_def new_tx_defs app_ok_id split: op_splits
      dest: append_rollback_ok)

lemma FreezeToken_ok:
  "app_FreezeToken d req app = (r, app') \<Longrightarrow> app_ok sha1 app \<Longrightarrow> app_ok sha1 app'"
  by (auto simp: app_FreezeToken_def new_tx_defs app_ok_id split: op_splits
      dest: append_rollback_ok)

lemma UnfreezeToken_ok:
  "app_UnfreezeToken d req app = (r, app') \<Longrightarrow> app_ok sha1 app \<Longrightarrow> app_ok sha1 app'"
  by (auto simp: app_UnfreezeToken_def new_tx_defs app_ok_id split: op_splits
      dest: append_rollback_ok)

section \<open>The App as a transition system\<close>

text \<open>
  One step is one call of an operation, whatever it returns.  The operations come in three
  groups: \<open>base_step\<close>, those that neither freeze nor mint a token; \<open>ledger_step\<close>, which adds
  \<^verbatim>\<open>FreezeToken\<close> and \<^verbatim>\<open>UnfreezeToken\<close>; and \<open>app_step\<close>, all of them, with \<^verbatim>\<open>MintToken\<close>, the one
  that brings new tokens into being.
\<close>

inductive base_step :: "(byte list \<Rightarrow> ScalegraphId) \<Rightarrow> App \<Rightarrow> App \<Rightarrow> bool" for sha1 where
  Create: "CreateAccountWithKeys sha1 d pk cert bal app = (ra, app') \<Longrightarrow> base_step sha1 app app'"
| Mint: "app_Mint d mreq app = (r, app') \<Longrightarrow> base_step sha1 app app'"
| Transfer: "app_Transfer d treq app = (r, app') \<Longrightarrow> base_step sha1 app app'"
| Authorize: "app_AuthorizeTokenTransfer d areq app = (r, app') \<Longrightarrow> base_step sha1 app app'"
| Unauthorize: "app_UnauthorizeTokenTransfer d ureq app = (r, app') \<Longrightarrow> base_step sha1 app app'"
| TransferToken: "app_TransferToken d ttreq app = (r, app') \<Longrightarrow> base_step sha1 app app'"
| BurnToken: "app_BurnToken d breq app = (r, app') \<Longrightarrow> base_step sha1 app app'"
| Clawback: "app_ClawbackToken d creq app = (r, app') \<Longrightarrow> base_step sha1 app app'"

inductive ledger_step :: "(byte list \<Rightarrow> ScalegraphId) \<Rightarrow> App \<Rightarrow> App \<Rightarrow> bool" for sha1 where
  Base: "base_step sha1 app app' \<Longrightarrow> ledger_step sha1 app app'"
| Freeze: "app_FreezeToken d freq app = (r, app') \<Longrightarrow> ledger_step sha1 app app'"
| Unfreeze: "app_UnfreezeToken d ufreq app = (r, app') \<Longrightarrow> ledger_step sha1 app app'"

inductive app_step :: "(byte list \<Rightarrow> ScalegraphId) \<Rightarrow> App \<Rightarrow> App \<Rightarrow> bool" for sha1 where
  Ledger: "ledger_step sha1 app app' \<Longrightarrow> app_step sha1 app app'"
| MintToken: "app_MintToken d mtreq app = (rs, app') \<Longrightarrow> app_step sha1 app app'"

inductive_cases base_stepE: "base_step sha1 app app'"
inductive_simps ledger_step_iff: "ledger_step sha1 app app'"
inductive_simps app_step_iff: "app_step sha1 app app'"

lemmas op_ok_lemmas = CreateAccountWithKeys_ok Mint_ok Transfer_ok
  AuthorizeTokenTransfer_ok UnauthorizeTokenTransfer_ok TransferToken_ok BurnToken_ok ClawbackToken_ok

lemma base_step_ok: "base_step sha1 app app' \<Longrightarrow> app_ok sha1 app \<Longrightarrow> app_ok sha1 app'"
  by (erule base_stepE) (erule (1) op_ok_lemmas)+

lemma ledger_step_ok: "ledger_step sha1 app app' \<Longrightarrow> app_ok sha1 app \<Longrightarrow> app_ok sha1 app'"
  by (auto simp: ledger_step_iff intro: base_step_ok FreezeToken_ok UnfreezeToken_ok)

lemma app_step_ok: "app_step sha1 app app' \<Longrightarrow> app_ok sha1 app \<Longrightarrow> app_ok sha1 app'"
  by (auto simp: app_step_iff intro: ledger_step_ok MintToken_ok)

definition app_reachable :: "(byte list \<Rightarrow> ScalegraphId) \<Rightarrow> App \<Rightarrow> bool" where
  "app_reachable sha1 app \<longleftrightarrow> (app_step sha1)\<^sup>*\<^sup>* NewApp app"

interpretation app: transition_invariant "\<lambda>app. app = NewApp" "app_step sha1" "app_ok sha1"
  for sha1
  by unfold_locales (auto simp: NewApp_ok dest: app_step_ok)

lemma reachable_ok: "app_reachable sha1 app \<Longrightarrow> app_ok sha1 app"
  using app.reachable_inv [OF refl] by (simp add: app_reachable_def)

end
