(* ===== verification/Money.thy ===== *)
theory Money
  imports App_Laws
begin

text \<open>
  Funds: what \<^verbatim>\<open>Transfer\<close>, \<^verbatim>\<open>Mint\<close> and \<^verbatim>\<open>CreateAccountWithKeys\<close> do to balances, nonces and
  chains, when the total supply is conserved, and when the minimum balance is respected.
\<close>

section \<open>Balances, nonces and chains agree\<close>

text \<open>
  Property C1.  In every state the App can reach, each account is stored under the id derived
  from its public key, and its balance and nonce are exactly what replaying its own chain from
  the genesis block gives: the balance by applying every transfer and mint in order, the nonce
  by counting the transactions the account signed.
\<close>

theorem reachable_accounts_replay:
  assumes "app_reachable sha1 app" "accounts app i = Some a"
  shows "acc_id a = i \<and> i = ScalegraphIdFromPublicKey sha1 (publicKey a) \<and>
    chain_ok (blockchain a) \<and>
    balance a = replay_balance i (chain_txs (blockchain a)) \<and>
    GetNonce a = replay_nonce i (chain_txs (blockchain a))"
  using app_okD [OF reachable_ok [OF assms(1)] assms(2)]
  by (auto simp: acct_at_def acct_ok_def GetNonce_def)

lemma reachable_step: "app_reachable sha1 app \<Longrightarrow> app_step sha1 app app' \<Longrightarrow> app_reachable sha1 app'"
  by (simp add: app_reachable_def)

lemma reachable_new: "app_reachable sha1 NewApp"
  by (simp add: app_reachable_def)

text \<open>A concrete App for the witnesses: accounts made from one-byte keys under a toy digest.\<close>

definition toy_sha1 :: "byte list \<Rightarrow> ScalegraphId" where
  "toy_sha1 bs = mk_id (replicate 20 (case bs of [] \<Rightarrow> 0 | b # _ \<Rightarrow> b))"

definition toy_draws :: "nat \<Rightarrow> draws" where
  "toy_draws n = \<lparr>d_tx = test_id (n + 100), d_block1 = test_id (n + 101),
     d_block2 = test_id (n + 102), d_genesis = test_id 99\<rparr>"

definition add_toy :: "nat \<Rightarrow> float64 \<Rightarrow> App \<Rightarrow> App" where
  "add_toy n bal app = snd (CreateAccountWithKeys toy_sha1 (toy_draws n) [of_nat n] None bal app)"

definition toy_app :: App where
  "toy_app = add_toy 2 (dy 1073 20) (add_toy 1 (dy 1073 20) NewApp)"

lemma toy_step: "app_reachable toy_sha1 app \<Longrightarrow> app_reachable toy_sha1 (add_toy n bal app)"
  using reachable_step [OF _ app_step.Ledger [OF ledger_step.Base [OF base_step.Create]], of toy_sha1 app] unfolding add_toy_def
  by (metis prod.collapse)

lemma toy_app_reachable: "app_reachable toy_sha1 toy_app"
  unfolding toy_app_def by (intro toy_step reachable_new)

lemma toy_id: "ScalegraphIdFromPublicKey toy_sha1 [of_nat n] = test_id n"
  by (simp add: ScalegraphIdFromPublicKey_def DeriveAccountID_def toy_sha1_def test_id_def)

definition toy_acct :: "nat \<Rightarrow> float64 \<Rightarrow> Account" where
  "toy_acct n bal =
     \<lparr>acc_id = test_id n, balance = bal, mbr = f0,
      blockchain = bc_append (test_id (n + 101))
        (MintTransaction (test_id (n + 100)) None (Some (test_id n)) bal) (newBlockchain (test_id 99)),
      valuestore = Map.empty, publicKey = [of_nat n], certificate = None,
      tokenStore = Map.empty, outgoingTxCount = 0\<rparr>"

lemma f0_fadd_dy: "\<bar>m\<bar> < 2 ^ 53 \<Longrightarrow> k \<le> 1900 \<Longrightarrow> fadd f0 (dy k m) = dy k m"
  by (simp add: f0_dy [of k] fadd_dy)

lemma add_toy_run [concrete_simps]:
  assumes "accounts app (test_id n) = None" "0 < m" "m < 2 ^ 53" "k \<le> 1900"
  shows "add_toy n (dy k m) app =
    app\<lparr>accounts := (accounts app)(test_id n \<mapsto> toy_acct n (dy k m))\<rparr>"
  using assms
  by (simp add: add_toy_def CreateAccountWithKeys_def toy_id Let_def f0_dy [of k] flt_dy
      app_Mint_def append_one_def on_entry_def appendTransaction_def newMintTransaction_def
      handleMintTx_def newAccountWithPublicKey_def toy_acct_def toy_draws_def fadd_dy)

lemma toy_app_accounts [concrete_simps]:
  "accounts toy_app =
   [test_id 1 \<mapsto> toy_acct 1 (dy 1073 20), test_id 2 \<mapsto> toy_acct 2 (dy 1073 20)]"
proof -
  have 1: "add_toy 1 (dy 1073 20) NewApp = \<lparr>accounts = [test_id 1 \<mapsto> toy_acct 1 (dy 1073 20)]\<rparr>"
    by (simp add: add_toy_run NewApp_def)
  show ?thesis
    unfolding toy_app_def 1 by (simp add: add_toy_run test_id_eq)
qed

lemma toy_acct_simps [concrete_simps]:
  "acc_id (toy_acct n bal) = test_id n" "balance (toy_acct n bal) = bal"
  "mbr (toy_acct n bal) = f0" "tokenStore (toy_acct n bal) = Map.empty"
  "outgoingTxCount (toy_acct n bal) = 0"
  by (simp_all add: toy_acct_def)

theorem reachable_accounts_replay_witness:
  "GetNonce (toy_acct 1 (dy 1073 20)) =
   replay_nonce (test_id 1) (chain_txs (blockchain (toy_acct 1 (dy 1073 20))))"
  using reachable_accounts_replay [OF toy_app_reachable, of "test_id 1" "toy_acct 1 (dy 1073 20)"]
  by (simp add: toy_app_accounts test_id_eq)

section \<open>Transfer\<close>

definition debit :: "ScalegraphId \<Rightarrow> transaction \<Rightarrow> float64 \<Rightarrow> Account \<Rightarrow> Account" where
  "debit b t amt a = bump (a\<lparr>balance := fsub (balance a) amt,
     blockchain := bc_append b t (blockchain a)\<rparr>)"

definition credit :: "ScalegraphId \<Rightarrow> transaction \<Rightarrow> float64 \<Rightarrow> Account \<Rightarrow> Account" where
  "credit b t amt a = a\<lparr>balance := fadd (balance a) amt,
     blockchain := bc_append b t (blockchain a)\<rparr>"

definition transfer_result ::
    "draws \<Rightarrow> TransferRequest \<Rightarrow> Account \<Rightarrow> Account \<Rightarrow> App \<Rightarrow> unit app_call" where
  "transfer_result d req a c app =
    (if tr_From req = tr_To req then (Err SelfTransferNotAllowed, app)
     else if tr_Nonce req \<noteq> GetNonce a then (Err (NonceMismatch (GetNonce a) (tr_Nonce req)), app)
     else if flt (fsub (balance a) (mbr a)) (tr_Amount req)
     then (Err (InsufficientBalance ''transfer'' (balance a) (mbr a) (tr_Amount req)), app)
     else (let t = TransferTransaction (d_tx d) (Some (tr_From req)) (Some (tr_To req)) (tr_Amount req)
           in (Ok (), app\<lparr>accounts := (accounts app)
                (tr_From req \<mapsto> debit (d_block1 d) t (tr_Amount req) a,
                 tr_To req \<mapsto> credit (d_block2 d) t (tr_Amount req) c)\<rparr>)))"

lemma transfer_run:
  assumes "app_ok sha1 app" "accounts app (tr_From req) = Some a" "accounts app (tr_To req) = Some c"
  shows "app_Transfer d req app = transfer_result d req a c app"
  using assms(2,3) app_ok_id [OF assms(1,2)] app_ok_id [OF assms(1,3)]
  by (cases app)
    (auto simp: app_Transfer_def append_one_def on_entry_def appendTransaction_def
      newTransferTransaction_def handleTransferTx_def GetNonce_def bump_def Let_def
      debit_def credit_def transfer_result_def fun_upd_idem)

text \<open>
  Property C2.  The complete behaviour of \<^verbatim>\<open>Transfer\<close> between two known accounts.  It refuses a
  self-transfer, a nonce other than the sender's, and an amount above the sender's balance less
  its minimum balance, leaving the App as it was; otherwise it debits the sender and advances
  its nonce by one, credits the receiver, appends the same transaction to both chains, and
  touches nothing else.
\<close>

theorem transfer_behaviour:
  assumes "app_ok sha1 app" "accounts app (tr_From req) = Some a" "accounts app (tr_To req) = Some c"
  shows "app_Transfer d req app = transfer_result d req a c app"
  by (rule transfer_run [OF assms])

definition toy_transfer :: "float64 \<Rightarrow> TransferRequest" where
  "toy_transfer amt = \<lparr>tr_From = test_id 1, tr_To = test_id 2, tr_Amount = amt, tr_Nonce = 0,
     tr_SignedEnvelope = None\<rparr>"

lemma toy_app_ok: "app_ok toy_sha1 toy_app"
  by (rule reachable_ok [OF toy_app_reachable])

lemma toy_transfer_simps [concrete_simps]:
  "tr_From (toy_transfer amt) = test_id 1" "tr_To (toy_transfer amt) = test_id 2"
  "tr_Amount (toy_transfer amt) = amt" "tr_Nonce (toy_transfer amt) = 0"
  by (simp_all add: toy_transfer_def)

theorem transfer_behaviour_witness:
  "fst (app_Transfer (toy_draws 7) (toy_transfer (dy 1073 6)) toy_app) = Ok () \<and>
   fst (app_Transfer (toy_draws 7) (toy_transfer (dy 1073 21)) toy_app) =
     Err (InsufficientBalance ''transfer'' (dy 1073 20) f0 (dy 1073 21))"
  using transfer_behaviour [OF toy_app_ok, of "toy_transfer (dy 1073 6)" "toy_acct 1 (dy 1073 20)"
      "toy_acct 2 (dy 1073 20)" "toy_draws 7"]
    transfer_behaviour [OF toy_app_ok, of "toy_transfer (dy 1073 21)" "toy_acct 1 (dy 1073 20)"
      "toy_acct 2 (dy 1073 20)" "toy_draws 7"]
  by (simp add: transfer_result_def concrete_simps GetNonce_def f0_dy [of 1073] Let_def)

section \<open>Conservation\<close>

definition total_supply :: "App \<Rightarrow> int" where
  "total_supply app = sum_map (\<lambda>a. funits (balance a)) (accounts app)"

lemma debit_credit_simps [simp]:
  "balance (debit b t m a) = fsub (balance a) m" "balance (credit b t m a) = fadd (balance a) m"
  "mbr (debit b t m a) = mbr a" "mbr (credit b t m a) = mbr a"
  by (simp_all add: debit_def credit_def bump_def)

lemma transfer_Ok:
  assumes "app_ok sha1 app" "app_Transfer d req app = (Ok (), app')"
  obtains a c t where "accounts app (tr_From req) = Some a" "accounts app (tr_To req) = Some c"
    and "tr_From req \<noteq> tr_To req" "tr_Nonce req = GetNonce a"
    and "\<not> flt (fsub (balance a) (mbr a)) (tr_Amount req)"
    and "accounts app' = (accounts app)(tr_From req \<mapsto> debit (d_block1 d) t (tr_Amount req) a,
           tr_To req \<mapsto> credit (d_block2 d) t (tr_Amount req) c)"
proof -
  obtain a c where ac: "accounts app (tr_From req) = Some a" "accounts app (tr_To req) = Some c"
    using assms(2) by (auto simp: app_Transfer_def split: option.splits)
  show ?thesis
    using that [OF ac] assms(2) transfer_run [OF assms(1) ac, of d]
    by (auto simp: transfer_result_def Let_def split: if_splits)
qed

text \<open>
  Property C7.  A successful transfer neither creates nor destroys funds: the sum of all
  balances is the same before and after, whenever the two new balances are doubles that need no
  rounding.
\<close>

theorem transfer_conserves_supply:
  assumes "app_ok sha1 app" "app_Transfer d req app = (Ok (), app')"
    and "accounts app (tr_From req) = Some a" "accounts app (tr_To req) = Some c"
    and "balance a = Fin b" "balance c = Fin e" "tr_Amount req = Fin m"
    and "representable (b - m)" "representable (e + m)"
  shows "total_supply app' = total_supply app"
proof -
  from transfer_Ok [OF assms(1,2)] assms(3,4)
  obtain t where ne: "tr_From req \<noteq> tr_To req"
    and acc: "accounts app' = (accounts app)(tr_From req \<mapsto> debit (d_block1 d) t (tr_Amount req) a,
           tr_To req \<mapsto> credit (d_block2 d) t (tr_Amount req) c)"
    by auto
  have fin: "finite (dom (accounts app))" using assms(1) by (simp add: app_ok_def)
  let ?m1 = "(accounts app)(tr_From req \<mapsto> debit (d_block1 d) t (tr_Amount req) a)"
  have "finite (dom ?m1)" "?m1 (tr_To req) = Some c" using fin ne assms(4) by auto
  then show ?thesis
    unfolding total_supply_def acc
    using sum_map_upd_old [OF fin assms(3)] assms(5-9)
    by (simp add: sum_map_upd_old fsub_Fin fround_exact)
qed

theorem transfer_conserves_supply_witness:
  "total_supply (snd (app_Transfer (toy_draws 7) (toy_transfer (dy 1073 6)) toy_app)) = total_supply toy_app"
proof -
  have ok: "app_Transfer (toy_draws 7) (toy_transfer (dy 1073 6)) toy_app =
      (Ok (), snd (app_Transfer (toy_draws 7) (toy_transfer (dy 1073 6)) toy_app))"
    by (simp add: app_Transfer_def append_one_def on_entry_def appendTransaction_def
        newTransferTransaction_def handleTransferTx_def GetNonce_def bump_def Let_def
        concrete_simps f0_dy [of 1073])
  have "representable (20 * 2 ^ 1073 - 6 * 2 ^ 1073)" "representable (20 * 2 ^ 1073 + 6 * 2 ^ 1073)"
    using representable_dyadic [of 14 1073] representable_dyadic [of 26 1073] by simp_all
  then show ?thesis
    using transfer_conserves_supply [OF toy_app_ok ok, of "toy_acct 1 (dy 1073 20)"
        "toy_acct 2 (dy 1073 20)" "20 * 2 ^ 1073" "20 * 2 ^ 1073" "6 * 2 ^ 1073"]
    by (simp only: concrete_simps) (simp add: test_id_eq dy_def)
qed

section \<open>The minimum balance\<close>

definition solvent :: "Account \<Rightarrow> bool" where
  "solvent a \<longleftrightarrow> fle (mbr a) (balance a)"

lemma fround_mono_rep: "representable m \<Longrightarrow> m \<le> x \<Longrightarrow> fle (Fin m) (fround x)"
  by (rule fround_ge)

lemma solvent_credit:
  assumes "fle (Fin l) (Fin b)" "representable l" "0 \<le> m"
  shows "fle (Fin l) (fadd (Fin b) (Fin m))"
proof -
  have "l \<le> b + m" using assms(1,3) by (auto simp: fle_def)
  then show ?thesis using fround_ge [OF assms(2)] by simp
qed


lemma toy_transfer_Ok:
  assumes "m \<le> 20" "- 100 < m"
  shows "app_Transfer (toy_draws 7) (toy_transfer (dy 1073 m)) toy_app =
    (Ok (), snd (app_Transfer (toy_draws 7) (toy_transfer (dy 1073 m)) toy_app))"
  using assms
  by (simp add: app_Transfer_def append_one_def on_entry_def appendTransaction_def
      newTransferTransaction_def handleTransferTx_def GetNonce_def bump_def Let_def
      concrete_simps f0_dy [of 1073])


text \<open>
  \<^verbatim>\<open>Transfer\<close> has no lower bound on the amount: a transfer of a negative amount
  \<open>- m\<close>, which only the sender has to sign, succeeds and moves \<open>m\<close> from the receiver to the
  sender, without any check of the receiver's balance or minimum balance.
\<close>

theorem negative_transfer_takes_funds:
  assumes "app_ok sha1 app" "accounts app (tr_From req) = Some a" "accounts app (tr_To req) = Some c"
    and "tr_From req \<noteq> tr_To req" "tr_Nonce req = GetNonce a" "tr_Amount req = dy k (- m)"
    and "balance a = dy k b" "mbr a = dy k l" "balance c = dy k e" "0 < m" "l \<le> b" "k \<le> 1900"
    and "b + m \<le> 2 ^ 53" "0 \<le> b" "0 \<le> l" "\<bar>e - m\<bar> \<le> 2 ^ 53"
  shows "\<exists>app' a' c'. app_Transfer d req app = (Ok (), app') \<and>
    accounts app' (tr_From req) = Some a' \<and> balance a' = dy k (b + m) \<and>
    accounts app' (tr_To req) = Some c' \<and> balance c' = dy k (e - m)"
  using assms transfer_run [OF assms(1-3), of d]
  by (auto simp: transfer_result_def Let_def fsub_dy fadd_dy flt_dy)

theorem negative_transfer_takes_funds_witness:
  "\<exists>app' a' c'.
     app_Transfer (toy_draws 7) (toy_transfer (dy 1073 (- 50))) toy_app = (Ok (), app') \<and>
     accounts app' (test_id 1) = Some a' \<and> balance a' = dy 1073 70 \<and>
     accounts app' (test_id 2) = Some c' \<and> balance c' = dy 1073 (- 30)"
  using negative_transfer_takes_funds [OF toy_app_ok, of "toy_transfer (dy 1073 (- 50))"
      "toy_acct 1 (dy 1073 20)" "toy_acct 2 (dy 1073 20)" 1073 50 20 0 20 "toy_draws 7"]
  by (simp add: concrete_simps GetNonce_def f0_dy [of 1073])

section \<open>Minting and account creation\<close>

text \<open>
  Property C12.  \<^verbatim>\<open>CreateAccountWithKeys\<close> refuses an id that is taken and otherwise adds exactly
  one account, under the hash of its public key, with nonce 0, no tokens and no locked balance;
  its balance is the initial balance when that is positive and zero otherwise, and its chain
  holds at most the mint of that balance.  \<^verbatim>\<open>Mint\<close> into an unknown account is refused and leaves
  the App as it was; into a known account it never fails, whatever the amount, and adds its amount.
\<close>

theorem create_and_mint_behaviour:
  "(let i = ScalegraphIdFromPublicKey sha1 pk in
    case accounts app i of
      Some _ \<Rightarrow> CreateAccountWithKeys sha1 d pk cert bal app = (Err (AccountExists i), app)
    | None \<Rightarrow> \<exists>acc. CreateAccountWithKeys sha1 d pk cert bal app =
          (Ok acc, app\<lparr>accounts := (accounts app)(i \<mapsto> acc)\<rparr>) \<and>
        acc_id acc = i \<and> publicKey acc = pk \<and> certificate acc = cert \<and> GetNonce acc = 0 \<and>
        tokenStore acc = Map.empty \<and> mbr acc = f0 \<and>
        balance acc = (if flt f0 bal then fadd f0 bal else f0) \<and>
        chain_txs (blockchain acc) =
          (if flt f0 bal then [MintTransaction (d_tx d) None (Some i) bal] else [])) \<and>
   app_Mint d \<lparr>mr_To = j, mr_Amount = amt\<rparr> app =
     (case accounts app j of
        None \<Rightarrow> (Err (AccountNotFound ''destination'' j), app)
      | Some c \<Rightarrow> (Ok (), app\<lparr>accounts := (accounts app)(j \<mapsto> credit (d_block1 d)
           (MintTransaction (d_tx d) None (Some (acc_id c)) amt) amt c)\<rparr>))"
  by (auto simp: CreateAccountWithKeys_def Let_def app_Mint_def append_one_def on_entry_def
      appendTransaction_def newMintTransaction_def handleMintTx_def credit_def
      newAccountWithPublicKey_def GetNonce_def chain_txs_append chain_txs_new split: option.split)

theorem create_and_mint_behaviour_witness:
  "fst (CreateAccountWithKeys toy_sha1 (toy_draws 7) [1] None (dy 1073 20) toy_app)
     = Err (AccountExists (test_id 1)) \<and>
   app_Mint (toy_draws 7) \<lparr>mr_To = test_id 3, mr_Amount = f0\<rparr> toy_app =
     (Err (AccountNotFound ''destination'' (test_id 3)), toy_app)"
  using create_and_mint_behaviour [where app = toy_app and j = "test_id 3" and amt = f0
      and ?sha1.0 = toy_sha1 and pk = "[1]" and d = "toy_draws 7"
      and cert = None and bal = "dy 1073 20"] toy_id [of 1]
  by (simp add: concrete_simps test_id_eq)

end
