(* ===== verification/Token_Ops.thy ===== *)
theory Token_Ops
  imports Money
begin

text \<open>
  Tokens at the level of \<^verbatim>\<open>App\<close>: the complete behaviour of minting, transferring, authorizing,
  clawing back, freezing and burning, and what holds of a failed operation.
\<close>

section \<open>Two-account updates with an exact rollback\<close>

lemma append_rollback_run:
  assumes "accounts app x = Some a" "chain_ok (blockchain a)" "undoable t a"
  shows "append_rollback b1 b2 x y t app =
    (case appendTransaction b1 t a of
       (Err e, _) \<Rightarrow> (Err e, app)
     | (Panic, _) \<Rightarrow> (Panic, app)
     | (Ok _, a1) \<Rightarrow>
       (case ((accounts app)(x \<mapsto> a1)) y of
          None \<Rightarrow> (Panic, app\<lparr>accounts := (accounts app)(x \<mapsto> a1)\<rparr>)
        | Some c \<Rightarrow>
          (case appendTransaction b2 t c of
             (Ok _, c1) \<Rightarrow> (Ok (), app\<lparr>accounts := (accounts app)(x \<mapsto> a1, y \<mapsto> c1)\<rparr>)
           | (Err e, _) \<Rightarrow> (Err e, app)
           | (Panic, _) \<Rightarrow> (Panic, app\<lparr>accounts := (accounts app)(x \<mapsto> a1)\<rparr>))))"
proof -
  obtain r1 a1 where 1: "appendTransaction b1 t a = (r1, a1)" by fastforce
  show ?thesis
  proof (cases "is_ok r1")
    case False
    then have "a1 = a" using appendTransaction_failed [OF 1] by simp
    then show ?thesis using False 1 assms(1)
      by (cases r1; cases app) (auto simp: append_rollback_def append_both_def on_entry_def fun_upd_idem)
  next
    case True
    then have r1: "r1 = Ok ()" by (auto simp: is_ok_iff)
    have undo: "rollbacklatestTransaction t a1 = (Ok (), a)"
      using rollback_undoes_append [OF assms(3,2)] 1 r1 by simp
    show ?thesis
    proof (cases "((accounts app)(x \<mapsto> a1)) y")
      case None
      then show ?thesis using 1 r1 assms(1)
        by (simp add: append_rollback_def append_both_def on_entry_def)
    next
      case (Some c)
      obtain r2 c1 where 2: "appendTransaction b2 t c = (r2, c1)" by fastforce
      have idem: "(accounts app)(x \<mapsto> a1, y \<mapsto> c) = (accounts app)(x \<mapsto> a1)"
        using Some by (rule fun_upd_idem)
      have fail: "\<not> is_ok r2 \<Longrightarrow> c1 = c" using appendTransaction_failed [OF 2] by simp
      show ?thesis using 1 2 r1 Some assms(1) undo idem fail
        by (cases r2; cases app)
          (auto simp: append_rollback_def append_both_def on_entry_def fun_upd_idem)
    qed
  qed
qed

text \<open>On two different accounts, in the form the operations use it.\<close>

lemma append_rollback_two:
  assumes "accounts app x = Some a" "accounts app y = Some c" "x \<noteq> y"
    and "chain_ok (blockchain a)" "undoable t a"
    and "txHandler t a = (Ok (), a1)" "txHandler t c = (r, c1)"
  shows "append_rollback b1 b2 x y t app =
    (case r of
       Ok _ \<Rightarrow> (Ok (), app\<lparr>accounts := (accounts app)
          (x \<mapsto> a1\<lparr>blockchain := bc_append b1 t (blockchain a)\<rparr>,
           y \<mapsto> c1\<lparr>blockchain := bc_append b2 t (blockchain c)\<rparr>)\<rparr>)
     | Err e \<Rightarrow> (Err e, app)
     | Panic \<Rightarrow> (Panic, app\<lparr>accounts := (accounts app)
          (x \<mapsto> a1\<lparr>blockchain := bc_append b1 t (blockchain a)\<rparr>)\<rparr>))"
proof -
  have "e \<noteq> ErrSkipAppend" if "r = Err e" for e
    using handler_no_skip [of t c] assms(7) that by auto
  then show ?thesis
    using append_rollback_run [OF assms(1,4,5), of b1 b2 y] assms(2,3,6,7)
      handler_frame(5) [OF assms(6)] handler_frame(5) [OF assms(7)]
    by (cases r) (auto simp: appendTransaction_def)
qed

text \<open>When both halves succeed nothing is rolled back.\<close>

lemma append_rollback_both:
  assumes "accounts app x = Some a" "accounts app y = Some c" "x \<noteq> y"
    and "txHandler t a = (Ok (), a1)" "txHandler t c = (Ok (), c1)"
  shows "append_rollback b1 b2 x y t app = (Ok (), app\<lparr>accounts := (accounts app)
    (x \<mapsto> a1\<lparr>blockchain := bc_append b1 t (blockchain a)\<rparr>,
     y \<mapsto> c1\<lparr>blockchain := bc_append b2 t (blockchain c)\<rparr>)\<rparr>)"
  using assms handler_frame(5) [OF assms(4)] handler_frame(5) [OF assms(5)]
  by (simp add: append_rollback_def append_both_def on_entry_def appendTransaction_def)

lemma append_rollback_first_fails:
  assumes "accounts app x = Some a" "txHandler t a = (Err e, a1)"
  shows "append_rollback b1 b2 x y t app = (Err e, app)"
proof -
  have "a1 = a" "e \<noteq> ErrSkipAppend"
    using handler_failed [OF assms(2)] handler_no_skip [of t a] assms(2) by auto
  then show ?thesis using assms
    by (cases app)
      (auto simp: append_rollback_def append_both_def on_entry_def appendTransaction_def fun_upd_idem)
qed

lemma append_rollback_same:
  assumes "accounts app x = Some a" "chain_ok (blockchain a)" "undoable t a"
    and "txHandler t a = (Ok (), a1)"
    and "txHandler t (a1\<lparr>blockchain := bc_append b1 t (blockchain a)\<rparr>) = (Err e, c1)"
  shows "append_rollback b1 b2 x x t app = (Err e, app)"
proof -
  have "e \<noteq> ErrSkipAppend"
    using handler_no_skip [of t "a1\<lparr>blockchain := bc_append b1 t (blockchain a)\<rparr>"] assms(5) by auto
  then show ?thesis
    using append_rollback_run [OF assms(1-3), of b1 b2 x] assms(4,5) handler_frame(5) [OF assms(4)]
    by (auto simp: appendTransaction_def)
qed

lemma append_rollback_second_fails:
  assumes "accounts app x = Some a" "accounts app y = Some c" "x \<noteq> y" "chain_ok (blockchain a)"
    and "txHandler t a = (Ok (), a1)" "txHandler t c = (Err e, c1)"
    and "txRollbackHandler t a1 = (Ok (), a2)"
  shows "append_rollback b1 b2 x y t app = (Err e, app\<lparr>accounts := (accounts app)(x \<mapsto> a2)\<rparr>)"
proof -
  let ?a1 = "a1\<lparr>blockchain := bc_append b1 t (blockchain a)\<rparr>"
  have 1: "appendTransaction b1 t a = (Ok (), ?a1)"
    using assms(5) handler_frame(5) [OF assms(5)] by (simp add: appendTransaction_def)
  have "c1 = c" "e \<noteq> ErrSkipAppend"
    using handler_failed [OF assms(6)] handler_no_skip [of t c] assms(6) by auto
  then have 2: "appendTransaction b2 t c = (Err e, c)"
    using assms(6) by (simp add: appendTransaction_def)
  have 3: "rollbacklatestTransaction t ?a1 = (Ok (), a2)"
    using rollback_after_append [OF 1 assms(4)] assms(5,7) by simp
  show ?thesis using assms(1-3) 1 2 3
    by (simp add: append_rollback_def append_both_def on_entry_def fun_upd_idem)
qed

lemma app_ok_chain: "app_ok sha1 app \<Longrightarrow> accounts app i = Some a \<Longrightarrow> chain_ok (blockchain a)"
  by (auto simp: app_ok_def acct_at_def acct_ok_def)

lemma app_ok_keys: "app_ok sha1 app \<Longrightarrow> accounts app i = Some a \<Longrightarrow> keys_ok (tokenStore a)"
  by (auto simp: app_ok_def acct_at_def acct_ok_def)

lemma GetToken_Some:
  "GetToken k a = Some tok \<longleftrightarrow> tokenStore a k = Some tok \<and> \<not> is_placeholder tok"
  by (auto simp: GetToken_def split: option.splits)

lemma GetToken_ID:
  "app_ok sha1 app \<Longrightarrow> accounts app i = Some a \<Longrightarrow> GetToken k a = Some tok \<Longrightarrow> token_ID tok = k"
  by (auto simp: GetToken_Some intro: keys_okD [OF app_ok_keys])

section \<open>Transferring a token\<close>

definition give :: "ScalegraphId \<Rightarrow> transaction \<Rightarrow> string \<Rightarrow> Account \<Rightarrow> Account" where
  "give b t k a = (bump (a\<lparr>tokenStore := (tokenStore a)(k := None)\<rparr>))
     \<lparr>blockchain := bc_append b t (blockchain a)\<rparr>"

definition receive :: "ScalegraphId \<Rightarrow> transaction \<Rightarrow> string \<Rightarrow> Token \<Rightarrow> Account \<Rightarrow> Account" where
  "receive b t k tok a = a\<lparr>tokenStore := (tokenStore a)(k \<mapsto> tok),
     mbr := fsub (mbr a) MBR_SLOT_COST, blockchain := bc_append b t (blockchain a)\<rparr>"

definition transfer_token_result ::
    "draws \<Rightarrow> TransferTokenRequest \<Rightarrow> Token \<Rightarrow> Account \<Rightarrow> Account \<Rightarrow> App \<Rightarrow> unit app_call" where
  "transfer_token_result d req tok a c app =
    (let k = tt_TokenId req;
         t = TransferTokenTransaction (d_tx d) (Some (tt_From req)) (Some (tt_To req)) tok (tt_Nonce req)
     in if frozen tok then (Err (TokenIsFrozen k), app)
        else if tt_From req = tt_To req then (Err (NonceMismatch (GetNonce a + 1) (GetNonce a)), app)
        else if tokenStore c k = None \<or> \<not> is_placeholder (the (tokenStore c k))
        then (Err (Failed ''add token'' (TokenNotAuthorized k (tt_To req))), app)
        else (Ok (), app\<lparr>accounts := (accounts app)
                (tt_From req \<mapsto> give (d_block1 d) t k a, tt_To req \<mapsto> receive (d_block2 d) t k tok c)\<rparr>))"

lemma transfer_token_run:
  assumes "app_ok sha1 app" "accounts app (tt_From req) = Some a" "accounts app (tt_To req) = Some c"
    and "GetToken (tt_TokenId req) a = Some tok" "tt_Nonce req = GetNonce a"
  shows "app_TransferToken d req app = transfer_token_result d req tok a c app"
proof -
  define k t where "k = tt_TokenId req"
    and "t = TransferTokenTransaction (d_tx d) (Some (tt_From req)) (Some (tt_To req)) tok (tt_Nonce req)"
  have id: "acc_id a = tt_From req" "acc_id c = tt_To req"
    using app_ok_id [OF assms(1)] assms(2,3) by auto
  have tok: "tokenStore a k = Some tok" "token_ID tok = k"
    using assms(4) GetToken_ID [OF assms(1,2,4)] by (auto simp: GetToken_Some k_def)
  have ch: "chain_ok (blockchain a)" using app_ok_chain [OF assms(1,2)] .
  have undo: "undoable t a" using tok id by (simp add: t_def)
  have op: "app_TransferToken d req app =
      append_rollback (d_block1 d) (d_block2 d) (tt_From req) (tt_To req) t app"
    using assms(2-5) id by (simp add: app_TransferToken_def new_tx_defs t_def)
  let ?a1 = "bump (a\<lparr>tokenStore := (tokenStore a)(k := None)\<rparr>)"
  have h1: "txHandler t a = (if frozen tok then (Err (TokenIsFrozen k), a) else (Ok (), ?a1))"
    using tok id assms(5) by (simp add: t_def handleTransferTokenTx_def removeToken_def GetNonce_def)
  consider (f) "frozen tok" | (s) "\<not> frozen tok" "tt_From req = tt_To req"
    | (d) "\<not> frozen tok" "tt_From req \<noteq> tt_To req" by blast
  then show ?thesis
  proof cases
    case f
    then show ?thesis using append_rollback_first_fails [OF assms(2)] h1 op by (simp add: transfer_token_result_def k_def Let_def)
  next
    case s
    have "txHandler t (?a1\<lparr>blockchain := bc_append (d_block1 d) t (blockchain a)\<rparr>) =
        (Err (NonceMismatch (GetNonce a + 1) (GetNonce a)), ?a1\<lparr>blockchain := bc_append (d_block1 d) t (blockchain a)\<rparr>)"
      using id assms(5) by (simp add: t_def handleTransferTokenTx_def GetNonce_def bump_def)
    from append_rollback_same [OF assms(2) ch undo _ this] h1 s op show ?thesis by (simp add: transfer_token_result_def Let_def)
  next
    case d
    let ?bad = "tokenStore c k = None \<or> \<not> is_placeholder (the (tokenStore c k))"
    have "txHandler t c =
       (if ?bad then Err (Failed ''add token'' (TokenNotAuthorized k (tt_To req))) else Ok (),
        if ?bad then c
        else c\<lparr>tokenStore := (tokenStore c)(k \<mapsto> tok), mbr := fsub (mbr c) MBR_SLOT_COST\<rparr>)"
      using id d tok
      by (auto simp: t_def handleTransferTokenTx_def addTokenFromTransfer_def split: option.splits)
    note two = append_rollback_two [OF assms(2,3) d(2) ch undo _ this]
    have "txHandler t a = (Ok (), ?a1)" using h1 d by simp
    from two [OF this] d op show ?thesis
      by (simp add: transfer_token_result_def Let_def k_def t_def give_def receive_def bump_def)
  qed
qed

text \<open>The whole call, with the checks that come before the two halves of the transfer.\<close>

definition transfer_token_outcome ::
    "draws \<Rightarrow> TransferTokenRequest \<Rightarrow> App \<Rightarrow> unit app_call" where
  "transfer_token_outcome d req app =
    (case (accounts app (tt_From req), accounts app (tt_To req)) of
       (None, _) \<Rightarrow> (Err (AccountNotFound ''source'' (tt_From req)), app)
     | (Some a, None) \<Rightarrow> (Err (AccountNotFound ''destination'' (tt_To req)), app)
     | (Some a, Some c) \<Rightarrow>
       (case GetToken (tt_TokenId req) a of
          None \<Rightarrow> (Err (TokenNotFound (tt_TokenId req) (tt_From req)), app)
        | Some tok \<Rightarrow>
          if tt_Nonce req \<noteq> GetNonce a then (Err (NonceMismatch (GetNonce a) (tt_Nonce req)), app)
          else transfer_token_result d req tok a c app))"

lemma transfer_token_total:
  "app_ok sha1 app \<Longrightarrow> app_TransferToken d req app = transfer_token_outcome d req app"
  using transfer_token_run [of sha1 app req _ _ _ d]
  by (auto simp: transfer_token_outcome_def app_TransferToken_def split: option.split)

text \<open>
  Property C9.  The complete behaviour of \<^verbatim>\<open>TransferToken\<close>, with no assumption but the invariant of
  the App.  An unknown sender or receiver, a token the sender does not own (a reserved slot is not
  an owned token) and a wrong nonce are refused with their own errors.  A frozen token does not
  move, nor does a token sent to its own holder, nor one whose receiver has no free slot authorized
  for it.  In each of these cases the App is left exactly as it was.  Otherwise the token leaves
  the sender's store, fills the receiver's slot unchanged, the receiver's minimum balance drops by
  the slot's cost and the sender's nonce advances.
\<close>

theorem transfer_token_behaviour:
  assumes "app_ok sha1 app"
  shows "app_TransferToken d req app = transfer_token_outcome d req app"
  by (rule transfer_token_total [OF assms])

section \<open>Minting a token\<close>

definition mint_token_result ::
    "draws \<Rightarrow> MintTokenRequest \<Rightarrow> MintTokenPayload SignedEnvelope \<Rightarrow> ScalegraphId \<Rightarrow> Account \<Rightarrow> App \<Rightarrow> string app_call" where
  "mint_token_result d req env i a app =
    (let token = newToken (mt_TokenValue req) (env_Signature env) (mt_ClawbackAddress req)
                   (mt_FreezeAddress req) (mt_Nonce req);
         t = MintTokenTransaction (d_tx d) None (Some i) token;
         k = token_ID token
     in if mt_Nonce req \<noteq> GetNonce a then (Err (NonceMismatch (GetNonce a) (mt_Nonce req)), app)
        else if tokenStore a k \<noteq> None
        then (Err (Failed ''mint token'' (TokenAlreadyExists k i)), app)
        else if flt (fsub (balance a) (mbr a)) MBR_TOKEN_COST
        then (Err (Failed ''mint token''
                (InsufficientBalance ''mint token'' (balance a) (mbr a) MBR_TOKEN_COST)), app)
        else (Ok k, app\<lparr>accounts := (accounts app)(i \<mapsto>
                (bump (a\<lparr>mbr := fadd (mbr a) MBR_TOKEN_COST, tokenStore := (tokenStore a)(k \<mapsto> token)\<rparr>))
                  \<lparr>blockchain := bc_append (d_block1 d) t (blockchain a)\<rparr>)\<rparr>))"

lemma mint_token_run:
  assumes "app_ok sha1 app" "mt_SignedEnvelope req = Some env"
    and "SignerID (env_Signature env) = id_String i" "accounts app i = Some a"
  shows "app_MintToken d req app = mint_token_result d req env i a app"
  using assms app_ok_id [OF assms(1,4)]
  by (cases app)
    (auto simp: mint_token_result_def app_MintToken_def FromString_String append_one_def on_entry_def
      appendTransaction_def newMintTokenTransaction_def handleMintTokenTx_def mintToken_def
      GetNonce_def bump_def Let_def fun_upd_idem)

text \<open>
  Property C10.  The complete behaviour of \<^verbatim>\<open>MintToken\<close> for a known signer.  A wrong nonce, a token id
  already in the signer's store and a balance that cannot lock the token cost leave the App as
  it was; otherwise the signer owns a new unfrozen token whose id is the hex of the request's
  signature, its minimum balance grows by the token cost and its nonce advances.
\<close>

theorem mint_token_behaviour:
  assumes "app_ok sha1 app" "mt_SignedEnvelope req = Some env"
    and "SignerID (env_Signature env) = id_String i" "accounts app i = Some a"
  shows "app_MintToken d req app = mint_token_result d req env i a app"
  by (rule mint_token_run [OF assms])

section \<open>Clawing a token back\<close>

definition clawback_result ::
    "draws \<Rightarrow> ClawbackTokenRequest \<Rightarrow> Token \<Rightarrow> Account \<Rightarrow> Account \<Rightarrow> App \<Rightarrow> unit app_call" where
  "clawback_result d req tok a c app =
    (let k = ct_TokenId req;
         t = ClawbackTokenTransaction (d_tx d) (Some (ct_From req)) (Some (ct_To req)) tok (ct_Nonce req)
     in case clawbackAddress tok of
          None \<Rightarrow> (Panic, app)
        | Some addr \<Rightarrow>
          if addr \<noteq> ct_To req then (Err (ClawbackAddressMismatch addr (ct_To req)), app)
          else if ct_Nonce req \<noteq> GetNonce c then (Err (NonceMismatch (GetNonce c) (ct_Nonce req)), app)
          else if ct_From req = ct_To req then (Err (TokenNotFound k (ct_From req)), app)
          else if tokenStore c k \<noteq> None
          then (Err (Failed ''add token during clawback'' (TokenAlreadyExists k (ct_To req))), app)
          else (Ok (), app\<lparr>accounts := (accounts app)
             (ct_From req \<mapsto> a\<lparr>tokenStore := (tokenStore a)(k := None),
                blockchain := bc_append (d_block1 d) t (blockchain a)\<rparr>,
              ct_To req \<mapsto> (bump (c\<lparr>tokenStore := (tokenStore c)(k \<mapsto> tok)\<rparr>))
                \<lparr>blockchain := bc_append (d_block2 d) t (blockchain c)\<rparr>)\<rparr>))"

lemma clawback_run:
  assumes "app_ok sha1 app" "accounts app (ct_From req) = Some a" "accounts app (ct_To req) = Some c"
    and "GetToken (ct_TokenId req) a = Some tok"
  shows "app_ClawbackToken d req app = clawback_result d req tok a c app"
proof -
  define k t where "k = ct_TokenId req"
    and "t = ClawbackTokenTransaction (d_tx d) (Some (ct_From req)) (Some (ct_To req)) tok (ct_Nonce req)"
  have id: "acc_id a = ct_From req" "acc_id c = ct_To req"
    using app_ok_id [OF assms(1)] assms(2,3) by auto
  have tok: "tokenStore a k = Some tok" "token_ID tok = k"
    using assms(4) GetToken_ID [OF assms(1,2,4)] by (auto simp: GetToken_Some k_def)
  have ch: "chain_ok (blockchain a)" using app_ok_chain [OF assms(1,2)] .
  have undo: "undoable t a" using tok id by (simp add: t_def)
  show ?thesis
  proof (cases "clawbackAddress tok = Some (ct_To req) \<and> ct_Nonce req = GetNonce c")
    case False
    then show ?thesis using assms(2-4) id
      by (auto simp: clawback_result_def app_ClawbackToken_def Let_def id_String_inject split: option.splits)
  next
    case True
    have op: "app_ClawbackToken d req app =
        append_rollback (d_block1 d) (d_block2 d) (ct_From req) (ct_To req) t app"
      using assms(2-4) True id by (simp add: app_ClawbackToken_def new_tx_defs t_def)
    let ?a1 = "a\<lparr>tokenStore := (tokenStore a)(k := None)\<rparr>"
    have h1: "txHandler t a = (Ok (), ?a1)"
      using tok id by (simp add: t_def handleClawbackTokenTx_def removeToken_def)
    show ?thesis
    proof (cases "ct_From req = ct_To req")
      case s: True
      have "txHandler t (?a1\<lparr>blockchain := bc_append (d_block1 d) t (blockchain a)\<rparr>) =
          (Err (TokenNotFound k (ct_From req)), ?a1\<lparr>blockchain := bc_append (d_block1 d) t (blockchain a)\<rparr>)"
        using id tok s by (simp add: t_def handleClawbackTokenTx_def)
      from append_rollback_same [OF assms(2) ch undo h1 this] s op True show ?thesis
        by (simp add: clawback_result_def Let_def k_def)
    next
      case d: False
      have "txHandler t c =
         (if tokenStore c k \<noteq> None
          then Err (Failed ''add token during clawback'' (TokenAlreadyExists k (ct_To req))) else Ok (),
          if tokenStore c k \<noteq> None then c
          else bump (c\<lparr>tokenStore := (tokenStore c)(k \<mapsto> tok)\<rparr>))"
        using id d tok True
        by (auto simp: t_def handleClawbackTokenTx_def addToken_def GetNonce_def)
      from append_rollback_two [OF assms(2,3) d ch undo h1 this] d op True show ?thesis
        by (simp add: clawback_result_def Let_def k_def t_def)
    qed
  qed
qed

text \<open>The whole call, with the lookups that come first.\<close>

definition clawback_outcome :: "draws \<Rightarrow> ClawbackTokenRequest \<Rightarrow> App \<Rightarrow> unit app_call" where
  "clawback_outcome d req app =
    (case (accounts app (ct_From req), accounts app (ct_To req)) of
       (None, _) \<Rightarrow> (Err (AccountNotFound ''source'' (ct_From req)), app)
     | (Some a, None) \<Rightarrow> (Err (AccountNotFound ''destination'' (ct_To req)), app)
     | (Some a, Some c) \<Rightarrow>
       (case GetToken (ct_TokenId req) a of
          None \<Rightarrow> (Err (TokenNotFound (ct_TokenId req) (ct_From req)), app)
        | Some tok \<Rightarrow> clawback_result d req tok a c app))"

lemma clawback_total:
  "app_ok sha1 app \<Longrightarrow> app_ClawbackToken d req app = clawback_outcome d req app"
  using clawback_run [of sha1 app req _ _ _ d]
  by (auto simp: clawback_outcome_def app_ClawbackToken_def split: option.split)

text \<open>
  Property C11.  The complete behaviour of \<^verbatim>\<open>ClawbackToken\<close>, with no assumption but the invariant of
  the App.  An unknown source or destination and a token the source does not own are refused with
  their own errors.  Only the account named by the token's own clawback address can take it, with
  its own nonce, even when the token is frozen and without the holder's consent; every refusal
  leaves the App as it was.  For a token minted without a clawback address the code dereferences
  nil: the call panics instead of returning an error.
\<close>

theorem clawback_behaviour:
  assumes "app_ok sha1 app"
  shows "app_ClawbackToken d req app = clawback_outcome d req app"
  by (rule clawback_total [OF assms])

section \<open>Authorizing a transfer\<close>

definition authorize_tx :: "draws \<Rightarrow> AuthorizeTokenTransferRequest \<Rightarrow> transaction" where
  "authorize_tx d req = AuthorizeTokenTransferTransaction (d_tx d) (Some (at_AccountID req))
     (Some (at_TokenOwnerID req)) (at_TokenId req) (at_Nonce req)"

definition unauthorize_tx :: "draws \<Rightarrow> UnauthorizeTokenTransferRequest \<Rightarrow> transaction" where
  "unauthorize_tx d req = UnauthorizeTokenTransferTransaction (d_tx d) (Some (ut_AccountID req))
     (Some (ut_TokenOwnerID req)) (ut_TokenId req) (ut_Nonce req)"

lemma authorize_op:
  assumes "app_ok sha1 app" "accounts app (at_AccountID req) = Some a"
    and "accounts app (at_TokenOwnerID req) = Some c" "at_Nonce req = GetNonce a"
  shows "app_AuthorizeTokenTransfer d req app =
    append_rollback (d_block1 d) (d_block2 d) (at_AccountID req) (at_TokenOwnerID req)
      (authorize_tx d req) app"
  using assms(2-4) app_ok_id [OF assms(1,2)] app_ok_id [OF assms(1,3)]
  by (simp add: app_AuthorizeTokenTransfer_def new_tx_defs authorize_tx_def)

lemma unauthorize_op:
  assumes "app_ok sha1 app" "accounts app (ut_AccountID req) = Some a"
    and "accounts app (ut_TokenOwnerID req) = Some c" "ut_Nonce req = GetNonce a"
  shows "app_UnauthorizeTokenTransfer d req app =
    append_rollback (d_block1 d) (d_block2 d) (ut_AccountID req) (ut_TokenOwnerID req)
      (unauthorize_tx d req) app"
  using assms(2-4) app_ok_id [OF assms(1,2)] app_ok_id [OF assms(1,3)]
  by (simp add: app_UnauthorizeTokenTransfer_def new_tx_defs unauthorize_tx_def)

text \<open>The slot of an authorized transfer: reserved by one half of the cost, released exactly.\<close>

definition with_slot :: "string \<Rightarrow> Account \<Rightarrow> Account" where
  "with_slot k a = bump (a\<lparr>mbr := fadd (mbr a) MBR_SLOT_COST,
     tokenStore := (tokenStore a)(k \<mapsto> emptyToken)\<rparr>)"

definition without_slot :: "string \<Rightarrow> Account \<Rightarrow> Account" where
  "without_slot k a = a\<lparr>tokenStore := (tokenStore a)(k := None),
     mbr := fsub (mbr a) MBR_SLOT_COST\<rparr>"

lemma authorize_run:
  assumes "app_ok sha1 app" "accounts app (at_AccountID req) = Some a"
    and "accounts app (at_TokenOwnerID req) = Some c" "at_AccountID req \<noteq> at_TokenOwnerID req"
    and "at_Nonce req = GetNonce a" "tokenStore a (at_TokenId req) = None"
    and "GetToken (at_TokenId req) c = Some tok"
    and "\<not> flt (fsub (balance a) (mbr a)) MBR_SLOT_COST"
  shows "app_AuthorizeTokenTransfer d req app = (Ok (), app\<lparr>accounts := (accounts app)
    (at_AccountID req \<mapsto> (with_slot (at_TokenId req) a)
       \<lparr>blockchain := bc_append (d_block1 d) (authorize_tx d req) (blockchain a)\<rparr>,
     at_TokenOwnerID req \<mapsto> c
       \<lparr>blockchain := bc_append (d_block2 d) (authorize_tx d req) (blockchain c)\<rparr>)\<rparr>)"
proof -
  let ?t = "authorize_tx d req"
  have id: "acc_id a = at_AccountID req" "acc_id c = at_TokenOwnerID req"
    using app_ok_id [OF assms(1)] assms(2,3) by auto
  have own: "tokenStore c (at_TokenId req) = Some tok" "\<not> is_placeholder tok"
    using assms(7) by (auto simp: GetToken_Some)
  have h: "txHandler ?t a = (Ok (), with_slot (at_TokenId req) a)" "txHandler ?t c = (Ok (), c)"
    using assms(4-6,8) id own
    by (auto simp: authorize_tx_def handleAuthorizeTokenTransferTx_def GetNonce_def with_slot_def)
  from append_rollback_both [OF assms(2-4) h]
  show ?thesis using authorize_op [OF assms(1-3,5)] by simp
qed

text \<open>
  Property C14.  Authorizing a transfer to oneself, for a token another account owns, always
  succeeds when the slot's cost is covered, reserves exactly one slot and locks its cost;
  withdrawing the authorization afterwards with the next nonce always succeeds and gives back the
  token store and the balance the account had.  The locked balance goes up by the slot's cost and
  down by it again, in doubles; it is the one the account had whenever it was a whole number of
  half units of size below \<open>2 ^ 53\<close>, which it is in every state reached without freezing (property
  C6), and otherwise it can differ in the last bits.  Only the two transactions on the chains and
  the two used nonces remain.
\<close>

theorem authorize_unauthorize_roundtrip:
  assumes "app_ok sha1 app" "accounts app (at_AccountID req) = Some a"
    and "accounts app (at_TokenOwnerID req) = Some c" "at_AccountID req \<noteq> at_TokenOwnerID req"
    and "at_Nonce req = GetNonce a" "tokenStore a (at_TokenId req) = None"
    and "GetToken (at_TokenId req) c = Some tok"
    and "\<not> flt (fsub (balance a) (mbr a)) MBR_SLOT_COST"
    and "ut_AccountID ureq = at_AccountID req" "ut_TokenOwnerID ureq = at_TokenOwnerID req"
    and "ut_TokenId ureq = at_TokenId req" "ut_Nonce ureq = GetNonce a + 1"
  shows "\<exists>app1 app2 a1 a2.
    app_AuthorizeTokenTransfer d req app = (Ok (), app1) \<and>
    accounts app1 (at_AccountID req) = Some a1 \<and>
    tokenStore a1 = (tokenStore a)(at_TokenId req \<mapsto> emptyToken) \<and>
    mbr a1 = fadd (mbr a) MBR_SLOT_COST \<and>
    app_UnauthorizeTokenTransfer d2 ureq app1 = (Ok (), app2) \<and>
    accounts app2 (at_AccountID req) = Some a2 \<and>
    tokenStore a2 = tokenStore a \<and> balance a2 = balance a \<and>
    mbr a2 = fsub (fadd (mbr a) MBR_SLOT_COST) MBR_SLOT_COST \<and>
    (\<forall>h. mbr a = dy 1073 h \<longrightarrow> \<bar>h\<bar> < 2 ^ 53 \<longrightarrow> mbr a2 = mbr a) \<and>
    GetNonce a2 = GetNonce a + 2 \<and>
    chain_txs (blockchain a2) = chain_txs (blockchain a) @ [authorize_tx d req, unauthorize_tx d2 ureq]"
proof -
  define x y k where "x = at_AccountID req" and "y = at_TokenOwnerID req" and "k = at_TokenId req"
  define t where "t = authorize_tx d req"
  define u where "u = unauthorize_tx d2 ureq"
  have id: "acc_id a = x" "acc_id c = y" and ne: "x \<noteq> y"
    using app_ok_id [OF assms(1)] assms(2-4) by (auto simp: x_def y_def)
  have own: "tokenStore c k = Some tok" "\<not> is_placeholder tok"
    using assms(7) by (auto simp: GetToken_Some k_def)
  have ac: "accounts app x = Some a" "accounts app y = Some c"
    using assms(2,3) by (simp_all add: x_def y_def)
  define a1 where "a1 = (with_slot k a)\<lparr>blockchain := bc_append (d_block1 d) t (blockchain a)\<rparr>"
  define c1 where "c1 = c\<lparr>blockchain := bc_append (d_block2 d) t (blockchain c)\<rparr>"
  define app1 where "app1 = app\<lparr>accounts := (accounts app)(x \<mapsto> a1, y \<mapsto> c1)\<rparr>"
  have run1: "app_AuthorizeTokenTransfer d req app = (Ok (), app1)"
    using authorize_run [OF assms(1-8)] by (simp add: app1_def a1_def c1_def x_def y_def k_def t_def)
  have ok1: "app_ok sha1 app1" by (rule AuthorizeTokenTransfer_ok [OF run1 assms(1)])
  have ac1: "accounts app1 x = Some a1" "accounts app1 y = Some c1" using ne by (auto simp: app1_def)
  have st: "tokenStore a1 k = Some emptyToken" "acc_id a1 = x" "mbr a1 = fadd (mbr a) MBR_SLOT_COST"
    "GetNonce a1 = GetNonce a + 1" "tokenStore c1 k = Some tok" "acc_id c1 = y"
    "balance a1 = balance a" "tokenStore a1 = (tokenStore a)(k \<mapsto> emptyToken)"
    using id own by (simp_all add: a1_def c1_def with_slot_def bump_def GetNonce_def)
  define a2 where "a2 = bump (without_slot k a1)"
  have g1: "txHandler u a1 = (Ok (), a2)" and g2: "txHandler u c1 = (Ok (), c1)"
    using assms(9-12) st ne own
    by (auto simp: u_def unauthorize_tx_def handleUnauthorizeTokenTransferTx_def GetNonce_def
        without_slot_def a2_def x_def y_def k_def)
  note r2 = append_rollback_both [OF ac1 ne g1 g2, of "d_block1 d2" "d_block2 d2"]
  have "accounts app1 (ut_AccountID ureq) = Some a1" "accounts app1 (ut_TokenOwnerID ureq) = Some c1"
    "ut_Nonce ureq = GetNonce a1"
    using ac1 assms(9,10,12) st by (simp_all add: x_def y_def)
  from unauthorize_op [OF ok1 this, of d2] r2
  have run2: "app_UnauthorizeTokenTransfer d2 ureq app1 = (Ok (), app1\<lparr>accounts := (accounts app1)
      (x \<mapsto> a2\<lparr>blockchain := bc_append (d_block1 d2) u (blockchain a1)\<rparr>,
       y \<mapsto> c1\<lparr>blockchain := bc_append (d_block2 d2) u (blockchain c1)\<rparr>)\<rparr>)"
    using assms(9,10) by (simp add: x_def y_def u_def)
  have mbr_back: "fsub (fadd (mbr a) MBR_SLOT_COST) MBR_SLOT_COST = mbr a"
    if "mbr a = dy 1073 h" "\<bar>h\<bar> < 2 ^ 53" for h
    using that by (simp add: MBR_SLOT_COST_def fadd_dy fsub_dy)
  show ?thesis
    using run1 run2 ac1 ne st assms(6) mbr_back
    by (auto simp: x_def [symmetric] y_def [symmetric] k_def [symmetric] t_def [symmetric]
        u_def [symmetric] a2_def without_slot_def bump_def GetNonce_def chain_txs_append fun_upd_idem)
       (simp_all add: a1_def chain_txs_append with_slot_def bump_def)
qed

text \<open>
  A failed authorization can take away an earlier one.  When the account already
  holds the slot (from a previous authorization) and the token owner turns out not to own the
  token, the call reports an error but its rollback deletes the earlier slot and releases its
  locked balance: the failed call does not leave the App as it was.
\<close>

theorem failed_reauthorize_drops_slot:
  assumes "app_ok sha1 app" "accounts app (at_AccountID req) = Some a"
    and "accounts app (at_TokenOwnerID req) = Some c" "at_AccountID req \<noteq> at_TokenOwnerID req"
    and "at_Nonce req = GetNonce a" "tokenStore a (at_TokenId req) = Some slot" "is_placeholder slot"
    and "GetToken (at_TokenId req) c = None"
  shows "app_AuthorizeTokenTransfer d req app =
    (Err (TokenNotFound (at_TokenId req) (at_TokenOwnerID req)),
     app\<lparr>accounts := (accounts app)(at_AccountID req \<mapsto> without_slot (at_TokenId req) a)\<rparr>)"
proof -
  let ?t = "authorize_tx d req"
  have id: "acc_id a = at_AccountID req" "acc_id c = at_TokenOwnerID req"
    using app_ok_id [OF assms(1)] assms(2,3) by auto
  have h1: "txHandler ?t a = (Ok (), bump a)"
    using assms(5-7) id by (simp add: authorize_tx_def handleAuthorizeTokenTransferTx_def GetNonce_def)
  have h2: "txHandler ?t c = (Err (TokenNotFound (at_TokenId req) (at_TokenOwnerID req)), c)"
    using assms(4,8) id
    by (auto simp: authorize_tx_def handleAuthorizeTokenTransferTx_def GetToken_def
        split: option.splits if_splits)
  have "txRollbackHandler ?t (bump a) = (Ok (), without_slot (at_TokenId req) a)"
    using id by (cases a) (simp add: authorize_tx_def rollbackAuthorizeTokenTransferTx_def
        bump_def unbump_def without_slot_def)
  from append_rollback_second_fails [OF assms(2-4) app_ok_chain [OF assms(1,2)] h1 h2 this]
  show ?thesis using authorize_op [OF assms(1-3,5)] by simp
qed

section \<open>Freezing\<close>

lemma append_rollback_OkD:
  assumes "append_rollback b1 b2 x y t app = (Ok (), app')"
  shows "\<exists>a a1 c c1. accounts app x = Some a \<and> appendTransaction b1 t a = (Ok (), a1) \<and>
     ((accounts app)(x \<mapsto> a1)) y = Some c \<and> appendTransaction b2 t c = (Ok (), c1) \<and>
     accounts app' = (accounts app)(x \<mapsto> a1, y \<mapsto> c1)"
proof -
  from assms have "append_both appendTransaction rollbacklatestTransaction b1 b2 x y t (accounts app)
      = (Ok (), accounts app')"
    by (auto simp: append_rollback_def split: prod.splits)
  then show ?thesis unfolding append_both_ok by blast
qed

lemma append_one_OkD:
  assumes "append_one b x t app = (Ok (), app')"
  shows "\<exists>a a1. accounts app x = Some a \<and> txHandler t a = (Ok (), a1) \<and>
     accounts app' = (accounts app)(x \<mapsto> a1\<lparr>blockchain := bc_append b t (blockchain a)\<rparr>)"
proof -
  from assms have "on_entry x (appendTransaction b t) (accounts app) = (Ok (), accounts app')"
    by (auto simp: append_one_def split: prod.splits)
  then show ?thesis unfolding on_entry_ok appendTransaction_ok_iff by blast
qed

lemma freeze_Ok:
  assumes "app_ok sha1 app" "app_FreezeToken d req app = (Ok (), app')"
  obtains a c tok a1 c1 where "accounts app (fz_FreezeAuthority req) = Some a"
    and "accounts app (fz_TokenHolder req) = Some c" "fz_FreezeAuthority req \<noteq> fz_TokenHolder req"
    and "tokenStore c (fz_TokenId req) = Some tok" "\<not> is_placeholder tok" "\<not> frozen tok"
    and "freezeAddress tok = Some (fz_FreezeAuthority req)" "fz_Nonce req = GetNonce a"
    and "accounts app' = (accounts app)(fz_FreezeAuthority req \<mapsto> a1, fz_TokenHolder req \<mapsto> c1)"
    and "mbr a1 = fadd (mbr a) MBR_FREEZE_COST" "tokenStore a1 = tokenStore a"
    and "GetNonce a1 = GetNonce a + 1"
    and "tokenStore c1 = (tokenStore c)(fz_TokenId req \<mapsto> tok\<lparr>frozen := True\<rparr>)"
    and "GetNonce c1 = GetNonce c" "mbr c1 = mbr c" "balance a1 = balance a" "balance c1 = balance c"
proof -
  let ?x = "fz_FreezeAuthority req" and ?y = "fz_TokenHolder req" and ?k = "fz_TokenId req"
  define t where "t = FreezeTokenTransaction (d_tx d) (Some ?x) (Some ?y) ?k (fz_Nonce req)"
  obtain a c tok where ac: "accounts app ?x = Some a" "accounts app ?y = Some c"
    and tok: "GetToken ?k c = Some tok" and n: "fz_Nonce req = GetNonce a"
    and fa: "freezeAddress tok = Some ?x"
    and run: "append_rollback (d_block1 d) (d_block2 d) ?x ?y
      (FreezeTokenTransaction (d_tx d) (Some (acc_id a)) (Some (acc_id c)) ?k (fz_Nonce req)) app
      = (Ok (), app')"
    using assms(2)
    by (auto simp: app_FreezeToken_def new_tx_defs id_String_inject split: option.splits if_splits)
  have id: "acc_id a = ?x" "acc_id c = ?y" using app_ok_id [OF assms(1)] ac by auto
  from append_rollback_OkD [OF run] ac obtain a1 c' c1 where
    1: "appendTransaction (d_block1 d) t a = (Ok (), a1)"
    and c': "((accounts app)(?x \<mapsto> a1)) ?y = Some c'"
    and 2: "appendTransaction (d_block2 d) t c' = (Ok (), c1)"
    and app': "accounts app' = (accounts app)(?x \<mapsto> a1, ?y \<mapsto> c1)"
    by (auto simp: t_def id)
  from 1 n id have a1: "GetNonce a1 = GetNonce a + 1" "mbr a1 = fadd (mbr a) MBR_FREEZE_COST"
    "tokenStore a1 = tokenStore a" "balance a1 = balance a" "acc_id a1 = ?x"
    by (auto simp: appendTransaction_ok_iff t_def handleFreezeTokenTx_def GetNonce_def bump_def
        split: if_splits)
  have ne: "?x \<noteq> ?y"
  proof
    assume "?x = ?y"
    with c' have "c' = a1" by simp
    with 2 a1 n show False
      by (auto simp: appendTransaction_ok_iff t_def handleFreezeTokenTx_def GetNonce_def split: if_splits)
  qed
  with c' ac have "c' = c" by simp
  with 2 ne id tok fa have "\<not> frozen tok" "GetNonce c1 = GetNonce c" "mbr c1 = mbr c"
    "balance c1 = balance c" "tokenStore c1 = (tokenStore c)(?k \<mapsto> tok\<lparr>frozen := True\<rparr>)"
    by (auto simp: appendTransaction_ok_iff t_def handleFreezeTokenTx_def GetNonce_def GetToken_Some
        split: if_splits option.splits)
  then show ?thesis using that [OF ac ne _ _ _ fa n app'] a1 tok by (auto simp: GetToken_Some)
qed


section \<open>Burning\<close>

lemma and_then_Ok: "and_then m r f = (Ok (), a') \<longleftrightarrow> (\<exists>a1. r = (Ok (), a1) \<and> a' = f a1)"
  by (cases "(m, r, f)" rule: and_then.cases) auto

lemma burnToken_Ok:
  "burnToken k a = (Ok (), a') \<Longrightarrow>
   \<exists>tok. tokenStore a k = Some tok \<and> \<not> is_placeholder tok \<and>
     ScalegraphIdFromString (SignerID (tok_signature tok)) = Ok (acc_id a) \<and>
     a' = a\<lparr>tokenStore := (tokenStore a)(k := None), mbr := fsub (mbr a) MBR_TOKEN_COST\<rparr>"
  by (simp add: burnToken_def split: outcome.splits option.splits if_splits)

text \<open>
  \<^verbatim>\<open>BurnToken\<close> succeeds only for the account that minted the token (the signer
  recorded in the token is the burner), which must own it and use its current nonce; the token
  disappears, its locked cost is released and nothing else changes.  In particular a token that
  was transferred away cannot be burned by its holder.
\<close>

theorem burn_only_by_minter:
  assumes "app_ok sha1 app" "app_BurnToken d req app = (Ok (), app')"
  shows "\<exists>a tok. accounts app (bt_AccountID req) = Some a \<and> bt_Nonce req = GetNonce a \<and>
    GetToken (bt_TokenId req) a = Some tok \<and>
    ScalegraphIdFromString (SignerID (tok_signature tok)) = Ok (bt_AccountID req) \<and>
    accounts app' = (accounts app)(bt_AccountID req \<mapsto>
      (bump (a\<lparr>tokenStore := (tokenStore a)(bt_TokenId req := None),
               mbr := fsub (mbr a) MBR_TOKEN_COST\<rparr>))
        \<lparr>blockchain := bc_append (d_block1 d) (BurnTokenTransaction (d_tx d)
           (Some (bt_AccountID req)) (bt_TokenId req) (bt_Nonce req)) (blockchain a)\<rparr>)"
proof -
  obtain a where a: "accounts app (bt_AccountID req) = Some a" "bt_Nonce req = GetNonce a"
    using assms(2) by (auto simp: app_BurnToken_def split: option.splits if_splits)
  have id: "acc_id a = bt_AccountID req" using app_ok_id [OF assms(1) a(1)] .
  let ?t = "BurnTokenTransaction (d_tx d) (Some (bt_AccountID req)) (bt_TokenId req) (bt_Nonce req)"
  have "append_one (d_block1 d) (bt_AccountID req) ?t app = (Ok (), app')"
    using assms(2) a id by (simp add: app_BurnToken_def new_tx_defs)
  from append_one_OkD [OF this] a obtain a1 where
    h: "handleBurnTokenTx (Some (bt_AccountID req)) None (bt_TokenId req) (bt_Nonce req) a = (Ok (), a1)"
    and app': "accounts app' = (accounts app)(bt_AccountID req \<mapsto>
        a1\<lparr>blockchain := bc_append (d_block1 d) ?t (blockchain a)\<rparr>)" by auto
  have "and_then ''burn token'' (burnToken (bt_TokenId req) a) bump = (Ok (), a1)"
    using h a id by (simp add: handleBurnTokenTx_def GetNonce_def split: if_splits)
  from this [unfolded and_then_Ok] burnToken_Ok obtain tok where
    "tokenStore a (bt_TokenId req) = Some tok" "\<not> is_placeholder tok"
    "ScalegraphIdFromString (SignerID (tok_signature tok)) = Ok (bt_AccountID req)"
    "a1 = bump (a\<lparr>tokenStore := (tokenStore a)(bt_TokenId req := None),
               mbr := fsub (mbr a) MBR_TOKEN_COST\<rparr>)"
    using id by metis
  then show ?thesis using a app' by (auto simp: GetToken_Some)
qed

section \<open>Concrete runs\<close>

definition toy_sig :: Signature where
  "toy_sig = \<lparr>sig_Algorithm = ''Ed25519'', sig_Value = [7], SignerID = id_String (test_id 1),
     sig_Timestamp = 0\<rparr>"

definition toy_mint :: "ScalegraphId option \<Rightarrow> ScalegraphId option \<Rightarrow> MintTokenRequest" where
  "toy_mint c f = \<lparr>mt_TokenValue = ''gold'', mt_ClawbackAddress = c, mt_FreezeAddress = f,
     mt_Nonce = 0, mt_SignedEnvelope = Some \<lparr>Payload = \<lparr>mtp_TokenValue = ''gold'',
       mtp_ClawbackAddress = map_option id_String c, mtp_FreezeAddress = map_option id_String f,
       mtp_Nonce = 0\<rparr>, env_Signature = toy_sig\<rparr>\<rparr>"

definition toy_token :: "ScalegraphId option \<Rightarrow> ScalegraphId option \<Rightarrow> Token" where
  "toy_token c f = newToken ''gold'' toy_sig c f 0"

definition toy_key :: string where
  "toy_key = EncodeToString [7]"

lemma toy_token_simps [concrete_simps]:
  "token_ID (toy_token c f) = toy_key" "is_placeholder (toy_token c f) \<longleftrightarrow> False"
  "frozen (toy_token c f) = False" "clawbackAddress (toy_token c f) = c"
  "freezeAddress (toy_token c f) = f" "tok_signature (toy_token c f) = toy_sig"
  using signed_not_placeholder [of "toy_token c f"]
  by (simp_all add: toy_token_def token_ID_def toy_sig_def toy_key_def)

definition toy_owner :: "ScalegraphId option \<Rightarrow> ScalegraphId option \<Rightarrow> Account" where
  "toy_owner c f = (bump ((toy_acct 1 (dy 1073 20))\<lparr>mbr := dy 1073 2,
     tokenStore := [toy_key \<mapsto> toy_token c f]\<rparr>))
     \<lparr>blockchain := bc_append (test_id 121) (MintTokenTransaction (test_id 120) None
        (Some (test_id 1)) (toy_token c f)) (blockchain (toy_acct 1 (dy 1073 20)))\<rparr>"

lemma toy_owner_simps [concrete_simps]:
  "acc_id (toy_owner c f) = test_id 1" "balance (toy_owner c f) = dy 1073 20"
  "mbr (toy_owner c f) = dy 1073 2" "tokenStore (toy_owner c f) = [toy_key \<mapsto> toy_token c f]"
  "outgoingTxCount (toy_owner c f) = 1"
  by (simp_all add: toy_owner_def bump_def toy_acct_def)

definition toy_minted :: "ScalegraphId option \<Rightarrow> ScalegraphId option \<Rightarrow> App" where
  "toy_minted c f = snd (app_MintToken (toy_draws 20) (toy_mint c f) toy_app)"

lemma toy_minted_run:
  "app_MintToken (toy_draws 20) (toy_mint c f) toy_app = (Ok toy_key, toy_minted c f) \<and>
   accounts (toy_minted c f) =
     [test_id 1 \<mapsto> toy_owner c f, test_id 2 \<mapsto> toy_acct 2 (dy 1073 20)]"
proof -
  let ?env = "the (mt_SignedEnvelope (toy_mint c f))"
  have "app_MintToken (toy_draws 20) (toy_mint c f) toy_app =
      mint_token_result (toy_draws 20) (toy_mint c f) ?env (test_id 1) (toy_acct 1 (dy 1073 20)) toy_app"
    by (rule mint_token_run [OF toy_app_ok])
      (simp_all add: toy_mint_def toy_sig_def concrete_simps)
  also have "\<dots> = (Ok toy_key, toy_app\<lparr>accounts := (accounts toy_app)(test_id 1 \<mapsto> toy_owner c f)\<rparr>)"
    by (simp add: mint_token_result_def toy_mint_def Let_def toy_token_def [symmetric] concrete_simps
        GetNonce_def f0_dy [of 1073] MBR_TOKEN_COST_def toy_owner_def toy_draws_def)
  finally show ?thesis
    by (simp add: toy_minted_def concrete_simps fun_upd_twist)
qed

lemmas toy_minted_accounts [concrete_simps] = conjunct2 [OF toy_minted_run]

lemma toy_minted_ok: "app_ok toy_sha1 (toy_minted c f)"
  by (rule MintToken_ok [OF conjunct1 [OF toy_minted_run] toy_app_ok])

definition toy_auth :: AuthorizeTokenTransferRequest where
  "toy_auth = \<lparr>at_AccountID = test_id 2, at_TokenOwnerID = test_id 1, at_TokenId = toy_key,
     at_Nonce = 0, at_SignedEnvelope = None\<rparr>"

definition toy_authorized :: "ScalegraphId option \<Rightarrow> ScalegraphId option \<Rightarrow> App" where
  "toy_authorized c f = snd (app_AuthorizeTokenTransfer (toy_draws 30) toy_auth (toy_minted c f))"

lemma toy_authorized_run:
  "app_AuthorizeTokenTransfer (toy_draws 30) toy_auth (toy_minted c f) = (Ok (), toy_authorized c f) \<and>
   accounts (toy_authorized c f) =
     [test_id 2 \<mapsto> (with_slot toy_key (toy_acct 2 (dy 1073 20)))
        \<lparr>blockchain := bc_append (test_id 131) (authorize_tx (toy_draws 30) toy_auth)
           (blockchain (toy_acct 2 (dy 1073 20)))\<rparr>,
      test_id 1 \<mapsto> (toy_owner c f)\<lparr>blockchain := bc_append (test_id 132)
        (authorize_tx (toy_draws 30) toy_auth) (blockchain (toy_owner c f))\<rparr>]"
proof -
  have "app_AuthorizeTokenTransfer (toy_draws 30) toy_auth (toy_minted c f) =
    (Ok (), (toy_minted c f)\<lparr>accounts := (accounts (toy_minted c f))
    (test_id 2 \<mapsto> (with_slot toy_key (toy_acct 2 (dy 1073 20)))
       \<lparr>blockchain := bc_append (test_id 131) (authorize_tx (toy_draws 30) toy_auth)
          (blockchain (toy_acct 2 (dy 1073 20)))\<rparr>,
     test_id 1 \<mapsto> (toy_owner c f)
       \<lparr>blockchain := bc_append (test_id 132) (authorize_tx (toy_draws 30) toy_auth)
          (blockchain (toy_owner c f))\<rparr>)\<rparr>)"
    using authorize_run [OF toy_minted_ok, of c f toy_auth "toy_acct 2 (dy 1073 20)" "toy_owner c f"
        "toy_token c f" "toy_draws 30"]
    by (simp add: toy_auth_def concrete_simps GetNonce_def GetToken_Some f0_dy [of 1073]
        MBR_SLOT_COST_def) (simp add: toy_draws_def)
  then show ?thesis by (simp add: toy_authorized_def concrete_simps fun_upd_twist)
qed

lemmas toy_authorized_accounts [concrete_simps] = conjunct2 [OF toy_authorized_run]

lemma toy_authorized_ok: "app_ok toy_sha1 (toy_authorized c f)"
  by (rule AuthorizeTokenTransfer_ok [OF conjunct1 [OF toy_authorized_run] toy_minted_ok])

end
