(* ===== verification/Token_Runs.thy ===== *)
theory Token_Runs
  imports Token_Ops
begin

text \<open>
  The properties of theory \<open>Token_Ops\<close> applied to concrete states: account 1 mints a token,
  account 2 authorizes the transfer, and the token is moved, clawed back, frozen or burned.
\<close>

lemma add_toy_ok: "app_ok toy_sha1 app \<Longrightarrow> app_ok toy_sha1 (add_toy n bal app)"
  unfolding add_toy_def
  by (rule CreateAccountWithKeys_ok [OF prod.collapse [symmetric]])

definition toy_move :: "ScalegraphId \<Rightarrow> TransferTokenRequest" where
  "toy_move to = \<lparr>tt_From = test_id 1, tt_To = to, tt_TokenId = toy_key, tt_Nonce = 1,
     tt_SignedEnvelope = None\<rparr>"

lemma with_slot_simps [concrete_simps]:
  "tokenStore (with_slot k a) = (tokenStore a)(k \<mapsto> emptyToken)"
  "mbr (with_slot k a) = fadd (mbr a) MBR_SLOT_COST" "acc_id (with_slot k a) = acc_id a"
  "outgoingTxCount (with_slot k a) = outgoingTxCount a + 1" "balance (with_slot k a) = balance a"
  by (simp_all add: with_slot_def bump_def)

theorem transfer_token_behaviour_witness:
  "fst (app_TransferToken (toy_draws 40) (toy_move (test_id 2)) (toy_authorized None None)) = Ok () \<and>
   fst (app_TransferToken (toy_draws 40) (toy_move (test_id 2)) (toy_minted None None)) =
     Err (Failed ''add token'' (TokenNotAuthorized toy_key (test_id 2)))"
proof
  show "fst (app_TransferToken (toy_draws 40) (toy_move (test_id 2)) (toy_authorized None None)) = Ok ()"
    using transfer_token_behaviour [OF toy_authorized_ok, of "toy_draws 40" "toy_move (test_id 2)" None None]
    by (simp add: transfer_token_outcome_def concrete_simps toy_move_def GetNonce_def GetToken_def
        transfer_token_result_def Let_def)
  show "fst (app_TransferToken (toy_draws 40) (toy_move (test_id 2)) (toy_minted None None)) =
     Err (Failed ''add token'' (TokenNotAuthorized toy_key (test_id 2)))"
    using transfer_token_behaviour [OF toy_minted_ok, of "toy_draws 40" "toy_move (test_id 2)" None None]
    by (simp add: transfer_token_outcome_def concrete_simps toy_move_def GetNonce_def GetToken_def
        transfer_token_result_def Let_def)
qed

theorem mint_token_behaviour_witness:
  "fst (app_MintToken (toy_draws 20) (toy_mint None None) toy_app) = Ok toy_key"
proof -
  let ?env = "the (mt_SignedEnvelope (toy_mint None None))"
  show ?thesis
    using mint_token_behaviour [OF toy_app_ok, of "toy_mint None None" ?env "test_id 1"
        "toy_acct 1 (dy 1073 20)" "toy_draws 20"]
    by (simp add: mint_token_result_def toy_mint_def Let_def toy_token_def [symmetric] concrete_simps
        GetNonce_def f0_dy [of 1073] MBR_TOKEN_COST_def) (simp add: toy_sig_def)
qed

definition toy_claw :: ClawbackTokenRequest where
  "toy_claw = \<lparr>ct_From = test_id 1, ct_To = test_id 2, ct_TokenId = toy_key, ct_Nonce = 0,
     ct_SignedEnvelope = None\<rparr>"

theorem clawback_behaviour_witness:
  "fst (app_ClawbackToken (toy_draws 40) toy_claw (toy_minted (Some (test_id 2)) None)) = Ok () \<and>
   fst (app_ClawbackToken (toy_draws 40) toy_claw (toy_minted None None)) = Panic"
  using clawback_behaviour [OF toy_minted_ok, of "toy_draws 40" toy_claw "Some (test_id 2)" None]
    clawback_behaviour [OF toy_minted_ok, of "toy_draws 40" toy_claw None None]
  by (simp add: clawback_outcome_def concrete_simps toy_claw_def GetNonce_def GetToken_def
      clawback_result_def Let_def)

definition toy_unauth :: UnauthorizeTokenTransferRequest where
  "toy_unauth = \<lparr>ut_AccountID = test_id 2, ut_TokenOwnerID = test_id 1, ut_TokenId = toy_key,
     ut_Nonce = 1, ut_SignedEnvelope = None\<rparr>"

theorem authorize_unauthorize_roundtrip_witness:
  "\<exists>app1 app2 a2.
    app_AuthorizeTokenTransfer (toy_draws 30) toy_auth (toy_minted None None) = (Ok (), app1) \<and>
    app_UnauthorizeTokenTransfer (toy_draws 40) toy_unauth app1 = (Ok (), app2) \<and>
    accounts app2 (test_id 2) = Some a2 \<and> tokenStore a2 = Map.empty \<and> mbr a2 = f0"
  using authorize_unauthorize_roundtrip [OF toy_minted_ok, of None None toy_auth
      "toy_acct 2 (dy 1073 20)" "toy_owner None None" "toy_token None None" toy_unauth "toy_draws 30"
      "toy_draws 40"]
  by (auto simp add: toy_auth_def toy_unauth_def concrete_simps GetNonce_def GetToken_Some
      f0_dy [of 1073] MBR_SLOT_COST_def)

definition toy_reauth :: AuthorizeTokenTransferRequest where
  "toy_reauth = \<lparr>at_AccountID = test_id 2, at_TokenOwnerID = test_id 3, at_TokenId = toy_key,
     at_Nonce = 1, at_SignedEnvelope = None\<rparr>"

theorem failed_reauthorize_drops_slot_witness:
  "\<exists>app' a'. app_AuthorizeTokenTransfer (toy_draws 50) toy_reauth
       (add_toy 3 (dy 1073 20) (toy_authorized None None)) =
     (Err (TokenNotFound toy_key (test_id 3)), app') \<and>
     accounts app' (test_id 2) = Some a' \<and> tokenStore a' toy_key = None"
  using failed_reauthorize_drops_slot [OF add_toy_ok [OF toy_authorized_ok], of 3 "dy 1073 20" None None
      toy_reauth "(with_slot toy_key (toy_acct 2 (dy 1073 20)))
        \<lparr>blockchain := bc_append (test_id 131) (authorize_tx (toy_draws 30) toy_auth)
           (blockchain (toy_acct 2 (dy 1073 20)))\<rparr>" "toy_acct 3 (dy 1073 20)" emptyToken "toy_draws 50"]
  by (simp add: concrete_simps toy_reauth_def GetNonce_def GetToken_def without_slot_def)

definition toy_freeze :: FreezeTokenRequest where
  "toy_freeze = \<lparr>fz_FreezeAuthority = test_id 2, fz_TokenHolder = test_id 1, fz_TokenId = toy_key,
     fz_Nonce = 0, fz_SignedEnvelope = None\<rparr>"

lemma flt_freeze_cost [concrete_simps]:
  "flt (dy 1073 m) MBR_FREEZE_COST \<longleftrightarrow> m * 2 ^ 54 < 3602879701896397"
  using dy_rescale [of 1019 54 m] by (simp add: MBR_FREEZE_COST_def flt_dy)

lemma toy_freeze_run:
  "app_FreezeToken (toy_draws 40) toy_freeze (toy_minted None (Some (test_id 2))) =
   (Ok (), snd (app_FreezeToken (toy_draws 40) toy_freeze (toy_minted None (Some (test_id 2)))))"
  by (simp add: app_FreezeToken_def toy_freeze_def append_rollback_def append_both_def on_entry_def
      appendTransaction_def handleFreezeTokenTx_def new_tx_defs GetNonce_def GetToken_def
      concrete_simps bump_def f0_dy [of 1073])

lemma toy_frozen_holder:
  "\<exists>h. accounts (snd (app_FreezeToken (toy_draws 40) toy_freeze (toy_minted None (Some (test_id 2)))))
     (test_id 1) = Some h \<and> GetNonce h = 1"
proof -
  obtain c where "accounts (toy_minted None (Some (test_id 2))) (fz_TokenHolder toy_freeze) = Some c"
    and "\<exists>h. accounts (snd (app_FreezeToken (toy_draws 40) toy_freeze
       (toy_minted None (Some (test_id 2))))) (fz_TokenHolder toy_freeze) = Some h \<and> GetNonce h = GetNonce c"
    by (rule freeze_Ok [OF toy_minted_ok toy_freeze_run]) (rule that; simp)
  then show ?thesis by (auto simp: toy_freeze_def concrete_simps GetNonce_def)
qed


definition toy_burn :: BurnTokenRequest where
  "toy_burn = \<lparr>bt_AccountID = test_id 1, bt_TokenId = toy_key, bt_Nonce = 1, bt_SignedEnvelope = None\<rparr>"

lemma toy_burn_run:
  "app_BurnToken (toy_draws 40) toy_burn (toy_minted None None) =
   (Ok (), snd (app_BurnToken (toy_draws 40) toy_burn (toy_minted None None)))"
  by (simp add: app_BurnToken_def toy_burn_def append_one_def on_entry_def
      appendTransaction_def handleBurnTokenTx_def burnToken_def new_tx_defs GetNonce_def
      concrete_simps) (simp add: toy_sig_def concrete_simps)

theorem burn_only_by_minter_witness:
  "\<exists>a'. accounts (snd (app_BurnToken (toy_draws 40) toy_burn (toy_minted None None))) (test_id 1) = Some a' \<and>
     tokenStore a' toy_key = None"
  using burn_only_by_minter [OF toy_minted_ok toy_burn_run] by (auto simp: toy_burn_def bump_def)

end
