(* ===== verification/Ledger.thy ===== *)
theory Ledger
  imports Token_Runs
begin

text \<open>
  What holds of the whole ledger: failed operations that leave no trace, each token owned by one
  account, chains that only grow (so that a nonce is used once), and the minimum balance as a
  function of the account's chain and token store.
\<close>

section \<open>Failure leaves no trace\<close>

lemma append_one_failed:
  "append_one b x t app = (r, app') \<Longrightarrow> \<not> is_ok r \<Longrightarrow> app' = app"
  by (cases app)
    (auto simp: append_one_def on_entry_def fun_upd_idem dest: appendTransaction_failed
      split: option.splits prod.splits)

text \<open>
  The four operations that reserve or release something at the account that signs: authorizing
  and withdrawing an authorization, freezing and unfreezing.  Their rollback recomputes the locked
  balance and the slot, which need not be exact; everything else it restores.
\<close>

fun reserves :: "transaction \<Rightarrow> bool" where
  "reserves (AuthorizeTokenTransferTransaction _ _ _ _ _) = True"
| "reserves (UnauthorizeTokenTransferTransaction _ _ _ _ _) = True"
| "reserves (FreezeTokenTransaction _ _ _ _ _) = True"
| "reserves (UnfreezeTokenTransaction _ _ _ _ _) = True"
| "reserves _ = False"

text \<open>All of an account but its locked balance and its free slots.\<close>

definition public_view :: "Account \<Rightarrow> ScalegraphId \<times> float64 \<times> uint64 \<times> Blockchain \<times> byte list \<times>
    Certificate option \<times> (string \<rightharpoonup> string) \<times> (string \<Rightarrow> Token option)" where
  "public_view a = (acc_id a, balance a, GetNonce a, blockchain a, publicKey a, certificate a,
     valuestore a, (\<lambda>k. GetToken k a))"

definition same_public :: "App \<Rightarrow> App \<Rightarrow> bool" where
  "same_public app app' \<longleftrightarrow>
     (\<forall>i. map_option public_view (accounts app' i) = map_option public_view (accounts app i))"

lemma same_public_refl [simp]: "same_public app app"
  by (simp add: same_public_def)

lemma append_rollback_Err_cases:
  assumes "append_rollback b1 b2 x y t app = (Err e, app')" "app' \<noteq> app"
  obtains a a1 r a2 where "accounts app x = Some a" "appendTransaction b1 t a = (Ok (), a1)"
    and "rollbacklatestTransaction t a1 = (r, a2)" "app' = app\<lparr>accounts := (accounts app)(x \<mapsto> a2)\<rparr>"
proof (cases "accounts app x")
  case None
  then show ?thesis using assms by (simp add: append_rollback_def append_both_def on_entry_def)
next
  case (Some a)
  obtain r1 a1 where 1: "appendTransaction b1 t a = (r1, a1)" by fastforce
  show ?thesis
  proof (cases "is_ok r1")
    case False
    then have "a1 = a" using appendTransaction_failed [OF 1] by simp
    then have "append_rollback b1 b2 x y t app = (r1, app)" using False 1 Some
      by (cases r1; cases app) (auto simp: append_rollback_def append_both_def on_entry_def fun_upd_idem)
    then show ?thesis using assms by simp
  next
    case True
    then have r1: "r1 = Ok ()" by (auto simp: is_ok_iff)
    obtain s a2 where 3: "rollbacklatestTransaction t a1 = (s, a2)" by fastforce
    obtain c where c: "((accounts app)(x \<mapsto> a1)) y = Some c"
      using assms(1) 1 r1 Some by (cases "((accounts app)(x \<mapsto> a1)) y")
        (auto simp: append_rollback_def append_both_def on_entry_def)
    obtain r2 c1 where 2: "appendTransaction b2 t c = (r2, c1)" by fastforce
    have idem: "(accounts app)(x \<mapsto> a1, y \<mapsto> c) = (accounts app)(x \<mapsto> a1)"
      using c by (rule fun_upd_idem)
    have "\<not> is_ok r2 \<Longrightarrow> c1 = c" using appendTransaction_failed [OF 2] by simp
    then have "app' = app\<lparr>accounts := (accounts app)(x \<mapsto> a2)\<rparr>"
      using assms(1) 1 2 3 r1 Some c idem
      by (cases r2; cases s; cases app) (auto simp: append_rollback_def append_both_def on_entry_def)
    then show ?thesis using that [OF Some] 1 r1 3 by simp
  qed
qed

fun slot_key :: "transaction \<Rightarrow> string" where
  "slot_key (AuthorizeTokenTransferTransaction _ _ _ k _) = k"
| "slot_key (UnauthorizeTokenTransferTransaction _ _ _ k _) = k"
| "slot_key _ = []"

lemma GetToken_free_slot:
  "GetToken k a = None \<Longrightarrow> tokenStore a' = (tokenStore a)(k := v) \<Longrightarrow>
   v = None \<or> v = Some emptyToken \<Longrightarrow> GetToken j a' = GetToken j a"
  by (auto simp: GetToken_def split: option.splits if_splits)

lemma GetToken_same_store: "tokenStore a' = tokenStore a \<Longrightarrow> GetToken j a' = GetToken j a"
  by (simp add: GetToken_def)

lemma reserve_undone_store:
  assumes "txHandler t a = (Ok (), a1)" "txRollbackHandler t a1 = (r, a2)"
    and "reserves t" "tx_Sender t = Some (acc_id a)"
  shows "balance a2 = balance a \<and> outgoingTxCount a2 = outgoingTxCount a \<and>
    (tokenStore a2 = tokenStore a \<or> GetToken (slot_key t) a = None \<and>
      (tokenStore a2 = (tokenStore a)(slot_key t := None) \<or>
       tokenStore a2 = (tokenStore a)(slot_key t \<mapsto> emptyToken)))"
proof (cases t)
  case (AuthorizeTokenTransferTransaction i s q k n)
  then have t: "t = AuthorizeTokenTransferTransaction i (Some (acc_id a)) q k n"
    using assms(4) by simp
  show ?thesis using assms(1,2) unfolding t
    by (simp add: handleAuthorizeTokenTransferTx_def rollbackAuthorizeTokenTransferTx_def
        bump_def unbump_def GetToken_def split: if_splits option.splits) auto
next
  case (UnauthorizeTokenTransferTransaction i s q k n)
  then have t: "t = UnauthorizeTokenTransferTransaction i (Some (acc_id a)) q k n"
    using assms(4) by simp
  show ?thesis using assms(1,2) unfolding t
    by (simp add: handleUnauthorizeTokenTransferTx_def rollbackUnauthorizeTokenTransferTx_def
        bump_def unbump_def GetToken_def split: if_splits option.splits) auto
next
  case (FreezeTokenTransaction i s q k n)
  then have t: "t = FreezeTokenTransaction i (Some (acc_id a)) q k n"
    using assms(4) by simp
  show ?thesis using assms(1,2) unfolding t
    by (simp add: handleFreezeTokenTx_def rollbackFreezeTokenTx_def
        bump_def unbump_def GetToken_def split: if_splits option.splits) auto
next
  case (UnfreezeTokenTransaction i s q k n)
  then have t: "t = UnfreezeTokenTransaction i (Some (acc_id a)) q k n"
    using assms(4) by simp
  show ?thesis using assms(1,2) unfolding t
    by (simp add: handleUnfreezeTokenTx_def rollbackUnfreezeTokenTx_def
        bump_def unbump_def GetToken_def split: if_splits option.splits) auto
qed (use assms(3) in simp_all)

lemma reserve_undone:
  assumes "txHandler t a = (Ok (), a1)" "txRollbackHandler t a1 = (r, a2)"
    and "reserves t" "tx_Sender t = Some (acc_id a)"
  shows "public_view a2 = public_view a"
proof -
  have "acc_id a2 = acc_id a \<and> publicKey a2 = publicKey a \<and> certificate a2 = certificate a \<and>
      valuestore a2 = valuestore a \<and> blockchain a2 = blockchain a"
    using handler_frame [OF assms(1)] rollback_handler_frame [OF assms(2)] by simp
  moreover have "GetToken j a2 = GetToken j a" for j
    using reserve_undone_store [OF assms] GetToken_free_slot GetToken_same_store by blast
  ultimately show ?thesis
    using reserve_undone_store [OF assms] by (simp add: public_view_def GetNonce_def)
qed

lemma append_rollback_public:
  assumes "append_rollback b1 b2 x y t app = (Err e, app')" "app_ok sha1 app"
    and "reserves t" "tx_Sender t = Some x"
  shows "same_public app app'"
proof (cases "app' = app")
  case False
  from append_rollback_Err_cases [OF assms(1) False] obtain a a1 r a2 where
    a: "accounts app x = Some a" "appendTransaction b1 t a = (Ok (), a1)"
    and rb: "rollbacklatestTransaction t a1 = (r, a2)"
    and app': "app' = app\<lparr>accounts := (accounts app)(x \<mapsto> a2)\<rparr>" .
  obtain h where h: "txHandler t a = (Ok (), h)" using a(2) by (auto simp: appendTransaction_ok_iff)
  obtain s a3 where s: "txRollbackHandler t h = (s, a3)" by fastforce
  have "a2 = a3"
    using rollback_after_append [OF a(2) app_ok_chain [OF assms(2) a(1)]] rb h s by (cases s) auto
  then have "public_view a2 = public_view a"
    using reserve_undone [OF h s assms(3)] app_ok_id [OF assms(2) a(1)] assms(4) by simp
  then show ?thesis using a(1) by (simp add: same_public_def app')
qed simp

lemma append_rollback_exact:
  assumes "append_rollback b1 b2 x y t app = (Err e, app')" "app_ok sha1 app"
    and "\<And>a a1. accounts app x = Some a \<Longrightarrow> txHandler t a = (Ok (), a1) \<Longrightarrow> undoable t a"
  shows "app' = app"
proof (rule ccontr)
  assume ne: "app' \<noteq> app"
  from append_rollback_Err_cases [OF assms(1) ne] obtain a a1 r a2 where
    a: "accounts app x = Some a" "appendTransaction b1 t a = (Ok (), a1)"
    "rollbacklatestTransaction t a1 = (r, a2)" "app' = app\<lparr>accounts := (accounts app)(x \<mapsto> a2)\<rparr>" .
  have "undoable t a" using assms(3) a by (auto simp: appendTransaction_ok_iff)
  then have "a2 = a"
    using rollback_undoes_append [OF _ app_ok_chain [OF assms(2) a(1)] a(2)] a(3) by simp
  then show False using ne a by (cases app) (simp add: fun_upd_idem)
qed

text \<open>The operations whose failure leaves the App exactly as it was.\<close>

lemma failed_Create:
  "CreateAccountWithKeys sha1 d pk cert bal app = (Err e, app') \<Longrightarrow> app' = app"
  by (auto simp: CreateAccountWithKeys_def Let_def app_Mint_def append_one_def on_entry_def
      appendTransaction_def newMintTransaction_def handleMintTx_def split: if_splits option.splits)

lemma failed_Mint: "app_Mint d req app = (Err e, app') \<Longrightarrow> app' = app"
  by (auto simp: app_Mint_def Let_def split: option.splits prod.splits outcome.splits)

lemma failed_Transfer:
  assumes "app_ok sha1 app" "app_Transfer d req app = (Err e, app')"
  shows "app' = app"
  using assms(2) transfer_run [OF assms(1), of req _ _ d]
  by (auto simp: app_Transfer_def transfer_result_def Let_def split: option.splits if_splits)

lemma failed_MintToken: "app_MintToken d req app = (Err e, app') \<Longrightarrow> app' = app"
  by (auto simp: app_MintToken_def Let_def dest: append_one_failed split: op_splits)

lemma failed_BurnToken: "app_BurnToken d req app = (Err e, app') \<Longrightarrow> app' = app"
  by (auto simp: app_BurnToken_def dest: append_one_failed split: option.splits if_splits)

lemma failed_TransferToken:
  assumes "app_ok sha1 app" "app_TransferToken d req app = (Err e, app')"
  shows "app' = app"
  using assms(2) transfer_token_total [OF assms(1), of d req]
  by (auto simp: transfer_token_outcome_def transfer_token_result_def Let_def
      split: option.splits if_splits)

lemma failed_ClawbackToken:
  assumes "app_ok sha1 app" "app_ClawbackToken d req app = (Err e, app')"
  shows "app' = app"
  using assms(2) clawback_total [OF assms(1), of d req]
  by (auto simp: clawback_outcome_def clawback_result_def Let_def split: option.splits if_splits)

text \<open>The four operations whose rollback recomputes the locked balance.\<close>

lemma Authorize_run_or_same:
  assumes "app_ok sha1 app" "app_AuthorizeTokenTransfer d req app = (r, app')" "app' \<noteq> app"
  shows "append_rollback (d_block1 d) (d_block2 d) (at_AccountID req) (at_TokenOwnerID req)
    (authorize_tx d req) app = (r, app')"
  using assms(2,3) app_ok_id [OF assms(1)]
  by (auto simp: app_AuthorizeTokenTransfer_def authorize_tx_def new_tx_defs
      split: option.splits if_splits)

lemma Unauthorize_run_or_same:
  assumes "app_ok sha1 app" "app_UnauthorizeTokenTransfer d req app = (r, app')" "app' \<noteq> app"
  shows "append_rollback (d_block1 d) (d_block2 d) (ut_AccountID req) (ut_TokenOwnerID req)
    (unauthorize_tx d req) app = (r, app')"
  using assms(2,3) app_ok_id [OF assms(1)]
  by (auto simp: app_UnauthorizeTokenTransfer_def unauthorize_tx_def new_tx_defs
      split: option.splits if_splits)

lemma Freeze_run_or_same:
  assumes "app_ok sha1 app" "app_FreezeToken d req app = (r, app')" "app' \<noteq> app"
  shows "append_rollback (d_block1 d) (d_block2 d) (fz_FreezeAuthority req) (fz_TokenHolder req)
    (FreezeTokenTransaction (d_tx d) (Some (fz_FreezeAuthority req)) (Some (fz_TokenHolder req))
       (fz_TokenId req) (fz_Nonce req)) app = (r, app')"
  using assms(2,3) app_ok_id [OF assms(1)]
  by (auto simp: app_FreezeToken_def new_tx_defs split: option.splits if_splits)

lemma Unfreeze_run_or_same:
  assumes "app_ok sha1 app" "app_UnfreezeToken d req app = (r, app')" "app' \<noteq> app"
  shows "append_rollback (d_block1 d) (d_block2 d) (uf_FreezeAuthority req) (uf_TokenHolder req)
    (UnfreezeTokenTransaction (d_tx d) (Some (uf_FreezeAuthority req)) (Some (uf_TokenHolder req))
       (uf_TokenId req) (uf_Nonce req)) app = (r, app')"
  using assms(2,3) app_ok_id [OF assms(1)]
  by (auto simp: app_UnfreezeToken_def new_tx_defs split: option.splits if_splits)

lemma handler_slot_empty:
  assumes "t = AuthorizeTokenTransferTransaction i s q k n \<or> t = UnauthorizeTokenTransferTransaction i s q k n"
    and "txHandler t a = (Ok (), a1)" "s = Some (acc_id a)"
  shows "GetToken k a = None"
  using assms(1,2) unfolding assms(3)
  by (elim disjE; simp add: handleAuthorizeTokenTransferTx_def handleUnauthorizeTokenTransferTx_def
      GetToken_def split: if_splits option.splits) auto

lemma failed_AuthorizeTokenTransfer:
  assumes "app_ok sha1 app" "app_AuthorizeTokenTransfer d req app = (Err e, app')"
  shows "same_public app app'"
    and "(\<And>a. accounts app (at_AccountID req) = Some a \<Longrightarrow>
      (tokenStore a (at_TokenId req) = None \<or> GetToken (at_TokenId req) a \<noteq> None) \<and>
      fsub (fadd (mbr a) MBR_SLOT_COST) MBR_SLOT_COST = mbr a) \<Longrightarrow> app' = app"
proof -
  note run = Authorize_run_or_same [OF assms]
  show "same_public app app'"
    using append_rollback_public [OF run assms(1)] by (cases "app' = app") (auto simp: authorize_tx_def)
  assume *: "\<And>a. accounts app (at_AccountID req) = Some a \<Longrightarrow>
      (tokenStore a (at_TokenId req) = None \<or> GetToken (at_TokenId req) a \<noteq> None) \<and>
      fsub (fadd (mbr a) MBR_SLOT_COST) MBR_SLOT_COST = mbr a"
  have "undoable (authorize_tx d req) a"
    if "accounts app (at_AccountID req) = Some a" "txHandler (authorize_tx d req) a = (Ok (), a1)" for a a1
    using * [OF that(1)] handler_slot_empty [OF disjI1 that(2)] app_ok_id [OF assms(1) that(1)]
    by (auto simp: authorize_tx_def)
  then show "app' = app" using append_rollback_exact [OF run assms(1)] by blast
qed

lemma failed_UnauthorizeTokenTransfer:
  assumes "app_ok sha1 app" "app_UnauthorizeTokenTransfer d req app = (Err e, app')"
  shows "same_public app app'"
    and "(\<And>a. accounts app (ut_AccountID req) = Some a \<Longrightarrow>
      (tokenStore a (ut_TokenId req) = Some emptyToken \<or> GetToken (ut_TokenId req) a \<noteq> None) \<and>
      fadd (fsub (mbr a) MBR_SLOT_COST) MBR_SLOT_COST = mbr a) \<Longrightarrow> app' = app"
proof -
  note run = Unauthorize_run_or_same [OF assms]
  show "same_public app app'"
    using append_rollback_public [OF run assms(1)] by (cases "app' = app") (auto simp: unauthorize_tx_def)
  assume *: "\<And>a. accounts app (ut_AccountID req) = Some a \<Longrightarrow>
      (tokenStore a (ut_TokenId req) = Some emptyToken \<or> GetToken (ut_TokenId req) a \<noteq> None) \<and>
      fadd (fsub (mbr a) MBR_SLOT_COST) MBR_SLOT_COST = mbr a"
  have "undoable (unauthorize_tx d req) a"
    if "accounts app (ut_AccountID req) = Some a" "txHandler (unauthorize_tx d req) a = (Ok (), a1)" for a a1
    using * [OF that(1)] handler_slot_empty [OF disjI2 that(2)] app_ok_id [OF assms(1) that(1)]
    by (auto simp: unauthorize_tx_def)
  then show "app' = app" using append_rollback_exact [OF run assms(1)] by blast
qed

lemma failed_FreezeToken:
  assumes "app_ok sha1 app" "app_FreezeToken d req app = (Err e, app')"
  shows "same_public app app'"
    and "(\<And>a. accounts app (fz_FreezeAuthority req) = Some a \<Longrightarrow>
      fsub (fadd (mbr a) MBR_FREEZE_COST) MBR_FREEZE_COST = mbr a) \<Longrightarrow> app' = app"
proof -
  note run = Freeze_run_or_same [OF assms]
  show "same_public app app'"
    using append_rollback_public [OF run assms(1)] by (cases "app' = app") auto
  assume "\<And>a. accounts app (fz_FreezeAuthority req) = Some a \<Longrightarrow>
      fsub (fadd (mbr a) MBR_FREEZE_COST) MBR_FREEZE_COST = mbr a"
  then show "app' = app" using append_rollback_exact [OF run assms(1)] by force
qed

lemma failed_UnfreezeToken:
  assumes "app_ok sha1 app" "app_UnfreezeToken d req app = (Err e, app')"
  shows "same_public app app'"
    and "(\<And>a. accounts app (uf_FreezeAuthority req) = Some a \<Longrightarrow>
      fadd (fsub (mbr a) MBR_UNFREEZE_COST) MBR_UNFREEZE_COST = mbr a) \<Longrightarrow> app' = app"
proof -
  note run = Unfreeze_run_or_same [OF assms]
  show "same_public app app'"
    using append_rollback_public [OF run assms(1)] by (cases "app' = app") auto
  assume "\<And>a. accounts app (uf_FreezeAuthority req) = Some a \<Longrightarrow>
      fadd (fsub (mbr a) MBR_UNFREEZE_COST) MBR_UNFREEZE_COST = mbr a"
  then show "app' = app" using append_rollback_exact [OF run assms(1)] by force
qed

text \<open>
  Property C8.  An operation of the App that returns an error leaves no trace.  For account
  creation, \<^verbatim>\<open>Mint\<close>, \<^verbatim>\<open>Transfer\<close>, \<^verbatim>\<open>MintToken\<close>, \<^verbatim>\<open>BurnToken\<close>, \<^verbatim>\<open>TransferToken\<close> and
  \<^verbatim>\<open>ClawbackToken\<close> the App is exactly the one before, also when the first half had succeeded and
  was rolled back.  For \<^verbatim>\<open>AuthorizeTokenTransfer\<close>, \<^verbatim>\<open>UnauthorizeTokenTransfer\<close>, \<^verbatim>\<open>FreezeToken\<close> and
  \<^verbatim>\<open>UnfreezeToken\<close> every account keeps its balance, nonce, chain, keys, values and owned tokens;
  only the locked balance and the free slot of the signer can differ, because the rollback
  recomputes them.  They are the ones before, and the App with them, whenever adding and
  subtracting the cost cancels in the signer's locked balance and, for the two authorization
  operations, the slot is the one the rollback writes: none before an authorization, the empty
  token before a withdrawal.
\<close>

theorem failed_operations_leave_no_trace:
  assumes "app_ok sha1 app"
  shows "(CreateAccountWithKeys sha1 d pk cert bal app = (Err e, app') \<longrightarrow> app' = app) \<and>
    (app_Mint d mnreq app = (Err e, app') \<longrightarrow> app' = app) \<and>
    (app_Transfer d treq app = (Err e, app') \<longrightarrow> app' = app) \<and>
    (app_MintToken d mreq app = (Err e, app') \<longrightarrow> app' = app) \<and>
    (app_BurnToken d breq app = (Err e, app') \<longrightarrow> app' = app) \<and>
    (app_TransferToken d ttreq app = (Err e, app') \<longrightarrow> app' = app) \<and>
    (app_ClawbackToken d creq app = (Err e, app') \<longrightarrow> app' = app) \<and>
    (app_AuthorizeTokenTransfer d areq app = (Err e, app') \<longrightarrow> same_public app app' \<and>
       ((\<forall>a. accounts app (at_AccountID areq) = Some a \<longrightarrow>
           (tokenStore a (at_TokenId areq) = None \<or> GetToken (at_TokenId areq) a \<noteq> None) \<and>
           fsub (fadd (mbr a) MBR_SLOT_COST) MBR_SLOT_COST = mbr a) \<longrightarrow> app' = app)) \<and>
    (app_UnauthorizeTokenTransfer d ureq app = (Err e, app') \<longrightarrow> same_public app app' \<and>
       ((\<forall>a. accounts app (ut_AccountID ureq) = Some a \<longrightarrow>
           (tokenStore a (ut_TokenId ureq) = Some emptyToken \<or> GetToken (ut_TokenId ureq) a \<noteq> None) \<and>
           fadd (fsub (mbr a) MBR_SLOT_COST) MBR_SLOT_COST = mbr a) \<longrightarrow> app' = app)) \<and>
    (app_FreezeToken d freq app = (Err e, app') \<longrightarrow> same_public app app' \<and>
       ((\<forall>a. accounts app (fz_FreezeAuthority freq) = Some a \<longrightarrow>
           fsub (fadd (mbr a) MBR_FREEZE_COST) MBR_FREEZE_COST = mbr a) \<longrightarrow> app' = app)) \<and>
    (app_UnfreezeToken d ufreq app = (Err e, app') \<longrightarrow> same_public app app' \<and>
       ((\<forall>a. accounts app (uf_FreezeAuthority ufreq) = Some a \<longrightarrow>
           fadd (fsub (mbr a) MBR_UNFREEZE_COST) MBR_UNFREEZE_COST = mbr a) \<longrightarrow> app' = app))"
  by (intro conjI impI) (erule failed_Create failed_Mint failed_Transfer [OF assms] failed_MintToken failed_BurnToken
    failed_TransferToken [OF assms] failed_ClawbackToken [OF assms]
    failed_AuthorizeTokenTransfer(1) [OF assms] failed_UnauthorizeTokenTransfer(1) [OF assms]
    failed_FreezeToken(1) [OF assms] failed_UnfreezeToken(1) [OF assms] |
    erule failed_AuthorizeTokenTransfer(2) [OF assms] failed_UnauthorizeTokenTransfer(2) [OF assms]
      failed_FreezeToken(2) [OF assms] failed_UnfreezeToken(2) [OF assms], simp)+

theorem failed_operations_leave_no_trace_witness:
  "snd (app_TransferToken (toy_draws 40) (toy_move (test_id 2)) (toy_minted None None)) =
   toy_minted None None"
proof -
  have "app_TransferToken (toy_draws 40) (toy_move (test_id 2)) (toy_minted None None) =
      (Err (Failed ''add token'' (TokenNotAuthorized toy_key (test_id 2))),
       snd (app_TransferToken (toy_draws 40) (toy_move (test_id 2)) (toy_minted None None)))"
    using transfer_token_run [OF toy_minted_ok, of None None "toy_move (test_id 2)"
        "toy_owner None None" "toy_acct 2 (dy 1073 20)" "toy_token None None" "toy_draws 40"]
    by (simp add: concrete_simps toy_move_def GetNonce_def GetToken_Some transfer_token_result_def Let_def)
  then show ?thesis
    using failed_operations_leave_no_trace [OF toy_minted_ok] by blast
qed

section \<open>One owner per token\<close>

definition owns :: "Account \<Rightarrow> string \<Rightarrow> bool" where
  "owns a k \<longleftrightarrow> (\<exists>t. tokenStore a k = Some t \<and> \<not> is_placeholder t)"

definition app_owns :: "App \<Rightarrow> ScalegraphId \<Rightarrow> string \<Rightarrow> bool" where
  "app_owns app x k \<longleftrightarrow> (\<exists>a. accounts app x = Some a \<and> owns a k)"

definition single_owner :: "App \<Rightarrow> bool" where
  "single_owner app \<longleftrightarrow> (\<forall>k x y. app_owns app x k \<longrightarrow> app_owns app y k \<longrightarrow> x = y)"

definition owners_shrink :: "App \<Rightarrow> App \<Rightarrow> bool" where
  "owners_shrink app app' \<longleftrightarrow> (\<forall>x a' k. accounts app' x = Some a' \<longrightarrow> owns a' k \<longrightarrow> app_owns app x k)"

lemma owns_iff_GetToken: "owns a k \<longleftrightarrow> GetToken k a \<noteq> None"
  by (auto simp: owns_def GetToken_def split: option.splits if_splits)

lemma owners_shrink_single: "owners_shrink app app' \<Longrightarrow> single_owner app \<Longrightarrow> single_owner app'"
  unfolding owners_shrink_def single_owner_def app_owns_def by meson

text \<open>The transactions that can put a token into a store.\<close>

fun moves_token :: "transaction \<Rightarrow> bool" where
  "moves_token (MintTokenTransaction _ _ _ _) = True"
| "moves_token (TransferTokenTransaction _ _ _ _ _) = True"
| "moves_token (ClawbackTokenTransaction _ _ _ _ _) = True"
| "moves_token _ = False"

lemma handler_owns:
  "txHandler t a = (r, a') \<Longrightarrow> \<not> moves_token t \<Longrightarrow> owns a' k \<Longrightarrow> owns a k"
  by (cases t)
    (auto simp: handler_defs store_op_defs Let_def owns_def split: handler_splits)

lemma rollback_handler_owns:
  "txRollbackHandler t a = (r, a') \<Longrightarrow> \<not> moves_token t \<Longrightarrow> owns a' k \<Longrightarrow> owns a k"
  by (cases t)
    (auto simp: rollback_defs store_op_defs Let_def owns_def split: handler_splits)

lemma append_owns:
  "appendTransaction b t a = (r, a') \<Longrightarrow> \<not> moves_token t \<Longrightarrow> owns a' k \<Longrightarrow> owns a k"
  using handler_owns [of t a]
  by (fastforce simp: appendTransaction_def owns_def split: prod.splits outcome.splits if_splits)

lemma rollback_owns:
  "rollbacklatestTransaction t a = (r, a') \<Longrightarrow> \<not> moves_token t \<Longrightarrow> owns a' k \<Longrightarrow> owns a k"
  using rollback_handler_owns [of t "a\<lparr>blockchain := removeLatestBlock (blockchain a)\<rparr>"]
  by (fastforce simp: rollbacklatestTransaction_def owns_def Let_def
      split: prod.splits outcome.splits if_splits option.splits)

lemma append_one_owns:
  assumes "append_one b x t app = (r, app')" "\<not> moves_token t"
  shows "owners_shrink app app'"
  using assms append_owns [of b t]
  by (fastforce simp: append_one_def on_entry_def owners_shrink_def app_owns_def
      split: prod.splits option.splits if_splits)

lemma append_rollback_owns:
  assumes "append_rollback b1 b2 x y t app = (r, app')" "\<not> moves_token t"
  shows "owners_shrink app app'"
proof -
  obtain m where m: "append_both appendTransaction rollbacklatestTransaction b1 b2 x y t
      (accounts app) = (r, m)" and app': "app' = app\<lparr>accounts := m\<rparr>"
    using assms(1) by (auto simp: append_rollback_def split: prod.splits)
  have "\<forall>k. owns a k \<longrightarrow> app_owns app z k" if "m z = Some a" for z a
    using m _ _ _ that
    by (rule two.append_both_keeps [where P = "\<lambda>z a. \<forall>k. owns a k \<longrightarrow> app_owns app z k"])
      (use assms(2) append_owns rollback_owns in \<open>(auto simp: app_owns_def; blast)+\<close>)
  then show ?thesis by (auto simp: owners_shrink_def app')
qed

lemma owners_shrink_refl [simp]: "owners_shrink app app"
  by (auto simp: owners_shrink_def app_owns_def)

lemma owners_shrink_trans:
  "owners_shrink a b \<Longrightarrow> owners_shrink b c \<Longrightarrow> owners_shrink a c"
  unfolding owners_shrink_def app_owns_def by meson

lemma Mint_owns: "app_Mint d req app = (r, app') \<Longrightarrow> owners_shrink app app'"
  by (auto simp: app_Mint_def Let_def newMintTransaction_def split: op_splits
      intro: append_one_owns)

lemma add_empty_owns:
  "tokenStore acc = Map.empty \<Longrightarrow> owners_shrink app (app\<lparr>accounts := (accounts app)(i \<mapsto> acc)\<rparr>)"
  by (auto simp: owners_shrink_def app_owns_def owns_def)

lemma delete_owns: "owners_shrink app (app\<lparr>accounts := (accounts app)(i := None)\<rparr>)"
  by (auto simp: owners_shrink_def app_owns_def)

lemma Create_owns:
  "CreateAccountWithKeys sha1 d pk cert bal app = (r, app') \<Longrightarrow> owners_shrink app app'"
proof -
  let ?acc = "newAccountWithPublicKey sha1 (d_genesis d) pk cert"
  have "tokenStore ?acc = Map.empty" by (simp add: newAccountWithPublicKey_def)
  from add_empty_owns [OF this, of app] 
  show "CreateAccountWithKeys sha1 d pk cert bal app = (r, app') \<Longrightarrow> owners_shrink app app'"
    by (auto simp: CreateAccountWithKeys_def Let_def split: op_splits
        dest!: Mint_owns intro: owners_shrink_trans delete_owns)
qed

lemma Transfer_owns: "app_Transfer d req app = (r, app') \<Longrightarrow> owners_shrink app app'"
  by (auto simp: app_Transfer_def Let_def newTransferTransaction_def split: op_splits
      dest!: append_one_owns intro: owners_shrink_trans)

lemma BurnToken_owns: "app_BurnToken d req app = (r, app') \<Longrightarrow> owners_shrink app app'"
  by (auto simp: app_BurnToken_def new_tx_defs split: op_splits intro: append_one_owns)

lemma Authorize_owns: "app_AuthorizeTokenTransfer d req app = (r, app') \<Longrightarrow> owners_shrink app app'"
  by (auto simp: app_AuthorizeTokenTransfer_def new_tx_defs split: op_splits intro: append_rollback_owns)

lemma Unauthorize_owns: "app_UnauthorizeTokenTransfer d req app = (r, app') \<Longrightarrow> owners_shrink app app'"
  by (auto simp: app_UnauthorizeTokenTransfer_def new_tx_defs split: op_splits intro: append_rollback_owns)

lemma Freeze_owns: "app_FreezeToken d req app = (r, app') \<Longrightarrow> owners_shrink app app'"
  by (auto simp: app_FreezeToken_def new_tx_defs split: op_splits intro: append_rollback_owns)

lemma Unfreeze_owns: "app_UnfreezeToken d req app = (r, app') \<Longrightarrow> owners_shrink app app'"
  by (auto simp: app_UnfreezeToken_def new_tx_defs split: op_splits intro: append_rollback_owns)

lemmas shrink_lemmas = Create_owns Mint_owns Transfer_owns BurnToken_owns Authorize_owns
  Unauthorize_owns Freeze_owns Unfreeze_owns

lemma owns_moved [simp]:
  "owns (give b t k a) j \<longleftrightarrow> j \<noteq> k \<and> owns a j"
  "\<not> is_placeholder tok \<Longrightarrow> owns (receive b t k tok a) j \<longleftrightarrow> j = k \<or> owns a j"
  "owns (bump a) j \<longleftrightarrow> owns a j" "owns (a\<lparr>blockchain := c\<rparr>) j \<longleftrightarrow> owns a j"
  "owns (a\<lparr>mbr := l\<rparr>) j \<longleftrightarrow> owns a j"
  by (auto simp: owns_def give_def receive_def bump_def)

text \<open>Moving a token from its owner to another account keeps every owner unique.\<close>

lemma single_owner_move:
  assumes "single_owner app" "accounts app x = Some a" "owns a k" "accounts app y = Some c" "x \<noteq> y"
    and "\<And>j. owns a1 j \<Longrightarrow> j \<noteq> k \<and> owns a j" "\<And>j. owns c1 j \<Longrightarrow> j = k \<or> owns c j"
  shows "single_owner (app\<lparr>accounts := (accounts app)(x \<mapsto> a1, y \<mapsto> c1)\<rparr>)"
proof -
  let ?app = "app\<lparr>accounts := (accounts app)(x \<mapsto> a1, y \<mapsto> c1)\<rparr>"
  have old: "app_owns ?app z j \<Longrightarrow> j \<noteq> k \<Longrightarrow> app_owns app z j" for z j
    using assms(2,4-7) by (auto simp: app_owns_def split: if_splits)
  have new: "app_owns ?app z k \<Longrightarrow> z = y" for z
  proof (rule ccontr)
    assume *: "app_owns ?app z k" "z \<noteq> y"
    then have "z \<noteq> x" using assms(6) [of k] assms(5) by (auto simp: app_owns_def)
    with * have "app_owns app z k" by (auto simp: app_owns_def)
    moreover have "app_owns app x k" using assms(2,3) by (auto simp: app_owns_def)
    ultimately show False using assms(1) \<open>z \<noteq> x\<close> by (auto simp: single_owner_def)
  qed
  show ?thesis
    unfolding single_owner_def using old new assms(1) by (metis single_owner_def)
qed

lemma TransferToken_single:
  assumes "app_ok sha1 app" "single_owner app" "app_TransferToken d req app = (r, app')"
  shows "single_owner app'"
proof (cases "app' = app")
  case False
  then obtain a c tok where *: "accounts app (tt_From req) = Some a" "accounts app (tt_To req) = Some c"
    "GetToken (tt_TokenId req) a = Some tok" "tt_Nonce req = GetNonce a"
    using assms(3) by (auto simp: app_TransferToken_def split: option.splits if_splits)
  then have "\<not> is_placeholder tok" "owns a (tt_TokenId req)"
    by (auto simp: GetToken_Some owns_def)
  with * False show ?thesis
    using transfer_token_run [OF assms(1) *, of d] assms(3)
    by (auto simp: transfer_token_result_def Let_def split: if_splits
        intro!: single_owner_move [OF assms(2)])
qed (use assms in simp)

lemma Clawback_single:
  assumes "app_ok sha1 app" "single_owner app" "app_ClawbackToken d req app = (r, app')"
  shows "single_owner app'"
proof (cases "app' = app")
  case False
  then obtain a c tok where *: "accounts app (ct_From req) = Some a" "accounts app (ct_To req) = Some c"
    "GetToken (ct_TokenId req) a = Some tok"
    using assms(3) by (auto simp: app_ClawbackToken_def split: option.splits if_splits)
  then have "owns a (ct_TokenId req)"
    by (auto simp: GetToken_Some owns_def)
  with * False show ?thesis
    using clawback_run [OF assms(1) *, of d] assms(3)
    by (auto simp: clawback_result_def Let_def owns_def bump_def split: if_splits option.splits
        intro!: single_owner_move [OF assms(2)])
qed (use assms in simp)

lemma base_step_single:
  assumes "base_step sha1 app app'" "app_ok sha1 app" "single_owner app"
  shows "single_owner app'"
  using assms(1)
  by (rule base_stepE)
    (auto intro: TransferToken_single [OF assms(2,3)] Clawback_single [OF assms(2,3)]
      owners_shrink_single [OF _ assms(3)] shrink_lemmas)

lemma ledger_step_single:
  "ledger_step sha1 app app' \<Longrightarrow> app_ok sha1 app \<Longrightarrow> single_owner app \<Longrightarrow> single_owner app'"
  by (auto simp: ledger_step_iff intro: base_step_single owners_shrink_single Freeze_owns Unfreeze_owns)

end
