(* ===== verification/Ownership.thy ===== *)
theory Ownership
  imports Ledger
begin

text \<open>
  Tokens have one owner, as long as no two accounts mint with the same signature bytes; chains
  only grow, so a nonce that was used stays used.
\<close>

section \<open>One owner per token in every reachable state\<close>

text \<open>
  The token id is the signature of the mint request, so a mint brings in a new id unless the
  same signature bytes have been accepted before.
\<close>

definition fresh_mint :: "MintTokenRequest \<Rightarrow> App \<Rightarrow> bool" where
  "fresh_mint req app \<longleftrightarrow>
     (\<forall>env x. mt_SignedEnvelope req = Some env \<longrightarrow>
        \<not> app_owns app x (EncodeToString (sig_Value (env_Signature env))))"

inductive fresh_step :: "(byte list \<Rightarrow> ScalegraphId) \<Rightarrow> App \<Rightarrow> App \<Rightarrow> bool" for sha1 where
  Ledger: "ledger_step sha1 app app' \<Longrightarrow> fresh_step sha1 app app'"
| FreshMint: "app_MintToken d req app = (rs, app') \<Longrightarrow> fresh_mint req app \<Longrightarrow> fresh_step sha1 app app'"

inductive_cases fresh_stepE: "fresh_step sha1 app app'"

lemma MintToken_state:
  assumes "app_ok sha1 app" "app_MintToken d req app = (r, app')" "app' \<noteq> app"
  obtains env i a a1 where "mt_SignedEnvelope req = Some env" "accounts app i = Some a"
    and "accounts app' = (accounts app)(i \<mapsto> a1)"
    and "tokenStore a (EncodeToString (sig_Value (env_Signature env))) = None"
    and "tokenStore a1 = (tokenStore a)(EncodeToString (sig_Value (env_Signature env)) \<mapsto>
       newToken (mt_TokenValue req) (env_Signature env) (mt_ClawbackAddress req)
         (mt_FreezeAddress req) (mt_Nonce req))"
    and "SignerID (env_Signature env) = id_String i \<or>
      ScalegraphIdFromString (SignerID (env_Signature env)) = Ok i"
proof -
  from assms(2,3) obtain env i a where e: "mt_SignedEnvelope req = Some env"
    "ScalegraphIdFromString (SignerID (env_Signature env)) = Ok i" "accounts app i = Some a"
    by (auto simp: app_MintToken_def split: op_splits)
  have id: "acc_id a = i" using app_ok_id [OF assms(1) e(3)] .
  let ?tok = "newToken (mt_TokenValue req) (env_Signature env) (mt_ClawbackAddress req)
         (mt_FreezeAddress req) (mt_Nonce req)"
  let ?t = "MintTokenTransaction (d_tx d) None (Some i) ?tok"
  obtain r1 app1 where run: "append_one (d_block1 d) i ?t app = (r1, app1)" by fastforce
  have "app1 = app'" "mt_Nonce req = GetNonce a"
    using assms(2,3) e id run by (auto simp: app_MintToken_def new_tx_defs split: op_splits)
  moreover have "r1 = Ok ()"
    using append_one_failed [OF run] assms(3) calculation by (auto simp: is_ok_iff)
  ultimately have "append_one (d_block1 d) i ?t app = (Ok (), app')" using run by simp
  from append_one_OkD [OF this] e(3) obtain a1 where
    h: "handleMintTokenTx None (Some i) ?tok a = (Ok (), a1)"
    and app': "accounts app' = (accounts app)(i \<mapsto> a1\<lparr>blockchain := bc_append (d_block1 d) ?t (blockchain a)\<rparr>)"
    by auto
  have "and_then ''mint token'' (mintToken ?tok a) bump = (Ok (), a1)"
    using h id by (simp add: handleMintTokenTx_def split: if_splits)
  then obtain a2 where m: "mintToken ?tok a = (Ok (), a2)" "a1 = bump a2"
    by (auto simp: and_then_Ok)
  then have "tokenStore a (token_ID ?tok) = None" "tokenStore a1 = (tokenStore a)(token_ID ?tok \<mapsto> ?tok)"
    by (auto simp: mintToken_def bump_def split: if_splits outcome.splits)
  then show ?thesis using that [OF e(1,3) app'] e(2) by (simp add: token_ID_def)
qed

lemma fresh_step_single:
  assumes "fresh_step sha1 app app'" "app_ok sha1 app \<and> single_owner app"
  shows "app_ok sha1 app' \<and> single_owner app'"
  using assms(1)
proof (rule fresh_stepE)
  assume "ledger_step sha1 app app'"
  then show ?thesis using ledger_step_ok ledger_step_single assms(2) by blast
next
  fix d req r
  assume run: "app_MintToken d req app = (r, app')" and fresh: "fresh_mint req app"
  have ok: "app_ok sha1 app'" using MintToken_ok [OF run] assms(2) by blast
  show ?thesis
  proof (cases "app' = app")
    case False
    obtain env i a a1 where m: "mt_SignedEnvelope req = Some env" "accounts app i = Some a"
      and app': "accounts app' = (accounts app)(i \<mapsto> a1)"
      and st: "tokenStore a1 = (tokenStore a)(EncodeToString (sig_Value (env_Signature env)) \<mapsto>
         newToken (mt_TokenValue req) (env_Signature env) (mt_ClawbackAddress req)
           (mt_FreezeAddress req) (mt_Nonce req))"
      by (rule MintToken_state [OF conjunct1 [OF assms(2)] run False]) (rule that; assumption)
    define k where "k = EncodeToString (sig_Value (env_Signature env))"
    have new: "\<not> app_owns app x k" for x using fresh m by (auto simp: fresh_mint_def k_def)
    have old: "app_owns app' x j \<Longrightarrow> j \<noteq> k \<Longrightarrow> app_owns app x j" for x j
      using m st by (auto simp: app_owns_def app' owns_def k_def split: if_splits)
    have key: "app_owns app' x k \<Longrightarrow> x = i" for x
      using new [of x] by (auto simp: app_owns_def app' split: if_splits)
    show ?thesis using ok old key assms(2) by (metis single_owner_def)
  qed (use assms(2) in simp)
qed

lemma NewApp_single: "single_owner NewApp"
  by (simp add: single_owner_def app_owns_def NewApp_def)

interpretation fresh: transition_invariant "\<lambda>app. app = NewApp" "fresh_step sha1"
  "\<lambda>app. app_ok sha1 app \<and> single_owner app" for sha1
  by unfold_locales
    (auto simp: NewApp_ok NewApp_single dest: fresh_step_single)

text \<open>
  Property C5.  Whatever sequence of operations is run, with whatever mixture of successes and
  failures, no token is ever owned by two accounts, provided no mint is accepted for signature
  bytes that some account already holds as a token.
\<close>

theorem tokens_have_one_owner:
  assumes "(fresh_step sha1)\<^sup>*\<^sup>* NewApp app"
    and "accounts app x = Some a" "GetToken k a = Some t"
    and "accounts app y = Some c" "GetToken k c = Some u"
  shows "x = y \<and> t = u"
proof -
  have "app_owns app x k" "app_owns app y k"
    using assms(2-5) by (auto simp: app_owns_def owns_iff_GetToken)
  then have "x = y" using fresh.reachable_inv [OF refl assms(1)] by (auto simp: single_owner_def)
  with assms(2-5) show ?thesis by simp
qed

lemma toy_app_fresh: "(fresh_step toy_sha1)\<^sup>*\<^sup>* NewApp toy_app"
proof -
  have step: "fresh_step toy_sha1 app (add_toy n bal app)" for n bal app
    unfolding add_toy_def by (metis fresh_step.Ledger ledger_step.Base base_step.Create prod.collapse)
  have "(fresh_step toy_sha1)\<^sup>*\<^sup>* NewApp (add_toy 1 (dy 1073 20) NewApp)" using step by blast
  then show ?thesis unfolding toy_app_def using step by (meson rtranclp.rtrancl_into_rtrancl)
qed

lemma toy_minted_fresh: "(fresh_step toy_sha1)\<^sup>*\<^sup>* NewApp (toy_minted c f)"
proof -
  have "fresh_mint (toy_mint c f) toy_app"
    by (auto simp: fresh_mint_def app_owns_def owns_def concrete_simps split: if_splits)
  from fresh_step.FreshMint [OF conjunct1 [OF toy_minted_run] this] toy_app_fresh
  show ?thesis by (meson rtranclp.rtrancl_into_rtrancl)
qed

theorem tokens_have_one_owner_witness:
  "{y. \<exists>u. accounts (toy_minted None None) y = Some u \<and> GetToken toy_key u \<noteq> None} = {test_id 1}"
  using tokens_have_one_owner [OF toy_minted_fresh, of None None "test_id 1" "toy_owner None None"
      toy_key "toy_token None None"]
  by (auto simp: concrete_simps GetToken_Some)

section \<open>Chains only grow\<close>

definition sent :: "ScalegraphId \<Rightarrow> Account \<Rightarrow> nat" where
  "sent i a = length (List.filter (outgoing_of i) (chain_txs (blockchain a)))"

lemma GetNonce_sent: "app_ok sha1 app \<Longrightarrow> accounts app i = Some a \<Longrightarrow> GetNonce a = of_nat (sent i a)"
  by (auto simp: app_ok_def acct_at_def acct_ok_def GetNonce_def replay_nonce_def sent_def)

definition chains_grow :: "App \<Rightarrow> App \<Rightarrow> bool" where
  "chains_grow app app' \<longleftrightarrow>
     (\<forall>i a. accounts app i = Some a \<longrightarrow>
        (\<exists>a'. accounts app' i = Some a' \<and> sent i a \<le> sent i a'))"

lemma chains_grow_refl [simp]: "chains_grow app app"
  by (simp add: chains_grow_def)

lemma chains_grow_trans: "chains_grow a b \<Longrightarrow> chains_grow b c \<Longrightarrow> chains_grow a c"
  unfolding chains_grow_def by (meson le_trans)

lemma append_sent: "appendTransaction b t a = (r, a') \<Longrightarrow> sent i a \<le> sent i a'"
  using handler_frame(5) [of t a]
  by (fastforce simp: appendTransaction_def sent_def chain_txs_append
      split: prod.splits outcome.splits if_splits)

lemma append_sent_Ok:
  "appendTransaction b t a = (Ok (), a') \<Longrightarrow>
   sent i a' = sent i a + (if outgoing_of i t then 1 else 0)"
  by (auto simp: appendTransaction_ok_iff sent_def chain_txs_append)

lemma rollback_chain:
  assumes "appendTransaction b t a = (Ok (), a1)" "rollbacklatestTransaction t a1 = (r, a2)"
    and "chain_ok (blockchain a)"
  shows "blockchain a2 = blockchain a"
proof -
  obtain h where h: "txHandler t a = (Ok (), h)" using assms(1) by (auto simp: appendTransaction_ok_iff)
  obtain s a3 where s: "txRollbackHandler t h = (s, a3)" by fastforce
  have "a2 = a3" using rollback_after_append [OF assms(1,3)] assms(2) h s by (cases s) auto
  then show ?thesis using rollback_handler_frame(5) [OF s] handler_frame(5) [OF h] by simp
qed

lemma append_one_grow: "append_one b x t app = (r, app') \<Longrightarrow> chains_grow app app'"
  by (auto simp: append_one_def on_entry_def chains_grow_def append_sent
      split: prod.splits option.splits)

lemma append_rollback_grow:
  assumes "append_rollback b1 b2 x y t app = (r, app')" "app_ok sha1 app"
  shows "chains_grow app app'"
proof -
  obtain m where m: "append_both appendTransaction rollbacklatestTransaction b1 b2 x y t
      (accounts app) = (r, m)" and app': "app' = app\<lparr>accounts := m\<rparr>"
    using assms(1) by (auto simp: append_rollback_def split: prod.splits)
  have "\<forall>c. accounts app z = Some c \<longrightarrow> sent z c \<le> sent z a" if "m z = Some a" for z a
    using m _ _ _ that
  proof (rule two.append_both_keeps [where P = "\<lambda>z a. \<forall>c. accounts app z = Some c \<longrightarrow> sent z c \<le> sent z a"])
    fix b a a1 r a2
    assume "accounts app x = Some a" "appendTransaction b t a = (Ok (), a1)"
      "rollbacklatestTransaction t a1 = (r, a2)"
    with rollback_chain app_ok_chain [OF assms(2)] have "blockchain a2 = blockchain a" by blast
    then show "\<forall>c. accounts app x = Some c \<longrightarrow> sent x c \<le> sent x a2"
      using \<open>accounts app x = Some a\<close> by (simp add: sent_def)
  qed (auto intro: order_trans [OF _ append_sent])
  moreover have "dom m = dom (accounts app)" using append_both_dom [OF m] .
  ultimately show ?thesis by (auto simp: chains_grow_def app') blast
qed

lemma Mint_grow: "app_Mint d req app = (r, app') \<Longrightarrow> chains_grow app app'"
  by (auto simp: app_Mint_def Let_def split: op_splits dest: append_one_grow)

lemma Create_grow:
  assumes "CreateAccountWithKeys sha1 d pk cert bal app = (r, app')"
  shows "chains_grow app app'"
proof (cases "accounts app (ScalegraphIdFromPublicKey sha1 pk)")
  case None
  let ?i = "ScalegraphIdFromPublicKey sha1 pk"
  let ?acc = "newAccountWithPublicKey sha1 (d_genesis d) pk cert"
  let ?app1 = "app\<lparr>accounts := (accounts app)(?i \<mapsto> ?acc)\<rparr>"
  have 1: "chains_grow app ?app1" using None by (auto simp: chains_grow_def)
  have 2: "chains_grow app (app2\<lparr>accounts := (accounts app2)(?i := None)\<rparr>)"
    if "chains_grow ?app1 app2" for app2
    using chains_grow_trans [OF 1 that] None by (fastforce simp: chains_grow_def)
  show ?thesis using assms None 1 2 chains_grow_trans [OF 1]
    by (auto simp: CreateAccountWithKeys_def Let_def split: op_splits dest!: Mint_grow)
qed (use assms in \<open>simp add: CreateAccountWithKeys_def Let_def\<close>)

lemma Transfer_grow: "app_Transfer d req app = (r, app') \<Longrightarrow> chains_grow app app'"
  by (auto simp: app_Transfer_def Let_def split: op_splits
      dest!: append_one_grow intro: chains_grow_trans)

lemma MintToken_grow: "app_MintToken d req app = (r, app') \<Longrightarrow> chains_grow app app'"
  by (auto simp: app_MintToken_def Let_def split: op_splits dest: append_one_grow)

lemma BurnToken_grow: "app_BurnToken d req app = (r, app') \<Longrightarrow> chains_grow app app'"
  by (auto simp: app_BurnToken_def split: op_splits dest: append_one_grow)

lemma two_account_grow:
  assumes "app_ok sha1 app"
  shows "app_AuthorizeTokenTransfer d areq app = (r, app') \<Longrightarrow> chains_grow app app'"
    and "app_UnauthorizeTokenTransfer d ureq app = (r, app') \<Longrightarrow> chains_grow app app'"
    and "app_TransferToken d ttreq app = (r, app') \<Longrightarrow> chains_grow app app'"
    and "app_ClawbackToken d creq app = (r, app') \<Longrightarrow> chains_grow app app'"
    and "app_FreezeToken d freq app = (r, app') \<Longrightarrow> chains_grow app app'"
    and "app_UnfreezeToken d ufreq app = (r, app') \<Longrightarrow> chains_grow app app'"
  by (auto simp: app_AuthorizeTokenTransfer_def app_UnauthorizeTokenTransfer_def
      app_TransferToken_def app_ClawbackToken_def app_FreezeToken_def app_UnfreezeToken_def
      split: op_splits dest: append_rollback_grow [OF _ assms])

lemma base_step_grow: "base_step sha1 app app' \<Longrightarrow> app_ok sha1 app \<Longrightarrow> chains_grow app app'"
  by (erule base_stepE)
    (erule Create_grow Mint_grow Transfer_grow BurnToken_grow; simp
      | erule (1) two_account_grow [rotated])+

lemma ledger_step_grow: "ledger_step sha1 app app' \<Longrightarrow> app_ok sha1 app \<Longrightarrow> chains_grow app app'"
  by (auto simp: ledger_step_iff intro: base_step_grow two_account_grow)

lemma app_step_grow: "app_step sha1 app app' \<Longrightarrow> app_ok sha1 app \<Longrightarrow> chains_grow app app'"
  by (auto simp: app_step_iff intro: ledger_step_grow MintToken_grow)

lemma app_steps_grow: "(app_step sha1)\<^sup>*\<^sup>* app app' \<Longrightarrow> app_ok sha1 app \<Longrightarrow> chains_grow app app'"
proof (induction rule: rtranclp_induct)
  case (step b c)
  then show ?case
    using app_step_grow app.steps_inv [OF step.hyps(1) step.prems] chains_grow_trans by blast
qed simp

section \<open>A nonce is used once\<close>

definition nonce_used :: "App \<Rightarrow> App \<Rightarrow> ScalegraphId \<Rightarrow> uint64 \<Rightarrow> bool" where
  "nonce_used app app' i n \<longleftrightarrow>
     (\<exists>a a'. accounts app i = Some a \<and> GetNonce a = n \<and>
        accounts app' i = Some a' \<and> sent i a < sent i a')"

definition nonce_stale :: "App \<Rightarrow> ScalegraphId \<Rightarrow> uint64 \<Rightarrow> bool" where
  "nonce_stale app i n \<longleftrightarrow> (\<forall>a. accounts app i = Some a \<longrightarrow> GetNonce a \<noteq> n)"

lemma used_nonce_stale:
  assumes "app_ok sha1 app" "app_ok sha1 app1" "nonce_used app app1 i n" "(app_step sha1)\<^sup>*\<^sup>* app1 app2"
    and "\<And>a. accounts app2 i = Some a \<Longrightarrow> sent i a < 2 ^ 64"
  shows "nonce_stale app2 i n"
proof (unfold nonce_stale_def, intro allI impI)
  fix a2 assume a2: "accounts app2 i = Some a2"
  obtain a a1 where a: "accounts app i = Some a" "GetNonce a = n"
    and a1: "accounts app1 i = Some a1" "sent i a < sent i a1"
    using assms(3) by (auto simp: nonce_used_def)
  have "sent i a1 \<le> sent i a2"
    using app_steps_grow [OF assms(4,2)] a1(1) a2 by (fastforce simp: chains_grow_def)
  then have *: "sent i a < sent i a2" "sent i a2 < sent i a + 2 ^ 64"
    using a1 assms(5) [OF a2] by linarith+
  have "GetNonce a2 = of_nat (sent i a2)"
    using GetNonce_sent [OF app.steps_inv [OF assms(4,2)] a2] .
  then show "GetNonce a2 \<noteq> n"
    using of_nat_u64_neq [OF *] a GetNonce_sent [OF assms(1) a(1)] by simp
qed

lemma append_one_used:
  assumes "append_one b i t app = (Ok (), app')" "accounts app i = Some a" "GetNonce a = n"
    and "outgoing_of i t"
  shows "nonce_used app app' i n"
proof -
  from append_one_OkD [OF assms(1)] assms(2) obtain a1 where "txHandler t a = (Ok (), a1)"
    "accounts app' i = Some (a1\<lparr>blockchain := bc_append b t (blockchain a)\<rparr>)" by auto
  then show ?thesis using assms(2-4)
    by (simp add: nonce_used_def sent_def chain_txs_append)
qed

lemma append_rollback_used:
  assumes "append_rollback b1 b2 x y t app = (Ok (), app')" "accounts app i = Some a" "GetNonce a = n"
    and "outgoing_of i t" "i = x \<or> i = y"
  shows "nonce_used app app' i n"
proof -
  from append_rollback_OkD [OF assms(1)] obtain c c1 e e1 where
    *: "accounts app x = Some c" "appendTransaction b1 t c = (Ok (), c1)"
    "((accounts app)(x \<mapsto> c1)) y = Some e" "appendTransaction b2 t e = (Ok (), e1)"
    "accounts app' = (accounts app)(x \<mapsto> c1, y \<mapsto> e1)" by blast
  then show ?thesis using assms(2-5) append_sent_Ok [OF *(2), of i] append_sent_Ok [OF *(4), of i]
    by (auto simp: nonce_used_def split: if_splits)
qed

end
