(* ===== verification/Mbr.thy ===== *)
theory Mbr
  imports Ownership
begin

text \<open>
  The minimum balance requirement as documented in \<^verbatim>\<open>account.go\<close>: the slot cost times the slots
  authorized and not filled, plus the token cost times the tokens the account created and did
  not burn.  All of it is computed in steps of 0.5, which doubles represent exactly; the freeze
  cost 0.1 is not, and drifts.
\<close>

section \<open>Counting slots, mints and burns\<close>

definition slots :: "Account \<Rightarrow> nat" where
  "slots a = count_map is_placeholder (tokenStore a)"

fun minted_by :: "ScalegraphId \<Rightarrow> transaction \<Rightarrow> bool" where
  "minted_by me (MintTokenTransaction _ _ r _) \<longleftrightarrow> r = Some me"
| "minted_by me _ \<longleftrightarrow> False"

fun burned_by :: "ScalegraphId \<Rightarrow> transaction \<Rightarrow> bool" where
  "burned_by me (BurnTokenTransaction _ s _ _) \<longleftrightarrow> s = Some me"
| "burned_by me _ \<longleftrightarrow> False"

fun is_freeze :: "transaction \<Rightarrow> bool" where
  "is_freeze (FreezeTokenTransaction _ _ _ _ _) = True"
| "is_freeze (UnfreezeTokenTransaction _ _ _ _ _) = True"
| "is_freeze _ = False"

definition count_txs :: "(transaction \<Rightarrow> bool) \<Rightarrow> Account \<Rightarrow> nat" where
  "count_txs P a = length (List.filter P (chain_txs (blockchain a)))"

definition half_units :: "Account \<Rightarrow> int" where
  "half_units a = int (slots a) +
     2 * (int (count_txs (minted_by (acc_id a)) a) - int (count_txs (burned_by (acc_id a)) a))"

definition mbr_ok :: "Account \<Rightarrow> bool" where
  "mbr_ok a \<longleftrightarrow> finite (dom (tokenStore a)) \<and> slots a \<le> length (chain_txs (blockchain a)) \<and>
     (length (chain_txs (blockchain a)) < 2 ^ 50 \<longrightarrow> mbr a = dy 1073 (half_units a))"

lemma count_txs_le: "count_txs P a \<le> length (chain_txs (blockchain a))"
  by (simp add: count_txs_def)

lemma half_units_bound:
  assumes "slots a \<le> length (chain_txs (blockchain a))" "length (chain_txs (blockchain a)) < 2 ^ 50"
  shows "\<bar>half_units a\<bar> + 4 \<le> 2 ^ 53"
proof -
  have n: "int (length (chain_txs (blockchain a))) < 2 ^ 50" using assms(2) by simp
  have m: "int (count_txs (minted_by (acc_id a)) a) \<le> int (length (chain_txs (blockchain a)))"
    "int (count_txs (burned_by (acc_id a)) a) \<le> int (length (chain_txs (blockchain a)))"
    "int (slots a) \<le> int (length (chain_txs (blockchain a)))"
    using count_txs_le assms(1) by simp_all
  then have "\<bar>half_units a\<bar> \<le> 3 * int (length (chain_txs (blockchain a)))"
    by (simp add: half_units_def)
  with n show ?thesis by simp
qed

text \<open>
  One handler step changes the locked balance by as many half units as it changes the counts.
\<close>

text \<open>Tokens that leave a store are owned, not placeholders; \<^verbatim>\<open>App\<close> checks this beforehand.\<close>

fun takes_owned :: "transaction \<Rightarrow> Account \<Rightarrow> bool" where
  "takes_owned (TransferTokenTransaction _ s _ t _) a \<longleftrightarrow>
     (s = Some (acc_id a) \<longrightarrow> owns a (token_ID t)) \<and> \<not> is_placeholder t"
| "takes_owned (ClawbackTokenTransaction _ s _ t _) a \<longleftrightarrow>
     (s = Some (acc_id a) \<longrightarrow> owns a (token_ID t)) \<and> \<not> is_placeholder t"
| "takes_owned (MintTokenTransaction _ _ _ t) a \<longleftrightarrow> \<not> is_placeholder t"
| "takes_owned _ a \<longleftrightarrow> True"

abbreviation icount :: "(string \<rightharpoonup> Token) \<Rightarrow> int" where
  "icount m \<equiv> int (count_map is_placeholder m)"

lemma icount_new:
  "finite (dom m) \<Longrightarrow> m k = None \<Longrightarrow> is_placeholder t \<Longrightarrow> icount (m(k \<mapsto> t)) = icount m + 1"
  "finite (dom m) \<Longrightarrow> m k = None \<Longrightarrow> \<not> is_placeholder t \<Longrightarrow> icount (m(k \<mapsto> t)) = icount m"
  by (simp_all add: count_map_upd_new)

lemma icount_fill:
  "finite (dom m) \<Longrightarrow> m k = Some s \<Longrightarrow> is_placeholder s \<Longrightarrow> \<not> is_placeholder t \<Longrightarrow>
   icount (m(k \<mapsto> t)) = icount m - 1"
  "finite (dom m) \<Longrightarrow> m k = Some s \<Longrightarrow> is_placeholder t = is_placeholder s \<Longrightarrow>
   icount (m(k \<mapsto> t)) = icount m"
  using count_map_upd_old [of m k s is_placeholder t] by simp_all

lemma icount_del:
  "finite (dom m) \<Longrightarrow> m k = Some s \<Longrightarrow> is_placeholder s \<Longrightarrow> icount (m(k := None)) = icount m - 1"
  "finite (dom m) \<Longrightarrow> m k = Some s \<Longrightarrow> \<not> is_placeholder s \<Longrightarrow> icount (m(k := None)) = icount m"
  using count_map_del [of m k s is_placeholder] by simp_all

lemmas icount_simps = icount_new icount_fill icount_del

definition slot_change :: "Account \<Rightarrow> Account \<Rightarrow> transaction \<Rightarrow> int" where
  "slot_change a a' t = icount (tokenStore a') - icount (tokenStore a)
     + 2 * ((if minted_by (acc_id a) t then 1 else 0) - (if burned_by (acc_id a) t then 1 else 0))"

lemma cost_steps:
  assumes "mbr a = dy 1073 h" "\<bar>h\<bar> + 4 \<le> 2 ^ 53"
  shows "fadd (mbr a) MBR_SLOT_COST = dy 1073 (h + 1)" "fsub (mbr a) MBR_SLOT_COST = dy 1073 (h - 1)"
    "fadd (mbr a) MBR_TOKEN_COST = dy 1073 (h + 2)" "fsub (mbr a) MBR_TOKEN_COST = dy 1073 (h - 2)"
  using assms by (simp_all add: MBR_SLOT_COST_def MBR_TOKEN_COST_def fadd_dy fsub_dy)

lemma handler_mbr:
  assumes "txHandler t a = (Ok (), a')" "takes_owned t a" "\<not> is_freeze t"
    and "finite (dom (tokenStore a))" "mbr a = dy 1073 h" "\<bar>h\<bar> + 4 \<le> 2 ^ 53"
  shows "mbr a' = dy 1073 (h + slot_change a a' t)"
proof -
  note cs = cost_steps [OF assms(5,6), unfolded assms(5)]
  show ?thesis using assms(1-5)
    by (cases t)
      (auto simp: handler_defs store_op_defs Let_def slot_change_def owns_def cs icount_simps
        split: handler_splits)
qed

lemma count_del_le:
  "finite (dom m) \<Longrightarrow> count_map is_placeholder (m(k := None)) \<le> count_map is_placeholder m"
  using count_map_del [of m k _ is_placeholder] by (cases "m k") (auto simp: fun_upd_idem)

lemma count_upd_le:
  "finite (dom m) \<Longrightarrow> count_map is_placeholder (m(k \<mapsto> v)) \<le> Suc (count_map is_placeholder m)"
  using count_map_upd_old [of m k _ is_placeholder v] count_map_upd_new [of m k is_placeholder v]
  by (cases "m k") (auto split: if_splits)

lemma count_fill_same:
  "finite (dom m) \<Longrightarrow> m k = Some s \<Longrightarrow> is_placeholder s \<Longrightarrow>
   count_map is_placeholder (m(k \<mapsto> emptyToken)) = count_map is_placeholder m"
  using count_map_upd_old [of m k s is_placeholder emptyToken] by simp

lemma handler_slots:
  assumes "txHandler t a = (Ok (), a')" "finite (dom (tokenStore a))"
  shows "slots a' \<le> slots a + 1" "finite (dom (tokenStore a'))"
  using assms
  by (cases t; auto simp: handler_defs store_op_defs Let_def slots_def count_upd_le
      le_SucI count_del_le split: handler_splits)+

lemma half_units_step:
  assumes "txHandler t a = (Ok (), a1)" "a' = a1\<lparr>blockchain := bc_append b t (blockchain a)\<rparr>"
  shows "half_units a' = half_units a + slot_change a a' t"
  using handler_frame [OF assms(1)]
  by (simp add: half_units_def slot_change_def slots_def count_txs_def assms(2) chain_txs_append)

lemma append_mbr_ok:
  assumes "appendTransaction b t a = (r, a')" "mbr_ok a" "takes_owned t a" "\<not> is_freeze t"
  shows "mbr_ok a'"
proof (cases "is_ok r")
  case False
  then show ?thesis using appendTransaction_failed [OF assms(1)] assms(2) by simp
next
  case True
  then have "appendTransaction b t a = (Ok (), a')" using assms(1) by (auto simp: is_ok_iff)
  then obtain a1 where h: "txHandler t a = (Ok (), a1)"
    and a': "a' = a1\<lparr>blockchain := bc_append b t (blockchain a)\<rparr>"
    by (auto simp: appendTransaction_ok_iff)
  have fin: "finite (dom (tokenStore a))" and sl: "slots a \<le> length (chain_txs (blockchain a))"
    using assms(2) by (auto simp: mbr_ok_def)
  have len: "length (chain_txs (blockchain a')) = length (chain_txs (blockchain a)) + 1"
    by (simp add: a' chain_txs_append)
  have "slots a' \<le> slots a + 1" using handler_slots(1) [OF h fin] by (simp add: slots_def a')
  moreover have "mbr a' = dy 1073 (half_units a')" if "length (chain_txs (blockchain a')) < 2 ^ 50"
  proof -
    have l: "length (chain_txs (blockchain a)) < 2 ^ 50" using that len by simp
    have "mbr a = dy 1073 (half_units a)" using assms(2) l by (simp add: mbr_ok_def)
    from handler_mbr [OF h assms(3,4) fin this half_units_bound [OF sl l]]
    show ?thesis unfolding half_units_step [OF h a'] by (simp add: a' slot_change_def)
  qed
  ultimately show ?thesis
    using handler_slots(2) [OF h fin] sl len by (simp add: mbr_ok_def a')
qed

text \<open>The rollback of an authorization, successful or not, keeps the account balanced.\<close>

fun is_authorization :: "transaction \<Rightarrow> bool" where
  "is_authorization (AuthorizeTokenTransferTransaction _ _ _ _ _) = True"
| "is_authorization (UnauthorizeTokenTransferTransaction _ _ _ _ _) = True"
| "is_authorization _ = False"

lemma rollback_slots:
  assumes "fst (txHandler t a) = Ok ()" "(r, a2) = txRollbackHandler t (snd (txHandler t a))"
    and "is_authorization t" "tx_Sender t = Some (acc_id a)" "finite (dom (tokenStore a))"
  shows "slots a2 \<le> slots a \<and> finite (dom (tokenStore a2))"
  using assms
  by (cases a; cases t)
    (auto simp: handler_defs rollback_defs store_op_defs Let_def slots_def fun_upd_idem
      count_del_le count_fill_same split: handler_splits)

lemma rollback_mbr:
  assumes "fst (txHandler t a) = Ok ()" "(r, a2) = txRollbackHandler t (snd (txHandler t a))"
    and "is_authorization t" "tx_Sender t = Some (acc_id a)"
    and "finite (dom (tokenStore a))" "mbr a = dy 1073 h" "\<bar>h\<bar> + 4 \<le> 2 ^ 53"
  shows "mbr a2 = dy 1073 (h + icount (tokenStore a2) - icount (tokenStore a))"
proof -
  have ar: "fadd (dy 1073 h) MBR_SLOT_COST = dy 1073 (h + 1)"
    "fsub (dy 1073 h) MBR_SLOT_COST = dy 1073 (h - 1)"
    "fsub (dy 1073 (h + 1)) MBR_SLOT_COST = dy 1073 h"
    "fadd (dy 1073 (h - 1)) MBR_SLOT_COST = dy 1073 h"
    using assms(7) by (simp_all add: MBR_SLOT_COST_def fadd_dy fsub_dy)
  show ?thesis using assms(1-6)
    by (cases a; cases t)
      (auto simp: handler_defs rollback_defs store_op_defs Let_def ar icount_simps fun_upd_idem
        split: handler_splits)
qed

lemma rollback_mbr_ok:
  assumes "appendTransaction b t a = (Ok (), a1)" "rollbacklatestTransaction t a1 = (r, a2)"
    and "mbr_ok a" "chain_ok (blockchain a)" "is_authorization t" "tx_Sender t = Some (acc_id a)"
  shows "mbr_ok a2"
proof -
  obtain h where h: "txHandler t a = (Ok (), h)" using assms(1) by (auto simp: appendTransaction_ok_iff)
  obtain s a3 where s: "txRollbackHandler t h = (s, a3)" by fastforce
  have a3: "a2 = a3" using rollback_after_append [OF assms(1,4)] assms(2) h s by (cases s) auto
  have ch: "blockchain a2 = blockchain a" by (rule rollback_chain [OF assms(1,2,4)])
  have id: "acc_id a2 = acc_id a"
    using rollback_latest_frame(1) [OF assms(2)] appendTransaction_frame(1) [OF assms(1)] by simp
  have fin: "finite (dom (tokenStore a))" and sl: "slots a \<le> length (chain_txs (blockchain a))"
    using assms(3) by (auto simp: mbr_ok_def)
  have hu: "half_units a2 = half_units a + icount (tokenStore a2) - icount (tokenStore a)"
    by (simp add: half_units_def slots_def count_txs_def ch id)
  have "mbr a2 = dy 1073 (half_units a2)" if l: "length (chain_txs (blockchain a)) < 2 ^ 50"
  proof -
    have "mbr a = dy 1073 (half_units a)" using assms(3) l by (simp add: mbr_ok_def)
    from rollback_mbr [OF _ _ assms(5,6) fin this half_units_bound [OF sl l], of s a2] h s a3
    show ?thesis using hu a3 by simp
  qed
  moreover have "slots a2 \<le> slots a \<and> finite (dom (tokenStore a2))"
    using rollback_slots [OF _ _ assms(5,6) fin, of s a2] h s a3 by simp
  ultimately show ?thesis using sl by (simp add: mbr_ok_def ch)
qed

section \<open>The invariant at the level of the App\<close>

definition app_mbr_ok :: "App \<Rightarrow> bool" where
  "app_mbr_ok app \<longleftrightarrow> (\<forall>i a. accounts app i = Some a \<longrightarrow> mbr_ok a)"

lemma append_one_mbr:
  assumes "append_one b x t app = (r, app')" "app_mbr_ok app" "\<not> is_freeze t"
    and "\<And>a. accounts app x = Some a \<Longrightarrow> takes_owned t a"
  shows "app_mbr_ok app'"
  using assms append_mbr_ok [of b t]
  by (fastforce simp: append_one_def on_entry_def app_mbr_ok_def
      split: prod.splits option.splits if_splits)

lemma append_rollback_mbr:
  assumes "append_rollback b1 b2 x y t app = (r, app')" "app_mbr_ok app" "app_ok sha1 app"
    and "is_authorization t" "tx_Sender t = Some x"
  shows "app_mbr_ok app'"
proof -
  obtain m where m: "append_both appendTransaction rollbacklatestTransaction b1 b2 x y t
      (accounts app) = (r, m)" and app': "app' = app\<lparr>accounts := m\<rparr>"
    using assms(1) by (auto simp: append_rollback_def split: prod.splits)
  have t: "\<not> is_freeze t" "takes_owned t a" for a using assms(4) by (cases t; simp)+
  have "mbr_ok a" if "m i = Some a" for i a
    using m _ _ _ that
  proof (rule two.append_both_keeps [where P = "\<lambda>_. mbr_ok"])
    fix b a a1 r a2
    assume *: "accounts app x = Some a" "appendTransaction b t a = (Ok (), a1)"
      "rollbacklatestTransaction t a1 = (r, a2)" "mbr_ok a"
    have "tx_Sender t = Some (acc_id a)" using assms(5) app_ok_id [OF assms(3) *(1)] by simp
    from rollback_mbr_ok [OF *(2-4) app_ok_chain [OF assms(3) *(1)] assms(4) this]
    show "mbr_ok a2" .
  qed (use assms(2) t append_mbr_ok in \<open>auto simp: app_mbr_ok_def\<close>)
  then show ?thesis by (simp add: app_mbr_ok_def app')
qed

lemma Mint_mbr: "app_Mint d req app = (r, app') \<Longrightarrow> app_mbr_ok app \<Longrightarrow> app_mbr_ok app'"
  by (auto simp: app_Mint_def Let_def newMintTransaction_def split: op_splits dest: append_one_mbr)

lemma mbr_ok_new: "mbr_ok (newAccountWithPublicKey sha1 g pk cert)"
  by (simp add: mbr_ok_def newAccountWithPublicKey_def slots_def half_units_def count_txs_def
      chain_txs_new f0_dy [of 1073])

lemma Create_mbr:
  assumes "CreateAccountWithKeys sha1 d pk cert bal app = (r, app')" "app_mbr_ok app"
  shows "app_mbr_ok app'"
proof -
  have "app_mbr_ok (app\<lparr>accounts := (accounts app)
      (i \<mapsto> newAccountWithPublicKey sha1 (d_genesis d) pk cert)\<rparr>)" for i
    using assms(2) mbr_ok_new by (auto simp: app_mbr_ok_def)
  moreover have "app_mbr_ok app2 \<Longrightarrow> app_mbr_ok (app2\<lparr>accounts := (accounts app2)(i := None)\<rparr>)" for app2 i
    by (auto simp: app_mbr_ok_def)
  ultimately show ?thesis
    using assms by (auto simp: CreateAccountWithKeys_def Let_def split: op_splits dest: Mint_mbr)
qed

lemma Transfer_mbr: "app_Transfer d req app = (r, app') \<Longrightarrow> app_mbr_ok app \<Longrightarrow> app_mbr_ok app'"
  by (auto simp: app_Transfer_def Let_def newTransferTransaction_def split: op_splits
      dest!: append_one_mbr)

lemma BurnToken_mbr: "app_BurnToken d req app = (r, app') \<Longrightarrow> app_mbr_ok app \<Longrightarrow> app_mbr_ok app'"
  by (auto simp: app_BurnToken_def new_tx_defs split: op_splits dest: append_one_mbr)

lemma signed_by_account_not_placeholder:
  assumes "ScalegraphIdFromString (SignerID (tok_signature t)) = Ok i"
  shows "\<not> is_placeholder t"
proof
  assume "is_placeholder t"
  then have "SignerID (tok_signature t) = []"
    by (simp add: TokenEqual_def Let_def emptyToken_def emptySignature_def)
  then show False using assms by (simp add: ScalegraphIdFromString_def)
qed

lemma MintToken_mbr: "app_MintToken d req app = (r, app') \<Longrightarrow> app_mbr_ok app \<Longrightarrow> app_mbr_ok app'"
  by (auto simp: app_MintToken_def Let_def newMintTokenTransaction_def split: op_splits
      dest!: append_one_mbr intro!: signed_by_account_not_placeholder)

lemma Authorize_mbr:
  "app_AuthorizeTokenTransfer d req app = (r, app') \<Longrightarrow> app_mbr_ok app \<Longrightarrow> app_ok sha1 app \<Longrightarrow> app_mbr_ok app'"
  by (auto simp: app_AuthorizeTokenTransfer_def new_tx_defs app_ok_id split: op_splits
      dest: append_rollback_mbr)

lemma Unauthorize_mbr:
  "app_UnauthorizeTokenTransfer d req app = (r, app') \<Longrightarrow> app_mbr_ok app \<Longrightarrow> app_ok sha1 app \<Longrightarrow> app_mbr_ok app'"
  by (auto simp: app_UnauthorizeTokenTransfer_def new_tx_defs app_ok_id split: op_splits
      dest: append_rollback_mbr)

lemma append_rollback_Ok_mbr:
  assumes "append_rollback b1 b2 x y t app = (Ok (), app')" "app_mbr_ok app" "x \<noteq> y"
    and "\<not> is_freeze t" "\<And>a. accounts app x = Some a \<Longrightarrow> takes_owned t a"
    and "\<And>a. accounts app y = Some a \<Longrightarrow> takes_owned t a"
  shows "app_mbr_ok app'"
proof -
  from append_rollback_OkD [OF assms(1)] assms(3) obtain a a1 c c1 where
    *: "accounts app x = Some a" "appendTransaction b1 t a = (Ok (), a1)"
    "accounts app y = Some c" "appendTransaction b2 t c = (Ok (), c1)"
    "accounts app' = (accounts app)(x \<mapsto> a1, y \<mapsto> c1)" by auto
  then have "mbr_ok a1" "mbr_ok c1"
    using append_mbr_ok [OF *(2)] append_mbr_ok [OF *(4)] assms(2,4-6) by (auto simp: app_mbr_ok_def)
  with * assms(2) show ?thesis by (simp add: app_mbr_ok_def)
qed

lemma TransferToken_mbr:
  assumes "app_TransferToken d req app = (r, app')" "app_mbr_ok app" "app_ok sha1 app"
  shows "app_mbr_ok app'"
proof (cases "app' = app")
  case False
  then obtain a c tok where *: "accounts app (tt_From req) = Some a" "accounts app (tt_To req) = Some c"
    "GetToken (tt_TokenId req) a = Some tok" "tt_Nonce req = GetNonce a"
    using assms(1) by (auto simp: app_TransferToken_def split: option.splits if_splits)
  have id: "acc_id a = tt_From req" "acc_id c = tt_To req" using app_ok_id [OF assms(3)] * by auto
  have ne: "tt_From req \<noteq> tt_To req" and r: "r = Ok ()"
    using transfer_token_run [OF assms(3) *, of d] assms(1) False
    by (auto simp: transfer_token_result_def Let_def split: if_splits)
  have run: "append_rollback (d_block1 d) (d_block2 d) (tt_From req) (tt_To req)
      (TransferTokenTransaction (d_tx d) (Some (tt_From req)) (Some (tt_To req)) tok (tt_Nonce req)) app
      = (Ok (), app')"
    using assms(1) * id r by (simp add: app_TransferToken_def new_tx_defs)
  have "owns a (token_ID tok)" "\<not> is_placeholder tok"
    using * GetToken_ID [OF assms(3) *(1,3)] by (auto simp: GetToken_Some owns_def)
  then show ?thesis using ne * id by (intro append_rollback_Ok_mbr [OF run assms(2) ne]) auto
qed (use assms in simp)

lemma Clawback_mbr:
  assumes "app_ClawbackToken d req app = (r, app')" "app_mbr_ok app" "app_ok sha1 app"
  shows "app_mbr_ok app'"
proof (cases "app' = app")
  case False
  then obtain a c tok where *: "accounts app (ct_From req) = Some a" "accounts app (ct_To req) = Some c"
    "GetToken (ct_TokenId req) a = Some tok"
    using assms(1) by (auto simp: app_ClawbackToken_def split: option.splits if_splits)
  have id: "acc_id a = ct_From req" "acc_id c = ct_To req" using app_ok_id [OF assms(3)] * by auto
  have ne: "ct_From req \<noteq> ct_To req" and r: "r = Ok ()" and
    g: "clawbackAddress tok = Some (ct_To req)" "ct_Nonce req = GetNonce c"
    using clawback_run [OF assms(3) *, of d] assms(1) False
    by (auto simp: clawback_result_def Let_def split: if_splits option.splits)
  have run: "append_rollback (d_block1 d) (d_block2 d) (ct_From req) (ct_To req)
      (ClawbackTokenTransaction (d_tx d) (Some (ct_From req)) (Some (ct_To req)) tok (ct_Nonce req)) app
      = (Ok (), app')"
    using assms(1) * id r g by (simp add: app_ClawbackToken_def new_tx_defs)
  have "owns a (token_ID tok)" "\<not> is_placeholder tok"
    using * GetToken_ID [OF assms(3) *(1,3)] by (auto simp: GetToken_Some owns_def)
  then show ?thesis using ne * id by (intro append_rollback_Ok_mbr [OF run assms(2) ne]) auto
qed (use assms in simp)

inductive nofreeze_step :: "(byte list \<Rightarrow> ScalegraphId) \<Rightarrow> App \<Rightarrow> App \<Rightarrow> bool" for sha1 where
  Base: "base_step sha1 app app' \<Longrightarrow> nofreeze_step sha1 app app'"
| MintToken: "app_MintToken d req app = (rs, app') \<Longrightarrow> nofreeze_step sha1 app app'"

inductive_simps nofreeze_step_iff: "nofreeze_step sha1 app app'"

lemma base_step_mbr:
  assumes "base_step sha1 app app'" "app_ok sha1 app" "app_mbr_ok app"
  shows "app_mbr_ok app'"
  using assms(1)
  by (rule base_stepE)
    (blast intro: Create_mbr Mint_mbr Transfer_mbr BurnToken_mbr
      Authorize_mbr Unauthorize_mbr TransferToken_mbr Clawback_mbr assms(2,3))+

interpretation nofreeze: transition_invariant "\<lambda>app. app = NewApp" "nofreeze_step sha1"
  "\<lambda>app. app_ok sha1 app \<and> app_mbr_ok app" for sha1
proof unfold_locales
  show "app_ok sha1 app \<and> app_mbr_ok app" if "app = NewApp" for app
    using that NewApp_ok by (simp add: app_mbr_ok_def NewApp_def)
  show "app_ok sha1 app' \<and> app_mbr_ok app'" if "nofreeze_step sha1 app app'" "app_ok sha1 app \<and> app_mbr_ok app"
    for app app'
    using that by (auto simp: nofreeze_step_iff
        intro: base_step_ok base_step_mbr MintToken_ok MintToken_mbr)
qed

text \<open>
  Property C6.  The minimum balance is what the comment in \<^verbatim>\<open>account.go\<close> says: in every state
  reached without freezing, and for every account with fewer than \<open>2 ^ 50\<close> transactions, the
  locked balance is exactly 0.5 times the slots authorized and not filled plus 1.0 times the
  tokens the account minted less those it burned, over all the failed and rolled-back calls on
  the way.
\<close>

theorem minimum_balance_accounting:
  assumes "(nofreeze_step sha1)\<^sup>*\<^sup>* NewApp app" "accounts app i = Some a"
    and "bc_Len (blockchain a) \<le> 2 ^ 50"
  shows "mbr a = dy 1073 (int (card {k. tokenStore a k \<noteq> None \<and> GetToken k a = None}) +
    2 * (int (length (List.filter (minted_by i) (chain_txs (blockchain a)))) -
         int (length (List.filter (burned_by i) (chain_txs (blockchain a))))))"
proof -
  have ok: "app_ok sha1 app" "mbr_ok a"
    using nofreeze.reachable_inv [OF refl assms(1)] assms(2) by (auto simp: app_mbr_ok_def)
  have id: "acc_id a = i" using app_ok_id [OF ok(1) assms(2)] .
  have "length (chain_txs (blockchain a)) < 2 ^ 50"
    using assms(3) chain_length [OF app_ok_chain [OF ok(1) assms(2)]] by simp
  then have "mbr a = dy 1073 (half_units a)" using ok(2) by (simp add: mbr_ok_def)
  moreover have "{k. tokenStore a k \<noteq> None \<and> GetToken k a = None} =
      {k. \<exists>t. tokenStore a k = Some t \<and> is_placeholder t}"
    by (auto simp: GetToken_def split: option.splits if_splits)
  ultimately show ?thesis
    by (simp add: half_units_def slots_def count_map_def count_txs_def id)
qed

lemma toy_minted_nofreeze: "(nofreeze_step toy_sha1)\<^sup>*\<^sup>* NewApp (toy_minted c f)"
proof -
  have step: "nofreeze_step toy_sha1 app (add_toy n bal app)" for n bal app
    unfolding add_toy_def by (metis nofreeze_step.Base base_step.Create prod.collapse)
  have "(nofreeze_step toy_sha1)\<^sup>*\<^sup>* NewApp (add_toy 1 (dy 1073 20) NewApp)" using step by blast
  then have "(nofreeze_step toy_sha1)\<^sup>*\<^sup>* NewApp toy_app"
    unfolding toy_app_def using step by (meson rtranclp.rtrancl_into_rtrancl)
  with nofreeze_step.MintToken [OF conjunct1 [OF toy_minted_run]]
  show ?thesis by (meson rtranclp.rtrancl_into_rtrancl)
qed

theorem minimum_balance_accounting_witness:
  "dy 1073 2 = dy 1073 (int (card {k. tokenStore (toy_owner None None) k \<noteq> None \<and>
      GetToken k (toy_owner None None) = None}) +
    2 * (int (length (List.filter (minted_by (test_id 1)) (chain_txs (blockchain (toy_owner None None))))) -
         int (length (List.filter (burned_by (test_id 1)) (chain_txs (blockchain (toy_owner None None)))))))"
proof -
  have len: "bc_Len (blockchain (toy_owner None None)) \<le> 2 ^ 50"
    by (simp add: toy_owner_def toy_acct_def bc_Len_def bc_append_def newBlockchain_def Let_def)
  have "accounts (toy_minted None None) (test_id 1) = Some (toy_owner None None)"
    by (simp add: concrete_simps)
  from minimum_balance_accounting [OF toy_minted_nofreeze this len]
  show ?thesis by (simp only: toy_owner_simps)
qed

section \<open>The freeze cost drifts\<close>

fun run_txs :: "transaction list \<Rightarrow> Account \<Rightarrow> acct_call" where
  "run_txs [] a = (Ok (), a)"
| "run_txs (t # ts) a =
     (case txHandler t a of
        (Ok _, a') \<Rightarrow> run_txs ts a'
      | (Err e, a') \<Rightarrow> (Err e, a')
      | (Panic, a') \<Rightarrow> (Panic, a'))"

definition freeze_tx :: "nat \<Rightarrow> transaction" where
  "freeze_tx n = FreezeTokenTransaction (test_id n) (Some (test_id 1)) (Some (test_id 2))
     ''aa'' (of_nat n)"

definition unfreeze_tx :: "nat \<Rightarrow> transaction" where
  "unfreeze_tx n = UnfreezeTokenTransaction (test_id n) (Some (test_id 1)) (Some (test_id 2))
     ''aa'' (of_nat n)"

lemma freeze_guard:
  assumes "0 \<le> m" "m \<le> 2 ^ 54"
  shows "flt (fsub (dy 1073 20) (dy 1019 m)) MBR_FREEZE_COST \<longleftrightarrow> False"
proof -
  let ?c = "3602879701896397 :: int"
  have rep: "representable (?c * 2 ^ 1019)" by (rule representable_dyadic) simp_all
  have "(?c + m) * 2 ^ 1019 \<le> (20 * 2 ^ 54) * 2 ^ 1019"
    using assms by (intro mult_right_mono) simp_all
  then have "?c * 2 ^ 1019 \<le> 20 * 2 ^ 1073 - m * 2 ^ 1019" by (simp add: distrib_right)
  from fround_ge [OF rep this] show ?thesis
    by (cases "fround (20 * 2 ^ 1073 - m * 2 ^ 1019)")
      (auto simp: dy_def fsub_Fin MBR_FREEZE_COST_def fle_def)
qed

lemma freeze_sums:
  "fadd (dy 1019 0) MBR_FREEZE_COST = dy 1019 3602879701896397"
  "fadd (dy 1019 3602879701896397) MBR_FREEZE_COST = dy 1019 7205759403792794"
  "fadd (dy 1019 7205759403792794) MBR_FREEZE_COST = dy 1019 10808639105689192"
  "fsub (dy 1019 10808639105689192) MBR_UNFREEZE_COST = dy 1019 7205759403792795"
  "fsub (dy 1019 7205759403792795) MBR_UNFREEZE_COST = dy 1019 3602879701896398"
  "fsub (dy 1019 3602879701896398) MBR_UNFREEZE_COST = dy 1019 1"
proof -
  have r: "rne (ulp_shift 10808639105689191) 10808639105689191 = 10808639105689192"
  proof -
    have "nbits 10808639105689191 \<le> 54" by (rule nbits_le) simp
    moreover have "53 < nbits 10808639105689191" by (rule nbits_ge) simp
    ultimately have "ulp_shift 10808639105689191 = 1" by (simp add: ulp_shift_def)
    then show ?thesis by (simp add: rne_def Let_def)
  qed
  show "fadd (dy 1019 7205759403792794) MBR_FREEZE_COST = dy 1019 10808639105689192"
    by (simp add: MBR_FREEZE_COST_def fadd_dy_round r)
qed (simp_all add: MBR_FREEZE_COST_def MBR_UNFREEZE_COST_def fadd_dy fsub_dy)

text \<open>
  The comment on \<^verbatim>\<open>MBR_UNFREEZE_COST\<close> says it must match the freeze cost so that
  unfreezing releases what freezing locked.  The constants match but binary floating point does
  not cancel: an authority with nothing locked that freezes three times and unfreezes three times
  ends with a locked balance of one unit of \<open>2 ^ -55\<close> instead of zero.
\<close>

theorem freeze_unfreeze_drift:
  "\<exists>a'. run_txs [freeze_tx 0, freeze_tx 1, freeze_tx 2, unfreeze_tx 3, unfreeze_tx 4, unfreeze_tx 5]
      (toy_acct 1 (dy 1073 20)) = (Ok (), a') \<and>
    mbr (toy_acct 1 (dy 1073 20)) = f0 \<and> mbr a' = dy 1019 1 \<and> mbr a' \<noteq> f0"
  by (simp add: freeze_tx_def unfreeze_tx_def handleFreezeTokenTx_def handleUnfreezeTokenTx_def
      toy_acct_def bump_def freeze_sums freeze_guard f0_dy [of 1019] dy_inject)

end
