(* ===== verification/Registry.thy ===== *)
theory Registry
  imports Errors
begin

text \<open>
  \<^verbatim>\<open>internal/server/registry.go\<close> and the data of \<^verbatim>\<open>virtual_app.go\<close>: virtual apps under their
  ids, and the lookup of the \<open>k\<close> ids closest to a target in the XOR metric.  \<^verbatim>\<open>List\<close> and the
  loop of \<^verbatim>\<open>GetKClosest\<close> range over a Go map, whose order is unspecified: the enumeration is an
  argument, and what is proved holds for every enumeration.  A virtual app's client, pub/sub
  channel and context are left out; of a transport its type and address are kept.  What runs in a
  virtual app is in \<open>Lifecycle\<close>.
\<close>

section \<open>Virtual apps\<close>

record Transport =
  tr_Type :: string
  tr_Address :: string

record VirtualApp =
  vapp_ID :: ScalegraphId
  vapp_transports :: "Transport list"

definition newVirtualApp :: "ScalegraphId \<Rightarrow> VirtualApp" where
  "newVirtualApp i = \<lparr>vapp_ID = i, vapp_transports = []\<rparr>"

definition AddTransport :: "Transport \<Rightarrow> VirtualApp \<Rightarrow> VirtualApp" where
  "AddTransport t v = v\<lparr>vapp_transports := vapp_transports v @ [t]\<rparr>"

definition Addresses :: "VirtualApp \<Rightarrow> string \<rightharpoonup> string" where
  "Addresses v = fold (\<lambda>t m. m(tr_Type t \<mapsto> tr_Address t)) (vapp_transports v) Map.empty"

section \<open>The registry\<close>

record Registry =
  byID :: "ScalegraphId \<rightharpoonup> VirtualApp"

definition NewRegistry :: Registry where
  "NewRegistry = \<lparr>byID = Map.empty\<rparr>"

definition Register :: "VirtualApp \<Rightarrow> Registry \<Rightarrow> (error, unit, Registry) call" where
  "Register vapp r =
     (if byID r (vapp_ID vapp) \<noteq> None then (Err (AlreadyRegistered (vapp_ID vapp)), r)
      else (Ok (), r\<lparr>byID := (byID r)(vapp_ID vapp \<mapsto> vapp)\<rparr>))"

definition Unregister :: "ScalegraphId \<Rightarrow> Registry \<Rightarrow> Registry" where
  "Unregister i r = r\<lparr>byID := (byID r)(i := None)\<rparr>"

definition GetByID :: "ScalegraphId \<Rightarrow> Registry \<Rightarrow> VirtualApp option" where
  "GetByID i r = byID r i"

definition Count :: "Registry \<Rightarrow> int" where
  "Count r = int (card (dom (byID r)))"

text \<open>A slice that \<^verbatim>\<open>List\<close> may return.\<close>

definition enumerates :: "Registry \<Rightarrow> VirtualApp list \<Rightarrow> bool" where
  "enumerates r vapps \<longleftrightarrow> distinct vapps \<and> set vapps = ran (byID r)"

text \<open>\<^verbatim>\<open>big.Int.SetBytes\<close> reads the bytes as a big-endian number.\<close>

definition SetBytes :: "byte list \<Rightarrow> nat" where
  "SetBytes bs = foldl (\<lambda>n b. n * 256 + unat b) 0 bs"

definition xorDistance :: "ScalegraphId \<Rightarrow> ScalegraphId \<Rightarrow> nat" where
  "xorDistance a b = SetBytes (map2 (\<lambda>x y. xor x y) (id_bytes a) (id_bytes b))"

text \<open>
  \<^verbatim>\<open>sort.Slice\<close> with the comparison of distances; distances of different ids differ, so every
  correct sort returns the same slice.  The result is allocated with \<^verbatim>\<open>make([]*VirtualApp, 0, k)\<close>,
  with the capacity asked for and not the number of apps: the call does not return when the runtime
  cannot make a slice of \<open>k\<close> pointers.  \<open>maxCap\<close> is the largest capacity it can make; on a 64-bit
  machine \<^verbatim>\<open>makeslice\<close> panics above \<open>2 ^ 45\<close> pointers at the latest, and a capacity below that
  and beyond the memory of the machine ends the process too.
\<close>

definition GetKClosest ::
    "int \<Rightarrow> ScalegraphId \<Rightarrow> int64 \<Rightarrow> VirtualApp list \<Rightarrow> (error, VirtualApp list) outcome" where
  "GetKClosest maxCap targetID k vapps =
     (if sint k \<le> 0 then Err NotPositiveK
      else let distances = sort_key (\<lambda>v. xorDistance targetID (vapp_ID v)) vapps in
        if maxCap < sint k then Panic
        else Ok (take (nat (sint k)) distances))"

section \<open>Distances\<close>

lemma SetBytes_Nil [simp]: "SetBytes [] = 0"
  by (simp add: SetBytes_def)

lemma SetBytes_snoc: "SetBytes (bs @ [b]) = SetBytes bs * 256 + unat b"
  by (simp add: SetBytes_def)

lemma byte_digits:
  assumes "(u :: nat) < 256" "v < 256" "m * 256 + u = n * 256 + v"
  shows "m = n \<and> u = v"
proof -
  have "(m * 256 + u) mod 256 = u" "(n * 256 + v) mod 256 = v" using assms(1,2) by simp_all
  then have "u = v" using assms(3) by simp
  then show ?thesis using assms(3) by simp
qed

lemma SetBytes_inject:
  "length xs = length ys \<Longrightarrow> SetBytes xs = SetBytes ys \<Longrightarrow> xs = ys"
proof (induction xs arbitrary: ys rule: rev_induct)
  case (snoc x xs)
  then obtain ys' y where ys: "ys = ys' @ [y]" "length xs = length ys'"
    by (cases ys rule: rev_cases) auto
  have "SetBytes xs * 256 + unat x = SetBytes ys' * 256 + unat y"
    using snoc.prems(2) ys by (simp add: SetBytes_snoc)
  then have "SetBytes xs = SetBytes ys' \<and> unat x = unat y"
    using byte_digits [OF unat_byte unat_byte] by blast
  then show ?case using snoc.IH [OF ys(2)] ys by (auto intro: unsigned_word_eqI)
qed simp

lemma xor_cancel: "length xs = length ys \<Longrightarrow> length xs = length zs \<Longrightarrow>
    map2 (\<lambda>x y. xor x y) xs ys = map2 (\<lambda>x y. xor x y) xs zs \<Longrightarrow> ys = (zs :: byte list)"
proof (induction xs arbitrary: ys zs)
  case (Cons x xs)
  then obtain y ys' z zs' where yz: "ys = y # ys'" "zs = z # zs'" by (metis length_Suc_conv)
  with Cons.prems have "xor x (xor x y) = xor x (xor x z)" by simp
  then have "y = z" by (simp add: xor.assoc [symmetric])
  with Cons yz show ?case by simp
qed simp

lemma xorDistance_inject: "xorDistance t a = xorDistance t b \<longleftrightarrow> a = b"
proof
  assume "xorDistance t a = xorDistance t b"
  then have "map2 (\<lambda>x y. xor x y) (id_bytes t) (id_bytes a) =
      map2 (\<lambda>x y. xor x y) (id_bytes t) (id_bytes b)"
    unfolding xorDistance_def by (rule SetBytes_inject [rotated]) simp
  then have "id_bytes a = id_bytes b" by (rule xor_cancel [rotated 2]) simp_all
  then show "a = b" by (simp add: id_bytes_inject)
qed simp

lemma xorDistance_self: "xorDistance a a = 0"
proof -
  have "map2 (\<lambda>x y. xor x y) bs bs = replicate (length bs) (0 :: byte)" for bs
    by (induction bs) simp_all
  moreover have "SetBytes (replicate n 0) = 0" for n
  proof (induction n)
    case (Suc n)
    have "replicate (Suc n) 0 = replicate n (0 :: byte) @ [0]" by (simp add: replicate_append_same)
    then show ?case using Suc by (simp only: SetBytes_snoc) simp
  qed simp
  ultimately show ?thesis by (simp add: xorDistance_def)
qed

definition registry_ok :: "Registry \<Rightarrow> bool" where
  "registry_ok r \<longleftrightarrow> finite (dom (byID r)) \<and> (\<forall>i v. byID r i = Some v \<longrightarrow> vapp_ID v = i)"

lemma registry_ok_ops:
  "registry_ok NewRegistry"
  "registry_ok r \<Longrightarrow> registry_ok (snd (Register v r))"
  "registry_ok r \<Longrightarrow> registry_ok (Unregister i r)"
  by (auto simp: registry_ok_def NewRegistry_def Register_def Unregister_def)

lemma registry_id_inj: "registry_ok r \<Longrightarrow> inj_on vapp_ID (ran (byID r))"
  by (auto simp: registry_ok_def inj_on_def ran_def)

lemma card_ran: "registry_ok r \<Longrightarrow> card (ran (byID r)) = card (dom (byID r))"
proof -
  assume ok: "registry_ok r"
  then have "vapp_ID ` ran (byID r) = dom (byID r)"
    by (force simp: registry_ok_def ran_def dom_def)
  then show ?thesis using card_image [OF registry_id_inj [OF ok]] by simp
qed

lemma sort_key_unique:
  assumes "inj_on f (set xs)" "distinct xs" "distinct ys" "set xs = set ys"
  shows "sort_key f xs = sort_key f ys"
proof -
  have "map f (sort_key f xs) = map f (sort_key f ys)"
    by (rule sorted_distinct_set_unique) (use assms in \<open>auto simp: distinct_map\<close>)
  then show ?thesis by (rule map_inj_on) (use assms in \<open>simp add: Un_absorb\<close>)
qed

lemma sort_key_strict:
  assumes "inj_on f (set xs)" "distinct xs"
  shows "sorted_wrt (\<lambda>v w. f v < f w) (sort_key f xs)"
proof -
  have "sorted_wrt (<) (map f (sort_key f xs))"
    using assms by (simp add: strict_sorted_iff distinct_map)
  then show ?thesis by (simp add: sorted_wrt_map)
qed

text \<open>
  Property C24.  A \<open>k\<close> that is not positive is an error, and a \<open>k\<close> beyond the capacity a slice can
  be made with is a panic, however few apps there are.  Otherwise \<^verbatim>\<open>GetKClosest\<close> returns the \<open>k\<close>
  registered virtual apps (all of them when there are fewer) whose ids are nearest to the target in
  the XOR metric, nearest first, with no ties and no repetition, whatever order the map is ranged
  over; an id that is itself registered comes first.
\<close>

theorem k_closest_correct:
  assumes "registry_ok r" "enumerates r vapps"
  shows "(sint k \<le> 0 \<longrightarrow> GetKClosest mc target k vapps = Err NotPositiveK) \<and>
    (0 < sint k \<and> mc < sint k \<longrightarrow> GetKClosest mc target k vapps = Panic) \<and>
    (0 < sint k \<and> sint k \<le> mc \<longrightarrow> (\<exists>vs. GetKClosest mc target k vapps = Ok vs \<and>
       (\<forall>vapps'. enumerates r vapps' \<longrightarrow> GetKClosest mc target k vapps' = Ok vs) \<and>
       int (length vs) = min (sint k) (Count r) \<and> distinct vs \<and> set vs \<subseteq> ran (byID r) \<and>
       sorted_wrt (\<lambda>v w. xorDistance target (vapp_ID v) < xorDistance target (vapp_ID w)) vs \<and>
       (\<forall>v\<in>set vs. \<forall>w\<in>ran (byID r) - set vs.
          xorDistance target (vapp_ID v) < xorDistance target (vapp_ID w)) \<and>
       (\<forall>v. GetByID target r = Some v \<longrightarrow> hd vs = v)))"
proof (intro conjI impI)
  show "sint k \<le> 0 \<Longrightarrow> GetKClosest mc target k vapps = Err NotPositiveK" by (simp add: GetKClosest_def)
  show "0 < sint k \<and> mc < sint k \<Longrightarrow> GetKClosest mc target k vapps = Panic" by (simp add: GetKClosest_def)
  assume k': "0 < sint k \<and> sint k \<le> mc"
  define n where "n = sint k"
  have k: "0 < n" "n \<le> mc" using k' by (simp_all add: n_def)
  let ?f = "\<lambda>v. xorDistance target (vapp_ID v)"
  define xs where "xs = sort_key ?f vapps"
  define vs where "vs = take (nat n) xs"
  have inj: "inj_on ?f (ran (byID r))"
    using registry_id_inj [OF assms(1)] by (auto simp: inj_on_def xorDistance_inject)
  have e: "distinct vapps" "set vapps = ran (byID r)" using assms(2) by (auto simp: enumerates_def)
  have xs: "set xs = ran (byID r)" "distinct xs" using e by (simp_all add: xs_def)
  have strict: "sorted_wrt (\<lambda>v w. ?f v < ?f w) xs"
    using sort_key_strict [of ?f vapps] inj e by (simp add: xs_def)
  then have split: "sorted_wrt (\<lambda>v w. ?f v < ?f w) (vs @ drop (nat n) xs)" by (simp add: vs_def)
  have len: "length xs = card (dom (byID r))"
    using card_ran [OF assms(1)] xs by (metis distinct_card)
  have uniq: "GetKClosest mc target k vapps' = Ok vs" if "enumerates r vapps'" for vapps'
    using that sort_key_unique [of ?f vapps' vapps] inj e k
    by (simp add: GetKClosest_def vs_def xs_def enumerates_def n_def)
  have rest: "w \<in> set (drop (nat n) xs)" if "w \<in> ran (byID r) - set vs" for w
    using that xs(1) by (metis Diff_iff Un_iff append_take_drop_id set_append vs_def)
  have first: "hd vs = v" if v: "GetByID target r = Some v" for v
  proof -
    have v0: "v \<in> set xs" "?f v = 0"
      using v assms(1) xs(1) by (auto simp: GetByID_def registry_ok_def ran_def xorDistance_self)
    then obtain x xs' where x: "xs = x # xs'" by (cases xs) auto
    have "x = v" using v0 strict x by (cases "x = v") auto
    then show ?thesis using x k by (simp add: vs_def take_Cons')
  qed
  have "int (length vs) = min n (Count r)"
    using k by (simp add: vs_def len Count_def min_def) linarith
  moreover have "distinct vs" "set vs \<subseteq> ran (byID r)"
    using xs set_take_subset [of "nat n" xs] by (auto simp: vs_def)
  moreover have "sorted_wrt (\<lambda>v w. ?f v < ?f w) vs" "\<forall>v\<in>set vs. \<forall>w\<in>ran (byID r) - set vs. ?f v < ?f w"
    using split rest by (auto simp: sorted_wrt_append)
  ultimately show "\<exists>vs. GetKClosest mc target k vapps = Ok vs \<and>
       (\<forall>vapps'. enumerates r vapps' \<longrightarrow> GetKClosest mc target k vapps' = Ok vs) \<and>
       int (length vs) = min (sint k) (Count r) \<and> distinct vs \<and> set vs \<subseteq> ran (byID r) \<and>
       sorted_wrt (\<lambda>v w. xorDistance target (vapp_ID v) < xorDistance target (vapp_ID w)) vs \<and>
       (\<forall>v\<in>set vs. \<forall>w\<in>ran (byID r) - set vs.
          xorDistance target (vapp_ID v) < xorDistance target (vapp_ID w)) \<and>
       (\<forall>v. GetByID target r = Some v \<longrightarrow> hd vs = v)"
    using uniq assms(2) first unfolding n_def by blast
qed

definition toy_registry :: Registry where
  "toy_registry = snd (Register (newVirtualApp (test_id 5))
     (snd (Register (newVirtualApp (test_id 4)) NewRegistry)))"

theorem k_closest_correct_witness:
  "\<exists>v w. GetKClosest (2 ^ 45) (test_id 4) 2 [newVirtualApp (test_id 5), newVirtualApp (test_id 4)] = Ok [v, w] \<and>
     v = newVirtualApp (test_id 4)"
proof -
  have ok: "registry_ok toy_registry" by (simp add: toy_registry_def registry_ok_ops)
  have r: "byID toy_registry = [test_id 4 \<mapsto> newVirtualApp (test_id 4), test_id 5 \<mapsto> newVirtualApp (test_id 5)]"
    by (simp add: toy_registry_def Register_def NewRegistry_def newVirtualApp_def test_id_eq)
  have e: "enumerates toy_registry [newVirtualApp (test_id 5), newVirtualApp (test_id 4)]"
    by (auto simp: enumerates_def r ran_map_upd newVirtualApp_def test_id_eq)
  have "Count toy_registry = 2" by (simp add: Count_def r test_id_eq)
  moreover have "GetByID (test_id 4) toy_registry = Some (newVirtualApp (test_id 4))"
    by (simp add: GetByID_def r test_id_eq)
  moreover obtain vs where "GetKClosest (2 ^ 45) (test_id 4) 2 [newVirtualApp (test_id 5), newVirtualApp (test_id 4)] = Ok vs"
    "int (length vs) = min 2 (Count toy_registry)"
    "\<forall>v. GetByID (test_id 4) toy_registry = Some v \<longrightarrow> hd vs = v"
    using k_closest_correct [OF ok e, of 2 "2 ^ 45" "test_id 4"] by auto
  ultimately show ?thesis by (cases vs) (auto simp: length_Suc_conv)
qed

end
