(* ===== verification/Events.thy ===== *)
theory Events
  imports App
begin

text \<open>
  \<^verbatim>\<open>internal/server/event_builder.go\<close>: from a handled request and its response to the event that
  is published and the accounts whose topics it goes to.  The event messages are generated
  protobuf structs; they appear with the fields the builder sets.  The clock reading of
  \<^verbatim>\<open>BuildEvent\<close> is the argument \<open>nowSec\<close>.
\<close>

section \<open>Responses\<close>

text \<open>
  The response structs of \<^verbatim>\<open>requests.go\<close>.  The PEM texts of \<^verbatim>\<open>CreateAccountResponse\<close> are
  represented by the certificate they encode.
\<close>

datatype response =
    TransferResponse
  | MintResponse
  | AccountCountResponse int
  | CreateAccountResponse Account Certificate
  | GetAccountResponse Account
  | GetAccountsResponse "Account set"
  | AdminMintResponse
  | MintTokenResponse string
  | AuthorizeTokenTransferResponse
  | UnauthorizeTokenTransferResponse
  | TransferTokenResponse
  | BurnTokenResponse
  | ClawbackTokenResponse
  | LookupTokenResponse "Token option"
  | FreezeTokenResponse
  | UnfreezeTokenResponse

section \<open>Event infos\<close>

text \<open>One constructor per info struct, with its fields in order.\<close>

datatype event_info =
    transferEventInfo string string float64
  | mintEventInfo string float64
  | mintTokenEventInfo string string string string
      \<comment> \<open>account, token id, token value, clawback address (empty when there is none)\<close>
  | transferTokenEventInfo string string string
  | authorizeTokenTransferEventInfo string string string
      \<comment> \<open>account, token id, token owner\<close>
  | unauthorizeTokenTransferEventInfo string string string
  | burnTokenEventInfo string string
  | clawbackTokenEventInfo string string string
  | freezeTokenEventInfo string string string
      \<comment> \<open>freeze authority, token holder, token id\<close>
  | unfreezeTokenEventInfo string string string

text \<open>
  \<^verbatim>\<open>extractEventInfo\<close>: \<open>Ok None\<close> is nil, for the requests without an event.  The token mint
  reads the envelope without a nil check.
\<close>

fun extractEventInfo :: "request \<Rightarrow> response \<Rightarrow> (error, event_info option) outcome" where
  "extractEventInfo (ReqTransfer r) _ =
     Ok (Some (transferEventInfo (id_String (tr_From r)) (id_String (tr_To r)) (tr_Amount r)))"
| "extractEventInfo (ReqMint r) _ = Ok (Some (mintEventInfo (id_String (mr_To r)) (mr_Amount r)))"
| "extractEventInfo (ReqMintToken r) resp =
     (case mt_SignedEnvelope r of
        None \<Rightarrow> Panic
      | Some env \<Rightarrow> Ok (Some (mintTokenEventInfo (SignerID (env_Signature env))
          (case resp of MintTokenResponse tokenId \<Rightarrow> tokenId | _ \<Rightarrow> []) (mt_TokenValue r)
          (case mt_ClawbackAddress r of None \<Rightarrow> [] | Some i \<Rightarrow> id_String i))))"
| "extractEventInfo (ReqTransferToken r) _ =
     Ok (Some (transferTokenEventInfo (id_String (tt_From r)) (id_String (tt_To r)) (tt_TokenId r)))"
| "extractEventInfo (ReqAuthorize r) _ =
     Ok (Some (authorizeTokenTransferEventInfo (id_String (at_AccountID r)) (at_TokenId r)
       (id_String (at_TokenOwnerID r))))"
| "extractEventInfo (ReqUnauthorize r) _ =
     Ok (Some (unauthorizeTokenTransferEventInfo (id_String (ut_AccountID r)) (ut_TokenId r)
       (id_String (ut_TokenOwnerID r))))"
| "extractEventInfo (ReqBurnToken r) _ =
     Ok (Some (burnTokenEventInfo (id_String (bt_AccountID r)) (bt_TokenId r)))"
| "extractEventInfo (ReqClawback r) _ =
     Ok (Some (clawbackTokenEventInfo (id_String (ct_From r)) (id_String (ct_To r)) (ct_TokenId r)))"
| "extractEventInfo (ReqFreeze r) _ =
     Ok (Some (freezeTokenEventInfo (id_String (fz_FreezeAuthority r)) (id_String (fz_TokenHolder r))
       (fz_TokenId r)))"
| "extractEventInfo (ReqUnfreeze r) _ =
     Ok (Some (unfreezeTokenEventInfo (id_String (uf_FreezeAuthority r)) (id_String (uf_TokenHolder r))
       (uf_TokenId r)))"
| "extractEventInfo _ _ = Ok None"

section \<open>Events\<close>

datatype EventType =
    EVENT_TYPE_UNSPECIFIED | EVENT_TYPE_BURN
  | EVENT_TYPE_TRANSFER | EVENT_TYPE_MINT | EVENT_TYPE_MINT_TOKEN | EVENT_TYPE_TRANSFER_TOKEN
  | EVENT_TYPE_AUTHORIZE_TOKEN_TRANSFER | EVENT_TYPE_UNAUTHORIZE_TOKEN_TRANSFER
  | EVENT_TYPE_BURN_TOKEN | EVENT_TYPE_CLAWBACK_TOKEN | EVENT_TYPE_FREEZE_TOKEN
  | EVENT_TYPE_UNFREEZE_TOKEN

datatype EventData =
    Event_Transfer string string float64
  | Event_Mint string float64
  | Event_MintToken string string string string
  | Event_TransferToken string string string
  | Event_AuthorizeTokenTransfer string string string
  | Event_UnauthorizeTokenTransfer string string string
  | Event_BurnToken string string
  | Event_ClawbackToken string string string
  | Event_FreezeToken string string string
  | Event_UnfreezeToken string string string

record Event =
  ev_Type :: EventType
  ev_Timestamp :: int64
  ev_Data :: EventData

fun BuildEvent :: "int64 \<Rightarrow> event_info \<Rightarrow> Event" where
  "BuildEvent nowSec (transferEventInfo from_id to_id amount) =
     \<lparr>ev_Type = EVENT_TYPE_TRANSFER, ev_Timestamp = nowSec, ev_Data = Event_Transfer from_id to_id amount\<rparr>"
| "BuildEvent nowSec (mintEventInfo to_id amount) =
     \<lparr>ev_Type = EVENT_TYPE_MINT, ev_Timestamp = nowSec, ev_Data = Event_Mint to_id amount\<rparr>"
| "BuildEvent nowSec (mintTokenEventInfo acc tok val claw) =
     \<lparr>ev_Type = EVENT_TYPE_MINT_TOKEN, ev_Timestamp = nowSec, ev_Data = Event_MintToken acc tok val claw\<rparr>"
| "BuildEvent nowSec (transferTokenEventInfo from_id to_id tok) =
     \<lparr>ev_Type = EVENT_TYPE_TRANSFER_TOKEN, ev_Timestamp = nowSec,
      ev_Data = Event_TransferToken from_id to_id tok\<rparr>"
| "BuildEvent nowSec (authorizeTokenTransferEventInfo acc tok owner) =
     \<lparr>ev_Type = EVENT_TYPE_AUTHORIZE_TOKEN_TRANSFER, ev_Timestamp = nowSec,
      ev_Data = Event_AuthorizeTokenTransfer acc tok owner\<rparr>"
| "BuildEvent nowSec (unauthorizeTokenTransferEventInfo acc tok owner) =
     \<lparr>ev_Type = EVENT_TYPE_UNAUTHORIZE_TOKEN_TRANSFER, ev_Timestamp = nowSec,
      ev_Data = Event_UnauthorizeTokenTransfer acc tok owner\<rparr>"
| "BuildEvent nowSec (burnTokenEventInfo acc tok) =
     \<lparr>ev_Type = EVENT_TYPE_BURN_TOKEN, ev_Timestamp = nowSec, ev_Data = Event_BurnToken acc tok\<rparr>"
| "BuildEvent nowSec (clawbackTokenEventInfo from_id to_id tok) =
     \<lparr>ev_Type = EVENT_TYPE_CLAWBACK_TOKEN, ev_Timestamp = nowSec,
      ev_Data = Event_ClawbackToken from_id to_id tok\<rparr>"
| "BuildEvent nowSec (freezeTokenEventInfo auth holder tok) =
     \<lparr>ev_Type = EVENT_TYPE_FREEZE_TOKEN, ev_Timestamp = nowSec,
      ev_Data = Event_FreezeToken auth holder tok\<rparr>"
| "BuildEvent nowSec (unfreezeTokenEventInfo auth holder tok) =
     \<lparr>ev_Type = EVENT_TYPE_UNFREEZE_TOKEN, ev_Timestamp = nowSec,
      ev_Data = Event_UnfreezeToken auth holder tok\<rparr>"

text \<open>The accounts on whose topics an event is published, in order.\<close>

definition eventInvolvedAccounts :: "Event \<Rightarrow> string list" where
  "eventInvolvedAccounts event =
     (case ev_Data event of
        Event_Transfer from_id to_id _ \<Rightarrow> [from_id, to_id]
      | Event_Mint to_id _ \<Rightarrow> [to_id]
      | Event_MintToken acc _ _ claw \<Rightarrow> (if claw \<noteq> [] then [acc, claw] else [acc])
      | Event_TransferToken from_id to_id _ \<Rightarrow> [from_id, to_id]
      | Event_AuthorizeTokenTransfer acc _ owner \<Rightarrow> [acc, owner]
      | Event_UnauthorizeTokenTransfer acc _ owner \<Rightarrow> [acc, owner]
      | Event_BurnToken acc _ \<Rightarrow> [acc]
      | Event_ClawbackToken from_id to_id _ \<Rightarrow> [from_id, to_id]
      | Event_FreezeToken auth holder _ \<Rightarrow> [auth, holder]
      | Event_UnfreezeToken auth holder _ \<Rightarrow> [auth, holder])"

end
