(* ===== verification/Verifier.thy ===== *)
theory Verifier
  imports Token_Runs
begin

text \<open>
  \<^verbatim>\<open>internal/verifier/verifier.go\<close>: the verifier of signed envelopes.  SHA-1, Ed25519 and the
  X.509 chain check are code the program calls; they are the fields of \<open>crypto_lib\<close>.  The clock
  is read at two places of one call; its readings are the arguments \<open>nowCert\<close> and \<open>now\<close>, in
  nanoseconds since Go's internal epoch (year 1).
\<close>

record crypto_lib =
  lib_sha1 :: "byte list \<Rightarrow> ScalegraphId"
  lib_ed_verify :: "byte list \<Rightarrow> byte list \<Rightarrow> byte list \<Rightarrow> bool"
    \<comment> \<open>public key, message, signature\<close>
  lib_x509_verify :: "Certificate \<Rightarrow> Certificate \<Rightarrow> int \<Rightarrow> bool"
    \<comment> \<open>root, certificate, time: does the chain check for client authentication succeed\<close>

record Verifier =
  caCert :: Certificate
  timestampWindow :: int64

section \<open>Go's time arithmetic\<close>

text \<open>
  \<^verbatim>\<open>time.Unix(sec, 0)\<close> adds the offset of the internal epoch in 64 bits; \<^verbatim>\<open>Time.Sub\<close> saturates.
\<close>

definition goUnix :: "int64 \<Rightarrow> int" where
  "goUnix sec = sint (sec + 62135596800) * 1000000000"

definition goSub :: "int \<Rightarrow> int \<Rightarrow> int" where
  "goSub t u = (if t - u < - (2 ^ 63) then - (2 ^ 63) else if 2 ^ 63 - 1 < t - u then 2 ^ 63 - 1 else t - u)"

definition DefaultTimestampWindow :: int64 where
  "DefaultTimestampWindow = 300000000000"

definition NewVerifier :: "Certificate \<Rightarrow> Verifier" where
  "NewVerifier cert = \<lparr>caCert = cert, timestampWindow = DefaultTimestampWindow\<rparr>"

definition SetTimestampWindow :: "int64 \<Rightarrow> Verifier \<Rightarrow> Verifier" where
  "SetTimestampWindow d v = v\<lparr>timestampWindow := d\<rparr>"

section \<open>The checks\<close>

definition VerifyCertificate ::
    "crypto_lib \<Rightarrow> Verifier \<Rightarrow> int \<Rightarrow> Certificate option \<Rightarrow> (error, unit) outcome" where
  "VerifyCertificate lib v nowCert cert =
     (case cert of
        None \<Rightarrow> Err CertificateNil
      | Some c \<Rightarrow> if lib_x509_verify lib (caCert v) c nowCert then Ok () else Err CertificateInvalid)"

text \<open>\<^verbatim>\<open>ed25519.Verify\<close> panics on a public key of the wrong size.\<close>

definition VerifySignature ::
    "crypto_lib \<Rightarrow> byte list \<Rightarrow> Signature \<Rightarrow> byte list \<Rightarrow> (error, unit) outcome" where
  "VerifySignature lib data sig pubKey =
     (if sig_Algorithm sig \<noteq> ''Ed25519'' then Err (UnsupportedAlgorithm (sig_Algorithm sig))
      else if length (sig_Value sig) \<noteq> 64 then Err (InvalidSignatureSize (length (sig_Value sig)))
      else if length pubKey \<noteq> 32 then Panic
      else if \<not> lib_ed_verify lib pubKey data (sig_Value sig) then Err SignatureNotVerified
      else Ok ())"

definition VerifyTimestamp :: "Verifier \<Rightarrow> int \<Rightarrow> Signature \<Rightarrow> (error, unit) outcome" where
  "VerifyTimestamp v now sig =
     (let sigTime = goUnix (sig_Timestamp sig) in
      if now + 60000000000 < sigTime then Err TimestampInFuture
      else if sint (timestampWindow v) < goSub now sigTime then Err TimestampTooOld
      else Ok ())"

definition VerifyAccountID ::
    "crypto_lib \<Rightarrow> Signature \<Rightarrow> byte list \<Rightarrow> (error, unit) outcome" where
  "VerifyAccountID lib sig pubKey =
     (let derived = id_String (DeriveAccountID (lib_sha1 lib) pubKey) in
      if SignerID sig \<noteq> derived then Err (SignerIDMismatch (SignerID sig) derived) else Ok ())"

text \<open>
  \<^verbatim>\<open>resolveSigner\<close> reads \<^verbatim>\<open>cert.PublicKey\<close> of the account's certificate without a nil check.
\<close>

definition resolveSigner ::
    "crypto_lib \<Rightarrow> Verifier \<Rightarrow> App \<Rightarrow> string \<Rightarrow> (error, Certificate \<times> byte list) outcome" where
  "resolveSigner lib v app signerID =
     (if (case cert_PublicKey (caCert v) of
            None \<Rightarrow> False
          | Some caPubKey \<Rightarrow> signerID = id_String (DeriveAccountID (lib_sha1 lib) caPubKey))
      then Ok (caCert v, the (cert_PublicKey (caCert v)))
      else
        (case ScalegraphIdFromString signerID of
           Panic \<Rightarrow> Panic
         | Err e \<Rightarrow> Err (InvalidSignerID e)
         | Ok i \<Rightarrow>
           (case GetAccountCertAndPublicKey i app of
              Panic \<Rightarrow> Panic
            | Err e \<Rightarrow> Err (SignerLookupFailed e)
            | Ok (None, _) \<Rightarrow> Panic
            | Ok (Some cert, _) \<Rightarrow>
              (case cert_PublicKey cert of
                 None \<Rightarrow> Err CertificateKeyNotEd25519
               | Some pubKey \<Rightarrow> Ok (cert, pubKey)))))"

definition VerifyEnvelopeData ::
    "crypto_lib \<Rightarrow> Verifier \<Rightarrow> App \<Rightarrow> int \<Rightarrow> int \<Rightarrow> verify_method" where
  "VerifyEnvelopeData lib v app nowCert now signerID data sig =
     (case resolveSigner lib v app signerID of
        Panic \<Rightarrow> Panic
      | Err e \<Rightarrow> Err e
      | Ok (cert, pubKey) \<Rightarrow>
        (case VerifyCertificate lib v nowCert (Some cert) of
           Panic \<Rightarrow> Panic
         | Err e \<Rightarrow> Err (CertificateChainFailed e)
         | Ok _ \<Rightarrow>
           (case VerifyAccountID lib sig pubKey of
              Panic \<Rightarrow> Panic
            | Err e \<Rightarrow> Err e
            | Ok _ \<Rightarrow>
              (case VerifySignature lib data sig pubKey of
                 Panic \<Rightarrow> Panic
               | Err e \<Rightarrow> Err e
               | Ok _ \<Rightarrow> VerifyTimestamp v now sig))))"

definition VerifyEnvelope ::
    "crypto_lib \<Rightarrow> Verifier \<Rightarrow> App \<Rightarrow> int \<Rightarrow> int \<Rightarrow> ('p \<Rightarrow> byte list) \<Rightarrow> 'p SignedEnvelope \<Rightarrow>
     (error, byte list) outcome" where
  "VerifyEnvelope lib v app nowCert now Bytes envelope =
     (case VerifyEnvelopeData lib v app nowCert now (SignerID (env_Signature envelope))
             (Bytes (Payload envelope)) (env_Signature envelope) of
        Panic \<Rightarrow> Panic
      | Err e \<Rightarrow> Err e
      | Ok _ \<Rightarrow>
        (case resolveSigner lib v app (SignerID (env_Signature envelope)) of
           Panic \<Rightarrow> Panic
         | Err e \<Rightarrow> Err e
         | Ok (_, pubKey) \<Rightarrow> Ok pubKey))"

section \<open>What acceptance means\<close>

text \<open>The certificate and key of a signer: the CA's own, or those of a registered account.\<close>

definition signer_key ::
    "crypto_lib \<Rightarrow> Verifier \<Rightarrow> App \<Rightarrow> string \<Rightarrow> Certificate \<Rightarrow> byte list \<Rightarrow> bool" where
  "signer_key lib v app signer cert pk \<longleftrightarrow>
     cert_PublicKey cert = Some pk \<and>
     (cert = caCert v \<and> signer = id_String (DeriveAccountID (lib_sha1 lib) pk) \<or>
      (\<exists>i a. ScalegraphIdFromString signer = Ok i \<and> accounts app i = Some a \<and>
         certificate a = Some cert))"

definition valid_signature :: "crypto_lib \<Rightarrow> byte list \<Rightarrow> byte list \<Rightarrow> Signature \<Rightarrow> bool" where
  "valid_signature lib pk data sig \<longleftrightarrow>
     sig_Algorithm sig = ''Ed25519'' \<and> length (sig_Value sig) = 64 \<and> length pk = 32 \<and>
     lib_ed_verify lib pk data (sig_Value sig)"

definition fresh :: "Verifier \<Rightarrow> int \<Rightarrow> int64 \<Rightarrow> bool" where
  "fresh v now ts \<longleftrightarrow>
     goUnix ts \<le> now + 60000000000 \<and> goSub now (goUnix ts) \<le> sint (timestampWindow v)"

definition authentic ::
    "crypto_lib \<Rightarrow> Verifier \<Rightarrow> App \<Rightarrow> int \<Rightarrow> string \<Rightarrow> byte list \<Rightarrow> Signature \<Rightarrow> bool" where
  "authentic lib v app nowCert signer data sig \<longleftrightarrow>
     (\<exists>cert pk. signer_key lib v app signer cert pk \<and>
        lib_x509_verify lib (caCert v) cert nowCert \<and>
        SignerID sig = id_String (DeriveAccountID (lib_sha1 lib) pk) \<and>
        valid_signature lib pk data sig)"

lemma resolveSigner_key:
  "resolveSigner lib v app signer = Ok (cert, pk) \<Longrightarrow> signer_key lib v app signer cert pk"
  by (auto simp: resolveSigner_def signer_key_def GetAccountCertAndPublicKey_def
      split: if_splits outcome.splits option.splits)

lemma VerifyTimestamp_fresh: "VerifyTimestamp v now sig = Ok () \<longleftrightarrow> fresh v now (sig_Timestamp sig)"
  by (auto simp: VerifyTimestamp_def fresh_def Let_def)

lemma VerifySignature_valid: "VerifySignature lib data sig pk = Ok () \<longleftrightarrow> valid_signature lib pk data sig"
  by (auto simp: VerifySignature_def valid_signature_def)

lemma VerifyEnvelopeData_iff:
  "VerifyEnvelopeData lib v app nowCert now signer data sig = Ok () \<longleftrightarrow>
   (\<exists>cert pk. resolveSigner lib v app signer = Ok (cert, pk) \<and>
      lib_x509_verify lib (caCert v) cert nowCert \<and>
      SignerID sig = id_String (DeriveAccountID (lib_sha1 lib) pk) \<and>
      valid_signature lib pk data sig \<and> fresh v now (sig_Timestamp sig))"
  by (auto simp: VerifyEnvelopeData_def VerifyCertificate_def VerifyAccountID_def Let_def
      VerifySignature_valid [symmetric] VerifyTimestamp_fresh [symmetric]
      split: outcome.splits if_splits prod.splits)

interpretation verifier: signature_verifier "VerifyEnvelopeData lib v app nowCert now"
  "authentic lib v app nowCert" for lib v app nowCert now
  by unfold_locales (auto simp: VerifyEnvelopeData_iff authentic_def dest: resolveSigner_key)

text \<open>
  Property C16.  The verifier accepts an envelope exactly when the signer resolves to a
  certificate and key (the CA's own, or a registered account's), the certificate chains to the
  CA, the signer id is the hash of that key, the Ed25519 signature over the payload bytes
  verifies under it, and the timestamp lies between the window's age and one minute ahead; the
  key it reports is the one that verified.
\<close>

theorem envelope_accepted_iff:
  "VerifyEnvelope lib v app nowCert now Bytes env = Ok pk \<longleftrightarrow>
   (\<exists>cert. resolveSigner lib v app (SignerID (env_Signature env)) = Ok (cert, pk) \<and>
      lib_x509_verify lib (caCert v) cert nowCert \<and>
      SignerID (env_Signature env) = id_String (DeriveAccountID (lib_sha1 lib) pk) \<and>
      valid_signature lib pk (Bytes (Payload env)) (env_Signature env) \<and>
      goUnix (sig_Timestamp (env_Signature env)) \<le> now + 60000000000 \<and>
      goSub now (goUnix (sig_Timestamp (env_Signature env))) \<le> sint (timestampWindow v))"
proof -
  let ?r = "resolveSigner lib v app (SignerID (env_Signature env))"
  have "VerifyEnvelope lib v app nowCert now Bytes env = Ok pk \<longleftrightarrow>
      VerifyEnvelopeData lib v app nowCert now (SignerID (env_Signature env))
        (Bytes (Payload env)) (env_Signature env) = Ok () \<and> (\<exists>cert. ?r = Ok (cert, pk))"
    by (auto simp: VerifyEnvelope_def split: outcome.splits prod.splits)
  then show ?thesis by (cases ?r) (auto simp: VerifyEnvelopeData_iff fresh_def)
qed

text \<open>
  The timestamp the freshness check reads is not part of what is signed: from an
  envelope that was accepted once, anyone can make one that is accepted at any later time by
  writing a current timestamp into it, as long as the certificate still verifies.  The window
  alone does not stop an old signature from being presented again.
\<close>

theorem restamped_signature_accepted:
  assumes "VerifyEnvelopeData lib v app nowCert now signer data sig = Ok ()"
    and "goUnix ts \<le> now2" "now2 < goUnix ts + 1000000000" "1000000000 \<le> sint (timestampWindow v)"
    and "\<And>cert pk. resolveSigner lib v app signer = Ok (cert, pk) \<Longrightarrow>
           lib_x509_verify lib (caCert v) cert nowCert2"
  shows "VerifyEnvelopeData lib v app nowCert2 now2 signer data (sig\<lparr>sig_Timestamp := ts\<rparr>) = Ok ()"
proof -
  have "fresh v now2 ts" using assms(2-4) by (simp add: fresh_def goSub_def)
  then show ?thesis
    using assms(1,5) by (auto simp: VerifyEnvelopeData_iff valid_signature_def)
qed

text \<open>A concrete library for the witnesses: a key signs by repeating its first byte.\<close>

definition toy_lib :: crypto_lib where
  "toy_lib = \<lparr>lib_sha1 = toy_sha1,
     lib_ed_verify = (\<lambda>pk data sig. sig = replicate 64 (hd pk)),
     lib_x509_verify = (\<lambda>root cert now. cert_PublicKey cert \<noteq> None)\<rparr>"

lemma toy_lib_simps [concrete_simps]:
  "lib_sha1 toy_lib = toy_sha1" "lib_ed_verify toy_lib pk data s \<longleftrightarrow> s = replicate 64 (hd pk)"
  "lib_x509_verify toy_lib root cert now \<longleftrightarrow> cert_PublicKey cert \<noteq> None"
  by (simp_all add: toy_lib_def)

definition toy_key32 :: "nat \<Rightarrow> byte list" where
  "toy_key32 n = replicate 32 (of_nat n)"

definition toy_cert :: "nat \<Rightarrow> Certificate" where
  "toy_cert n = \<lparr>cert_PublicKey = Some (toy_key32 n), cert_Raw = []\<rparr>"

definition toy_verifier :: Verifier where
  "toy_verifier = NewVerifier (toy_cert 0)"

definition toy_signature :: "nat \<Rightarrow> Signature" where
  "toy_signature n = \<lparr>sig_Algorithm = ''Ed25519'', sig_Value = replicate 64 (of_nat n),
     SignerID = id_String (test_id n), sig_Timestamp = - 62135596800\<rparr>"

text \<open>The App of the witnesses with certificates: accounts 1 and 2, holding 10.0 each.\<close>

definition cert_acct :: "nat \<Rightarrow> Account" where
  "cert_acct n = (toy_acct n (dy 1073 20))\<lparr>publicKey := toy_key32 n, certificate := Some (toy_cert n)\<rparr>"

definition cert_app :: App where
  "cert_app = \<lparr>accounts = [test_id 1 \<mapsto> cert_acct 1, test_id 2 \<mapsto> cert_acct 2]\<rparr>"

lemma toy_key32_simps [concrete_simps]:
  "DeriveAccountID toy_sha1 (toy_key32 n) = test_id n" "length (toy_key32 n) = 32"
  "hd (toy_key32 n) = of_nat n"
  by (simp_all add: DeriveAccountID_def toy_sha1_def toy_key32_def test_id_def numeral_eq_Suc)

lemma toy_cert_simps [concrete_simps]: "cert_PublicKey (toy_cert n) = Some (toy_key32 n)"
  by (simp add: toy_cert_def)

lemma toy_verifier_simps [concrete_simps]:
  "caCert toy_verifier = toy_cert 0" "timestampWindow toy_verifier = 300000000000"
  by (simp_all add: toy_verifier_def NewVerifier_def DefaultTimestampWindow_def)

lemma toy_signature_simps [concrete_simps]:
  "sig_Algorithm (toy_signature n) = ''Ed25519''" "sig_Value (toy_signature n) = replicate 64 (of_nat n)"
  "SignerID (toy_signature n) = id_String (test_id n)" "sig_Timestamp (toy_signature n) = - 62135596800"
  by (simp_all add: toy_signature_def)

lemma id_String_test_id [concrete_simps]:
  "id_String (test_id m) = id_String (test_id n) \<longleftrightarrow> (of_nat m :: byte) = of_nat n"
  by (simp add: id_String_inject test_id_eq)

lemma toy_resolve [concrete_simps]:
  "n = 1 \<or> n = 2 \<Longrightarrow> resolveSigner toy_lib toy_verifier cert_app (id_String (test_id n)) = Ok (toy_cert n, toy_key32 n)"
  by (auto simp: resolveSigner_def concrete_simps GetAccountCertAndPublicKey_def cert_app_def cert_acct_def)

lemma toy_verify [concrete_simps]:
  "n = 1 \<or> n = 2 \<Longrightarrow> VerifyEnvelopeData toy_lib toy_verifier cert_app nowCert 0
     (id_String (test_id n)) data (toy_signature n) = Ok ()"
  by (simp add: VerifyEnvelopeData_iff toy_resolve valid_signature_def fresh_def
      concrete_simps goUnix_def goSub_def)

theorem restamped_signature_accepted_witness:
  "VerifyEnvelopeData toy_lib toy_verifier cert_app 0 1000000000000
     (id_String (test_id 1)) [] ((toy_signature 1)\<lparr>sig_Timestamp := 1000 - 62135596800\<rparr>) = Ok ()"
proof -
  have r: "lib_x509_verify toy_lib (caCert toy_verifier) cert 0"
    if "resolveSigner toy_lib toy_verifier cert_app (id_String (test_id 1)) = Ok (cert, pk)" for cert pk
    using that by (auto simp: toy_resolve concrete_simps)
  show ?thesis
    by (rule restamped_signature_accepted [OF toy_verify [of 1 0] _ _ _ r])
      (simp_all add: goUnix_def concrete_simps)
qed

section \<open>Signatures that fit two requests\<close>

lemma VerifyRequest_Some_iff:
  "VerifyRequest sha1 verify ca Bytes (Some env) expected (Some f) = Ok () \<longleftrightarrow>
   verify (SignerID (env_Signature env)) (Bytes (Payload env)) (env_Signature env) = Ok () \<and>
   SignerID (env_Signature env) =
     (if expected = [] then id_String (DeriveAccountID sha1 ca) else expected) \<and>
   f (Payload env) = None"
  by (auto simp: VerifyRequest_def Let_def split: outcome.splits option.splits)

lemma converted_payload_simps:
  "ufp_FreezeAuthority (as_unfreeze p) = fzp_FreezeAuthority p" "ufp_TokenHolder (as_unfreeze p) = fzp_TokenHolder p"
  "ufp_TokenID (as_unfreeze p) = fzp_TokenID p" "ufp_Nonce (as_unfreeze p) = fzp_Nonce p"
  "utp_AccountID (as_unauthorize q) = atp_AccountID q" "utp_TokenID (as_unauthorize q) = atp_TokenID q"
  "utp_TokenOwnerID (as_unauthorize q) = atp_TokenOwnerID q" "utp_Nonce (as_unauthorize q) = atp_Nonce q"
  by (simp_all add: as_unfreeze_def as_unauthorize_def)

text \<open>
  The signed bytes do not say which operation they are for.  The signature of a
  freeze request is accepted, unchanged, for unfreezing the same token, and the signature of an
  authorization for withdrawing it: whoever sees the one can submit the other in its place.
\<close>

theorem signatures_cross_operations:
  assumes "FreezeTokenRequest_Verify sha1 marshal verify ca fr = Ok ()" "fz_SignedEnvelope fr = Some fenv"
    and "AuthorizeTokenTransferRequest_Verify sha1 marshal verify ca ar = Ok ()" "at_SignedEnvelope ar = Some aenv"
  shows "UnfreezeTokenRequest_Verify sha1 marshal verify ca
      \<lparr>uf_FreezeAuthority = fz_FreezeAuthority fr, uf_TokenHolder = fz_TokenHolder fr,
       uf_TokenId = fz_TokenId fr, uf_Nonce = fz_Nonce fr,
       uf_SignedEnvelope = Some \<lparr>Payload = as_unfreeze (Payload fenv),
         env_Signature = env_Signature fenv\<rparr>\<rparr> = Ok () \<and>
    UnauthorizeTokenTransferRequest_Verify sha1 marshal verify ca
      \<lparr>ut_AccountID = at_AccountID ar, ut_TokenOwnerID = at_TokenOwnerID ar,
       ut_TokenId = at_TokenId ar, ut_Nonce = at_Nonce ar,
       ut_SignedEnvelope = Some \<lparr>Payload = as_unauthorize (Payload aenv),
         env_Signature = env_Signature aenv\<rparr>\<rparr> = Ok ()"
  using assms
  by (auto simp add: Verify_defs VerifyRequest_Some_iff freeze_bytes_eq_unfreeze
      authorize_bytes_eq_unauthorize first_mismatch_None converted_payload_simps
      simp del: first_mismatch.simps)

definition toy_signed_freeze :: FreezeTokenRequest where
  "toy_signed_freeze = toy_freeze\<lparr>fz_SignedEnvelope := Some \<lparr>Payload =
     \<lparr>fzp_FreezeAuthority = id_String (test_id 2), fzp_TokenHolder = id_String (test_id 1),
      fzp_TokenID = toy_key, fzp_Nonce = 0\<rparr>, env_Signature = toy_signature 2\<rparr>\<rparr>"

definition toy_signed_auth :: AuthorizeTokenTransferRequest where
  "toy_signed_auth = toy_auth\<lparr>at_SignedEnvelope := Some \<lparr>Payload =
     \<lparr>atp_AccountID = id_String (test_id 2), atp_TokenID = toy_key,
      atp_TokenOwnerID = id_String (test_id 1), atp_Nonce = 0\<rparr>, env_Signature = toy_signature 2\<rparr>\<rparr>"

theorem signatures_cross_operations_witness:
  "\<exists>ur. UnfreezeTokenRequest_Verify toy_sha1 (\<lambda>_. None)
     (VerifyEnvelopeData toy_lib toy_verifier cert_app 0 0) (toy_key32 0) ur = Ok () \<and>
     uf_TokenId ur = toy_key \<and> uf_FreezeAuthority ur = test_id 2"
proof -
  let ?v = "VerifyEnvelopeData toy_lib toy_verifier cert_app 0 0"
  have f: "FreezeTokenRequest_Verify toy_sha1 (\<lambda>_. None) ?v (toy_key32 0) toy_signed_freeze = Ok ()"
    by (simp add: Verify_defs VerifyRequest_Some_iff toy_signed_freeze_def toy_freeze_def concrete_simps)
  have a: "AuthorizeTokenTransferRequest_Verify toy_sha1 (\<lambda>_. None) ?v (toy_key32 0) toy_signed_auth = Ok ()"
    by (simp add: Verify_defs VerifyRequest_Some_iff toy_signed_auth_def toy_auth_def concrete_simps)
  have fe: "fz_SignedEnvelope toy_signed_freeze = Some (the (fz_SignedEnvelope toy_signed_freeze))"
    and ae: "at_SignedEnvelope toy_signed_auth = Some (the (at_SignedEnvelope toy_signed_auth))"
    by (simp_all add: toy_signed_freeze_def toy_signed_auth_def)
  from conjunct1 [OF signatures_cross_operations [OF f fe a ae]] show ?thesis
    by (rule_tac exI, rule_tac conjI, assumption) (simp add: toy_signed_freeze_def toy_freeze_def)
qed

end
