(* ===== verification/Server.thy ===== *)
theory Server
  imports Mbr Registry Events Verifier
begin

text \<open>
  \<^verbatim>\<open>internal/server/server.go\<close>: dispatch of a request to its handler, the automatic signature
  check before it, and the publication of the event after it; the processing loop and its drain
  at shutdown.  The loop is one goroutine, so requests are handled one after the other.
\<close>

section \<open>Server data\<close>

text \<open>
  What does not change while the server runs: the cryptographic library, the JSON and protobuf
  encoders, the verifier (a pointer that may be nil) and the CA's public key.
\<close>

record Server =
  srv_lib :: crypto_lib
  srv_marshal :: marshaller
  srv_proto :: "Event \<Rightarrow> byte list option"
  srv_verifier :: "Verifier option"
  srv_caPublicKey :: "byte list"

text \<open>\<^verbatim>\<open>NewWithCA\<close> always installs a verifier on the CA's certificate.\<close>

definition NewWithCA ::
    "crypto_lib \<Rightarrow> marshaller \<Rightarrow> (Event \<Rightarrow> byte list option) \<Rightarrow> Certificate \<Rightarrow> byte list \<Rightarrow> Server" where
  "NewWithCA lib marshal proto cert pubKey =
     \<lparr>srv_lib = lib, srv_marshal = marshal, srv_proto = proto,
      srv_verifier = Some (NewVerifier cert), srv_caPublicKey = pubKey\<rparr>"

text \<open>
  What one request reads from outside: the ids it draws, the clock (twice in the verifier, once
  for the event), the credentials the CA issues, and the order in which the registry is listed.
\<close>

record inputs =
  in_draws :: draws
  in_nowCert :: int
  in_now :: int
  in_credentials :: "(error, byte list \<times> Certificate) outcome"
  in_eventTime :: int64
  in_vapps :: "VirtualApp list"

text \<open>A message on a virtual app's channel: its topic, payload and event type.\<close>

record published =
  pub_vapp :: ScalegraphId
  pub_topic :: string
  pub_payload :: "byte list"
  pub_eventType :: EventType

definition topic_prefix :: string where
  "topic_prefix = ''events.''"

section \<open>Handlers\<close>

text \<open>
  Most handlers pass the App's result on; \<open>respond\<close> wraps a successful result.
\<close>

fun respond :: "('a \<Rightarrow> response) \<Rightarrow> 'a app_call \<Rightarrow> response app_call" where
  "respond f (Ok x, app) = (Ok (f x), app)"
| "respond f (Err e, app) = (Err e, app)"
| "respond f (Panic, app) = (Panic, app)"

definition handleCreateAccount ::
    "(byte list \<Rightarrow> ScalegraphId) \<Rightarrow> inputs \<Rightarrow> float64 \<Rightarrow> App \<Rightarrow> response app_call" where
  "handleCreateAccount sha1 inp initialBalance app =
     (case in_credentials inp of
        Panic \<Rightarrow> (Panic, app)
      | Err e \<Rightarrow> (Err (Failed ''create account credentials'' e), app)
      | Ok (pubKey, cert) \<Rightarrow>
        respond (\<lambda>acc. CreateAccountResponse acc cert)
          (CreateAccountWithKeys sha1 (in_draws inp) pubKey (Some cert) initialBalance app))"

definition handleMint :: "inputs \<Rightarrow> MintRequest \<Rightarrow> App \<Rightarrow> response app_call" where
  "handleMint inp req app = respond (\<lambda>_. MintResponse) (app_Mint (in_draws inp) req app)"

definition handleAdminMint :: "inputs \<Rightarrow> AdminMintRequest \<Rightarrow> App \<Rightarrow> response app_call" where
  "handleAdminMint inp req app =
     respond (\<lambda>_. AdminMintResponse)
       (app_Mint (in_draws inp) \<lparr>mr_To = am_To req, mr_Amount = am_Amount req\<rparr> app)"

text \<open>
  \<^verbatim>\<open>registerHandlers\<close>: the table from request type to handler; \<open>None\<close> for a type that is not
  registered.
\<close>

fun handler ::
    "(byte list \<Rightarrow> ScalegraphId) \<Rightarrow> inputs \<Rightarrow> request \<Rightarrow> (App \<Rightarrow> response app_call) option" where
  "handler sha1 inp (ReqTransfer r) =
     Some (\<lambda>app. respond (\<lambda>_. TransferResponse) (app_Transfer (in_draws inp) r app))"
| "handler sha1 inp (ReqMint r) = Some (handleMint inp r)"
| "handler sha1 inp ReqAccountCount = Some (\<lambda>app. (Ok (AccountCountResponse (AccountCount app)), app))"
| "handler sha1 inp (ReqCreateAccount r) = Some (handleCreateAccount sha1 inp (ca_InitialBalance r))"
| "handler sha1 inp (ReqGetAccount r) =
     Some (\<lambda>app. respond GetAccountResponse (GetAccount r app, app))"
| "handler sha1 inp ReqGetAccounts = Some (\<lambda>app. (Ok (GetAccountsResponse (GetAccounts app)), app))"
| "handler sha1 inp (ReqAdminCreateAccount r) = Some (handleCreateAccount sha1 inp (ac_InitialBalance r))"
| "handler sha1 inp (ReqAdminMint r) = Some (handleAdminMint inp r)"
| "handler sha1 inp (ReqMintToken r) =
     Some (\<lambda>app. respond MintTokenResponse (app_MintToken (in_draws inp) r app))"
| "handler sha1 inp (ReqAuthorize r) =
     Some (\<lambda>app. respond (\<lambda>_. AuthorizeTokenTransferResponse) (app_AuthorizeTokenTransfer (in_draws inp) r app))"
| "handler sha1 inp (ReqUnauthorize r) =
     Some (\<lambda>app. respond (\<lambda>_. UnauthorizeTokenTransferResponse) (app_UnauthorizeTokenTransfer (in_draws inp) r app))"
| "handler sha1 inp (ReqTransferToken r) =
     Some (\<lambda>app. respond (\<lambda>_. TransferTokenResponse) (app_TransferToken (in_draws inp) r app))"
| "handler sha1 inp (ReqBurnToken r) =
     Some (\<lambda>app. respond (\<lambda>_. BurnTokenResponse) (app_BurnToken (in_draws inp) r app))"
| "handler sha1 inp (ReqClawback r) =
     Some (\<lambda>app. respond (\<lambda>_. ClawbackTokenResponse) (app_ClawbackToken (in_draws inp) r app))"
| "handler sha1 inp (ReqLookupToken r) =
     Some (\<lambda>app. respond LookupTokenResponse (LookupToken r app, app))"
| "handler sha1 inp (ReqFreeze r) =
     Some (\<lambda>app. respond (\<lambda>_. FreezeTokenResponse) (app_FreezeToken (in_draws inp) r app))"
| "handler sha1 inp (ReqUnfreeze r) =
     Some (\<lambda>app. respond (\<lambda>_. UnfreezeTokenResponse) (app_UnfreezeToken (in_draws inp) r app))"
| "handler sha1 inp (ReqSubscribe r) = None"
| "handler sha1 inp OtherRequest = None"

section \<open>Publishing\<close>

text \<open>
  The messages are those handed to \<^verbatim>\<open>Publish\<close>; the bus of a virtual app that has been closed refuses
  them, which is logged and has no other effect.
\<close>

definition publishEvent ::
    "Server \<Rightarrow> inputs \<Rightarrow> request \<Rightarrow> response \<Rightarrow> (error, published list) outcome" where
  "publishEvent s inp req resp =
     (case extractEventInfo req resp of
        Panic \<Rightarrow> Panic
      | Err e \<Rightarrow> Err e
      | Ok None \<Rightarrow> Ok []
      | Ok (Some info) \<Rightarrow>
        (let event = BuildEvent (in_eventTime inp) info in
         case srv_proto s event of
           None \<Rightarrow> Ok []
         | Some payload \<Rightarrow>
           Ok (concat (map (\<lambda>vapp. map (\<lambda>acc.
                 \<lparr>pub_vapp = vapp_ID vapp, pub_topic = topic_prefix @ acc, pub_payload = payload,
                  pub_eventType = ev_Type event\<rparr>) (eventInvolvedAccounts event)) (in_vapps inp)))))"

section \<open>Handling one request\<close>

definition server_verify :: "Server \<Rightarrow> Verifier \<Rightarrow> inputs \<Rightarrow> App \<Rightarrow> verify_method" where
  "server_verify s v inp app = VerifyEnvelopeData (srv_lib s) v app (in_nowCert inp) (in_now inp)"

definition handleRequest ::
    "Server \<Rightarrow> inputs \<Rightarrow> request \<Rightarrow> App \<Rightarrow> (error, response) outcome \<times> App \<times> published list" where
  "handleRequest s inp req app =
     (case handler (lib_sha1 (srv_lib s)) inp req of
        None \<Rightarrow> (Err UnknownRequestType, app, [])
      | Some h \<Rightarrow>
        (let check =
           (case request_Verify (lib_sha1 (srv_lib s)) (srv_marshal s)
                   (case srv_verifier s of Some v \<Rightarrow> server_verify s v inp app
                                         | None \<Rightarrow> (\<lambda>_ _ _. Panic))
                   (srv_caPublicKey s) req of
              None \<Rightarrow> Ok ()
            | Some r \<Rightarrow> if srv_verifier s = None then Err ErrNoVerifier else r)
         in case check of
              Panic \<Rightarrow> (Panic, app, [])
            | Err e \<Rightarrow> (Err e, app, [])
            | Ok _ \<Rightarrow>
              (case h app of
                 (Panic, app') \<Rightarrow> (Panic, app', [])
               | (Err e, app') \<Rightarrow> (Err e, app', [])
               | (Ok resp, app') \<Rightarrow>
                 (case publishEvent s inp req resp of
                    Panic \<Rightarrow> (Panic, app', [])
                  | Err e \<Rightarrow> (Ok resp, app', [])
                  | Ok msgs \<Rightarrow> (Ok resp, app', msgs)))))"

section \<open>The loop\<close>

text \<open>
  \<^verbatim>\<open>run\<close> handles the queued requests in order.  A panic ends the goroutine, and with it the
  process: nothing recovers it, and the requests behind it get no response.  The result is the
  responses sent, the App, and whether the loop is still alive.
\<close>

fun server_run ::
    "Server \<Rightarrow> (inputs \<times> request) list \<Rightarrow> App \<Rightarrow> (error, response) outcome list \<times> App \<times> bool" where
  "server_run s [] app = ([], app, True)"
| "server_run s ((inp, req) # rest) app =
     (case handleRequest s inp req app of
        (Panic, app', _) \<Rightarrow> ([], app', False)
      | (r, app', _) \<Rightarrow>
        (case server_run s rest app' of (rs, app'', alive) \<Rightarrow> (r # rs, app'', alive)))"

text \<open>\<^verbatim>\<open>drainRequests\<close> answers what is left in the channel at shutdown with an error.\<close>

definition drainRequests :: "(inputs \<times> request) list \<Rightarrow> (error, response) outcome list" where
  "drainRequests queue = map (\<lambda>_. Err ServerShuttingDown) queue"

end
