(* ===== verification/Server_Laws.thy ===== *)
theory Server_Laws
  imports Server
begin

text \<open>
  What the server adds to the App: which requests get through without a signature, what a
  handled signed request proves about its signer, that its steps are steps of the App, and what
  is published.
\<close>

section \<open>Requests and steps of the App\<close>

lemma respond_cases:
  "respond f c = (r, app') \<longleftrightarrow>
   (\<exists>x. c = (Ok x, app') \<and> r = Ok (f x)) \<or> (\<exists>e. c = (Err e, app') \<and> r = Err e) \<or>
   (c = (Panic, app') \<and> r = Panic)"
  by (cases "(f, c)" rule: respond.cases) auto

lemma respond_state: "snd (respond f c) = snd c" "is_ok (fst (respond f c)) = is_ok (fst c)"
  by (cases "(f, c)" rule: respond.cases; simp)+

lemma handler_step:
  assumes "handler sha1 inp req = Some h"
  shows "snd (h app) = app \<or> app_step sha1 app (snd (h app))"
proof -
  have c: "app_step sha1 app (snd (CreateAccountWithKeys sha1 d pk cert bal app))" for d pk cert bal
    by (metis app_step.Ledger ledger_step.Base base_step.Create prod.collapse)
  have m: "app_step sha1 app (snd (app_Mint d r app))" for d r
    by (metis app_step.Ledger ledger_step.Base base_step.Mint prod.collapse)
  have t: "app_step sha1 app (snd (app_Transfer d r app))" for d r
    by (metis app_step.Ledger ledger_step.Base base_step.Transfer prod.collapse)
  have mt: "app_step sha1 app (snd (app_MintToken d r app))" for d r
    by (metis app_step.MintToken prod.collapse)
  have a: "app_step sha1 app (snd (app_AuthorizeTokenTransfer d r app))" for d r
    by (metis app_step.Ledger ledger_step.Base base_step.Authorize prod.collapse)
  have u: "app_step sha1 app (snd (app_UnauthorizeTokenTransfer d r app))" for d r
    by (metis app_step.Ledger ledger_step.Base base_step.Unauthorize prod.collapse)
  have tt: "app_step sha1 app (snd (app_TransferToken d r app))" for d r
    by (metis app_step.Ledger ledger_step.Base base_step.TransferToken prod.collapse)
  have b: "app_step sha1 app (snd (app_BurnToken d r app))" for d r
    by (metis app_step.Ledger ledger_step.Base base_step.BurnToken prod.collapse)
  have cl: "app_step sha1 app (snd (app_ClawbackToken d r app))" for d r
    by (metis app_step.Ledger ledger_step.Base base_step.Clawback prod.collapse)
  have f: "app_step sha1 app (snd (app_FreezeToken d r app))" for d r
    by (metis app_step.Ledger ledger_step.Freeze prod.collapse)
  have uf: "app_step sha1 app (snd (app_UnfreezeToken d r app))" for d r
    by (metis app_step.Ledger ledger_step.Unfreeze prod.collapse)
  show ?thesis using assms
    by (cases req) (auto simp: handleMint_def handleAdminMint_def handleCreateAccount_def respond_state
        c m t mt a u tt b cl f uf split: outcome.splits)
qed

lemma handleRequest_state:
  assumes "handleRequest s inp req app = (r, app', msgs)"
  shows "app' = app \<or> (\<exists>h. handler (lib_sha1 (srv_lib s)) inp req = Some h \<and> app' = snd (h app))"
  using assms
  by (auto simp: handleRequest_def Let_def split: option.splits outcome.splits prod.splits if_splits)

lemma handleRequest_step:
  "handleRequest s inp req app = (r, app', msgs) \<Longrightarrow>
   app' = app \<or> app_step (lib_sha1 (srv_lib s)) app app'"
  using handleRequest_state handler_step by metis

lemma server_run_steps:
  "server_run s reqs app = (rs, app', alive) \<Longrightarrow> (app_step (lib_sha1 (srv_lib s)))\<^sup>*\<^sup>* app app'"
proof (induction s reqs app arbitrary: rs rule: server_run.induct)
  case (2 s inp req rest app)
  obtain r app1 msgs where h: "handleRequest s inp req app = (r, app1, msgs)"
    by (metis prod_cases3)
  have step: "(app_step (lib_sha1 (srv_lib s)))\<^sup>*\<^sup>* app app1"
    using handleRequest_step [OF h] by auto
  show ?case
  proof (cases "r = Panic")
    case False
    obtain rs' where "server_run s rest app1 = (rs', app', alive)"
      using "2.prems" h False by (auto split: outcome.splits prod.splits)
    then show ?thesis using "2.IH" h False step
      by (cases r) (auto intro: rtranclp_trans)
  qed (use "2.prems" h step in simp)
qed simp

lemma handleRequest_ok:
  assumes "handleRequest s inp req app = (Ok resp, app', msgs)"
  obtains h where "handler (lib_sha1 (srv_lib s)) inp req = Some h" "h app = (Ok resp, app')"
  using assms
  by (auto simp: handleRequest_def Let_def split: option.splits outcome.splits prod.splits if_splits)

lemma handleRequest_verified:
  assumes "handleRequest s inp req app = (Ok resp, app', msgs)"
    and "srv_verifier s = Some v"
    and "request_Verify (lib_sha1 (srv_lib s)) (srv_marshal s) (server_verify s v inp app)
           (srv_caPublicKey s) req = Some check"
  shows "check = Ok ()"
  using assms
  by (auto simp: handleRequest_def Let_def split: option.splits outcome.splits prod.splits if_splits)

section \<open>What a handled request says about its signer\<close>

text \<open>
  The envelope holds a signature of \<open>signer\<close> that the server's verifier found authentic, over the
  bytes of a payload that satisfies \<open>P\<close>.
\<close>

definition signed_payload ::
    "Server \<Rightarrow> Verifier \<Rightarrow> inputs \<Rightarrow> App \<Rightarrow> string \<Rightarrow> ('p \<Rightarrow> byte list) \<Rightarrow> 'p SignedEnvelope option \<Rightarrow>
     ('p \<Rightarrow> bool) \<Rightarrow> bool" where
  "signed_payload s v inp app signer Bytes envelope P \<longleftrightarrow>
     (\<exists>env. envelope = Some env \<and>
        authentic (srv_lib s) v app (in_nowCert inp) signer (Bytes (Payload env)) (env_Signature env) \<and>
        P (Payload env))"

text \<open>The account (or the CA) that must have signed, and the fields it must have signed.\<close>

fun authorised :: "Server \<Rightarrow> Verifier \<Rightarrow> inputs \<Rightarrow> App \<Rightarrow> request \<Rightarrow> bool" where
  "authorised s v inp app (ReqTransfer r) \<longleftrightarrow>
     signed_payload s v inp app (id_String (tr_From r)) (TransferPayload_Bytes (srv_marshal s))
       (tr_SignedEnvelope r) (\<lambda>p. tp_From p = id_String (tr_From r) \<and> tp_To p = id_String (tr_To r) \<and>
          tp_Amount p = tr_Amount r \<and> tp_Nonce p = tr_Nonce r)"
| "authorised s v inp app (ReqCreateAccount r) \<longleftrightarrow>
     signed_payload s v inp app (id_String (DeriveAccountID (lib_sha1 (srv_lib s)) (srv_caPublicKey s)))
       (CreateAccountPayload_Bytes (srv_marshal s)) (ca_SignedEnvelope r)
       (\<lambda>p. cap_InitialBalance p = ca_InitialBalance r)"
| "authorised s v inp app (ReqGetAccount r) \<longleftrightarrow>
     signed_payload s v inp app (id_String (ga_AccountID r)) (GetAccountPayload_Bytes (srv_marshal s))
       (ga_SignedEnvelope r) (\<lambda>p. gap_AccountID p = id_String (ga_AccountID r))"
| "authorised s v inp app (ReqMintToken r) \<longleftrightarrow>
     (\<exists>signer. signed_payload s v inp app signer (MintTokenPayload_Bytes (srv_marshal s))
       (mt_SignedEnvelope r) (\<lambda>p. mtp_TokenValue p = mt_TokenValue r \<and> mtp_Nonce p = mt_Nonce r \<and>
          addresses_agree (mt_FreezeAddress r) (mtp_FreezeAddress p) \<and>
          addresses_agree (mt_ClawbackAddress r) (mtp_ClawbackAddress p)) \<and>
       map_option (\<lambda>env. SignerID (env_Signature env)) (mt_SignedEnvelope r) = Some signer)"
| "authorised s v inp app (ReqAuthorize r) \<longleftrightarrow>
     signed_payload s v inp app (id_String (at_AccountID r))
       (AuthorizeTokenTransferPayload_Bytes (srv_marshal s)) (at_SignedEnvelope r)
       (\<lambda>p. atp_TokenID p = at_TokenId r \<and> atp_AccountID p = id_String (at_AccountID r) \<and>
          atp_TokenOwnerID p = id_String (at_TokenOwnerID r) \<and> atp_Nonce p = at_Nonce r)"
| "authorised s v inp app (ReqUnauthorize r) \<longleftrightarrow>
     signed_payload s v inp app (id_String (ut_AccountID r))
       (UnauthorizeTokenTransferPayload_Bytes (srv_marshal s)) (ut_SignedEnvelope r)
       (\<lambda>p. utp_TokenID p = ut_TokenId r \<and> utp_AccountID p = id_String (ut_AccountID r) \<and>
          utp_TokenOwnerID p = id_String (ut_TokenOwnerID r) \<and> utp_Nonce p = ut_Nonce r)"
| "authorised s v inp app (ReqTransferToken r) \<longleftrightarrow>
     signed_payload s v inp app (id_String (tt_From r)) (TransferTokenPayload_Bytes (srv_marshal s))
       (tt_SignedEnvelope r) (\<lambda>p. ttp_TokenID p = tt_TokenId r \<and> ttp_From p = id_String (tt_From r) \<and>
          ttp_To p = id_String (tt_To r) \<and> ttp_Nonce p = tt_Nonce r)"
| "authorised s v inp app (ReqBurnToken r) \<longleftrightarrow>
     signed_payload s v inp app (id_String (bt_AccountID r)) (BurnTokenPayload_Bytes (srv_marshal s))
       (bt_SignedEnvelope r) (\<lambda>p. btp_TokenID p = bt_TokenId r \<and>
          btp_AccountID p = id_String (bt_AccountID r) \<and> btp_Nonce p = bt_Nonce r)"
| "authorised s v inp app (ReqClawback r) \<longleftrightarrow>
     signed_payload s v inp app (id_String (ct_To r)) (ClawbackTokenPayload_Bytes (srv_marshal s))
       (ct_SignedEnvelope r) (\<lambda>p. ctp_TokenID p = ct_TokenId r \<and> ctp_From p = id_String (ct_From r) \<and>
          ctp_To p = id_String (ct_To r) \<and> ctp_Nonce p = ct_Nonce r)"
| "authorised s v inp app (ReqLookupToken r) \<longleftrightarrow>
     (\<exists>signer. signed_payload s v inp app signer (LookupTokenPayload_Bytes (srv_marshal s))
       (lt_SignedEnvelope r) (\<lambda>p. ltp_TokenID p = lt_TokenID r \<and>
          ltp_AccountID p = id_String (lt_AccountID r)))"
| "authorised s v inp app (ReqFreeze r) \<longleftrightarrow>
     signed_payload s v inp app (id_String (fz_FreezeAuthority r)) (FreezeTokenPayload_Bytes (srv_marshal s))
       (fz_SignedEnvelope r) (\<lambda>p. fzp_FreezeAuthority p = id_String (fz_FreezeAuthority r) \<and>
          fzp_TokenHolder p = id_String (fz_TokenHolder r) \<and> fzp_TokenID p = fz_TokenId r \<and>
          fzp_Nonce p = fz_Nonce r)"
| "authorised s v inp app (ReqUnfreeze r) \<longleftrightarrow>
     signed_payload s v inp app (id_String (uf_FreezeAuthority r)) (UnfreezeTokenPayload_Bytes (srv_marshal s))
       (uf_SignedEnvelope r) (\<lambda>p. ufp_FreezeAuthority p = id_String (uf_FreezeAuthority r) \<and>
          ufp_TokenHolder p = id_String (uf_TokenHolder r) \<and> ufp_TokenID p = uf_TokenId r \<and>
          ufp_Nonce p = uf_Nonce r)"
| "authorised s v inp app _ \<longleftrightarrow> True"

text \<open>The requests the server handles without any signature.\<close>

fun unsigned_request :: "request \<Rightarrow> bool" where
  "unsigned_request (ReqMint _) = True"
| "unsigned_request (ReqAdminMint _) = True"
| "unsigned_request (ReqAdminCreateAccount _) = True"
| "unsigned_request ReqAccountCount = True"
| "unsigned_request ReqGetAccounts = True"
| "unsigned_request _ = False"

lemma VerifyRequest_signed_payload:
  assumes "VerifyRequest sha1 (server_verify s v inp app) ca Bytes envelope expected
      (Some (\<lambda>p. first_mismatch (cs p))) = Ok ()"
    and "expected \<noteq> []" "\<And>p. (\<forall>(f, b)\<in>set (cs p). b) \<Longrightarrow> P p"
  shows "signed_payload s v inp app expected Bytes envelope P"
proof -
  from verifier.VerifyRequest_signed [OF assms(1) [unfolded server_verify_def]] assms(2)
  obtain env where "envelope = Some env"
    "authentic (srv_lib s) v app (in_nowCert inp) expected (Bytes (Payload env)) (env_Signature env)"
    "first_mismatch (cs (Payload env)) = None" by auto
  then show ?thesis using assms(3) by (auto simp: signed_payload_def first_mismatch_None)
qed

lemma VerifyRequest_ca_payload:
  assumes "VerifyRequest sha1 (server_verify s v inp app) ca Bytes envelope []
      (Some (\<lambda>p. first_mismatch (cs p))) = Ok ()"
    and "\<And>p. (\<forall>(f, b)\<in>set (cs p). b) \<Longrightarrow> P p"
  shows "signed_payload s v inp app (id_String (DeriveAccountID sha1 ca)) Bytes envelope P"
proof -
  from assms(1) obtain env where "envelope = Some env"
    "authentic (srv_lib s) v app (in_nowCert inp) (id_String (DeriveAccountID sha1 ca))
       (Bytes (Payload env)) (env_Signature env)"
    "first_mismatch (cs (Payload env)) = None"
    unfolding server_verify_def by (auto elim!: verifier.VerifyRequest_ok)
  then show ?thesis using assms(2) by (auto simp: signed_payload_def first_mismatch_None)
qed

lemma self_signer_not_empty:
  "VerifyRequest sha1 verify ca Bytes (Some env) (SignerID (env_Signature env)) (Some f) = Ok () \<Longrightarrow>
   SignerID (env_Signature env) \<noteq> []"
  by (auto simp: VerifyRequest_Some_iff split: if_splits)

lemma feq_eq: "feq x y \<Longrightarrow> x = y"
  by (simp add: feq_def)

lemma verified_authorised:
  assumes "request_Verify (lib_sha1 (srv_lib s)) (srv_marshal s) (server_verify s v inp app)
      (srv_caPublicKey s) req = Some (Ok ())"
  shows "authorised s v inp app req"
proof (cases req)
  case (ReqMintToken r)
  with assms obtain env where e: "mt_SignedEnvelope r = Some env"
    by (auto simp: MintTokenRequest_Verify_def split: option.splits)
  with assms ReqMintToken show ?thesis
    using VerifyRequest_signed_payload [of _ s v inp app] self_signer_not_empty
    by (auto simp: MintTokenRequest_Verify_def simp del: first_mismatch.simps
        intro!: VerifyRequest_signed_payload self_signer_not_empty)
next
  case (ReqLookupToken r)
  with assms obtain env where e: "lt_SignedEnvelope r = Some env"
    by (auto simp: LookupTokenRequest_Verify_def split: option.splits)
  with assms ReqLookupToken have v: "VerifyRequest (lib_sha1 (srv_lib s)) (server_verify s v inp app)
      (srv_caPublicKey s) (LookupTokenPayload_Bytes (srv_marshal s)) (Some env)
      (SignerID (env_Signature env)) (Some (\<lambda>p. first_mismatch
        [(''TokenID'', ltp_TokenID p = lt_TokenID r),
         (''AccountID'', ltp_AccountID p = id_String (lt_AccountID r))])) = Ok ()"
    by (simp add: LookupTokenRequest_Verify_def del: first_mismatch.simps)
  show ?thesis
    by (auto simp: ReqLookupToken e intro!: exI VerifyRequest_signed_payload [OF v self_signer_not_empty [OF v]])
next
  case (ReqCreateAccount r)
  with assms show ?thesis
    by (auto simp: CreateAccountRequest_Verify_def feq_eq simp del: first_mismatch.simps
        elim!: VerifyRequest_ca_payload)
qed (use assms in \<open>auto simp: Verify_defs feq_eq simp del: first_mismatch.simps
      elim!: VerifyRequest_signed_payload\<close>)

section \<open>Publication\<close>

lemma handleRequest_published:
  assumes "handleRequest s inp req app = (r, app', msgs)" "msgs \<noteq> []"
  shows "\<exists>resp. r = Ok resp \<and> publishEvent s inp req resp = Ok msgs"
  using assms
  by (auto simp: handleRequest_def Let_def split: option.splits outcome.splits prod.splits if_splits)

text \<open>The accounts a request involves, whose subscribers are told of it.\<close>

fun participants :: "request \<Rightarrow> string list" where
  "participants (ReqTransfer r) = [id_String (tr_From r), id_String (tr_To r)]"
| "participants (ReqMint r) = [id_String (mr_To r)]"
| "participants (ReqMintToken r) =
     (case mt_SignedEnvelope r of None \<Rightarrow> [] | Some env \<Rightarrow> [SignerID (env_Signature env)]) @
     (case mt_ClawbackAddress r of None \<Rightarrow> [] | Some i \<Rightarrow> [id_String i])"
| "participants (ReqTransferToken r) = [id_String (tt_From r), id_String (tt_To r)]"
| "participants (ReqAuthorize r) = [id_String (at_AccountID r), id_String (at_TokenOwnerID r)]"
| "participants (ReqUnauthorize r) = [id_String (ut_AccountID r), id_String (ut_TokenOwnerID r)]"
| "participants (ReqBurnToken r) = [id_String (bt_AccountID r)]"
| "participants (ReqClawback r) = [id_String (ct_From r), id_String (ct_To r)]"
| "participants (ReqFreeze r) = [id_String (fz_FreezeAuthority r), id_String (fz_TokenHolder r)]"
| "participants (ReqUnfreeze r) = [id_String (uf_FreezeAuthority r), id_String (uf_TokenHolder r)]"
| "participants _ = []"

text \<open>Whether the event of a request, if it has one, can be put on the wire: \<^verbatim>\<open>proto.Marshal\<close> succeeds.\<close>

definition event_marshals :: "Server \<Rightarrow> inputs \<Rightarrow> request \<Rightarrow> response \<Rightarrow> bool" where
  "event_marshals s inp req resp \<longleftrightarrow>
     (case extractEventInfo req resp of
        Ok (Some info) \<Rightarrow> srv_proto s (BuildEvent (in_eventTime inp) info) \<noteq> None
      | _ \<Rightarrow> True)"

lemma publishEvent_topics:
  assumes "publishEvent s inp req resp = Ok msgs"
  shows "map (\<lambda>m. (pub_vapp m, pub_topic m)) msgs =
    (if event_marshals s inp req resp
     then concat (map (\<lambda>v. map (\<lambda>acc. (vapp_ID v, topic_prefix @ acc)) (participants req)) (in_vapps inp))
     else [])"
proof -
  have aux: "map f (concat (map (\<lambda>v. map (g v) xs) vs)) = concat (map (\<lambda>v. map (\<lambda>x. f (g v x)) xs) vs)"
    for f g xs vs by (simp add: map_concat o_def)
  have none: "concat (map (\<lambda>v. []) vs) = []" for vs :: "VirtualApp list" by simp
  obtain info where info: "extractEventInfo req resp = Ok info"
    using assms by (auto simp: publishEvent_def split: outcome.splits)
  show ?thesis
  proof (cases info)
    case None
    then have "msgs = []" "participants req = []"
      using assms info by (cases req; auto simp: publishEvent_def split: option.splits)+
    then show ?thesis by simp
  next
    case (Some i)
    have "eventInvolvedAccounts (BuildEvent (in_eventTime inp) i) = participants req"
      using info Some by (cases req) (auto simp: eventInvolvedAccounts_def split: option.splits)
    then show ?thesis
      using assms info Some
      by (auto simp: publishEvent_def event_marshals_def Let_def aux split: option.splits)
  qed
qed

lemma publishEvent_no_error: "publishEvent s inp req resp \<noteq> Err e"
proof -
  have "extractEventInfo req resp \<noteq> Err e" for e by (cases req) (auto split: option.splits)
  then show ?thesis by (auto simp: publishEvent_def Let_def split: outcome.splits option.splits)
qed

text \<open>Publishing has no influence on the result or the App.\<close>

lemma handleRequest_proto_indep:
  assumes "handleRequest s inp req app = (r, app', msgs)"
  shows "\<exists>msgs'. handleRequest (s\<lparr>srv_proto := f\<rparr>) inp req app = (r, app', msgs')"
proof -
  have p: "publishEvent (s\<lparr>srv_proto := f\<rparr>) inp req resp = Panic \<longleftrightarrow> publishEvent s inp req resp = Panic"
    for resp by (auto simp: publishEvent_def Let_def split: outcome.splits option.splits)
  have v: "server_verify (s\<lparr>srv_proto := f\<rparr>) = server_verify s"
    by (simp add: server_verify_def fun_eq_iff)
  show ?thesis
    using assms iffD1 [OF p] iffD2 [OF p] publishEvent_no_error [of s] publishEvent_no_error [of "s\<lparr>srv_proto := f\<rparr>"]
    by (auto simp: handleRequest_def Let_def v split: option.splits outcome.splits prod.splits)
qed

section \<open>Nonces\<close>

text \<open>The account whose nonce a request carries, and that nonce.\<close>

fun request_nonce :: "request \<Rightarrow> (ScalegraphId \<times> uint64) option" where
  "request_nonce (ReqTransfer r) = Some (tr_From r, tr_Nonce r)"
| "request_nonce (ReqMintToken r) =
     (case mt_SignedEnvelope r of
        None \<Rightarrow> None
      | Some env \<Rightarrow> (case ScalegraphIdFromString (SignerID (env_Signature env)) of
                       Ok i \<Rightarrow> Some (i, mt_Nonce r) | _ \<Rightarrow> None))"
| "request_nonce (ReqAuthorize r) = Some (at_AccountID r, at_Nonce r)"
| "request_nonce (ReqUnauthorize r) = Some (ut_AccountID r, ut_Nonce r)"
| "request_nonce (ReqTransferToken r) = Some (tt_From r, tt_Nonce r)"
| "request_nonce (ReqBurnToken r) = Some (bt_AccountID r, bt_Nonce r)"
| "request_nonce (ReqClawback r) = Some (ct_To r, ct_Nonce r)"
| "request_nonce (ReqFreeze r) = Some (fz_FreezeAuthority r, fz_Nonce r)"
| "request_nonce (ReqUnfreeze r) = Some (uf_FreezeAuthority r, uf_Nonce r)"
| "request_nonce _ = None"

lemma stale_rejected:
  assumes "handler sha1 inp req = Some h" "request_nonce req = Some (i, n)" "nonce_stale app i n"
  shows "\<not> is_ok (fst (h app)) \<and> snd (h app) = app"
proof -
  have n: "accounts app i = Some a \<Longrightarrow> GetNonce a \<noteq> n" for a
    using assms(3) by (simp add: nonce_stale_def)
  show ?thesis using assms(1,2) n
    by (cases req)
      (auto simp: respond_state app_Transfer_def app_MintToken_def app_AuthorizeTokenTransfer_def
        app_UnauthorizeTokenTransfer_def app_TransferToken_def app_BurnToken_def
        app_ClawbackToken_def app_FreezeToken_def app_UnfreezeToken_def
        split: option.splits outcome.splits if_splits)
qed

lemma nonce_used_grow:
  assumes "nonce_used app app1 i n" "chains_grow app1 app2"
  shows "nonce_used app app2 i n"
proof -
  obtain a a1 where a: "accounts app i = Some a" "GetNonce a = n" "accounts app1 i = Some a1"
    "sent i a < sent i a1" using assms(1) by (auto simp: nonce_used_def)
  then obtain a2 where "accounts app2 i = Some a2" "sent i a1 \<le> sent i a2"
    using assms(2) by (auto simp: chains_grow_def)
  then show ?thesis using a by (fastforce simp: nonce_used_def)
qed

lemma Transfer_uses_nonce:
  assumes "app_Transfer d req app = (Ok (), app')" "app_ok sha1 app"
  shows "nonce_used app app' (tr_From req) (tr_Nonce req)"
proof -
  from assms(1) obtain a c where ac: "accounts app (tr_From req) = Some a"
    "accounts app (tr_To req) = Some c" "tr_Nonce req = GetNonce a"
    by (auto simp: app_Transfer_def split: option.splits if_splits)
  let ?t = "TransferTransaction (d_tx d) (Some (tr_From req)) (Some (acc_id c)) (tr_Amount req)"
  have id: "acc_id a = tr_From req" using app_ok_id [OF assms(2) ac(1)] .
  obtain app1 where "append_one (d_block1 d) (tr_From req) ?t app = (Ok (), app1)"
    "append_one (d_block2 d) (tr_To req) ?t app1 = (Ok (), app')"
    using assms(1) ac id by (auto simp: app_Transfer_def new_tx_defs Let_def split: if_splits op_splits)
  then show ?thesis
    using append_one_used [of _ _ _ app app1] append_one_grow nonce_used_grow ac by fastforce
qed

lemma MintToken_uses_nonce:
  assumes "app_MintToken d req app = (Ok k, app')" "app_ok sha1 app"
    and "request_nonce (ReqMintToken req) = Some (i, n)"
  shows "nonce_used app app' i n"
proof -
  from assms(1,3) obtain env a where *: "mt_SignedEnvelope req = Some env"
    "ScalegraphIdFromString (SignerID (env_Signature env)) = Ok i" "n = mt_Nonce req"
    "accounts app i = Some a" "mt_Nonce req = GetNonce a"
    by (auto simp: app_MintToken_def split: option.splits outcome.splits if_splits)
  let ?t = "MintTokenTransaction (d_tx d) None (Some i) (newToken (mt_TokenValue req)
     (env_Signature env) (mt_ClawbackAddress req) (mt_FreezeAddress req) (mt_Nonce req))"
  have id: "acc_id a = i" using app_ok_id [OF assms(2) *(4)] .
  have "append_one (d_block1 d) i ?t app = (Ok (), app')"
    using assms(1) * id by (auto simp: app_MintToken_def new_tx_defs Let_def split: op_splits)
  from append_one_used [OF this *(4)] show ?thesis using * by simp
qed

lemma two_account_uses_nonce:
  assumes "app_ok sha1 app"
  shows "app_AuthorizeTokenTransfer d ar app = (Ok (), app') \<Longrightarrow>
      nonce_used app app' (at_AccountID ar) (at_Nonce ar)"
    and "app_UnauthorizeTokenTransfer d ur app = (Ok (), app') \<Longrightarrow>
      nonce_used app app' (ut_AccountID ur) (ut_Nonce ur)"
    and "app_TransferToken d tr app = (Ok (), app') \<Longrightarrow> nonce_used app app' (tt_From tr) (tt_Nonce tr)"
    and "app_FreezeToken d fr app = (Ok (), app') \<Longrightarrow>
      nonce_used app app' (fz_FreezeAuthority fr) (fz_Nonce fr)"
    and "app_UnfreezeToken d vr app = (Ok (), app') \<Longrightarrow>
      nonce_used app app' (uf_FreezeAuthority vr) (uf_Nonce vr)"
  by (auto simp: app_AuthorizeTokenTransfer_def app_UnauthorizeTokenTransfer_def
      app_TransferToken_def app_FreezeToken_def app_UnfreezeToken_def new_tx_defs
      app_ok_id [OF assms] split: op_splits intro: append_rollback_used)

lemma BurnToken_uses_nonce:
  assumes "app_BurnToken d req app = (Ok (), app')" "app_ok sha1 app"
  shows "nonce_used app app' (bt_AccountID req) (bt_Nonce req)"
  using assms(1) by (auto simp: app_BurnToken_def new_tx_defs app_ok_id [OF assms(2)]
      split: op_splits intro: append_one_used)

lemma Clawback_uses_nonce:
  assumes "app_ClawbackToken d req app = (Ok (), app')" "app_ok sha1 app"
  shows "nonce_used app app' (ct_To req) (ct_Nonce req)"
proof -
  from assms(1) obtain a c tok where *: "accounts app (ct_From req) = Some a"
    "accounts app (ct_To req) = Some c" "GetToken (ct_TokenId req) a = Some tok"
    by (auto simp: app_ClawbackToken_def split: option.splits if_splits)
  have id: "acc_id a = ct_From req" "acc_id c = ct_To req" using app_ok_id [OF assms(2)] * by auto
  have g: "ct_From req \<noteq> ct_To req" "ct_Nonce req = GetNonce c"
    using clawback_run [OF assms(2) *, of d] assms(1)
    by (auto simp: clawback_result_def Let_def split: option.splits if_splits)
  then have "append_rollback (d_block1 d) (d_block2 d) (ct_From req) (ct_To req)
      (ClawbackTokenTransaction (d_tx d) (Some (ct_From req)) (Some (ct_To req)) tok (ct_Nonce req)) app
      = (Ok (), app')"
    using assms(1) * id by (auto simp: app_ClawbackToken_def new_tx_defs split: op_splits)
  from append_rollback_used [OF this *(2)] show ?thesis using g by simp
qed

lemma handled_uses_nonce:
  assumes "handler sha1 inp req = Some h" "h app = (Ok resp, app')" "app_ok sha1 app"
    and "request_nonce req = Some (i, n)"
  shows "nonce_used app app' i n"
  using assms
  by (cases req)
    (auto simp: respond_cases simp del: request_nonce.simps(2)
      intro: Transfer_uses_nonce MintToken_uses_nonce two_account_uses_nonce BurnToken_uses_nonce
        Clawback_uses_nonce)

section \<open>A nonce is used once\<close>

lemma stale_request_rejected:
  assumes "request_nonce req = Some (i, n)" "nonce_stale app i n"
  shows "\<exists>r. handleRequest s inp req app = (r, app, []) \<and> \<not> is_ok r"
proof -
  have "\<not> is_ok (fst (h app)) \<and> snd (h app) = app" if "handler (lib_sha1 (srv_lib s)) inp req = Some h" for h
    by (rule stale_rejected [OF that assms])
  then show ?thesis
    by (fastforce simp: handleRequest_def Let_def split: option.splits outcome.splits prod.splits)
qed

lemma used_nonce_rejected:
  assumes "app_ok (lib_sha1 (srv_lib s)) app"
    and "handleRequest s inp req app = (Ok resp, app1, msgs)" "request_nonce req = Some (i, n)"
    and "server_run s queue app1 = (rs, app2, alive)"
    and "\<And>a. accounts app2 i = Some a \<Longrightarrow> sent i a < 2 ^ 64"
    and "request_nonce req2 = Some (i, n)"
  shows "\<exists>r. handleRequest s inp2 req2 app2 = (r, app2, []) \<and> \<not> is_ok r"
proof -
  let ?h = "lib_sha1 (srv_lib s)"
  obtain h where h: "handler ?h inp req = Some h" "h app = (Ok resp, app1)"
    by (rule handleRequest_ok [OF assms(2)]) (rule that; assumption)
  have ok1: "app_ok ?h app1"
    using handleRequest_step [OF assms(2)] app_step_ok assms(1) by blast
  have "nonce_used app app1 i n" by (rule handled_uses_nonce [OF h assms(1,3)])
  from used_nonce_stale [OF assms(1) ok1 this server_run_steps [OF assms(4)] assms(5)]
  have stale: "nonce_stale app2 i n" .
  show ?thesis by (rule stale_request_rejected [OF assms(6) stale])
qed

section \<open>Balances\<close>

fun moves_money :: "transaction \<Rightarrow> bool" where
  "moves_money (MintTransaction _ _ _ _) = True"
| "moves_money (TransferTransaction _ _ _ _) = True"
| "moves_money (BurnTransaction _ _ _ _) = True"
| "moves_money _ = False"

definition balances :: "App \<Rightarrow> ScalegraphId \<rightharpoonup> float64" where
  "balances app i = map_option balance (accounts app i)"

lemma append_keeps_balance:
  assumes "appendTransaction b t a = (r, a')" "\<not> moves_money t"
  shows "balance a' = balance a"
proof (cases "is_ok r")
  case True
  then have "appendTransaction b t a = (Ok (), a')" using assms(1) by (auto simp: is_ok_iff)
  then obtain a1 where "txHandler t a = (Ok (), a1)" "balance a' = balance a1"
    by (auto simp: appendTransaction_ok_iff)
  then show ?thesis using handler_balance [of t a a1] assms(2) by (cases t) auto
qed (use appendTransaction_failed [OF assms(1)] in simp)

lemma rollback_handler_keeps_balance:
  "txRollbackHandler t a = (r, a') \<Longrightarrow> \<not> moves_money t \<Longrightarrow> balance a' = balance a"
  by (cases t) (auto simp: rollback_defs store_op_defs Let_def split: handler_splits)

lemma rollback_keeps_balance:
  "rollbacklatestTransaction t a = (r, a') \<Longrightarrow> \<not> moves_money t \<Longrightarrow> balance a' = balance a"
  using rollback_handler_keeps_balance [of t "a\<lparr>blockchain := removeLatestBlock (blockchain a)\<rparr>"]
  by (fastforce simp: rollbacklatestTransaction_def Let_def
      split: prod.splits outcome.splits if_splits option.splits)

lemma append_one_keeps_balances:
  assumes "append_one b x t app = (r, app')" "\<not> moves_money t"
  shows "balances app' = balances app"
proof (cases "accounts app x")
  case (Some a)
  obtain r1 a1 where 1: "appendTransaction b t a = (r1, a1)" by fastforce
  then have "accounts app' = (accounts app)(x \<mapsto> a1)"
    using assms(1) Some by (auto simp: append_one_def on_entry_def)
  then show ?thesis
    using Some append_keeps_balance [OF 1 assms(2)] by (auto simp: balances_def)
qed (use assms(1) in \<open>auto simp: append_one_def on_entry_def balances_def\<close>)

lemma append_rollback_keeps_balances:
  assumes "append_rollback b1 b2 x y t app = (r, app')" "\<not> moves_money t"
  shows "balances app' = balances app"
proof -
  obtain m where m: "append_both appendTransaction rollbacklatestTransaction b1 b2 x y t
      (accounts app) = (r, m)" and app': "app' = app\<lparr>accounts := m\<rparr>"
    using assms(1) by (auto simp: append_rollback_def split: prod.splits)
  have keep: "balances app z = Some (balance a)" if "m z = Some a" for z a
    using m _ _ _ that
    by (rule two.append_both_keeps [where P = "\<lambda>z a. balances app z = Some (balance a)"])
      (use assms(2) append_keeps_balance rollback_keeps_balance in \<open>(auto simp: balances_def; metis)+\<close>)
  have "balances app' z = balances app z" for z
  proof (cases "m z")
    case None
    then have "accounts app z = None" using append_both_dom [OF m] by (metis domIff)
    with None show ?thesis by (simp add: balances_def app')
  next
    case (Some a)
    with keep [OF Some] show ?thesis by (auto simp: balances_def app')
  qed
  then show ?thesis by blast
qed

fun token_request :: "request \<Rightarrow> bool" where
  "token_request (ReqMintToken _) = True"
| "token_request (ReqAuthorize _) = True"
| "token_request (ReqUnauthorize _) = True"
| "token_request (ReqTransferToken _) = True"
| "token_request (ReqBurnToken _) = True"
| "token_request (ReqClawback _) = True"
| "token_request (ReqLookupToken _) = True"
| "token_request (ReqFreeze _) = True"
| "token_request (ReqUnfreeze _) = True"
| "token_request _ = False"

lemma token_handler_keeps_balances:
  assumes "handler sha1 inp req = Some h" "token_request req" "h app = (r, app')"
  shows "balances app' = balances app"
  using assms
  by (cases req)
    (auto simp: respond_cases app_MintToken_def app_AuthorizeTokenTransfer_def
      app_UnauthorizeTokenTransfer_def app_TransferToken_def app_BurnToken_def
      app_ClawbackToken_def app_FreezeToken_def app_UnfreezeToken_def new_tx_defs Let_def
      split: op_splits dest!: append_one_keeps_balances append_rollback_keeps_balances)

end
