(* ===== verification/Server_Runs.thy ===== *)
theory Server_Runs
  imports Server_Laws
begin

text \<open>
  A concrete server with the toy cryptographic library, and one signed transfer it handles, for
  the witnesses of the server's and the client's properties.
\<close>

section \<open>A concrete server\<close>

definition toy_server :: Server where
  "toy_server = NewWithCA toy_lib (\<lambda>_. None) (\<lambda>_. Some []) (toy_cert 0) (toy_key32 0)"

definition toy_inputs :: "nat \<Rightarrow> inputs" where
  "toy_inputs n = \<lparr>in_draws = toy_draws n, in_nowCert = 0, in_now = 0,
     in_credentials = Err CredentialsFailed, in_eventTime = 0, in_vapps = [newVirtualApp (test_id 9)]\<rparr>"

lemma toy_server_simps [concrete_simps]:
  "srv_lib toy_server = toy_lib" "srv_verifier toy_server = Some toy_verifier"
  "srv_proto toy_server e = Some []" "srv_caPublicKey toy_server = toy_key32 0"
  by (simp_all add: toy_server_def NewWithCA_def toy_verifier_def)

lemma toy_inputs_simps [concrete_simps]:
  "in_draws (toy_inputs n) = toy_draws n" "in_now (toy_inputs n) = 0" "in_nowCert (toy_inputs n) = 0"
  "in_vapps (toy_inputs n) = [newVirtualApp (test_id 9)]"
  by (simp_all add: toy_inputs_def)

lemma cert_app_accounts [concrete_simps]:
  "accounts cert_app = [test_id 1 \<mapsto> cert_acct 1, test_id 2 \<mapsto> cert_acct 2]"
  by (simp add: cert_app_def)

lemma cert_acct_simps [concrete_simps]:
  "acc_id (cert_acct n) = test_id n" "balance (cert_acct n) = dy 1073 20" "mbr (cert_acct n) = f0"
  "outgoingTxCount (cert_acct n) = 0" "tokenStore (cert_acct n) = Map.empty"
  by (simp_all add: cert_acct_def toy_acct_def)

lemma cert_acct_ok: "acct_at toy_sha1 (test_id n) (cert_acct n)"
proof -
  let ?t = "MintTransaction (test_id (n + 100)) None (Some (test_id n)) (dy 1073 20)"
  have bc: "blockchain (cert_acct n) = bc_append (test_id (n + 101)) ?t (newBlockchain (test_id 99))"
    by (simp add: cert_acct_def toy_acct_def)
  have "chain_ok (blockchain (cert_acct n))" unfolding bc by (intro chain.ok_append chain.ok_empty)
  moreover have "publicKey (cert_acct n) = toy_key32 n" by (simp add: cert_acct_def)
  ultimately show ?thesis
    by (simp add: acct_at_def acct_ok_def keys_ok_def concrete_simps ScalegraphIdFromPublicKey_def
        bc chain_txs_append chain_txs_new replay_balance_def replay_nonce_def f0_dy [of 1073] fadd_dy)
qed

lemma cert_app_ok: "app_ok toy_sha1 cert_app"
  using cert_acct_ok by (auto simp: app_ok_def concrete_simps)

definition toy_signed_transfer :: "float64 \<Rightarrow> TransferRequest" where
  "toy_signed_transfer amt = (toy_transfer amt)\<lparr>tr_SignedEnvelope := Some \<lparr>Payload =
     \<lparr>tp_From = id_String (test_id 1), tp_To = id_String (test_id 2), tp_Amount = amt, tp_Nonce = 0,
      tp_Timestamp = 0\<rparr>, env_Signature = toy_signature 1\<rparr>\<rparr>"

lemma toy_signed_transfer_simps [concrete_simps]:
  "tr_From (toy_signed_transfer amt) = test_id 1" "tr_To (toy_signed_transfer amt) = test_id 2"
  "tr_Amount (toy_signed_transfer amt) = amt" "tr_Nonce (toy_signed_transfer amt) = 0"
  by (simp_all add: toy_signed_transfer_def concrete_simps)

definition toy_after :: App where
  "toy_after = fst (snd (handleRequest toy_server (toy_inputs 7) (ReqTransfer (toy_signed_transfer (dy 1073 6))) cert_app))"

definition toy_msgs :: "published list" where
  "toy_msgs = snd (snd (handleRequest toy_server (toy_inputs 7) (ReqTransfer (toy_signed_transfer (dy 1073 6))) cert_app))"

lemma toy_request_handled:
  "handleRequest toy_server (toy_inputs 7) (ReqTransfer (toy_signed_transfer (dy 1073 6))) cert_app =
   (Ok TransferResponse, toy_after, toy_msgs)"
proof -
  have v: "TransferRequest_Verify toy_sha1 (srv_marshal toy_server)
      (server_verify toy_server toy_verifier (toy_inputs 7) cert_app) (toy_key32 0)
      (toy_signed_transfer (dy 1073 6)) = Ok ()"
    by (simp add: Verify_defs toy_signed_transfer_def VerifyRequest_Some_iff server_verify_def
        concrete_simps feq_def)
  have "fst (app_Transfer (toy_draws 7) (toy_signed_transfer (dy 1073 6)) cert_app) = Ok ()"
    using transfer_run [OF cert_app_ok, of "toy_signed_transfer (dy 1073 6)" "cert_acct 1" "cert_acct 2" "toy_draws 7"]
    by (simp add: transfer_result_def concrete_simps GetNonce_def f0_dy [of 1073] Let_def)
  then obtain app1 where "app_Transfer (toy_draws 7) (toy_signed_transfer (dy 1073 6)) cert_app = (Ok (), app1)"
    by (cases "app_Transfer (toy_draws 7) (toy_signed_transfer (dy 1073 6)) cert_app") auto
  then have "fst (handleRequest toy_server (toy_inputs 7) (ReqTransfer (toy_signed_transfer (dy 1073 6))) cert_app)
      = Ok TransferResponse"
    using v by (simp add: handleRequest_def concrete_simps publishEvent_def Let_def)
  then show ?thesis by (simp add: toy_after_def toy_msgs_def prod_eq_iff)
qed

lemma toy_after_sent: "accounts toy_after (test_id 1) = Some a \<Longrightarrow> sent (test_id 1) a = 1"
proof -
  assume a: "accounts toy_after (test_id 1) = Some a"
  obtain h where h: "handler (lib_sha1 (srv_lib toy_server)) (toy_inputs 7)
      (ReqTransfer (toy_signed_transfer (dy 1073 6))) = Some h" "h cert_app = (Ok TransferResponse, toy_after)"
    by (rule handleRequest_ok [OF toy_request_handled]) (rule that; assumption)
  then have "app_Transfer (toy_draws 7) (toy_signed_transfer (dy 1073 6)) cert_app = (Ok (), toy_after)"
    by (auto simp: respond_cases concrete_simps)
  then have "transfer_result (toy_draws 7) (toy_signed_transfer (dy 1073 6)) (cert_acct 1) (cert_acct 2)
      cert_app = (Ok (), toy_after)"
    using transfer_run [OF cert_app_ok, of "toy_signed_transfer (dy 1073 6)" "cert_acct 1" "cert_acct 2" "toy_draws 7"]
    by (simp add: concrete_simps)
  from arg_cong [OF this, of "\<lambda>x. accounts (snd x) (test_id 1)", symmetric]
  have "accounts toy_after (test_id 1) = Some (debit (d_block1 (toy_draws 7))
      (TransferTransaction (d_tx (toy_draws 7)) (Some (test_id 1)) (Some (test_id 2)) (dy 1073 6))
      (dy 1073 6) (cert_acct 1))"
    by (simp add: transfer_result_def concrete_simps GetNonce_def f0_dy [of 1073] Let_def)
  with a show "sent (test_id 1) a = 1"
    by (auto simp: sent_def debit_def bump_def chain_txs_append cert_acct_def toy_acct_def chain_txs_new)
qed

end
