(* ===== verification/Client.thy ===== *)
theory Client
  imports Server_Runs
begin

text \<open>
  \<^verbatim>\<open>internal/server/client.go\<close>: the client side of the request channel.  A call parses the ids of
  a signed envelope, builds the request, puts it on the server's channel and waits for the
  response.  The map of pending requests only holds the response channel until the call returns
  and is never read, and the request id is a log value, so neither appears.
\<close>

section \<open>The channel\<close>

text \<open>
  Each of the two \<^verbatim>\<open>select\<close> statements of \<^verbatim>\<open>sendRequest\<close> takes one of three cases: the channel
  operation, the end of the caller's context, or the timeout.
\<close>

datatype wait = Delivered | Cancelled | TimedOut

type_synonym 'r client_call = "(error, 'r) outcome \<times> App \<times> published list"
type_synonym channel = "request \<Rightarrow> App \<Rightarrow> response client_call"

text \<open>
  A request that is on the channel is handled whatever becomes of its sender; \<open>app\<close> is the App
  when the server comes to it.
\<close>

definition sendRequest :: "Server \<Rightarrow> inputs \<Rightarrow> wait \<Rightarrow> wait \<Rightarrow> channel" where
  "sendRequest s inp send_wait resp_wait req app =
     (case send_wait of
        Cancelled \<Rightarrow> (Err ContextDone, app, [])
      | TimedOut \<Rightarrow> (Err RequestSendTimeout, app, [])
      | Delivered \<Rightarrow>
        (case handleRequest s inp req app of
           (resp, app', msgs) \<Rightarrow>
             ((case resp_wait of
                 Delivered \<Rightarrow> resp
               | Cancelled \<Rightarrow> Err ContextDone
               | TimedOut \<Rightarrow> Err ResponseTimeout), app', msgs)))"

text \<open>\<^verbatim>\<open>Send\<close>: the generic call; \<open>result\<close> is the assertion that the response has the expected type.\<close>

definition Send :: "channel \<Rightarrow> (response \<Rightarrow> 'r option) \<Rightarrow> request \<Rightarrow> App \<Rightarrow> 'r client_call" where
  "Send channel result req app =
     (case channel req app of
        (Panic, app', msgs) \<Rightarrow> (Panic, app', msgs)
      | (Err e, app', msgs) \<Rightarrow> (Err e, app', msgs)
      | (Ok resp, app', msgs) \<Rightarrow>
        ((case result resp of Some r \<Rightarrow> Ok r | None \<Rightarrow> Err UnexpectedResponseType), app', msgs))"

definition send_built ::
    "channel \<Rightarrow> (response \<Rightarrow> 'r option) \<Rightarrow> (error, request) outcome \<Rightarrow> App \<Rightarrow> 'r client_call" where
  "send_built channel result built app =
     (case built of
        Ok req \<Rightarrow> Send channel result req app
      | Err e \<Rightarrow> (Err e, app, [])
      | Panic \<Rightarrow> (Panic, app, []))"

text \<open>The error of \<^verbatim>\<open>ScalegraphIdFromString\<close> is returned as it is.\<close>

definition parse_id :: "string \<Rightarrow> (error, ScalegraphId) outcome" where
  "parse_id s =
     (case ScalegraphIdFromString s of
        Ok i \<Rightarrow> Ok i
      | Err e \<Rightarrow> Err (IdError e)
      | Panic \<Rightarrow> Panic)"

fun parse_opt_id :: "string option \<Rightarrow> (error, ScalegraphId option) outcome" where
  "parse_opt_id None = Ok None"
| "parse_opt_id (Some s) = obind (parse_id s) (\<lambda>i. Ok (Some i))"

section \<open>Requests from signed envelopes\<close>

definition TransferSigned_request :: "TransferPayload SignedEnvelope \<Rightarrow> (error, request) outcome" where
  "TransferSigned_request env =
     obind (parse_id (tp_From (Payload env))) (\<lambda>from_id.
      obind (parse_id (tp_To (Payload env))) (\<lambda>to_id.
       Ok (ReqTransfer \<lparr>tr_From = from_id, tr_To = to_id, tr_Amount = tp_Amount (Payload env),
           tr_Nonce = tp_Nonce (Payload env), tr_SignedEnvelope = Some env\<rparr>)))"

definition MintTokenSigned_request :: "MintTokenPayload SignedEnvelope \<Rightarrow> (error, request) outcome" where
  "MintTokenSigned_request env =
     obind (parse_opt_id (mtp_ClawbackAddress (Payload env))) (\<lambda>claw.
      obind (parse_opt_id (mtp_FreezeAddress (Payload env))) (\<lambda>frz.
       Ok (ReqMintToken \<lparr>mt_TokenValue = mtp_TokenValue (Payload env), mt_ClawbackAddress = claw, mt_FreezeAddress = frz,
           mt_Nonce = mtp_Nonce (Payload env), mt_SignedEnvelope = Some env\<rparr>)))"

definition AuthorizeTokenTransferSigned_request :: "AuthorizeTokenTransferPayload SignedEnvelope \<Rightarrow> (error, request) outcome" where
  "AuthorizeTokenTransferSigned_request env =
     obind (parse_id (atp_AccountID (Payload env))) (\<lambda>acc.
      obind (parse_id (atp_TokenOwnerID (Payload env))) (\<lambda>owner.
       Ok (ReqAuthorize \<lparr>at_AccountID = acc, at_TokenOwnerID = owner, at_TokenId = atp_TokenID (Payload env),
           at_Nonce = atp_Nonce (Payload env), at_SignedEnvelope = Some env\<rparr>)))"

definition UnauthorizeTokenTransferSigned_request :: "UnauthorizeTokenTransferPayload SignedEnvelope \<Rightarrow> (error, request) outcome" where
  "UnauthorizeTokenTransferSigned_request env =
     obind (parse_id (utp_AccountID (Payload env))) (\<lambda>acc.
      obind (parse_id (utp_TokenOwnerID (Payload env))) (\<lambda>owner.
       Ok (ReqUnauthorize \<lparr>ut_AccountID = acc, ut_TokenOwnerID = owner, ut_TokenId = utp_TokenID (Payload env),
           ut_Nonce = utp_Nonce (Payload env), ut_SignedEnvelope = Some env\<rparr>)))"

definition TransferTokenSigned_request :: "TransferTokenPayload SignedEnvelope \<Rightarrow> (error, request) outcome" where
  "TransferTokenSigned_request env =
     obind (parse_id (ttp_From (Payload env))) (\<lambda>from_id.
      obind (parse_id (ttp_To (Payload env))) (\<lambda>to_id.
       Ok (ReqTransferToken \<lparr>tt_From = from_id, tt_To = to_id, tt_TokenId = ttp_TokenID (Payload env),
           tt_Nonce = ttp_Nonce (Payload env), tt_SignedEnvelope = Some env\<rparr>)))"

definition BurnTokenSigned_request :: "BurnTokenPayload SignedEnvelope \<Rightarrow> (error, request) outcome" where
  "BurnTokenSigned_request env =
     obind (parse_id (btp_AccountID (Payload env))) (\<lambda>acc.
      Ok (ReqBurnToken \<lparr>bt_AccountID = acc, bt_TokenId = btp_TokenID (Payload env), bt_Nonce = btp_Nonce (Payload env),
          bt_SignedEnvelope = Some env\<rparr>))"

definition LookupTokenSigned_request :: "LookupTokenPayload SignedEnvelope \<Rightarrow> (error, request) outcome" where
  "LookupTokenSigned_request env =
     obind (parse_id (ltp_AccountID (Payload env))) (\<lambda>acc.
      Ok (ReqLookupToken \<lparr>lt_TokenID = ltp_TokenID (Payload env), lt_AccountID = acc, lt_SignedEnvelope = Some env\<rparr>))"

definition ClawbackTokenSigned_request :: "ClawbackTokenPayload SignedEnvelope \<Rightarrow> (error, request) outcome" where
  "ClawbackTokenSigned_request env =
     obind (parse_id (ctp_From (Payload env))) (\<lambda>from_id.
      obind (parse_id (ctp_To (Payload env))) (\<lambda>to_id.
       Ok (ReqClawback \<lparr>ct_From = from_id, ct_To = to_id, ct_TokenId = ctp_TokenID (Payload env),
           ct_Nonce = ctp_Nonce (Payload env), ct_SignedEnvelope = Some env\<rparr>)))"

definition FreezeTokenSigned_request :: "FreezeTokenPayload SignedEnvelope \<Rightarrow> (error, request) outcome" where
  "FreezeTokenSigned_request env =
     obind (parse_id (fzp_FreezeAuthority (Payload env))) (\<lambda>auth.
      obind (parse_id (fzp_TokenHolder (Payload env))) (\<lambda>holder.
       Ok (ReqFreeze \<lparr>fz_FreezeAuthority = auth, fz_TokenHolder = holder, fz_TokenId = fzp_TokenID (Payload env),
           fz_Nonce = fzp_Nonce (Payload env), fz_SignedEnvelope = Some env\<rparr>)))"

definition UnfreezeTokenSigned_request :: "UnfreezeTokenPayload SignedEnvelope \<Rightarrow> (error, request) outcome" where
  "UnfreezeTokenSigned_request env =
     obind (parse_id (ufp_FreezeAuthority (Payload env))) (\<lambda>auth.
      obind (parse_id (ufp_TokenHolder (Payload env))) (\<lambda>holder.
       Ok (ReqUnfreeze \<lparr>uf_FreezeAuthority = auth, uf_TokenHolder = holder, uf_TokenId = ufp_TokenID (Payload env),
           uf_Nonce = ufp_Nonce (Payload env), uf_SignedEnvelope = Some env\<rparr>)))"

lemmas client_request_defs = TransferSigned_request_def MintTokenSigned_request_def
  AuthorizeTokenTransferSigned_request_def UnauthorizeTokenTransferSigned_request_def
  TransferTokenSigned_request_def BurnTokenSigned_request_def LookupTokenSigned_request_def
  ClawbackTokenSigned_request_def FreezeTokenSigned_request_def UnfreezeTokenSigned_request_def

section \<open>The calls\<close>

definition TransferSigned :: "channel \<Rightarrow> TransferPayload SignedEnvelope \<Rightarrow> App \<Rightarrow> unit client_call" where
  "TransferSigned channel env =
     send_built channel (\<lambda>r. if r = TransferResponse then Some () else None) (TransferSigned_request env)"

definition MintTokenSigned :: "channel \<Rightarrow> MintTokenPayload SignedEnvelope \<Rightarrow> App \<Rightarrow> string client_call" where
  "MintTokenSigned channel env =
     send_built channel (\<lambda>r. case r of MintTokenResponse k \<Rightarrow> Some k | _ \<Rightarrow> None) (MintTokenSigned_request env)"

definition AuthorizeTokenTransferSigned :: "channel \<Rightarrow> AuthorizeTokenTransferPayload SignedEnvelope \<Rightarrow> App \<Rightarrow> unit client_call" where
  "AuthorizeTokenTransferSigned channel env =
     send_built channel (\<lambda>r. if r = AuthorizeTokenTransferResponse then Some () else None) (AuthorizeTokenTransferSigned_request env)"

definition UnauthorizeTokenTransferSigned :: "channel \<Rightarrow> UnauthorizeTokenTransferPayload SignedEnvelope \<Rightarrow> App \<Rightarrow> unit client_call" where
  "UnauthorizeTokenTransferSigned channel env =
     send_built channel (\<lambda>r. if r = UnauthorizeTokenTransferResponse then Some () else None) (UnauthorizeTokenTransferSigned_request env)"

definition TransferTokenSigned :: "channel \<Rightarrow> TransferTokenPayload SignedEnvelope \<Rightarrow> App \<Rightarrow> unit client_call" where
  "TransferTokenSigned channel env =
     send_built channel (\<lambda>r. if r = TransferTokenResponse then Some () else None) (TransferTokenSigned_request env)"

definition BurnTokenSigned :: "channel \<Rightarrow> BurnTokenPayload SignedEnvelope \<Rightarrow> App \<Rightarrow> unit client_call" where
  "BurnTokenSigned channel env =
     send_built channel (\<lambda>r. if r = BurnTokenResponse then Some () else None) (BurnTokenSigned_request env)"

definition LookupTokenSigned :: "channel \<Rightarrow> LookupTokenPayload SignedEnvelope \<Rightarrow> App \<Rightarrow> (Token option) client_call" where
  "LookupTokenSigned channel env =
     send_built channel (\<lambda>r. case r of LookupTokenResponse t \<Rightarrow> Some t | _ \<Rightarrow> None) (LookupTokenSigned_request env)"

definition ClawbackTokenSigned :: "channel \<Rightarrow> ClawbackTokenPayload SignedEnvelope \<Rightarrow> App \<Rightarrow> unit client_call" where
  "ClawbackTokenSigned channel env =
     send_built channel (\<lambda>r. if r = ClawbackTokenResponse then Some () else None) (ClawbackTokenSigned_request env)"

definition FreezeTokenSigned :: "channel \<Rightarrow> FreezeTokenPayload SignedEnvelope \<Rightarrow> App \<Rightarrow> unit client_call" where
  "FreezeTokenSigned channel env =
     send_built channel (\<lambda>r. if r = FreezeTokenResponse then Some () else None) (FreezeTokenSigned_request env)"

definition UnfreezeTokenSigned :: "channel \<Rightarrow> UnfreezeTokenPayload SignedEnvelope \<Rightarrow> App \<Rightarrow> unit client_call" where
  "UnfreezeTokenSigned channel env =
     send_built channel (\<lambda>r. if r = UnfreezeTokenResponse then Some () else None) (UnfreezeTokenSigned_request env)"

definition CreateAccountWithCredentials ::
    "channel \<Rightarrow> float64 \<Rightarrow> CreateAccountPayload SignedEnvelope option \<Rightarrow> App \<Rightarrow>
     (Account \<times> Certificate) client_call" where
  "CreateAccountWithCredentials channel initialBalance env =
     Send channel (\<lambda>r. case r of CreateAccountResponse a c \<Rightarrow> Some (a, c) | _ \<Rightarrow> None)
       (ReqCreateAccount \<lparr>ca_InitialBalance = initialBalance, ca_SignedEnvelope = env\<rparr>)"

definition client_GetAccount ::
    "channel \<Rightarrow> ScalegraphId \<Rightarrow> GetAccountPayload SignedEnvelope option \<Rightarrow> App \<Rightarrow> Account client_call" where
  "client_GetAccount channel i env =
     Send channel (\<lambda>r. case r of GetAccountResponse a \<Rightarrow> Some a | _ \<Rightarrow> None)
       (ReqGetAccount \<lparr>ga_AccountID = i, ga_SignedEnvelope = env\<rparr>)"

definition client_GetAccounts :: "channel \<Rightarrow> App \<Rightarrow> Account set client_call" where
  "client_GetAccounts channel =
     Send channel (\<lambda>r. case r of GetAccountsResponse s \<Rightarrow> Some s | _ \<Rightarrow> None) ReqGetAccounts"

definition client_Mint :: "channel \<Rightarrow> ScalegraphId \<Rightarrow> float64 \<Rightarrow> App \<Rightarrow> unit client_call" where
  "client_Mint channel to_id amount =
     Send channel (\<lambda>r. if r = MintResponse then Some () else None)
       (ReqMint \<lparr>mr_To = to_id, mr_Amount = amount\<rparr>)"

definition client_AccountCount :: "channel \<Rightarrow> App \<Rightarrow> int client_call" where
  "client_AccountCount channel =
     Send channel (\<lambda>r. case r of AccountCountResponse n \<Rightarrow> Some n | _ \<Rightarrow> None) ReqAccountCount"

definition AdminCreateAccount :: "channel \<Rightarrow> float64 \<Rightarrow> App \<Rightarrow> (Account \<times> Certificate) client_call" where
  "AdminCreateAccount channel initialBalance =
     Send channel (\<lambda>r. case r of CreateAccountResponse a c \<Rightarrow> Some (a, c) | _ \<Rightarrow> None)
       (ReqAdminCreateAccount \<lparr>ac_InitialBalance = initialBalance\<rparr>)"

definition AdminMint :: "channel \<Rightarrow> ScalegraphId \<Rightarrow> float64 \<Rightarrow> App \<Rightarrow> unit client_call" where
  "AdminMint channel to_id amount =
     Send channel (\<lambda>r. if r = AdminMintResponse then Some () else None)
       (ReqAdminMint \<lparr>am_To = to_id, am_Amount = amount\<rparr>)"

text \<open>The nonce of an account, read through a pointer to it.\<close>

definition nonce_at :: "App \<Rightarrow> ScalegraphId \<Rightarrow> uint64" where
  "nonce_at app i = (case accounts app i of None \<Rightarrow> 0 | Some a \<Rightarrow> GetNonce a)"

section \<open>What a call sends\<close>

lemma parse_id_Ok: "parse_id s = Ok i \<longleftrightarrow> ScalegraphIdFromString s = Ok i"
  by (simp add: parse_id_def split: outcome.split)

text \<open>
  The envelopes a client signs, with the account each acts for and the payload's ids.  An id is
  \<open>canonical\<close> when it is written the way \<^verbatim>\<open>String()\<close> prints it, in lower case.
\<close>

datatype signed_call =
    CallTransfer "TransferPayload SignedEnvelope"
  | CallMintToken "MintTokenPayload SignedEnvelope"
  | CallAuthorize "AuthorizeTokenTransferPayload SignedEnvelope"
  | CallUnauthorize "UnauthorizeTokenTransferPayload SignedEnvelope"
  | CallTransferToken "TransferTokenPayload SignedEnvelope"
  | CallBurnToken "BurnTokenPayload SignedEnvelope"
  | CallLookupToken "LookupTokenPayload SignedEnvelope"
  | CallClawback "ClawbackTokenPayload SignedEnvelope"
  | CallFreeze "FreezeTokenPayload SignedEnvelope"
  | CallUnfreeze "UnfreezeTokenPayload SignedEnvelope"

fun built_request :: "signed_call \<Rightarrow> (error, request) outcome" where
  "built_request (CallTransfer e) = TransferSigned_request e"
| "built_request (CallMintToken e) = MintTokenSigned_request e"
| "built_request (CallAuthorize e) = AuthorizeTokenTransferSigned_request e"
| "built_request (CallUnauthorize e) = UnauthorizeTokenTransferSigned_request e"
| "built_request (CallTransferToken e) = TransferTokenSigned_request e"
| "built_request (CallBurnToken e) = BurnTokenSigned_request e"
| "built_request (CallLookupToken e) = LookupTokenSigned_request e"
| "built_request (CallClawback e) = ClawbackTokenSigned_request e"
| "built_request (CallFreeze e) = FreezeTokenSigned_request e"
| "built_request (CallUnfreeze e) = UnfreezeTokenSigned_request e"

fun call_ids :: "signed_call \<Rightarrow> string list" where
  "call_ids (CallTransfer e) = [tp_From (Payload e), tp_To (Payload e)]"
| "call_ids (CallMintToken e) =
     (case mtp_ClawbackAddress (Payload e) of None \<Rightarrow> [] | Some s \<Rightarrow> [s]) @
     (case mtp_FreezeAddress (Payload e) of None \<Rightarrow> [] | Some s \<Rightarrow> [s])"
| "call_ids (CallAuthorize e) = [atp_AccountID (Payload e), atp_TokenOwnerID (Payload e)]"
| "call_ids (CallUnauthorize e) = [utp_AccountID (Payload e), utp_TokenOwnerID (Payload e)]"
| "call_ids (CallTransferToken e) = [ttp_From (Payload e), ttp_To (Payload e)]"
| "call_ids (CallBurnToken e) = [btp_AccountID (Payload e)]"
| "call_ids (CallLookupToken e) = [ltp_AccountID (Payload e)]"
| "call_ids (CallClawback e) = [ctp_From (Payload e), ctp_To (Payload e)]"
| "call_ids (CallFreeze e) = [fzp_FreezeAuthority (Payload e), fzp_TokenHolder (Payload e)]"
| "call_ids (CallUnfreeze e) = [ufp_FreezeAuthority (Payload e), ufp_TokenHolder (Payload e)]"

text \<open>The signature of the call, the bytes it has to cover and the account that has to sign.\<close>

fun call_signature :: "signed_call \<Rightarrow> Signature" where
  "call_signature (CallTransfer e) = env_Signature e"
| "call_signature (CallMintToken e) = env_Signature e"
| "call_signature (CallAuthorize e) = env_Signature e"
| "call_signature (CallUnauthorize e) = env_Signature e"
| "call_signature (CallTransferToken e) = env_Signature e"
| "call_signature (CallBurnToken e) = env_Signature e"
| "call_signature (CallLookupToken e) = env_Signature e"
| "call_signature (CallClawback e) = env_Signature e"
| "call_signature (CallFreeze e) = env_Signature e"
| "call_signature (CallUnfreeze e) = env_Signature e"

fun call_bytes :: "marshaller \<Rightarrow> signed_call \<Rightarrow> byte list" where
  "call_bytes m (CallTransfer e) = TransferPayload_Bytes m (Payload e)"
| "call_bytes m (CallMintToken e) = MintTokenPayload_Bytes m (Payload e)"
| "call_bytes m (CallAuthorize e) = AuthorizeTokenTransferPayload_Bytes m (Payload e)"
| "call_bytes m (CallUnauthorize e) = UnauthorizeTokenTransferPayload_Bytes m (Payload e)"
| "call_bytes m (CallTransferToken e) = TransferTokenPayload_Bytes m (Payload e)"
| "call_bytes m (CallBurnToken e) = BurnTokenPayload_Bytes m (Payload e)"
| "call_bytes m (CallLookupToken e) = LookupTokenPayload_Bytes m (Payload e)"
| "call_bytes m (CallClawback e) = ClawbackTokenPayload_Bytes m (Payload e)"
| "call_bytes m (CallFreeze e) = FreezeTokenPayload_Bytes m (Payload e)"
| "call_bytes m (CallUnfreeze e) = UnfreezeTokenPayload_Bytes m (Payload e)"

fun call_actor :: "signed_call \<Rightarrow> string" where
  "call_actor (CallTransfer e) = tp_From (Payload e)"
| "call_actor (CallMintToken e) = SignerID (env_Signature e)"
| "call_actor (CallAuthorize e) = atp_AccountID (Payload e)"
| "call_actor (CallUnauthorize e) = utp_AccountID (Payload e)"
| "call_actor (CallTransferToken e) = ttp_From (Payload e)"
| "call_actor (CallBurnToken e) = btp_AccountID (Payload e)"
| "call_actor (CallLookupToken e) = SignerID (env_Signature e)"
| "call_actor (CallClawback e) = ctp_To (Payload e)"
| "call_actor (CallFreeze e) = fzp_FreezeAuthority (Payload e)"
| "call_actor (CallUnfreeze e) = ufp_FreezeAuthority (Payload e)"

definition canonical :: "string \<Rightarrow> bool" where
  "canonical s \<longleftrightarrow> (\<exists>i. s = id_String i)"

lemma parsed_canonical: "ScalegraphIdFromString s = Ok i \<Longrightarrow> s = id_String i \<longleftrightarrow> canonical s"
  by (auto simp: canonical_def)

lemma parse_opt_id_Ok:
  "parse_opt_id a = Ok r \<longleftrightarrow>
   (case a of None \<Rightarrow> r = None | Some s \<Rightarrow> (\<exists>i. ScalegraphIdFromString s = Ok i \<and> r = Some i))"
  by (cases a) (auto simp: obind_Ok_iff parse_id_Ok)

lemma parsed_addresses_agree:
  "parse_opt_id a = Ok r \<Longrightarrow> addresses_agree r a \<longleftrightarrow> (\<forall>s\<in>set_option a. canonical s)"
  by (cases a)
    (auto simp: addresses_agree_def obind_Ok_iff parse_id_Ok parsed_canonical [symmetric])

lemma parse_opt_ids:
  "set (case a of None \<Rightarrow> [] | Some s \<Rightarrow> [s]) = set_option a"
  by (cases a) auto

text \<open>Go's \<^verbatim>\<open>==\<close> on the amount fails for a NaN.\<close>

fun call_comparable :: "signed_call \<Rightarrow> bool" where
  "call_comparable (CallTransfer e) \<longleftrightarrow> tp_Amount (Payload e) \<noteq> NaN"
| "call_comparable _ \<longleftrightarrow> True"

lemma feq_refl: "feq x x \<longleftrightarrow> x \<noteq> NaN"
  by (auto simp: feq_def)

lemma canonical_not_Nil: "canonical s \<Longrightarrow> s \<noteq> []"
  by (auto simp: canonical_def)

lemma built_request_verified:
  assumes "built_request c = Ok req"
  shows "request_Verify sha1 m verify ca req = Some (Ok ()) \<longleftrightarrow>
    verify (SignerID (call_signature c)) (call_bytes m c) (call_signature c) = Ok () \<and>
    SignerID (call_signature c) = call_actor c \<and> call_actor c \<noteq> [] \<and>
    (\<forall>s\<in>set (call_ids c). canonical s) \<and> call_comparable c"
  using assms
  by (cases c)
    (auto simp: client_request_defs obind_Ok_iff parse_id_Ok Verify_defs
      VerifyRequest_Some_iff first_mismatch_None feq_refl parsed_addresses_agree
      parsed_canonical [symmetric] parse_opt_ids id_String_not_Nil [THEN not_sym] simp del: first_mismatch.simps parse_opt_id.simps)

text \<open>
  Property C27.  What a client builds from a signed envelope passes the server's check exactly
  when the verifier accepts the envelope's signature over its payload, the signer is the acting
  account, and every id in the payload is written in the lower case the server compares with.
  The comparison of fields itself can only fail for ids in upper case, which parse but do not
  compare equal, and for an amount that is not a number.
\<close>

theorem client_requests_verified:
  assumes "built_request c = Ok req"
  shows "request_Verify sha1 m verify ca req = Some (Ok ()) \<longleftrightarrow>
    verify (SignerID (call_signature c)) (call_bytes m c) (call_signature c) = Ok () \<and>
    SignerID (call_signature c) = call_actor c \<and> call_actor c \<noteq> [] \<and>
    (\<forall>s\<in>set (call_ids c). canonical s) \<and> call_comparable c"
  using assms by (rule built_request_verified)

definition toy_envelope :: "TransferPayload SignedEnvelope" where
  "toy_envelope = \<lparr>Payload = \<lparr>tp_From = id_String (test_id 1), tp_To = id_String (test_id 2),
     tp_Amount = dy 1073 6, tp_Nonce = 0, tp_Timestamp = 0\<rparr>, env_Signature = toy_signature 1\<rparr>"

theorem client_requests_verified_witness:
  "\<exists>req. TransferSigned_request toy_envelope = Ok req \<and>
     request_Verify toy_sha1 (\<lambda>_. None) (VerifyEnvelopeData toy_lib toy_verifier cert_app 0 0)
       (toy_key32 0) req = Some (Ok ())"
proof -
  obtain req where r: "built_request (CallTransfer toy_envelope) = Ok req"
    by (simp add: client_request_defs toy_envelope_def parse_id_def)
  then show ?thesis
    using client_requests_verified [OF r, of toy_sha1 "\<lambda>_. None"
        "VerifyEnvelopeData toy_lib toy_verifier cert_app 0 0" "toy_key32 0"]
    by (auto simp: toy_envelope_def concrete_simps canonical_def)
qed

section \<open>Timeouts\<close>

lemma admin_mint_once:
  assumes "accounts app j = Some c"
  shows "map_option balance (accounts (fst (snd (sendRequest s inp Delivered w
      (ReqAdminMint \<lparr>am_To = j, am_Amount = amt\<rparr>) app))) j) = Some (fadd (balance c) amt)"
  using assms
  by (cases w) (simp_all add: sendRequest_def handleRequest_def handleAdminMint_def app_Mint_def
      append_one_def on_entry_def appendTransaction_def newMintTransaction_def handleMintTx_def
      publishEvent_def Let_def split: prod.split)

lemma admin_mint_twice:
  "\<forall>j c amt w w' r4 app4 msgs4. accounts app j = Some c \<longrightarrow>
     sendRequest s inp Delivered w (ReqAdminMint \<lparr>am_To = j, am_Amount = amt\<rparr>) app = (r4, app4, msgs4) \<longrightarrow>
     map_option balance (accounts (fst (snd (sendRequest s inp' Delivered w'
         (ReqAdminMint \<lparr>am_To = j, am_Amount = amt\<rparr>) app4))) j) =
       Some (fadd (fadd (balance c) amt) amt)"
proof (intro allI impI)
  fix j c amt w w' r4 app4 msgs4
  assume "accounts app j = Some c"
    and run: "sendRequest s inp Delivered w (ReqAdminMint \<lparr>am_To = j, am_Amount = amt\<rparr>) app = (r4, app4, msgs4)"
  then obtain c' where "accounts app4 j = Some c'" "balance c' = fadd (balance c) amt"
    using admin_mint_once [of app j c s inp w amt] by auto
  from admin_mint_once [OF this(1)] this(2) show "map_option balance (accounts (fst (snd (sendRequest s inp' Delivered w'
      (ReqAdminMint \<lparr>am_To = j, am_Amount = amt\<rparr>) app4))) j) = Some (fadd (fadd (balance c) amt) amt)" by simp
qed

text \<open>
  Property C28.  A client that gets no answer to a request with a nonce (a transfer or one of the
  token operations) can send the same request again without risk.  If the first one was executed
  although the client saw a timeout, then after whatever else the server has handled in between,
  the second attempt fails and changes and announces nothing; if it never reached the channel, the
  App is as it was.  The requests without a nonce have no such protection: an administrator's mint
  that is sent twice, because its answer was lost, is executed twice.
\<close>

theorem retry_after_timeout:
  assumes "app_ok (lib_sha1 (srv_lib s)) app" "request_nonce req = Some (i, n)"
    and "sendRequest s inp w1 w2 req app = (r1, app1, msgs1)"
    and "server_run s queue app1 = (rs, app2, alive)"
    and "\<And>a. accounts app2 i = Some a \<Longrightarrow> sent i a < 2 ^ 64"
    and "sendRequest s inp' w1' w2' req app2 = (r2, app3, msgs2)"
  shows "(if w1 = Delivered \<and> is_ok (fst (handleRequest s inp req app))
      then app3 = app2 \<and> msgs2 = [] \<and> \<not> is_ok r2
      else w1 \<noteq> Delivered \<longrightarrow> app1 = app \<and> msgs1 = [] \<and> \<not> is_ok r1) \<and>
    (\<forall>j c amt w w' r4 app4 msgs4. accounts app j = Some c \<longrightarrow>
       sendRequest s inp Delivered w (ReqAdminMint \<lparr>am_To = j, am_Amount = amt\<rparr>) app = (r4, app4, msgs4) \<longrightarrow>
       map_option balance (accounts (fst (snd (sendRequest s inp' Delivered w'
           (ReqAdminMint \<lparr>am_To = j, am_Amount = amt\<rparr>) app4))) j) =
         Some (fadd (fadd (balance c) amt) amt))"
proof (intro conjI admin_mint_twice)
  show "if w1 = Delivered \<and> is_ok (fst (handleRequest s inp req app))
      then app3 = app2 \<and> msgs2 = [] \<and> \<not> is_ok r2
      else w1 \<noteq> Delivered \<longrightarrow> app1 = app \<and> msgs1 = [] \<and> \<not> is_ok r1"
  proof (cases "w1 = Delivered \<and> is_ok (fst (handleRequest s inp req app))")
    case True
    then obtain resp msgs where 1: "handleRequest s inp req app = (Ok resp, app1, msgs)"
      using assms(3) by (auto simp: sendRequest_def is_ok_iff prod_eq_iff split: prod.splits)
    from used_nonce_rejected [OF assms(1) 1 assms(2,4,5,2), of inp'] obtain r where
      "handleRequest s inp' req app2 = (r, app2, [])" "\<not> is_ok r" by blast
    then show ?thesis
      using True assms(6) by (auto simp: sendRequest_def split: wait.splits)
  next
    case False
    then show ?thesis using assms(3) by (auto simp: sendRequest_def split: wait.splits)
  qed
qed

theorem retry_after_timeout_witness:
  "\<exists>r. sendRequest toy_server (toy_inputs 7) Delivered TimedOut
       (ReqTransfer (toy_signed_transfer (dy 1073 6))) cert_app = (Err ResponseTimeout, toy_after, toy_msgs) \<and>
     sendRequest toy_server (toy_inputs 8) Delivered Delivered
       (ReqTransfer (toy_signed_transfer (dy 1073 6))) toy_after = (r, toy_after, []) \<and> \<not> is_ok r"
proof -
  let ?req = "ReqTransfer (toy_signed_transfer (dy 1073 6))"
  have 1: "sendRequest toy_server (toy_inputs 7) Delivered TimedOut ?req cert_app =
      (Err ResponseTimeout, toy_after, toy_msgs)"
    by (simp add: sendRequest_def toy_request_handled)
  obtain r app3 msgs2 where 2: "sendRequest toy_server (toy_inputs 8) Delivered Delivered ?req toy_after =
      (r, app3, msgs2)" by (metis prod_cases3)
  have "app3 = toy_after \<and> msgs2 = [] \<and> \<not> is_ok r"
    using retry_after_timeout [OF _ _ 1 _ _ 2, of "test_id 1" 0 "[]"] cert_app_ok toy_after_sent
    by (simp add: concrete_simps toy_request_handled)
  with 1 2 show ?thesis by blast
qed

end
