(* ===== verification/Base64.thy ===== *)
theory Base64
  imports Errors
begin

text \<open>
  \<^verbatim>\<open>encoding/base64\<close> of the Go standard library as the transports use it: the standard and the
  URL-safe alphabet with padding.  A value below 64 is a natural number.
\<close>

section \<open>Alphabets\<close>

definition letters_digits :: string where
  "letters_digits = ''ABCDEFGHIJKLMNOPQRSTUVWXYZabcdefghijklmnopqrstuvwxyz0123456789''"

definition StdEncoding :: string where "StdEncoding = letters_digits @ ''+/''"
definition URLEncoding :: string where "URLEncoding = letters_digits @ ''-_''"

definition digit64 :: "string \<Rightarrow> char \<Rightarrow> nat option" where
  "digit64 alphabet = map_of (zip alphabet [0..<64])"

definition pad :: char where "pad = CHR ''=''"

section \<open>Encoding and decoding\<close>

fun encode_quanta :: "string \<Rightarrow> byte list \<Rightarrow> string" where
  "encode_quanta al [] = []"
| "encode_quanta al [x] = [al ! (unat x div 4), al ! (unat x mod 4 * 16), pad, pad]"
| "encode_quanta al [x, y] =
     [al ! (unat x div 4), al ! (unat x mod 4 * 16 + unat y div 16), al ! (unat y mod 16 * 4), pad]"
| "encode_quanta al (x # y # z # rest) =
     al ! (unat x div 4) # al ! (unat x mod 4 * 16 + unat y div 16) #
     al ! (unat y mod 16 * 4 + unat z div 64) # al ! (unat z mod 64) # encode_quanta al rest"

definition EncodeToString64 :: "string \<Rightarrow> byte list \<Rightarrow> string" where
  "EncodeToString64 = encode_quanta"

text \<open>The bytes of two, three and four digits; the surplus bits of a short quantum are not checked.\<close>

definition byte1 :: "nat \<Rightarrow> nat \<Rightarrow> byte" where "byte1 a b = of_nat (a * 4 + b div 16)"
definition byte2 :: "nat \<Rightarrow> nat \<Rightarrow> byte" where "byte2 b c = of_nat (b mod 16 * 16 + c div 4)"
definition byte3 :: "nat \<Rightarrow> nat \<Rightarrow> byte" where "byte3 c d = of_nat (c mod 4 * 64 + d)"

text \<open>
  Quanta of four characters; padding may only stand at the end of the last one, and everything
  else is corrupt input.  Line breaks are skipped wherever they stand.
\<close>

fun decode_quanta :: "(char \<Rightarrow> nat option) \<Rightarrow> string \<Rightarrow> (error, byte list) outcome" where
  "decode_quanta d [] = Ok []"
| "decode_quanta d (c1 # c2 # c3 # c4 # rest) =
     (case (d c1, d c2) of
        (Some v1, Some v2) \<Rightarrow>
          if c3 = pad then (if c4 = pad \<and> rest = [] then Ok [byte1 v1 v2] else Err Base64CorruptInput)
          else (case d c3 of
            None \<Rightarrow> Err Base64CorruptInput
          | Some v3 \<Rightarrow>
            if c4 = pad then (if rest = [] then Ok [byte1 v1 v2, byte2 v2 v3] else Err Base64CorruptInput)
            else (case d c4 of
              None \<Rightarrow> Err Base64CorruptInput
            | Some v4 \<Rightarrow> obind (decode_quanta d rest) (\<lambda>bs. Ok (byte1 v1 v2 # byte2 v2 v3 # byte3 v3 v4 # bs))))
      | _ \<Rightarrow> Err Base64CorruptInput)"
| "decode_quanta d _ = Err Base64CorruptInput"

definition line_break :: "char \<Rightarrow> bool" where
  "line_break c \<longleftrightarrow> c = CHR 0x0A \<or> c = CHR 0x0D"

definition DecodeString64 :: "string \<Rightarrow> string \<Rightarrow> (error, byte list) outcome" where
  "DecodeString64 alphabet s = decode_quanta (digit64 alphabet) (filter (\<lambda>c. \<not> line_break c) s)"

section \<open>Round trip\<close>

definition alphabet_ok :: "string \<Rightarrow> bool" where
  "alphabet_ok al \<longleftrightarrow> length al = 64 \<and> distinct al \<and> pad \<notin> set al \<and> filter line_break al = []"

lemma alphabets_ok: "alphabet_ok StdEncoding" "alphabet_ok URLEncoding"
  by code_simp+

lemma digit64_nth: "alphabet_ok al \<Longrightarrow> i < 64 \<Longrightarrow> digit64 al (al ! i) = Some i"
  using map_of_zip_nth [of al "[0..<64]" i] by (simp add: digit64_def alphabet_ok_def)

lemma nth_not_pad: "alphabet_ok al \<Longrightarrow> i < 64 \<Longrightarrow> al ! i \<noteq> pad"
  unfolding alphabet_ok_def by (metis nth_mem)

lemma byte_parts:
  fixes x :: byte
  shows "unat x div 4 < 64" "unat x div 16 < 16" "unat x div 64 < 4"
    "unat x mod 4 < 4" "unat x mod 16 < 16" "unat x mod 64 < 64"
  using unat_byte [of x] by (simp_all add: less_mult_imp_div_less)

lemma digits_below:
  fixes x y z :: byte
  shows "unat x div 4 < 64" "unat x mod 4 * 16 < 64" "unat x mod 4 * 16 + unat y div 16 < 64"
    "unat y mod 16 * 4 < 64" "unat y mod 16 * 4 + unat z div 64 < 64" "unat z mod 64 < 64"
  using byte_parts [of x] byte_parts [of y] byte_parts [of z] by linarith+

lemma bytes_back:
  fixes x y z :: byte
  shows "byte1 (unat x div 4) (unat x mod 4 * 16) = x"
    "byte1 (unat x div 4) (unat x mod 4 * 16 + unat y div 16) = x"
    "byte2 (unat x mod 4 * 16 + unat y div 16) (unat y mod 16 * 4) = y"
    "byte2 (unat x mod 4 * 16 + unat y div 16) (unat y mod 16 * 4 + unat z div 64) = y"
    "byte3 (unat y mod 16 * 4 + unat z div 64) (unat z mod 64) = z"
  using byte_parts [of y] byte_parts [of z]
  unfolding byte1_def byte2_def byte3_def by simp_all

lemma decode_encode_quanta:
  "alphabet_ok al \<Longrightarrow> decode_quanta (digit64 al) (encode_quanta al bs) = Ok bs"
  by (induction al bs rule: encode_quanta.induct)
    (simp_all add: digit64_nth nth_not_pad digits_below bytes_back)

lemma encode_chars: "alphabet_ok al \<Longrightarrow> set (encode_quanta al bs) \<subseteq> insert pad (set al)"
  by (induction al bs rule: encode_quanta.induct) (auto simp: alphabet_ok_def digits_below)

lemma encode_no_breaks:
  assumes "alphabet_ok al"
  shows "filter (\<lambda>c. \<not> line_break c) (encode_quanta al bs) = encode_quanta al bs"
proof -
  have "\<not> line_break c" if "c \<in> set (encode_quanta al bs)" for c
    using encode_chars [OF assms, of bs] that assms
    by (auto simp: alphabet_ok_def filter_empty_conv line_break_def pad_def)
  then show ?thesis by (simp add: filter_id_conv)
qed

lemma DecodeString64_Encode:
  "alphabet_ok al \<Longrightarrow> DecodeString64 al (EncodeToString64 al bs) = Ok bs"
  by (simp add: DecodeString64_def EncodeToString64_def encode_no_breaks decode_encode_quanta)

text \<open>Two alphabets that agree on a text decode it alike as far as the first one can.\<close>

lemma decode_quanta_agree:
  "decode_quanta d s = Ok bs \<Longrightarrow> (\<And>c v. c \<in> set s \<Longrightarrow> d c = Some v \<Longrightarrow> d' c = Some v) \<Longrightarrow>
   decode_quanta d' s = Ok bs"
  by (induction d s arbitrary: bs rule: decode_quanta.induct)
    (auto simp: obind_Ok_iff split: option.splits if_splits)

lemma decode_quanta_no_panic: "decode_quanta d s \<noteq> Panic"
proof (induction d s rule: decode_quanta.induct)
  case (2 d c1 c2 c3 c4 rest)
  then show ?case
    by (cases "d c1"; cases "d c2"; cases "d c3"; cases "d c4"; cases "decode_quanta d rest") (auto, blast)
qed simp_all

lemma std_agrees_url:
  assumes "c \<in> insert pad (set URLEncoding)" "digit64 StdEncoding c = Some v"
  shows "digit64 URLEncoding c = Some v"
proof -
  have "\<forall>c\<in>insert pad (set URLEncoding). \<forall>v\<in>set_option (digit64 StdEncoding c). digit64 URLEncoding c = Some v"
    by code_simp
  then show ?thesis using assms by auto
qed

text \<open>A text in the URL-safe alphabet is never misread as one in the standard alphabet.\<close>

lemma std_never_misreads_url:
  assumes "DecodeString64 StdEncoding (EncodeToString64 URLEncoding bs) = Ok bs'"
  shows "bs' = bs"
proof -
  have "decode_quanta (digit64 StdEncoding) (encode_quanta URLEncoding bs) = Ok bs'"
    using assms by (simp add: DecodeString64_def EncodeToString64_def encode_no_breaks alphabets_ok)
  then have "decode_quanta (digit64 URLEncoding) (encode_quanta URLEncoding bs) = Ok bs'"
    by (rule decode_quanta_agree) (use encode_chars [OF alphabets_ok(2), of bs] std_agrees_url in blast)
  then show ?thesis by (simp add: decode_encode_quanta alphabets_ok)
qed

end
