(* ===== verification/Converters.thy ===== *)
theory Converters
  imports Client Base64
begin

text \<open>
  \<^verbatim>\<open>internal/transport/connect/converters.go\<close>: from the protobuf messages of the Connect transport
  to signed envelopes.  The message structs are generated from the files under \<^verbatim>\<open>proto\<close>; here
  they are records with the fields of those files.
\<close>

section \<open>Messages\<close>

record pb_Signature =
  pbs_algorithm :: string
  pbs_value :: string
  pbs_signer_id :: string
  pbs_timestamp :: int64

text \<open>
  A request message holds its envelope, and an envelope its payload and its signature, by
  pointers that are nil when the field is absent.  The certificate is a field of three kinds of
  envelope only, empty elsewhere; the converters never read it.
\<close>

record 'q pb_envelope =
  pb_payload :: "'q option"
  pb_signature :: "pb_Signature option"
  pb_certificate :: string

type_synonym 'q pb_request = "'q pb_envelope option"

text \<open>The generated getters work on nil and give the zero value of the field.\<close>

definition get_str :: "('q \<Rightarrow> string) \<Rightarrow> 'q option \<Rightarrow> string" where
  "get_str f p = (case p of None \<Rightarrow> [] | Some r \<Rightarrow> f r)"

definition get_word :: "('q \<Rightarrow> 64 word) \<Rightarrow> 'q option \<Rightarrow> 64 word" where
  "get_word f p = (case p of None \<Rightarrow> 0 | Some r \<Rightarrow> f r)"

definition get_f64 :: "('q \<Rightarrow> float64) \<Rightarrow> 'q option \<Rightarrow> float64" where
  "get_f64 f p = (case p of None \<Rightarrow> f0 | Some r \<Rightarrow> f r)"

definition get_list :: "('q \<Rightarrow> 'a list) \<Rightarrow> 'q option \<Rightarrow> 'a list" where
  "get_list f p = (case p of None \<Rightarrow> [] | Some r \<Rightarrow> f r)"

section \<open>Signatures\<close>

text \<open>Standard base64 first, the URL-safe alphabet when that fails.\<close>

definition convertSignature :: "pb_Signature option \<Rightarrow> (error, Signature) outcome" where
  "convertSignature sig =
     (let value = get_str pbs_value sig;
          decoded = (case DecodeString64 StdEncoding value of
                       Ok bs \<Rightarrow> Ok bs
                     | Err e \<Rightarrow> DecodeString64 URLEncoding value
                     | Panic \<Rightarrow> Panic)
      in obind decoded (\<lambda>sigBytes.
           Ok \<lparr>sig_Algorithm = get_str pbs_algorithm sig, sig_Value = sigBytes,
               SignerID = get_str pbs_signer_id sig, sig_Timestamp = get_word pbs_timestamp sig\<rparr>))"

text \<open>Every converter decodes the signature first and then copies the payload's fields.\<close>

definition convert_envelope ::
    "'q pb_request \<Rightarrow> ('q option \<Rightarrow> 'p) \<Rightarrow> (error, 'p SignedEnvelope) outcome" where
  "convert_envelope req payload =
     obind (convertSignature (Option.bind req pb_signature)) (\<lambda>sig.
       Ok \<lparr>Payload = payload (Option.bind req pb_payload), env_Signature = sig\<rparr>)"

section \<open>Payloads\<close>

text \<open>Nonces travel as \<^verbatim>\<open>int64\<close>; the conversion to \<^verbatim>\<open>uint64\<close> keeps the bits.\<close>

record pb_Transfer =
  pbt_from :: string
  pbt_to :: string
  pbt_amount :: float64
  pbt_nonce :: int64
  pbt_timestamp :: int64

definition convertTransferEnvelope ::
    "pb_Transfer pb_request \<Rightarrow> (error, TransferPayload SignedEnvelope) outcome" where
  "convertTransferEnvelope req = convert_envelope req (\<lambda>p.
     \<lparr>tp_From = get_str pbt_from p,
      tp_To = get_str pbt_to p,
      tp_Amount = get_f64 pbt_amount p,
      tp_Nonce = get_word pbt_nonce p,
      tp_Timestamp = get_word pbt_timestamp p\<rparr>)"

record pb_LookupToken =
  pbl_token_id :: string
  pbl_account_id :: string

definition convertLookupTokenEnvelope ::
    "pb_LookupToken pb_request \<Rightarrow> (error, LookupTokenPayload SignedEnvelope) outcome" where
  "convertLookupTokenEnvelope req = convert_envelope req (\<lambda>p.
     \<lparr>ltp_TokenID = get_str pbl_token_id p,
      ltp_AccountID = get_str pbl_account_id p\<rparr>)"

record pb_TransferToken =
  pbtt_from :: string
  pbtt_to :: string
  pbtt_token_id :: string
  pbtt_nonce :: int64

definition convertTransferTokenEnvelope ::
    "pb_TransferToken pb_request \<Rightarrow> (error, TransferTokenPayload SignedEnvelope) outcome" where
  "convertTransferTokenEnvelope req = convert_envelope req (\<lambda>p.
     \<lparr>ttp_From = get_str pbtt_from p,
      ttp_To = get_str pbtt_to p,
      ttp_TokenID = get_str pbtt_token_id p,
      ttp_Nonce = get_word pbtt_nonce p\<rparr>)"

record pb_AuthorizeTokenTransfer =
  pba_account_id :: string
  pba_token_id :: string
  pba_token_owner_id :: string
  pba_nonce :: int64

definition convertAuthorizeTokenTransferEnvelope ::
    "pb_AuthorizeTokenTransfer pb_request \<Rightarrow> (error, AuthorizeTokenTransferPayload SignedEnvelope) outcome" where
  "convertAuthorizeTokenTransferEnvelope req = convert_envelope req (\<lambda>p.
     \<lparr>atp_AccountID = get_str pba_account_id p,
      atp_TokenID = get_str pba_token_id p,
      atp_TokenOwnerID = get_str pba_token_owner_id p,
      atp_Nonce = get_word pba_nonce p\<rparr>)"

record pb_UnauthorizeTokenTransfer =
  pbu_account_id :: string
  pbu_token_id :: string
  pbu_token_owner_id :: string
  pbu_nonce :: int64

definition convertUnauthorizeTokenTransferEnvelope ::
    "pb_UnauthorizeTokenTransfer pb_request \<Rightarrow> (error, UnauthorizeTokenTransferPayload SignedEnvelope) outcome" where
  "convertUnauthorizeTokenTransferEnvelope req = convert_envelope req (\<lambda>p.
     \<lparr>utp_AccountID = get_str pbu_account_id p,
      utp_TokenID = get_str pbu_token_id p,
      utp_TokenOwnerID = get_str pbu_token_owner_id p,
      utp_Nonce = get_word pbu_nonce p\<rparr>)"

record pb_BurnToken =
  pbb_account_id :: string
  pbb_token_id :: string
  pbb_nonce :: int64

definition convertBurnTokenEnvelope ::
    "pb_BurnToken pb_request \<Rightarrow> (error, BurnTokenPayload SignedEnvelope) outcome" where
  "convertBurnTokenEnvelope req = convert_envelope req (\<lambda>p.
     \<lparr>btp_AccountID = get_str pbb_account_id p,
      btp_TokenID = get_str pbb_token_id p,
      btp_Nonce = get_word pbb_nonce p\<rparr>)"

record pb_ClawbackToken =
  pbc_from :: string
  pbc_to :: string
  pbc_token_id :: string
  pbc_nonce :: int64

definition convertClawbackTokenEnvelope ::
    "pb_ClawbackToken pb_request \<Rightarrow> (error, ClawbackTokenPayload SignedEnvelope) outcome" where
  "convertClawbackTokenEnvelope req = convert_envelope req (\<lambda>p.
     \<lparr>ctp_From = get_str pbc_from p,
      ctp_To = get_str pbc_to p,
      ctp_TokenID = get_str pbc_token_id p,
      ctp_Nonce = get_word pbc_nonce p\<rparr>)"

record pb_FreezeToken =
  pbf_freeze_authority :: string
  pbf_token_holder :: string
  pbf_token_id :: string
  pbf_nonce :: int64

definition convertFreezeTokenEnvelope ::
    "pb_FreezeToken pb_request \<Rightarrow> (error, FreezeTokenPayload SignedEnvelope) outcome" where
  "convertFreezeTokenEnvelope req = convert_envelope req (\<lambda>p.
     \<lparr>fzp_FreezeAuthority = get_str pbf_freeze_authority p,
      fzp_TokenHolder = get_str pbf_token_holder p,
      fzp_TokenID = get_str pbf_token_id p,
      fzp_Nonce = get_word pbf_nonce p\<rparr>)"

record pb_UnfreezeToken =
  pbuf_freeze_authority :: string
  pbuf_token_holder :: string
  pbuf_token_id :: string
  pbuf_nonce :: int64

definition convertUnfreezeTokenEnvelope ::
    "pb_UnfreezeToken pb_request \<Rightarrow> (error, UnfreezeTokenPayload SignedEnvelope) outcome" where
  "convertUnfreezeTokenEnvelope req = convert_envelope req (\<lambda>p.
     \<lparr>ufp_FreezeAuthority = get_str pbuf_freeze_authority p,
      ufp_TokenHolder = get_str pbuf_token_holder p,
      ufp_TokenID = get_str pbuf_token_id p,
      ufp_Nonce = get_word pbuf_nonce p\<rparr>)"

text \<open>An empty address stands for none.\<close>

record pb_MintToken =
  pbm_token_value :: string
  pbm_clawback_address :: string
  pbm_freeze_address :: string
  pbm_nonce :: int64

definition optional_address :: "string \<Rightarrow> string option" where
  "optional_address v = (if v \<noteq> [] then Some v else None)"

definition convertMintTokenEnvelope ::
    "pb_MintToken pb_request \<Rightarrow> (error, MintTokenPayload SignedEnvelope) outcome" where
  "convertMintTokenEnvelope req = convert_envelope req (\<lambda>p.
     \<lparr>mtp_TokenValue = get_str pbm_token_value p,
      mtp_ClawbackAddress = optional_address (get_str pbm_clawback_address p),
      mtp_FreezeAddress = optional_address (get_str pbm_freeze_address p),
      mtp_Nonce = get_word pbm_nonce p\<rparr>)"

record pb_GetAccount =
  pbg_account_id :: string

definition convertGetAccountEnvelope ::
    "pb_GetAccount pb_request \<Rightarrow> (error, GetAccountPayload SignedEnvelope) outcome" where
  "convertGetAccountEnvelope req = convert_envelope req (\<lambda>p.
     \<lparr>gap_AccountID = get_str pbg_account_id p\<rparr>)"

text \<open>
  \<^verbatim>\<open>et.String()\<close> on the event types of \<^verbatim>\<open>event.proto\<close>; a number outside the enumeration, which
  prints as that number, is left out.
\<close>

fun EventType_String :: "EventType \<Rightarrow> string" where
  "EventType_String EVENT_TYPE_UNSPECIFIED = ''EVENT_TYPE_UNSPECIFIED''"
| "EventType_String EVENT_TYPE_TRANSFER = ''EVENT_TYPE_TRANSFER''"
| "EventType_String EVENT_TYPE_MINT = ''EVENT_TYPE_MINT''"
| "EventType_String EVENT_TYPE_BURN = ''EVENT_TYPE_BURN''"
| "EventType_String EVENT_TYPE_MINT_TOKEN = ''EVENT_TYPE_MINT_TOKEN''"
| "EventType_String EVENT_TYPE_BURN_TOKEN = ''EVENT_TYPE_BURN_TOKEN''"
| "EventType_String EVENT_TYPE_TRANSFER_TOKEN = ''EVENT_TYPE_TRANSFER_TOKEN''"
| "EventType_String EVENT_TYPE_AUTHORIZE_TOKEN_TRANSFER = ''EVENT_TYPE_AUTHORIZE_TOKEN_TRANSFER''"
| "EventType_String EVENT_TYPE_UNAUTHORIZE_TOKEN_TRANSFER = ''EVENT_TYPE_UNAUTHORIZE_TOKEN_TRANSFER''"
| "EventType_String EVENT_TYPE_CLAWBACK_TOKEN = ''EVENT_TYPE_CLAWBACK_TOKEN''"
| "EventType_String EVENT_TYPE_FREEZE_TOKEN = ''EVENT_TYPE_FREEZE_TOKEN''"
| "EventType_String EVENT_TYPE_UNFREEZE_TOKEN = ''EVENT_TYPE_UNFREEZE_TOKEN''"

record pb_Subscribe =
  pbsub_account_id :: string
  pbsub_event_types :: "EventType list"

definition convertSubscribeEnvelope ::
    "pb_Subscribe pb_request \<Rightarrow> (error, SubscribePayload SignedEnvelope) outcome" where
  "convertSubscribeEnvelope req = convert_envelope req (\<lambda>p.
     \<lparr>sp_AccountID = get_str pbsub_account_id p,
      sp_EventTypes = map EventType_String (get_list pbsub_event_types p)\<rparr>)"

lemmas convert_defs = convertTransferEnvelope_def convertLookupTokenEnvelope_def
  convertTransferTokenEnvelope_def convertAuthorizeTokenTransferEnvelope_def
  convertUnauthorizeTokenTransferEnvelope_def convertBurnTokenEnvelope_def
  convertClawbackTokenEnvelope_def convertFreezeTokenEnvelope_def convertUnfreezeTokenEnvelope_def
  convertMintTokenEnvelope_def convertGetAccountEnvelope_def convertSubscribeEnvelope_def

lemmas getter_defs = get_str_def get_word_def get_f64_def get_list_def

lemma convertSignature_no_panic: "convertSignature sig \<noteq> Panic"
proof -
  have "DecodeString64 al v \<noteq> Panic" for al v
    by (simp add: DecodeString64_def decode_quanta_no_panic)
  then show ?thesis
    by (cases "DecodeString64 StdEncoding (get_str pbs_value sig)";
        cases "DecodeString64 URLEncoding (get_str pbs_value sig)") (auto simp: convertSignature_def Let_def)
qed

lemma convert_no_panic: "convert_envelope req f \<noteq> Panic"
  using convertSignature_no_panic by (cases "convertSignature (Option.bind req pb_signature)") (auto simp: convert_envelope_def)

text \<open>A value in either alphabet is decoded to the bytes it was made from.\<close>

lemma signature_value_decoded:
  assumes "get_str pbs_value sig = EncodeToString64 al bs" "al = StdEncoding \<or> al = URLEncoding"
  shows "convertSignature sig =
    Ok \<lparr>sig_Algorithm = get_str pbs_algorithm sig, sig_Value = bs,
        SignerID = get_str pbs_signer_id sig, sig_Timestamp = get_word pbs_timestamp sig\<rparr>"
proof (cases "DecodeString64 StdEncoding (EncodeToString64 al bs)")
  case (Ok bs')
  then have "bs' = bs"
    using assms(2) std_never_misreads_url DecodeString64_Encode [OF alphabets_ok(1), of bs] by auto
  then show ?thesis by (simp add: convertSignature_def assms(1) Ok)
next
  case (Err e)
  then have "al = URLEncoding" using assms(2) DecodeString64_Encode [OF alphabets_ok(1), of bs] by auto
  then show ?thesis
    by (simp add: convertSignature_def assms(1) Err [unfolded \<open>al = URLEncoding\<close>] DecodeString64_Encode alphabets_ok)
next
  case Panic
  then show ?thesis by (simp add: DecodeString64_def decode_quanta_no_panic)
qed

end
