(* ===== verification/Connect.thy ===== *)
theory Connect
  imports Converters
begin

text \<open>
  \<^verbatim>\<open>internal/transport/connect/connect.go\<close>: the handlers of the Connect services and the event
  subscriptions.  The schema validator in front of them is third-party; it is the argument
  \<open>validate\<close>, which gives the error it reports, if any.
\<close>

section \<open>Unary calls\<close>

datatype rpc_code = CodeInvalidArgument | CodeUnauthenticated | CodeAlreadyExists | CodeInternal

text \<open>
  A call ends with a response whose \<^verbatim>\<open>Success\<close> is set, with one that carries an error message,
  with an error of the protocol, or not at all because the server's goroutine has panicked.
\<close>

datatype 's rpc = Reply 's | ReplyFailure error | Fault rpc_code error | Died

type_synonym 's rpc_call = "'s rpc \<times> App \<times> published list"

text \<open>
  The interceptor validates the message, the handler converts the envelope (a failure is an
  invalid argument) and calls the client, whose error becomes the error message of the response.
\<close>

definition unary ::
    "('q \<Rightarrow> error option) \<Rightarrow> ('q \<Rightarrow> (error, 'e) outcome) \<Rightarrow> ('e \<Rightarrow> App \<Rightarrow> 'r client_call) \<Rightarrow>
     ('e \<Rightarrow> 'r \<Rightarrow> 's) \<Rightarrow> 'q \<Rightarrow> App \<Rightarrow> 's rpc_call" where
  "unary validate convert client_op reply req app =
     (case validate req of
        Some e \<Rightarrow> (Fault CodeInvalidArgument e, app, [])
      | None \<Rightarrow>
        (case convert req of
           Panic \<Rightarrow> (Died, app, [])
         | Err e \<Rightarrow> (Fault CodeInvalidArgument e, app, [])
         | Ok envelope \<Rightarrow>
           (case client_op envelope app of
              (Panic, app', msgs) \<Rightarrow> (Died, app', msgs)
            | (Err e, app', msgs) \<Rightarrow> (ReplyFailure e, app', msgs)
            | (Ok r, app', msgs) \<Rightarrow> (Reply (reply envelope r), app', msgs))))"

definition connect_Transfer :: "(pb_Transfer pb_request \<Rightarrow> error option) \<Rightarrow> channel \<Rightarrow> pb_Transfer pb_request \<Rightarrow> App \<Rightarrow> unit rpc_call" where
  "connect_Transfer validate ch = unary validate convertTransferEnvelope (TransferSigned ch) (\<lambda>_ _. ())"

definition connect_MintToken :: "(pb_MintToken pb_request \<Rightarrow> error option) \<Rightarrow> channel \<Rightarrow> pb_MintToken pb_request \<Rightarrow> App \<Rightarrow> unit rpc_call" where
  "connect_MintToken validate ch = unary validate convertMintTokenEnvelope (MintTokenSigned ch) (\<lambda>_ _. ())"

definition connect_TransferToken :: "(pb_TransferToken pb_request \<Rightarrow> error option) \<Rightarrow> channel \<Rightarrow> pb_TransferToken pb_request \<Rightarrow> App \<Rightarrow> unit rpc_call" where
  "connect_TransferToken validate ch = unary validate convertTransferTokenEnvelope (TransferTokenSigned ch) (\<lambda>_ _. ())"

definition connect_AuthorizeTokenTransfer :: "(pb_AuthorizeTokenTransfer pb_request \<Rightarrow> error option) \<Rightarrow> channel \<Rightarrow> pb_AuthorizeTokenTransfer pb_request \<Rightarrow> App \<Rightarrow> unit rpc_call" where
  "connect_AuthorizeTokenTransfer validate ch = unary validate convertAuthorizeTokenTransferEnvelope (AuthorizeTokenTransferSigned ch) (\<lambda>_ _. ())"

definition connect_UnauthorizeTokenTransfer :: "(pb_UnauthorizeTokenTransfer pb_request \<Rightarrow> error option) \<Rightarrow> channel \<Rightarrow> pb_UnauthorizeTokenTransfer pb_request \<Rightarrow> App \<Rightarrow> unit rpc_call" where
  "connect_UnauthorizeTokenTransfer validate ch = unary validate convertUnauthorizeTokenTransferEnvelope (UnauthorizeTokenTransferSigned ch) (\<lambda>_ _. ())"

definition connect_BurnToken :: "(pb_BurnToken pb_request \<Rightarrow> error option) \<Rightarrow> channel \<Rightarrow> pb_BurnToken pb_request \<Rightarrow> App \<Rightarrow> unit rpc_call" where
  "connect_BurnToken validate ch = unary validate convertBurnTokenEnvelope (BurnTokenSigned ch) (\<lambda>_ _. ())"

definition connect_ClawbackToken :: "(pb_ClawbackToken pb_request \<Rightarrow> error option) \<Rightarrow> channel \<Rightarrow> pb_ClawbackToken pb_request \<Rightarrow> App \<Rightarrow> unit rpc_call" where
  "connect_ClawbackToken validate ch = unary validate convertClawbackTokenEnvelope (ClawbackTokenSigned ch) (\<lambda>_ _. ())"

definition connect_FreezeToken :: "(pb_FreezeToken pb_request \<Rightarrow> error option) \<Rightarrow> channel \<Rightarrow> pb_FreezeToken pb_request \<Rightarrow> App \<Rightarrow> unit rpc_call" where
  "connect_FreezeToken validate ch = unary validate convertFreezeTokenEnvelope (FreezeTokenSigned ch) (\<lambda>_ _. ())"

definition connect_UnfreezeToken :: "(pb_UnfreezeToken pb_request \<Rightarrow> error option) \<Rightarrow> channel \<Rightarrow> pb_UnfreezeToken pb_request \<Rightarrow> App \<Rightarrow> unit rpc_call" where
  "connect_UnfreezeToken validate ch = unary validate convertUnfreezeTokenEnvelope (UnfreezeTokenSigned ch) (\<lambda>_ _. ())"

text \<open>The token of a lookup; its owner is the account that asked.\<close>

record pb_Token =
  pbtok_token_id :: string
  pbtok_token_value :: string
  pbtok_owner :: string
  pbtok_clawback_address :: string

definition lookup_reply :: "LookupTokenPayload SignedEnvelope \<Rightarrow> Token option \<Rightarrow> pb_Token option" where
  "lookup_reply envelope tok =
     map_option (\<lambda>t. \<lparr>pbtok_token_id = token_ID t, pbtok_token_value = tok_value t,
        pbtok_owner = ltp_AccountID (Payload envelope),
        pbtok_clawback_address = (case clawbackAddress t of None \<Rightarrow> [] | Some i \<Rightarrow> id_String i)\<rparr>) tok"

definition connect_LookupToken ::
    "(pb_LookupToken pb_request \<Rightarrow> error option) \<Rightarrow> channel \<Rightarrow> pb_LookupToken pb_request \<Rightarrow> App \<Rightarrow>
     (pb_Token option) rpc_call" where
  "connect_LookupToken validate ch =
     unary validate convertLookupTokenEnvelope (LookupTokenSigned ch) lookup_reply"

text \<open>The balance, the minimum balance and the nonce of the account.\<close>

definition connect_GetAccount ::
    "(pb_GetAccount pb_request \<Rightarrow> error option) \<Rightarrow> channel \<Rightarrow> pb_GetAccount pb_request \<Rightarrow> App \<Rightarrow>
     (float64 \<times> float64 \<times> uint64) rpc_call" where
  "connect_GetAccount validate ch =
     unary validate
       (\<lambda>req. obind (convertGetAccountEnvelope req) (\<lambda>env.
                obind (parse_id (gap_AccountID (Payload env))) (\<lambda>i. Ok (i, env))))
       (\<lambda>(i, env). client_GetAccount ch i (Some env))
       (\<lambda>_ acc. (balance acc, mbr acc, GetNonce acc))"

section \<open>Administration\<close>

record pb_AdminCreateAccount =
  pbac_initial_balance :: float64

record pb_AdminMint =
  pbam_account_id :: string
  pbam_amount :: float64

definition connect_AdminCreateAccount ::
    "(pb_AdminCreateAccount \<Rightarrow> error option) \<Rightarrow> channel \<Rightarrow> pb_AdminCreateAccount \<Rightarrow> App \<Rightarrow>
     (string \<times> Certificate) rpc_call" where
  "connect_AdminCreateAccount validate ch =
     unary validate (\<lambda>req. Ok (pbac_initial_balance req)) (AdminCreateAccount ch)
       (\<lambda>_ (acc, cert). (id_String (acc_id acc), cert))"

definition connect_AdminMint ::
    "(pb_AdminMint \<Rightarrow> error option) \<Rightarrow> channel \<Rightarrow> pb_AdminMint \<Rightarrow> App \<Rightarrow> unit rpc_call" where
  "connect_AdminMint validate ch =
     unary validate
       (\<lambda>req. obind (parse_id (pbam_account_id req)) (\<lambda>i. Ok (i, pbam_amount req)))
       (\<lambda>(i, amount). AdminMint ch i amount) (\<lambda>_ _. ())"

section \<open>Event subscriptions\<close>

text \<open>
  \<^verbatim>\<open>activeSubscriptions\<close> with, beside it, the streams that are open: whose they are, the event
  types they admit and what has been sent on them.
\<close>

record subscription =
  sub_id :: string
  sub_filter :: "string list"
  sub_events :: "Event list"

record subscriptions =
  activeSubscriptions :: "string set"
  streams :: "subscription list"

text \<open>
  The part of \<^verbatim>\<open>Subscribe\<close> up to the loop; \<open>broker\<close> is the error of the message broker, if any.
  When it fails the deferred function removes the entry again.
\<close>

definition subscribe_open ::
    "(pb_Subscribe pb_request \<Rightarrow> error option) \<Rightarrow> (byte list \<Rightarrow> ScalegraphId) \<Rightarrow> marshaller \<Rightarrow> verify_method \<Rightarrow>
     byte list \<Rightarrow> error option \<Rightarrow> pb_Subscribe pb_request \<Rightarrow> subscriptions \<Rightarrow>
     (rpc_code \<times> error, unit, subscriptions) call" where
  "subscribe_open validate sha1 marshal verify ca broker req s =
     (case validate req of
        Some e \<Rightarrow> (Err (CodeInvalidArgument, e), s)
      | None \<Rightarrow>
        (case convertSubscribeEnvelope req of
           Panic \<Rightarrow> (Panic, s)
         | Err e \<Rightarrow> (Err (CodeInvalidArgument, e), s)
         | Ok envelope \<Rightarrow>
           (let subscriberID = sp_AccountID (Payload envelope) in
            case ScalegraphIdFromString subscriberID of
              Panic \<Rightarrow> (Panic, s)
            | Err e \<Rightarrow> (Err (CodeInvalidArgument, Failed ''invalid account ID'' (IdError e)), s)
            | Ok accountID \<Rightarrow>
              (case SubscribeEventsRequest_Verify sha1 marshal verify ca
                      \<lparr>se_AccountID = accountID, se_EventTypes = sp_EventTypes (Payload envelope),
                       se_SignedEnvelope = Some envelope\<rparr> of
                 Panic \<Rightarrow> (Panic, s)
               | Err e \<Rightarrow> (Err (CodeUnauthenticated, Failed ''signature verification failed'' e), s)
               | Ok _ \<Rightarrow>
                 if subscriberID \<in> activeSubscriptions s
                 then (Err (CodeAlreadyExists, SubscriptionAlreadyActive), s)
                 else (case broker of
                         Some e \<Rightarrow> (Err (CodeInternal, e),
                           s\<lparr>activeSubscriptions := insert subscriberID (activeSubscriptions s) - {subscriberID}\<rparr>)
                       | None \<Rightarrow> (Ok (), s\<lparr>activeSubscriptions := insert subscriberID (activeSubscriptions s),
                           streams := streams s @
                             [\<lparr>sub_id = subscriberID,
                               sub_filter = map EventType_String (get_list pbsub_event_types (Option.bind req pb_payload)),
                               sub_events = []\<rparr>]\<rparr>))))))"

text \<open>
  One message of the loop: dropped when its type is filtered out or its payload does not parse,
  sent otherwise.
\<close>

definition stream_message :: "(byte list \<Rightarrow> Event option) \<Rightarrow> published \<Rightarrow> subscription \<Rightarrow> subscription" where
  "stream_message unmarshal msg st =
     (if sub_filter st \<noteq> [] \<and> EventType_String (pub_eventType msg) \<notin> set (sub_filter st) then st
      else case unmarshal (pub_payload msg) of
             None \<Rightarrow> st
           | Some event \<Rightarrow> st\<lparr>sub_events := sub_events st @ [event]\<rparr>)"

text \<open>A stream reads the topic of its subscriber from the broker of the virtual app \<open>vapp\<close>.\<close>

definition stream_messages ::
    "(byte list \<Rightarrow> Event option) \<Rightarrow> ScalegraphId \<Rightarrow> published list \<Rightarrow> subscription \<Rightarrow> subscription" where
  "stream_messages unmarshal vapp msgs st =
     fold (stream_message unmarshal)
       (filter (\<lambda>msg. pub_vapp msg = vapp \<and> pub_topic msg = ''events.'' @ sub_id st) msgs) st"

text \<open>When the handler returns, the stream is gone and the entry is removed.\<close>

definition stream_end :: "nat \<Rightarrow> subscriptions \<Rightarrow> subscriptions" where
  "stream_end k s =
     (if k < length (streams s)
      then s\<lparr>activeSubscriptions := activeSubscriptions s - {sub_id (streams s ! k)},
             streams := take k (streams s) @ drop (Suc k) (streams s)\<rparr>
      else s)"

end
