(* ===== verification/Subscriptions.thy ===== *)
theory Subscriptions
  imports Connect
begin

text \<open>
  The life of the event subscriptions of one Connect transport: clients subscribe, the server
  publishes, streams end.
\<close>

section \<open>Steps\<close>

text \<open>
  \<open>s\<close> is the server that publishes, \<open>vapp\<close> the virtual app whose broker the transport reads, and
  \<open>unmarshal\<close> the protobuf decoder.  A request to subscribe may meet any state of the verifier,
  the validator and the broker.
\<close>

inductive sub_step ::
    "Server \<Rightarrow> (byte list \<Rightarrow> Event option) \<Rightarrow> ScalegraphId \<Rightarrow> subscriptions \<Rightarrow> subscriptions \<Rightarrow> bool"
  for s unmarshal vapp where
  Open: "subscribe_open validate sha1 marshal verify ca broker req st = (r, st') \<Longrightarrow>
     sub_step s unmarshal vapp st st'"
| Publish: "publishEvent s inp req resp = Ok msgs \<Longrightarrow>
     sub_step s unmarshal vapp st (st\<lparr>streams := map (stream_messages unmarshal vapp msgs) (streams st)\<rparr>)"
| Close: "sub_step s unmarshal vapp st (stream_end k st)"

inductive_cases sub_stepE: "sub_step s unmarshal vapp st st'"

definition no_subscriptions :: subscriptions where
  "no_subscriptions = \<lparr>activeSubscriptions = {}, streams = []\<rparr>"

text \<open>What the subscriber of a stream may see: events it takes part in, of the types it asked for.\<close>

definition admits :: "subscription \<Rightarrow> Event \<Rightarrow> bool" where
  "admits st e \<longleftrightarrow>
     sub_id st \<in> set (eventInvolvedAccounts e) \<and>
     (sub_filter st = [] \<or> EventType_String (ev_Type e) \<in> set (sub_filter st))"

definition subs_ok :: "subscriptions \<Rightarrow> bool" where
  "subs_ok st \<longleftrightarrow>
     distinct (map sub_id (streams st)) \<and> activeSubscriptions st = set (map sub_id (streams st)) \<and>
     (\<forall>x\<in>set (streams st). set (sub_events x) \<subseteq> Collect (admits x))"

lemma no_subscriptions_ok: "subs_ok no_subscriptions"
  by (simp add: subs_ok_def no_subscriptions_def)

section \<open>Each step keeps the invariant\<close>

lemma open_ok:
  assumes "subscribe_open validate sha1 marshal verify ca broker req st = (r, st')" "subs_ok st"
  shows "subs_ok st'"
proof -
  have "st' = st \<or> (\<exists>i flt. i \<notin> activeSubscriptions st \<and>
      (st' = st\<lparr>activeSubscriptions := insert i (activeSubscriptions st) - {i}\<rparr> \<or>
       st' = st\<lparr>activeSubscriptions := insert i (activeSubscriptions st),
         streams := streams st @ [\<lparr>sub_id = i, sub_filter = flt, sub_events = []\<rparr>]\<rparr>))"
    using assms(1)
    by (auto simp: subscribe_open_def Let_def split: option.splits outcome.splits if_splits)
  then show ?thesis using assms(2) by (auto simp: subs_ok_def)
qed

lemma stream_message_frame [simp]:
  "sub_id (stream_message u msg st) = sub_id st" "sub_filter (stream_message u msg st) = sub_filter st"
  by (simp_all add: stream_message_def split: option.split)

lemma stream_fold_frame [simp]:
  "sub_id (fold (stream_message u) msgs st) = sub_id st"
  "sub_filter (fold (stream_message u) msgs st) = sub_filter st"
  by (induction msgs arbitrary: st) simp_all

lemma stream_messages_frame [simp]:
  "sub_id (stream_messages u v msgs st) = sub_id st"
  "sub_filter (stream_messages u v msgs st) = sub_filter st"
  by (simp_all add: stream_messages_def)

text \<open>What is published carries the event's own type and goes to the topics of its participants.\<close>

lemma published_message:
  assumes "publishEvent s inp req resp = Ok msgs" "msg \<in> set msgs"
  obtains event acc where "srv_proto s event = Some (pub_payload msg)" "pub_eventType msg = ev_Type event"
    "acc \<in> set (eventInvolvedAccounts event)" "pub_topic msg = topic_prefix @ acc"
  using assms by (auto simp: publishEvent_def Let_def split: outcome.splits option.splits)

lemma stream_fold_events:
  assumes "\<And>msg. msg \<in> set msgs \<Longrightarrow> \<exists>e. unmarshal (pub_payload msg) = Some e \<and>
      sub_id st \<in> set (eventInvolvedAccounts e) \<and> pub_eventType msg = ev_Type e"
    and "set (sub_events st) \<subseteq> Collect (admits st)"
  shows "set (sub_events (fold (stream_message unmarshal) msgs st)) \<subseteq> Collect (admits st)"
  using assms
proof (induction msgs arbitrary: st)
  case (Cons msg msgs)
  let ?st = "stream_message unmarshal msg st"
  have adm: "admits ?st = admits st" by (intro ext) (simp add: admits_def)
  obtain e where "unmarshal (pub_payload msg) = Some e" "sub_id st \<in> set (eventInvolvedAccounts e)"
    "pub_eventType msg = ev_Type e" using Cons.prems(1) [of msg] by auto
  then have "set (sub_events ?st) \<subseteq> Collect (admits ?st)"
    unfolding adm using Cons.prems(2) by (auto simp: stream_message_def admits_def split: if_splits)
  then have "set (sub_events (fold (stream_message unmarshal) msgs ?st)) \<subseteq> Collect (admits ?st)"
    using Cons.prems(1) by (intro Cons.IH) simp_all
  then show ?case by (simp only: adm fold_simps)
qed simp

lemma publish_ok:
  assumes "publishEvent s inp req resp = Ok msgs" "subs_ok st"
    and wire: "\<And>e p. srv_proto s e = Some p \<Longrightarrow> unmarshal p = Some e"
  shows "subs_ok (st\<lparr>streams := map (stream_messages unmarshal vapp msgs) (streams st)\<rparr>)"
proof -
  have "set (sub_events (stream_messages unmarshal vapp msgs x)) \<subseteq> Collect (admits x)"
    if "x \<in> set (streams st)" for x
    unfolding stream_messages_def
  proof (rule stream_fold_events)
    fix msg
    assume "msg \<in> set (filter (\<lambda>msg. pub_vapp msg = vapp \<and> pub_topic msg = ''events.'' @ sub_id x) msgs)"
    then have m: "msg \<in> set msgs" "pub_topic msg = ''events.'' @ sub_id x" by auto
    show "\<exists>e. unmarshal (pub_payload msg) = Some e \<and> sub_id x \<in> set (eventInvolvedAccounts e) \<and>
        pub_eventType msg = ev_Type e"
      by (rule published_message [OF assms(1) m(1)]) (use m(2) wire in \<open>auto simp: topic_prefix_def\<close>)
  qed (use assms(2) that in \<open>simp add: subs_ok_def\<close>)
  moreover have "admits (stream_messages unmarshal vapp msgs x) = admits x" for x
    by (intro ext) (simp add: admits_def)
  ultimately show ?thesis using assms(2) by (simp add: subs_ok_def comp_def)
qed

lemma end_ok: "subs_ok st \<Longrightarrow> subs_ok (stream_end k st)"
proof (cases "k < length (streams st)")
  case True
  assume ok: "subs_ok st"
  define xs x ys where parts: "xs = take k (streams st)" "x = streams st ! k" "ys = drop (Suc k) (streams st)"
  have "streams st = xs @ x # ys" unfolding parts using True by (rule id_take_nth_drop)
  moreover have "stream_end k st =
      st\<lparr>activeSubscriptions := activeSubscriptions st - {sub_id x}, streams := xs @ ys\<rparr>"
    using True by (simp add: stream_end_def parts)
  ultimately show ?thesis using ok by (auto simp: subs_ok_def)
qed (simp add: stream_end_def)

text \<open>
  Property C30.  On every transport, however clients subscribe, the server publishes and streams
  end: an account has at most one open stream, the table of active subscriptions holds exactly
  the accounts with an open stream (so that an account can subscribe again once its stream has
  ended), and every event sent on a stream is one its account takes part in and is of a type it
  asked for.
\<close>

theorem subscribers_see_their_events:
  assumes "\<And>e p. srv_proto s e = Some p \<Longrightarrow> unmarshal p = Some e"
    and "(sub_step s unmarshal vapp)\<^sup>*\<^sup>* no_subscriptions st"
  shows "distinct (map sub_id (streams st)) \<and> activeSubscriptions st = set (map sub_id (streams st)) \<and>
    (\<forall>x\<in>set (streams st). set (sub_events x) \<subseteq>
       {e. sub_id x \<in> set (eventInvolvedAccounts e) \<and>
           (sub_filter x = [] \<or> EventType_String (ev_Type e) \<in> set (sub_filter x))})"
proof -
  have "subs_ok st"
    using assms(2)
  proof (induction rule: rtranclp_induct)
    case (step y z)
    show ?case
      by (rule sub_stepE [OF step.hyps(2)])
        (use step.IH assms(1) in \<open>auto intro: open_ok publish_ok end_ok\<close>)
  qed (rule no_subscriptions_ok)
  moreover have "{e. sub_id x \<in> set (eventInvolvedAccounts e) \<and>
      (sub_filter x = [] \<or> EventType_String (ev_Type e) \<in> set (sub_filter x))} = Collect (admits x)" for x
    by (auto simp: admits_def)
  ultimately show ?thesis by (simp add: subs_ok_def)
qed

definition toy_event :: Event where
  "toy_event = BuildEvent 0 (transferEventInfo (id_String (test_id 1)) (id_String (test_id 2)) (dy 1073 6))"

definition toy_proto_server :: Server where
  "toy_proto_server = toy_server\<lparr>srv_proto := (\<lambda>e. if e = toy_event then Some [] else None)\<rparr>"

definition toy_subscribe :: "pb_Subscribe pb_request" where
  "toy_subscribe = Some \<lparr>pb_payload = Some \<lparr>pbsub_account_id = id_String (test_id 1), pbsub_event_types = []\<rparr>,
     pb_signature = Some \<lparr>pbs_algorithm = ''Ed25519'', pbs_value = [], pbs_signer_id = id_String (test_id 1),
       pbs_timestamp = 0\<rparr>, pb_certificate = []\<rparr>"

lemma toy_subscribe_opens:
  "subscribe_open (\<lambda>_. None) toy_sha1 (\<lambda>_. None) (\<lambda>_ _ _. Ok ()) [] None toy_subscribe no_subscriptions =
   (Ok (), \<lparr>activeSubscriptions = {id_String (test_id 1)},
      streams = [\<lparr>sub_id = id_String (test_id 1), sub_filter = [], sub_events = []\<rparr>]\<rparr>)"
  by (simp add: subscribe_open_def toy_subscribe_def convertSubscribeEnvelope_def convert_envelope_def
      convertSignature_def getter_defs DecodeString64_def SubscribeEventsRequest_Verify_def
      VerifyRequest_def no_subscriptions_def Let_def id_String_not_Nil)

theorem subscribers_see_their_events_witness:
  "\<exists>st. (sub_step toy_proto_server (\<lambda>p. if p = [] then Some toy_event else None) (test_id 9))\<^sup>*\<^sup>* no_subscriptions st \<and>
     streams st = [\<lparr>sub_id = id_String (test_id 1), sub_filter = [], sub_events = [toy_event]\<rparr>] \<and>
     activeSubscriptions st = {id_String (test_id 1)} \<and>
     id_String (test_id 1) \<in> set (eventInvolvedAccounts toy_event)"
proof -
  let ?u = "\<lambda>p :: byte list. if p = [] then Some toy_event else None"
  let ?step = "sub_step toy_proto_server ?u (test_id 9)"
  let ?st1 = "\<lparr>activeSubscriptions = {id_String (test_id 1)},
      streams = [\<lparr>sub_id = id_String (test_id 1), sub_filter = [], sub_events = []\<rparr>]\<rparr>"
  let ?msg = "\<lambda>i. \<lparr>pub_vapp = test_id 9, pub_topic = ''events.'' @ id_String (test_id i), pub_payload = [],
      pub_eventType = EVENT_TYPE_TRANSFER\<rparr>"
  have open1: "?step no_subscriptions ?st1" by (rule sub_step.Open [OF toy_subscribe_opens])
  have pub: "publishEvent toy_proto_server (toy_inputs 7) (ReqTransfer (toy_signed_transfer (dy 1073 6)))
      TransferResponse = Ok [?msg 1, ?msg 2]"
    by (simp add: publishEvent_def toy_proto_server_def toy_event_def eventInvolvedAccounts_def
        toy_inputs_def newVirtualApp_def topic_prefix_def concrete_simps)
  let ?st2 = "\<lparr>activeSubscriptions = {id_String (test_id 1)},
      streams = [\<lparr>sub_id = id_String (test_id 1), sub_filter = [], sub_events = [toy_event]\<rparr>]\<rparr>"
  have "?st1\<lparr>streams := map (stream_messages ?u (test_id 9) [?msg 1, ?msg 2]) (streams ?st1)\<rparr> = ?st2"
    by (simp add: stream_messages_def stream_message_def id_String_inject concrete_simps)
  then have "?step ?st1 ?st2" using sub_step.Publish [OF pub, of ?u "test_id 9" ?st1] by (simp only:)
  with open1 have steps: "?step\<^sup>*\<^sup>* no_subscriptions ?st2"
    by (meson converse_rtranclp_into_rtranclp r_into_rtranclp)
  have "?u p = Some e" if "srv_proto toy_proto_server e = Some p" for e p
    using that by (simp add: toy_proto_server_def split: if_splits)
  from subscribers_see_their_events [OF this steps]
  have "id_String (test_id 1) \<in> set (eventInvolvedAccounts toy_event)" by simp
  then show ?thesis using steps by (intro exI [of _ ?st2]) simp
qed

end
