(* ===== verification/Testclient.thy ===== *)
theory Testclient
  imports Connect
begin

text \<open>
  \<^verbatim>\<open>cmd/testclient/helper.go\<close>: how the test client signs requests and writes them as messages of
  the Connect transport.
\<close>

section \<open>Signing\<close>

record accountCreds =
  ac_id :: string
  ac_privKey :: "byte list"
  ac_pubKey :: "byte list"
  ac_certPEM :: string

text \<open>The Ed25519 signer, the clock \<^verbatim>\<open>Sign\<close> reads and the JSON encoder.\<close>

record sign_env =
  se_sign :: "byte list \<Rightarrow> byte list \<Rightarrow> byte list"
  se_now :: int64
  se_marshal :: marshaller

definition encodeRawSig :: "byte list \<Rightarrow> string" where
  "encodeRawSig raw = EncodeToString64 StdEncoding raw"

definition tokenIDFromRawSig :: "byte list \<Rightarrow> string" where
  "tokenIDFromRawSig raw = EncodeToString raw"

definition toProtoSig :: "Signature \<Rightarrow> pb_Signature" where
  "toProtoSig sig =
     \<lparr>pbs_algorithm = sig_Algorithm sig, pbs_value = encodeRawSig (sig_Value sig),
      pbs_signer_id = SignerID sig, pbs_timestamp = sig_Timestamp sig\<rparr>"

text \<open>Each helper signs a payload and writes the same fields into the message.\<close>

definition sign_message ::
    "sign_env \<Rightarrow> accountCreds \<Rightarrow> ('p \<Rightarrow> byte list) \<Rightarrow> 'p \<Rightarrow> 'q \<Rightarrow> string \<Rightarrow> (error, 'q pb_request) outcome" where
  "sign_message se acc Bytes payload message pem =
     obind (Sign (se_sign se) (se_now se) (Bytes payload) (ac_privKey acc) (ac_id acc)) (\<lambda>sig.
       Ok (Some \<lparr>pb_payload = Some message, pb_signature = Some (toProtoSig sig),
                 pb_certificate = pem\<rparr>))"

definition signTransfer ::
    "sign_env \<Rightarrow> accountCreds \<Rightarrow> string \<Rightarrow> float64 \<Rightarrow> uint64 \<Rightarrow> int64 \<Rightarrow> (error, pb_Transfer pb_request) outcome" where
  "signTransfer se acc toID amount nonce ts =
     sign_message se acc (TransferPayload_Bytes (se_marshal se))
       \<lparr>tp_From = ac_id acc, tp_To = toID, tp_Amount = amount, tp_Nonce = nonce, tp_Timestamp = ts\<rparr>
       \<lparr>pbt_from = ac_id acc, pbt_to = toID, pbt_amount = amount, pbt_nonce = nonce, pbt_timestamp = ts\<rparr> (ac_certPEM acc)"

definition signGetAccount ::
    "sign_env \<Rightarrow> accountCreds \<Rightarrow> (error, pb_GetAccount pb_request) outcome" where
  "signGetAccount se acc =
     sign_message se acc (GetAccountPayload_Bytes (se_marshal se))
       \<lparr>gap_AccountID = ac_id acc\<rparr>
       \<lparr>pbg_account_id = ac_id acc\<rparr> (ac_certPEM acc)"

definition signLookupToken ::
    "sign_env \<Rightarrow> accountCreds \<Rightarrow> string \<Rightarrow> (error, pb_LookupToken pb_request) outcome" where
  "signLookupToken se acc tokenID =
     sign_message se acc (LookupTokenPayload_Bytes (se_marshal se))
       \<lparr>ltp_TokenID = tokenID, ltp_AccountID = ac_id acc\<rparr>
       \<lparr>pbl_token_id = tokenID, pbl_account_id = ac_id acc\<rparr> []"

definition signAuthorizeTokenTransfer ::
    "sign_env \<Rightarrow> accountCreds \<Rightarrow> string \<Rightarrow> string \<Rightarrow> uint64 \<Rightarrow> (error, pb_AuthorizeTokenTransfer pb_request) outcome" where
  "signAuthorizeTokenTransfer se acc tokenOwnerID tokenID nonce =
     sign_message se acc (AuthorizeTokenTransferPayload_Bytes (se_marshal se))
       \<lparr>atp_AccountID = ac_id acc, atp_TokenID = tokenID, atp_TokenOwnerID = tokenOwnerID, atp_Nonce = nonce\<rparr>
       \<lparr>pba_account_id = ac_id acc, pba_token_id = tokenID, pba_token_owner_id = tokenOwnerID, pba_nonce = nonce\<rparr> []"

definition signUnauthorizeTokenTransfer ::
    "sign_env \<Rightarrow> accountCreds \<Rightarrow> string \<Rightarrow> string \<Rightarrow> uint64 \<Rightarrow> (error, pb_UnauthorizeTokenTransfer pb_request) outcome" where
  "signUnauthorizeTokenTransfer se acc tokenOwnerID tokenID nonce =
     sign_message se acc (UnauthorizeTokenTransferPayload_Bytes (se_marshal se))
       \<lparr>utp_AccountID = ac_id acc, utp_TokenID = tokenID, utp_TokenOwnerID = tokenOwnerID, utp_Nonce = nonce\<rparr>
       \<lparr>pbu_account_id = ac_id acc, pbu_token_id = tokenID, pbu_token_owner_id = tokenOwnerID, pbu_nonce = nonce\<rparr> []"

definition signTransferToken ::
    "sign_env \<Rightarrow> accountCreds \<Rightarrow> string \<Rightarrow> string \<Rightarrow> uint64 \<Rightarrow> (error, pb_TransferToken pb_request) outcome" where
  "signTransferToken se acc toID tokenID nonce =
     sign_message se acc (TransferTokenPayload_Bytes (se_marshal se))
       \<lparr>ttp_From = ac_id acc, ttp_To = toID, ttp_TokenID = tokenID, ttp_Nonce = nonce\<rparr>
       \<lparr>pbtt_from = ac_id acc, pbtt_to = toID, pbtt_token_id = tokenID, pbtt_nonce = nonce\<rparr> []"

definition signBurnToken ::
    "sign_env \<Rightarrow> accountCreds \<Rightarrow> string \<Rightarrow> uint64 \<Rightarrow> (error, pb_BurnToken pb_request) outcome" where
  "signBurnToken se acc tokenID nonce =
     sign_message se acc (BurnTokenPayload_Bytes (se_marshal se))
       \<lparr>btp_AccountID = ac_id acc, btp_TokenID = tokenID, btp_Nonce = nonce\<rparr>
       \<lparr>pbb_account_id = ac_id acc, pbb_token_id = tokenID, pbb_nonce = nonce\<rparr> []"

definition signClawbackToken ::
    "sign_env \<Rightarrow> accountCreds \<Rightarrow> string \<Rightarrow> string \<Rightarrow> uint64 \<Rightarrow> (error, pb_ClawbackToken pb_request) outcome" where
  "signClawbackToken se acc fromID tokenID nonce =
     sign_message se acc (ClawbackTokenPayload_Bytes (se_marshal se))
       \<lparr>ctp_From = fromID, ctp_To = ac_id acc, ctp_TokenID = tokenID, ctp_Nonce = nonce\<rparr>
       \<lparr>pbc_from = fromID, pbc_to = ac_id acc, pbc_token_id = tokenID, pbc_nonce = nonce\<rparr> []"

definition signFreezeToken ::
    "sign_env \<Rightarrow> accountCreds \<Rightarrow> string \<Rightarrow> string \<Rightarrow> uint64 \<Rightarrow> (error, pb_FreezeToken pb_request) outcome" where
  "signFreezeToken se acc holderID tokenID nonce =
     sign_message se acc (FreezeTokenPayload_Bytes (se_marshal se))
       \<lparr>fzp_FreezeAuthority = ac_id acc, fzp_TokenHolder = holderID, fzp_TokenID = tokenID, fzp_Nonce = nonce\<rparr>
       \<lparr>pbf_freeze_authority = ac_id acc, pbf_token_holder = holderID, pbf_token_id = tokenID, pbf_nonce = nonce\<rparr> []"

definition signUnfreezeToken ::
    "sign_env \<Rightarrow> accountCreds \<Rightarrow> string \<Rightarrow> string \<Rightarrow> uint64 \<Rightarrow> (error, pb_UnfreezeToken pb_request) outcome" where
  "signUnfreezeToken se acc holderID tokenID nonce =
     sign_message se acc (UnfreezeTokenPayload_Bytes (se_marshal se))
       \<lparr>ufp_FreezeAuthority = ac_id acc, ufp_TokenHolder = holderID, ufp_TokenID = tokenID, ufp_Nonce = nonce\<rparr>
       \<lparr>pbuf_freeze_authority = ac_id acc, pbuf_token_holder = holderID, pbuf_token_id = tokenID, pbuf_nonce = nonce\<rparr> []"

text \<open>The mint uses one address for both authorities and returns the raw signature beside the request.\<close>

definition signMintToken ::
    "sign_env \<Rightarrow> accountCreds \<Rightarrow> string \<Rightarrow> string \<Rightarrow> int64 \<Rightarrow>
     (error, pb_MintToken pb_request \<times> byte list) outcome" where
  "signMintToken se owner tokenValue clawbackAddr nonce =
     (let cbPtr = (if clawbackAddr \<noteq> [] then Some clawbackAddr else None);
          payload = \<lparr>mtp_TokenValue = tokenValue, mtp_ClawbackAddress = cbPtr, mtp_FreezeAddress = cbPtr,
                     mtp_Nonce = nonce\<rparr>
      in obind (Sign (se_sign se) (se_now se) (MintTokenPayload_Bytes (se_marshal se) payload)
                 (ac_privKey owner) (ac_id owner)) (\<lambda>sig.
           Ok (Some \<lparr>pb_payload = Some \<lparr>pbm_token_value = tokenValue, pbm_clawback_address = clawbackAddr,
                        pbm_freeze_address = clawbackAddr, pbm_nonce = nonce\<rparr>,
                     pb_signature = Some (toProtoSig sig), pb_certificate = []\<rparr>, sig_Value sig)))"

definition signSubscribe ::
    "sign_env \<Rightarrow> accountCreds \<Rightarrow> EventType list \<Rightarrow> (error, pb_Subscribe pb_request) outcome" where
  "signSubscribe se acc eventTypes =
     sign_message se acc (SubscribePayload_Bytes (se_marshal se))
       \<lparr>sp_AccountID = ac_id acc, sp_EventTypes = map EventType_String eventTypes\<rparr>
       \<lparr>pbsub_account_id = ac_id acc, pbsub_event_types = eventTypes\<rparr> (ac_certPEM acc)"

section \<open>What arrives\<close>

lemmas sign_defs = signTransfer_def signGetAccount_def signLookupToken_def signAuthorizeTokenTransfer_def signUnauthorizeTokenTransfer_def signTransferToken_def signBurnToken_def signClawbackToken_def signFreezeToken_def signUnfreezeToken_def signSubscribe_def

text \<open>The envelope the client means to send: the payload with the signature of its bytes.\<close>

definition sign_payload ::
    "sign_env \<Rightarrow> accountCreds \<Rightarrow> ('p \<Rightarrow> byte list) \<Rightarrow> 'p \<Rightarrow> (error, 'p SignedEnvelope) outcome" where
  "sign_payload se acc Bytes payload =
     obind (Sign (se_sign se) (se_now se) (Bytes payload) (ac_privKey acc) (ac_id acc)) (\<lambda>sig.
       Ok \<lparr>Payload = payload, env_Signature = sig\<rparr>)"

lemma convert_toProtoSig: "convertSignature (Some (toProtoSig sig)) = Ok sig"
  using signature_value_decoded [of "Some (toProtoSig sig)" StdEncoding "sig_Value sig"]
  by (simp add: toProtoSig_def encodeRawSig_def getter_defs)

lemma message_arrives:
  assumes "f (Some message) = payload"
  shows "obind (sign_message se acc Bytes payload message pem) (\<lambda>req. convert_envelope req f) =
    sign_payload se acc Bytes payload"
  by (cases "Sign (se_sign se) (se_now se) (Bytes payload) (ac_privKey acc) (ac_id acc)")
    (simp_all add: sign_message_def sign_payload_def convert_envelope_def convert_toProtoSig assms)

text \<open>
  Property C33.  What the test client signs is what the server gets: for each of the twelve kinds
  of request the message, converted by the transport, is the envelope of the payload the client
  signed with the signature it made, and signing fails exactly when that envelope cannot be made.
\<close>

theorem signed_requests_arrive:
  "obind (signTransfer se acc toID amount nonce ts) convertTransferEnvelope =
       sign_payload se acc (TransferPayload_Bytes (se_marshal se)) \<lparr>tp_From = ac_id acc, tp_To = toID, tp_Amount = amount, tp_Nonce = nonce, tp_Timestamp = ts\<rparr> \<and>
    obind (signGetAccount se acc) convertGetAccountEnvelope =
       sign_payload se acc (GetAccountPayload_Bytes (se_marshal se)) \<lparr>gap_AccountID = ac_id acc\<rparr> \<and>
    obind (signLookupToken se acc tokenID) convertLookupTokenEnvelope =
       sign_payload se acc (LookupTokenPayload_Bytes (se_marshal se)) \<lparr>ltp_TokenID = tokenID, ltp_AccountID = ac_id acc\<rparr> \<and>
    obind (signAuthorizeTokenTransfer se acc tokenOwnerID tokenID nonce) convertAuthorizeTokenTransferEnvelope =
       sign_payload se acc (AuthorizeTokenTransferPayload_Bytes (se_marshal se)) \<lparr>atp_AccountID = ac_id acc, atp_TokenID = tokenID, atp_TokenOwnerID = tokenOwnerID, atp_Nonce = nonce\<rparr> \<and>
    obind (signUnauthorizeTokenTransfer se acc tokenOwnerID tokenID nonce) convertUnauthorizeTokenTransferEnvelope =
       sign_payload se acc (UnauthorizeTokenTransferPayload_Bytes (se_marshal se)) \<lparr>utp_AccountID = ac_id acc, utp_TokenID = tokenID, utp_TokenOwnerID = tokenOwnerID, utp_Nonce = nonce\<rparr> \<and>
    obind (signTransferToken se acc toID tokenID nonce) convertTransferTokenEnvelope =
       sign_payload se acc (TransferTokenPayload_Bytes (se_marshal se)) \<lparr>ttp_From = ac_id acc, ttp_To = toID, ttp_TokenID = tokenID, ttp_Nonce = nonce\<rparr> \<and>
    obind (signBurnToken se acc tokenID nonce) convertBurnTokenEnvelope =
       sign_payload se acc (BurnTokenPayload_Bytes (se_marshal se)) \<lparr>btp_AccountID = ac_id acc, btp_TokenID = tokenID, btp_Nonce = nonce\<rparr> \<and>
    obind (signClawbackToken se acc fromID tokenID nonce) convertClawbackTokenEnvelope =
       sign_payload se acc (ClawbackTokenPayload_Bytes (se_marshal se)) \<lparr>ctp_From = fromID, ctp_To = ac_id acc, ctp_TokenID = tokenID, ctp_Nonce = nonce\<rparr> \<and>
    obind (signFreezeToken se acc holderID tokenID nonce) convertFreezeTokenEnvelope =
       sign_payload se acc (FreezeTokenPayload_Bytes (se_marshal se)) \<lparr>fzp_FreezeAuthority = ac_id acc, fzp_TokenHolder = holderID, fzp_TokenID = tokenID, fzp_Nonce = nonce\<rparr> \<and>
    obind (signUnfreezeToken se acc holderID tokenID nonce) convertUnfreezeTokenEnvelope =
       sign_payload se acc (UnfreezeTokenPayload_Bytes (se_marshal se)) \<lparr>ufp_FreezeAuthority = ac_id acc, ufp_TokenHolder = holderID, ufp_TokenID = tokenID, ufp_Nonce = nonce\<rparr> \<and>
    obind (signMintToken se acc tokenValue addr mint_nonce) (\<lambda>(req, raw). convertMintTokenEnvelope req) =
       sign_payload se acc (MintTokenPayload_Bytes (se_marshal se))
         \<lparr>mtp_TokenValue = tokenValue, mtp_ClawbackAddress = optional_address addr,
          mtp_FreezeAddress = optional_address addr, mtp_Nonce = mint_nonce\<rparr> \<and>
    obind (signSubscribe se acc eventTypes) convertSubscribeEnvelope =
       sign_payload se acc (SubscribePayload_Bytes (se_marshal se))
         \<lparr>sp_AccountID = ac_id acc, sp_EventTypes = map EventType_String eventTypes\<rparr>"
proof -
  let ?p = "\<lparr>mtp_TokenValue = tokenValue, mtp_ClawbackAddress = optional_address addr,
     mtp_FreezeAddress = optional_address addr, mtp_Nonce = mint_nonce\<rparr>"
  have "obind (signMintToken se acc tokenValue addr mint_nonce) (\<lambda>(req, raw). convertMintTokenEnvelope req) =
     sign_payload se acc (MintTokenPayload_Bytes (se_marshal se)) ?p"
    by (cases "Sign (se_sign se) (se_now se) (MintTokenPayload_Bytes (se_marshal se) ?p) (ac_privKey acc) (ac_id acc)")
      (simp_all add: signMintToken_def sign_payload_def convertMintTokenEnvelope_def convert_envelope_def
        convert_toProtoSig getter_defs optional_address_def Let_def)
  then show ?thesis
    unfolding sign_defs convert_defs
    by (intro conjI message_arrives) (simp_all add: getter_defs)
qed

end
