(* ===== verification/Rest.thy ===== *)
theory Rest
  imports Testclient
begin

text \<open>
  \<^verbatim>\<open>internal/transport/rest/rest.go\<close>: the handlers of the REST transport.  The JSON decoder of the
  standard library turns a body into the request struct or fails; its result is the argument of
  a handler.  The recovering middleware, which is third-party, turns a panic of a handler into the
  status 500.  The route table is in \<open>Routes\<close>.
\<close>

section \<open>Requests and responses\<close>

text \<open>
  A decoded envelope: the payload is a pointer, nil when the field is absent.  A body is \<open>None\<close>
  when it does not decode, and its envelope is again a pointer.
\<close>

record 'p rest_envelope =
  re_payload :: "'p option"
  re_signature :: Signature

type_synonym 'p rest_body = "'p rest_envelope option option"

record rest_transaction =
  rt_type :: string
  rt_from :: string
  rt_to :: string
  rt_amount :: float64

datatype rest_response =
    HealthResponse string string
  | RestTransferResponse string
  | AccountResponse string float64 "rest_transaction list"
  | ErrorResponse string
  | ErrorText error
  | NoBody

datatype http = Http nat rest_response | ServerDied

type_synonym rest_call = "http \<times> App \<times> published list"

definition handleHealth :: "App \<Rightarrow> rest_call" where
  "handleHealth app = (Http 200 (HealthResponse ''ok'' ''rest''), app, [])"

section \<open>Signed operations\<close>

text \<open>
  The signed endpoints differ in the client call only.  Every client call reads the payload
  before it sends anything, so an absent payload ends in the recovered panic.
\<close>

definition signed_endpoint ::
    "('p SignedEnvelope \<Rightarrow> App \<Rightarrow> 'r client_call) \<Rightarrow> 'p rest_body \<Rightarrow> App \<Rightarrow> rest_call" where
  "signed_endpoint client_op body app =
     (case body of
        None \<Rightarrow> (Http 400 (ErrorResponse ''Invalid request body''), app, [])
      | Some None \<Rightarrow> (Http 400 (ErrorResponse ''Signed envelope required''), app, [])
      | Some (Some env) \<Rightarrow>
        (case re_payload env of
           None \<Rightarrow> (Http 500 NoBody, app, [])
         | Some p \<Rightarrow>
           (case client_op \<lparr>Payload = p, env_Signature = re_signature env\<rparr> app of
              (Panic, app', msgs) \<Rightarrow> (ServerDied, app', msgs)
            | (Err e, app', msgs) \<Rightarrow> (Http 400 (ErrorText e), app', msgs)
            | (Ok _, app', msgs) \<Rightarrow> (Http 200 (RestTransferResponse ''success''), app', msgs))))"

definition handleTransfer :: "channel \<Rightarrow> TransferPayload rest_body \<Rightarrow> App \<Rightarrow> rest_call" where
  "handleTransfer ch = signed_endpoint (TransferSigned ch)"

definition handleMintToken :: "channel \<Rightarrow> MintTokenPayload rest_body \<Rightarrow> App \<Rightarrow> rest_call" where
  "handleMintToken ch = signed_endpoint (MintTokenSigned ch)"

definition handleAuthorizeTokenTransfer :: "channel \<Rightarrow> AuthorizeTokenTransferPayload rest_body \<Rightarrow> App \<Rightarrow> rest_call" where
  "handleAuthorizeTokenTransfer ch = signed_endpoint (AuthorizeTokenTransferSigned ch)"

definition handleUnauthorizeTokenTransfer :: "channel \<Rightarrow> UnauthorizeTokenTransferPayload rest_body \<Rightarrow> App \<Rightarrow> rest_call" where
  "handleUnauthorizeTokenTransfer ch = signed_endpoint (UnauthorizeTokenTransferSigned ch)"

definition handleTransferToken :: "channel \<Rightarrow> TransferTokenPayload rest_body \<Rightarrow> App \<Rightarrow> rest_call" where
  "handleTransferToken ch = signed_endpoint (TransferTokenSigned ch)"

definition handleBurnToken :: "channel \<Rightarrow> BurnTokenPayload rest_body \<Rightarrow> App \<Rightarrow> rest_call" where
  "handleBurnToken ch = signed_endpoint (BurnTokenSigned ch)"

definition handleClawbackToken :: "channel \<Rightarrow> ClawbackTokenPayload rest_body \<Rightarrow> App \<Rightarrow> rest_call" where
  "handleClawbackToken ch = signed_endpoint (ClawbackTokenSigned ch)"

section \<open>One's own account\<close>

definition tx_amount :: "transaction \<Rightarrow> float64" where
  "tx_amount t =
     (case t of
        MintTransaction _ _ _ amount \<Rightarrow> amount
      | TransferTransaction _ _ _ amount \<Rightarrow> amount
      | BurnTransaction _ _ _ amount \<Rightarrow> amount
      | _ \<Rightarrow> f0)"

definition history_entry :: "transaction \<Rightarrow> rest_transaction" where
  "history_entry t =
     \<lparr>rt_type = TransactionType_String (tx_Type t),
      rt_from = (case tx_Sender t of None \<Rightarrow> ''genesis'' | Some i \<Rightarrow> id_String i),
      rt_to = (case tx_Receiver t of None \<Rightarrow> ''unknown'' | Some i \<Rightarrow> id_String i),
      rt_amount = tx_amount t\<rparr>"

definition handleGetMyAccount :: "channel \<Rightarrow> GetAccountPayload rest_body \<Rightarrow> App \<Rightarrow> rest_call" where
  "handleGetMyAccount ch body app =
     (case body of
        None \<Rightarrow> (Http 400 (ErrorResponse ''Invalid request body''), app, [])
      | Some None \<Rightarrow> (Http 400 (ErrorResponse ''Signed envelope required''), app, [])
      | Some (Some env) \<Rightarrow>
        (case re_payload env of
           None \<Rightarrow> (Http 500 NoBody, app, [])
         | Some p \<Rightarrow>
           (case ScalegraphIdFromString (gap_AccountID p) of
              Panic \<Rightarrow> (Http 500 NoBody, app, [])
            | Err e \<Rightarrow> (Http 400 (ErrorResponse ''Invalid account ID''), app, [])
            | Ok accountID \<Rightarrow>
              if SignerID (re_signature env) \<noteq> gap_AccountID p
              then (Http 403 (ErrorResponse ''Can only access your own account''), app, [])
              else (case client_GetAccount ch accountID
                           (Some \<lparr>Payload = p, env_Signature = re_signature env\<rparr>) app of
                      (Panic, app', msgs) \<Rightarrow> (ServerDied, app', msgs)
                    | (Err e, app', msgs) \<Rightarrow> (Http 404 (ErrorResponse ''Account not found''), app', msgs)
                    | (Ok acc, app', msgs) \<Rightarrow>
                      (Http 200 (AccountResponse (id_String (acc_id acc)) (balance acc)
                         (map history_entry (List.map_filter block_Transaction (GetBlocks (blockchain acc))))),
                       app', msgs)))))"

section \<open>The two transports\<close>

text \<open>
  The signed calls as Connect messages, and the envelope a message converts to.
\<close>

datatype pb_call =
    PbTransfer "pb_Transfer pb_request"
  | PbMintToken "pb_MintToken pb_request"
  | PbAuthorizeTokenTransfer "pb_AuthorizeTokenTransfer pb_request"
  | PbUnauthorizeTokenTransfer "pb_UnauthorizeTokenTransfer pb_request"
  | PbTransferToken "pb_TransferToken pb_request"
  | PbBurnToken "pb_BurnToken pb_request"
  | PbLookupToken "pb_LookupToken pb_request"
  | PbClawbackToken "pb_ClawbackToken pb_request"
  | PbFreezeToken "pb_FreezeToken pb_request"
  | PbUnfreezeToken "pb_UnfreezeToken pb_request"

fun converted :: "pb_call \<Rightarrow> (error, signed_call) outcome" where
  "converted (PbTransfer r) = obind (convertTransferEnvelope r) (\<lambda>e. Ok (CallTransfer e))"
| "converted (PbMintToken r) = obind (convertMintTokenEnvelope r) (\<lambda>e. Ok (CallMintToken e))"
| "converted (PbAuthorizeTokenTransfer r) = obind (convertAuthorizeTokenTransferEnvelope r) (\<lambda>e. Ok (CallAuthorize e))"
| "converted (PbUnauthorizeTokenTransfer r) = obind (convertUnauthorizeTokenTransferEnvelope r) (\<lambda>e. Ok (CallUnauthorize e))"
| "converted (PbTransferToken r) = obind (convertTransferTokenEnvelope r) (\<lambda>e. Ok (CallTransferToken e))"
| "converted (PbBurnToken r) = obind (convertBurnTokenEnvelope r) (\<lambda>e. Ok (CallBurnToken e))"
| "converted (PbLookupToken r) = obind (convertLookupTokenEnvelope r) (\<lambda>e. Ok (CallLookupToken e))"
| "converted (PbClawbackToken r) = obind (convertClawbackTokenEnvelope r) (\<lambda>e. Ok (CallClawback e))"
| "converted (PbFreezeToken r) = obind (convertFreezeTokenEnvelope r) (\<lambda>e. Ok (CallFreeze e))"
| "converted (PbUnfreezeToken r) = obind (convertUnfreezeTokenEnvelope r) (\<lambda>e. Ok (CallUnfreeze e))"

text \<open>Whether a Connect call succeeds, with what it leaves behind.\<close>

definition rpc_success :: "'s rpc_call \<Rightarrow> bool \<times> App \<times> published list" where
  "rpc_success c = ((\<exists>s. fst c = Reply s), snd c)"

fun connect_serve :: "(pb_call \<Rightarrow> error option) \<Rightarrow> channel \<Rightarrow> pb_call \<Rightarrow> App \<Rightarrow> bool \<times> App \<times> published list" where
  "connect_serve v ch (PbTransfer r) app = rpc_success (connect_Transfer (\<lambda>r. v (PbTransfer r)) ch r app)"
| "connect_serve v ch (PbMintToken r) app = rpc_success (connect_MintToken (\<lambda>r. v (PbMintToken r)) ch r app)"
| "connect_serve v ch (PbAuthorizeTokenTransfer r) app = rpc_success (connect_AuthorizeTokenTransfer (\<lambda>r. v (PbAuthorizeTokenTransfer r)) ch r app)"
| "connect_serve v ch (PbUnauthorizeTokenTransfer r) app = rpc_success (connect_UnauthorizeTokenTransfer (\<lambda>r. v (PbUnauthorizeTokenTransfer r)) ch r app)"
| "connect_serve v ch (PbTransferToken r) app = rpc_success (connect_TransferToken (\<lambda>r. v (PbTransferToken r)) ch r app)"
| "connect_serve v ch (PbBurnToken r) app = rpc_success (connect_BurnToken (\<lambda>r. v (PbBurnToken r)) ch r app)"
| "connect_serve v ch (PbLookupToken r) app = rpc_success (connect_LookupToken (\<lambda>r. v (PbLookupToken r)) ch r app)"
| "connect_serve v ch (PbClawbackToken r) app = rpc_success (connect_ClawbackToken (\<lambda>r. v (PbClawbackToken r)) ch r app)"
| "connect_serve v ch (PbFreezeToken r) app = rpc_success (connect_FreezeToken (\<lambda>r. v (PbFreezeToken r)) ch r app)"
| "connect_serve v ch (PbUnfreezeToken r) app = rpc_success (connect_UnfreezeToken (\<lambda>r. v (PbUnfreezeToken r)) ch r app)"

text \<open>The REST body of an envelope, and the endpoint of each call; three have none.\<close>

definition json_body :: "'p SignedEnvelope \<Rightarrow> 'p rest_body" where
  "json_body e = Some (Some \<lparr>re_payload = Some (Payload e), re_signature = env_Signature e\<rparr>)"

fun rest_serve :: "channel \<Rightarrow> signed_call \<Rightarrow> App \<Rightarrow> rest_call" where
  "rest_serve ch (CallTransfer e) app = handleTransfer ch (json_body e) app"
| "rest_serve ch (CallMintToken e) app = handleMintToken ch (json_body e) app"
| "rest_serve ch (CallAuthorize e) app = handleAuthorizeTokenTransfer ch (json_body e) app"
| "rest_serve ch (CallUnauthorize e) app = handleUnauthorizeTokenTransfer ch (json_body e) app"
| "rest_serve ch (CallTransferToken e) app = handleTransferToken ch (json_body e) app"
| "rest_serve ch (CallBurnToken e) app = handleBurnToken ch (json_body e) app"
| "rest_serve ch (CallLookupToken e) app = (Http 404 NoBody, app, [])"
| "rest_serve ch (CallClawback e) app = handleClawbackToken ch (json_body e) app"
| "rest_serve ch (CallFreeze e) app = (Http 404 NoBody, app, [])"
| "rest_serve ch (CallUnfreeze e) app = (Http 404 NoBody, app, [])"

fun has_endpoint :: "signed_call \<Rightarrow> bool" where
  "has_endpoint (CallTransfer e) = True"
| "has_endpoint (CallMintToken e) = True"
| "has_endpoint (CallAuthorize e) = True"
| "has_endpoint (CallUnauthorize e) = True"
| "has_endpoint (CallTransferToken e) = True"
| "has_endpoint (CallBurnToken e) = True"
| "has_endpoint (CallLookupToken e) = False"
| "has_endpoint (CallClawback e) = True"
| "has_endpoint (CallFreeze e) = False"
| "has_endpoint (CallUnfreeze e) = False"

lemma envelope_eta: "\<lparr>Payload = Payload e, env_Signature = env_Signature e\<rparr> = e"
  by (cases e) simp

lemma unary_agrees:
  assumes "convert req = Ok e" "v req = None"
  shows "rpc_success (unary v convert client_op reply req app) =
    (fst (signed_endpoint client_op (json_body e) app) = Http 200 (RestTransferResponse ''success''),
     snd (signed_endpoint client_op (json_body e) app))"
proof -
  obtain r app' msgs where "client_op e app = (r, app', msgs)" by (metis prod_cases3)
  then show ?thesis
    by (cases r) (simp_all add: unary_def signed_endpoint_def json_body_def rpc_success_def envelope_eta assms)
qed

lemmas connect_handlers = connect_Transfer_def connect_MintToken_def connect_AuthorizeTokenTransfer_def
  connect_UnauthorizeTokenTransfer_def connect_TransferToken_def connect_BurnToken_def
  connect_LookupToken_def connect_ClawbackToken_def connect_FreezeToken_def connect_UnfreezeToken_def

lemmas rest_handlers = handleTransfer_def handleMintToken_def handleAuthorizeTokenTransfer_def
  handleUnauthorizeTokenTransfer_def handleTransferToken_def handleBurnToken_def handleClawbackToken_def

lemma get_account_agrees:
  assumes "convertGetAccountEnvelope r = Ok e" "v r = None"
    and "SignerID (env_Signature e) = gap_AccountID (Payload e)"
  shows "rpc_success (connect_GetAccount v ch r app) =
    ((\<exists>body. fst (handleGetMyAccount ch (json_body e) app) = Http 200 body),
     snd (handleGetMyAccount ch (json_body e) app))"
proof (cases "ScalegraphIdFromString (gap_AccountID (Payload e))")
  case (Ok i)
  obtain res app' msgs where "client_GetAccount ch i (Some e) app = (res, app', msgs)" by (metis prod_cases3)
  then show ?thesis using Ok assms
    by (cases res) (simp_all add: connect_GetAccount_def unary_def parse_id_def handleGetMyAccount_def
        json_body_def rpc_success_def envelope_eta)
qed (use assms in \<open>simp_all add: connect_GetAccount_def unary_def parse_id_def handleGetMyAccount_def
        json_body_def rpc_success_def\<close>)

text \<open>
  Property C34.  The two transports agree on the calls they both offer.  Take a Connect message and
  the REST body of the envelope it converts to.  When the Connect validator lets the message
  through and there is a REST endpoint for the call, the two lead to the same client call: the
  ledger and the announcements are the same afterwards, and REST answers 200 exactly when Connect
  reports success.  The same holds of reading an account that signs for itself.  They differ where
  only one of them refuses, before anything is sent: Connect when its validator rejects the message
  (a transfer of 0, which REST has no rule against), REST with status 404 for a lookup, a freeze
  and an unfreeze, and with an error status for reading an account somebody else has signed for.
\<close>

theorem transports_agree:
  assumes "converted pb = Ok c" "convertGetAccountEnvelope r = Ok e"
  shows "(v pb = None \<and> has_endpoint c \<longrightarrow> connect_serve v ch pb app =
      (fst (rest_serve ch c app) = Http 200 (RestTransferResponse ''success''), snd (rest_serve ch c app))) \<and>
    (v pb \<noteq> None \<longrightarrow> connect_serve v ch pb app = (False, app, [])) \<and>
    (\<not> has_endpoint c \<longrightarrow> rest_serve ch c app = (Http 404 NoBody, app, [])) \<and>
    (v' r = None \<and> SignerID (env_Signature e) = gap_AccountID (Payload e) \<longrightarrow>
      rpc_success (connect_GetAccount v' ch r app) =
        ((\<exists>body. fst (handleGetMyAccount ch (json_body e) app) = Http 200 body),
         snd (handleGetMyAccount ch (json_body e) app))) \<and>
    (SignerID (env_Signature e) \<noteq> gap_AccountID (Payload e) \<longrightarrow>
      (\<exists>status body. handleGetMyAccount ch (json_body e) app = (Http status body, app, []) \<and> 400 \<le> status))"
proof (intro conjI impI)
  show "connect_serve v ch pb app =
      (fst (rest_serve ch c app) = Http 200 (RestTransferResponse ''success''), snd (rest_serve ch c app))"
    if "v pb = None \<and> has_endpoint c"
    using assms(1) that
    by (cases pb) (auto simp: obind_Ok_iff connect_handlers rest_handlers intro!: unary_agrees)
  show "connect_serve v ch pb app = (False, app, [])" if "v pb \<noteq> None"
    using that by (cases pb) (auto simp: connect_handlers unary_def rpc_success_def)
  show "rest_serve ch c app = (Http 404 NoBody, app, [])" if "\<not> has_endpoint c"
    using that by (cases c) simp_all
  show "rpc_success (connect_GetAccount v' ch r app) =
      ((\<exists>body. fst (handleGetMyAccount ch (json_body e) app) = Http 200 body),
       snd (handleGetMyAccount ch (json_body e) app))"
    if "v' r = None \<and> SignerID (env_Signature e) = gap_AccountID (Payload e)"
    using get_account_agrees [OF assms(2)] that by blast
  show "\<exists>status body. handleGetMyAccount ch (json_body e) app = (Http status body, app, []) \<and> 400 \<le> status"
    if "SignerID (env_Signature e) \<noteq> gap_AccountID (Payload e)"
    using that by (cases "ScalegraphIdFromString (gap_AccountID (Payload e))")
      (simp_all add: handleGetMyAccount_def json_body_def)
qed

definition toy_pb_transfer :: "pb_Transfer pb_request" where
  "toy_pb_transfer = Some \<lparr>pb_payload = Some \<lparr>pbt_from = id_String (test_id 1), pbt_to = id_String (test_id 2),
       pbt_amount = dy 1073 6, pbt_nonce = 0, pbt_timestamp = 0\<rparr>,
     pb_signature = Some (toProtoSig (toy_signature 1)), pb_certificate = []\<rparr>"

theorem transports_agree_witness:
  "connect_serve (\<lambda>_. None) (sendRequest toy_server (toy_inputs 7) Delivered Delivered)
     (PbTransfer toy_pb_transfer) cert_app = (True, toy_after, toy_msgs)"
proof -
  have c: "converted (PbTransfer toy_pb_transfer) = Ok (CallTransfer toy_envelope)"
    by (simp add: toy_pb_transfer_def convertTransferEnvelope_def convert_envelope_def convert_toProtoSig
        getter_defs toy_envelope_def)
  have "TransferSigned_request toy_envelope = Ok (ReqTransfer (toy_signed_transfer (dy 1073 6)))"
    by (simp add: client_request_defs toy_envelope_def parse_id_def toy_signed_transfer_def toy_transfer_def)
  then have "rest_serve (sendRequest toy_server (toy_inputs 7) Delivered Delivered) (CallTransfer toy_envelope) cert_app
      = (Http 200 (RestTransferResponse ''success''), toy_after, toy_msgs)"
    by (simp add: rest_handlers signed_endpoint_def json_body_def TransferSigned_def send_built_def Send_def
        sendRequest_def toy_request_handled envelope_eta)
  moreover have "convertGetAccountEnvelope (Some \<lparr>pb_payload = Some \<lparr>pbg_account_id = id_String (test_id 1)\<rparr>,
       pb_signature = Some (toProtoSig (toy_signature 1)), pb_certificate = []\<rparr>) =
      Ok \<lparr>Payload = \<lparr>gap_AccountID = id_String (test_id 1)\<rparr>, env_Signature = toy_signature 1\<rparr>"
    by (simp add: convertGetAccountEnvelope_def convert_envelope_def convert_toProtoSig getter_defs)
  ultimately show ?thesis using transports_agree [OF c, of _ _ "\<lambda>_. None"] by simp
qed

end
