(* ===== verification/Keys.thy ===== *)
theory Keys
  imports Verifier
begin

text \<open>
  \<^verbatim>\<open>internal/crypto/keypair.go\<close> and \<^verbatim>\<open>cert.go\<close>: key pairs and their PEM files.  The encoders of
  the standard library (PEM, PKCS 8, PKIX, X.509) are the fields of \<open>key_lib\<close>; a Go string and a
  byte slice are both byte lists.
\<close>

section \<open>The encoders\<close>

text \<open>A parsed key is of the expected algorithm or of another one.\<close>

datatype parsed_key = Ed25519Key "byte list" | OtherKey

record key_lib =
  pem_EncodeToMemory :: "string \<times> byte list \<Rightarrow> byte list"
  pem_Decode :: "byte list \<Rightarrow> (string \<times> byte list) option"
  MarshalPKCS8PrivateKey :: "byte list \<Rightarrow> byte list option"
  ParsePKCS8PrivateKey :: "byte list \<Rightarrow> parsed_key option"
  MarshalPKIXPublicKey :: "byte list \<Rightarrow> byte list option"
  ParsePKIXPublicKey :: "byte list \<Rightarrow> parsed_key option"
  ParseCertificate :: "byte list \<Rightarrow> Certificate option"

definition PRIVATE_KEY :: string where "PRIVATE_KEY = ''PRIVATE KEY''"
definition PUBLIC_KEY :: string where "PUBLIC_KEY = ''PUBLIC KEY''"
definition CERTIFICATE :: string where "CERTIFICATE = ''CERTIFICATE''"

text \<open>What the library documents: a block that was encoded decodes to itself, and so do keys.\<close>

definition key_lib_ok :: "key_lib \<Rightarrow> bool" where
  "key_lib_ok L \<longleftrightarrow>
     (\<forall>ty\<in>{PRIVATE_KEY, PUBLIC_KEY, CERTIFICATE}. \<forall>bs. pem_Decode L (pem_EncodeToMemory L (ty, bs)) = Some (ty, bs)) \<and>
     (\<forall>k der. MarshalPKCS8PrivateKey L k = Some der \<longrightarrow> ParsePKCS8PrivateKey L der = Some (Ed25519Key k)) \<and>
     (\<forall>k der. MarshalPKIXPublicKey L k = Some der \<longrightarrow> ParsePKIXPublicKey L der = Some (Ed25519Key k)) \<and>
     (\<forall>der c. ParseCertificate L der = Some c \<longrightarrow> cert_Raw c = der)"

section \<open>Key pairs\<close>

record KeyPair =
  kp_PublicKey :: "byte list"
  kp_PrivateKey :: "byte list"

text \<open>\<^verbatim>\<open>ed25519.GenerateKey\<close> may fail; its result is the argument.\<close>

definition GenerateKeyPair :: "(byte list \<times> byte list) option \<Rightarrow> (error, KeyPair) outcome" where
  "GenerateKeyPair drawn =
     (case drawn of
        None \<Rightarrow> Err (Failed ''generate Ed25519 key pair'' RandomSourceFailed)
      | Some (pubKey, privKey) \<Rightarrow> Ok \<lparr>kp_PublicKey = pubKey, kp_PrivateKey = privKey\<rparr>)"

definition EncodePrivateKeyPEM :: "key_lib \<Rightarrow> byte list \<Rightarrow> (error, byte list) outcome" where
  "EncodePrivateKeyPEM L privKey =
     (case MarshalPKCS8PrivateKey L privKey of
        None \<Rightarrow> Err (Failed ''marshal private key'' KeyMarshalFailed)
      | Some der \<Rightarrow> Ok (pem_EncodeToMemory L (PRIVATE_KEY, der)))"

definition DecodePrivateKeyPEM :: "key_lib \<Rightarrow> byte list \<Rightarrow> (error, byte list) outcome" where
  "DecodePrivateKeyPEM L data =
     (case pem_Decode L data of
        None \<Rightarrow> Err PemNoBlock
      | Some (ty, bs) \<Rightarrow>
        if ty \<noteq> PRIVATE_KEY then Err (PemWrongType ty)
        else (case ParsePKCS8PrivateKey L bs of
                None \<Rightarrow> Err (Failed ''parse private key'' KeyParseFailed)
              | Some OtherKey \<Rightarrow> Err NotEd25519Key
              | Some (Ed25519Key k) \<Rightarrow> Ok k))"

definition EncodePublicKeyPEM :: "key_lib \<Rightarrow> byte list \<Rightarrow> (error, byte list) outcome" where
  "EncodePublicKeyPEM L pubKey =
     (case MarshalPKIXPublicKey L pubKey of
        None \<Rightarrow> Err (Failed ''marshal public key'' KeyMarshalFailed)
      | Some der \<Rightarrow> Ok (pem_EncodeToMemory L (PUBLIC_KEY, der)))"

definition DecodePublicKeyPEM :: "key_lib \<Rightarrow> byte list \<Rightarrow> (error, byte list) outcome" where
  "DecodePublicKeyPEM L data =
     (case pem_Decode L data of
        None \<Rightarrow> Err PemNoBlock
      | Some (ty, bs) \<Rightarrow>
        if ty \<noteq> PUBLIC_KEY then Err (PemWrongType ty)
        else (case ParsePKIXPublicKey L bs of
                None \<Rightarrow> Err (Failed ''parse public key'' KeyParseFailed)
              | Some OtherKey \<Rightarrow> Err NotEd25519Key
              | Some (Ed25519Key k) \<Rightarrow> Ok k))"

section \<open>Certificates\<close>

definition ParseCertificatePEM :: "key_lib \<Rightarrow> byte list \<Rightarrow> (error, Certificate) outcome" where
  "ParseCertificatePEM L certPEM =
     (case pem_Decode L certPEM of
        None \<Rightarrow> Err PemNoBlock
      | Some (ty, bs) \<Rightarrow>
        if ty \<noteq> CERTIFICATE then Err (PemWrongType ty)
        else (case ParseCertificate L bs of
                None \<Rightarrow> Err (Failed ''parse certificate'' CertificateParseFailed)
              | Some c \<Rightarrow> Ok c))"

definition EncodeCertificatePEM :: "key_lib \<Rightarrow> Certificate \<Rightarrow> byte list" where
  "EncodeCertificatePEM L cert = pem_EncodeToMemory L (CERTIFICATE, cert_Raw cert)"

section \<open>Round trips\<close>

lemma key_lib_okD:
  assumes "key_lib_ok L"
  shows "pem_Decode L (pem_EncodeToMemory L (PRIVATE_KEY, bs)) = Some (PRIVATE_KEY, bs)"
    "pem_Decode L (pem_EncodeToMemory L (PUBLIC_KEY, bs)) = Some (PUBLIC_KEY, bs)"
    "pem_Decode L (pem_EncodeToMemory L (CERTIFICATE, bs)) = Some (CERTIFICATE, bs)"
    "MarshalPKCS8PrivateKey L k = Some der \<Longrightarrow> ParsePKCS8PrivateKey L der = Some (Ed25519Key k)"
    "MarshalPKIXPublicKey L k = Some der \<Longrightarrow> ParsePKIXPublicKey L der = Some (Ed25519Key k)"
    "ParseCertificate L der = Some c \<Longrightarrow> cert_Raw c = der"
  using assms by (auto simp: key_lib_ok_def)

lemma private_key_roundtrip:
  "key_lib_ok L \<Longrightarrow> EncodePrivateKeyPEM L k = Ok pem \<Longrightarrow> DecodePrivateKeyPEM L pem = Ok k"
  by (auto simp: EncodePrivateKeyPEM_def DecodePrivateKeyPEM_def key_lib_okD split: option.splits)

lemma public_key_roundtrip:
  "key_lib_ok L \<Longrightarrow> EncodePublicKeyPEM L k = Ok pem \<Longrightarrow> DecodePublicKeyPEM L pem = Ok k"
  by (auto simp: EncodePublicKeyPEM_def DecodePublicKeyPEM_def key_lib_okD split: option.splits)

text \<open>A certificate that was parsed from its raw bytes survives the round trip.\<close>

lemma certificate_roundtrip:
  "key_lib_ok L \<Longrightarrow> ParseCertificate L der = Some c \<Longrightarrow>
   ParseCertificatePEM L (EncodeCertificatePEM L c) = Ok c"
  by (auto simp: ParseCertificatePEM_def EncodeCertificatePEM_def key_lib_okD)

text \<open>A key is never read as a key of the other kind, nor as a certificate.\<close>

lemma pem_kinds_distinct:
  assumes "key_lib_ok L"
  shows "EncodePrivateKeyPEM L k = Ok pem \<Longrightarrow> DecodePublicKeyPEM L pem = Err (PemWrongType PRIVATE_KEY)"
    "EncodePublicKeyPEM L k = Ok pem \<Longrightarrow> DecodePrivateKeyPEM L pem = Err (PemWrongType PUBLIC_KEY)"
    "EncodePublicKeyPEM L k = Ok pem \<Longrightarrow> ParseCertificatePEM L pem = Err (PemWrongType PUBLIC_KEY)"
  using key_lib_okD [OF assms]
  by (auto simp: EncodePrivateKeyPEM_def DecodePrivateKeyPEM_def EncodePublicKeyPEM_def
      DecodePublicKeyPEM_def ParseCertificatePEM_def PRIVATE_KEY_def PUBLIC_KEY_def CERTIFICATE_def
      split: option.splits)

text \<open>A concrete library: a block is its type, a zero byte and its bytes.\<close>

definition toy_key_lib :: key_lib where
  "toy_key_lib = \<lparr>
     pem_EncodeToMemory = (\<lambda>(ty, bs). List.map (\<lambda>c. of_nat (of_char c)) ty @ 0 # bs),
     pem_Decode = (\<lambda>data. if 0 \<in> set data
        then Some (List.map (\<lambda>b. char_of (unat b)) (takeWhile (\<lambda>b. b \<noteq> 0) data), tl (dropWhile (\<lambda>b. b \<noteq> 0) data))
        else None),
     MarshalPKCS8PrivateKey = Some, ParsePKCS8PrivateKey = (\<lambda>bs. Some (Ed25519Key bs)),
     MarshalPKIXPublicKey = Some, ParsePKIXPublicKey = (\<lambda>bs. Some (Ed25519Key bs)),
     ParseCertificate = (\<lambda>bs. Some \<lparr>cert_PublicKey = Some (take 32 bs), cert_Raw = bs\<rparr>)\<rparr>"

lemma toy_pem:
  "List.map (\<lambda>b. char_of (unat (b :: byte))) (List.map (\<lambda>c. of_nat (of_char c)) ty) = ty"
  by (induction ty) (auto simp: unat_of_nat take_bit_nat_eq_self)

lemma toy_key_lib_ok: "key_lib_ok toy_key_lib"
proof -
  have dec: "pem_Decode toy_key_lib (pem_EncodeToMemory toy_key_lib (ty, bs)) = Some (ty, bs)"
    if "ty = PRIVATE_KEY \<or> ty = PUBLIC_KEY \<or> ty = CERTIFICATE" for ty bs
  proof -
    let ?cs = "List.map (\<lambda>c. of_nat (of_char c) :: byte) ty"
    have nz: "0 \<notin> set ?cs"
      using that by (auto simp: PRIVATE_KEY_def PUBLIC_KEY_def CERTIFICATE_def)
    then have "takeWhile (\<lambda>b. b \<noteq> 0) (?cs @ 0 # bs) = ?cs" "dropWhile (\<lambda>b. b \<noteq> 0) (?cs @ 0 # bs) = 0 # bs"
      by (auto simp: takeWhile_append dropWhile_append takeWhile_eq_all_conv)
    then show ?thesis using toy_pem [of ty] by (simp add: toy_key_lib_def)
  qed
  then show ?thesis unfolding key_lib_ok_def by (auto simp: toy_key_lib_def)
qed

end
