(* ===== verification/CA.thy ===== *)
theory CA
  imports Keys
begin

text \<open>
  \<^verbatim>\<open>internal/ca\<close>: the certificate authority, the certificates it issues and the files it keeps.
  The file system is a map from paths to contents; what the operating system refuses and what
  is drawn at random are arguments.
\<close>

section \<open>Files\<close>

text \<open>
  A path is the list of its components below each other (\<^verbatim>\<open>filepath.Join\<close>).  Every account id the
  program passes here is hexadecimal, so no component holds a separator.
\<close>

type_synonym path = "string list"
type_synonym files = "path \<rightharpoonup> byte list"

record os_env =
  can_mkdir :: "path \<Rightarrow> bool"
  can_write :: "path \<Rightarrow> bool"

definition MkdirAll :: "os_env \<Rightarrow> string \<Rightarrow> path \<Rightarrow> files \<Rightarrow> (error, unit, files) call" where
  "MkdirAll env msg p fs = (if can_mkdir env p then Ok () else Err (Failed msg FileError), fs)"

definition WriteFile :: "os_env \<Rightarrow> string \<Rightarrow> path \<Rightarrow> byte list \<Rightarrow> files \<Rightarrow> (error, unit, files) call" where
  "WriteFile env msg p data fs =
     (if can_write env p then (Ok (), fs(p \<mapsto> data)) else (Err (Failed msg FileError), fs))"

definition ReadFile :: "string \<Rightarrow> path \<Rightarrow> files \<Rightarrow> (error, byte list) outcome" where
  "ReadFile msg p fs = (case fs p of None \<Rightarrow> Err (Failed msg FileError) | Some data \<Rightarrow> Ok data)"

definition caKeyPath :: "string \<Rightarrow> path" where
  "caKeyPath base = [base, ''bin'', ''ca'', ''ca.key'']"

definition caCertPath :: "string \<Rightarrow> path" where
  "caCertPath base = [base, ''bin'', ''ca'', ''ca.crt'']"

definition accountPath :: "string \<Rightarrow> string \<Rightarrow> string \<Rightarrow> path" where
  "accountPath base accountID file = [base, ''bin'', ''accounts'', accountID, file]"

section \<open>The store\<close>

definition CAExists :: "string \<Rightarrow> files \<Rightarrow> bool" where
  "CAExists base fs \<longleftrightarrow> fs (caKeyPath base) \<noteq> None \<and> fs (caCertPath base) \<noteq> None"

definition SaveCA ::
    "key_lib \<Rightarrow> os_env \<Rightarrow> string \<Rightarrow> byte list \<Rightarrow> Certificate \<Rightarrow> files \<Rightarrow> (error, unit, files) call" where
  "SaveCA L env base privKey cert fs =
     sbind (MkdirAll env ''create CA directory'' [base, ''bin'', ''ca''] fs) (\<lambda>_ fs.
     sbind (wrap ''encode CA private key'' (EncodePrivateKeyPEM L privKey), fs) (\<lambda>keyPEM fs.
     sbind (WriteFile env ''write CA private key'' (caKeyPath base) keyPEM fs) (\<lambda>_ fs.
     WriteFile env ''write CA certificate'' (caCertPath base) (EncodeCertificatePEM L cert) fs)))"

definition LoadCA :: "key_lib \<Rightarrow> string \<Rightarrow> files \<Rightarrow> (error, byte list \<times> Certificate) outcome" where
  "LoadCA L base fs =
     obind (ReadFile ''read CA private key'' (caKeyPath base) fs) (\<lambda>keyPEM.
     obind (wrap ''decode CA private key'' (DecodePrivateKeyPEM L keyPEM)) (\<lambda>privKey.
     obind (ReadFile ''read CA certificate'' (caCertPath base) fs) (\<lambda>certPEM.
     obind (wrap ''parse CA certificate'' (ParseCertificatePEM L certPEM)) (\<lambda>cert.
     Ok (privKey, cert)))))"

definition SaveAccountCredentials ::
    "(byte list \<Rightarrow> ScalegraphId) \<Rightarrow> key_lib \<Rightarrow> os_env \<Rightarrow> string \<Rightarrow> byte list \<Rightarrow> byte list \<Rightarrow> Certificate \<Rightarrow>
     files \<Rightarrow> (error, unit, files) call" where
  "SaveAccountCredentials sha1 L env base privKey pubKey cert fs =
     (let accountID = id_String (DeriveAccountID sha1 pubKey) in
     sbind (MkdirAll env ''create account directory'' [base, ''bin'', ''accounts'', accountID] fs) (\<lambda>_ fs.
     sbind (wrap ''encode account private key'' (EncodePrivateKeyPEM L privKey), fs) (\<lambda>privKeyPEM fs.
     sbind (WriteFile env ''write account private key'' (accountPath base accountID ''private.key'')
              privKeyPEM fs) (\<lambda>_ fs.
     sbind (wrap ''encode account public key'' (EncodePublicKeyPEM L pubKey), fs) (\<lambda>pubKeyPEM fs.
     sbind (WriteFile env ''write account public key'' (accountPath base accountID ''public.key'')
              pubKeyPEM fs) (\<lambda>_ fs.
     WriteFile env ''write account certificate'' (accountPath base accountID ''certificate.crt'')
       (EncodeCertificatePEM L cert) fs))))))"

definition LoadAccountCredentials ::
    "key_lib \<Rightarrow> string \<Rightarrow> string \<Rightarrow> files \<Rightarrow> (error, byte list \<times> byte list \<times> Certificate) outcome" where
  "LoadAccountCredentials L base accountID fs =
     obind (ReadFile ''read account private key'' (accountPath base accountID ''private.key'') fs) (\<lambda>privKeyPEM.
     obind (wrap ''decode account private key'' (DecodePrivateKeyPEM L privKeyPEM)) (\<lambda>privKey.
     obind (ReadFile ''read account public key'' (accountPath base accountID ''public.key'') fs) (\<lambda>pubKeyPEM.
     obind (wrap ''decode account public key'' (DecodePublicKeyPEM L pubKeyPEM)) (\<lambda>pubKey.
     obind (ReadFile ''read account certificate'' (accountPath base accountID ''certificate.crt'') fs) (\<lambda>certPEM.
     obind (wrap ''parse account certificate'' (ParseCertificatePEM L certPEM)) (\<lambda>cert.
     Ok (privKey, pubKey, cert)))))))"

definition GetAccountPrivateKeyPEM :: "string \<Rightarrow> string \<Rightarrow> files \<Rightarrow> (error, byte list) outcome" where
  "GetAccountPrivateKeyPEM base accountID =
     ReadFile ''read account private key'' (accountPath base accountID ''private.key'')"

definition GetAccountCertificatePEM :: "string \<Rightarrow> string \<Rightarrow> files \<Rightarrow> (error, byte list) outcome" where
  "GetAccountCertificatePEM base accountID =
     ReadFile ''read account certificate'' (accountPath base accountID ''certificate.crt'')"

section \<open>Certificates\<close>

datatype key_usage = KeyUsageCertSign | KeyUsageCRLSign | KeyUsageDigitalSignature

record cert_template =
  tmpl_SerialNumber :: nat
  tmpl_Organization :: string
  tmpl_OrganizationalUnit :: string
  tmpl_CommonName :: string
  tmpl_NotBefore :: int
  tmpl_NotAfter :: int
  tmpl_IsCA :: bool
  tmpl_KeyUsage :: "key_usage set"
  tmpl_ClientAuth :: bool
  tmpl_MaxPathLen :: "nat option"

text \<open>
  What issuing a certificate reads from outside: the random serial number, the clock, the
  calendar (\<^verbatim>\<open>AddDate\<close>) and the X.509 encoder, which takes the template, the issuer (\<open>None\<close> for a
  self-signed certificate), the subject's key and the issuer's private key.
\<close>

record issue_env =
  ie_serial :: "nat option"
  ie_now :: int
  ie_AddYears :: "int \<Rightarrow> int \<Rightarrow> int"
  ie_CreateCertificate ::
    "cert_template \<Rightarrow> Certificate option \<Rightarrow> byte list \<Rightarrow> byte list \<Rightarrow> byte list option"

definition CACertValidityYears :: int where "CACertValidityYears = 10"
definition AccountCertValidityYears :: int where "AccountCertValidityYears = 1"

definition generateSerialNumber :: "issue_env \<Rightarrow> (error, nat) outcome" where
  "generateSerialNumber ie =
     (case ie_serial ie of
        None \<Rightarrow> Err (Failed ''generate serial number'' RandomSourceFailed)
      | Some n \<Rightarrow> Ok (n mod 2 ^ 128))"

definition CreateCACertificate ::
    "key_lib \<Rightarrow> issue_env \<Rightarrow> byte list \<Rightarrow> byte list \<Rightarrow> (error, Certificate) outcome" where
  "CreateCACertificate L ie pubKey privKey =
     obind (generateSerialNumber ie) (\<lambda>serialNumber.
       (let tmpl = \<lparr>tmpl_SerialNumber = serialNumber, tmpl_Organization = ''Scalegraph Emulator'',
               tmpl_OrganizationalUnit = ''Certificate Authority'', tmpl_CommonName = ''Scalegraph CA'',
               tmpl_NotBefore = ie_now ie, tmpl_NotAfter = ie_AddYears ie (ie_now ie) CACertValidityYears,
               tmpl_IsCA = True,
               tmpl_KeyUsage = {KeyUsageCertSign, KeyUsageCRLSign, KeyUsageDigitalSignature},
               tmpl_ClientAuth = False, tmpl_MaxPathLen = Some 1\<rparr>
        in case ie_CreateCertificate ie tmpl None pubKey privKey of
             None \<Rightarrow> Err (Failed ''create CA certificate'' CertificateCreateFailed)
           | Some certDER \<Rightarrow>
             (case ParseCertificate L certDER of
                None \<Rightarrow> Err (Failed ''parse created CA certificate'' CertificateParseFailed)
              | Some cert \<Rightarrow> Ok cert)))"

definition CreateAccountCertificate ::
    "key_lib \<Rightarrow> issue_env \<Rightarrow> string \<Rightarrow> byte list \<Rightarrow> Certificate \<Rightarrow> byte list \<Rightarrow> (error, Certificate) outcome" where
  "CreateAccountCertificate L ie accountID pubKey issuer issuerKey =
     obind (generateSerialNumber ie) (\<lambda>serialNumber.
       (let tmpl = \<lparr>tmpl_SerialNumber = serialNumber, tmpl_Organization = ''Scalegraph Emulator'',
               tmpl_OrganizationalUnit = ''Account'', tmpl_CommonName = accountID,
               tmpl_NotBefore = ie_now ie, tmpl_NotAfter = ie_AddYears ie (ie_now ie) AccountCertValidityYears,
               tmpl_IsCA = False, tmpl_KeyUsage = {KeyUsageDigitalSignature},
               tmpl_ClientAuth = True, tmpl_MaxPathLen = None\<rparr>
        in case ie_CreateCertificate ie tmpl (Some issuer) pubKey issuerKey of
             None \<Rightarrow> Err (Failed ''create account certificate'' CertificateCreateFailed)
           | Some certDER \<Rightarrow>
             (case ParseCertificate L certDER of
                None \<Rightarrow> Err (Failed ''parse created account certificate'' CertificateParseFailed)
              | Some cert \<Rightarrow> Ok cert)))"

section \<open>The authority\<close>

record CA =
  ca_privateKey :: "byte list"
  ca_publicKey :: "byte list"
  ca_certificate :: Certificate

text \<open>
  \<^verbatim>\<open>privKey.Public()\<close>: the second half of an Ed25519 private key.
\<close>

definition key_Public :: "byte list \<Rightarrow> byte list" where
  "key_Public privKey = drop 32 privKey"

definition ca_bootstrap ::
    "key_lib \<Rightarrow> os_env \<Rightarrow> issue_env \<Rightarrow> string \<Rightarrow> (byte list \<times> byte list) option \<Rightarrow> files \<Rightarrow>
     (error, CA, files) call" where
  "ca_bootstrap L env ie base drawn fs =
     sbind (wrap ''generate CA key pair'' (GenerateKeyPair drawn), fs) (\<lambda>kp fs.
     sbind (wrap ''create CA certificate'' (CreateCACertificate L ie (kp_PublicKey kp) (kp_PrivateKey kp)), fs) (\<lambda>cert fs.
     sbind (case SaveCA L env base (kp_PrivateKey kp) cert fs of
              (r, fs') \<Rightarrow> (wrap ''save CA credentials'' r, fs')) (\<lambda>_ fs.
     (Ok \<lparr>ca_privateKey = kp_PrivateKey kp, ca_publicKey = kp_PublicKey kp, ca_certificate = cert\<rparr>, fs))))"

definition ca_load :: "key_lib \<Rightarrow> string \<Rightarrow> files \<Rightarrow> (error, CA) outcome" where
  "ca_load L base fs =
     obind (LoadCA L base fs) (\<lambda>(privKey, cert).
     Ok \<lparr>ca_privateKey = privKey, ca_publicKey = key_Public privKey, ca_certificate = cert\<rparr>)"

definition NewCA ::
    "key_lib \<Rightarrow> os_env \<Rightarrow> issue_env \<Rightarrow> string \<Rightarrow> (byte list \<times> byte list) option \<Rightarrow> files \<Rightarrow>
     (error, CA, files) call" where
  "NewCA L env ie base drawn fs =
     (if CAExists base fs then (wrap ''load CA'' (ca_load L base fs), fs)
      else (case ca_bootstrap L env ie base drawn fs of (r, fs') \<Rightarrow> (wrap ''bootstrap CA'' r, fs')))"

definition IssueCertificate ::
    "key_lib \<Rightarrow> issue_env \<Rightarrow> CA \<Rightarrow> string \<Rightarrow> byte list \<Rightarrow> (error, Certificate) outcome" where
  "IssueCertificate L ie ca accountID pubKey =
     wrap ''issue certificate''
       (CreateAccountCertificate L ie accountID pubKey (ca_certificate ca) (ca_privateKey ca))"

definition CreateAccountCredentials ::
    "(byte list \<Rightarrow> ScalegraphId) \<Rightarrow> key_lib \<Rightarrow> os_env \<Rightarrow> issue_env \<Rightarrow> string \<Rightarrow> CA \<Rightarrow>
     (byte list \<times> byte list) option \<Rightarrow> files \<Rightarrow> (error, KeyPair \<times> Certificate \<times> string, files) call" where
  "CreateAccountCredentials sha1 L env ie base ca drawn fs =
     sbind (wrap ''generate account key pair'' (GenerateKeyPair drawn), fs) (\<lambda>kp fs.
     (let accountID = id_String (DeriveAccountID sha1 (kp_PublicKey kp)) in
     sbind (IssueCertificate L ie ca accountID (kp_PublicKey kp), fs) (\<lambda>cert fs.
     sbind (case SaveAccountCredentials sha1 L env base (kp_PrivateKey kp) (kp_PublicKey kp) cert fs of
              (r, fs') \<Rightarrow> (wrap ''save account credentials'' r, fs')) (\<lambda>_ fs.
     (Ok (kp, cert, accountID), fs)))))"

definition ca_VerifyCertificate ::
    "crypto_lib \<Rightarrow> CA \<Rightarrow> int \<Rightarrow> Certificate \<Rightarrow> (error, unit) outcome" where
  "ca_VerifyCertificate lib ca now cert =
     (if lib_x509_verify lib (ca_certificate ca) cert now then Ok ()
      else Err (Failed ''certificate verification'' CertificateInvalid))"

lemmas store_defs = MkdirAll_def WriteFile_def ReadFile_def CAExists_def SaveCA_def LoadCA_def
  SaveAccountCredentials_def LoadAccountCredentials_def GetAccountPrivateKeyPEM_def
  GetAccountCertificatePEM_def

section \<open>What is kept survives\<close>

lemma accountPath_eq [simp]:
  "accountPath base i f = accountPath base' j g \<longleftrightarrow> base = base' \<and> i = j \<and> f = g"
  by (simp add: accountPath_def)

lemma ca_paths_distinct [simp]: "caKeyPath base \<noteq> caCertPath base"
  by (simp add: caKeyPath_def caCertPath_def)

lemma WriteFile_Ok_iff:
  "WriteFile env msg p data fs = (Ok u, fs') \<longleftrightarrow> can_write env p \<and> fs' = fs(p \<mapsto> data)"
  by (auto simp: WriteFile_def)

lemma MkdirAll_Ok_iff: "MkdirAll env msg p fs = (Ok u, fs') \<longleftrightarrow> can_mkdir env p \<and> fs' = fs"
  by (auto simp: MkdirAll_def)

lemma wrap_call_Ok_iff: "(wrap msg r, s) = (Ok x, s') \<longleftrightarrow> r = Ok x \<and> s' = s"
  by (auto simp: wrap_Ok_iff)

lemma wrap_case_Ok_iff: "(case c of (r, s) \<Rightarrow> (wrap msg r, s)) = (Ok x, s') \<longleftrightarrow> c = (Ok x, s')"
  by (auto simp: wrap_Ok_iff split: prod.split)

lemmas call_Ok_iffs = sbind_Ok_iff obind_Ok_iff WriteFile_Ok_iff MkdirAll_Ok_iff wrap_Ok_iff wrap_call_Ok_iff
  wrap_case_Ok_iff

text \<open>
  The credentials of an account, once saved, load back unchanged, and the key and
  certificate texts handed to the interfaces decode to them; the credentials of every other
  account are what they were.
\<close>

theorem saved_credentials_load_back:
  assumes "key_lib_ok L" "ParseCertificate L der = Some cert"
    and "SaveAccountCredentials sha1 L env base privKey pubKey cert fs = (Ok (), fs')"
    and "i = id_String (DeriveAccountID sha1 pubKey)" "j \<noteq> i"
  shows "LoadAccountCredentials L base i fs' = Ok (privKey, pubKey, cert) \<and>
    obind (GetAccountPrivateKeyPEM base i fs') (DecodePrivateKeyPEM L) = Ok privKey \<and>
    obind (GetAccountCertificatePEM base i fs') (ParseCertificatePEM L) = Ok cert \<and>
    LoadAccountCredentials L base j fs' = LoadAccountCredentials L base j fs"
proof -
  from assms(3) obtain kp pp where kp: "EncodePrivateKeyPEM L privKey = Ok kp" and pp: "EncodePublicKeyPEM L pubKey = Ok pp"
    and fs': "fs' = fs(accountPath base i ''private.key'' \<mapsto> kp, accountPath base i ''public.key'' \<mapsto> pp,
        accountPath base i ''certificate.crt'' \<mapsto> EncodeCertificatePEM L cert)"
    by (auto simp: SaveAccountCredentials_def Let_def call_Ok_iffs assms(4))
  show ?thesis
    using assms(5) private_key_roundtrip [OF assms(1) kp] public_key_roundtrip [OF assms(1) pp]
      certificate_roundtrip [OF assms(1,2)]
    by (simp add: fs' LoadAccountCredentials_def GetAccountPrivateKeyPEM_def GetAccountCertificatePEM_def
        ReadFile_def)
qed

definition toy_os :: os_env where
  "toy_os = \<lparr>can_mkdir = (\<lambda>_. True), can_write = (\<lambda>_. True)\<rparr>"

theorem saved_credentials_load_back_witness:
  "\<exists>fs. SaveAccountCredentials toy_sha1 toy_key_lib toy_os ''d'' (replicate 64 1) (toy_key32 1)
      \<lparr>cert_PublicKey = Some [7], cert_Raw = [7]\<rparr> Map.empty = (Ok (), fs) \<and>
    LoadAccountCredentials toy_key_lib ''d'' (id_String (test_id 1)) fs =
      Ok (replicate 64 1, toy_key32 1, \<lparr>cert_PublicKey = Some [7], cert_Raw = [7]\<rparr>)"
proof -
  let ?c = "\<lparr>cert_PublicKey = Some [7 :: byte], cert_Raw = [7]\<rparr>"
  obtain fs where 1: "SaveAccountCredentials toy_sha1 toy_key_lib toy_os ''d'' (replicate 64 1) (toy_key32 1)
      ?c Map.empty = (Ok (), fs)"
    by (simp add: SaveAccountCredentials_def Let_def MkdirAll_def WriteFile_def toy_os_def
        EncodePrivateKeyPEM_def EncodePublicKeyPEM_def toy_key_lib_def)
  have 2: "ParseCertificate toy_key_lib [7] = Some ?c" by (simp add: toy_key_lib_def)
  show ?thesis
    using 1 saved_credentials_load_back [OF toy_key_lib_ok 2 1 refl, of "[]"]
    by (auto simp: concrete_simps id_String_not_Nil [THEN not_sym])
qed

lemma SaveCA_Ok:
  assumes "SaveCA L env base k c fs = (Ok (), fs')"
  obtains kp where "EncodePrivateKeyPEM L k = Ok kp"
    "fs' = fs(caKeyPath base \<mapsto> kp, caCertPath base \<mapsto> EncodeCertificatePEM L c)"
  using assms by (auto simp: SaveCA_def call_Ok_iffs)

lemma CreateCACertificate_parsed:
  "CreateCACertificate L ie pub priv = Ok c \<Longrightarrow> \<exists>der. ParseCertificate L der = Some c"
  by (auto simp: CreateCACertificate_def obind_Ok_iff Let_def split: option.splits)

lemma saved_ca_loads:
  assumes "key_lib_ok L" "ParseCertificate L der = Some c" "SaveCA L env base k c fs = (Ok (), fs')"
  shows "CAExists base fs' \<and> LoadCA L base fs' = Ok (k, c)"
proof -
  from SaveCA_Ok [OF assms(3)] obtain kp where "EncodePrivateKeyPEM L k = Ok kp"
    "fs' = fs(caKeyPath base \<mapsto> kp, caCertPath base \<mapsto> EncodeCertificatePEM L c)" by blast
  then show ?thesis
    using private_key_roundtrip [OF assms(1)] certificate_roundtrip [OF assms(1,2)]
    by (simp add: CAExists_def LoadCA_def ReadFile_def obind_Ok_iff)
qed

text \<open>
  Property C35.  A certificate authority survives a restart: whether it was created or loaded,
  the next start on the same directory gives the same keys and certificate and writes nothing,
  whatever the random source and the clock deliver then.  A created authority's key pair comes
  from the generator, whose private key ends with the public one.
\<close>

theorem ca_survives_restart:
  assumes "key_lib_ok L" "NewCA L env ie base drawn fs = (Ok ca, fs1)"
    and "\<And>pub priv. drawn = Some (pub, priv) \<Longrightarrow> key_Public priv = pub"
  shows "NewCA L env' ie' base drawn' fs1 = (Ok ca, fs1)"
proof (cases "CAExists base fs")
  case True
  with assms(2) show ?thesis by (auto simp: NewCA_def wrap_Ok_iff)
next
  case False
  with assms(2) obtain pub priv cert where d: "drawn = Some (pub, priv)"
    "CreateCACertificate L ie pub priv = Ok cert" "SaveCA L env base priv cert fs = (Ok (), fs1)"
    "ca = \<lparr>ca_privateKey = priv, ca_publicKey = pub, ca_certificate = cert\<rparr>"
    by (auto simp: NewCA_def ca_bootstrap_def call_Ok_iffs GenerateKeyPair_def split: option.splits)
  from CreateCACertificate_parsed [OF d(2)] obtain der where "ParseCertificate L der = Some cert" ..
  from saved_ca_loads [OF assms(1) this d(3)] show ?thesis
    using assms(3) [OF d(1)] by (simp add: NewCA_def ca_load_def d(4))
qed

definition toy_issue :: issue_env where
  "toy_issue = \<lparr>ie_serial = Some 5, ie_now = 0, ie_AddYears = (\<lambda>t n. t + n),
     ie_CreateCertificate = (\<lambda>tmpl issuer pub priv. Some pub)\<rparr>"

theorem ca_survives_restart_witness:
  "\<exists>ca fs. NewCA toy_key_lib toy_os toy_issue ''d'' (Some ([1], replicate 32 0 @ [1])) Map.empty = (Ok ca, fs) \<and>
     NewCA toy_key_lib toy_os toy_issue ''d'' None fs = (Ok ca, fs)"
proof -
  obtain ca fs where 1: "NewCA toy_key_lib toy_os toy_issue ''d'' (Some ([1], replicate 32 0 @ [1])) Map.empty = (Ok ca, fs)"
    by (simp add: NewCA_def CAExists_def ca_bootstrap_def GenerateKeyPair_def CreateCACertificate_def
        generateSerialNumber_def toy_issue_def toy_os_def SaveCA_def MkdirAll_def WriteFile_def
        EncodePrivateKeyPEM_def toy_key_lib_def)
  have "key_Public priv = pub" if "Some ([1 :: byte], replicate 32 (0 :: byte) @ [1]) = Some (pub, priv)" for pub priv
    using that by (auto simp: key_Public_def)
  from ca_survives_restart [OF toy_key_lib_ok 1 this] 1 show ?thesis by blast
qed

end
