(* ===== verification/Mcp.thy ===== *)
theory Mcp
  imports Rest CA
begin

text \<open>
  \<^verbatim>\<open>internal/transport/mcp/mcp.go\<close>: the tools an agent calls.  A tool decodes its arguments, signs
  on behalf of an account with the credentials the authority keeps, calls the client and answers
  with a text.  The agent protocol and the JSON decoder are third-party; the decoded arguments
  are the argument of a tool.
\<close>

section \<open>Arguments\<close>

record CreateAccountArgs =
  cra_Balance :: float64

record GetAccountArgs =
  gea_ID :: string

record TransferArgs =
  tfa_From :: string
  tfa_To :: string
  tfa_Amount :: float64

record MintArgs =
  mia_To :: string
  mia_Amount :: float64

record MintTokenArgs =
  mta_AccountID :: string
  mta_TokenValue :: string
  mta_ClawbackAddress :: string
  mta_FreezeAddress :: string

record AuthorizeTokenTransferArgs =
  ata_AccountID :: string
  ata_TokenOwnerID :: string
  ata_TokenID :: string

record UnauthorizeTokenTransferArgs =
  uta_AccountID :: string
  uta_TokenOwnerID :: string
  uta_TokenID :: string

record TransferTokenArgs =
  tta_FromAccountID :: string
  tta_ToAccountID :: string
  tta_TokenID :: string

record BurnTokenArgs =
  bta_AccountID :: string
  bta_TokenID :: string

record ClawbackTokenArgs =
  cta_FromAccountID :: string
  cta_ToAccountID :: string
  cta_TokenID :: string

record FreezeTokenArgs =
  fza_FreezeAuthorityID :: string
  fza_TokenHolderID :: string
  fza_TokenID :: string

record UnfreezeTokenArgs =
  ufa_FreezeAuthorityID :: string
  ufa_TokenHolderID :: string
  ufa_TokenID :: string

record LookupTokenArgs =
  lka_AccountID :: string
  lka_TokenID :: string

record AdminCreateAccountArgs =
  aca_Balance :: float64

record AdminMintArgs =
  ama_To :: string
  ama_Amount :: float64

record CreateSignedRequestArgs =
  csr_Type :: string
  csr_AccountID :: string
  csr_ToID :: string
  csr_Amount :: float64
  csr_TokenValue :: string
  csr_ClawbackAddress :: string
  csr_FreezeAddress :: string
  csr_TokenID :: string
  csr_ToAccountID :: string
  csr_FromAccountID :: string
  csr_TokenOwnerID :: string
  csr_TokenHolderID :: string

section \<open>Answers\<close>

text \<open>
  The envelope of a signed request that is handed out, with the other members of the JSON object
  it is put into.
\<close>

datatype handed_envelope = HandedCall signed_call | HandedGetAccount "GetAccountPayload SignedEnvelope"

type_synonym request_json = "handed_envelope \<times> (string \<times> string) list"

text \<open>
  The text of an answer: one constructor for each format with the values formatted into it.  The
  private key a new account gets is in the response of the server for this one text only and is
  left out here as it is there.
\<close>

datatype mcp_text =
    CreatedAccount ScalegraphId float64 Certificate
  | AdminCreatedAccount ScalegraphId float64
  | NoAccountsFound
  | AccountList "(ScalegraphId \<times> float64) list"
  | AccountText ScalegraphId float64
  | TransferredText float64 string string
  | MintedText float64 string
  | TokenMintedText string string string "string list"
  | AuthorizedText string string string
  | UnauthorizedText string string
  | TokenTransferredText string string string
  | BurnedText string string
  | ClawedBackText string string string
  | FrozenText string string string
  | UnfrozenText string string string
  | TokenMissingText string string
  | TokenFoundText string string "string option"
  | AccountTotal int
  | NoVirtualNodes
  | VirtualNodesText "(ScalegraphId \<times> (string \<rightharpoonup> string)) list"
  | SignedRequestText string string request_json "string option"

type_synonym mcp_result = "mcp_text client_call"

section \<open>Surroundings\<close>

text \<open>
  What a tool reads from outside: the client's channel and the clock, each as often as it uses
  them (other clients may be served between two requests), the authority, a pointer that may be
  nil, with its directory, the encoders, the order in which accounts and virtual apps are
  listed, and whether \<^verbatim>\<open>json.MarshalIndent\<close> encodes a request.
\<close>

record mcp_env =
  me_channel :: "nat \<Rightarrow> channel"
  me_clock :: "nat \<Rightarrow> int64"
  me_ca :: "CA option"
  me_base :: string
  me_files :: files
  me_keys :: key_lib
  me_sign :: "byte list \<Rightarrow> byte list \<Rightarrow> byte list"
  me_sha1 :: "byte list \<Rightarrow> ScalegraphId"
  me_marshal :: marshaller
  me_listAccounts :: "Account set \<Rightarrow> Account list"
  me_vapps :: "VirtualApp list"
  me_encodes :: "request_json \<Rightarrow> bool"

section \<open>Sequencing\<close>

text \<open>
  \<^verbatim>\<open>if err != nil { return nil, nil, err }\<close> after a client call and after a local computation, and
  the messages in front of an error.
\<close>

fun cbind :: "'a client_call \<Rightarrow> ('a \<Rightarrow> App \<Rightarrow> 'b client_call) \<Rightarrow> 'b client_call" where
  "cbind (Ok x, app, msgs) f = (case f x app of (r, app', msgs') \<Rightarrow> (r, app', msgs @ msgs'))"
| "cbind (Err e, app, msgs) f = (Err e, app, msgs)"
| "cbind (Panic, app, msgs) f = (Panic, app, msgs)"

definition locally :: "(error, 'a) outcome \<Rightarrow> App \<Rightarrow> 'a client_call" where
  "locally r app = (r, app, [])"

definition wrap_client :: "string \<Rightarrow> 'a client_call \<Rightarrow> 'a client_call" where
  "wrap_client msg c = (wrap msg (fst c), snd c)"

fun failed_for :: "string \<Rightarrow> string \<Rightarrow> (error, 'a) outcome \<Rightarrow> (error, 'a) outcome" where
  "failed_for msg i (Ok x) = Ok x"
| "failed_for msg i (Err e) = Err (FailedFor msg i e)"
| "failed_for msg i Panic = Panic"

fun invalid :: "string \<Rightarrow> (error, 'a) outcome \<Rightarrow> (error, 'a) outcome" where
  "invalid field (Ok x) = Ok x"
| "invalid field (Err e) = Err (InvalidField field e)"
| "invalid field Panic = Panic"

definition parse_field :: "string \<Rightarrow> string \<Rightarrow> (error, ScalegraphId) outcome" where
  "parse_field field s = invalid field (parse_id s)"

definition require :: "string \<Rightarrow> string \<Rightarrow> (error, unit) outcome" where
  "require field s = (if s = [] then Err (FieldRequired field) else Ok ())"

text \<open>An address that may be left out.\<close>

definition optional_field :: "string \<Rightarrow> string \<Rightarrow> (error, string option) outcome" where
  "optional_field field s =
     (if s \<noteq> [] then obind (parse_field field s) (\<lambda>_. Ok (Some s)) else Ok None)"

text \<open>\<^verbatim>\<open>s[:16] + "..."\<close>, which panics on a shorter text.\<close>

definition short :: "string \<Rightarrow> (error, string) outcome" where
  "short s = (if length s < 16 then Panic else Ok (take 16 s @ ''...''))"

definition short_nonempty :: "string \<Rightarrow> (error, string list) outcome" where
  "short_nonempty s = (if s \<noteq> [] then obind (short s) (\<lambda>t. Ok [t]) else Ok [])"

definition short2 :: "string \<Rightarrow> string \<Rightarrow> (string \<Rightarrow> string \<Rightarrow> mcp_text) \<Rightarrow> (error, mcp_text) outcome" where
  "short2 s t f = obind (short s) (\<lambda>s'. obind (short t) (\<lambda>t'. Ok (f s' t')))"

section \<open>Signing\<close>

text \<open>The credentials of an account in the store, as a private key.\<close>

definition stored_key :: "mcp_env \<Rightarrow> string \<Rightarrow> (error, byte list) outcome" where
  "stored_key env accountID =
     obind (failed_for ''get private key'' accountID
              (GetAccountPrivateKeyPEM (me_base env) accountID (me_files env))) (\<lambda>privKeyPEM.
     obind (failed_for ''get certificate'' accountID
              (GetAccountCertificatePEM (me_base env) accountID (me_files env))) (\<lambda>_.
     wrap ''decode private key'' (DecodePrivateKeyPEM (me_keys env) privKeyPEM)))"

text \<open>\<open>t\<close> counts the readings of the clock.\<close>

definition envelope_of ::
    "mcp_env \<Rightarrow> nat \<Rightarrow> (marshaller \<Rightarrow> 'p \<Rightarrow> byte list) \<Rightarrow> 'p \<Rightarrow> byte list \<Rightarrow> string \<Rightarrow>
     (error, 'p SignedEnvelope) outcome" where
  "envelope_of env t Bytes payload privKey accountID =
     wrap ''create signed envelope''
       (CreateSignedEnvelope (me_sign env) (me_clock env t) (Bytes (me_marshal env)) payload privKey accountID)"

definition mcp_createSignedEnvelope ::
    "mcp_env \<Rightarrow> nat \<Rightarrow> (marshaller \<Rightarrow> 'p \<Rightarrow> byte list) \<Rightarrow> string \<Rightarrow> 'p \<Rightarrow> (error, 'p SignedEnvelope) outcome" where
  "mcp_createSignedEnvelope env t Bytes accountID payload =
     (case me_ca env of
        None \<Rightarrow> Err CANotAvailable
      | Some ca \<Rightarrow>
        obind (if accountID = id_String (ScalegraphIdFromPublicKey (me_sha1 env) (ca_publicKey ca))
               then Ok (ca_privateKey ca) else stored_key env accountID) (\<lambda>privKey.
        envelope_of env t Bytes payload privKey accountID))"

definition getAccountNonce :: "mcp_env \<Rightarrow> string \<Rightarrow> App \<Rightarrow> uint64 client_call" where
  "getAccountNonce env accountID app =
     cbind (locally (parse_field ''account ID'' accountID) app) (\<lambda>i app.
     cbind (locally (wrap ''create signed request''
              (mcp_createSignedEnvelope env 0 GetAccountPayload_Bytes (id_String i)
                 \<lparr>gap_AccountID = id_String i\<rparr>)) app) (\<lambda>signedReq app.
     cbind (wrap_client ''get account'' (client_GetAccount (me_channel env 0) i (Some signedReq) app)) (\<lambda>acc.
     locally (Ok (GetNonce acc)))))"

section \<open>Tools without a signature of an account\<close>

definition mcp_create_account :: "mcp_env \<Rightarrow> CreateAccountArgs \<Rightarrow> App \<Rightarrow> mcp_result" where
  "mcp_create_account env args app =
     (case me_ca env of
        None \<Rightarrow> (Panic, app, [])
      | Some ca \<Rightarrow>
        cbind (locally (wrap ''create signed request''
                 (mcp_createSignedEnvelope env 0 CreateAccountPayload_Bytes
                    (id_String (ScalegraphIdFromPublicKey (me_sha1 env) (ca_publicKey ca)))
                    \<lparr>cap_InitialBalance = cra_Balance args\<rparr>)) app) (\<lambda>signedEnvelope app.
        cbind (CreateAccountWithCredentials (me_channel env 0) (cra_Balance args) (Some signedEnvelope) app)
          (\<lambda>(acc, cert). locally (Ok (CreatedAccount (acc_id acc) (balance acc) cert)))))"

definition mcp_get_accounts :: "mcp_env \<Rightarrow> App \<Rightarrow> mcp_result" where
  "mcp_get_accounts env app =
     cbind (client_GetAccounts (me_channel env 0) app) (\<lambda>accs.
     locally (Ok (let accounts = me_listAccounts env accs in
       if length accounts = 0 then NoAccountsFound
       else AccountList (map (\<lambda>acc. (acc_id acc, balance acc)) accounts))))"

definition mcp_mint :: "mcp_env \<Rightarrow> MintArgs \<Rightarrow> App \<Rightarrow> mcp_result" where
  "mcp_mint env args app =
     cbind (locally (parse_field ''account ID'' (mia_To args)) app) (\<lambda>toID app.
     cbind (client_Mint (me_channel env 0) toID (mia_Amount args) app) (\<lambda>_.
     locally (obind (short (mia_To args)) (\<lambda>t. Ok (MintedText (mia_Amount args) t)))))"

definition mcp_get_account_count :: "mcp_env \<Rightarrow> App \<Rightarrow> mcp_result" where
  "mcp_get_account_count env app =
     cbind (client_AccountCount (me_channel env 0) app) (\<lambda>count. locally (Ok (AccountTotal count)))"

definition mcp_get_virtual_nodes :: "mcp_env \<Rightarrow> App \<Rightarrow> mcp_result" where
  "mcp_get_virtual_nodes env =
     locally (Ok (if length (me_vapps env) = 0 then NoVirtualNodes
       else VirtualNodesText (map (\<lambda>vapp. (vapp_ID vapp, Addresses vapp)) (me_vapps env))))"

definition mcp_admin_create_account :: "mcp_env \<Rightarrow> AdminCreateAccountArgs \<Rightarrow> App \<Rightarrow> mcp_result" where
  "mcp_admin_create_account env args app =
     cbind (AdminCreateAccount (me_channel env 0) (aca_Balance args) app)
       (\<lambda>(acc, cert). locally (Ok (AdminCreatedAccount (acc_id acc) (balance acc))))"

definition mcp_admin_mint :: "mcp_env \<Rightarrow> AdminMintArgs \<Rightarrow> App \<Rightarrow> mcp_result" where
  "mcp_admin_mint env args app =
     cbind (locally (parse_field ''account ID'' (ama_To args)) app) (\<lambda>toID app.
     cbind (AdminMint (me_channel env 0) toID (ama_Amount args) app) (\<lambda>_.
     locally (obind (short (ama_To args)) (\<lambda>t. Ok (MintedText (ama_Amount args) t)))))"

section \<open>Tools that read an account\<close>

definition mcp_get_account :: "mcp_env \<Rightarrow> GetAccountArgs \<Rightarrow> App \<Rightarrow> mcp_result" where
  "mcp_get_account env args app =
     cbind (locally (parse_field ''account ID'' (gea_ID args)) app) (\<lambda>i app.
     cbind (locally (wrap ''create signed request''
              (mcp_createSignedEnvelope env 0 GetAccountPayload_Bytes (id_String i)
                 \<lparr>gap_AccountID = id_String i\<rparr>)) app) (\<lambda>signedReq app.
     cbind (client_GetAccount (me_channel env 0) i (Some signedReq) app) (\<lambda>acc.
     locally (Ok (AccountText (acc_id acc) (balance acc))))))"

definition mcp_lookup_token :: "mcp_env \<Rightarrow> LookupTokenArgs \<Rightarrow> App \<Rightarrow> mcp_result" where
  "mcp_lookup_token env args app =
     cbind (locally (parse_field ''account_id'' (lka_AccountID args)) app) (\<lambda>_ app.
     cbind (locally (require ''token_id'' (lka_TokenID args)) app) (\<lambda>_ app.
     cbind (locally (wrap ''create signed request''
              (mcp_createSignedEnvelope env 0 LookupTokenPayload_Bytes (lka_AccountID args)
                 \<lparr>ltp_TokenID = lka_TokenID args, ltp_AccountID = lka_AccountID args\<rparr>)) app) (\<lambda>signedEnvelope app.
     cbind (LookupTokenSigned (me_channel env 0) signedEnvelope app) (\<lambda>found.
     locally (case found of
         None \<Rightarrow> obind (short (lka_AccountID args)) (\<lambda>a. Ok (TokenMissingText (lka_TokenID args) a))
       | Some t \<Rightarrow> Ok (TokenFoundText (token_ID t) (tok_value t) (map_option id_String (clawbackAddress t))))))))"

section \<open>The transfer tool\<close>

text \<open>
  The error of the first envelope is overwritten before it is looked at, so the request may go
  out with a nil envelope; the payload is built without its sender.
\<close>

definition mcp_transfer :: "mcp_env \<Rightarrow> TransferArgs \<Rightarrow> App \<Rightarrow> mcp_result" where
  "mcp_transfer env args app =
     cbind (locally (parse_field ''from account ID'' (tfa_From args)) app) (\<lambda>fromID app.
     cbind (locally
        (case mcp_createSignedEnvelope env 0 GetAccountPayload_Bytes (id_String fromID)
                \<lparr>gap_AccountID = id_String fromID\<rparr> of
           Ok e \<Rightarrow> Ok (Some e)
         | Err e \<Rightarrow> Ok None
         | Panic \<Rightarrow> Panic) app) (\<lambda>signedReq app.
     cbind (wrap_client ''get account for nonce''
              (client_GetAccount (me_channel env 0) fromID signedReq app)) (\<lambda>fromAccount app.
     (let transferReq = \<lparr>tp_From = [], tp_To = tfa_To args, tp_Amount = tfa_Amount args,
            tp_Nonce = GetNonce fromAccount, tp_Timestamp = me_clock env 1\<rparr> in
     cbind (locally (mcp_createSignedEnvelope env 2 TransferPayload_Bytes (tfa_From args) transferReq) app)
       (\<lambda>signedEnvelope app.
     cbind (TransferSigned (me_channel env 1) signedEnvelope app) (\<lambda>_.
     locally (short2 (tfa_From args) (tfa_To args) (TransferredText (tfa_Amount args)))))))))"

section \<open>Signed token tools\<close>

text \<open>
  After its own checks every token tool goes the same way: the nonce of the acting account, the
  payload with it, the envelope signed by that account, the client call, and the text.
\<close>

definition acting_tool ::
    "mcp_env \<Rightarrow> string \<Rightarrow> (marshaller \<Rightarrow> 'p \<Rightarrow> byte list) \<Rightarrow> (uint64 \<Rightarrow> 'p) \<Rightarrow>
     (channel \<Rightarrow> 'p SignedEnvelope \<Rightarrow> App \<Rightarrow> 'r client_call) \<Rightarrow> ('r \<Rightarrow> (error, mcp_text) outcome) \<Rightarrow>
     App \<Rightarrow> mcp_result" where
  "acting_tool env accountID Bytes payload client_op reply app =
     cbind (wrap_client ''get account nonce'' (getAccountNonce env accountID app)) (\<lambda>nonce app.
     cbind (locally (wrap ''create signed request''
              (mcp_createSignedEnvelope env 1 Bytes accountID (payload nonce))) app) (\<lambda>signedEnvelope app.
     cbind (client_op (me_channel env 1) signedEnvelope app) (\<lambda>r. locally (reply r))))"

definition mcp_mint_token :: "mcp_env \<Rightarrow> MintTokenArgs \<Rightarrow> App \<Rightarrow> mcp_result" where
  "mcp_mint_token env args app =
     cbind (locally (parse_field ''account_id'' (mta_AccountID args)) app) (\<lambda>_ app.
     cbind (locally (require ''token_value'' (mta_TokenValue args)) app) (\<lambda>_ app.
     cbind (locally (optional_field ''clawback_address'' (mta_ClawbackAddress args)) app) (\<lambda>clawbackAddr app.
     cbind (locally (optional_field ''freeze_address'' (mta_FreezeAddress args)) app) (\<lambda>freezeAddr.
     acting_tool env (mta_AccountID args) MintTokenPayload_Bytes
       (\<lambda>nonce. \<lparr>mtp_TokenValue = mta_TokenValue args, mtp_ClawbackAddress = clawbackAddr,
                 mtp_FreezeAddress = freezeAddr, mtp_Nonce = nonce\<rparr>)
       MintTokenSigned
       (\<lambda>tokenID. obind (short (mta_AccountID args)) (\<lambda>a.
          obind (short_nonempty (mta_ClawbackAddress args)) (\<lambda>c.
          obind (short_nonempty (mta_FreezeAddress args)) (\<lambda>f.
          Ok (TokenMintedText a (mta_TokenValue args) tokenID (c @ f))))))))))"

definition mcp_authorize_token_transfer :: "mcp_env \<Rightarrow> AuthorizeTokenTransferArgs \<Rightarrow> App \<Rightarrow> mcp_result" where
  "mcp_authorize_token_transfer env args app =
     cbind (locally (parse_field ''account_id'' (ata_AccountID args)) app) (\<lambda>_ app.
     cbind (locally (parse_field ''token_owner_id'' (ata_TokenOwnerID args)) app) (\<lambda>_ app.
     cbind (locally (require ''token_id'' (ata_TokenID args)) app) (\<lambda>_.
     acting_tool env (ata_AccountID args) AuthorizeTokenTransferPayload_Bytes
       (\<lambda>nonce. \<lparr>atp_AccountID = ata_AccountID args, atp_TokenID = ata_TokenID args, atp_TokenOwnerID = ata_TokenOwnerID args, atp_Nonce = nonce\<rparr>)
       AuthorizeTokenTransferSigned
       (\<lambda>_. short2 (ata_AccountID args) (ata_TokenOwnerID args) (AuthorizedText (ata_TokenID args))))))"

definition mcp_unauthorize_token_transfer :: "mcp_env \<Rightarrow> UnauthorizeTokenTransferArgs \<Rightarrow> App \<Rightarrow> mcp_result" where
  "mcp_unauthorize_token_transfer env args app =
     cbind (locally (parse_field ''account_id'' (uta_AccountID args)) app) (\<lambda>_ app.
     cbind (locally (parse_field ''token_owner_id'' (uta_TokenOwnerID args)) app) (\<lambda>_ app.
     cbind (locally (require ''token_id'' (uta_TokenID args)) app) (\<lambda>_.
     acting_tool env (uta_AccountID args) UnauthorizeTokenTransferPayload_Bytes
       (\<lambda>nonce. \<lparr>utp_AccountID = uta_AccountID args, utp_TokenID = uta_TokenID args, utp_TokenOwnerID = uta_TokenOwnerID args, utp_Nonce = nonce\<rparr>)
       UnauthorizeTokenTransferSigned
       (\<lambda>_. obind (short (uta_AccountID args)) (\<lambda>a. Ok (UnauthorizedText (uta_TokenID args) a))))))"

definition mcp_transfer_token :: "mcp_env \<Rightarrow> TransferTokenArgs \<Rightarrow> App \<Rightarrow> mcp_result" where
  "mcp_transfer_token env args app =
     cbind (locally (parse_field ''from_account_id'' (tta_FromAccountID args)) app) (\<lambda>_ app.
     cbind (locally (parse_field ''to_account_id'' (tta_ToAccountID args)) app) (\<lambda>_ app.
     cbind (locally (require ''token_id'' (tta_TokenID args)) app) (\<lambda>_.
     acting_tool env (tta_FromAccountID args) TransferTokenPayload_Bytes
       (\<lambda>nonce. \<lparr>ttp_From = tta_FromAccountID args, ttp_To = tta_ToAccountID args, ttp_TokenID = tta_TokenID args, ttp_Nonce = nonce\<rparr>)
       TransferTokenSigned
       (\<lambda>_. short2 (tta_FromAccountID args) (tta_ToAccountID args) (TokenTransferredText (tta_TokenID args))))))"

definition mcp_burn_token :: "mcp_env \<Rightarrow> BurnTokenArgs \<Rightarrow> App \<Rightarrow> mcp_result" where
  "mcp_burn_token env args app =
     cbind (locally (parse_field ''account_id'' (bta_AccountID args)) app) (\<lambda>_ app.
     cbind (locally (require ''token_id'' (bta_TokenID args)) app) (\<lambda>_.
     acting_tool env (bta_AccountID args) BurnTokenPayload_Bytes
       (\<lambda>nonce. \<lparr>btp_AccountID = bta_AccountID args, btp_TokenID = bta_TokenID args, btp_Nonce = nonce\<rparr>)
       BurnTokenSigned
       (\<lambda>_. obind (short (bta_AccountID args)) (\<lambda>a. Ok (BurnedText (bta_TokenID args) a)))))"

text \<open>The clawback is signed by the account that gets the token.\<close>

definition mcp_clawback_token :: "mcp_env \<Rightarrow> ClawbackTokenArgs \<Rightarrow> App \<Rightarrow> mcp_result" where
  "mcp_clawback_token env args app =
     cbind (locally (parse_field ''from_account_id'' (cta_FromAccountID args)) app) (\<lambda>_ app.
     cbind (locally (parse_field ''to_account_id'' (cta_ToAccountID args)) app) (\<lambda>_ app.
     cbind (locally (require ''token_id'' (cta_TokenID args)) app) (\<lambda>_.
     acting_tool env (cta_ToAccountID args) ClawbackTokenPayload_Bytes
       (\<lambda>nonce. \<lparr>ctp_From = cta_FromAccountID args, ctp_To = cta_ToAccountID args, ctp_TokenID = cta_TokenID args, ctp_Nonce = nonce\<rparr>)
       ClawbackTokenSigned
       (\<lambda>_. short2 (cta_FromAccountID args) (cta_ToAccountID args) (ClawedBackText (cta_TokenID args))))))"

definition mcp_freeze_token :: "mcp_env \<Rightarrow> FreezeTokenArgs \<Rightarrow> App \<Rightarrow> mcp_result" where
  "mcp_freeze_token env args app =
     cbind (locally (parse_field ''freeze_authority_id'' (fza_FreezeAuthorityID args)) app) (\<lambda>_ app.
     cbind (locally (parse_field ''token_holder_id'' (fza_TokenHolderID args)) app) (\<lambda>_ app.
     cbind (locally (require ''token_id'' (fza_TokenID args)) app) (\<lambda>_.
     acting_tool env (fza_FreezeAuthorityID args) FreezeTokenPayload_Bytes
       (\<lambda>nonce. \<lparr>fzp_FreezeAuthority = fza_FreezeAuthorityID args, fzp_TokenHolder = fza_TokenHolderID args, fzp_TokenID = fza_TokenID args, fzp_Nonce = nonce\<rparr>)
       FreezeTokenSigned
       (\<lambda>_. short2 (fza_FreezeAuthorityID args) (fza_TokenHolderID args) (FrozenText (fza_TokenID args))))))"

definition mcp_unfreeze_token :: "mcp_env \<Rightarrow> UnfreezeTokenArgs \<Rightarrow> App \<Rightarrow> mcp_result" where
  "mcp_unfreeze_token env args app =
     cbind (locally (parse_field ''freeze_authority_id'' (ufa_FreezeAuthorityID args)) app) (\<lambda>_ app.
     cbind (locally (parse_field ''token_holder_id'' (ufa_TokenHolderID args)) app) (\<lambda>_ app.
     cbind (locally (require ''token_id'' (ufa_TokenID args)) app) (\<lambda>_.
     acting_tool env (ufa_FreezeAuthorityID args) UnfreezeTokenPayload_Bytes
       (\<lambda>nonce. \<lparr>ufp_FreezeAuthority = ufa_FreezeAuthorityID args, ufp_TokenHolder = ufa_TokenHolderID args, ufp_TokenID = ufa_TokenID args, ufp_Nonce = nonce\<rparr>)
       UnfreezeTokenSigned
       (\<lambda>_. short2 (ufa_FreezeAuthorityID args) (ufa_TokenHolderID args) (UnfrozenText (ufa_TokenID args))))))"

section \<open>Signed requests to be sent by other means\<close>

text \<open>\<^verbatim>\<open>json.MarshalIndent\<close> of the object with the envelope.\<close>

definition marshal_request ::
    "mcp_env \<Rightarrow> ('p SignedEnvelope \<Rightarrow> handed_envelope) \<Rightarrow> (string \<times> string) list \<Rightarrow>
     'p SignedEnvelope \<Rightarrow> (error, request_json) outcome" where
  "marshal_request env hand extra envelope =
     (if me_encodes env (hand envelope, extra) then Ok (hand envelope, extra)
      else Err (Failed ''marshal signed envelope'' JsonEncodeFailed))"

text \<open>
  Each case of the switch over the type; \<open>privKey\<close> is the account's key.  Only two of them ask
  for the account's nonce.
\<close>

definition request_transfer ::
    "mcp_env \<Rightarrow> CreateSignedRequestArgs \<Rightarrow> byte list \<Rightarrow> App \<Rightarrow> request_json client_call" where
  "request_transfer env args privKey app =
     cbind (locally (require ''to_id'' (csr_ToID args)) app) (\<lambda>_ app.
     cbind (locally (if fle (csr_Amount args) f0 then Err AmountNotPositive else Ok ()) app) (\<lambda>_ app.
     cbind (locally (parse_field ''to_id'' (csr_ToID args)) app) (\<lambda>_ app.
     cbind (wrap_client ''get account nonce'' (getAccountNonce env (csr_AccountID args) app)) (\<lambda>nonce.
     locally (obind (envelope_of env 2 TransferPayload_Bytes
        \<lparr>tp_From = csr_AccountID args, tp_To = csr_ToID args, tp_Amount = csr_Amount args,
         tp_Nonce = nonce, tp_Timestamp = me_clock env 1\<rparr> privKey (csr_AccountID args))
        (marshal_request env (\<lambda>e. HandedCall (CallTransfer e)) []))))))"

definition request_get_account ::
    "mcp_env \<Rightarrow> CreateSignedRequestArgs \<Rightarrow> App \<Rightarrow> request_json client_call" where
  "request_get_account env args =
     (let account = (case ScalegraphIdFromString (csr_AccountID args) of
          Ok i \<Rightarrow> id_String i | _ \<Rightarrow> id_String (mk_id (replicate 20 0))) in
      locally (obind (wrap ''create signed envelope''
         (mcp_createSignedEnvelope env 0 GetAccountPayload_Bytes (csr_AccountID args)
            \<lparr>gap_AccountID = account\<rparr>))
         (marshal_request env HandedGetAccount [(''account_id'', account)])))"

definition request_mint_token ::
    "mcp_env \<Rightarrow> CreateSignedRequestArgs \<Rightarrow> byte list \<Rightarrow> App \<Rightarrow> request_json client_call" where
  "request_mint_token env args privKey app =
     cbind (locally (require ''token_value'' (csr_TokenValue args)) app) (\<lambda>_ app.
     cbind (locally (optional_field ''clawback_address'' (csr_ClawbackAddress args)) app) (\<lambda>clawbackAddr app.
     cbind (locally (optional_field ''freeze_address'' (csr_FreezeAddress args)) app) (\<lambda>freezeAddr app.
     cbind (wrap_client ''get account nonce'' (getAccountNonce env (csr_AccountID args) app)) (\<lambda>nonce.
     locally (obind (envelope_of env 1 MintTokenPayload_Bytes
        \<lparr>mtp_TokenValue = csr_TokenValue args, mtp_ClawbackAddress = clawbackAddr,
         mtp_FreezeAddress = freezeAddr, mtp_Nonce = nonce\<rparr> privKey (csr_AccountID args))
        (marshal_request env (\<lambda>e. HandedCall (CallMintToken e)) []))))))"

definition request_lookup_token ::
    "mcp_env \<Rightarrow> CreateSignedRequestArgs \<Rightarrow> byte list \<Rightarrow> (error, request_json) outcome" where
  "request_lookup_token env args privKey =
     obind (require ''token_id'' (csr_TokenID args)) (\<lambda>_.
     obind (envelope_of env 0 LookupTokenPayload_Bytes
        \<lparr>ltp_TokenID = csr_TokenID args, ltp_AccountID = csr_AccountID args\<rparr> privKey (csr_AccountID args))
        (marshal_request env (\<lambda>e. HandedCall (CallLookupToken e)) [(''account_id'', csr_AccountID args), (''token_id'', csr_TokenID args)]))"

definition request_authorize_token_transfer ::
    "mcp_env \<Rightarrow> CreateSignedRequestArgs \<Rightarrow> byte list \<Rightarrow> (error, request_json) outcome" where
  "request_authorize_token_transfer env args privKey =
     obind (require ''token_id'' (csr_TokenID args)) (\<lambda>_.
     obind (require ''token_owner_id'' (csr_TokenOwnerID args)) (\<lambda>_.
     obind (envelope_of env 0 AuthorizeTokenTransferPayload_Bytes
        \<lparr>atp_AccountID = csr_AccountID args, atp_TokenID = csr_TokenID args, atp_TokenOwnerID = csr_TokenOwnerID args, atp_Nonce = 0\<rparr> privKey (csr_AccountID args))
        (marshal_request env (\<lambda>e. HandedCall (CallAuthorize e)) [])))"

definition request_unauthorize_token_transfer ::
    "mcp_env \<Rightarrow> CreateSignedRequestArgs \<Rightarrow> byte list \<Rightarrow> (error, request_json) outcome" where
  "request_unauthorize_token_transfer env args privKey =
     obind (require ''token_id'' (csr_TokenID args)) (\<lambda>_.
     obind (require ''token_owner_id'' (csr_TokenOwnerID args)) (\<lambda>_.
     obind (envelope_of env 0 UnauthorizeTokenTransferPayload_Bytes
        \<lparr>utp_AccountID = csr_AccountID args, utp_TokenID = csr_TokenID args, utp_TokenOwnerID = csr_TokenOwnerID args, utp_Nonce = 0\<rparr> privKey (csr_AccountID args))
        (marshal_request env (\<lambda>e. HandedCall (CallUnauthorize e)) [])))"

definition request_transfer_token ::
    "mcp_env \<Rightarrow> CreateSignedRequestArgs \<Rightarrow> byte list \<Rightarrow> (error, request_json) outcome" where
  "request_transfer_token env args privKey =
     obind (require ''token_id'' (csr_TokenID args)) (\<lambda>_.
     obind (require ''to_account_id'' (csr_ToAccountID args)) (\<lambda>_.
     obind (parse_field ''to_account_id'' (csr_ToAccountID args)) (\<lambda>_.
     obind (envelope_of env 0 TransferTokenPayload_Bytes
        \<lparr>ttp_From = csr_AccountID args, ttp_To = csr_ToAccountID args, ttp_TokenID = csr_TokenID args, ttp_Nonce = 0\<rparr> privKey (csr_AccountID args))
        (marshal_request env (\<lambda>e. HandedCall (CallTransferToken e)) []))))"

definition request_burn_token ::
    "mcp_env \<Rightarrow> CreateSignedRequestArgs \<Rightarrow> byte list \<Rightarrow> (error, request_json) outcome" where
  "request_burn_token env args privKey =
     obind (require ''token_id'' (csr_TokenID args)) (\<lambda>_.
     obind (envelope_of env 0 BurnTokenPayload_Bytes
        \<lparr>btp_AccountID = csr_AccountID args, btp_TokenID = csr_TokenID args, btp_Nonce = 0\<rparr> privKey (csr_AccountID args))
        (marshal_request env (\<lambda>e. HandedCall (CallBurnToken e)) []))"

definition request_clawback_token ::
    "mcp_env \<Rightarrow> CreateSignedRequestArgs \<Rightarrow> byte list \<Rightarrow> (error, request_json) outcome" where
  "request_clawback_token env args privKey =
     obind (require ''token_id'' (csr_TokenID args)) (\<lambda>_.
     obind (require ''from_account_id'' (csr_FromAccountID args)) (\<lambda>_.
     obind (parse_field ''from_account_id'' (csr_FromAccountID args)) (\<lambda>_.
     obind (envelope_of env 0 ClawbackTokenPayload_Bytes
        \<lparr>ctp_From = csr_FromAccountID args, ctp_To = csr_AccountID args, ctp_TokenID = csr_TokenID args, ctp_Nonce = 0\<rparr> privKey (csr_AccountID args))
        (marshal_request env (\<lambda>e. HandedCall (CallClawback e)) []))))"

definition request_freeze_token ::
    "mcp_env \<Rightarrow> CreateSignedRequestArgs \<Rightarrow> byte list \<Rightarrow> (error, request_json) outcome" where
  "request_freeze_token env args privKey =
     obind (require ''token_id'' (csr_TokenID args)) (\<lambda>_.
     obind (require ''token_holder_id'' (csr_TokenHolderID args)) (\<lambda>_.
     obind (parse_field ''token_holder_id'' (csr_TokenHolderID args)) (\<lambda>_.
     obind (envelope_of env 0 FreezeTokenPayload_Bytes
        \<lparr>fzp_FreezeAuthority = csr_AccountID args, fzp_TokenHolder = csr_TokenHolderID args, fzp_TokenID = csr_TokenID args, fzp_Nonce = 0\<rparr> privKey (csr_AccountID args))
        (marshal_request env (\<lambda>e. HandedCall (CallFreeze e)) []))))"

definition request_unfreeze_token ::
    "mcp_env \<Rightarrow> CreateSignedRequestArgs \<Rightarrow> byte list \<Rightarrow> (error, request_json) outcome" where
  "request_unfreeze_token env args privKey =
     obind (require ''token_id'' (csr_TokenID args)) (\<lambda>_.
     obind (require ''token_holder_id'' (csr_TokenHolderID args)) (\<lambda>_.
     obind (parse_field ''token_holder_id'' (csr_TokenHolderID args)) (\<lambda>_.
     obind (envelope_of env 0 UnfreezeTokenPayload_Bytes
        \<lparr>ufp_FreezeAuthority = csr_AccountID args, ufp_TokenHolder = csr_TokenHolderID args, ufp_TokenID = csr_TokenID args, ufp_Nonce = 0\<rparr> privKey (csr_AccountID args))
        (marshal_request env (\<lambda>e. HandedCall (CallUnfreeze e)) []))))"

definition request_switch ::
    "mcp_env \<Rightarrow> CreateSignedRequestArgs \<Rightarrow> byte list \<Rightarrow> App \<Rightarrow> request_json client_call" where
  "request_switch env args privKey =
     (let ty = csr_Type args in
      if ty = ''transfer'' then request_transfer env args privKey
      else if ty = ''get_account'' then request_get_account env args
      else if ty = ''mint_token'' then request_mint_token env args privKey
      else locally
       (if ty = ''lookup_token'' then request_lookup_token env args privKey
        else if ty = ''authorize_token_transfer'' then request_authorize_token_transfer env args privKey
        else if ty = ''unauthorize_token_transfer'' then request_unauthorize_token_transfer env args privKey
        else if ty = ''transfer_token'' then request_transfer_token env args privKey
        else if ty = ''burn_token'' then request_burn_token env args privKey
        else if ty = ''clawback_token'' then request_clawback_token env args privKey
        else if ty = ''freeze_token'' then request_freeze_token env args privKey
        else if ty = ''unfreeze_token'' then request_unfreeze_token env args privKey
        else Err (UnsupportedRequestType ty)))"

text \<open>The endpoint the instructions name; the lookup has none.\<close>

definition request_endpoint :: "string \<Rightarrow> string option" where
  "request_endpoint ty = map_of
     [(''transfer'', ''/transfer''), (''get_account'', ''/accounts/me''),
      (''mint_token'', ''/tokens/mint''), (''authorize_token_transfer'', ''/tokens/authorize''),
      (''unauthorize_token_transfer'', ''/tokens/unauthorize''), (''transfer_token'', ''/tokens/transfer''),
      (''burn_token'', ''/tokens/burn''), (''clawback_token'', ''/tokens/clawback''),
      (''freeze_token'', ''/tokens/freeze''), (''unfreeze_token'', ''/tokens/unfreeze'')] ty"

definition mcp_create_signed_request :: "mcp_env \<Rightarrow> CreateSignedRequestArgs \<Rightarrow> App \<Rightarrow> mcp_result" where
  "mcp_create_signed_request env args app =
     cbind (locally (parse_field ''account_id'' (csr_AccountID args)) app) (\<lambda>_ app.
     cbind (locally (if me_ca env = None then Err CANotAvailable else Ok ()) app) (\<lambda>_ app.
     cbind (locally (stored_key env (csr_AccountID args)) app) (\<lambda>privKey app.
     cbind (request_switch env args privKey app) (\<lambda>json.
     locally (obind (short (csr_AccountID args)) (\<lambda>a.
       Ok (SignedRequestText (csr_Type args) a json (request_endpoint (csr_Type args)))))))))"

section \<open>The tools together\<close>

datatype mcp_tool =
    Tool_create_account CreateAccountArgs
  | Tool_get_accounts
  | Tool_get_account GetAccountArgs
  | Tool_transfer TransferArgs
  | Tool_mint MintArgs
  | Tool_mint_token MintTokenArgs
  | Tool_authorize_token_transfer AuthorizeTokenTransferArgs
  | Tool_unauthorize_token_transfer UnauthorizeTokenTransferArgs
  | Tool_transfer_token TransferTokenArgs
  | Tool_burn_token BurnTokenArgs
  | Tool_clawback_token ClawbackTokenArgs
  | Tool_freeze_token FreezeTokenArgs
  | Tool_unfreeze_token UnfreezeTokenArgs
  | Tool_lookup_token LookupTokenArgs
  | Tool_get_account_count
  | Tool_get_virtual_nodes
  | Tool_admin_create_account AdminCreateAccountArgs
  | Tool_admin_mint AdminMintArgs
  | Tool_create_signed_request CreateSignedRequestArgs

fun registerTools :: "mcp_env \<Rightarrow> mcp_tool \<Rightarrow> App \<Rightarrow> mcp_result" where
  "registerTools env (Tool_create_account args) = mcp_create_account env args"
| "registerTools env Tool_get_accounts = mcp_get_accounts env"
| "registerTools env (Tool_get_account args) = mcp_get_account env args"
| "registerTools env (Tool_transfer args) = mcp_transfer env args"
| "registerTools env (Tool_mint args) = mcp_mint env args"
| "registerTools env (Tool_mint_token args) = mcp_mint_token env args"
| "registerTools env (Tool_authorize_token_transfer args) = mcp_authorize_token_transfer env args"
| "registerTools env (Tool_unauthorize_token_transfer args) = mcp_unauthorize_token_transfer env args"
| "registerTools env (Tool_transfer_token args) = mcp_transfer_token env args"
| "registerTools env (Tool_burn_token args) = mcp_burn_token env args"
| "registerTools env (Tool_clawback_token args) = mcp_clawback_token env args"
| "registerTools env (Tool_freeze_token args) = mcp_freeze_token env args"
| "registerTools env (Tool_unfreeze_token args) = mcp_unfreeze_token env args"
| "registerTools env (Tool_lookup_token args) = mcp_lookup_token env args"
| "registerTools env Tool_get_account_count = mcp_get_account_count env"
| "registerTools env Tool_get_virtual_nodes = mcp_get_virtual_nodes env"
| "registerTools env (Tool_admin_create_account args) = mcp_admin_create_account env args"
| "registerTools env (Tool_admin_mint args) = mcp_admin_mint env args"
| "registerTools env (Tool_create_signed_request args) = mcp_create_signed_request env args"

end
