(* ===== verification/Mcp_Laws.thy ===== *)
theory Mcp_Laws
  imports Mcp
begin

text \<open>
  What the agent's tools do to the ledger: which of them only read it, that the others take at
  most one step of the App, and what becomes of a signed request that is handed out.
\<close>

section \<open>Effects\<close>

text \<open>A call that leaves the App and announces nothing, and one that takes at most one step.\<close>

definition only_reads :: "App \<Rightarrow> 'a client_call \<Rightarrow> bool" where
  "only_reads app c \<longleftrightarrow> snd c = (app, [])"

definition one_step :: "(App \<Rightarrow> App \<Rightarrow> bool) \<Rightarrow> App \<Rightarrow> 'a client_call \<Rightarrow> bool" where
  "one_step S app c \<longleftrightarrow> fst (snd c) = app \<or> S app (fst (snd c))"

lemma only_reads_locally: "only_reads app (locally r app)"
  by (simp add: only_reads_def locally_def)

lemma only_reads_wrap: "only_reads app c \<Longrightarrow> only_reads app (wrap_client msg c)"
  by (simp add: only_reads_def wrap_client_def)

lemma only_reads_bind:
  "only_reads app c \<Longrightarrow> (\<And>x. fst c = Ok x \<Longrightarrow> only_reads app (f x app)) \<Longrightarrow> only_reads app (cbind c f)"
  by (cases "(c, f)" rule: cbind.cases) (auto simp: only_reads_def split: prod.splits)

lemma one_step_if_reads: "only_reads app c \<Longrightarrow> one_step S app c"
  by (simp add: only_reads_def one_step_def)

lemma one_step_bind:
  "only_reads app c \<Longrightarrow> (\<And>x. one_step S app (f x app)) \<Longrightarrow> one_step S app (cbind c f)"
  by (cases "(c, f)" rule: cbind.cases) (auto simp: only_reads_def one_step_def split: prod.splits)

lemma one_step_answer:
  "one_step S app c \<Longrightarrow> one_step S app (cbind c (\<lambda>x. locally (g x)))"
  by (cases "(c, \<lambda>x. locally (g x))" rule: cbind.cases) (auto simp: one_step_def locally_def)

lemma one_step_wrap: "one_step S app c \<Longrightarrow> one_step S app (wrap_client msg c)"
  by (simp add: one_step_def wrap_client_def)

lemma cbind_Ok_iff:
  "cbind c f = (Ok y, app', msgs) \<longleftrightarrow>
   (\<exists>x app1 m1 m2. c = (Ok x, app1, m1) \<and> f x app1 = (Ok y, app', m2) \<and> msgs = m1 @ m2)"
  by (cases "(c, f)" rule: cbind.cases) (auto split: prod.splits)

lemma locally_Ok: "locally r app = (Ok x, app', msgs) \<longleftrightarrow> r = Ok x \<and> app' = app \<and> msgs = []"
  by (auto simp: locally_def)

lemma CreateSignedEnvelope_Ok_iff:
  "CreateSignedEnvelope sign now Bytes p k i = Ok e \<longleftrightarrow>
   (\<exists>sig. Sign sign now (Bytes p) k i = Ok sig \<and> e = \<lparr>Payload = p, env_Signature = sig\<rparr>)"
  by (cases "Sign sign now (Bytes p) k i") (auto simp: CreateSignedEnvelope_def)

lemma envelope_payload:
  "mcp_createSignedEnvelope env t Bytes i p = Ok e \<Longrightarrow> Payload e = p"
  by (auto simp: mcp_createSignedEnvelope_def envelope_of_def obind_Ok_iff wrap_Ok_iff
      CreateSignedEnvelope_Ok_iff split: option.splits)

lemma envelope_signer:
  "mcp_createSignedEnvelope env t Bytes i p = Ok e \<Longrightarrow> SignerID (env_Signature e) = i"
  by (auto simp: mcp_createSignedEnvelope_def envelope_of_def obind_Ok_iff wrap_Ok_iff
      CreateSignedEnvelope_Ok_iff Sign_def split: option.splits if_splits)

lemma wrap_client_Ok_iff: "wrap_client msg c = (Ok x, s) \<longleftrightarrow> c = (Ok x, s)"
  by (cases c) (auto simp: wrap_client_def wrap_Ok_iff)

lemma parse_field_Ok_iff: "parse_field f s = Ok i \<longleftrightarrow> ScalegraphIdFromString s = Ok i"
  by (cases "parse_id s") (auto simp: parse_field_def parse_id_Ok [symmetric])

section \<open>The server behind the tools\<close>

fun reading_request :: "request \<Rightarrow> bool" where
  "reading_request (ReqGetAccount r) = True"
| "reading_request ReqGetAccounts = True"
| "reading_request ReqAccountCount = True"
| "reading_request (ReqLookupToken r) = True"
| "reading_request _ = False"

text \<open>
  What the tools rely on: a request takes at most one step \<open>S\<close> of the App, and none when it only
  reads.
\<close>

locale mcp_world =
  fixes channel :: "nat \<Rightarrow> channel"
    and S :: "App \<Rightarrow> App \<Rightarrow> bool"
  assumes channel_step: "channel k req app = (r, app', msgs) \<Longrightarrow> app' = app \<or> S app app'"
    and channel_reads: "reading_request req \<Longrightarrow> channel k req app = (r, app', msgs) \<Longrightarrow> app' = app \<and> msgs = []"
begin

lemma Send_step: "one_step S app (Send (channel k) f req app)"
  using channel_step by (auto simp: one_step_def Send_def split: prod.splits outcome.splits)

lemma Send_reads: "reading_request req \<Longrightarrow> only_reads app (Send (channel k) f req app)"
  using channel_reads by (auto simp: only_reads_def Send_def split: prod.splits outcome.splits)

lemma send_built_step: "one_step S app (send_built (channel k) f b app)"
  using Send_step by (auto simp: send_built_def one_step_def split: outcome.splits)

lemma send_built_reads:
  "(\<And>req. b = Ok req \<Longrightarrow> reading_request req) \<Longrightarrow> only_reads app (send_built (channel k) f b app)"
  using Send_reads by (auto simp: send_built_def only_reads_def split: outcome.splits)

lemma lookup_reads: "only_reads app (LookupTokenSigned (channel k) e app)"
  unfolding LookupTokenSigned_def
  by (rule send_built_reads) (auto simp: LookupTokenSigned_request_def obind_Ok_iff)

lemma transfer_without_sender_reads:
  "tp_From (Payload e) = [] \<Longrightarrow> only_reads app (TransferSigned (channel k) e app)"
  unfolding TransferSigned_def
  by (rule send_built_reads)
    (simp add: TransferSigned_request_def parse_id_def ScalegraphIdFromString_def)

lemma account_reads: "only_reads app (client_GetAccount (channel k) i e app)"
  unfolding client_GetAccount_def by (rule Send_reads) simp

lemma nonce_reads:
  assumes "me_channel env = channel"
  shows "only_reads app (getAccountNonce env i app)"
  unfolding getAccountNonce_def assms
  by (intro only_reads_bind only_reads_locally only_reads_wrap account_reads)

lemmas reads_intros = only_reads_bind only_reads_locally only_reads_wrap account_reads nonce_reads
  lookup_reads

lemma acting_tool_step:
  assumes "me_channel env = channel"
    and "\<And>e. one_step S app (client_op (channel 1) e app)"
  shows "one_step S app (acting_tool env i Bytes payload client_op reply app)"
  unfolding acting_tool_def assms(1)
  by (intro one_step_bind one_step_answer assms(2) only_reads_locally only_reads_wrap nonce_reads assms(1))

lemma listing_reads:
  assumes "me_channel env = channel"
  shows "only_reads app (mcp_get_accounts env app)" "only_reads app (mcp_get_account_count env app)"
    "only_reads app (mcp_get_virtual_nodes env app)"
  unfolding mcp_get_accounts_def mcp_get_account_count_def mcp_get_virtual_nodes_def
    client_GetAccounts_def client_AccountCount_def assms
  by (intro only_reads_bind only_reads_locally Send_reads; simp)+

lemma account_tools_read:
  assumes "me_channel env = channel"
  shows "only_reads app (mcp_get_account env ga app)" "only_reads app (mcp_lookup_token env la app)"
  unfolding mcp_get_account_def mcp_lookup_token_def assms
  by (intro reads_intros)+

lemma request_cases_read:
  assumes "me_channel env = channel"
  shows "only_reads app (request_switch env args privKey app)"
proof -
  have "only_reads app (request_transfer env args privKey app)"
    "only_reads app (request_mint_token env args privKey app)"
    "only_reads app (request_get_account env args app)"
    unfolding request_transfer_def request_mint_token_def request_get_account_def Let_def
    by (intro reads_intros assms)+
  then show ?thesis by (simp add: request_switch_def Let_def only_reads_locally)
qed

lemma create_signed_request_reads:
  assumes "me_channel env = channel"
  shows "only_reads app (mcp_create_signed_request env args app)"
  unfolding mcp_create_signed_request_def
  by (intro reads_intros request_cases_read assms)

lemma transfer_tool_reads:
  assumes "me_channel env = channel"
  shows "only_reads app (mcp_transfer env args app)"
  unfolding mcp_transfer_def assms Let_def
  by (intro reads_intros transfer_without_sender_reads)
    (auto simp: locally_def dest!: envelope_payload)

lemma signed_tools_step:
  assumes "me_channel env = channel"
  shows "one_step S app (mcp_mint_token env a1 app)"
    "one_step S app (mcp_authorize_token_transfer env a2 app)"
    "one_step S app (mcp_unauthorize_token_transfer env a3 app)"
    "one_step S app (mcp_transfer_token env a4 app)"
    "one_step S app (mcp_burn_token env a5 app)"
    "one_step S app (mcp_clawback_token env a6 app)"
    "one_step S app (mcp_freeze_token env a7 app)"
    "one_step S app (mcp_unfreeze_token env a8 app)"
  unfolding mcp_mint_token_def mcp_authorize_token_transfer_def mcp_unauthorize_token_transfer_def
    mcp_transfer_token_def mcp_burn_token_def mcp_clawback_token_def mcp_freeze_token_def
    mcp_unfreeze_token_def MintTokenSigned_def AuthorizeTokenTransferSigned_def
    UnauthorizeTokenTransferSigned_def TransferTokenSigned_def BurnTokenSigned_def
    ClawbackTokenSigned_def FreezeTokenSigned_def UnfreezeTokenSigned_def
  by (intro one_step_bind only_reads_locally acting_tool_step assms send_built_step)+

lemma system_tools_step:
  assumes "me_channel env = channel"
  shows "one_step S app (mcp_create_account env a1 app)" "one_step S app (mcp_mint env a2 app)"
    "one_step S app (mcp_admin_create_account env a3 app)" "one_step S app (mcp_admin_mint env a4 app)"
proof -
  show "one_step S app (mcp_create_account env a1 app)"
    unfolding mcp_create_account_def CreateAccountWithCredentials_def assms
    by (auto split: option.split simp: case_prod_unfold one_step_def [of S app "(Panic, app, [])"]
        intro!: one_step_bind one_step_answer only_reads_locally Send_step)
  show "one_step S app (mcp_mint env a2 app)" "one_step S app (mcp_admin_create_account env a3 app)"
    "one_step S app (mcp_admin_mint env a4 app)"
    unfolding mcp_mint_def mcp_admin_create_account_def mcp_admin_mint_def client_Mint_def
      AdminCreateAccount_def AdminMint_def assms case_prod_unfold
    by (intro one_step_bind one_step_answer only_reads_locally Send_step)+
qed

end

lemma handleRequest_reading:
  assumes "reading_request req" "handleRequest s inp req app = (r, app', msgs)"
  shows "app' = app \<and> msgs = []"
proof -
  have "\<exists>h. handler (lib_sha1 (srv_lib s)) inp req = Some h \<and> snd (h app) = app"
    "\<And>resp. publishEvent s inp req resp = Ok []"
    using assms(1) by (cases req; simp add: respond_state publishEvent_def)+
  then show ?thesis using assms(2)
    by (auto simp: handleRequest_def Let_def split: option.splits outcome.splits prod.splits if_splits)
qed

interpretation served_tools: mcp_world "\<lambda>k. sendRequest s (inp k) (w1 k) (w2 k)" "app_step (lib_sha1 (srv_lib s))"
proof
  fix k req app r app' msgs
  assume *: "sendRequest s (inp k) (w1 k) (w2 k) req app = (r, app', msgs)"
  then show "app' = app \<or> app_step (lib_sha1 (srv_lib s)) app app'"
    by (auto simp: sendRequest_def dest: handleRequest_step split: wait.splits prod.splits)
  show "app' = app \<and> msgs = []" if "reading_request req"
    using * by (auto simp: sendRequest_def dest: handleRequest_reading [OF that] split: wait.splits prod.splits)
qed

section \<open>Signed requests that are handed out\<close>

lemma envelope_of_Ok_iff:
  "envelope_of env t Bytes p k i = Ok e \<longleftrightarrow> length k = 64 \<and>
   e = \<lparr>Payload = p, env_Signature = \<lparr>sig_Algorithm = ''Ed25519'',
     sig_Value = me_sign env k (Bytes (me_marshal env) p), SignerID = i, sig_Timestamp = me_clock env t\<rparr>\<rparr>"
  by (auto simp: envelope_of_def wrap_Ok_iff CreateSignedEnvelope_Ok_iff Sign_def)

lemma marshal_request_Ok_iff:
  "marshal_request env hand extra e = Ok j \<longleftrightarrow> me_encodes env (hand e, extra) \<and> j = (hand e, extra)"
  by (auto simp: marshal_request_def)

lemmas handed_Ok_iffs = cbind_Ok_iff locally_Ok obind_Ok_iff envelope_of_Ok_iff marshal_request_Ok_iff

lemmas request_case_defs = request_transfer_def request_get_account_def request_mint_token_def
  request_lookup_token_def request_authorize_token_transfer_def request_unauthorize_token_transfer_def
  request_transfer_token_def request_burn_token_def request_clawback_token_def
  request_freeze_token_def request_unfreeze_token_def

lemma handed_request_signed:
  assumes "request_switch env args k app = (Ok (HandedCall c, extra), app', msgs)"
  shows "call_actor c = csr_AccountID args \<and>
    (\<exists>t. call_signature c = \<lparr>sig_Algorithm = ''Ed25519'',
       sig_Value = me_sign env k (call_bytes (me_marshal env) c), SignerID = csr_AccountID args,
       sig_Timestamp = me_clock env t\<rparr>)"
  using assms unfolding request_switch_def Let_def request_case_defs
  by (auto simp: handed_Ok_iffs split: if_splits)

definition asks_nonce :: "string \<Rightarrow> bool" where
  "asks_nonce ty \<longleftrightarrow> ty = ''transfer'' \<or> ty = ''mint_token''"

lemma handed_request_nonce:
  assumes "request_switch env args k app = (Ok (HandedCall c, extra), app', msgs)"
    and "\<not> asks_nonce (csr_Type args)" "csr_Type args \<noteq> ''lookup_token''"
    and "built_request c = Ok req" "ScalegraphIdFromString (csr_AccountID args) = Ok i"
  shows "request_nonce req = Some (i, 0)"
  using assms unfolding request_switch_def Let_def request_case_defs asks_nonce_def
  by (auto simp: handed_Ok_iffs client_request_defs parse_id_Ok split: if_splits)

lemma create_signed_request_OkD:
  assumes "mcp_create_signed_request env args app0 = (Ok (SignedRequestText ty a json ep), app1, msgs)"
  shows "\<exists>k app app' m. stored_key env (csr_AccountID args) = Ok k \<and>
    request_switch env args k app = (Ok json, app', m) \<and>
    (\<exists>i. ScalegraphIdFromString (csr_AccountID args) = Ok i)"
  using assms
  by (cases "parse_id (csr_AccountID args)")
    (auto simp: mcp_create_signed_request_def handed_Ok_iffs parse_field_def parse_id_Ok)

text \<open>The request to read an account is signed through the helper, which knows the authority's own account.\<close>

definition signing_key :: "mcp_env \<Rightarrow> string \<Rightarrow> (error, byte list) outcome" where
  "signing_key env name =
     (case me_ca env of
        None \<Rightarrow> Err CANotAvailable
      | Some ca \<Rightarrow>
        if name = id_String (ScalegraphIdFromPublicKey (me_sha1 env) (ca_publicKey ca))
        then Ok (ca_privateKey ca) else stored_key env name)"

lemma handed_get_account_signed:
  assumes "request_switch env args k app = (Ok (HandedGetAccount e, extra), app', msgs)"
    and "ScalegraphIdFromString (csr_AccountID args) = Ok i"
  shows "Payload e = \<lparr>gap_AccountID = id_String i\<rparr> \<and>
    (\<exists>key t. signing_key env (csr_AccountID args) = Ok key \<and>
      env_Signature e = \<lparr>sig_Algorithm = ''Ed25519'',
        sig_Value = me_sign env key (GetAccountPayload_Bytes (me_marshal env) (Payload e)),
        SignerID = csr_AccountID args, sig_Timestamp = me_clock env t\<rparr>)"
  using assms unfolding request_switch_def Let_def request_case_defs
  by (auto simp: handed_Ok_iffs wrap_Ok_iff mcp_createSignedEnvelope_def signing_key_def
      split: if_splits option.splits)

lemma get_account_request_verified:
  assumes "ScalegraphIdFromString name = Ok i" "Payload e = \<lparr>gap_AccountID = id_String i\<rparr>"
    and "SignerID (env_Signature e) = name"
  shows "request_Verify sha1 m verify ca (ReqGetAccount \<lparr>ga_AccountID = i, ga_SignedEnvelope = Some e\<rparr>) =
      Some (Ok ()) \<longleftrightarrow>
    verify name (GetAccountPayload_Bytes m (Payload e)) (env_Signature e) = Ok () \<and> canonical name"
  using assms parsed_canonical [of name i]
  by (auto simp: Verify_defs VerifyRequest_Some_iff id_String_not_Nil)

section \<open>A concrete authority\<close>

text \<open>
  The authority of the witnesses keeps the credentials of account 1; a key signs by repeating
  its first byte, as the library of the concrete server expects.
\<close>

definition toy_store :: files where
  "toy_store = [accountPath ''d'' (id_String (test_id 1)) ''private.key'' \<mapsto>
       pem_EncodeToMemory toy_key_lib (PRIVATE_KEY, replicate 64 1),
     accountPath ''d'' (id_String (test_id 1)) ''certificate.crt'' \<mapsto> []]"

definition toy_mcp :: mcp_env where
  "toy_mcp = \<lparr>me_channel = (\<lambda>k. sendRequest toy_server (toy_inputs 7) Delivered Delivered),
     me_clock = (\<lambda>t. - 62135596800),
     me_ca = Some \<lparr>ca_privateKey = replicate 64 0, ca_publicKey = toy_key32 0, ca_certificate = toy_cert 0\<rparr>,
     me_base = ''d'', me_files = toy_store, me_keys = toy_key_lib, me_sign = (\<lambda>k data. replicate 64 (hd k)),
     me_sha1 = toy_sha1, me_marshal = (\<lambda>_. None), me_listAccounts = (\<lambda>_. []), me_vapps = [],
     me_encodes = (\<lambda>_. True)\<rparr>"

lemma toy_mcp_simps [concrete_simps]:
  "me_channel toy_mcp k = sendRequest toy_server (toy_inputs 7) Delivered Delivered"
  "me_clock toy_mcp t = - 62135596800" "me_sha1 toy_mcp = toy_sha1" "me_marshal toy_mcp = (\<lambda>_. None)"
  "me_encodes toy_mcp j" "me_sign toy_mcp privKey data = replicate 64 (hd privKey)"
  "me_ca toy_mcp = Some \<lparr>ca_privateKey = replicate 64 0, ca_publicKey = toy_key32 0, ca_certificate = toy_cert 0\<rparr>"
  by (simp_all add: toy_mcp_def)

lemma toy_stored_key [concrete_simps]:
  "stored_key toy_mcp (id_String (test_id 1)) = Ok (replicate 64 1)"
proof -
  have "ParsePKCS8PrivateKey toy_key_lib bs = Some (Ed25519Key bs)" for bs
    by (simp add: toy_key_lib_def)
  then show ?thesis
    by (simp add: stored_key_def toy_mcp_def toy_store_def GetAccountPrivateKeyPEM_def
        GetAccountCertificatePEM_def ReadFile_def DecodePrivateKeyPEM_def key_lib_okD [OF toy_key_lib_ok])
qed

lemma toy_envelope_of [concrete_simps]:
  "envelope_of toy_mcp t Bytes p (replicate 64 1) (id_String (test_id 1)) =
   Ok \<lparr>Payload = p, env_Signature = toy_signature 1\<rparr>"
  by (simp add: envelope_of_Ok_iff toy_signature_def concrete_simps)

lemma toy_signed_envelope [concrete_simps]:
  "mcp_createSignedEnvelope toy_mcp t Bytes (id_String (test_id 1)) p =
   Ok \<lparr>Payload = p, env_Signature = toy_signature 1\<rparr>"
  by (simp add: mcp_createSignedEnvelope_def ScalegraphIdFromPublicKey_def id_String_inject concrete_simps
      del: One_nat_def)

lemma toy_nonce [concrete_simps]:
  "getAccountNonce toy_mcp (id_String (test_id 1)) cert_app = (Ok 0, cert_app, [])"
proof -
  let ?req = "\<lparr>ga_AccountID = test_id 1, ga_SignedEnvelope = Some \<lparr>Payload =
    \<lparr>gap_AccountID = id_String (test_id 1)\<rparr>, env_Signature = toy_signature 1\<rparr>\<rparr>"
  have v: "GetAccountRequest_Verify toy_sha1 (srv_marshal toy_server)
      (server_verify toy_server toy_verifier (toy_inputs 7) cert_app) (toy_key32 0) ?req = Ok ()"
    by (simp add: Verify_defs VerifyRequest_Some_iff server_verify_def concrete_simps)
  have "GetAccount ?req cert_app = Ok (cert_acct 1)"
    by (simp add: GetAccount_def concrete_simps)
  with v have "handleRequest toy_server (toy_inputs 7) (ReqGetAccount ?req) cert_app =
      (Ok (GetAccountResponse (cert_acct 1)), cert_app, [])"
    by (simp add: handleRequest_def publishEvent_def concrete_simps del: One_nat_def)
  then show ?thesis
    by (simp add: getAccountNonce_def parse_field_def parse_id_def locally_def wrap_client_def
        client_GetAccount_def Send_def sendRequest_def GetNonce_def concrete_simps del: One_nat_def)
qed

definition toy_request_args :: CreateSignedRequestArgs where
  "toy_request_args = \<lparr>csr_Type = ''burn_token'', csr_AccountID = id_String (test_id 1), csr_ToID = [],
     csr_Amount = f0, csr_TokenValue = [], csr_ClawbackAddress = [], csr_FreezeAddress = [],
     csr_TokenID = ''a'', csr_ToAccountID = [], csr_FromAccountID = [], csr_TokenOwnerID = [],
     csr_TokenHolderID = []\<rparr>"

definition toy_handed :: "BurnTokenPayload SignedEnvelope" where
  "toy_handed = \<lparr>Payload = \<lparr>btp_AccountID = id_String (test_id 1), btp_TokenID = ''a'', btp_Nonce = 0\<rparr>,
     env_Signature = toy_signature 1\<rparr>"

lemma id_length: "length (id_String i) = 40"
  by (simp add: id_String_def)

lemma toy_burn_handed:
  "mcp_create_signed_request toy_mcp toy_request_args app =
   (Ok (SignedRequestText ''burn_token'' (take 16 (id_String (test_id 1)) @ ''...'')
      (HandedCall (CallBurnToken toy_handed), []) (Some ''/tokens/burn'')), app, [])"
  by (simp add: mcp_create_signed_request_def toy_request_args_def parse_field_def parse_id_def
      locally_def request_switch_def request_burn_token_def require_def marshal_request_def short_def
      request_endpoint_def toy_handed_def id_length concrete_simps del: One_nat_def)

definition toy_mint_args :: MintTokenArgs where
  "toy_mint_args = \<lparr>mta_AccountID = id_String (test_id 1), mta_TokenValue = ''v'',
     mta_ClawbackAddress = [], mta_FreezeAddress = []\<rparr>"

definition toy_mint_request :: MintTokenRequest where
  "toy_mint_request = \<lparr>mt_TokenValue = ''v'', mt_ClawbackAddress = None, mt_FreezeAddress = None,
     mt_Nonce = 0, mt_SignedEnvelope = Some \<lparr>Payload = \<lparr>mtp_TokenValue = ''v'',
       mtp_ClawbackAddress = None, mtp_FreezeAddress = None, mtp_Nonce = 0\<rparr>, env_Signature = toy_signature 1\<rparr>\<rparr>"

lemma toy_mint_handled:
  "\<exists>k app' msgs. handleRequest toy_server (toy_inputs 7) (ReqMintToken toy_mint_request) cert_app =
     (Ok (MintTokenResponse k), app', msgs)"
proof -
  have "MintTokenRequest_Verify toy_sha1 (srv_marshal toy_server)
      (server_verify toy_server toy_verifier (toy_inputs 7) cert_app) (toy_key32 0) toy_mint_request = Ok ()"
    by (simp add: Verify_defs toy_mint_request_def VerifyRequest_Some_iff server_verify_def
        addresses_agree_def concrete_simps)
  moreover have "app_MintToken (toy_draws 7) toy_mint_request cert_app =
      mint_token_result (toy_draws 7) toy_mint_request (the (mt_SignedEnvelope toy_mint_request)) (test_id 1)
        (cert_acct 1) cert_app"
    by (rule mint_token_run [OF cert_app_ok]) (simp_all add: toy_mint_request_def concrete_simps)
  then obtain k app' where "app_MintToken (toy_draws 7) toy_mint_request cert_app = (Ok k, app')"
    by (simp add: mint_token_result_def toy_mint_request_def Let_def concrete_simps GetNonce_def f0_dy [of 1073]
        MBR_TOKEN_COST_def)
  ultimately show ?thesis
    by (simp add: handleRequest_def concrete_simps publishEvent_def Let_def toy_mint_request_def [THEN arg_cong, of mt_SignedEnvelope])
qed

lemma toy_mint_tool:
  "\<exists>ans app' msgs. registerTools toy_mcp (Tool_mint_token toy_mint_args) cert_app = (Ok ans, app', msgs)"
proof -
  obtain k app' msgs where "handleRequest toy_server (toy_inputs 7) (ReqMintToken toy_mint_request) cert_app =
     (Ok (MintTokenResponse k), app', msgs)" using toy_mint_handled by blast
  then show ?thesis
    by (simp add: mcp_mint_token_def toy_mint_args_def parse_field_def parse_id_def locally_def require_def
        optional_field_def acting_tool_def toy_nonce wrap_client_def toy_signed_envelope
        MintTokenSigned_def send_built_def MintTokenSigned_request_def Send_def sendRequest_def
        toy_mcp_simps toy_mint_request_def short_def short_nonempty_def id_length del: One_nat_def)
qed

section \<open>How often a tool acts\<close>

fun reading_tool :: "mcp_tool \<Rightarrow> bool" where
  "reading_tool Tool_get_accounts = True"
| "reading_tool (Tool_get_account args) = True"
| "reading_tool (Tool_lookup_token args) = True"
| "reading_tool Tool_get_account_count = True"
| "reading_tool Tool_get_virtual_nodes = True"
| "reading_tool (Tool_create_signed_request args) = True"
| "reading_tool _ = False"

text \<open>
  A tool call changes the ledger by at most one step of the App, whatever the
  arguments and the surroundings: the tools that list, look up or hand out a signed request leave
  it as it is and announce nothing, and every other tool sends at most one request that can
  change it.
\<close>

theorem mcp_tools_one_step:
  assumes "me_channel env = (\<lambda>k. sendRequest s (inp k) (w1 k) (w2 k))"
    and "registerTools env t app = (r, app', msgs)"
  shows "if reading_tool t then app' = app \<and> msgs = []
    else app' = app \<or> app_step (lib_sha1 (srv_lib s)) app app'"
proof -
  let ?S = "app_step (lib_sha1 (srv_lib s))"
  have "if reading_tool t then only_reads app (registerTools env t app)
      else one_step ?S app (registerTools env t app)"
    by (cases t)
      (simp_all add: served_tools.listing_reads [OF assms(1)] served_tools.account_tools_read [OF assms(1)]
        served_tools.create_signed_request_reads [OF assms(1)] served_tools.signed_tools_step [OF assms(1)]
        served_tools.system_tools_step [OF assms(1)]
        one_step_if_reads [OF served_tools.transfer_tool_reads [OF assms(1)]])
  then show ?thesis
    using assms(2) by (auto simp: only_reads_def one_step_def split: if_splits)
qed

theorem mcp_tools_one_step_witness:
  "registerTools toy_mcp (Tool_create_signed_request toy_request_args) cert_app =
     (fst (registerTools toy_mcp (Tool_create_signed_request toy_request_args) cert_app), cert_app, []) \<and>
   (let app' = fst (snd (registerTools toy_mcp (Tool_mint \<lparr>mia_To = id_String (test_id 1), mia_Amount = f0\<rparr>) cert_app))
    in app' = cert_app \<or> app_step toy_sha1 cert_app app')"
proof -
  have ch: "me_channel toy_mcp = (\<lambda>k. sendRequest toy_server (toy_inputs 7) Delivered Delivered)"
    by (simp add: toy_mcp_def)
  obtain r app' msgs where 1: "registerTools toy_mcp (Tool_create_signed_request toy_request_args) cert_app =
      (r, app', msgs)" by (metis prod_cases3)
  obtain r2 app2 msgs2 where 2: "registerTools toy_mcp (Tool_mint \<lparr>mia_To = id_String (test_id 1),
      mia_Amount = f0\<rparr>) cert_app = (r2, app2, msgs2)" by (metis prod_cases3)
  show ?thesis
    using mcp_tools_one_step [OF ch 1] mcp_tools_one_step [OF ch 2] 1 2 by (simp add: concrete_simps)
qed

section \<open>Tools that act for an account\<close>

lemma served_nonce:
  assumes "me_channel env = (\<lambda>k. sendRequest s (inp k) (w1 k) (w2 k))"
    and "getAccountNonce env name app = (Ok n, app1, m)"
  shows "\<exists>i acc. ScalegraphIdFromString name = Ok i \<and> accounts app i = Some acc \<and> n = GetNonce acc \<and>
    app1 = app \<and> m = []"
proof -
  from served_tools.nonce_reads [OF assms(1), of app name] assms(2) have r: "app1 = app \<and> m = []"
    by (simp add: only_reads_def)
  from assms(2) obtain i e acc app2 m2 where i: "ScalegraphIdFromString name = Ok i"
    and c: "client_GetAccount (me_channel env 0) i (Some e) app = (Ok acc, app2, m2)" and n: "n = GetNonce acc"
    by (auto simp: getAccountNonce_def cbind_Ok_iff locally_Ok wrap_client_Ok_iff parse_field_Ok_iff)
  from c obtain msgs where "handleRequest s (inp 0) (ReqGetAccount \<lparr>ga_AccountID = i, ga_SignedEnvelope = Some e\<rparr>) app =
      (Ok (GetAccountResponse acc), app2, msgs)"
    by (auto simp: client_GetAccount_def Send_def assms(1) sendRequest_def
        split: prod.splits outcome.splits wait.splits response.splits)
  then obtain h where "handler (lib_sha1 (srv_lib s)) (inp 0) (ReqGetAccount \<lparr>ga_AccountID = i, ga_SignedEnvelope = Some e\<rparr>) = Some h"
    "h app = (Ok (GetAccountResponse acc), app2)"
    by (rule handleRequest_ok) (rule that; assumption)
  then have "accounts app i = Some acc"
    by (auto simp: respond_cases GetAccount_def split: option.splits)
  with i n r show ?thesis by blast
qed

lemma sent_request_handled:
  assumes "send_built (sendRequest s inp w1 w2) f b app = (Ok x, app', msgs)"
  shows "\<exists>req resp. b = Ok req \<and> handleRequest s inp req app = (Ok resp, app', msgs)"
  using assms
  by (auto simp: send_built_def Send_def sendRequest_def
      split: outcome.splits prod.splits wait.splits option.splits)

text \<open>
  One request of the account was handled, with the nonce the account had.
\<close>

definition acted :: "Server \<Rightarrow> inputs \<Rightarrow> string \<Rightarrow> App \<Rightarrow> App \<Rightarrow> published list \<Rightarrow> bool" where
  "acted s inp name app app' msgs \<longleftrightarrow>
     (\<exists>i acc req resp. ScalegraphIdFromString name = Ok i \<and> accounts app i = Some acc \<and>
        request_nonce req = Some (i, GetNonce acc) \<and> handleRequest s inp req app = (Ok resp, app', msgs))"

lemma acting_tool_Ok:
  assumes "me_channel env = (\<lambda>k. sendRequest s (inp k) (w1 k) (w2 k))"
    and "acting_tool env name Bytes payload client_op reply app = (Ok text, app', msgs)"
    and "\<And>ch e. client_op ch e = send_built ch f (build e)"
    and "\<And>e n req i. Payload e = payload n \<Longrightarrow> SignerID (env_Signature e) = name \<Longrightarrow> build e = Ok req \<Longrightarrow>
        ScalegraphIdFromString name = Ok i \<Longrightarrow> request_nonce req = Some (i, n)"
  shows "acted s (inp 1) name app app' msgs"
proof -
  from assms(2) obtain n app1 m1 e x app2 m2 where
    n: "getAccountNonce env name app = (Ok n, app1, m1)"
    and e: "mcp_createSignedEnvelope env 1 Bytes name (payload n) = Ok e"
    and c: "client_op (me_channel env 1) e app1 = (Ok x, app2, m2)" and "app' = app2" "msgs = m1 @ m2"
    by (auto simp: acting_tool_def cbind_Ok_iff locally_Ok wrap_client_Ok_iff wrap_Ok_iff)
  with served_nonce [OF assms(1) n] obtain i acc where i: "ScalegraphIdFromString name = Ok i"
    "accounts app i = Some acc" "n = GetNonce acc" "app1 = app"
    and c: "send_built (sendRequest s (inp 1) (w1 1) (w2 1)) f (build e) app = (Ok x, app', msgs)"
    by (auto simp: assms(1,3))
  from sent_request_handled [OF c] obtain req resp where
    "build e = Ok req" "handleRequest s (inp 1) req app = (Ok resp, app', msgs)" by blast
  with i assms(4) [OF envelope_payload [OF e] envelope_signer [OF e]] show ?thesis
    by (auto simp: acted_def)
qed

lemmas token_tool_defs = mcp_mint_token_def mcp_authorize_token_transfer_def
  mcp_unauthorize_token_transfer_def mcp_transfer_token_def mcp_burn_token_def
  mcp_clawback_token_def mcp_freeze_token_def mcp_unfreeze_token_def

text \<open>The account whose nonce a built request carries.\<close>

lemma built_nonce:
  "MintTokenSigned_request e0 = Ok req \<Longrightarrow> ScalegraphIdFromString (SignerID (env_Signature e0)) = Ok i \<Longrightarrow>
     request_nonce req = Some (i, mtp_Nonce (Payload e0))"
  "AuthorizeTokenTransferSigned_request e1 = Ok req \<Longrightarrow> ScalegraphIdFromString (atp_AccountID (Payload e1)) = Ok i \<Longrightarrow>
     request_nonce req = Some (i, atp_Nonce (Payload e1))"
  "UnauthorizeTokenTransferSigned_request e2 = Ok req \<Longrightarrow> ScalegraphIdFromString (utp_AccountID (Payload e2)) = Ok i \<Longrightarrow>
     request_nonce req = Some (i, utp_Nonce (Payload e2))"
  "TransferTokenSigned_request e3 = Ok req \<Longrightarrow> ScalegraphIdFromString (ttp_From (Payload e3)) = Ok i \<Longrightarrow>
     request_nonce req = Some (i, ttp_Nonce (Payload e3))"
  "BurnTokenSigned_request e4 = Ok req \<Longrightarrow> ScalegraphIdFromString (btp_AccountID (Payload e4)) = Ok i \<Longrightarrow>
     request_nonce req = Some (i, btp_Nonce (Payload e4))"
  "ClawbackTokenSigned_request e5 = Ok req \<Longrightarrow> ScalegraphIdFromString (ctp_To (Payload e5)) = Ok i \<Longrightarrow>
     request_nonce req = Some (i, ctp_Nonce (Payload e5))"
  "FreezeTokenSigned_request e6 = Ok req \<Longrightarrow> ScalegraphIdFromString (fzp_FreezeAuthority (Payload e6)) = Ok i \<Longrightarrow>
     request_nonce req = Some (i, fzp_Nonce (Payload e6))"
  "UnfreezeTokenSigned_request e7 = Ok req \<Longrightarrow> ScalegraphIdFromString (ufp_FreezeAuthority (Payload e7)) = Ok i \<Longrightarrow>
     request_nonce req = Some (i, ufp_Nonce (Payload e7))"
  by (auto simp: client_request_defs obind_Ok_iff parse_id_Ok simp del: parse_opt_id.simps)

lemma token_tools_Ok:
  assumes "me_channel env = (\<lambda>k. sendRequest s (inp k) (w1 k) (w2 k))"
  shows
    "mcp_mint_token env a1 app = (Ok text, app', msgs) \<Longrightarrow> acted s (inp 1) (mta_AccountID a1) app app' msgs"
    "mcp_authorize_token_transfer env a2 app = (Ok text, app', msgs) \<Longrightarrow> acted s (inp 1) (ata_AccountID a2) app app' msgs"
    "mcp_unauthorize_token_transfer env a3 app = (Ok text, app', msgs) \<Longrightarrow> acted s (inp 1) (uta_AccountID a3) app app' msgs"
    "mcp_transfer_token env a4 app = (Ok text, app', msgs) \<Longrightarrow> acted s (inp 1) (tta_FromAccountID a4) app app' msgs"
    "mcp_burn_token env a5 app = (Ok text, app', msgs) \<Longrightarrow> acted s (inp 1) (bta_AccountID a5) app app' msgs"
    "mcp_clawback_token env a6 app = (Ok text, app', msgs) \<Longrightarrow> acted s (inp 1) (cta_ToAccountID a6) app app' msgs"
    "mcp_freeze_token env a7 app = (Ok text, app', msgs) \<Longrightarrow> acted s (inp 1) (fza_FreezeAuthorityID a7) app app' msgs"
    "mcp_unfreeze_token env a8 app = (Ok text, app', msgs) \<Longrightarrow> acted s (inp 1) (ufa_FreezeAuthorityID a8) app app' msgs"
  unfolding token_tool_defs cbind_Ok_iff locally_Ok
  subgoal
    by (elim exE conjE, simp del: One_nat_def, erule acting_tool_Ok [OF assms _ MintTokenSigned_def])
      (simp add: built_nonce)
  subgoal
    by (elim exE conjE, simp del: One_nat_def, erule acting_tool_Ok [OF assms _ AuthorizeTokenTransferSigned_def])
      (simp add: built_nonce)
  subgoal
    by (elim exE conjE, simp del: One_nat_def, erule acting_tool_Ok [OF assms _ UnauthorizeTokenTransferSigned_def])
      (simp add: built_nonce)
  subgoal
    by (elim exE conjE, simp del: One_nat_def, erule acting_tool_Ok [OF assms _ TransferTokenSigned_def])
      (simp add: built_nonce)
  subgoal
    by (elim exE conjE, simp del: One_nat_def, erule acting_tool_Ok [OF assms _ BurnTokenSigned_def])
      (simp add: built_nonce)
  subgoal
    by (elim exE conjE, simp del: One_nat_def, erule acting_tool_Ok [OF assms _ ClawbackTokenSigned_def])
      (simp add: built_nonce)
  subgoal
    by (elim exE conjE, simp del: One_nat_def, erule acting_tool_Ok [OF assms _ FreezeTokenSigned_def])
      (simp add: built_nonce)
  subgoal
    by (elim exE conjE, simp del: One_nat_def, erule acting_tool_Ok [OF assms _ UnfreezeTokenSigned_def])
      (simp add: built_nonce)
  done

fun acting_account :: "mcp_tool \<Rightarrow> string option" where
  "acting_account (Tool_mint_token a) = Some (mta_AccountID a)"
| "acting_account (Tool_authorize_token_transfer a) = Some (ata_AccountID a)"
| "acting_account (Tool_unauthorize_token_transfer a) = Some (uta_AccountID a)"
| "acting_account (Tool_transfer_token a) = Some (tta_FromAccountID a)"
| "acting_account (Tool_burn_token a) = Some (bta_AccountID a)"
| "acting_account (Tool_clawback_token a) = Some (cta_ToAccountID a)"
| "acting_account (Tool_freeze_token a) = Some (fza_FreezeAuthorityID a)"
| "acting_account (Tool_unfreeze_token a) = Some (ufa_FreezeAuthorityID a)"
| "acting_account _ = None"

section \<open>The transfer tool\<close>

lemma is_ok_cbind: "is_ok (fst (cbind c f)) \<Longrightarrow> \<exists>x app1 m. c = (Ok x, app1, m) \<and> is_ok (fst (f x app1))"
  by (cases "(c, f)" rule: cbind.cases) (auto split: prod.splits)

lemma TransferSigned_no_sender:
  "tp_From (Payload e) = [] \<Longrightarrow> TransferSigned ch e app = (Err (IdError (InvalidLength 0)), app, [])"
  by (simp add: TransferSigned_def send_built_def TransferSigned_request_def parse_id_def
      ScalegraphIdFromString_def)

lemma transfer_tool_fails: "\<not> is_ok (fst (mcp_transfer env args app))"
  unfolding mcp_transfer_def Let_def
  by (auto simp: locally_def TransferSigned_no_sender dest!: is_ok_cbind envelope_payload)

lemma signs_again:
  assumes "mcp_createSignedEnvelope env t Bytes i p = Ok e"
  shows "\<exists>e'. mcp_createSignedEnvelope env t' Bytes' i p' = Ok e' \<and> Payload e' = p'"
  using assms
  by (auto simp: mcp_createSignedEnvelope_def envelope_of_def obind_Ok_iff wrap_Ok_iff
      CreateSignedEnvelope_Ok_iff Sign_def split: option.splits if_splits)

text \<open>
  Property C31.  A token tool that reports success has had exactly one request handled: the acting
  account exists, the request carries the nonce that account has at that moment, and the ledger
  and the announcements are what the server made of it.
\<close>

theorem mcp_tools_refine_requests:
  assumes "me_channel env = (\<lambda>k. sendRequest s (inp k) (w1 k) (w2 k))"
    and "registerTools env t app = (Ok text, app', msgs)" "acting_account t = Some name"
  shows "\<exists>i acc req resp. ScalegraphIdFromString name = Ok i \<and> accounts app i = Some acc \<and>
    request_nonce req = Some (i, GetNonce acc) \<and> handleRequest s (inp 1) req app = (Ok resp, app', msgs)"
proof -
  have "acted s (inp 1) name app app' msgs"
    using assms(2,3)
    by (cases t) (simp_all add: token_tools_Ok [OF assms(1)] del: One_nat_def, (hypsubst, erule token_tools_Ok [OF assms(1)])+)
  then show ?thesis by (simp only: acted_def)
qed

theorem mcp_tools_refine_requests_witness:
  "\<exists>ans app' msgs req resp. registerTools toy_mcp (Tool_mint_token toy_mint_args) cert_app = (Ok ans, app', msgs) \<and>
     request_nonce req = Some (test_id 1, 0) \<and>
     handleRequest toy_server (toy_inputs 7) req cert_app = (Ok resp, app', msgs)"
proof -
  have ch: "me_channel toy_mcp = (\<lambda>k. sendRequest toy_server (toy_inputs 7) Delivered Delivered)"
    by (simp add: toy_mcp_def)
  obtain ans app' msgs where 1: "registerTools toy_mcp (Tool_mint_token toy_mint_args) cert_app = (Ok ans, app', msgs)"
    using toy_mint_tool by blast
  have n: "accounts cert_app (test_id 1) = Some a \<Longrightarrow> GetNonce a = 0" for a
    by (auto simp: concrete_simps GetNonce_def)
  have "acting_account (Tool_mint_token toy_mint_args) = Some (id_String (test_id 1))"
    by (simp add: toy_mint_args_def)
  from mcp_tools_refine_requests [OF ch 1 this] n 1 show ?thesis by fastforce
qed

text \<open>
  The transfer tool never transfers anything: the payload is built without its
  sender, so the call ends in an error whatever the arguments, and the ledger is as it was.  Even
  for an existing sender whose credentials the authority keeps the client refuses the empty
  sender before it sends the request.
\<close>

theorem mcp_transfer_never_succeeds:
  assumes "me_channel env = (\<lambda>k. sendRequest s (inp k) (w1 k) (w2 k))"
    and "mcp_transfer env args app = (r, app', msgs)"
  shows "\<not> is_ok r \<and> app' = app \<and> msgs = [] \<and>
    (canonical (tfa_From args) \<and> is_ok (fst (getAccountNonce env (tfa_From args) app)) \<longrightarrow>
       r = Err (IdError (InvalidLength 0)))"
proof -
  have 1: "\<not> is_ok r \<and> app' = app \<and> msgs = []"
    using transfer_tool_fails [of env args app] served_tools.transfer_tool_reads [OF assms(1), of app args]
    by (simp add: assms(2) only_reads_def)
  have "r = Err (IdError (InvalidLength 0))"
    if i: "tfa_From args = id_String i" and n: "is_ok (fst (getAccountNonce env (tfa_From args) app))" for i
  proof -
    from n obtain e acc app1 m where e: "mcp_createSignedEnvelope env 0 GetAccountPayload_Bytes (id_String i)
        \<lparr>gap_AccountID = id_String i\<rparr> = Ok e"
      and acc: "client_GetAccount (me_channel env 0) i (Some e) app = (Ok acc, app1, m)"
      unfolding getAccountNonce_def i
      by (auto simp: parse_field_def parse_id_def locally_def wrap_client_def wrap_Ok_iff prod_eq_iff
          dest!: is_ok_cbind)
    let ?p = "\<lparr>tp_From = [], tp_To = tfa_To args, tp_Amount = tfa_Amount args,
      tp_Nonce = GetNonce acc, tp_Timestamp = me_clock env 1\<rparr>"
    obtain e' where "mcp_createSignedEnvelope env 2 TransferPayload_Bytes (id_String i) ?p = Ok e'"
      "tp_From (Payload e') = []"
      using signs_again [OF e, of 2 TransferPayload_Bytes ?p] by auto
    then show ?thesis using assms(2)
      by (simp add: mcp_transfer_def i parse_field_def parse_id_def locally_def e acc wrap_client_def
          TransferSigned_no_sender)
  qed
  with 1 show ?thesis by (auto simp: canonical_def)
qed

theorem mcp_transfer_never_succeeds_witness:
  "\<exists>msgs. mcp_transfer toy_mcp \<lparr>tfa_From = id_String (test_id 1), tfa_To = id_String (test_id 2),
     tfa_Amount = dy 1073 6\<rparr> cert_app = (Err (IdError (InvalidLength 0)), cert_app, msgs)"
proof -
  let ?args = "\<lparr>tfa_From = id_String (test_id 1), tfa_To = id_String (test_id 2), tfa_Amount = dy 1073 6\<rparr>"
  have ch: "me_channel toy_mcp = (\<lambda>k. sendRequest toy_server (toy_inputs 7) Delivered Delivered)"
    by (simp add: toy_mcp_def)
  obtain r app' msgs where 1: "mcp_transfer toy_mcp ?args cert_app = (r, app', msgs)" by (metis prod_cases3)
  have "canonical (tfa_From ?args)" by (auto simp: canonical_def)
  moreover have "is_ok (fst (getAccountNonce toy_mcp (tfa_From ?args) cert_app))"
    by (simp add: toy_nonce del: One_nat_def)
  ultimately show ?thesis using mcp_transfer_never_succeeds [OF ch 1] 1 by blast
qed

text \<open>
  Property C32.  A signed request the tool hands out is signed as it should be, for every type of
  request: with the key the authority keeps for the account, over the bytes of the payload it
  carries, by the account that acts in it.  So when the client can build the request from it and
  sends it as it is, the server's check accepts it exactly when its verifier accepts that
  signature, all ids in it are in lower case, and the amount, if it has one, is a number.  A
  request to read an account names the account that was asked for, whatever the case of the
  letters, and is signed with the authority's own key when that account is the authority's; it too
  is accepted exactly when the verifier accepts the signature and the id was given in lower case.
\<close>

theorem handed_requests_are_signed:
  assumes "mcp_create_signed_request env args app0 =
      (Ok (SignedRequestText ty a (handed, extra) ep), app1, msgs)"
  shows "case handed of
      HandedCall c \<Rightarrow> \<exists>k t. stored_key env (csr_AccountID args) = Ok k \<and>
        (let sig = \<lparr>sig_Algorithm = ''Ed25519'', sig_Value = me_sign env k (call_bytes (me_marshal env) c),
               SignerID = csr_AccountID args, sig_Timestamp = me_clock env t\<rparr> in
         call_signature c = sig \<and> call_actor c = csr_AccountID args \<and>
         (\<forall>req. built_request c = Ok req \<longrightarrow>
           (request_Verify sha1 (me_marshal env) verify ca req = Some (Ok ()) \<longleftrightarrow>
              verify (csr_AccountID args) (call_bytes (me_marshal env) c) sig = Ok () \<and>
              list_all canonical (call_ids c) \<and> call_comparable c)))
    | HandedGetAccount e \<Rightarrow> \<exists>i k t. ScalegraphIdFromString (csr_AccountID args) = Ok i \<and>
        signing_key env (csr_AccountID args) = Ok k \<and> Payload e = \<lparr>gap_AccountID = id_String i\<rparr> \<and>
        (let bytes = GetAccountPayload_Bytes (me_marshal env) (Payload e);
             sig = \<lparr>sig_Algorithm = ''Ed25519'', sig_Value = me_sign env k bytes,
               SignerID = csr_AccountID args, sig_Timestamp = me_clock env t\<rparr> in
         env_Signature e = sig \<and>
         (request_Verify sha1 (me_marshal env) verify ca
              (ReqGetAccount \<lparr>ga_AccountID = i, ga_SignedEnvelope = Some e\<rparr>) = Some (Ok ()) \<longleftrightarrow>
            verify (csr_AccountID args) bytes sig = Ok () \<and> canonical (csr_AccountID args)))"
proof -
  from create_signed_request_OkD [OF assms] obtain k app app' m i where
    k: "stored_key env (csr_AccountID args) = Ok k"
    and sw: "request_switch env args k app = (Ok (handed, extra), app', m)"
    and i: "ScalegraphIdFromString (csr_AccountID args) = Ok i" by blast
  show ?thesis
  proof (cases handed)
    case (HandedCall c)
    have "csr_AccountID args \<noteq> []" using i by (auto simp: ScalegraphIdFromString_def)
    then show ?thesis
      using k HandedCall handed_request_signed [OF sw [unfolded HandedCall]]
        built_request_verified [of c _ sha1 "me_marshal env" verify ca]
      by (auto simp: list_all_iff Let_def)
  next
    case (HandedGetAccount e)
    from handed_get_account_signed [OF sw [unfolded HandedGetAccount] i] obtain key t where
      e: "Payload e = \<lparr>gap_AccountID = id_String i\<rparr>" "signing_key env (csr_AccountID args) = Ok key"
      "env_Signature e = \<lparr>sig_Algorithm = ''Ed25519'',
        sig_Value = me_sign env key (GetAccountPayload_Bytes (me_marshal env) (Payload e)),
        SignerID = csr_AccountID args, sig_Timestamp = me_clock env t\<rparr>" by blast
    have "SignerID (env_Signature e) = csr_AccountID args" by (simp add: e(3))
    from get_account_request_verified [OF i e(1) this, of sha1 "me_marshal env" verify ca] e i
    show ?thesis unfolding HandedGetAccount handed_envelope.case Let_def
      by (intro exI [of _ i] exI [of _ key] exI [of _ t]) simp
  qed
qed

theorem handed_requests_are_signed_witness:
  "\<exists>req. BurnTokenSigned_request toy_handed = Ok req \<and>
     request_Verify toy_sha1 (\<lambda>_. None) (VerifyEnvelopeData toy_lib toy_verifier cert_app 0 0)
       (toy_key32 0) req = Some (Ok ())"
proof -
  obtain req where b: "built_request (CallBurnToken toy_handed) = Ok req"
    by (simp add: client_request_defs toy_handed_def parse_id_def)
  let ?v = "VerifyEnvelopeData toy_lib toy_verifier cert_app 0 0"
  let ?c = "CallBurnToken toy_handed"
  have i: "csr_AccountID toy_request_args = id_String (test_id 1)" by (simp add: toy_request_args_def)
  have m: "me_marshal toy_mcp = (\<lambda>_. None)" by (simp add: concrete_simps)
  have c: "call_signature ?c = toy_signature 1" "call_ids ?c = [id_String (test_id 1)]" "call_comparable ?c"
    by (simp_all add: toy_handed_def)
  have "\<exists>S. call_signature ?c = S \<and> (request_Verify toy_sha1 (\<lambda>_. None) ?v (toy_key32 0) req = Some (Ok ()) \<longleftrightarrow>
      ?v (id_String (test_id 1)) (call_bytes (\<lambda>_. None) ?c) S = Ok () \<and>
      list_all canonical (call_ids ?c) \<and> call_comparable ?c)"
    using handed_requests_are_signed [OF toy_burn_handed, of toy_sha1 ?v "toy_key32 0"] b
    unfolding Let_def i m handed_envelope.case by blast
  moreover have "?v (id_String (test_id 1)) (call_bytes (\<lambda>_. None) ?c) (toy_signature 1) = Ok ()"
    by (rule toy_verify) simp
  ultimately show ?thesis
    using b c by (auto simp: canonical_def)
qed

text \<open>
  Most signed requests the tool hands out are of no use to an account that has
  already acted: except for transfers, mints and lookups the nonce in them is always zero, so
  the server refuses them, and changes and announces nothing, unless the account has not sent
  anything yet (or its counter has come round to zero).
\<close>

theorem handed_requests_go_stale:
  assumes "mcp_create_signed_request env args app0 =
      (Ok (SignedRequestText ty a (HandedCall c, extra) ep), app1, msgs)"
    and "\<not> asks_nonce (csr_Type args)" "csr_Type args \<noteq> ''lookup_token''"
    and "built_request c = Ok req" "ScalegraphIdFromString (csr_AccountID args) = Ok i"
    and "\<And>acc. accounts app i = Some acc \<Longrightarrow> GetNonce acc \<noteq> 0"
  shows "\<exists>r. handleRequest s inp req app = (r, app, []) \<and> \<not> is_ok r"
proof -
  from create_signed_request_OkD [OF assms(1)] obtain k app2 app' m where
    sw: "request_switch env args k app2 = (Ok (HandedCall c, extra), app', m)" by blast
  from handed_request_nonce [OF sw assms(2-5)] show ?thesis
    by (rule stale_request_rejected) (use assms(6) in \<open>simp add: nonce_stale_def\<close>)
qed

theorem handed_requests_go_stale_witness:
  "\<exists>req r. BurnTokenSigned_request toy_handed = Ok req \<and>
     handleRequest toy_server (toy_inputs 8) req toy_after = (r, toy_after, []) \<and> \<not> is_ok r"
proof -
  obtain req where b: "built_request (CallBurnToken toy_handed) = Ok req"
    by (simp add: client_request_defs toy_handed_def parse_id_def)
  have ty: "\<not> asks_nonce (csr_Type toy_request_args)" "csr_Type toy_request_args \<noteq> ''lookup_token''"
    "ScalegraphIdFromString (csr_AccountID toy_request_args) = Ok (test_id 1)"
    by (simp_all add: toy_request_args_def asks_nonce_def)
  have ok: "app_ok toy_sha1 toy_after"
    using handleRequest_step [OF toy_request_handled] cert_app_ok
    by (auto simp: concrete_simps intro: app_step_ok)
  have n: "GetNonce a \<noteq> 0" if "accounts toy_after (test_id 1) = Some a" for a
    using GetNonce_sent [OF ok that] toy_after_sent [OF that] by simp
  show ?thesis
    using b handed_requests_go_stale [OF toy_burn_handed ty(1,2) b ty(3) n] by auto
qed

end
