(* ===== verification/Tui_Model.thy ===== *)
theory Tui_Model
  imports Client CA "HOL-Library.List_Lexorder" "HOL-Library.Char_ord"
begin

text \<open>
  \<^verbatim>\<open>internal/tui/model.go\<close>, \<^verbatim>\<open>commands.go\<close> and the first part of \<^verbatim>\<open>update.go\<close>: the state of the
  terminal interface, the refresh of its caches, its credentials and the common end of every
  signed action.  What is drawn (\<^verbatim>\<open>view.go\<close>) is in \<open>Tui_View\<close>.
\<close>

section \<open>The model\<close>

datatype ViewState =
    ViewMenu | ViewCreateAccount | ViewAccountDetail | ViewAccountDetailSingle
  | ViewTransactionDetail | ViewSendMoney | ViewVirtualNodes | ViewTokenMenu | ViewMintToken
  | ViewAuthorizeTokenTransfer | ViewUnauthorizeTokenTransfer | ViewTransferToken | ViewTokenList
  | ViewBurnToken | ViewClawbackToken | ViewFreezeToken | ViewUnfreezeToken | ViewLookupToken

text \<open>A text field of the widget library: its text and whether it has the focus.\<close>

record textinput =
  ti_value :: string
  ti_focused :: bool

definition SetValue :: "string \<Rightarrow> textinput \<Rightarrow> textinput" where
  "SetValue s t = t\<lparr>ti_value := s\<rparr>"

definition Focus :: "textinput \<Rightarrow> textinput" where
  "Focus t = t\<lparr>ti_focused := True\<rparr>"

definition Blur :: "textinput \<Rightarrow> textinput" where
  "Blur t = t\<lparr>ti_focused := False\<rparr>"

text \<open>The status line: a fixed text, an error's text, or a text in front of an error's.\<close>

datatype status = StatusText string | StatusError error | StatusFailed string error

record AccountCredentials =
  PrivateKeyPEM :: "byte list"
  CertificatePEM :: "byte list"

text \<open>
  The fields of \<^verbatim>\<open>Model\<close>.  \<^verbatim>\<open>cachedAccounts\<close> holds pointers to the server's accounts, not copies:
  an entry is the account's id, and reading through the pointer reads the App.  Cursors and
  indices are Go \<^verbatim>\<open>int\<close>s.
\<close>

record Model =
  m_width :: int
  m_height :: int
  m_ready :: bool
  m_view :: ViewState
  m_accountNames :: "ScalegraphId \<rightharpoonup> string"
  m_credentialCache :: "ScalegraphId \<rightharpoonup> AccountCredentials"
  m_cachedAccounts :: "ScalegraphId list"
  m_cachedTokens :: "Token list"
  m_menuCursor :: int
  m_balanceInput :: textinput
  m_nameInput :: textinput
  m_createAccountFocus :: int
  m_selectedAccountIndex :: int
  m_transactionOffset :: int
  m_selectedTransactionIndex :: int
  m_tokenListOffset :: int
  m_sendFromIndex :: int
  m_sendToIndex :: int
  m_sendAmount :: string
  m_sendStep :: int
  m_tokenMenuCursor :: int
  m_tokenStep :: int
  m_tokenAccountIndex :: int
  m_tokenToAccountIndex :: int
  m_tokenSourceIndex :: int
  m_tokenClawbackIndex :: int
  m_tokenFreezeIndex :: int
  m_tokenTokenIndex :: int
  m_tokenValueInput :: textinput
  m_lookupTokenInput :: textinput
  m_lookupResult :: "Token option"
  m_statusMsg :: status

definition new_input :: textinput where
  "new_input = \<lparr>ti_value = [], ti_focused = False\<rparr>"

definition NewModel :: Model where
  "NewModel = \<lparr>m_width = 0, m_height = 0, m_ready = False, m_view = ViewMenu,
     m_accountNames = Map.empty, m_credentialCache = Map.empty, m_cachedAccounts = [],
     m_cachedTokens = [], m_menuCursor = 0, m_balanceInput = new_input, m_nameInput = new_input,
     m_createAccountFocus = 0, m_selectedAccountIndex = 0, m_transactionOffset = 0,
     m_selectedTransactionIndex = 0, m_tokenListOffset = 0, m_sendFromIndex = 0, m_sendToIndex = 0,
     m_sendAmount = [], m_sendStep = 0, m_tokenMenuCursor = 0, m_tokenStep = 0,
     m_tokenAccountIndex = 0, m_tokenToAccountIndex = 0, m_tokenSourceIndex = 0,
     m_tokenClawbackIndex = 0, m_tokenFreezeIndex = 0, m_tokenTokenIndex = 0,
     m_tokenValueInput = new_input, m_lookupTokenInput = new_input, m_lookupResult = None,
     m_statusMsg = StatusText []\<rparr>"

section \<open>The surroundings\<close>

text \<open>
  What one update reads from outside: the client's channel, the authority of the server (a
  pointer that may be nil) with its directory, the encoders, the clock, the order in which Go
  lists the accounts and tokens of a map, the widget library's key handling and \<^verbatim>\<open>ParseFloat\<close>.
\<close>

record tui_env =
  te_channel :: channel
  te_ca :: "CA option"
  te_base :: string
  te_files :: files
  te_keys :: key_lib
  te_sign :: "byte list \<Rightarrow> byte list \<Rightarrow> byte list"
  te_sha1 :: "byte list \<Rightarrow> ScalegraphId"
  te_marshal :: marshaller
  te_now :: int64
  te_listAccounts :: "Account set \<Rightarrow> Account list"
  te_listTokens :: "Token set \<Rightarrow> Token list"
  te_inputUpdate :: "string \<Rightarrow> textinput \<Rightarrow> textinput"
  te_ParseFloat :: "string \<Rightarrow> float64 option"

text \<open>
  The result of an update: the program goes on, it ends by the user's wish, the interface itself
  panics on an index out of range, or the process dies with a panic of the server behind the
  channel.
\<close>

datatype tui_result = Continue Model | QuitProgram Model | Crash | Killed

type_synonym tui_call = "tui_result \<times> App"

text \<open>An index expression, \<open>None\<close> out of range, where Go panics.\<close>

definition idx :: "'a list \<Rightarrow> int \<Rightarrow> 'a option" where
  "idx xs i = (if 0 \<le> i \<and> i < int (length xs) then Some (xs ! nat i) else None)"

fun or_crash :: "'a option \<Rightarrow> ('a \<Rightarrow> tui_call) \<Rightarrow> App \<Rightarrow> tui_call" where
  "or_crash None f app = (Crash, app)"
| "or_crash (Some x) f app = f x"

text \<open>Reading through an account pointer.\<close>

definition tokens_at :: "App \<Rightarrow> ScalegraphId \<Rightarrow> Token set" where
  "tokens_at app i = (case accounts app i of None \<Rightarrow> {} | Some a \<Rightarrow> GetTokens a)"

definition txCount_at :: "App \<Rightarrow> ScalegraphId \<Rightarrow> int" where
  "txCount_at app i =
     (case accounts app i of
        None \<Rightarrow> 0
      | Some a \<Rightarrow> int (length (List.filter (\<lambda>b. block_Transaction b \<noteq> None) (GetBlocks (blockchain a)))))"

section \<open>Caches\<close>

definition refreshAccounts :: "tui_env \<Rightarrow> Model \<Rightarrow> App \<Rightarrow> (error, unit) outcome \<times> Model \<times> App" where
  "refreshAccounts env m app =
     (case client_GetAccounts (te_channel env) app of
        (Panic, app', _) \<Rightarrow> (Panic, m, app')
      | (Err e, app', _) \<Rightarrow> (Err e, m, app')
      | (Ok accs, app', _) \<Rightarrow>
        (Ok (), m\<lparr>m_cachedAccounts := sort_key id_String (List.map acc_id (te_listAccounts env accs)),
                 m_cachedTokens := []\<rparr>, app'))"

definition refreshTokensForIndex :: "tui_env \<Rightarrow> int \<Rightarrow> Model \<Rightarrow> App \<Rightarrow> Model option" where
  "refreshTokensForIndex env i m app =
     (if i \<ge> int (length (m_cachedAccounts m)) then Some (m\<lparr>m_cachedTokens := []\<rparr>)
      else map_option (\<lambda>acc. m\<lparr>m_cachedTokens :=
             sort_key token_ID (te_listTokens env (tokens_at app acc))\<rparr>) (idx (m_cachedAccounts m) i))"

definition refreshTokens :: "tui_env \<Rightarrow> Model \<Rightarrow> App \<Rightarrow> Model option" where
  "refreshTokens env m app = refreshTokensForIndex env (m_tokenAccountIndex m) m app"

section \<open>Credentials\<close>

definition getCredentials ::
    "tui_env \<Rightarrow> ScalegraphId \<Rightarrow> Model \<Rightarrow> (error, AccountCredentials, Model) call" where
  "getCredentials env accountID m =
     (case m_credentialCache m accountID of
        Some creds \<Rightarrow> (Ok creds, m)
      | None \<Rightarrow>
        (case te_ca env of
           None \<Rightarrow> (Err CANotAvailable, m)
         | Some _ \<Rightarrow>
           sbind (GetAccountPrivateKeyPEM (te_base env) (id_String accountID) (te_files env), m) (\<lambda>key m.
           sbind (GetAccountCertificatePEM (te_base env) (id_String accountID) (te_files env), m) (\<lambda>cert m.
           (let creds = \<lparr>PrivateKeyPEM = key, CertificatePEM = cert\<rparr> in
            (Ok creds, m\<lparr>m_credentialCache := (m_credentialCache m)(accountID \<mapsto> creds)\<rparr>))))))"

definition createAccountWithCA ::
    "tui_env \<Rightarrow> float64 \<Rightarrow> App \<Rightarrow> Account client_call" where
  "createAccountWithCA env amount app =
     (case te_ca env of
        None \<Rightarrow> (Err CANotAvailable, app, [])
      | Some ca \<Rightarrow>
        (case CreateSignedEnvelope (te_sign env) (te_now env) (CreateAccountPayload_Bytes (te_marshal env))
                \<lparr>cap_InitialBalance = amount\<rparr> (ca_privateKey ca)
                (id_String (ScalegraphIdFromPublicKey (te_sha1 env) (ca_publicKey ca))) of
           Panic \<Rightarrow> (Panic, app, [])
         | Err e \<Rightarrow> (Err (Failed ''create signed request'' e), app, [])
         | Ok envelope \<Rightarrow>
           (case CreateAccountWithCredentials (te_channel env) amount (Some envelope) app of
              (Panic, app', msgs) \<Rightarrow> (Panic, app', msgs)
            | (Err e, app', msgs) \<Rightarrow> (Err e, app', msgs)
            | (Ok (acc, _), app', msgs) \<Rightarrow> (Ok acc, app', msgs))))"

text \<open>
  Every signed action ends in the same way: load the signer's credentials, parse the key, sign
  the payload, call the client, and on success refresh the accounts (an error of the refresh is
  ignored) and go on with \<open>done\<close>; a failure is shown in the status line.
\<close>

definition signed_action ::
    "tui_env \<Rightarrow> ScalegraphId \<Rightarrow> ('p \<Rightarrow> byte list) \<Rightarrow> 'p \<Rightarrow> ('p SignedEnvelope \<Rightarrow> App \<Rightarrow> 'r client_call) \<Rightarrow>
     bool \<Rightarrow> ('r \<Rightarrow> Model \<Rightarrow> Model) \<Rightarrow> Model \<Rightarrow> App \<Rightarrow> tui_call" where
  "signed_action env signer Bytes p client_op refresh after m app =
     (case getCredentials env signer m of
        (Panic, m1) \<Rightarrow> (Killed, app)
      | (Err e, m1) \<Rightarrow> (Continue (m1\<lparr>m_statusMsg := StatusFailed ''Failed to load credentials: '' e\<rparr>), app)
      | (Ok creds, m1) \<Rightarrow>
        (case DecodePrivateKeyPEM (te_keys env) (PrivateKeyPEM creds) of
           Panic \<Rightarrow> (Killed, app)
         | Err e \<Rightarrow> (Continue (m1\<lparr>m_statusMsg := StatusFailed ''Failed to parse private key: '' e\<rparr>), app)
         | Ok privKey \<Rightarrow>
           (case CreateSignedEnvelope (te_sign env) (te_now env) Bytes p privKey (id_String signer) of
              Panic \<Rightarrow> (Killed, app)
            | Err e \<Rightarrow> (Continue (m1\<lparr>m_statusMsg := StatusFailed ''Failed to sign request: '' e\<rparr>), app)
            | Ok envelope \<Rightarrow>
              (case client_op envelope app of
                 (Panic, app', _) \<Rightarrow> (Killed, app')
               | (Err e, app', _) \<Rightarrow> (Continue (m1\<lparr>m_statusMsg := StatusError e\<rparr>), app')
               | (Ok r, app', _) \<Rightarrow>
                 (if refresh
                  then (case refreshAccounts env m1 app' of
                          (Panic, m2, app'') \<Rightarrow> (Killed, app'')
                        | (_, m2, app'') \<Rightarrow> (Continue (after r m2), app''))
                  else (Continue (after r m1), app'))))))"

section \<open>Cursors\<close>

definition is_up :: "string \<Rightarrow> bool" where
  "is_up key \<longleftrightarrow> key = ''up'' \<or> key = ''k''"

definition is_down :: "string \<Rightarrow> bool" where
  "is_down key \<longleftrightarrow> key = ''down'' \<or> key = ''j''"

definition cursor_up :: "int \<Rightarrow> int" where
  "cursor_up i = (if i > 0 then i - 1 else i)"

definition cursor_down :: "int \<Rightarrow> int \<Rightarrow> int" where
  "cursor_down n i = (if i < n - 1 then i + 1 else i)"

text \<open>The second account selector steps over the account chosen first.\<close>

definition skip_up :: "int \<Rightarrow> int \<Rightarrow> int" where
  "skip_up other i =
     (if i > 0
      then (let i1 = i - 1 in
            if i1 = other then (if i1 > 0 then i1 - 1 else i1 + 1) else i1)
      else i)"

definition skip_down :: "int \<Rightarrow> int \<Rightarrow> int \<Rightarrow> int" where
  "skip_down n other i =
     (if i < n - 1
      then (let i1 = i + 1 in
            if i1 = other then (if i1 < n - 1 then i1 + 1 else i1 - 1) else i1)
      else i)"

definition first_other :: "int \<Rightarrow> int" where
  "first_other other = (if 0 = other then 1 else 0)"

abbreviation account_count :: "Model \<Rightarrow> int" where
  "account_count m \<equiv> int (length (m_cachedAccounts m))"

abbreviation token_count :: "Model \<Rightarrow> int" where
  "token_count m \<equiv> int (length (m_cachedTokens m))"

lemma idx_Some: "0 \<le> i \<Longrightarrow> i < int (length xs) \<Longrightarrow> idx xs i = Some (xs ! nat i)"
  by (simp add: idx_def)

lemma idx_None_iff: "idx xs i = None \<longleftrightarrow> \<not> (0 \<le> i \<and> i < int (length xs))"
  by (simp add: idx_def)

text \<open>In a list of at least two accounts the selectors stay in range and off the chosen one.\<close>

lemma skip_up_ok:
  "0 \<le> i \<Longrightarrow> i < n \<Longrightarrow> i \<noteq> other \<Longrightarrow> 0 \<le> skip_up other i \<and> skip_up other i < n \<and> skip_up other i \<noteq> other"
  by (auto simp: skip_up_def Let_def)

lemma skip_down_ok:
  "0 \<le> i \<Longrightarrow> i < n \<Longrightarrow> i \<noteq> other \<Longrightarrow>
   0 \<le> skip_down n other i \<and> skip_down n other i < n \<and> skip_down n other i \<noteq> other"
  by (auto simp: skip_down_def Let_def)

lemma first_other_ok: "2 \<le> n \<Longrightarrow> 0 \<le> first_other other \<and> first_other other < n \<and> first_other other \<noteq> other"
  by (auto simp: first_other_def)

lemma cursor_ok:
  "0 \<le> i \<Longrightarrow> i < n \<Longrightarrow> 0 \<le> cursor_up i \<and> cursor_up i < n"
  "0 \<le> i \<Longrightarrow> i < n \<Longrightarrow> 0 \<le> cursor_down n i \<and> cursor_down n i < n"
  by (auto simp: cursor_up_def cursor_down_def)

end
