(* ===== verification/Tui.thy ===== *)
theory Tui
  imports Tui_Model
begin

text \<open>
  \<^verbatim>\<open>internal/tui/update.go\<close>: one function per view from a key to the next state.  A key is the
  text \<^verbatim>\<open>msg.String()\<close> the code switches on.  The styles and cursor-blink commands of the input
  fields do not appear.
\<close>

section \<open>Menu, accounts, transactions\<close>

text \<open>The menu of \<^verbatim>\<open>view.go\<close> has five items.\<close>

definition menuItems :: "string list" where
  "menuItems = [''Create Account'', ''View Account'', ''Send Money'', ''View Virtual Nodes'', ''Token Operations'']"

text \<open>\<^verbatim>\<open>if err := m.refreshAccounts(); err != nil\<close> before a view is entered.\<close>

definition refresh_then :: "tui_env \<Rightarrow> (Model \<Rightarrow> Model) \<Rightarrow> Model \<Rightarrow> App \<Rightarrow> tui_call" where
  "refresh_then env enter m app =
     (case refreshAccounts env m app of
        (Panic, m', app') \<Rightarrow> (Killed, app')
      | (Err e, m', app') \<Rightarrow> (Continue (m'\<lparr>m_statusMsg := StatusError e\<rparr>), app')
      | (Ok _, m', app') \<Rightarrow> (Continue (enter m'), app'))"

definition updateMenu :: "tui_env \<Rightarrow> string \<Rightarrow> Model \<Rightarrow> App \<Rightarrow> tui_call" where
  "updateMenu env key m app =
     (if key = ''q'' then (QuitProgram m, app)
      else if is_up key then (Continue (m\<lparr>m_menuCursor := cursor_up (m_menuCursor m)\<rparr>), app)
      else if is_down key
      then (Continue (m\<lparr>m_menuCursor := cursor_down (int (length menuItems)) (m_menuCursor m)\<rparr>), app)
      else if key = ''enter''
      then (let m = m\<lparr>m_statusMsg := StatusText []\<rparr> in
        if m_menuCursor m = 0
        then (Continue (m\<lparr>m_view := ViewCreateAccount, m_createAccountFocus := 0,
                m_balanceInput := Focus (SetValue [] (m_balanceInput m)),
                m_nameInput := Blur (SetValue [] (m_nameInput m))\<rparr>), app)
        else if m_menuCursor m = 1
        then refresh_then env (\<lambda>m. m\<lparr>m_view := ViewAccountDetail, m_selectedAccountIndex := 0\<rparr>) m app
        else if m_menuCursor m = 2
        then refresh_then env (\<lambda>m. m\<lparr>m_view := ViewSendMoney, m_sendStep := 0, m_sendFromIndex := 0,
               m_sendToIndex := 0, m_sendAmount := []\<rparr>) m app
        else if m_menuCursor m = 3
        then (Continue (m\<lparr>m_view := ViewVirtualNodes, m_sendAmount := []\<rparr>), app)
        else if m_menuCursor m = 4
        then refresh_then env (\<lambda>m. m\<lparr>m_view := ViewTokenMenu, m_tokenMenuCursor := 0\<rparr>) m app
        else (Continue m, app))
      else (Continue m, app))"

text \<open>Moving the focus among the balance field, the name field and the submit button.\<close>

definition focus_field :: "int \<Rightarrow> Model \<Rightarrow> Model" where
  "focus_field f m =
     (if f = 0
      then m\<lparr>m_createAccountFocus := f, m_balanceInput := Focus (m_balanceInput m), m_nameInput := Blur (m_nameInput m)\<rparr>
      else if f = 1
      then m\<lparr>m_createAccountFocus := f, m_balanceInput := Blur (m_balanceInput m), m_nameInput := Focus (m_nameInput m)\<rparr>
      else m\<lparr>m_createAccountFocus := f, m_balanceInput := Blur (m_balanceInput m), m_nameInput := Blur (m_nameInput m)\<rparr>)"

definition updateCreateAccount :: "tui_env \<Rightarrow> string \<Rightarrow> Model \<Rightarrow> App \<Rightarrow> tui_call" where
  "updateCreateAccount env key m app =
     (let f = m_createAccountFocus m in
      if key = ''esc''
      then (Continue (m\<lparr>m_view := ViewMenu, m_balanceInput := Blur (m_balanceInput m),
              m_nameInput := Blur (m_nameInput m), m_statusMsg := StatusText []\<rparr>), app)
      else if key = ''tab'' then (Continue (focus_field (if f + 1 > 2 then 0 else f + 1) m), app)
      else if key = ''shift+tab'' then (Continue (focus_field (if f - 1 < 0 then 2 else f - 1) m), app)
      else if key = ''enter''
      then (if f = 2
        then (case te_ParseFloat env (ti_value (m_balanceInput m)) of
                None \<Rightarrow> (Continue (m\<lparr>m_statusMsg := StatusText ''Invalid balance''\<rparr>), app)
              | Some amount \<Rightarrow>
                if flt amount f0 then (Continue (m\<lparr>m_statusMsg := StatusText ''Invalid balance''\<rparr>), app)
                else (case createAccountWithCA env amount app of
                        (Panic, app', _) \<Rightarrow> (Killed, app')
                      | (Err e, app', _) \<Rightarrow> (Continue (m\<lparr>m_statusMsg := StatusError e\<rparr>), app')
                      | (Ok acc, app', _) \<Rightarrow>
                        (let m1 = (if ti_value (m_nameInput m) \<noteq> []
                                   then m\<lparr>m_accountNames := (m_accountNames m)(acc_id acc \<mapsto> ti_value (m_nameInput m))\<rparr>
                                   else m)
                         in case refreshAccounts env m1 app' of
                              (Panic, m2, app'') \<Rightarrow> (Killed, app'')
                            | (_, m2, app'') \<Rightarrow>
                              (Continue (m2\<lparr>m_statusMsg := StatusText ''Account created!'', m_view := ViewMenu,
                                 m_balanceInput := Blur (m_balanceInput m2),
                                 m_nameInput := Blur (m_nameInput m2)\<rparr>), app''))))
        else (Continue (focus_field (if f + 1 > 2 then 0 else f + 1) m), app))
      else if f = 0
      then (Continue (m\<lparr>m_balanceInput := te_inputUpdate env key (m_balanceInput m)\<rparr>), app)
      else if f = 1
      then (Continue (m\<lparr>m_nameInput := te_inputUpdate env key (m_nameInput m)\<rparr>), app)
      else (Continue m, app))"

definition updateAccountDetail :: "tui_env \<Rightarrow> string \<Rightarrow> Model \<Rightarrow> App \<Rightarrow> tui_call" where
  "updateAccountDetail env key m app =
     (if key = ''esc'' \<or> key = ''q'' then (Continue (m\<lparr>m_view := ViewMenu\<rparr>), app)
      else if is_up key
      then (Continue (m\<lparr>m_selectedAccountIndex := cursor_up (m_selectedAccountIndex m)\<rparr>), app)
      else if is_down key
      then (Continue (m\<lparr>m_selectedAccountIndex := cursor_down (account_count m) (m_selectedAccountIndex m)\<rparr>), app)
      else if key = ''enter'' \<and> account_count m > 0
      then or_crash (idx (m_cachedAccounts m) (m_selectedAccountIndex m)) (\<lambda>acc.
             (Continue (m\<lparr>m_selectedTransactionIndex :=
                  (if txCount_at app acc - 1 < 0 then 0 else txCount_at app acc - 1),
                m_transactionOffset := 0, m_view := ViewAccountDetailSingle\<rparr>), app)) app
      else (Continue m, app))"

text \<open>The number of transactions of the selected account, zero when there is none.\<close>

definition selected_txCount :: "Model \<Rightarrow> App \<Rightarrow> int option" where
  "selected_txCount m app =
     (if account_count m > 0 \<and> m_selectedAccountIndex m < account_count m
      then map_option (txCount_at app) (idx (m_cachedAccounts m) (m_selectedAccountIndex m))
      else Some 0)"

definition updateAccountDetailSingle :: "tui_env \<Rightarrow> string \<Rightarrow> Model \<Rightarrow> App \<Rightarrow> tui_call" where
  "updateAccountDetailSingle env key m app =
     or_crash (selected_txCount m app) (\<lambda>txCount.
      (if key = ''esc'' \<or> key = ''q'' then (Continue (m\<lparr>m_view := ViewAccountDetail\<rparr>), app)
       else if is_up key
       then (if m_selectedTransactionIndex m < txCount - 1
             then (let i = m_selectedTransactionIndex m + 1; off = m_transactionOffset m in
               (Continue (m\<lparr>m_selectedTransactionIndex := i,
                  m_transactionOffset := (if i > txCount - 1 - off \<and> off < txCount - 1 then off + 1 else off)\<rparr>), app))
             else (Continue m, app))
       else if is_down key
       then (if m_selectedTransactionIndex m > 0
             then (let i = m_selectedTransactionIndex m - 1; off = m_transactionOffset m in
               (Continue (m\<lparr>m_selectedTransactionIndex := i,
                  m_transactionOffset := (if i < txCount - 1 - off - 4 \<and> off > 0 then off - 1 else off)\<rparr>), app))
             else (Continue m, app))
       else if key = ''enter'' \<and> txCount > 0 then (Continue (m\<lparr>m_view := ViewTransactionDetail\<rparr>), app)
       else (Continue m, app))) app"

definition updateTransactionDetail :: "tui_env \<Rightarrow> string \<Rightarrow> Model \<Rightarrow> App \<Rightarrow> tui_call" where
  "updateTransactionDetail env key m app =
     (if key = ''esc'' \<or> key = ''q'' then (Continue (m\<lparr>m_view := ViewAccountDetailSingle\<rparr>), app)
      else (Continue m, app))"

definition updateVirtualNodes :: "tui_env \<Rightarrow> string \<Rightarrow> Model \<Rightarrow> App \<Rightarrow> tui_call" where
  "updateVirtualNodes env key m app =
     (if key = ''q'' \<or> key = ''esc'' then (Continue (m\<lparr>m_view := ViewMenu, m_statusMsg := StatusText []\<rparr>), app)
      else (Continue m, app))"

section \<open>Sending money\<close>

definition is_amount_char :: "char \<Rightarrow> bool" where
  "is_amount_char c \<longleftrightarrow> (CHR ''0'' \<le> c \<and> c \<le> CHR ''9'') \<or> c = CHR ''.''"

definition send_transfer :: "tui_env \<Rightarrow> float64 \<Rightarrow> Model \<Rightarrow> App \<Rightarrow> tui_call" where
  "send_transfer env amount m app =
     or_crash (idx (m_cachedAccounts m) (m_sendFromIndex m)) (\<lambda>fromID.
     or_crash (idx (m_cachedAccounts m) (m_sendToIndex m)) (\<lambda>toID.
       signed_action env fromID (TransferPayload_Bytes (te_marshal env))
         \<lparr>tp_From = id_String fromID, tp_To = id_String toID, tp_Amount = amount,
          tp_Nonce = nonce_at app fromID, tp_Timestamp = te_now env\<rparr>
         (TransferSigned (te_channel env)) True
         (\<lambda>_ m. m\<lparr>m_statusMsg := StatusText ''Transfer complete!'', m_view := ViewMenu, m_sendStep := 0\<rparr>)
         m app) app) app"

definition updateSendMoney :: "tui_env \<Rightarrow> string \<Rightarrow> Model \<Rightarrow> App \<Rightarrow> tui_call" where
  "updateSendMoney env key m app =
     (let step = m_sendStep m; n = account_count m in
      if key = ''esc''
      then (if step > 0 then (Continue (m\<lparr>m_sendStep := step - 1, m_statusMsg := StatusText []\<rparr>), app)
            else (Continue (m\<lparr>m_view := ViewMenu\<rparr>), app))
      else if is_up key
      then (if step = 0 then (Continue (m\<lparr>m_sendFromIndex := cursor_up (m_sendFromIndex m)\<rparr>), app)
            else if step = 1
            then (Continue (m\<lparr>m_sendToIndex := skip_up (m_sendFromIndex m) (m_sendToIndex m)\<rparr>), app)
            else (Continue m, app))
      else if is_down key
      then (if step = 0 then (Continue (m\<lparr>m_sendFromIndex := cursor_down n (m_sendFromIndex m)\<rparr>), app)
            else if step = 1
            then (Continue (m\<lparr>m_sendToIndex := skip_down n (m_sendFromIndex m) (m_sendToIndex m)\<rparr>), app)
            else (Continue m, app))
      else if key = ''enter''
      then (if step = 0
            then (Continue (m\<lparr>m_sendStep := 1, m_sendToIndex := first_other (m_sendFromIndex m)\<rparr>), app)
            else if step = 1 then (Continue (m\<lparr>m_sendStep := 2, m_sendAmount := []\<rparr>), app)
            else if step = 2
            then (case te_ParseFloat env (m_sendAmount m) of
                    None \<Rightarrow> (Continue (m\<lparr>m_statusMsg := StatusText ''Invalid amount''\<rparr>), app)
                  | Some amount \<Rightarrow>
                    if fle amount f0 then (Continue (m\<lparr>m_statusMsg := StatusText ''Invalid amount''\<rparr>), app)
                    else send_transfer env amount m app)
            else (Continue m, app))
      else if key = ''backspace''
      then (if step = 2 \<and> m_sendAmount m \<noteq> [] then (Continue (m\<lparr>m_sendAmount := butlast (m_sendAmount m)\<rparr>), app)
            else (Continue m, app))
      else (if step = 2 \<and> length key = 1 \<and> is_amount_char (hd key)
            then (Continue (m\<lparr>m_sendAmount := m_sendAmount m @ key\<rparr>), app)
            else (Continue m, app)))"

section \<open>Token menu\<close>

text \<open>The constant of \<^verbatim>\<open>updateTokenMenu\<close>, while the menu shows ten items.\<close>

definition tokenMenuItemCount :: int where
  "tokenMenuItemCount = 8"

definition tokenMenuItems :: "string list" where
  "tokenMenuItems = [''Mint Token'', ''Authorize Token Transfer'', ''Unauthorize Token Transfer'',
     ''Transfer Token'', ''View Account Tokens'', ''Burn Token'', ''Clawback Token'', ''Freeze Token'',
     ''Unfreeze Token'', ''Lookup Token'']"

definition token_view :: "int \<Rightarrow> Model \<Rightarrow> Model" where
  "token_view c m =
     (if c = 0 then m\<lparr>m_view := ViewMintToken, m_tokenValueInput := Blur (SetValue [] (m_tokenValueInput m))\<rparr>
      else if c = 1 then m\<lparr>m_view := ViewAuthorizeTokenTransfer\<rparr>
      else if c = 2 then m\<lparr>m_view := ViewUnauthorizeTokenTransfer\<rparr>
      else if c = 3 then m\<lparr>m_view := ViewTransferToken\<rparr>
      else if c = 4 then m\<lparr>m_view := ViewTokenList\<rparr>
      else if c = 5 then m\<lparr>m_view := ViewBurnToken\<rparr>
      else if c = 6 then m\<lparr>m_view := ViewClawbackToken\<rparr>
      else if c = 7 then m\<lparr>m_view := ViewFreezeToken\<rparr>
      else if c = 8 then m\<lparr>m_view := ViewUnfreezeToken\<rparr>
      else if c = 9 then m\<lparr>m_view := ViewLookupToken,
             m_lookupTokenInput := Blur (SetValue [] (m_lookupTokenInput m)), m_lookupResult := None\<rparr>
      else m)"

definition updateTokenMenu :: "tui_env \<Rightarrow> string \<Rightarrow> Model \<Rightarrow> App \<Rightarrow> tui_call" where
  "updateTokenMenu env key m app =
     (if key = ''esc'' then (Continue (m\<lparr>m_view := ViewMenu, m_statusMsg := StatusText []\<rparr>), app)
      else if is_up key then (Continue (m\<lparr>m_tokenMenuCursor := cursor_up (m_tokenMenuCursor m)\<rparr>), app)
      else if is_down key
      then (Continue (m\<lparr>m_tokenMenuCursor := cursor_down tokenMenuItemCount (m_tokenMenuCursor m)\<rparr>), app)
      else if key = ''enter''
      then refresh_then env (\<lambda>m. token_view (m_tokenMenuCursor m) m)
             (m\<lparr>m_tokenStep := 0, m_tokenAccountIndex := 0, m_tokenToAccountIndex := 0, m_tokenSourceIndex := 0,
                m_tokenClawbackIndex := 0, m_tokenFreezeIndex := 0, m_tokenTokenIndex := 0,
                m_tokenListOffset := 0, m_statusMsg := StatusText []\<rparr>) app
      else (Continue m, app))"

section \<open>Token operations\<close>

text \<open>
  The parts the views share: leaving a step, the three selectors, loading the tokens of an
  account, and moving on to the account or token selection.
\<close>

definition token_esc :: "Model \<Rightarrow> Model" where
  "token_esc m =
     (if m_tokenStep m > 0 then m\<lparr>m_tokenStep := m_tokenStep m - 1, m_statusMsg := StatusText []\<rparr>
      else m\<lparr>m_view := ViewTokenMenu\<rparr>)"

definition pick_account :: "string \<Rightarrow> Model \<Rightarrow> tui_call \<Rightarrow> App \<Rightarrow> tui_call" where
  "pick_account key m on_enter app =
     (if is_up key then (Continue (m\<lparr>m_tokenAccountIndex := cursor_up (m_tokenAccountIndex m)\<rparr>), app)
      else if is_down key
      then (Continue (m\<lparr>m_tokenAccountIndex := cursor_down (account_count m) (m_tokenAccountIndex m)\<rparr>), app)
      else if key = ''enter'' then on_enter
      else (Continue m, app))"

definition pick_source :: "string \<Rightarrow> Model \<Rightarrow> tui_call \<Rightarrow> App \<Rightarrow> tui_call" where
  "pick_source key m on_enter app =
     (if is_up key
      then (Continue (m\<lparr>m_tokenSourceIndex := skip_up (m_tokenAccountIndex m) (m_tokenSourceIndex m)\<rparr>), app)
      else if is_down key
      then (Continue (m\<lparr>m_tokenSourceIndex :=
              skip_down (account_count m) (m_tokenAccountIndex m) (m_tokenSourceIndex m)\<rparr>), app)
      else if key = ''enter'' then on_enter
      else (Continue m, app))"

definition pick_target :: "string \<Rightarrow> Model \<Rightarrow> tui_call \<Rightarrow> App \<Rightarrow> tui_call" where
  "pick_target key m on_enter app =
     (if is_up key
      then (Continue (m\<lparr>m_tokenToAccountIndex := skip_up (m_tokenAccountIndex m) (m_tokenToAccountIndex m)\<rparr>), app)
      else if is_down key
      then (Continue (m\<lparr>m_tokenToAccountIndex :=
              skip_down (account_count m) (m_tokenAccountIndex m) (m_tokenToAccountIndex m)\<rparr>), app)
      else if key = ''enter'' then on_enter
      else (Continue m, app))"

definition pick_token :: "string \<Rightarrow> Model \<Rightarrow> tui_call \<Rightarrow> App \<Rightarrow> tui_call" where
  "pick_token key m on_enter app =
     (if is_up key then (Continue (m\<lparr>m_tokenTokenIndex := cursor_up (m_tokenTokenIndex m)\<rparr>), app)
      else if is_down key
      then (Continue (m\<lparr>m_tokenTokenIndex := cursor_down (token_count m) (m_tokenTokenIndex m)\<rparr>), app)
      else if key = ''enter'' then on_enter
      else (Continue m, app))"

definition to_source_step :: "Model \<Rightarrow> Model" where
  "to_source_step m =
     (if account_count m < 2 then m\<lparr>m_statusMsg := StatusText ''Need at least 2 accounts''\<rparr>
      else m\<lparr>m_tokenStep := 1, m_tokenSourceIndex := first_other (m_tokenAccountIndex m),
             m_statusMsg := StatusText []\<rparr>)"

text \<open>
  Loads the tokens of account \<open>i\<close>, keeps those that \<open>keep\<close> admits, and goes to \<open>step\<close>; without
  any, \<open>msg\<close> is shown.  An unfiltered list stays in the cache also when it is empty.
\<close>

definition to_token_step :: "tui_env \<Rightarrow> int \<Rightarrow> int \<Rightarrow> string \<Rightarrow> Model \<Rightarrow> App \<Rightarrow> tui_call" where
  "to_token_step env i step msg m app =
     or_crash (refreshTokensForIndex env i m app) (\<lambda>m.
       (Continue (if m_cachedTokens m = [] then m\<lparr>m_statusMsg := StatusText msg\<rparr>
                  else m\<lparr>m_tokenStep := step, m_tokenTokenIndex := 0, m_statusMsg := StatusText []\<rparr>), app)) app"

definition to_filtered_step :: "tui_env \<Rightarrow> (ScalegraphId \<Rightarrow> Token \<Rightarrow> bool) \<Rightarrow> string \<Rightarrow> Model \<Rightarrow> App \<Rightarrow> tui_call" where
  "to_filtered_step env keep msg m app =
     or_crash (refreshTokensForIndex env (m_tokenSourceIndex m) m app) (\<lambda>m.
     or_crash (idx (m_cachedAccounts m) (m_tokenAccountIndex m)) (\<lambda>authorityID.
       (let filtered = List.filter (keep authorityID) (m_cachedTokens m) in
        (Continue (if filtered = [] then m\<lparr>m_statusMsg := StatusText msg\<rparr>
                   else m\<lparr>m_cachedTokens := filtered, m_tokenTokenIndex := 0, m_tokenStep := 2,
                          m_statusMsg := StatusText []\<rparr>), app))) app) app"

text \<open>The state after a successful token operation.\<close>

definition token_done :: "string \<Rightarrow> Model \<Rightarrow> Model" where
  "token_done msg m = m\<lparr>m_statusMsg := StatusText msg, m_view := ViewTokenMenu, m_tokenStep := 0\<rparr>"

text \<open>An optional authority: index 0 is none, index \<open>n + 1\<close> the account \<open>n\<close>.\<close>

definition optional_account :: "Model \<Rightarrow> int \<Rightarrow> string option option" where
  "optional_account m i =
     (if i > 0 then map_option (\<lambda>acc. Some (id_String acc)) (idx (m_cachedAccounts m) (i - 1)) else Some None)"

definition preview :: "string \<Rightarrow> string" where
  "preview tokenID = (if length tokenID > 8 then take 8 tokenID @ ''...'' else tokenID)"

definition updateMintToken :: "tui_env \<Rightarrow> string \<Rightarrow> Model \<Rightarrow> App \<Rightarrow> tui_call" where
  "updateMintToken env key m app =
     (if key = ''esc''
      then (Continue (let m1 = token_esc m in
              if m_tokenStep m > 0 \<and> m_tokenStep m1 = 1
              then m1\<lparr>m_tokenValueInput := Focus (m_tokenValueInput m1)\<rparr> else m1), app)
      else if m_tokenStep m = 0
      then pick_account key m
             (Continue (m\<lparr>m_tokenStep := 1, m_tokenValueInput := Focus (SetValue [] (m_tokenValueInput m))\<rparr>), app) app
      else if m_tokenStep m = 1
      then (if key = ''enter''
            then (if ti_value (m_tokenValueInput m) = []
                  then (Continue (m\<lparr>m_statusMsg := StatusText ''Token value cannot be empty''\<rparr>), app)
                  else (Continue (m\<lparr>m_tokenStep := 2, m_tokenClawbackIndex := 0,
                          m_tokenValueInput := Blur (m_tokenValueInput m)\<rparr>), app))
            else (Continue (m\<lparr>m_tokenValueInput := te_inputUpdate env key (m_tokenValueInput m)\<rparr>), app))
      else if m_tokenStep m = 2
      then (if is_up key then (Continue (m\<lparr>m_tokenClawbackIndex := cursor_up (m_tokenClawbackIndex m)\<rparr>), app)
            else if is_down key
            then (Continue (m\<lparr>m_tokenClawbackIndex :=
                    cursor_down (account_count m + 1) (m_tokenClawbackIndex m)\<rparr>), app)
            else if key = ''enter''
            then (Continue (m\<lparr>m_tokenStep := 3, m_tokenFreezeIndex := 0, m_statusMsg := StatusText []\<rparr>), app)
            else (Continue m, app))
      else if m_tokenStep m = 3
      then (if is_up key then (Continue (m\<lparr>m_tokenFreezeIndex := cursor_up (m_tokenFreezeIndex m)\<rparr>), app)
            else if is_down key
            then (Continue (m\<lparr>m_tokenFreezeIndex := cursor_down (account_count m + 1) (m_tokenFreezeIndex m)\<rparr>), app)
            else if key = ''enter''
            then or_crash (optional_account m (m_tokenClawbackIndex m)) (\<lambda>clawbackAddr.
                 or_crash (optional_account m (m_tokenFreezeIndex m)) (\<lambda>freezeAddr.
                 or_crash (idx (m_cachedAccounts m) (m_tokenAccountIndex m)) (\<lambda>signerID.
                   signed_action env signerID (MintTokenPayload_Bytes (te_marshal env))
                     \<lparr>mtp_TokenValue = ti_value (m_tokenValueInput m), mtp_ClawbackAddress = clawbackAddr,
                      mtp_FreezeAddress = freezeAddr, mtp_Nonce = nonce_at app signerID\<rparr>
                     (MintTokenSigned (te_channel env)) True
                     (\<lambda>tokenID. token_done (''Token minted! ID: '' @ preview tokenID)) m app) app) app) app
            else (Continue m, app))
      else (Continue m, app))"

text \<open>
  The two authorization views read the token owner's account only after the credentials were
  loaded; an index out of range then panics at that point.
\<close>

definition signed_action_late ::
    "tui_env \<Rightarrow> ScalegraphId \<Rightarrow> ('p \<Rightarrow> byte list) \<Rightarrow> 'p option \<Rightarrow> ('p SignedEnvelope \<Rightarrow> App \<Rightarrow> 'r client_call) \<Rightarrow>
     ('r \<Rightarrow> Model \<Rightarrow> Model) \<Rightarrow> Model \<Rightarrow> App \<Rightarrow> tui_call" where
  "signed_action_late env signer Bytes payload client_op after m app =
     (case payload of
        Some p \<Rightarrow> signed_action env signer Bytes p client_op True after m app
      | None \<Rightarrow>
        (case sbind (getCredentials env signer m) (\<lambda>creds m1.
                (DecodePrivateKeyPEM (te_keys env) (PrivateKeyPEM creds), m1)) of
           (Err e, m1) \<Rightarrow>
             (Continue (m1\<lparr>m_statusMsg := StatusFailed
                (if is_ok (fst (getCredentials env signer m)) then ''Failed to parse private key: ''
                 else ''Failed to load credentials: '') e\<rparr>), app)
         | (Panic, m1) \<Rightarrow> (Killed, app)
         | (Ok _, m1) \<Rightarrow> (Crash, app)))"

definition updateAuthorizeTokenTransfer :: "tui_env \<Rightarrow> string \<Rightarrow> Model \<Rightarrow> App \<Rightarrow> tui_call" where
  "updateAuthorizeTokenTransfer env key m app =
     (if key = ''esc'' then (Continue (token_esc m), app)
      else if m_tokenStep m = 0 then pick_account key m (Continue (to_source_step m), app) app
      else if m_tokenStep m = 1
      then pick_source key m
             (to_token_step env (m_tokenSourceIndex m) 2 ''Selected account has no owned tokens'' m app) app
      else if m_tokenStep m = 2
      then pick_token key m
             (or_crash (idx (m_cachedTokens m) (m_tokenTokenIndex m)) (\<lambda>selectedToken.
              or_crash (idx (m_cachedAccounts m) (m_tokenAccountIndex m)) (\<lambda>receiverID.
                signed_action_late env receiverID (AuthorizeTokenTransferPayload_Bytes (te_marshal env))
                  (map_option (\<lambda>tokenOwnerID.
                     \<lparr>atp_AccountID = id_String receiverID, atp_TokenID = token_ID selectedToken,
                      atp_TokenOwnerID = id_String tokenOwnerID, atp_Nonce = nonce_at app receiverID\<rparr>)
                    (idx (m_cachedAccounts m) (m_tokenSourceIndex m)))
                  (AuthorizeTokenTransferSigned (te_channel env)) (\<lambda>_. token_done ''Token transfer authorized!'') m app) app) app) app
      else (Continue m, app))"

definition updateUnauthorizeTokenTransfer :: "tui_env \<Rightarrow> string \<Rightarrow> Model \<Rightarrow> App \<Rightarrow> tui_call" where
  "updateUnauthorizeTokenTransfer env key m app =
     (if key = ''esc'' then (Continue (token_esc m), app)
      else if m_tokenStep m = 0 then pick_account key m (Continue (to_source_step m), app) app
      else if m_tokenStep m = 1
      then pick_source key m
             (to_token_step env (m_tokenSourceIndex m) 2 ''Selected account has no owned tokens'' m app) app
      else if m_tokenStep m = 2
      then pick_token key m
             (or_crash (idx (m_cachedTokens m) (m_tokenTokenIndex m)) (\<lambda>selectedToken.
              or_crash (idx (m_cachedAccounts m) (m_tokenAccountIndex m)) (\<lambda>receiverID.
                signed_action_late env receiverID (UnauthorizeTokenTransferPayload_Bytes (te_marshal env))
                  (map_option (\<lambda>tokenOwnerID.
                     \<lparr>utp_AccountID = id_String receiverID, utp_TokenID = token_ID selectedToken,
                      utp_TokenOwnerID = id_String tokenOwnerID, utp_Nonce = nonce_at app receiverID\<rparr>)
                    (idx (m_cachedAccounts m) (m_tokenSourceIndex m)))
                  (UnauthorizeTokenTransferSigned (te_channel env)) (\<lambda>_. token_done ''Token transfer unauthorized!'') m app) app) app) app
      else (Continue m, app))"

definition updateTransferToken :: "tui_env \<Rightarrow> string \<Rightarrow> Model \<Rightarrow> App \<Rightarrow> tui_call" where
  "updateTransferToken env key m app =
     (if key = ''esc'' then (Continue (token_esc m), app)
      else if m_tokenStep m = 0
      then pick_account key m
             (to_token_step env (m_tokenAccountIndex m) 1 ''This account has no owned tokens'' m app) app
      else if m_tokenStep m = 1
      then pick_token key m
             (Continue (m\<lparr>m_tokenStep := 2, m_tokenToAccountIndex := first_other (m_tokenAccountIndex m),
                m_statusMsg := StatusText []\<rparr>), app) app
      else if m_tokenStep m = 2
      then pick_target key m
             (or_crash (idx (m_cachedAccounts m) (m_tokenAccountIndex m)) (\<lambda>fromID.
              or_crash (idx (m_cachedAccounts m) (m_tokenToAccountIndex m)) (\<lambda>toID.
              or_crash (idx (m_cachedTokens m) (m_tokenTokenIndex m)) (\<lambda>selectedToken.
                signed_action env fromID (TransferTokenPayload_Bytes (te_marshal env))
                  \<lparr>ttp_From = id_String fromID, ttp_To = id_String toID, ttp_TokenID = token_ID selectedToken,
                   ttp_Nonce = nonce_at app fromID\<rparr>
                  (TransferTokenSigned (te_channel env)) True (\<lambda>_. token_done ''Token transferred!'')
                  m app) app) app) app) app
      else (Continue m, app))"

definition updateBurnToken :: "tui_env \<Rightarrow> string \<Rightarrow> Model \<Rightarrow> App \<Rightarrow> tui_call" where
  "updateBurnToken env key m app =
     (if key = ''esc'' then (Continue (token_esc m), app)
      else if m_tokenStep m = 0
      then pick_account key m
             (to_token_step env (m_tokenAccountIndex m) 1 ''This account has no owned tokens'' m app) app
      else if m_tokenStep m = 1
      then pick_token key m
             (or_crash (idx (m_cachedAccounts m) (m_tokenAccountIndex m)) (\<lambda>ownerID.
              or_crash (idx (m_cachedTokens m) (m_tokenTokenIndex m)) (\<lambda>selectedToken.
                signed_action env ownerID (BurnTokenPayload_Bytes (te_marshal env))
                  \<lparr>btp_AccountID = id_String ownerID, btp_TokenID = token_ID selectedToken,
                   btp_Nonce = nonce_at app ownerID\<rparr>
                  (BurnTokenSigned (te_channel env)) True (\<lambda>_. token_done ''Token burned!'')
                  m app) app) app) app
      else (Continue m, app))"

definition updateClawbackToken :: "tui_env \<Rightarrow> string \<Rightarrow> Model \<Rightarrow> App \<Rightarrow> tui_call" where
  "updateClawbackToken env key m app =
     (if key = ''esc'' then (Continue (token_esc m), app)
      else if m_tokenStep m = 0 then pick_account key m (Continue (to_source_step m), app) app
      else if m_tokenStep m = 1
      then pick_source key m
             (to_filtered_step env (\<lambda>authorityID tok. clawbackAddress tok = Some authorityID)
                ''No clawable tokens for this authority in selected account'' m app) app
      else if m_tokenStep m = 2
      then pick_token key m
             (or_crash (idx (m_cachedAccounts m) (m_tokenAccountIndex m)) (\<lambda>authorityID.
              or_crash (idx (m_cachedAccounts m) (m_tokenSourceIndex m)) (\<lambda>holderID.
              or_crash (idx (m_cachedTokens m) (m_tokenTokenIndex m)) (\<lambda>selectedToken.
                signed_action env authorityID (ClawbackTokenPayload_Bytes (te_marshal env))
                  \<lparr>ctp_From = id_String holderID, ctp_To = id_String authorityID, ctp_TokenID = token_ID selectedToken,
                   ctp_Nonce = nonce_at app authorityID\<rparr>
                  (ClawbackTokenSigned (te_channel env)) True (\<lambda>_. token_done ''Token clawed back!'')
                  m app) app) app) app) app
      else (Continue m, app))"

definition updateFreezeToken :: "tui_env \<Rightarrow> string \<Rightarrow> Model \<Rightarrow> App \<Rightarrow> tui_call" where
  "updateFreezeToken env key m app =
     (if key = ''esc'' then (Continue (token_esc m), app)
      else if m_tokenStep m = 0 then pick_account key m (Continue (to_source_step m), app) app
      else if m_tokenStep m = 1
      then pick_source key m
             (to_filtered_step env (\<lambda>authorityID tok. freezeAddress tok = Some authorityID \<and> \<not> frozen tok)
                ''No freezable tokens for this authority in selected account'' m app) app
      else if m_tokenStep m = 2
      then pick_token key m
             (or_crash (idx (m_cachedAccounts m) (m_tokenAccountIndex m)) (\<lambda>authorityID.
              or_crash (idx (m_cachedAccounts m) (m_tokenSourceIndex m)) (\<lambda>holderID.
              or_crash (idx (m_cachedTokens m) (m_tokenTokenIndex m)) (\<lambda>selectedToken.
                signed_action env authorityID (FreezeTokenPayload_Bytes (te_marshal env))
                  \<lparr>fzp_FreezeAuthority = id_String authorityID, fzp_TokenHolder = id_String holderID,
                   fzp_TokenID = token_ID selectedToken, fzp_Nonce = nonce_at app authorityID\<rparr>
                  (FreezeTokenSigned (te_channel env)) True (\<lambda>_. token_done ''Token frozen!'')
                  m app) app) app) app) app
      else (Continue m, app))"

definition updateUnfreezeToken :: "tui_env \<Rightarrow> string \<Rightarrow> Model \<Rightarrow> App \<Rightarrow> tui_call" where
  "updateUnfreezeToken env key m app =
     (if key = ''esc'' then (Continue (token_esc m), app)
      else if m_tokenStep m = 0 then pick_account key m (Continue (to_source_step m), app) app
      else if m_tokenStep m = 1
      then pick_source key m
             (to_filtered_step env (\<lambda>authorityID tok. freezeAddress tok = Some authorityID \<and> frozen tok)
                ''No frozen tokens for this authority in selected account'' m app) app
      else if m_tokenStep m = 2
      then pick_token key m
             (or_crash (idx (m_cachedAccounts m) (m_tokenAccountIndex m)) (\<lambda>authorityID.
              or_crash (idx (m_cachedAccounts m) (m_tokenSourceIndex m)) (\<lambda>holderID.
              or_crash (idx (m_cachedTokens m) (m_tokenTokenIndex m)) (\<lambda>selectedToken.
                signed_action env authorityID (UnfreezeTokenPayload_Bytes (te_marshal env))
                  \<lparr>ufp_FreezeAuthority = id_String authorityID, ufp_TokenHolder = id_String holderID,
                   ufp_TokenID = token_ID selectedToken, ufp_Nonce = nonce_at app authorityID\<rparr>
                  (UnfreezeTokenSigned (te_channel env)) True (\<lambda>_. token_done ''Token unfrozen!'')
                  m app) app) app) app) app
      else (Continue m, app))"

definition max_display :: "Model \<Rightarrow> int" where
  "max_display m = (let d = (if m_height m > 20 then m_height m - 16 else 8) in if d < 3 then 3 else d)"

definition updateTokenList :: "tui_env \<Rightarrow> string \<Rightarrow> Model \<Rightarrow> App \<Rightarrow> tui_call" where
  "updateTokenList env key m app =
     (if key = ''esc'' \<or> key = ''q''
      then (Continue (if m_tokenStep m > 0
              then m\<lparr>m_tokenStep := m_tokenStep m - 1, m_tokenListOffset := 0, m_tokenTokenIndex := 0\<rparr>
              else m\<lparr>m_view := ViewTokenMenu\<rparr>), app)
      else if m_tokenStep m = 0
      then pick_account key m
             (or_crash (refreshTokens env m app) (\<lambda>m.
                (Continue (m\<lparr>m_tokenStep := 1, m_tokenTokenIndex := 0, m_tokenListOffset := 0\<rparr>), app)) app) app
      else if m_tokenStep m = 1
      then (if is_up key
            then (if m_tokenTokenIndex m > 0
                  then (let i = m_tokenTokenIndex m - 1 in
                    (Continue (m\<lparr>m_tokenTokenIndex := i,
                       m_tokenListOffset := (if i < m_tokenListOffset m then i else m_tokenListOffset m)\<rparr>), app))
                  else (Continue m, app))
            else if is_down key
            then (if m_tokenTokenIndex m < token_count m - 1
                  then (let i = m_tokenTokenIndex m + 1 in
                    (Continue (m\<lparr>m_tokenTokenIndex := i,
                       m_tokenListOffset := (if i \<ge> m_tokenListOffset m + max_display m
                                             then i - max_display m + 1 else m_tokenListOffset m)\<rparr>), app))
                  else (Continue m, app))
            else (Continue m, app))
      else (Continue m, app))"

definition updateLookupToken :: "tui_env \<Rightarrow> string \<Rightarrow> Model \<Rightarrow> App \<Rightarrow> tui_call" where
  "updateLookupToken env key m app =
     (if key = ''esc''
      then (Continue (if m_tokenStep m > 0
              then (let m1 = (token_esc m)\<lparr>m_lookupResult := None\<rparr> in
                    if m_tokenStep m1 = 1 then m1\<lparr>m_lookupTokenInput := Focus (m_lookupTokenInput m1)\<rparr> else m1)
              else m\<lparr>m_view := ViewTokenMenu\<rparr>), app)
      else if m_tokenStep m = 0
      then pick_account key m
             (Continue (m\<lparr>m_tokenStep := 1, m_lookupTokenInput := Focus (SetValue [] (m_lookupTokenInput m)),
                m_lookupResult := None, m_statusMsg := StatusText []\<rparr>), app) app
      else if m_tokenStep m = 1
      then (if key = ''enter''
            then (if ti_value (m_lookupTokenInput m) = []
                  then (Continue (m\<lparr>m_statusMsg := StatusText ''Token ID cannot be empty''\<rparr>), app)
                  else or_crash (idx (m_cachedAccounts m) (m_tokenAccountIndex m)) (\<lambda>signerID.
                    signed_action env signerID (LookupTokenPayload_Bytes (te_marshal env))
                      \<lparr>ltp_TokenID = ti_value (m_lookupTokenInput m), ltp_AccountID = id_String signerID\<rparr>
                      (LookupTokenSigned (te_channel env)) False
                      (\<lambda>tok m. m\<lparr>m_lookupResult := tok, m_lookupTokenInput := Blur (m_lookupTokenInput m),
                                 m_tokenStep := 2, m_statusMsg := StatusText []\<rparr>) m app) app)
            else (Continue (m\<lparr>m_lookupTokenInput := te_inputUpdate env key (m_lookupTokenInput m)\<rparr>), app))
      else if m_tokenStep m = 2 \<and> (key = ''enter'' \<or> key = ''q'')
      then (Continue (m\<lparr>m_view := ViewTokenMenu, m_tokenStep := 0, m_lookupResult := None\<rparr>), app)
      else (Continue m, app))"

section \<open>The update function\<close>

datatype tui_msg = KeyMsg string | WindowSizeMsg int int | OtherMsg

definition update_view :: "tui_env \<Rightarrow> string \<Rightarrow> Model \<Rightarrow> App \<Rightarrow> tui_call" where
  "update_view env key m =
     (case m_view m of
        ViewMenu \<Rightarrow> updateMenu env key m
      | ViewCreateAccount \<Rightarrow> updateCreateAccount env key m
      | ViewAccountDetail \<Rightarrow> updateAccountDetail env key m
      | ViewAccountDetailSingle \<Rightarrow> updateAccountDetailSingle env key m
      | ViewTransactionDetail \<Rightarrow> updateTransactionDetail env key m
      | ViewSendMoney \<Rightarrow> updateSendMoney env key m
      | ViewVirtualNodes \<Rightarrow> updateVirtualNodes env key m
      | ViewTokenMenu \<Rightarrow> updateTokenMenu env key m
      | ViewMintToken \<Rightarrow> updateMintToken env key m
      | ViewAuthorizeTokenTransfer \<Rightarrow> updateAuthorizeTokenTransfer env key m
      | ViewUnauthorizeTokenTransfer \<Rightarrow> updateUnauthorizeTokenTransfer env key m
      | ViewTransferToken \<Rightarrow> updateTransferToken env key m
      | ViewTokenList \<Rightarrow> updateTokenList env key m
      | ViewBurnToken \<Rightarrow> updateBurnToken env key m
      | ViewClawbackToken \<Rightarrow> updateClawbackToken env key m
      | ViewFreezeToken \<Rightarrow> updateFreezeToken env key m
      | ViewUnfreezeToken \<Rightarrow> updateUnfreezeToken env key m
      | ViewLookupToken \<Rightarrow> updateLookupToken env key m)"

definition tui_Update :: "tui_env \<Rightarrow> tui_msg \<Rightarrow> Model \<Rightarrow> App \<Rightarrow> tui_call" where
  "tui_Update env msg m app =
     (case msg of
        KeyMsg key \<Rightarrow> if key = ''ctrl+c'' then (QuitProgram m, app) else update_view env key m app
      | WindowSizeMsg w h \<Rightarrow> (Continue (m\<lparr>m_width := w, m_height := h, m_ready := True\<rparr>), app)
      | OtherMsg \<Rightarrow> (Continue m, app))"

lemmas update_defs = updateMenu_def updateCreateAccount_def updateAccountDetail_def
  updateAccountDetailSingle_def updateTransactionDetail_def updateVirtualNodes_def
  updateSendMoney_def updateTokenMenu_def updateMintToken_def updateAuthorizeTokenTransfer_def
  updateUnauthorizeTokenTransfer_def updateTransferToken_def updateBurnToken_def
  updateClawbackToken_def updateFreezeToken_def updateUnfreezeToken_def updateTokenList_def
  updateLookupToken_def

end
