(* ===== verification/Text_Format.thy ===== *)
theory Text_Format
  imports Ids
begin

text \<open>
  The little of \<^verbatim>\<open>strconv\<close>, \<^verbatim>\<open>strings\<close>, \<^verbatim>\<open>bytes\<close> and \<^verbatim>\<open>fmt\<close> that the terminal interface and the test
  client use on texts, which are lists of bytes.
\<close>

section \<open>Lines and padding\<close>

definition nl :: string where "nl = [CHR 0x0A]"

fun join :: "string \<Rightarrow> string list \<Rightarrow> string" where
  "join sep [] = []"
| "join sep [s] = s"
| "join sep (s # t # ss) = s @ sep @ join sep (t # ss)"

fun split_lines :: "string \<Rightarrow> string list" where
  "split_lines [] = [[]]"
| "split_lines (c # s) =
     (if c = CHR 0x0A then [] # split_lines s
      else (case split_lines s of [] \<Rightarrow> [[c]] | l # ls \<Rightarrow> (c # l) # ls))"

definition trim_right :: "char \<Rightarrow> string \<Rightarrow> string" where
  "trim_right x s = rev (dropWhile (\<lambda>c. c = x) (rev s))"

text \<open>\<^verbatim>\<open>TrimSpace\<close>; the spaces beyond ASCII are left out.\<close>

definition is_space :: "char \<Rightarrow> bool" where
  "is_space c \<longleftrightarrow> c \<in> {CHR '' '', CHR 0x09, CHR 0x0A, CHR 0x0B, CHR 0x0C, CHR 0x0D}"

definition TrimSpace :: "string \<Rightarrow> string" where
  "TrimSpace s = rev (dropWhile is_space (rev (dropWhile is_space s)))"

text \<open>What is in front of a separator, all of the text when it does not occur (\<^verbatim>\<open>Cut\<close>).\<close>

definition before :: "char \<Rightarrow> string \<Rightarrow> string" where
  "before x s = takeWhile (\<lambda>c. c \<noteq> x) s"

text \<open>The verb \<^verbatim>\<open>%-12s\<close> pads on the right; it counts the characters of a UTF-8 string, not its bytes.\<close>

definition RuneCount :: "string \<Rightarrow> nat" where
  "RuneCount s = length (List.filter (\<lambda>c. \<not> ((0x80 :: nat) \<le> of_char c \<and> of_char c < (0xC0 :: nat))) s)"

definition pad :: "nat \<Rightarrow> string \<Rightarrow> string" where
  "pad n s = s @ replicate (n - RuneCount s) (CHR '' '')"

section \<open>Numbers\<close>

fun digits :: "nat \<Rightarrow> string" where
  "digits n = (if n < 10 then [hexdigit n] else digits (n div 10) @ [hexdigit (n mod 10)])"

declare digits.simps [simp del]

definition itoa :: "int \<Rightarrow> string" where
  "itoa i = (if i < 0 then ''-'' @ digits (nat (- i)) else digits (nat i))"

definition is_digit :: "char \<Rightarrow> bool" where
  "is_digit c \<longleftrightarrow> 48 \<le> (of_char c :: nat) \<and> (of_char c :: nat) \<le> 57"

text \<open>\<^verbatim>\<open>strconv.Atoi\<close>: an optional sign and decimal digits, an error outside of \<^verbatim>\<open>int64\<close>.\<close>

definition decimal :: "string \<Rightarrow> nat option" where
  "decimal s =
     (if s \<noteq> [] \<and> list_all is_digit s then Some (fold (\<lambda>c n. 10 * n + (of_char c - 48)) s 0) else None)"

definition int64_range :: "int \<Rightarrow> int option" where
  "int64_range i = (if - (2 ^ 63) \<le> i \<and> i < 2 ^ 63 then Some i else None)"

definition Atoi :: "string \<Rightarrow> int option" where
  "Atoi s =
     (case s of
        [] \<Rightarrow> None
      | c # t \<Rightarrow>
        (if c = CHR ''-'' then Option.bind (decimal t) (\<lambda>n. int64_range (- int n))
         else if c = CHR ''+'' then Option.bind (decimal t) (\<lambda>n. int64_range (int n))
         else Option.bind (decimal s) (\<lambda>n. int64_range (int n))))"

section \<open>Laws\<close>

lemma hexdigit_digit: "n < 10 \<Longrightarrow> is_digit (hexdigit n) \<and> of_char (hexdigit n) - 48 = n"
  by (simp add: hexdigit_def is_digit_def of_char_of take_bit_nat_eq_self)

lemma digits_all: "list_all is_digit (digits n) \<and> digits n \<noteq> []"
  by (induction n rule: digits.induct) (subst (1 2) digits.simps, auto simp: hexdigit_digit)

lemma digits_fold: "fold (\<lambda>c n. 10 * n + (of_char c - 48)) (digits n) 0 = n"
proof (induction n rule: digits.induct)
  case (1 n)
  show ?case
  proof (cases "n < 10")
    case True
    then show ?thesis by (subst digits.simps) (simp add: hexdigit_digit)
  next
    case False
    then show ?thesis using 1 by (subst digits.simps) (simp add: hexdigit_digit)
  qed
qed

lemma decimal_digits: "decimal (digits n) = Some n"
  using digits_all [of n] digits_fold [of n] by (simp add: decimal_def)

lemma is_digit_not: "is_digit c \<Longrightarrow> c \<noteq> CHR ''-'' \<and> c \<noteq> CHR ''+'' \<and> c \<noteq> CHR '','' \<and> c \<noteq> CHR '' '' \<and> c \<noteq> CHR 0x0A \<and> \<not> is_space c"
  by (auto simp: is_digit_def is_space_def of_char_def)

text \<open>Printing and parsing numbers.\<close>

lemma Atoi_itoa:
  assumes "- (2 ^ 63) \<le> i" "i < 2 ^ 63"
  shows "Atoi (itoa i) = Some i"
proof (cases "i < 0")
  case True
  then show ?thesis using assms by (simp add: Atoi_def itoa_def decimal_digits int64_range_def)
next
  case False
  obtain c t where d: "digits (nat i) = c # t" using digits_all by (cases "digits (nat i)") auto
  then have "is_digit c" using digits_all [of "nat i"] by simp
  then show ?thesis using False assms d decimal_digits [of "nat i"] is_digit_not [of c]
    by (simp add: Atoi_def itoa_def int64_range_def)
qed

lemma itoa_nonneg: "0 \<le> i \<Longrightarrow> itoa i = digits (nat i)"
  by (simp add: itoa_def)

text \<open>The last line of a text.\<close>

lemma split_lines_nonempty: "split_lines s \<noteq> []"
  by (induction s) (auto split: list.split)

lemma split_lines_single: "CHR 0x0A \<notin> set s \<Longrightarrow> split_lines s = [s]"
  by (induction s) auto

lemma split_lines_append: "split_lines (s @ CHR 0x0A # t) = split_lines s @ split_lines t"
  by (induction s) (auto split: list.split simp: split_lines_nonempty)

lemma trim_right_end: "s \<noteq> [] \<Longrightarrow> last s \<noteq> x \<Longrightarrow> trim_right x (s @ [x]) = s"
  by (cases s rule: rev_cases) (auto simp: trim_right_def)

lemma TrimSpace_digits: "list_all is_digit s \<Longrightarrow> TrimSpace s = s"
proof -
  assume "list_all is_digit s"
  then have "\<forall>c \<in> set s. \<not> is_space c" using is_digit_not by (auto simp: list_all_iff)
  then have "dropWhile is_space s = s" "dropWhile is_space (rev s) = rev s"
    by (metis dropWhile_eq_self_iff hd_in_set, metis dropWhile_eq_self_iff hd_in_set set_rev)
  then show ?thesis by (simp add: TrimSpace_def)
qed

lemma TrimSpace_nonempty: "c \<in> set s \<Longrightarrow> \<not> is_space c \<Longrightarrow> TrimSpace s \<noteq> []"
proof -
  assume c: "c \<in> set s" "\<not> is_space c"
  then have "c \<in> set (dropWhile is_space s)"
    by (metis UnE set_append set_takeWhileD takeWhile_dropWhile_id)
  then show ?thesis using c(2) by (auto simp: TrimSpace_def dropWhile_eq_Nil_conv)
qed

lemma before_digits: "list_all is_digit s \<Longrightarrow> before (CHR '','') (s @ CHR '','' # t) = s"
  using is_digit_not by (fastforce simp: before_def list_all_iff takeWhile_append2)

end
