(* ===== verification/Tui_View.thy ===== *)
theory Tui_View
  imports Tui Text_Format "HOL-Library.Monad_Syntax"
begin

text \<open>
  \<^verbatim>\<open>internal/tui/view.go\<close>: what the terminal interface draws.  A drawing is the text handed to the
  styling library, whose styles and layout functions are arguments; \<open>None\<close> is a panic, of an index
  out of range or of a nil account pointer.  Non-ASCII characters are their UTF-8 bytes.
\<close>

section \<open>Styles\<close>

text \<open>
  The styles, the layout functions and the view of a text field are third-party; the text of an
  error, the formatting of amounts with two decimals and the order in which Go lists a map are
  arguments too.  The registry is nil when there is no server.
\<close>

record view_env =
  ve_title :: "string \<Rightarrow> string"
  ve_help :: "string \<Rightarrow> string"
  ve_selected :: "string \<Rightarrow> string"
  ve_statusStyle :: "string \<Rightarrow> string"
  ve_focusedLabel :: "string \<Rightarrow> string"
  ve_textLabel :: "string \<Rightarrow> string"
  ve_focusedButton :: "string \<Rightarrow> string"
  ve_bold :: "string \<Rightarrow> string"
  ve_Width :: "int \<Rightarrow> string \<Rightarrow> string"
  ve_box :: "int \<Rightarrow> string \<Rightarrow> string"
  ve_JoinVertical :: "string list \<Rightarrow> string"
  ve_Place :: "int \<Rightarrow> int \<Rightarrow> string \<Rightarrow> string"
  ve_input :: "textinput \<Rightarrow> string"
  ve_errorText :: "error \<Rightarrow> string"
  ve_amount :: "float64 \<Rightarrow> string"
  ve_vapps :: "VirtualApp list option"
  ve_listAddresses :: "(string \<rightharpoonup> string) \<Rightarrow> (string \<times> string) list"

section \<open>Text\<close>

definition arrow_up :: string where "arrow_up = [CHR 0xE2, CHR 0x86, CHR 0x91]"
definition arrow_down :: string where "arrow_down = [CHR 0xE2, CHR 0x86, CHR 0x93]"
definition bullet :: string where "bullet = [CHR 0xE2, CHR 0x80, CHR 0xA2]"
definition dash :: string where "dash = [CHR 0xE2, CHR 0x80, CHR 0x94]"
definition full_block :: string where "full_block = [CHR 0xE2, CHR 0x96, CHR 0x88]"

definition shortID :: "string \<Rightarrow> nat \<Rightarrow> string" where
  "shortID i n = (if length i > n then take n i @ ''...'' else i)"

text \<open>The key hints at the bottom of a page.\<close>

definition hints :: "string list \<Rightarrow> string" where
  "hints = join ('' '' @ bullet @ '' '')"

definition navigate :: string where
  "navigate = arrow_up @ ''/'' @ arrow_down @ '': navigate''"

fun status_text :: "view_env \<Rightarrow> status \<Rightarrow> string" where
  "status_text V (StatusText s) = s"
| "status_text V (StatusError e) = ve_errorText V e"
| "status_text V (StatusFailed s e) = s @ ve_errorText V e"

definition renderStatus :: "view_env \<Rightarrow> Model \<Rightarrow> string" where
  "renderStatus V m =
     (let msg = status_text V (m_statusMsg m);
          maxWidth = (if m_width m - 4 < 20 then 20 else m_width m - 4) in
      if msg = [] then []
      else ve_statusStyle V (join nl (map (trim_right (CHR '' '')) (split_lines (ve_Width V maxWidth msg)))))"

section \<open>Reading accounts\<close>

definition getAccountDisplayName :: "Model \<Rightarrow> ScalegraphId \<Rightarrow> string" where
  "getAccountDisplayName m acc =
     (case m_accountNames m acc of
        Some name \<Rightarrow> if name \<noteq> [] then name else take 8 (id_String acc) @ ''...''
      | None \<Rightarrow> take 8 (id_String acc) @ ''...'')"

text \<open>The name behind a pointer that may be nil.\<close>

definition name_at :: "Model \<Rightarrow> acct_ref \<Rightarrow> string option" where
  "name_at m acc = map_option (getAccountDisplayName m) acc"

definition balance_at :: "App \<Rightarrow> ScalegraphId \<Rightarrow> float64" where
  "balance_at app i = (case accounts app i of None \<Rightarrow> f0 | Some a \<Rightarrow> balance a)"

definition mbr_at :: "App \<Rightarrow> ScalegraphId \<Rightarrow> float64" where
  "mbr_at app i = (case accounts app i of None \<Rightarrow> f0 | Some a \<Rightarrow> mbr a)"

definition transactions_at :: "App \<Rightarrow> ScalegraphId \<Rightarrow> transaction list" where
  "transactions_at app i =
     (case accounts app i of
        None \<Rightarrow> []
      | Some a \<Rightarrow> List.map_filter block_Transaction (GetBlocks (blockchain a)))"

section \<open>Rows and pages\<close>

definition row :: "view_env \<Rightarrow> bool \<Rightarrow> string \<Rightarrow> string" where
  "row V sel line = (if sel then ''> '' @ ve_selected V line else ''  '' @ line) @ nl"

text \<open>A list with a cursor; \<open>skip\<close> is the index that is left out, if any.\<close>

definition rows :: "view_env \<Rightarrow> int option \<Rightarrow> int \<Rightarrow> (int \<Rightarrow> 'a \<Rightarrow> string) \<Rightarrow> 'a list \<Rightarrow> string" where
  "rows V skip sel line xs =
     concat (map (\<lambda>(i, x). if skip = Some (int i) then [] else row V (int i = sel) (line (int i) x))
       (enumerate 0 xs))"

definition balance_line :: "view_env \<Rightarrow> Model \<Rightarrow> App \<Rightarrow> ScalegraphId \<Rightarrow> string" where
  "balance_line V m app acc = getAccountDisplayName m acc @ ''  Balance: '' @ ve_amount V (balance_at app acc)"

definition tokens_line :: "view_env \<Rightarrow> Model \<Rightarrow> App \<Rightarrow> ScalegraphId \<Rightarrow> string" where
  "tokens_line V m app acc =
     balance_line V m app acc @ ''  Tokens: '' @ itoa (int (card (tokens_at app acc)))"

definition token_line :: "Token \<Rightarrow> string" where
  "token_line tok = ''Value: '' @ pad 12 (tok_value tok) @ ''  ID: '' @ shortID (token_ID tok) 8"

definition balance_rows :: "view_env \<Rightarrow> Model \<Rightarrow> App \<Rightarrow> int option \<Rightarrow> int \<Rightarrow> string" where
  "balance_rows V m app skip sel = rows V skip sel (\<lambda>_. balance_line V m app) (m_cachedAccounts m)"

definition tokens_rows :: "view_env \<Rightarrow> Model \<Rightarrow> App \<Rightarrow> int option \<Rightarrow> int \<Rightarrow> string" where
  "tokens_rows V m app skip sel = rows V skip sel (\<lambda>_. tokens_line V m app) (m_cachedAccounts m)"

definition plain_page :: "view_env \<Rightarrow> string \<Rightarrow> string \<Rightarrow> string list \<Rightarrow> string" where
  "plain_page V title content help =
     ve_JoinVertical V [ve_title V title, [], content, [], ve_help V (hints help)]"

definition status_page :: "view_env \<Rightarrow> Model \<Rightarrow> string \<Rightarrow> string \<Rightarrow> string list \<Rightarrow> string" where
  "status_page V m title content help =
     ve_JoinVertical V [ve_title V title, [], content, [], renderStatus V m, ve_help V (hints help)]"

section \<open>Menu, accounts and nodes\<close>

definition viewMenu :: "view_env \<Rightarrow> Model \<Rightarrow> string" where
  "viewMenu V m =
     status_page V m ''SG Emulator'' (rows V None (m_menuCursor m) (\<lambda>_ item. item) menuItems)
       [navigate, ''enter: select'', ''q: quit'']"

definition viewCreateAccount :: "view_env \<Rightarrow> Model \<Rightarrow> string" where
  "viewCreateAccount V m =
     (let label = (\<lambda>i s. if m_createAccountFocus m = i then ve_focusedLabel V s else ve_textLabel V s);
          inputs = label 0 ''Initial Balance:'' @ nl @ ve_input V (m_balanceInput m) @ nl @ nl @
            label 1 ''Account Name (optional):'' @ nl @ ve_input V (m_nameInput m) @ nl @ nl @
            (if m_createAccountFocus m = 2 then ve_focusedButton V ''[ Submit ]'' else ve_textLabel V ''[ Submit ]'');
          statusRaw = renderStatus V m
      in ve_JoinVertical V [ve_title V ''Create Account'', [], inputs, [],
           (if statusRaw \<noteq> [] then statusRaw @ nl else []),
           ve_help V (hints [''tab/shift+tab: navigate'', ''enter: submit/next'', ''esc: back''])])"

definition viewAccountDetail :: "view_env \<Rightarrow> Model \<Rightarrow> App \<Rightarrow> string" where
  "viewAccountDetail V m app =
     plain_page V ''Account Details''
       (if m_cachedAccounts m = [] then ''No accounts available.''
        else balance_rows V m app None (m_selectedAccountIndex m))
       [navigate, ''enter: view details'', ''esc: back'']"

definition viewVirtualNodes :: "view_env \<Rightarrow> string" where
  "viewVirtualNodes V =
     plain_page V ''Virtual Nodes''
       (case ve_vapps V of
          None \<Rightarrow> ''Server not available''
        | Some vapps \<Rightarrow>
          if vapps = []
          then ''No virtual nodes created.'' @ nl @ nl @
            ve_help V ''Use -rest N or -grpc N flags to create virtual nodes''
          else ''Total Virtual Nodes: '' @ itoa (int (length vapps)) @ nl @ nl @
            concat (map (\<lambda>(i, vapp).
              ''Node '' @ itoa (int i + 1) @ '':'' @ nl @ ''  ID:        '' @ id_String (vapp_ID vapp) @ nl @
              (let addresses = ve_listAddresses V (Addresses vapp) in
               if addresses = [] then ''  Transport: none'' @ nl
               else concat (map (\<lambda>(ty, addr). ''  Transport: '' @ ty @ nl @ ''  Address:   '' @ addr @ nl) addresses))
              @ nl) (enumerate 0 vapps)))
       [''esc: back to menu'']"

text \<open>The width of a box: a default, or the window's less a margin, between two bounds.\<close>

definition box_width :: "Model \<Rightarrow> int \<Rightarrow> int \<Rightarrow> int \<Rightarrow> int" where
  "box_width m dflt lo hi =
     (if m_width m > 0
      then (let w = m_width m - 10; w1 = (if w > hi then hi else w) in if w1 < lo then lo else w1)
      else dflt)"

section \<open>Transactions\<close>

definition owner_is :: "ScalegraphId \<Rightarrow> acct_ref \<Rightarrow> bool" where
  "owner_is self acc \<longleftrightarrow> acc = Some self"

text \<open>A line of the history; freezing and unfreezing have none of their own.\<close>

definition tx_line :: "view_env \<Rightarrow> Model \<Rightarrow> ScalegraphId \<Rightarrow> transaction \<Rightarrow> string option" where
  "tx_line V m self tx =
     (case tx of
        TransferTransaction _ s r amount \<Rightarrow>
          if owner_is self s
          then do { n \<leftarrow> name_at m r; Some (''Send -'' @ ve_amount V amount @ '' to '' @ n) }
          else if owner_is self r
          then do { n \<leftarrow> name_at m s; Some (''Receive +'' @ ve_amount V amount @ '' from '' @ n) }
          else Some []
      | MintTransaction _ _ _ amount \<Rightarrow> Some (''Mint +'' @ ve_amount V amount)
      | BurnTransaction _ _ _ amount \<Rightarrow> Some (''Burn -'' @ ve_amount V amount)
      | MintTokenTransaction _ _ _ tok \<Rightarrow>
          Some (''Token Mint  val:'' @ pad 10 (tok_value tok) @ '' id:'' @ shortID (token_ID tok) 8)
      | TransferTokenTransaction _ s r tok _ \<Rightarrow>
          if owner_is self s
          then do { n \<leftarrow> name_at m r;
            Some (''Token Send  val:'' @ pad 10 (tok_value tok) @ '' id:'' @ shortID (token_ID tok) 8 @ '' to '' @ n) }
          else do { n \<leftarrow> name_at m s;
            Some (''Token Recv  val:'' @ pad 10 (tok_value tok) @ '' id:'' @ shortID (token_ID tok) 8 @ '' from '' @ n) }
      | AuthorizeTokenTransferTransaction _ _ _ k _ \<Rightarrow> Some (''Token Auth  id:'' @ shortID k 8)
      | UnauthorizeTokenTransferTransaction _ _ _ k _ \<Rightarrow> Some (''Token Unauth id:'' @ shortID k 8)
      | BurnTokenTransaction _ _ k _ \<Rightarrow> Some (''Token Burn  id:'' @ shortID k 8)
      | ClawbackTokenTransaction _ s _ tok _ \<Rightarrow>
          Some (''Token Claw  val:'' @ pad 10 (tok_value tok) @ '' id:'' @ shortID (token_ID tok) 8 @
            (if owner_is self s then '' (out)'' else '' (in)''))
      | FreezeTokenTransaction _ _ _ _ _ \<Rightarrow> Some []
      | UnfreezeTokenTransaction _ _ _ _ _ \<Rightarrow> Some [])"

definition max_transactions :: "Model \<Rightarrow> int" where
  "max_transactions m =
     (let d = (if m_height m > 20 then m_height m - 15 else 5);
          d1 = (if d < 3 then 3 else d)
      in if d1 > 15 then 15 else d1)"

text \<open>The newest and the oldest index that is drawn, of \<open>n\<close> transactions.\<close>

definition tx_window :: "Model \<Rightarrow> int \<Rightarrow> int \<times> int" where
  "tx_window m n =
     (let startIdx = n - 1 - m_transactionOffset m; e = startIdx - max_transactions m + 1
      in (startIdx, if e < 0 then 0 else e))"

definition history :: "view_env \<Rightarrow> Model \<Rightarrow> ScalegraphId \<Rightarrow> transaction list \<Rightarrow> string option" where
  "history V m self txs =
     (let n = int (length txs) in
      case tx_window m n of (startIdx, endIdx) \<Rightarrow> do {
        lines \<leftarrow> those (map (\<lambda>i. do {
            tx \<leftarrow> idx txs i;
            line \<leftarrow> tx_line V m self tx;
            let arrow = (if i = startIdx \<and> m_transactionOffset m > 0 then arrow_down
                         else if i = endIdx \<and> endIdx > 0 then arrow_up else '' '');
            Some (row V (i = m_selectedTransactionIndex m) (arrow @ ''#'' @ itoa (i + 1) @ '': '' @ line))
          }) (rev [endIdx..startIdx]));
        Some (concat lines @
          (if n > max_transactions m
           then nl @ ''  Showing '' @ itoa (endIdx + 1) @ ''-'' @ itoa (startIdx + 1) @ '' of '' @ itoa n @
             '' transactions'' @ nl
           else []))
      })"

definition viewAccountDetailSingle :: "view_env \<Rightarrow> Model \<Rightarrow> App \<Rightarrow> string option" where
  "viewAccountDetailSingle V m app =
     (if m_cachedAccounts m = [] \<or> m_selectedAccountIndex m \<ge> account_count m
      then Some (plain_page V ''Account Details'' ''No account selected.'' [''esc: back''])
      else do {
        acc \<leftarrow> idx (m_cachedAccounts m) (m_selectedAccountIndex m);
        let txs = transactions_at app acc;
        hist \<leftarrow> (if txs = [] then Some (''  No transactions yet'' @ nl) else history V m acc txs);
        Some (plain_page V ''Account Details''
          (ve_box V (box_width m 60 40 80)
            (''Name:    '' @ ve_bold V (getAccountDisplayName m acc) @ nl @
             ''ID:      '' @ id_String acc @ nl @
             ''Balance: '' @ ve_amount V (balance_at app acc) @ nl @
             ''MBR:     '' @ ve_amount V (mbr_at app acc) @ nl @ nl @
             ve_bold V ''Transaction History:'' @ nl @ hist))
          [navigate, ''enter: view details'', ''esc: back''])
      })"

text \<open>The paragraphs of a transaction's page.\<close>

definition paragraph_head :: "view_env \<Rightarrow> string \<Rightarrow> string" where
  "paragraph_head V s = ve_bold V s @ nl"

definition indented :: "string \<Rightarrow> string" where
  "indented s = ''  '' @ s @ nl"

definition party :: "view_env \<Rightarrow> Model \<Rightarrow> string \<Rightarrow> acct_ref \<Rightarrow> string option" where
  "party V m label acc =
     map_option (\<lambda>i. paragraph_head V label @ indented (getAccountDisplayName m i) @ indented (id_String i) @ nl) acc"

definition token_value_part :: "view_env \<Rightarrow> Token \<Rightarrow> string" where
  "token_value_part V tok = paragraph_head V ''Token Value:'' @ indented (tok_value tok) @ nl"

definition token_id_part :: "view_env \<Rightarrow> string \<Rightarrow> string" where
  "token_id_part V k = paragraph_head V ''Token ID:'' @ indented (shortID k 16)"

definition address_part :: "view_env \<Rightarrow> string \<Rightarrow> ScalegraphId option \<Rightarrow> string" where
  "address_part V label addr =
     (case addr of None \<Rightarrow> [] | Some i \<Rightarrow> nl @ paragraph_head V label @ indented (id_String i))"

text \<open>The paragraphs after the type, and whether it is a token transaction.\<close>

definition tx_detail :: "view_env \<Rightarrow> Model \<Rightarrow> ScalegraphId \<Rightarrow> transaction \<Rightarrow> (string \<times> bool) option" where
  "tx_detail V m self tx =
     (case tx of
        MintTransaction _ _ _ _ \<Rightarrow> do {
          p \<leftarrow> party V m ''To:'' (Some self);
          Some (indented ''Mint (Initial Balance)'' @ nl @ p, False) }
      | TransferTransaction _ s r _ \<Rightarrow> do {
          p \<leftarrow> party V m ''From:'' s;
          q \<leftarrow> party V m ''To:'' r;
          Some (indented (if owner_is self s then ''Send'' else ''Receive'') @ nl @ p @ q, False) }
      | BurnTransaction _ _ r _ \<Rightarrow> do {
          p \<leftarrow> party V m ''From:'' r;
          Some (indented ''Burn'' @ nl @ p, False) }
      | MintTokenTransaction _ _ r tok \<Rightarrow> do {
          p \<leftarrow> party V m ''To:'' r;
          Some (indented ''Mint Token'' @ nl @ p @ token_value_part V tok @ token_id_part V (token_ID tok) @
            address_part V ''Clawback:'' (clawbackAddress tok) @
            address_part V ''Freeze:'' (freezeAddress tok), True) }
      | TransferTokenTransaction _ s r tok _ \<Rightarrow> do {
          p \<leftarrow> party V m ''From:'' s;
          q \<leftarrow> party V m ''To:'' r;
          Some (indented (if owner_is self s then ''Transfer Token (Sent)'' else ''Transfer Token (Received)'') @ nl @
            p @ q @ token_value_part V tok @ token_id_part V (token_ID tok), True) }
      | AuthorizeTokenTransferTransaction _ s _ k _ \<Rightarrow> do {
          p \<leftarrow> party V m ''Account:'' s;
          Some (indented ''Authorize Token Transfer'' @ nl @ p @ token_id_part V k, True) }
      | UnauthorizeTokenTransferTransaction _ s _ k _ \<Rightarrow> do {
          p \<leftarrow> party V m ''Account:'' s;
          Some (indented ''Unauthorize Token Transfer'' @ nl @ p @ token_id_part V k, True) }
      | BurnTokenTransaction _ s k _ \<Rightarrow> do {
          p \<leftarrow> party V m ''Account:'' s;
          Some (indented ''Burn Token'' @ nl @ p @ token_id_part V k, True) }
      | ClawbackTokenTransaction _ s r tok _ \<Rightarrow> do {
          p \<leftarrow> party V m ''From (holder):'' s;
          q \<leftarrow> party V m ''To (authority):'' r;
          Some (indented ''Clawback Token'' @ nl @ p @ q @ token_value_part V tok @
            token_id_part V (token_ID tok), True) }
      | FreezeTokenTransaction _ _ _ _ _ \<Rightarrow> Some ([], False)
      | UnfreezeTokenTransaction _ _ _ _ _ \<Rightarrow> Some ([], False))"

definition shown_amount :: "transaction \<Rightarrow> float64" where
  "shown_amount tx =
     (case tx of
        MintTransaction _ _ _ amount \<Rightarrow> amount
      | TransferTransaction _ _ _ amount \<Rightarrow> amount
      | BurnTransaction _ _ _ amount \<Rightarrow> amount
      | _ \<Rightarrow> f0)"

definition viewTransactionDetail :: "view_env \<Rightarrow> Model \<Rightarrow> App \<Rightarrow> string option" where
  "viewTransactionDetail V m app =
     (if m_cachedAccounts m = [] \<or> m_selectedAccountIndex m \<ge> account_count m
      then Some (plain_page V ''Transaction Details'' ''No account selected.'' [''esc: back''])
      else do {
        acc \<leftarrow> idx (m_cachedAccounts m) (m_selectedAccountIndex m);
        let txs = transactions_at app acc;
        if txs = [] \<or> m_selectedTransactionIndex m \<ge> int (length txs)
        then Some (plain_page V ''Transaction Details'' ''No transaction selected.'' [''esc: back''])
        else do {
          tx \<leftarrow> idx txs (m_selectedTransactionIndex m);
          (body, isTokenTx) \<leftarrow> tx_detail V m acc tx;
          Some (plain_page V ''Transaction Details''
            (ve_box V (box_width m 70 50 90)
              (paragraph_head V ''Transaction ID:'' @ indented (id_String (tx_ID tx)) @ nl @
               paragraph_head V ''Transaction #:'' @
               indented (itoa (m_selectedTransactionIndex m + 1) @ '' (of '' @ itoa (int (length txs)) @ '')'') @ nl @
               paragraph_head V ''Type:'' @ body @
               (if isTokenTx then []
                else paragraph_head V ''Amount:'' @
                  ''  '' @ (if owner_is acc (tx_Sender tx) then ''-'' else ''+'') @
                  ve_amount V (shown_amount tx) @ nl)))
            [''esc: back''])
        }
      })"

section \<open>Sending money\<close>

definition no_accounts :: "view_env \<Rightarrow> string \<Rightarrow> string \<Rightarrow> string" where
  "no_accounts V title msg = plain_page V title msg [''esc: back'']"

definition confirm_page :: "view_env \<Rightarrow> Model \<Rightarrow> string \<Rightarrow> string \<Rightarrow> string" where
  "confirm_page V m title content = status_page V m title content [navigate, ''enter: confirm'', ''esc: back'']"

text \<open>A caption, the name of the account at an index, and what ends the line.\<close>

definition named :: "Model \<Rightarrow> string \<Rightarrow> int \<Rightarrow> string \<Rightarrow> string option" where
  "named m label i ending =
     map_option (\<lambda>acc. label @ getAccountDisplayName m acc @ ending) (idx (m_cachedAccounts m) i)"

definition viewSendMoney :: "view_env \<Rightarrow> Model \<Rightarrow> App \<Rightarrow> string option" where
  "viewSendMoney V m app =
     (if account_count m < 2
      then Some (no_accounts V ''Send Money'' ''Need at least 2 accounts to send money.'')
      else map_option (confirm_page V m ''Send Money'')
        (if m_sendStep m = 0
         then Some (''Select FROM account:'' @ nl @ nl @ balance_rows V m app None (m_sendFromIndex m))
         else if m_sendStep m = 1
         then do {
           from_line \<leftarrow> named m ''From: '' (m_sendFromIndex m) (nl @ nl);
           Some (from_line @ ''Select TO account:'' @ nl @ nl @
             balance_rows V m app (Some (m_sendFromIndex m)) (m_sendToIndex m))
         }
         else if m_sendStep m = 2
         then do {
           from_line \<leftarrow> named m ''From: '' (m_sendFromIndex m) nl;
           to_line \<leftarrow> named m ''To: '' (m_sendToIndex m) (nl @ nl);
           Some (from_line @ to_line @ ''Enter amount: '' @ m_sendAmount m @ full_block)
         }
         else Some []))"

section \<open>Token views\<close>

definition viewTokenMenu :: "view_env \<Rightarrow> Model \<Rightarrow> string" where
  "viewTokenMenu V m =
     plain_page V ''Token Operations'' (rows V None (m_tokenMenuCursor m) (\<lambda>_ item. item) tokenMenuItems)
       [navigate, ''enter: select'', ''esc: back'']"

text \<open>The choice of an optional address: nobody, or one of the accounts.\<close>

definition address_rows :: "view_env \<Rightarrow> Model \<Rightarrow> App \<Rightarrow> string \<Rightarrow> int \<Rightarrow> string" where
  "address_rows V m app nobody sel =
     row V (sel = 0) nobody @
     rows V None (sel - 1)
       (\<lambda>i acc. balance_line V m app acc @ (if i = m_tokenAccountIndex m then '' (minter)'' else []))
       (m_cachedAccounts m)"

definition viewMintToken :: "view_env \<Rightarrow> Model \<Rightarrow> App \<Rightarrow> string option" where
  "viewMintToken V m app =
     (if m_cachedAccounts m = []
      then Some (no_accounts V ''Mint Token'' ''No accounts available. Create an account first.'')
      else map_option (confirm_page V m ''Mint Token'')
        (if m_tokenStep m = 0
         then Some (''Select account to mint token for:'' @ nl @ nl @
           balance_rows V m app None (m_tokenAccountIndex m))
         else if m_tokenStep m = 1
         then do {
           account_line \<leftarrow> named m ''Account: '' (m_tokenAccountIndex m) (nl @ nl);
           Some (account_line @ ''Token value:'' @ nl @ ve_input V (m_tokenValueInput m))
         }
         else if m_tokenStep m = 2
         then do {
           account_line \<leftarrow> named m ''Account: '' (m_tokenAccountIndex m) nl;
           Some (account_line @ ''Token value: '' @ ti_value (m_tokenValueInput m) @ nl @ nl @
             ''Select clawback address (or none):'' @ nl @ nl @
             address_rows V m app ''No clawback'' (m_tokenClawbackIndex m))
         }
         else if m_tokenStep m = 3
         then do {
           clawbackLabel \<leftarrow>
             (if m_tokenClawbackIndex m > 0 then named m [] (m_tokenClawbackIndex m - 1) [] else Some ''None'');
           account_line \<leftarrow> named m ''Account: '' (m_tokenAccountIndex m) nl;
           Some (account_line @ ''Token value: '' @ ti_value (m_tokenValueInput m) @ nl @
             ''Clawback: '' @ clawbackLabel @ nl @ nl @
             ''Select freeze address (or none):'' @ nl @ nl @
             address_rows V m app ''No freeze'' (m_tokenFreezeIndex m))
         }
         else Some []))"

text \<open>A list of the cached tokens under a caption, or a text when there are none.\<close>

definition token_choice :: "view_env \<Rightarrow> Model \<Rightarrow> string \<Rightarrow> string \<Rightarrow> (Token \<Rightarrow> string) \<Rightarrow> string" where
  "token_choice V m none caption line =
     (if m_cachedTokens m = [] then none
      else caption @ nl @ nl @ rows V None (m_tokenTokenIndex m) (\<lambda>_. line) (m_cachedTokens m))"

definition step_caption :: "string \<Rightarrow> string \<Rightarrow> string" where
  "step_caption n s = ''Step '' @ n @ ''/3 '' @ dash @ '' '' @ s"

text \<open>
  Five views have the same three steps: the account that signs, another account, a token of it.
\<close>

definition three_step ::
    "view_env \<Rightarrow> Model \<Rightarrow> App \<Rightarrow> string \<Rightarrow> string \<Rightarrow> string \<Rightarrow> string \<Rightarrow> string \<Rightarrow> string \<Rightarrow> string \<Rightarrow>
     (Token \<Rightarrow> string) \<Rightarrow> string option" where
  "three_step V m app title first second first_label second_label none third line =
     (if m_cachedAccounts m = [] then Some (no_accounts V title ''No accounts available.'')
      else map_option (confirm_page V m title)
        (if m_tokenStep m = 0
         then Some (step_caption ''1'' first @ nl @ nl @ balance_rows V m app None (m_tokenAccountIndex m))
         else if m_tokenStep m = 1
         then do {
           l \<leftarrow> named m first_label (m_tokenAccountIndex m) (nl @ nl);
           Some (l @ step_caption ''2'' second @ nl @ nl @
             tokens_rows V m app (Some (m_tokenAccountIndex m)) (m_tokenSourceIndex m))
         }
         else if m_tokenStep m = 2
         then do {
           l1 \<leftarrow> named m first_label (m_tokenAccountIndex m) nl;
           l2 \<leftarrow> named m second_label (m_tokenSourceIndex m) (nl @ nl);
           Some (l1 @ l2 @ token_choice V m none (step_caption ''3'' third) line)
         }
         else Some []))"

definition viewAuthorizeTokenTransfer :: "view_env \<Rightarrow> Model \<Rightarrow> App \<Rightarrow> string option" where
  "viewAuthorizeTokenTransfer V m app =
     three_step V m app ''Authorize Token Transfer'' ''Select receiving account:''
       ''Select source account (token owner):'' ''Receiver: '' ''Source:   ''
       ''No owned tokens found.'' ''Select token to authorize receiving:'' token_line"

definition viewUnauthorizeTokenTransfer :: "view_env \<Rightarrow> Model \<Rightarrow> App \<Rightarrow> string option" where
  "viewUnauthorizeTokenTransfer V m app =
     three_step V m app ''Unauthorize Token Transfer'' ''Select account revoking authorization:''
       ''Select source account (token owner):'' ''Receiver: '' ''Source:   ''
       ''No owned tokens found.'' ''Select token to unauthorize:'' token_line"

definition viewClawbackToken :: "view_env \<Rightarrow> Model \<Rightarrow> App \<Rightarrow> string option" where
  "viewClawbackToken V m app =
     three_step V m app ''Clawback Token'' ''Select clawback authority account:''
       ''Select token holder account:'' ''Authority: '' ''Holder:    ''
       ''No clawable tokens found.'' ''Select token to claw back:''
       (\<lambda>tok. token_line tok @
          (case freezeAddress tok of None \<Rightarrow> [] | Some f \<Rightarrow> ''  freeze:'' @ shortID (id_String f) 8))"

definition viewFreezeToken :: "view_env \<Rightarrow> Model \<Rightarrow> App \<Rightarrow> string option" where
  "viewFreezeToken V m app =
     three_step V m app ''Freeze Token'' ''Select freeze authority account:''
       ''Select token holder account:'' ''Authority: '' ''Holder:    ''
       ''No freezable tokens found.'' ''Select token to freeze:'' token_line"

definition viewUnfreezeToken :: "view_env \<Rightarrow> Model \<Rightarrow> App \<Rightarrow> string option" where
  "viewUnfreezeToken V m app =
     three_step V m app ''Unfreeze Token'' ''Select freeze authority account:''
       ''Select token holder account:'' ''Authority: '' ''Holder:    ''
       ''No frozen tokens found.'' ''Select token to unfreeze:'' (\<lambda>tok. token_line tok @ ''  [FROZEN]'')"

definition viewTransferToken :: "view_env \<Rightarrow> Model \<Rightarrow> App \<Rightarrow> string option" where
  "viewTransferToken V m app =
     (if account_count m < 2
      then Some (no_accounts V ''Transfer Token'' ''Need at least 2 accounts to transfer a token.'')
      else map_option (confirm_page V m ''Transfer Token'')
        (if m_tokenStep m = 0
         then Some (''Select FROM account:'' @ nl @ nl @ balance_rows V m app None (m_tokenAccountIndex m))
         else if m_tokenStep m = 1
         then do {
           from_line \<leftarrow> named m ''From: '' (m_tokenAccountIndex m) (nl @ nl);
           Some (from_line @ token_choice V m ''No owned tokens found.'' ''Select token to transfer:'' token_line)
         }
         else if m_tokenStep m = 2
         then do {
           from_line \<leftarrow> named m ''From: '' (m_tokenAccountIndex m) nl;
           tokenLabel \<leftarrow>
             (if token_count m > m_tokenTokenIndex m
              then map_option (\<lambda>tok. ''Value: '' @ tok_value tok @ ''  ID: '' @ shortID (token_ID tok) 8)
                (idx (m_cachedTokens m) (m_tokenTokenIndex m))
              else Some []);
           Some (from_line @ ''Token: '' @ tokenLabel @ nl @ nl @ ''Select TO account:'' @ nl @ nl @
             balance_rows V m app (Some (m_tokenAccountIndex m)) (m_tokenToAccountIndex m))
         }
         else Some []))"

definition viewBurnToken :: "view_env \<Rightarrow> Model \<Rightarrow> App \<Rightarrow> string option" where
  "viewBurnToken V m app =
     (if m_cachedAccounts m = [] then Some (no_accounts V ''Burn Token'' ''No accounts available.'')
      else map_option (confirm_page V m ''Burn Token'')
        (if m_tokenStep m = 0
         then Some (''Select account that owns the token to burn:'' @ nl @ nl @
           tokens_rows V m app None (m_tokenAccountIndex m))
         else if m_tokenStep m = 1
         then do {
           account_line \<leftarrow> named m ''Account: '' (m_tokenAccountIndex m) (nl @ nl);
           Some (account_line @ token_choice V m ''No owned tokens found.'' ''Select token to burn:'' token_line)
         }
         else Some []))"

section \<open>Inspecting tokens\<close>

definition short_address :: "ScalegraphId option \<Rightarrow> string" where
  "short_address addr = (case addr of None \<Rightarrow> ''none'' | Some i \<Rightarrow> shortID (id_String i) 8)"

definition list_line :: "int \<Rightarrow> Token \<Rightarrow> string" where
  "list_line i tok =
     ''#'' @ itoa (i + 1) @ ''  val:'' @ pad 12 (tok_value tok) @ ''  id:'' @ shortID (token_ID tok) 16 @
     ''  clawback:'' @ short_address (clawbackAddress tok) @ ''  freeze:'' @ short_address (freezeAddress tok) @
     (if frozen tok then ''  [FROZEN]'' else [])"

definition max_tokens :: "Model \<Rightarrow> int" where
  "max_tokens m =
     (let d = (if m_height m > 20 then m_height m - 16 else 8);
          d1 = (if d < 3 then 3 else d)
      in if d1 > 20 then 20 else d1)"

definition token_page :: "view_env \<Rightarrow> Model \<Rightarrow> string option" where
  "token_page V m =
     (let startIdx = m_tokenListOffset m;
          endIdx = min (startIdx + max_tokens m) (token_count m) in
      do {
        lines \<leftarrow> those (map (\<lambda>i. map_option (\<lambda>tok. row V (i = m_tokenTokenIndex m) (list_line i tok))
                   (idx (m_cachedTokens m) i)) [startIdx..endIdx - 1]);
        Some (concat lines @
          (if token_count m > max_tokens m
           then nl @ ''  Showing '' @ itoa (startIdx + 1) @ ''-'' @ itoa endIdx @ '' of '' @
             itoa (token_count m) @ '' tokens'' @ nl
           else []))
      })"

definition viewTokenList :: "view_env \<Rightarrow> Model \<Rightarrow> App \<Rightarrow> string option" where
  "viewTokenList V m app =
     (if m_cachedAccounts m = [] then Some (no_accounts V ''Account Tokens'' ''No accounts available.'')
      else map_option (\<lambda>content. plain_page V ''Account Tokens'' content [navigate, ''enter: select'', ''esc: back''])
        (if m_tokenStep m = 0
         then Some (''Select account to inspect:'' @ nl @ nl @ balance_rows V m app None (m_tokenAccountIndex m))
         else if m_tokenStep m = 1
         then do {
           acc \<leftarrow> idx (m_cachedAccounts m) (m_tokenAccountIndex m);
           listing \<leftarrow> (if m_cachedTokens m = [] then Some (''  No tokens owned.'' @ nl) else token_page V m);
           Some (ve_box V (box_width m 70 40 90)
             (''Account: '' @ ve_bold V (getAccountDisplayName m acc) @ nl @
              ''ID:      '' @ id_String acc @ nl @ nl @
              ve_bold V (''Tokens ('' @ itoa (token_count m) @ ''):'') @ nl @ listing))
         }
         else Some []))"

definition found_token :: "Token \<Rightarrow> string" where
  "found_token t =
     ''Token found:'' @ nl @ nl @ ''  ID:    '' @ token_ID t @ nl @ ''  Value: '' @ tok_value t @ nl @
     (case clawbackAddress t of None \<Rightarrow> [] | Some a \<Rightarrow> ''  Clawback: '' @ id_String a @ nl) @
     (case freezeAddress t of None \<Rightarrow> [] | Some a \<Rightarrow> ''  Freeze:   '' @ id_String a @ nl) @
     (if frozen t then ''  Status:   [FROZEN]'' @ nl else [])"

definition viewLookupToken :: "view_env \<Rightarrow> Model \<Rightarrow> string option" where
  "viewLookupToken V m =
     (if m_cachedAccounts m = []
      then Some (no_accounts V ''Lookup Token'' ''No accounts available. Create an account first.'')
      else do {
        content \<leftarrow>
          (if m_tokenStep m = 0
           then Some (''Select account to look up token in:'' @ nl @ nl @
             rows V None (m_tokenAccountIndex m) (\<lambda>_. getAccountDisplayName m) (m_cachedAccounts m))
           else if m_tokenStep m = 1
           then do {
             l \<leftarrow> named m ''Account: '' (m_tokenAccountIndex m) (nl @ nl);
             Some (l @ ''Enter token ID:'' @ nl @ ve_input V (m_lookupTokenInput m) @ nl)
           }
           else if m_tokenStep m = 2
           then do {
             l \<leftarrow> named m ''Account: '' (m_tokenAccountIndex m) (nl @ nl);
             Some (l @ (case m_lookupResult m of None \<Rightarrow> ''Token not found.'' @ nl | Some t \<Rightarrow> found_token t))
           }
           else Some []);
        let help =
          (if m_tokenStep m = 0 then ve_help V (hints [navigate, ''enter: select'', ''esc: back''])
           else if m_tokenStep m = 1 then ve_help V (hints [''enter: lookup'', ''esc: back''])
           else if m_tokenStep m = 2 then ve_help V (hints [''enter/q: back to menu'', ''esc: back''])
           else []);
        let shown = renderStatus V m;
        Some (ve_JoinVertical V ([ve_title V ''Lookup Token'', [], content] @
          (if shown = [] then [] else [shown]) @ [[], help]))
      })"

section \<open>The screen\<close>

definition view_content :: "view_env \<Rightarrow> Model \<Rightarrow> App \<Rightarrow> string option" where
  "view_content V m app =
     (case m_view m of
        ViewMenu \<Rightarrow> Some (viewMenu V m)
      | ViewCreateAccount \<Rightarrow> Some (viewCreateAccount V m)
      | ViewAccountDetail \<Rightarrow> Some (viewAccountDetail V m app)
      | ViewAccountDetailSingle \<Rightarrow> viewAccountDetailSingle V m app
      | ViewTransactionDetail \<Rightarrow> viewTransactionDetail V m app
      | ViewSendMoney \<Rightarrow> viewSendMoney V m app
      | ViewVirtualNodes \<Rightarrow> Some (viewVirtualNodes V)
      | ViewTokenMenu \<Rightarrow> Some (viewTokenMenu V m)
      | ViewMintToken \<Rightarrow> viewMintToken V m app
      | ViewAuthorizeTokenTransfer \<Rightarrow> viewAuthorizeTokenTransfer V m app
      | ViewUnauthorizeTokenTransfer \<Rightarrow> viewUnauthorizeTokenTransfer V m app
      | ViewTransferToken \<Rightarrow> viewTransferToken V m app
      | ViewTokenList \<Rightarrow> viewTokenList V m app
      | ViewBurnToken \<Rightarrow> viewBurnToken V m app
      | ViewClawbackToken \<Rightarrow> viewClawbackToken V m app
      | ViewFreezeToken \<Rightarrow> viewFreezeToken V m app
      | ViewUnfreezeToken \<Rightarrow> viewUnfreezeToken V m app
      | ViewLookupToken \<Rightarrow> viewLookupToken V m)"

definition tui_View :: "view_env \<Rightarrow> Model \<Rightarrow> App \<Rightarrow> string option" where
  "tui_View V m app =
     (if \<not> m_ready m then Some ''Initializing...''
      else map_option (ve_Place V (m_width m) (m_height m)) (view_content V m app))"

end
