(* ===== verification/Tui_Laws.thy ===== *)
theory Tui_Laws
  imports Tui
begin

text \<open>
  What holds of a session of the terminal interface: every update stays inside the views and
  indices it may use as long as the server lists at least two accounts, and what happens when it
  does not.
\<close>

section \<open>Results of an update\<close>

text \<open>
  An update is in order when it goes on in a model that satisfies \<open>I\<close> over an App that satisfies
  \<open>W\<close>; \<open>crash\<close> says whether an index out of range is tolerated.
\<close>

definition call_ok :: "(App \<Rightarrow> bool) \<Rightarrow> bool \<Rightarrow> (Model \<Rightarrow> bool) \<Rightarrow> tui_call \<Rightarrow> bool" where
  "call_ok W crash I c =
     (case fst c of
        Continue m \<Rightarrow> I m \<and> W (snd c)
      | QuitProgram m \<Rightarrow> True
      | Crash \<Rightarrow> crash
      | Killed \<Rightarrow> True)"

lemma call_ok_simps [simp]:
  "call_ok W b I (Continue m, app) \<longleftrightarrow> I m \<and> W app"
  "call_ok W b I (QuitProgram m, app)"
  "call_ok W b I (Crash, app) \<longleftrightarrow> b"
  "call_ok W b I (Killed, app)"
  by (simp_all add: call_ok_def)

lemma or_crash_ok [simp]:
  "call_ok W b I (or_crash x f app) \<longleftrightarrow> (case x of None \<Rightarrow> b | Some y \<Rightarrow> call_ok W b I (f y))"
  by (cases x) simp_all

lemma or_crash_idx [simp]:
  "0 \<le> i \<Longrightarrow> i < int (length xs) \<Longrightarrow> or_crash (idx xs i) f app = f (xs ! nat i)"
  by (simp add: idx_Some)

text \<open>The signed client calls are all of one form.\<close>

lemma client_call_form:
  "\<exists>f b. TransferSigned ch e1 = send_built ch f b"
  "\<exists>f b. MintTokenSigned ch e2 = send_built ch f b"
  "\<exists>f b. AuthorizeTokenTransferSigned ch e3 = send_built ch f b"
  "\<exists>f b. UnauthorizeTokenTransferSigned ch e4 = send_built ch f b"
  "\<exists>f b. TransferTokenSigned ch e5 = send_built ch f b"
  "\<exists>f b. BurnTokenSigned ch e6 = send_built ch f b"
  "\<exists>f b. LookupTokenSigned ch e7 = send_built ch f b"
  "\<exists>f b. ClawbackTokenSigned ch e8 = send_built ch f b"
  "\<exists>f b. FreezeTokenSigned ch e9 = send_built ch f b"
  "\<exists>f b. UnfreezeTokenSigned ch e10 = send_built ch f b"
  unfolding TransferSigned_def MintTokenSigned_def AuthorizeTokenTransferSigned_def
    UnauthorizeTokenTransferSigned_def TransferTokenSigned_def BurnTokenSigned_def
    LookupTokenSigned_def ClawbackTokenSigned_def FreezeTokenSigned_def UnfreezeTokenSigned_def
  by blast+

lemma getCredentials_state:
  "getCredentials env i m = (r, m1) \<Longrightarrow> \<exists>c. m1 = m\<lparr>m_credentialCache := c\<rparr>"
  by (cases "GetAccountPrivateKeyPEM (te_base env) (id_String i) (te_files env)";
      cases "GetAccountCertificatePEM (te_base env) (id_String i) (te_files env)")
    (auto simp: getCredentials_def Let_def split: option.splits intro: exI [of _ "m_credentialCache m"])

section \<open>The world of a session\<close>

text \<open>
  What an update may rely on: the surroundings \<open>E\<close> it runs in have a channel that keeps the
  property \<open>W\<close> of the App, and an account list refreshed over such an App satisfies \<open>L\<close>.
\<close>

locale tui_world =
  fixes W :: "App \<Rightarrow> bool"
    and E :: "tui_env \<Rightarrow> bool"
    and L :: "ScalegraphId list \<Rightarrow> bool"
  assumes channel_keeps: "E env \<Longrightarrow> W app \<Longrightarrow> te_channel env req app = (r, app', msgs) \<Longrightarrow> W app'"
    and listing: "E env \<Longrightarrow> W app \<Longrightarrow> refreshAccounts env m app = (Ok u, m', app') \<Longrightarrow> L (m_cachedAccounts m')"
begin

lemma Send_keeps: "E env \<Longrightarrow> W app \<Longrightarrow> Send (te_channel env) f req app = (r, app', msgs) \<Longrightarrow> W app'"
  by (auto simp: Send_def split: prod.splits outcome.splits dest: channel_keeps)

lemma send_built_keeps:
  "E env \<Longrightarrow> W app \<Longrightarrow> send_built (te_channel env) f b app = (r, app', msgs) \<Longrightarrow> W app'"
  by (auto simp: send_built_def split: outcome.splits dest: Send_keeps)

lemma refresh_keeps: "E env \<Longrightarrow> W app \<Longrightarrow> refreshAccounts env m app = (r, m', app') \<Longrightarrow> W app'"
  by (auto simp: refreshAccounts_def client_GetAccounts_def split: prod.splits outcome.splits dest: Send_keeps)

lemma refresh_result:
  assumes "E env" "W app" "refreshAccounts env m app = (r, m', app')"
  shows "m' = m \<or> (\<exists>accs. L accs \<and> m' = m\<lparr>m_cachedAccounts := accs, m_cachedTokens := []\<rparr>)"
proof (cases "is_ok r")
  case True
  then have "L (m_cachedAccounts m')" using listing [OF assms(1,2)] assms(3) by (auto simp: is_ok_iff)
  then show ?thesis using assms(3) True
    by (auto simp: refreshAccounts_def split: prod.splits outcome.splits)
next
  case False
  then show ?thesis using assms(3) by (auto simp: refreshAccounts_def split: prod.splits outcome.splits)
qed

lemma refresh_then_ok:
  assumes "E env" "W app"
    and "\<And>st. I (m\<lparr>m_statusMsg := st\<rparr>)"
    and "\<And>accs. L accs \<Longrightarrow> I (enter (m\<lparr>m_cachedAccounts := accs, m_cachedTokens := []\<rparr>))"
  shows "call_ok W b I (refresh_then env enter m app)"
proof -
  obtain r m' app' where r: "refreshAccounts env m app = (r, m', app')" by (metis prod_cases3)
  note r = r refresh_keeps [OF assms(1,2) r] listing [OF assms(1,2), of m "()" m' app']
  show ?thesis
    using r assms(3,4)
    by (auto simp: refresh_then_def refreshAccounts_def split: prod.splits outcome.splits)
qed

lemma signed_action_ok:
  assumes E: "E env" and W: "W app" and form: "\<And>e. \<exists>f b. op e = send_built (te_channel env) f b"
    and failed: "\<And>c st. I (m\<lparr>m_credentialCache := c, m_statusMsg := st\<rparr>)"
    and done1: "\<And>c r. I (after r (m\<lparr>m_credentialCache := c\<rparr>))"
    and done2: "\<And>c r accs. refresh \<Longrightarrow> L accs \<Longrightarrow>
      I (after r (m\<lparr>m_credentialCache := c, m_cachedAccounts := accs, m_cachedTokens := []\<rparr>))"
  shows "call_ok W b I (signed_action env signer Bytes p op refresh after m app)"
proof -
  obtain r m1 where c: "getCredentials env signer m = (r, m1)" by fastforce
  then obtain cc where m1: "m1 = m\<lparr>m_credentialCache := cc\<rparr>" using getCredentials_state by blast
  have op: "W app'" if "op e app = (r, app', ms)" for e r app' ms
    using form [of e] send_built_keeps [OF E W] that by force
  show ?thesis
  proof (cases "\<exists>creds key envelope resp app' ms. r = Ok creds \<and>
      DecodePrivateKeyPEM (te_keys env) (PrivateKeyPEM creds) = Ok key \<and>
      CreateSignedEnvelope (te_sign env) (te_now env) Bytes p key (id_String signer) = Ok envelope \<and>
      op envelope app = (Ok resp, app', ms)")
    case False
    then show ?thesis using op failed W
      by (auto simp: signed_action_def c m1 split: outcome.splits prod.splits)
  next
    case True
    then obtain creds key envelope resp app' ms where ok: "r = Ok creds"
      "DecodePrivateKeyPEM (te_keys env) (PrivateKeyPEM creds) = Ok key"
      "CreateSignedEnvelope (te_sign env) (te_now env) Bytes p key (id_String signer) = Ok envelope"
      "op envelope app = (Ok resp, app', ms)" by blast
    have W': "W app'" using op ok(4) by blast
    obtain r2 m2 app2 where r2: "refreshAccounts env m1 app' = (r2, m2, app2)" by (metis prod_cases3)
    show ?thesis
      using refresh_result [OF E W' r2] refresh_keeps [OF E W' r2] W' done1 done2
      by (auto simp: signed_action_def c ok m1 r2 [unfolded m1] split: outcome.splits)
  qed
qed

lemma signed_action_late_ok:
  assumes "E env" "W app" "\<And>e. \<exists>f b. op e = send_built (te_channel env) f b"
    and "\<And>c st. I (m\<lparr>m_credentialCache := c, m_statusMsg := st\<rparr>)"
    and "\<And>c r. I (after r (m\<lparr>m_credentialCache := c\<rparr>))"
    and "\<And>c r accs. L accs \<Longrightarrow>
      I (after r (m\<lparr>m_credentialCache := c, m_cachedAccounts := accs, m_cachedTokens := []\<rparr>))"
    and "payload = None \<Longrightarrow> b"
  shows "call_ok W b I (signed_action_late env signer Bytes payload op after m app)"
proof (cases payload)
  case None
  obtain r m1 where c: "getCredentials env signer m = (r, m1)" by fastforce
  then obtain cc where m1: "m1 = m\<lparr>m_credentialCache := cc\<rparr>" using getCredentials_state by blast
  show ?thesis using assms(2,4,7) None
    by (cases r) (auto simp: signed_action_late_def c m1 split: outcome.splits)
next
  case (Some p)
  then show ?thesis using assms(1-6) by (auto simp: signed_action_late_def intro!: signed_action_ok)
qed

end

end
