(* ===== verification/Tui_Session.thy ===== *)
theory Tui_Session
  imports Tui_Laws
begin

text \<open>
  Sessions of the terminal interface: sequences of updates with whatever the server's other
  clients do in between.
\<close>

section \<open>Steps\<close>

text \<open>
  A session is the interface's state with the App; a message comes with the surroundings of its
  update, and between two messages other clients may change the App.
\<close>

inductive tui_step :: "(tui_env \<Rightarrow> bool) \<Rightarrow> (App \<Rightarrow> App \<Rightarrow> bool) \<Rightarrow> tui_call \<Rightarrow> tui_call \<Rightarrow> bool" for E others where
  Message: "E env \<Longrightarrow> tui_step E others (Continue m, app) (tui_Update env msg m app)"
| Others: "others app app' \<Longrightarrow> tui_step E others (Continue m, app) (Continue m, app')"

inductive_cases tui_stepE: "tui_step E others s t"

section \<open>The invariant\<close>

text \<open>The two views behind the last two items of the token menu.\<close>

definition beyond_menu :: "ViewState set" where
  "beyond_menu = {ViewUnfreezeToken, ViewLookupToken}"

definition menu_ok :: "Model \<Rightarrow> bool" where
  "menu_ok m \<longleftrightarrow> m_view m \<notin> beyond_menu \<and> 0 \<le> m_tokenMenuCursor m \<and> m_tokenMenuCursor m < tokenMenuItemCount"

definition within :: "int \<Rightarrow> int \<Rightarrow> bool" where
  "within n i \<longleftrightarrow> 0 \<le> i \<and> i < n"

definition within_other :: "int \<Rightarrow> int \<Rightarrow> int \<Rightarrow> bool" where
  "within_other n i j \<longleftrightarrow> within n j \<and> j \<noteq> i"

text \<open>The indices each view may use in each of its steps.\<close>

definition source_ok :: "Model \<Rightarrow> bool" where
  "source_ok m \<longleftrightarrow>
     (m_tokenStep m \<ge> 1 \<longrightarrow> within_other (account_count m) (m_tokenAccountIndex m) (m_tokenSourceIndex m)) \<and>
     (m_tokenStep m \<ge> 2 \<longrightarrow> within (token_count m) (m_tokenTokenIndex m))"

definition indices_ok :: "Model \<Rightarrow> bool" where
  "indices_ok m \<longleftrightarrow>
     (case m_view m of
        ViewAccountDetail \<Rightarrow> within (account_count m) (m_selectedAccountIndex m)
      | ViewAccountDetailSingle \<Rightarrow> within (account_count m) (m_selectedAccountIndex m)
      | ViewTransactionDetail \<Rightarrow> within (account_count m) (m_selectedAccountIndex m)
      | ViewSendMoney \<Rightarrow> 2 \<le> account_count m \<and> within (account_count m) (m_sendFromIndex m) \<and>
          (m_sendStep m \<ge> 1 \<longrightarrow> within_other (account_count m) (m_sendFromIndex m) (m_sendToIndex m))
      | ViewMintToken \<Rightarrow> within (account_count m) (m_tokenAccountIndex m) \<and>
          within (account_count m + 1) (m_tokenClawbackIndex m) \<and>
          within (account_count m + 1) (m_tokenFreezeIndex m)
      | ViewAuthorizeTokenTransfer \<Rightarrow> within (account_count m) (m_tokenAccountIndex m) \<and> source_ok m
      | ViewUnauthorizeTokenTransfer \<Rightarrow> within (account_count m) (m_tokenAccountIndex m) \<and> source_ok m
      | ViewClawbackToken \<Rightarrow> within (account_count m) (m_tokenAccountIndex m) \<and> source_ok m
      | ViewFreezeToken \<Rightarrow> within (account_count m) (m_tokenAccountIndex m) \<and> source_ok m
      | ViewTransferToken \<Rightarrow> 2 \<le> account_count m \<and> within (account_count m) (m_tokenAccountIndex m) \<and>
          (m_tokenStep m \<ge> 1 \<longrightarrow> within (token_count m) (m_tokenTokenIndex m)) \<and>
          (m_tokenStep m \<ge> 2 \<longrightarrow> within_other (account_count m) (m_tokenAccountIndex m) (m_tokenToAccountIndex m))
      | ViewBurnToken \<Rightarrow> within (account_count m) (m_tokenAccountIndex m) \<and>
          (m_tokenStep m \<ge> 1 \<longrightarrow> within (token_count m) (m_tokenTokenIndex m))
      | ViewTokenList \<Rightarrow> within (account_count m) (m_tokenAccountIndex m)
      | _ \<Rightarrow> True)"

text \<open>The history never scrolls; the other positions in a list are not negative.\<close>

definition scroll_ok :: "Model \<Rightarrow> bool" where
  "scroll_ok m \<longleftrightarrow> m_transactionOffset m = 0 \<and> 0 \<le> m_selectedTransactionIndex m \<and>
     0 \<le> m_tokenListOffset m"

text \<open>
  \<open>lax\<close> asks only for the view and the scroll positions, in whatever surroundings; otherwise also
  for the indices, given that every refresh lists two accounts.
\<close>

definition session_inv :: "bool \<Rightarrow> Model \<Rightarrow> bool" where
  "session_inv lax m \<longleftrightarrow> menu_ok m \<and> scroll_ok m \<and> (lax \<or> indices_ok m \<and> distinct (m_cachedAccounts m))"

lemma within_cursor:
  "within n i \<Longrightarrow> within n (cursor_up i)" "within n i \<Longrightarrow> within n (cursor_down n i)"
  "within_other n k i \<Longrightarrow> within_other n k (skip_up k i)"
  "within_other n k i \<Longrightarrow> within_other n k (skip_down n k i)"
  "2 \<le> n \<Longrightarrow> within_other n k (first_other k)"
  using cursor_ok [of i n] skip_up_ok [of i n k] skip_down_ok [of i n k] first_other_ok [of n k]
  by (auto simp: within_def within_other_def)

lemma idx_within: "within (int (length xs)) i \<Longrightarrow> idx xs i = Some (xs ! nat i)"
  by (simp add: within_def idx_def)

lemma within_zero: "within n 0 \<longleftrightarrow> 0 < n"
  by (simp add: within_def)

lemma within_otherD: "within_other n k i \<Longrightarrow> within n i"
  by (simp add: within_other_def)

lemma refreshTokens_keeps:
  "refreshTokensForIndex env i m app = Some m' \<Longrightarrow> \<exists>ts. m' = m\<lparr>m_cachedTokens := ts\<rparr>"
  by (auto simp: refreshTokensForIndex_def split: if_splits)

lemma refreshTokens_within:
  "within (account_count m) i \<Longrightarrow> refreshTokensForIndex env i m app \<noteq> None"
  by (auto simp: refreshTokensForIndex_def within_def idx_def)

locale tui_session = tui_world +
  fixes lax :: bool
  assumes two: "L accs \<Longrightarrow> lax \<or> 2 \<le> length accs \<and> distinct accs"
begin

abbreviation inv_call :: "tui_call \<Rightarrow> bool" where
  "inv_call \<equiv> call_ok W lax (session_inv lax)"

lemma L_simps:
  "L accs \<Longrightarrow> \<not> lax \<Longrightarrow> 2 \<le> length accs" "L accs \<Longrightarrow> \<not> lax \<Longrightarrow> distinct accs"
  "L accs \<Longrightarrow> \<not> lax \<Longrightarrow> 0 < length accs" "L [] \<Longrightarrow> lax"
  using two [of accs] two [of "[]"] by auto

lemmas session_defs = session_inv_def scroll_ok_def menu_ok_def beyond_menu_def indices_ok_def L_simps

lemma updateMenu_inv:
  "E env \<Longrightarrow> W app \<Longrightarrow> session_inv lax m \<Longrightarrow> m_view m = ViewMenu \<Longrightarrow> inv_call (updateMenu env key m app)"
  unfolding updateMenu_def Let_def
  by (cases lax; auto simp: session_defs within_zero intro!: refresh_then_ok)

lemma createAccountWithCA_keeps:
  "E env \<Longrightarrow> W app \<Longrightarrow> createAccountWithCA env amount app = (r, app', msgs) \<Longrightarrow> W app'"
  by (auto simp: createAccountWithCA_def CreateAccountWithCredentials_def
      split: option.splits outcome.splits prod.splits dest: Send_keeps)

lemma updateCreateAccount_inv:
  assumes "E env" "W app" "session_inv lax m" "m_view m = ViewCreateAccount"
  shows "inv_call (updateCreateAccount env key m app)"
proof -
  let ?named = "\<lambda>acc. if ti_value (m_nameInput m) \<noteq> []
     then m\<lparr>m_accountNames := (m_accountNames m)(acc_id acc \<mapsto> ti_value (m_nameInput m))\<rparr> else m"
  have created: "inv_call (case refreshAccounts env (?named acc) app' of
      (Panic, m2, app'') \<Rightarrow> (Killed, app'')
    | (_, m2, app'') \<Rightarrow> (Continue (m2\<lparr>m_statusMsg := StatusText ''Account created!'', m_view := ViewMenu,
         m_balanceInput := Blur (m_balanceInput m2), m_nameInput := Blur (m_nameInput m2)\<rparr>), app''))"
    if "createAccountWithCA env amount app = (Ok acc, app', msgs)" for amount acc app' msgs
  proof -
    have W: "W app'" by (rule createAccountWithCA_keeps [OF assms(1,2) that])
    obtain r m2 app2 where r: "refreshAccounts env (?named acc) app' = (r, m2, app2)" by (metis prod_cases3)
    show ?thesis using refresh_keeps [OF assms(1) W r] refresh_result [OF assms(1) W r] assms(3)
      by (cases lax; cases r; auto simp: r session_defs)
  qed
  have "inv_call (case createAccountWithCA env amount app of
      (Panic, app', _) \<Rightarrow> (Killed, app')
    | (Err e, app', _) \<Rightarrow> (Continue (m\<lparr>m_statusMsg := StatusError e\<rparr>), app')
    | (Ok acc, app', _) \<Rightarrow> (case refreshAccounts env (?named acc) app' of
        (Panic, m2, app'') \<Rightarrow> (Killed, app'')
      | (_, m2, app'') \<Rightarrow> (Continue (m2\<lparr>m_statusMsg := StatusText ''Account created!'', m_view := ViewMenu,
           m_balanceInput := Blur (m_balanceInput m2), m_nameInput := Blur (m_nameInput m2)\<rparr>), app'')))"
    for amount
  proof -
    obtain r app1 msgs where r: "createAccountWithCA env amount app = (r, app1, msgs)" by (metis prod_cases3)
    show ?thesis using createAccountWithCA_keeps [OF assms(1,2) r] created [of amount] assms(3,4)
      by (cases r) (auto simp: r session_defs)
  qed
  then show ?thesis using assms(2-4) unfolding updateCreateAccount_def Let_def
    by (auto simp: session_defs focus_field_def split: option.split)
qed

lemma updateAccountDetail_inv:
  "E env \<Longrightarrow> W app \<Longrightarrow> session_inv lax m \<Longrightarrow> m_view m = ViewAccountDetail \<Longrightarrow> inv_call (updateAccountDetail env key m app)"
  unfolding updateAccountDetail_def Let_def
  by (cases lax; auto simp: session_defs within_cursor idx_within split: option.splits)

lemma updateAccountDetailSingle_inv:
  "E env \<Longrightarrow> W app \<Longrightarrow> session_inv lax m \<Longrightarrow> m_view m = ViewAccountDetailSingle \<Longrightarrow> inv_call (updateAccountDetailSingle env key m app)"
  unfolding updateAccountDetailSingle_def Let_def
  by (cases lax; auto simp: session_defs selected_txCount_def within_cursor idx_within split: option.splits)

lemma updateTransactionDetail_inv:
  "E env \<Longrightarrow> W app \<Longrightarrow> session_inv lax m \<Longrightarrow> m_view m = ViewTransactionDetail \<Longrightarrow> inv_call (updateTransactionDetail env key m app)"
  unfolding updateTransactionDetail_def by (auto simp: session_defs)

lemma updateVirtualNodes_inv:
  "E env \<Longrightarrow> W app \<Longrightarrow> session_inv lax m \<Longrightarrow> m_view m = ViewVirtualNodes \<Longrightarrow> inv_call (updateVirtualNodes env key m app)"
  unfolding updateVirtualNodes_def by (auto simp: session_defs)

lemma updateSendMoney_inv:
  assumes "E env" "W app" "session_inv lax m" "m_view m = ViewSendMoney"
  shows "inv_call (updateSendMoney env key m app)"
proof -
  have "inv_call (send_transfer env amount m app)" if "m_sendStep m = 2" for amount
    using assms that unfolding send_transfer_def
    by (cases lax; auto simp: session_defs idx_within within_otherD
        intro!: signed_action_ok client_call_form split: option.splits)
  then show ?thesis using assms
    unfolding updateSendMoney_def Let_def
    by (cases lax; auto simp: session_defs within_cursor split: option.splits)
qed

lemma updateTokenMenu_inv:
  "E env \<Longrightarrow> W app \<Longrightarrow> session_inv lax m \<Longrightarrow> m_view m = ViewTokenMenu \<Longrightarrow> inv_call (updateTokenMenu env key m app)"
  unfolding updateTokenMenu_def Let_def
  by (cases lax; auto simp: session_defs within_zero token_view_def cursor_up_def cursor_down_def tokenMenuItemCount_def source_ok_def intro!: refresh_then_ok)

text \<open>
  The token views: the selectors keep their index in range, loading the tokens of an account in
  range succeeds, and what is left is the signed action of the last step.
\<close>

lemma to_token_step_ok:
  assumes "b = lax" "W app" "b \<or> within (account_count m) i"
    and "\<And>ts. session_inv b (m\<lparr>m_cachedTokens := ts, m_statusMsg := StatusText msg\<rparr>)"
    and "\<And>ts. ts \<noteq> [] \<Longrightarrow>
      session_inv b (m\<lparr>m_cachedTokens := ts, m_tokenStep := step, m_tokenTokenIndex := 0, m_statusMsg := StatusText []\<rparr>)"
  shows "call_ok W b (session_inv b) (to_token_step env i step msg m app)"
  using assms refreshTokens_within [of m i env app]
  by (auto simp: to_token_step_def split: option.split dest!: refreshTokens_keeps)

lemma to_filtered_step_ok:
  assumes "b = lax" "W app" "b \<or> within (account_count m) (m_tokenSourceIndex m) \<and> within (account_count m) (m_tokenAccountIndex m)"
    and "\<And>ts. session_inv b (m\<lparr>m_cachedTokens := ts, m_statusMsg := StatusText msg\<rparr>)"
    and "\<And>ts. ts \<noteq> [] \<Longrightarrow>
      session_inv b (m\<lparr>m_cachedTokens := ts, m_tokenTokenIndex := 0, m_tokenStep := 2, m_statusMsg := StatusText []\<rparr>)"
  shows "call_ok W b (session_inv b) (to_filtered_step env keep msg m app)"
  using assms refreshTokens_within [of m "m_tokenSourceIndex m" env app]
  by (auto simp: to_filtered_step_def Let_def idx_within split: option.split dest!: refreshTokens_keeps)

lemmas view_rules = signed_action_ok signed_action_late_ok client_call_form
  to_token_step_ok to_filtered_step_ok

lemmas view_simps = session_defs source_ok_def pick_account_def pick_source_def pick_target_def
  pick_token_def to_source_step_def token_esc_def token_done_def within_cursor idx_within
  within_otherD within_zero

lemma updateAuthorize_inv:
  "E env \<Longrightarrow> W app \<Longrightarrow> session_inv lax m \<Longrightarrow> m_view m = ViewAuthorizeTokenTransfer \<Longrightarrow>
   inv_call (updateAuthorizeTokenTransfer env key m app)"
  unfolding updateAuthorizeTokenTransfer_def
  by (cases lax; auto simp: view_simps intro!: view_rules split: option.split)

lemma updateUnauthorize_inv:
  "E env \<Longrightarrow> W app \<Longrightarrow> session_inv lax m \<Longrightarrow> m_view m = ViewUnauthorizeTokenTransfer \<Longrightarrow>
   inv_call (updateUnauthorizeTokenTransfer env key m app)"
  unfolding updateUnauthorizeTokenTransfer_def
  by (cases lax; auto simp: view_simps intro!: view_rules split: option.split)

lemma updateTransferToken_inv:
  "E env \<Longrightarrow> W app \<Longrightarrow> session_inv lax m \<Longrightarrow> m_view m = ViewTransferToken \<Longrightarrow>
   inv_call (updateTransferToken env key m app)"
  unfolding updateTransferToken_def
  by (cases lax; auto simp: view_simps intro!: view_rules split: option.split)

lemma updateBurnToken_inv:
  "E env \<Longrightarrow> W app \<Longrightarrow> session_inv lax m \<Longrightarrow> m_view m = ViewBurnToken \<Longrightarrow>
   inv_call (updateBurnToken env key m app)"
  unfolding updateBurnToken_def
  by (cases lax; auto simp: view_simps intro!: view_rules split: option.split)

lemma updateClawback_inv:
  "E env \<Longrightarrow> W app \<Longrightarrow> session_inv lax m \<Longrightarrow> m_view m = ViewClawbackToken \<Longrightarrow>
   inv_call (updateClawbackToken env key m app)"
  unfolding updateClawbackToken_def
  by (cases lax; auto simp: view_simps intro!: view_rules split: option.split)

lemma updateFreeze_inv:
  "E env \<Longrightarrow> W app \<Longrightarrow> session_inv lax m \<Longrightarrow> m_view m = ViewFreezeToken \<Longrightarrow>
   inv_call (updateFreezeToken env key m app)"
  unfolding updateFreezeToken_def
  by (cases lax; auto simp: view_simps intro!: view_rules split: option.split)

lemma updateTokenList_inv:
  assumes "E env" "W app" "session_inv lax m" "m_view m = ViewTokenList"
  shows "inv_call (updateTokenList env key m app)"
proof -
  have "\<not> lax \<Longrightarrow> refreshTokensForIndex env (m_tokenAccountIndex m) m app = None \<Longrightarrow> False"
    using assms(3,4) refreshTokens_within [of m "m_tokenAccountIndex m" env app] by (auto simp: session_defs)
  then show ?thesis using assms unfolding updateTokenList_def refreshTokens_def Let_def
    by (cases lax; auto simp: view_simps split: option.split dest!: refreshTokens_keeps)
qed

lemma updateMintToken_inv:
  assumes "E env" "W app" "session_inv lax m" "m_view m = ViewMintToken"
  shows "inv_call (updateMintToken env key m app)"
proof -
  have "optional_account m (m_tokenClawbackIndex m) \<noteq> None \<and> optional_account m (m_tokenFreezeIndex m) \<noteq> None"
    if "\<not> lax"
    using assms(3,4) that by (auto simp: session_defs optional_account_def within_def idx_def)
  then show ?thesis using assms unfolding updateMintToken_def Let_def
    by (cases lax; auto simp: view_simps intro!: view_rules split: option.split)
qed

lemma tui_Update_ok:
  assumes "E env" "W app" "session_inv lax m"
  shows "inv_call (tui_Update env msg m app)"
proof -
  have "m_view m \<notin> beyond_menu" using assms(3) by (simp add: session_inv_def menu_ok_def)
  then have "inv_call (update_view env key m app)" for key
    unfolding update_view_def using assms
    by (cases "m_view m"; simp add: beyond_menu_def updateMenu_inv updateCreateAccount_inv updateAccountDetail_inv
        updateAccountDetailSingle_inv updateTransactionDetail_inv updateSendMoney_inv updateVirtualNodes_inv updateTokenMenu_inv
        updateMintToken_inv updateAuthorize_inv updateUnauthorize_inv updateTransferToken_inv updateTokenList_inv updateBurnToken_inv
        updateClawback_inv updateFreeze_inv)
  then show ?thesis using assms(2,3)
    by (cases msg) (auto simp: tui_Update_def session_inv_def scroll_ok_def menu_ok_def indices_ok_def source_ok_def
        cong: ViewState.case_cong)
qed

lemma tui_step_ok:
  assumes "tui_step E others c c'" "inv_call c" "\<And>app app'. others app app' \<Longrightarrow> W app \<Longrightarrow> W app'"
  shows "inv_call c'"
  by (rule tui_stepE [OF assms(1)]) (use assms(2,3) in \<open>auto intro: tui_Update_ok\<close>)

end

lemma NewModel_inv: "session_inv lax NewModel"
  by (simp add: session_inv_def scroll_ok_def menu_ok_def indices_ok_def beyond_menu_def NewModel_def tokenMenuItemCount_def)

section \<open>Any session\<close>

interpretation any_session: tui_session "\<lambda>_. True" "\<lambda>_. True" "\<lambda>_. True" True
  by unfold_locales simp_all

interpretation any: transition_invariant "\<lambda>c. fst c = Continue NewModel" "tui_step (\<lambda>_. True) (\<lambda>_ _. True)"
    "call_ok (\<lambda>_. True) True (session_inv True)"
  by unfold_locales (auto simp: call_ok_def NewModel_inv intro: any_session.tui_step_ok [unfolded call_ok_def])

text \<open>A sequence of keys in fixed surroundings; it stops when the program does.\<close>

fun tui_run :: "tui_env \<Rightarrow> string list \<Rightarrow> tui_call \<Rightarrow> tui_call" where
  "tui_run env [] c = c"
| "tui_run env (key # keys) (Continue m, app) = tui_run env keys (tui_Update env (KeyMsg key) m app)"
| "tui_run env (key # keys) c = c"

lemma tui_run_steps: "E env \<Longrightarrow> (tui_step E others)\<^sup>*\<^sup>* c (tui_run env keys c)"
  by (induction env keys c rule: tui_run.induct)
    (auto intro: converse_rtranclp_into_rtranclp tui_step.Message)

section \<open>A session with the server\<close>

text \<open>
  The channel leads to a server, in whatever state of its inputs and with whatever timeouts; the
  accounts of a set are listed in some order, each once.
\<close>

definition lists_accounts :: "(Account set \<Rightarrow> Account list) \<Rightarrow> bool" where
  "lists_accounts f \<longleftrightarrow>
     (\<forall>S. finite S \<longrightarrow> inj_on acc_id S \<longrightarrow> set (f S) = S \<and> distinct (f S))"

definition served_by :: "(byte list \<Rightarrow> ScalegraphId) \<Rightarrow> tui_env \<Rightarrow> bool" where
  "served_by sha1 env \<longleftrightarrow>
     (\<forall>req app. \<exists>s inp w1 w2. lib_sha1 (srv_lib s) = sha1 \<and>
        te_channel env req app = sendRequest s inp w1 w2 req app) \<and>
     lists_accounts (te_listAccounts env)"

definition two_accounts :: "(byte list \<Rightarrow> ScalegraphId) \<Rightarrow> App \<Rightarrow> bool" where
  "two_accounts sha1 app \<longleftrightarrow>
     app_ok sha1 app \<and> (\<exists>i j. i \<noteq> j \<and> i \<in> dom (accounts app) \<and> j \<in> dom (accounts app))"

lemma two_accounts_grow: "app_step sha1 app app' \<Longrightarrow> two_accounts sha1 app \<Longrightarrow> two_accounts sha1 app'"
  using app_step_ok [of sha1 app app'] app_step_grow [of sha1 app app']
  unfolding two_accounts_def chains_grow_def by blast

lemma channel_step:
  assumes "served_by sha1 env" "te_channel env req app = (r, app', msgs)"
  shows "app' = app \<or> app_step sha1 app app'"
proof -
  obtain s inp w1 w2 where s: "lib_sha1 (srv_lib s) = sha1"
    "te_channel env req app = sendRequest s inp w1 w2 req app"
    using assms(1) unfolding served_by_def by blast
  then show ?thesis using assms(2) handleRequest_step [of s inp req app]
    by (auto simp: sendRequest_def split: wait.splits prod.splits)
qed

lemma get_accounts_run:
  "handleRequest s inp ReqGetAccounts app = (Ok (GetAccountsResponse (GetAccounts app)), app, [])"
  by (simp add: handleRequest_def publishEvent_def)

lemma account_listing:
  assumes "lists_accounts f" "two_accounts sha1 app"
  shows "2 \<le> length (f (GetAccounts app)) \<and> distinct (map acc_id (f (GetAccounts app)))"
proof -
  have ok: "app_ok sha1 app" using assms(2) by (simp add: two_accounts_def)
  have fin: "finite (GetAccounts app)" using ok by (simp add: app_ok_def GetAccounts_def finite_ran)
  have inj: "inj_on acc_id (GetAccounts app)"
    using app_ok_id [OF ok] by (auto simp: inj_on_def GetAccounts_def ran_def)
  have f: "set (f (GetAccounts app)) = GetAccounts app" "distinct (f (GetAccounts app))"
    using assms(1) fin inj by (auto simp: lists_accounts_def)
  obtain i j a b where ab: "i \<noteq> j" "accounts app i = Some a" "accounts app j = Some b"
    using assms(2) by (auto simp: two_accounts_def)
  have "{a, b} \<subseteq> GetAccounts app" "a \<noteq> b"
    using ab app_ok_id [OF ok] by (auto simp: GetAccounts_def intro: ranI)
  then have "2 \<le> card (GetAccounts app)"
    using card_mono [OF fin, of "{a, b}"] by simp
  then show ?thesis using f inj by (simp add: distinct_card [symmetric] distinct_map)
qed

lemma refresh_listing:
  assumes "served_by sha1 env" "two_accounts sha1 app" "refreshAccounts env m app = (Ok u, m', app')"
  shows "2 \<le> length (m_cachedAccounts m') \<and> distinct (m_cachedAccounts m')"
proof -
  obtain s inp w1 w2 where s: "te_channel env ReqGetAccounts app = sendRequest s inp w1 w2 ReqGetAccounts app"
    using assms(1) unfolding served_by_def by blast
  have "m_cachedAccounts m' = sort_key id_String (map acc_id (te_listAccounts env (GetAccounts app)))"
    using assms(3)
    by (auto simp: refreshAccounts_def client_GetAccounts_def Send_def s sendRequest_def get_accounts_run
        split: wait.splits)
  then show ?thesis using account_listing [OF _ assms(2), of "te_listAccounts env"] assms(1)
    by (simp add: served_by_def)
qed

interpretation served: tui_session "two_accounts sha1" "served_by sha1"
    "\<lambda>accs. 2 \<le> length accs \<and> distinct accs" False
  for sha1
  by unfold_locales (use channel_step two_accounts_grow refresh_listing in blast)+

interpretation served_steps: transition_invariant
    "\<lambda>c. fst c = Continue NewModel \<and> two_accounts sha1 (snd c)"
    "tui_step (served_by sha1) (app_step sha1)"
    "call_ok (two_accounts sha1) False (session_inv False)"
  for sha1
  by unfold_locales
    (auto simp: call_ok_def NewModel_inv intro: served.tui_step_ok [unfolded call_ok_def] two_accounts_grow)

end
