(* ===== verification/Tui_Props.thy ===== *)
theory Tui_Props
  imports Tui_Session
begin

text \<open>
  The properties of terminal sessions: the views out of reach, indices in range with two
  accounts, the crash with one, and the way back to the menu.
\<close>

section \<open>A concrete session\<close>

text \<open>Lists a set of accounts by their ids.\<close>

definition list_by_id :: "Account set \<Rightarrow> Account list" where
  "list_by_id S =
     map (\<lambda>s. the_elem (Set.filter (\<lambda>a. id_String (acc_id a) = s) S))
       (sorted_list_of_set ((\<lambda>a. id_String (acc_id a)) ` S))"

lemma lists_by_id: "lists_accounts list_by_id"
  unfolding lists_accounts_def
proof (intro allI impI)
  fix S :: "Account set"
  assume S: "finite S" "inj_on acc_id S"
  let ?key = "\<lambda>a. id_String (acc_id a)"
  have the: "the_elem (Set.filter (\<lambda>a. ?key a = ?key b) S) = b" if "b \<in> S" for b
  proof -
    have "Set.filter (\<lambda>a. ?key a = ?key b) S = {b}"
      using S(2) that by (auto simp: id_String_inject inj_on_def)
    then show ?thesis by simp
  qed
  have "set (list_by_id S) = S" using S(1) the by (force simp: list_by_id_def image_image)
  moreover have "inj_on ?key S" using S(2) by (auto simp: inj_on_def id_String_inject)
  then have "length (list_by_id S) = card S" using S(1) by (simp add: list_by_id_def card_image)
  ultimately show "set (list_by_id S) = S \<and> distinct (list_by_id S)"
    by (simp add: card_distinct)
qed

definition toy_tui :: tui_env where
  "toy_tui = \<lparr>te_channel = sendRequest toy_server (toy_inputs 7) Delivered Delivered, te_ca = None,
     te_base = [], te_files = Map.empty, te_keys = toy_key_lib, te_sign = (\<lambda>_ _. []), te_sha1 = toy_sha1,
     te_marshal = (\<lambda>_. None), te_now = 0, te_listAccounts = list_by_id, te_listTokens = (\<lambda>_. []),
     te_inputUpdate = (\<lambda>_ t. t), te_ParseFloat = (\<lambda>s. if s = ''5'' then Some (dy 1073 5) else None)\<rparr>"

lemma toy_tui_served: "served_by toy_sha1 toy_tui"
proof -
  have "lib_sha1 (srv_lib toy_server) = toy_sha1" by (simp add: concrete_simps)
  then show ?thesis unfolding served_by_def by (auto simp: toy_tui_def lists_by_id)
qed

lemma cert_app_two: "two_accounts toy_sha1 cert_app"
proof -
  have "test_id 1 \<noteq> test_id 2" by (simp add: concrete_simps)
  moreover have "test_id 1 \<in> dom (accounts cert_app)" "test_id 2 \<in> dom (accounts cert_app)"
    by (simp_all add: concrete_simps)
  ultimately show ?thesis unfolding two_accounts_def using cert_app_ok by blast
qed

section \<open>Views\<close>

text \<open>
  The token menu shows ten items, but the cursor stops at the eighth: in no
  session, whatever the server answers, does it reach the last two, and the views to unfreeze
  and to look up a token, which lie behind them, are never entered.
\<close>

theorem last_menu_items_unreachable:
  assumes "(tui_step (\<lambda>_. True) (\<lambda>_ _. True))\<^sup>*\<^sup>* (Continue NewModel, app) (Continue m, app')"
  shows "m_view m \<noteq> ViewUnfreezeToken \<and> m_view m \<noteq> ViewLookupToken \<and>
    0 \<le> m_tokenMenuCursor m \<and> m_tokenMenuCursor m < int (length tokenMenuItems) - 2 \<and>
    m_view (token_view 8 m) = ViewUnfreezeToken \<and> m_view (token_view 9 m) = ViewLookupToken"
proof -
  have "call_ok (\<lambda>_. True) True (session_inv True) (Continue m, app')"
    by (rule any.reachable_inv [OF _ assms]) (rule fst_conv)
  then have "menu_ok m" by (simp add: session_inv_def)
  then show ?thesis
    by (simp add: menu_ok_def beyond_menu_def tokenMenuItems_def tokenMenuItemCount_def token_view_def)
qed

theorem last_menu_items_unreachable_witness:
  "\<exists>m. tui_run toy_tui (replicate 4 ''down'' @ ''enter'' # replicate 9 ''down'') (Continue NewModel, cert_app) =
     (Continue m, cert_app) \<and> m_view m = ViewTokenMenu \<and> m_tokenMenuCursor m = 7 \<and>
     m_view m \<noteq> ViewLookupToken \<and> m_tokenMenuCursor m < int (length tokenMenuItems) - 2"
proof -
  let ?keys = "replicate 4 ''down'' @ ''enter'' # replicate 9 ''down''"
  have r: "refreshAccounts toy_tui m cert_app = (Ok (),
      m\<lparr>m_cachedAccounts := sort_key id_String (map acc_id (list_by_id (GetAccounts cert_app))),
        m_cachedTokens := []\<rparr>, cert_app)" for m
    by (simp add: refreshAccounts_def client_GetAccounts_def Send_def toy_tui_def sendRequest_def get_accounts_run)
  have "\<exists>m. tui_run toy_tui ?keys (Continue NewModel, cert_app) = (Continue m, cert_app) \<and>
      m_view m = ViewTokenMenu \<and> m_tokenMenuCursor m = 7"
    by (simp add: NewModel_def tui_Update_def update_view_def updateMenu_def updateTokenMenu_def is_up_def
        is_down_def menuItems_def cursor_down_def tokenMenuItemCount_def refresh_then_def r Let_def
        numeral_eq_Suc)
  then obtain m where m: "tui_run toy_tui ?keys (Continue NewModel, cert_app) = (Continue m, cert_app)"
    "m_view m = ViewTokenMenu" "m_tokenMenuCursor m = 7" by blast
  have "(tui_step (\<lambda>_. True) (\<lambda>_ _. True))\<^sup>*\<^sup>* (Continue NewModel, cert_app)
      (tui_run toy_tui ?keys (Continue NewModel, cert_app))"
    by (rule tui_run_steps) simp
  from last_menu_items_unreachable [OF this [unfolded m(1)]] m show ?thesis by blast
qed

section \<open>Indices\<close>

text \<open>
  Property C29.  Over a ledger with at least two accounts no session panics on an index,
  whichever keys are pressed, whatever other clients do meanwhile and whichever calls fail or
  time out; and from the second step on of sending money the selected sender and receiver are two
  different accounts.
\<close>

theorem session_stays_in_range:
  assumes "two_accounts sha1 app"
    and "(tui_step (served_by sha1) (app_step sha1))\<^sup>*\<^sup>* (Continue NewModel, app) (r, app')"
  shows "r \<noteq> Crash \<and>
    (\<forall>m. r = Continue m \<and> m_view m = ViewSendMoney \<and> 1 \<le> m_sendStep m \<longrightarrow>
       (\<exists>x y. idx (m_cachedAccounts m) (m_sendFromIndex m) = Some x \<and>
          idx (m_cachedAccounts m) (m_sendToIndex m) = Some y \<and> x \<noteq> y))"
proof -
  have ok: "call_ok (two_accounts sha1) False (session_inv False) (r, app')"
    by (rule served_steps.reachable_inv [OF _ assms(2)]) (use assms(1) in \<open>simp only: fst_conv snd_conv simp_thms\<close>)
  have "\<exists>x y. idx (m_cachedAccounts m) (m_sendFromIndex m) = Some x \<and>
      idx (m_cachedAccounts m) (m_sendToIndex m) = Some y \<and> x \<noteq> y"
    if "r = Continue m" "m_view m = ViewSendMoney" "1 \<le> m_sendStep m" for m
    using ok that
    by (auto simp: session_inv_def indices_ok_def idx_def within_def within_other_def nth_eq_iff_index_eq)
  then show ?thesis using ok by (auto simp: call_ok_def)
qed

theorem session_stays_in_range_witness:
  "fst (tui_run toy_tui [''down'', ''down'', ''enter'', ''enter'', ''enter'', ''5'', ''enter'']
     (Continue NewModel, cert_app)) \<noteq> Crash"
  using session_stays_in_range [OF cert_app_two, of _ "snd (tui_run toy_tui
      [''down'', ''down'', ''enter'', ''enter'', ''enter'', ''5'', ''enter''] (Continue NewModel, cert_app))"]
    tui_run_steps [where E = "served_by toy_sha1", OF toy_tui_served]
  by (metis prod.collapse)

text \<open>
  With a single account the receiver of a transfer is preset to the second entry
  of a list that has only one: sending money ends with an index out of range.
\<close>

theorem send_money_crashes_alone:
  assumes "te_channel env = sendRequest s inp Delivered Delivered"
    and "te_listAccounts env (GetAccounts app) = [a]"
    and "te_ParseFloat env ''5'' = Some amount" "\<not> fle amount f0"
  shows "tui_run env [''down'', ''down'', ''enter'', ''enter'', ''enter'', ''5'', ''enter'']
     (Continue NewModel, app) = (Crash, app)"
proof -
  have r: "refreshAccounts env m app = (Ok (), m\<lparr>m_cachedAccounts := [acc_id a], m_cachedTokens := []\<rparr>, app)" for m
    by (simp add: refreshAccounts_def client_GetAccounts_def Send_def assms(1,2) sendRequest_def get_accounts_run)
  show ?thesis
    by (simp add: NewModel_def tui_Update_def update_view_def updateMenu_def updateSendMoney_def is_up_def
        is_down_def menuItems_def cursor_down_def refresh_then_def r first_other_def is_amount_char_def
        assms(3,4) send_transfer_def idx_def Let_def less_eq_char_def)
qed

definition lone_app :: App where
  "lone_app = cert_app\<lparr>accounts := [test_id 1 \<mapsto> cert_acct 1]\<rparr>"

theorem send_money_crashes_alone_witness:
  "tui_run toy_tui [''down'', ''down'', ''enter'', ''enter'', ''enter'', ''5'', ''enter'']
     (Continue NewModel, lone_app) = (Crash, lone_app)"
proof (rule send_money_crashes_alone)
  have "Set.filter (\<lambda>a. id_String (acc_id a) = id_String (acc_id (cert_acct 1))) {cert_acct 1} = {cert_acct 1}"
    by auto
  then show "te_listAccounts toy_tui (GetAccounts lone_app) = [cert_acct 1]"
    by (simp add: toy_tui_def GetAccounts_def lone_app_def list_by_id_def)
  show "\<not> fle (dy 1073 5) f0" by (simp add: concrete_simps fle_def f0_dy [of 1073])
qed (simp_all add: toy_tui_def)

section \<open>The way back\<close>

text \<open>How many times \<^verbatim>\<open>esc\<close> has to be pressed to be back in the menu.\<close>

definition view_depth :: "Model \<Rightarrow> nat" where
  "view_depth m =
     (case m_view m of
        ViewMenu \<Rightarrow> 0 | ViewCreateAccount \<Rightarrow> 1 | ViewAccountDetail \<Rightarrow> 1 | ViewAccountDetailSingle \<Rightarrow> 2
      | ViewTransactionDetail \<Rightarrow> 3 | ViewSendMoney \<Rightarrow> 1 + nat (m_sendStep m) | ViewVirtualNodes \<Rightarrow> 1
      | ViewTokenMenu \<Rightarrow> 1 | _ \<Rightarrow> 2 + nat (m_tokenStep m))"

lemma esc_in_menu: "m_view m = ViewMenu \<Longrightarrow> tui_Update env (KeyMsg ''esc'') m app = (Continue m, app)"
  by (simp add: tui_Update_def update_view_def updateMenu_def is_up_def is_down_def)

lemma esc_ascends:
  assumes "m_view m \<noteq> ViewMenu" "0 \<le> m_selectedAccountIndex m"
  shows "\<exists>m'. tui_Update env (KeyMsg ''esc'') m app = (Continue m', app) \<and>
    view_depth m' < view_depth m \<and> m_selectedAccountIndex m' = m_selectedAccountIndex m"
  using assms
  by (cases "m_view m")
    (simp_all add: tui_Update_def update_view_def update_defs view_depth_def token_esc_def
      selected_txCount_def idx_within within_def Let_def)

text \<open>
  Property C37.  Pressing \<^verbatim>\<open>esc\<close> leads back to the menu from every view and step of it, in at most
  as many presses as the view is deep, without panicking and without touching the ledger.
\<close>

theorem esc_returns_to_menu:
  assumes "0 \<le> m_selectedAccountIndex m" "view_depth m \<le> n"
  shows "\<exists>m'. tui_run env (replicate n ''esc'') (Continue m, app) = (Continue m', app) \<and> m_view m' = ViewMenu"
  using assms
proof (induction n arbitrary: m)
  case 0
  then show ?case by (auto simp: view_depth_def split: ViewState.splits)
next
  case (Suc n)
  show ?case
  proof (cases "m_view m = ViewMenu")
    case True
    then show ?thesis using Suc by (simp add: esc_in_menu view_depth_def)
  next
    case False
    then obtain m' where "tui_Update env (KeyMsg ''esc'') m app = (Continue m', app)"
      "view_depth m' < view_depth m" "m_selectedAccountIndex m' = m_selectedAccountIndex m"
      using esc_ascends Suc.prems(1) by blast
    then show ?thesis using Suc by simp
  qed
qed

theorem esc_returns_to_menu_witness:
  "\<exists>m'. tui_run toy_tui (replicate 5 ''esc'')
     (Continue (NewModel\<lparr>m_view := ViewMintToken, m_tokenStep := 3\<rparr>), cert_app) = (Continue m', cert_app) \<and>
     m_view m' = ViewMenu"
  by (rule esc_returns_to_menu) (simp_all add: NewModel_def view_depth_def)

end
