(* ===== verification/Tui_Screens.thy ===== *)
theory Tui_Screens
  imports Tui_View Tui_Props
begin

text \<open>
  What the screens of a terminal session show: every screen can be drawn, since the accounts a
  transaction is drawn with are never nil and no index leaves its list; and the history of an
  account always shows its newest transactions.
\<close>

section \<open>Transactions that can be drawn\<close>

text \<open>The accounts a transaction is drawn with are not nil.\<close>

fun drawable :: "transaction \<Rightarrow> bool" where
  "drawable (TransferTransaction _ s r _) \<longleftrightarrow> s \<noteq> None \<and> r \<noteq> None"
| "drawable (BurnTransaction _ _ r _) \<longleftrightarrow> r \<noteq> None"
| "drawable (MintTokenTransaction _ _ r _) \<longleftrightarrow> r \<noteq> None"
| "drawable (TransferTokenTransaction _ s r _ _) \<longleftrightarrow> s \<noteq> None \<and> r \<noteq> None"
| "drawable (AuthorizeTokenTransferTransaction _ s _ _ _) \<longleftrightarrow> s \<noteq> None"
| "drawable (UnauthorizeTokenTransferTransaction _ s _ _ _) \<longleftrightarrow> s \<noteq> None"
| "drawable (BurnTokenTransaction _ s _ _) \<longleftrightarrow> s \<noteq> None"
| "drawable (ClawbackTokenTransaction _ s r _ _) \<longleftrightarrow> s \<noteq> None \<and> r \<noteq> None"
| "drawable _ \<longleftrightarrow> True"

definition acct_drawn :: "Account \<Rightarrow> bool" where
  "acct_drawn a \<longleftrightarrow> list_all drawable (chain_txs (blockchain a))"

definition app_drawn :: "App \<Rightarrow> bool" where
  "app_drawn app \<longleftrightarrow> (\<forall>i a. accounts app i = Some a \<longrightarrow> acct_drawn a)"

lemma append_drawn:
  "appendTransaction b t a = (r, a') \<Longrightarrow> acct_drawn a \<Longrightarrow> drawable t \<Longrightarrow> acct_drawn a'"
  using handler_frame(5) [of t a]
  by (fastforce simp: appendTransaction_def acct_drawn_def chain_txs_append
      split: prod.splits outcome.splits if_splits)

lemma append_one_drawn:
  "append_one b x t app = (r, app') \<Longrightarrow> app_drawn app \<Longrightarrow> drawable t \<Longrightarrow> app_drawn app'"
  using append_drawn [of b t]
  by (fastforce simp: append_one_def on_entry_def app_drawn_def split: prod.splits option.splits if_splits)

lemma append_rollback_drawn:
  assumes "append_rollback b1 b2 x y t app = (r, app')" "app_drawn app" "drawable t" "app_ok sha1 app"
  shows "app_drawn app'"
proof -
  obtain m where m: "append_both appendTransaction rollbacklatestTransaction b1 b2 x y t
      (accounts app) = (r, m)" and app': "app' = app\<lparr>accounts := m\<rparr>"
    using assms(1) by (auto simp: append_rollback_def split: prod.splits)
  have "acct_drawn a" if "m i = Some a" for i a
    using m _ _ _ that
  proof (rule two.append_both_keeps [where P = "\<lambda>_. acct_drawn"])
    fix b a a1 r a2
    assume *: "accounts app x = Some a" "appendTransaction b t a = (Ok (), a1)"
      "rollbacklatestTransaction t a1 = (r, a2)"
    have "blockchain a2 = blockchain a" using rollback_chain [OF *(2,3) app_ok_chain [OF assms(4) *(1)]] .
    moreover have "acct_drawn a" using assms(2) *(1) by (simp add: app_drawn_def)
    ultimately show "acct_drawn a2" by (simp add: acct_drawn_def)
  qed (use assms(2,3) append_drawn in \<open>auto simp: app_drawn_def\<close>)
  then show ?thesis by (simp add: app_drawn_def app')
qed

lemma Mint_drawn: "app_Mint d req app = (r, app') \<Longrightarrow> app_drawn app \<Longrightarrow> app_drawn app'"
  by (auto simp: app_Mint_def Let_def newMintTransaction_def split: op_splits dest: append_one_drawn)

lemma Create_drawn:
  assumes "CreateAccountWithKeys sha1 d pk cert bal app = (r, app')" "app_drawn app"
  shows "app_drawn app'"
proof -
  have "app_drawn (app\<lparr>accounts := (accounts app)
      (i \<mapsto> newAccountWithPublicKey sha1 (d_genesis d) pk cert)\<rparr>)" for i
    using assms(2) by (auto simp: app_drawn_def acct_drawn_def newAccountWithPublicKey_def chain_txs_new)
  moreover have "app_drawn app2 \<Longrightarrow> app_drawn (app2\<lparr>accounts := (accounts app2)(i := None)\<rparr>)" for app2 i
    by (auto simp: app_drawn_def)
  ultimately show ?thesis
    using assms by (auto simp: CreateAccountWithKeys_def Let_def split: op_splits dest: Mint_drawn)
qed

lemma one_account_drawn:
  "app_Transfer d treq app = (r, app') \<Longrightarrow> app_drawn app \<Longrightarrow> app_drawn app'"
  "app_MintToken d mtreq app = (rs, app') \<Longrightarrow> app_drawn app \<Longrightarrow> app_drawn app'"
  "app_BurnToken d breq app = (r, app') \<Longrightarrow> app_drawn app \<Longrightarrow> app_drawn app'"
  by (auto simp: app_Transfer_def app_MintToken_def app_BurnToken_def new_tx_defs Let_def
      newTransferTransaction_def newMintTokenTransaction_def split: op_splits dest!: append_one_drawn)

lemma two_account_drawn:
  assumes "app_ok sha1 app" "app_drawn app"
  shows "app_AuthorizeTokenTransfer d areq app = (r, app') \<Longrightarrow> app_drawn app'"
    and "app_UnauthorizeTokenTransfer d ureq app = (r, app') \<Longrightarrow> app_drawn app'"
    and "app_TransferToken d ttreq app = (r, app') \<Longrightarrow> app_drawn app'"
    and "app_ClawbackToken d creq app = (r, app') \<Longrightarrow> app_drawn app'"
    and "app_FreezeToken d freq app = (r, app') \<Longrightarrow> app_drawn app'"
    and "app_UnfreezeToken d ufreq app = (r, app') \<Longrightarrow> app_drawn app'"
  using assms
  by (auto simp: app_AuthorizeTokenTransfer_def app_UnauthorizeTokenTransfer_def
      app_TransferToken_def app_ClawbackToken_def app_FreezeToken_def app_UnfreezeToken_def new_tx_defs
      split: op_splits dest!: append_rollback_drawn [OF _ assms(2) _ assms(1)])

lemma base_step_drawn: "base_step sha1 app app' \<Longrightarrow> app_ok sha1 app \<Longrightarrow> app_drawn app \<Longrightarrow> app_drawn app'"
  by (erule base_stepE) (blast intro: Create_drawn Mint_drawn one_account_drawn two_account_drawn)+

lemma app_step_drawn: "app_step sha1 app app' \<Longrightarrow> app_ok sha1 app \<Longrightarrow> app_drawn app \<Longrightarrow> app_drawn app'"
  by (auto simp: app_step_iff ledger_step_iff intro: base_step_drawn two_account_drawn one_account_drawn)

interpretation drawn: transition_invariant "\<lambda>app. app = NewApp" "app_step sha1"
    "\<lambda>app. app_ok sha1 app \<and> app_drawn app" for sha1
  by unfold_locales (auto simp: NewApp_ok app_drawn_def [of NewApp] NewApp_def [THEN arg_cong [of _ _ accounts]]
      dest: app_step_ok app_step_drawn)

section \<open>Sessions over such a ledger\<close>

definition session_ledger :: "(byte list \<Rightarrow> ScalegraphId) \<Rightarrow> App \<Rightarrow> bool" where
  "session_ledger sha1 app \<longleftrightarrow> two_accounts sha1 app \<and> app_drawn app"

lemma session_ledger_step: "app_step sha1 app app' \<Longrightarrow> session_ledger sha1 app \<Longrightarrow> session_ledger sha1 app'"
  unfolding session_ledger_def using two_accounts_grow app_step_drawn two_accounts_def by blast

interpretation drawn_session: tui_session "session_ledger sha1" "served_by sha1"
    "\<lambda>accs. 2 \<le> length accs \<and> distinct accs" False
  for sha1
  by unfold_locales
    (use channel_step session_ledger_step refresh_listing in \<open>blast intro: session_ledger_def [THEN iffD1, THEN conjunct1]\<close>)+

interpretation drawn_steps: transition_invariant
    "\<lambda>c. fst c = Continue NewModel \<and> session_ledger sha1 (snd c)"
    "tui_step (served_by sha1) (app_step sha1)"
    "call_ok (session_ledger sha1) False (session_inv False)"
  for sha1
  by unfold_locales
    (auto simp: call_ok_def NewModel_inv intro: drawn_session.tui_step_ok [unfolded call_ok_def] session_ledger_step)

section \<open>Every screen can be drawn\<close>

lemma those_None: "those xs = None \<longleftrightarrow> None \<in> set xs"
  by (induction xs) (auto split: option.splits)

lemma bind_None:
  "Option.bind x f = None \<longleftrightarrow> x = None \<or> (\<exists>y. x = Some y \<and> f y = None)"
  "None = Option.bind x f \<longleftrightarrow> x = None \<or> (\<exists>y. x = Some y \<and> f y = None)"
  by (cases x; auto)+

lemma tx_line_drawn: "drawable t \<Longrightarrow> tx_line V m i t \<noteq> None"
  by (cases t) (auto simp: tx_line_def name_at_def owner_is_def)

lemma tx_detail_drawn: "drawable t \<Longrightarrow> tx_detail V m i t \<noteq> None"
  by (cases t) (auto simp: tx_detail_def party_def)

lemma transactions_drawn: "app_drawn app \<Longrightarrow> list_all drawable (transactions_at app i)"
  by (auto simp: transactions_at_def app_drawn_def acct_drawn_def chain_txs_def split: option.split)

lemma history_drawn:
  assumes "list_all drawable ts" "m_transactionOffset m = 0"
  shows "history V m self ts \<noteq> None"
proof -
  have "idx ts i \<noteq> None \<and> (\<forall>t. idx ts i = Some t \<longrightarrow> tx_line V m self t \<noteq> None)"
    if "snd (tx_window m (int (length ts))) \<le> i" "i \<le> fst (tx_window m (int (length ts)))" for i
    using that assms tx_line_drawn
    by (auto simp del: not_None_eq simp: tx_window_def Let_def idx_def list_all_length split: if_splits)
  then show ?thesis
    by (auto simp del: not_None_eq simp: history_def Let_def bind_None those_None split: prod.split)
qed

lemma token_page_drawn: "0 \<le> m_tokenListOffset m \<Longrightarrow> token_page V m \<noteq> None"
  by (auto simp del: not_None_eq simp: token_page_def Let_def bind_None those_None idx_def)

lemma named_drawn: "within (account_count m) i \<Longrightarrow> named m l i e \<noteq> None"
  by (simp add: named_def idx_within)

lemma three_step_drawn:
  "within (account_count m) (m_tokenAccountIndex m) \<Longrightarrow> source_ok m \<Longrightarrow>
   three_step V m app title f s l1 l2 none third line \<noteq> None"
  using named_drawn [of m]
  by (auto simp del: not_None_eq simp: three_step_def bind_None source_ok_def within_other_def)

lemma content_drawn:
  assumes inv: "session_inv False m" and drawn: "app_drawn app"
  shows "view_content V m app \<noteq> None"
proof -
  note named = named_drawn [of m]
  have scroll: "m_transactionOffset m = 0" "0 \<le> m_selectedTransactionIndex m" "0 \<le> m_tokenListOffset m"
    using inv by (simp_all add: session_inv_def scroll_ok_def)
  show ?thesis
  proof (cases "m_view m")
    case ViewAccountDetailSingle
    then show ?thesis using history_drawn [OF transactions_drawn [OF drawn] scroll(1)] inv
      by (auto simp del: not_None_eq simp: view_content_def viewAccountDetailSingle_def Let_def bind_None session_inv_def
          indices_ok_def idx_within)
  next
    case ViewTransactionDetail
    have "tx_detail V m i (transactions_at app i ! nat (m_selectedTransactionIndex m)) \<noteq> None"
      if "m_selectedTransactionIndex m < int (length (transactions_at app i))" for i
      using transactions_drawn [OF drawn, of i] that scroll(2)
      by (intro tx_detail_drawn) (simp add: list_all_length)
    then show ?thesis using ViewTransactionDetail inv scroll(2)
      by (auto simp del: not_None_eq simp: view_content_def viewTransactionDetail_def Let_def bind_None session_inv_def
          indices_ok_def within_def idx_def)
  next
    case ViewSendMoney
    then show ?thesis using inv named
      by (auto simp del: not_None_eq simp: view_content_def viewSendMoney_def bind_None session_inv_def indices_ok_def within_other_def)
  next
    case ViewMintToken
    then show ?thesis using inv named
      by (auto simp del: not_None_eq simp: view_content_def viewMintToken_def bind_None session_inv_def indices_ok_def within_def)
  next
    case ViewTransferToken
    then show ?thesis using inv named
      by (auto simp del: not_None_eq simp: view_content_def viewTransferToken_def bind_None session_inv_def indices_ok_def idx_within)
  next
    case ViewTokenList
    then show ?thesis using inv token_page_drawn [OF scroll(3)]
      by (auto simp del: not_None_eq simp: view_content_def viewTokenList_def bind_None session_inv_def indices_ok_def idx_within)
  next
    case ViewBurnToken
    then show ?thesis using inv named
      by (auto simp del: not_None_eq simp: view_content_def viewBurnToken_def bind_None session_inv_def indices_ok_def)
  qed (use inv in \<open>simp_all del: not_None_eq add: view_content_def viewAuthorizeTokenTransfer_def
      viewUnauthorizeTokenTransfer_def viewClawbackToken_def viewFreezeToken_def session_inv_def
      indices_ok_def menu_ok_def beyond_menu_def three_step_drawn\<close>)
qed

text \<open>
  Property C36.  In a session over a reachable ledger with at least two accounts the screen can
  always be drawn: whichever keys are pressed and whatever other clients do in between, no view
  reads past the end of a list or through a nil account.
\<close>

theorem screens_always_drawn:
  assumes "app_reachable sha1 app" "two_accounts sha1 app"
    and "(tui_step (served_by sha1) (app_step sha1))\<^sup>*\<^sup>* (Continue NewModel, app) (Continue m, app')"
  shows "tui_View V m app' \<noteq> None"
proof -
  have "app_drawn app" using drawn.reachable_inv [OF refl assms(1) [unfolded app_reachable_def]] by blast
  then have "session_inv False m" "app_drawn app'"
    using drawn_steps.reachable_inv [OF _ assms(3)] assms(2) by (simp_all add: session_ledger_def)
  then show ?thesis using content_drawn by (simp add: tui_View_def del: not_None_eq)
qed

lemma toy_app_two: "two_accounts toy_sha1 toy_app"
proof -
  have "test_id 1 \<noteq> test_id 2" "test_id 1 \<in> dom (accounts toy_app)" "test_id 2 \<in> dom (accounts toy_app)"
    by (simp_all add: concrete_simps)
  then show ?thesis unfolding two_accounts_def using toy_app_ok by blast
qed

lemma toy_screen:
  "\<exists>m. tui_run toy_tui [''down'', ''enter'', ''enter'']
      (tui_Update toy_tui (WindowSizeMsg 80 24) NewModel toy_app) = (Continue m, toy_app) \<and>
     m_ready m \<and> m_height m = 24 \<and> m_view m = ViewAccountDetailSingle"
proof -
  let ?accs = "sort_key id_String (map acc_id (list_by_id (GetAccounts toy_app)))"
  have r: "refreshAccounts toy_tui m toy_app = (Ok (), m\<lparr>m_cachedAccounts := ?accs, m_cachedTokens := []\<rparr>, toy_app)" for m
    by (simp add: refreshAccounts_def client_GetAccounts_def Send_def toy_tui_def sendRequest_def get_accounts_run)
  have "2 \<le> length (list_by_id (GetAccounts toy_app))"
    using account_listing [OF lists_by_id toy_app_two] by simp
  then have "idx ?accs 0 = Some (?accs ! 0)" "list_by_id (GetAccounts toy_app) \<noteq> []"
    by (auto simp: idx_def)
  then show ?thesis
    by (simp add: NewModel_def tui_Update_def update_view_def updateMenu_def updateAccountDetail_def is_up_def
        is_down_def menuItems_def cursor_down_def refresh_then_def r Let_def)
qed

lemma screen_steps:
  "E env \<Longrightarrow> (tui_step E others)\<^sup>*\<^sup>* (Continue m, app) (tui_run env keys (tui_Update env msg m app))"
  by (rule converse_rtranclp_into_rtranclp [OF tui_step.Message tui_run_steps])

theorem screens_always_drawn_witness:
  "\<exists>m. tui_run toy_tui [''down'', ''enter'', ''enter'']
      (tui_Update toy_tui (WindowSizeMsg 80 24) NewModel toy_app) = (Continue m, toy_app) \<and>
     m_ready m \<and> m_view m = ViewAccountDetailSingle \<and> (\<forall>V. tui_View V m toy_app \<noteq> None)"
  using toy_screen screen_steps [of "served_by toy_sha1", OF toy_tui_served]
    screens_always_drawn [OF toy_app_reachable toy_app_two] by metis

section \<open>The history does not scroll\<close>

text \<open>
  The history of an account always shows the newest transactions: in no session, in
  whatever surroundings, does the scroll offset move, so of \<open>n\<close> transactions the last
  \<open>max_transactions\<close> are drawn, at most fifteen, and the older ones never.
\<close>

theorem history_never_scrolls:
  assumes "(tui_step (\<lambda>_. True) (\<lambda>_ _. True))\<^sup>*\<^sup>* (Continue NewModel, app) (Continue m, app')"
  shows "tx_window m n = (n - 1, max 0 (n - max_transactions m)) \<and>
    3 \<le> max_transactions m \<and> max_transactions m \<le> 15"
proof -
  have "call_ok (\<lambda>_. True) True (session_inv True) (Continue m, app')"
    by (rule any.reachable_inv [OF _ assms]) simp
  then show ?thesis
    by (simp add: session_inv_def scroll_ok_def tx_window_def max_transactions_def Let_def)
qed

theorem history_never_scrolls_witness:
  "\<exists>m. tui_run toy_tui [''down'', ''enter'', ''enter'']
      (tui_Update toy_tui (WindowSizeMsg 80 24) NewModel toy_app) = (Continue m, toy_app) \<and>
     m_view m = ViewAccountDetailSingle \<and> tx_window m 100 = (99, 91)"
proof -
  obtain m where m: "tui_run toy_tui [''down'', ''enter'', ''enter'']
      (tui_Update toy_tui (WindowSizeMsg 80 24) NewModel toy_app) = (Continue m, toy_app)"
    "m_height m = 24" "m_view m = ViewAccountDetailSingle" using toy_screen by blast
  have "(tui_step (\<lambda>_. True) (\<lambda>_ _. True))\<^sup>*\<^sup>* (Continue NewModel, toy_app) (Continue m, toy_app)"
    using screen_steps [of "\<lambda>_. True", OF TrueI] m(1) by metis
  from history_never_scrolls [OF this, of 100] m show ?thesis by (simp add: max_transactions_def)
qed

end
