(* ===== verification/Reply_Types.thy ===== *)
theory Reply_Types
  imports Client
begin

text \<open>
  The replies of \<^verbatim>\<open>internal/server/server.go\<close> are typed: each has the kind that the call of
  \<^verbatim>\<open>internal/server/client.go\<close> asserts, so the assertion behind \<^verbatim>\<open>ErrUnexpectedResponseType\<close> never fails.
\<close>

section \<open>Requests and their replies\<close>

fun reply_of :: "request \<Rightarrow> response \<Rightarrow> bool" where
  "reply_of (ReqTransfer _) r \<longleftrightarrow> r = TransferResponse"
| "reply_of (ReqMintToken _) r \<longleftrightarrow> (case r of MintTokenResponse _ \<Rightarrow> True | _ \<Rightarrow> False)"
| "reply_of (ReqAuthorize _) r \<longleftrightarrow> r = AuthorizeTokenTransferResponse"
| "reply_of (ReqUnauthorize _) r \<longleftrightarrow> r = UnauthorizeTokenTransferResponse"
| "reply_of (ReqTransferToken _) r \<longleftrightarrow> r = TransferTokenResponse"
| "reply_of (ReqBurnToken _) r \<longleftrightarrow> r = BurnTokenResponse"
| "reply_of (ReqLookupToken _) r \<longleftrightarrow> (case r of LookupTokenResponse _ \<Rightarrow> True | _ \<Rightarrow> False)"
| "reply_of (ReqClawback _) r \<longleftrightarrow> r = ClawbackTokenResponse"
| "reply_of (ReqFreeze _) r \<longleftrightarrow> r = FreezeTokenResponse"
| "reply_of (ReqUnfreeze _) r \<longleftrightarrow> r = UnfreezeTokenResponse"
| "reply_of (ReqCreateAccount _) r \<longleftrightarrow> (case r of CreateAccountResponse _ _ \<Rightarrow> True | _ \<Rightarrow> False)"
| "reply_of (ReqGetAccount _) r \<longleftrightarrow> (case r of GetAccountResponse _ \<Rightarrow> True | _ \<Rightarrow> False)"
| "reply_of ReqGetAccounts r \<longleftrightarrow> (case r of GetAccountsResponse _ \<Rightarrow> True | _ \<Rightarrow> False)"
| "reply_of (ReqMint _) r \<longleftrightarrow> r = MintResponse"
| "reply_of ReqAccountCount r \<longleftrightarrow> (case r of AccountCountResponse _ \<Rightarrow> True | _ \<Rightarrow> False)"
| "reply_of (ReqAdminCreateAccount _) r \<longleftrightarrow> (case r of CreateAccountResponse _ _ \<Rightarrow> True | _ \<Rightarrow> False)"
| "reply_of (ReqAdminMint _) r \<longleftrightarrow> r = AdminMintResponse"

lemma handler_reply:
  "handler sha1 inp req = Some h \<Longrightarrow> h app = (Ok resp, app') \<Longrightarrow> reply_of req resp"
  by (cases req) (auto simp: respond_cases handleMint_def handleAdminMint_def handleCreateAccount_def Let_def
    split: outcome.splits prod.splits if_splits option.splits)

lemma handleRequest_reply:
  assumes "handleRequest s inp req app = (Ok resp, app', msgs)"
  shows "reply_of req resp"
  by (rule handleRequest_ok [OF assms]) (rule handler_reply)

lemma sendRequest_reply:
  assumes "sendRequest s inp sw rw req app = (Ok resp, app', msgs)"
  shows "reply_of req resp"
  using assms
  by (auto simp: sendRequest_def split: wait.splits prod.splits intro: handleRequest_reply)

text \<open>A call succeeds exactly when its request is answered.\<close>

definition answered :: "channel \<Rightarrow> (error, request) outcome \<Rightarrow> (App \<Rightarrow> 'r client_call) \<Rightarrow> App \<Rightarrow> bool" where
  "answered ch built op app \<longleftrightarrow> (\<forall>req. built = Ok req \<longrightarrow> is_ok (fst (op app)) = is_ok (fst (ch req app)))"

lemma Send_answered:
  assumes "\<And>resp. reply_of req resp \<Longrightarrow> result resp \<noteq> None"
  shows "is_ok (fst (Send (sendRequest s inp sw rw) result req app)) = is_ok (fst (sendRequest s inp sw rw req app))"
proof -
  obtain r app' msgs where s: "sendRequest s inp sw rw req app = (r, app', msgs)" by (metis prod_cases3)
  show ?thesis
  proof (cases r)
    case (Ok resp)
    then obtain x where "result resp = Some x" using assms sendRequest_reply s by blast
    then show ?thesis by (simp add: Send_def s Ok)
  qed (simp_all add: Send_def s)
qed

lemma send_built_answered:
  assumes "\<And>req resp. built = Ok req \<Longrightarrow> reply_of req resp \<Longrightarrow> result resp \<noteq> None"
  shows "answered (sendRequest s inp sw rw) built (send_built (sendRequest s inp sw rw) result built) app"
  using Send_answered [of _ result] assms by (simp add: answered_def send_built_def)

lemma reply_of_cases [dest!]:
  "reply_of (ReqTransfer a) r \<Longrightarrow> r = TransferResponse"
  "reply_of (ReqMintToken b) r \<Longrightarrow> \<exists>k. r = MintTokenResponse k"
  "reply_of (ReqAuthorize c) r \<Longrightarrow> r = AuthorizeTokenTransferResponse"
  "reply_of (ReqUnauthorize d) r \<Longrightarrow> r = UnauthorizeTokenTransferResponse"
  "reply_of (ReqTransferToken e) r \<Longrightarrow> r = TransferTokenResponse"
  "reply_of (ReqBurnToken f) r \<Longrightarrow> r = BurnTokenResponse"
  "reply_of (ReqLookupToken g) r \<Longrightarrow> \<exists>t. r = LookupTokenResponse t"
  "reply_of (ReqClawback h) r \<Longrightarrow> r = ClawbackTokenResponse"
  "reply_of (ReqFreeze i) r \<Longrightarrow> r = FreezeTokenResponse"
  "reply_of (ReqUnfreeze j) r \<Longrightarrow> r = UnfreezeTokenResponse"
  "reply_of (ReqCreateAccount k) r \<Longrightarrow> \<exists>a c. r = CreateAccountResponse a c"
  "reply_of (ReqGetAccount l) r \<Longrightarrow> \<exists>a. r = GetAccountResponse a"
  "reply_of ReqGetAccounts r \<Longrightarrow> \<exists>s. r = GetAccountsResponse s"
  "reply_of (ReqMint m) r \<Longrightarrow> r = MintResponse"
  "reply_of ReqAccountCount r \<Longrightarrow> \<exists>n. r = AccountCountResponse n"
  "reply_of (ReqAdminCreateAccount n) r \<Longrightarrow> \<exists>a c. r = CreateAccountResponse a c"
  "reply_of (ReqAdminMint p) r \<Longrightarrow> r = AdminMintResponse"
  by (cases r; simp)+

text \<open>
  Property C38.  Every call of the client gets the type of reply it asserts: whatever the server,
  the inputs of its handler and the waits, a call that has built its request succeeds exactly when
  the server's answer to that request is a success, so no answer is thrown away as unexpected.
\<close>

theorem replies_have_the_asserted_type:
  "let ch = sendRequest s inp sw rw in
   answered ch (TransferSigned_request e1) (TransferSigned ch e1) app \<and>
   answered ch (MintTokenSigned_request e2) (MintTokenSigned ch e2) app \<and>
   answered ch (AuthorizeTokenTransferSigned_request e3) (AuthorizeTokenTransferSigned ch e3) app \<and>
   answered ch (UnauthorizeTokenTransferSigned_request e4) (UnauthorizeTokenTransferSigned ch e4) app \<and>
   answered ch (TransferTokenSigned_request e5) (TransferTokenSigned ch e5) app \<and>
   answered ch (BurnTokenSigned_request e6) (BurnTokenSigned ch e6) app \<and>
   answered ch (LookupTokenSigned_request e7) (LookupTokenSigned ch e7) app \<and>
   answered ch (ClawbackTokenSigned_request e8) (ClawbackTokenSigned ch e8) app \<and>
   answered ch (FreezeTokenSigned_request e9) (FreezeTokenSigned ch e9) app \<and>
   answered ch (UnfreezeTokenSigned_request e10) (UnfreezeTokenSigned ch e10) app \<and>
   answered ch (Ok (ReqCreateAccount \<lparr>ca_InitialBalance = bal, ca_SignedEnvelope = e11\<rparr>))
     (CreateAccountWithCredentials ch bal e11) app \<and>
   answered ch (Ok (ReqGetAccount \<lparr>ga_AccountID = i, ga_SignedEnvelope = e12\<rparr>)) (client_GetAccount ch i e12) app \<and>
   answered ch (Ok ReqGetAccounts) (client_GetAccounts ch) app \<and>
   answered ch (Ok (ReqMint \<lparr>mr_To = i, mr_Amount = bal\<rparr>)) (client_Mint ch i bal) app \<and>
   answered ch (Ok ReqAccountCount) (client_AccountCount ch) app \<and>
   answered ch (Ok (ReqAdminCreateAccount \<lparr>ac_InitialBalance = bal\<rparr>)) (AdminCreateAccount ch bal) app \<and>
   answered ch (Ok (ReqAdminMint \<lparr>am_To = i, am_Amount = bal\<rparr>)) (AdminMint ch i bal) app"
proof -
  note built = TransferSigned_def MintTokenSigned_def AuthorizeTokenTransferSigned_def
    UnauthorizeTokenTransferSigned_def TransferTokenSigned_def BurnTokenSigned_def LookupTokenSigned_def
    ClawbackTokenSigned_def FreezeTokenSigned_def UnfreezeTokenSigned_def
  note sent = CreateAccountWithCredentials_def client_GetAccount_def client_GetAccounts_def client_Mint_def
    client_AccountCount_def AdminCreateAccount_def AdminMint_def
  show ?thesis
    unfolding Let_def built
    by (intro conjI; (rule send_built_answered)?)
      (auto simp: client_request_defs obind_Ok_iff answered_def sent intro!: Send_answered)
qed

end
