(* ===== verification/Float_Arith.thy ===== *)
theory Float_Arith
  imports Float64
begin

text \<open>
  Multiplication, division and conversion of doubles, which only the test client uses.  The exact
  result is a quotient of integers, in units of \<open>2 powr -1074\<close>, rounded once to nearest, ties to
  even.  The divisors are counts and durations, so that a zero among them is a positive one.
\<close>

section \<open>Rounding a quotient\<close>

definition rne_quot :: "nat \<Rightarrow> int \<Rightarrow> int \<Rightarrow> int" where
  "rne_quot e num den =
     (let p = 2 ^ e * den; q = num div p; r = num mod p
      in (if 2 * r < p \<or> 2 * r = p \<and> even q then q else q + 1) * 2 ^ e)"

definition frat :: "int \<Rightarrow> int \<Rightarrow> float64" where
  "frat num den =
     (let m = sgn num * rne_quot (ulp_shift (\<bar>num\<bar> div den)) \<bar>num\<bar> den
      in if overflow_bound \<le> m then PInf else if m \<le> - overflow_bound then NInf else Fin m)"

text \<open>The units of 1.0.\<close>

definition one_units :: int where
  "one_units = 2 ^ 1074"

definition finf :: "int \<Rightarrow> float64" where
  "finf s = (if s = 0 then NaN else if 0 < s then PInf else NInf)"

fun sgn_of :: "float64 \<Rightarrow> int" where
  "sgn_of (Fin a) = sgn a"
| "sgn_of PInf = 1"
| "sgn_of NInf = - 1"
| "sgn_of NaN = 0"

fun fmul :: "float64 \<Rightarrow> float64 \<Rightarrow> float64" where
  "fmul (Fin a) (Fin b) = frat (a * b) one_units"
| "fmul x y = finf (sgn_of x * sgn_of y)"

fun fdiv :: "float64 \<Rightarrow> float64 \<Rightarrow> float64" where
  "fdiv (Fin a) (Fin b) = (if b = 0 then finf (sgn a) else frat (sgn b * a * one_units) \<bar>b\<bar>)"
| "fdiv (Fin a) PInf = Fin 0"
| "fdiv (Fin a) NInf = Fin 0"
| "fdiv PInf (Fin b) = (if 0 \<le> b then PInf else NInf)"
| "fdiv NInf (Fin b) = (if 0 \<le> b then NInf else PInf)"
| "fdiv _ _ = NaN"

section \<open>Conversion\<close>

definition of_int64 :: "int \<Rightarrow> float64" where
  "of_int64 n = fround (n * one_units)"

fun ffloor :: "float64 \<Rightarrow> float64" where
  "ffloor (Fin a) = Fin (a div one_units * one_units)"
| "ffloor x = x"

text \<open>Conversion to an integer truncates; out of range amd64 gives the least \<^verbatim>\<open>int64\<close>.\<close>

fun to_int64 :: "float64 \<Rightarrow> int" where
  "to_int64 (Fin a) =
     (let t = sgn a * (\<bar>a\<bar> div one_units) in if - (2 ^ 63) \<le> t \<and> t < 2 ^ 63 then t else - (2 ^ 63))"
| "to_int64 _ = - (2 ^ 63)"

section \<open>Laws\<close>

lemma one_units_pos [simp]: "0 < one_units"
  by (simp add: one_units_def)

lemma rne_quot_scale:
  assumes "0 < den"
  shows "rne_quot e (x * den) den = rne e x"
proof -
  have q: "x * den div (2 ^ e * den) = x div 2 ^ e" using assms by simp
  have r: "x * den mod (2 ^ e * den) = x mod 2 ^ e * den"
    by (simp add: mult_mod_left [symmetric])
  have c: "2 * (x mod 2 ^ e * den) < 2 ^ e * den \<longleftrightarrow> 2 * (x mod 2 ^ e) < 2 ^ e"
    "2 * (x mod 2 ^ e * den) = 2 ^ e * den \<longleftrightarrow> 2 * (x mod 2 ^ e) = 2 ^ e"
    using assms mult_less_cancel_right_pos [of den "2 * (x mod 2 ^ e)" "2 ^ e"]
      mult_right_cancel [of den "2 * (x mod 2 ^ e)" "2 ^ e"] by (simp_all add: mult.assoc)
  show ?thesis by (simp only: rne_quot_def rne_def Let_def q r c)
qed

lemma frat_scale:
  assumes "0 < den" "0 \<le> x"
  shows "frat (x * den) den = fround x"
proof -
  have a: "\<bar>x * den\<bar> = x * den" "x * den div den = x" using assms by simp_all
  have "sgn (x * den) * rne (ulp_shift x) x = rne (ulp_shift x) x"
    using assms by (cases "x = 0") (simp_all add: rne_def sgn_mult)
  then show ?thesis
    by (simp only: frat_def fround_def a rne_quot_scale [OF assms(1)])
qed

lemma of_int64_Fin: "\<bar>n\<bar> \<le> 2 ^ 53 \<Longrightarrow> of_int64 n = Fin (n * one_units)"
  unfolding of_int64_def one_units_def by (rule fround_exact, rule representable_dyadic) simp_all

lemma mul_int64:
  assumes "0 \<le> n" "n \<le> 2 ^ 53" "0 \<le> b"
  shows "fmul (of_int64 n) (Fin b) = fround (n * b)"
proof -
  have n: "of_int64 n = Fin (n * one_units)" using assms by (intro of_int64_Fin) simp
  have "n * one_units * b = n * b * one_units" by simp
  then show ?thesis unfolding n fmul.simps using assms by (simp only: frat_scale one_units_pos mult_nonneg_nonneg)
qed

text \<open>The relative error of one rounding.\<close>

lemma fround_error:
  assumes "fround m = Fin r" "0 \<le> m"
  shows "\<bar>r - m\<bar> * 2 ^ 52 \<le> m"
proof -
  let ?e = "ulp_shift m"
  have r: "r = rne ?e m" using assms(1) by (auto simp: fround_def Let_def split: if_splits)
  show ?thesis
  proof (cases "?e = 0")
    case True
    then show ?thesis using assms(2) by (simp add: r rne_def)
  next
    case False
    then have "2 ^ (52 + ?e) \<le> m" using ulp_shift_pos_lower [of m] assms(2) by simp
    moreover have "\<bar>r - m\<bar> * 2 ^ 52 \<le> 2 ^ ?e * 2 ^ 52" unfolding r using rne_dist by (intro mult_right_mono) simp_all
    ultimately show ?thesis by (simp add: power_add)
  qed
qed

lemma fround_finite: "0 \<le> m \<Longrightarrow> m \<le> 2 ^ 2000 \<Longrightarrow> \<exists>r. fround m = Fin r"
proof -
  assume m: "0 \<le> m" "m \<le> 2 ^ 2000"
  let ?r = "rne (ulp_shift m) m"
  have "m < 2 ^ 2001" using m(2) by (rule order_le_less_trans) simp
  then have "ulp_shift m \<le> 1948" using m(1) by (intro ulp_shift_le) simp
  then have "(2::int) ^ ulp_shift m \<le> 2 ^ 1948" by (intro power_increasing) auto
  then have "\<bar>?r\<bar> \<le> 2 ^ 2000 + 2 ^ 1948" using rne_dist [of "ulp_shift m" m] m by linarith
  also have "(2::int) ^ 2000 + 2 ^ 1948 < 2 ^ 2098" by simp
  finally have "\<bar>?r\<bar> < overflow_bound" by (simp only: overflow_bound_def)
  then show ?thesis by (auto simp: fround_def Let_def)
qed

end
