(* ===== verification/Bench_Report.thy ===== *)
theory Bench_Report
  imports Testclient Float_Arith Text_Format
begin

text \<open>
  \<^verbatim>\<open>cmd/testclient/bench.go\<close>, the counting: what a benchmark worker records, how the records are
  merged, and the rates, percentiles and files made of them.  Durations are nanoseconds.
\<close>

section \<open>Records of a worker\<close>

type_synonym duration = int

text \<open>A transferred token with its receiver; a receiver with the amount it was sent.\<close>

type_synonym tokenTransferRecord = "string \<times> accountCreds"
type_synonym currencyTransferRecord = "accountCreds \<times> float64"

record workerResult =
  opLats :: "duration list"
  txLats :: "duration list"
  opAttempted :: int
  opSucceeded :: int
  opFailed :: int
  txAttempted :: int
  txSucceeded :: int
  txFailed :: int
  transfers :: "tokenTransferRecord list"
  currencyTransfers :: "currencyTransferRecord list"

definition emptyResult :: workerResult where
  "emptyResult = \<lparr>opLats = [], txLats = [], opAttempted = 0, opSucceeded = 0, opFailed = 0,
     txAttempted = 0, txSucceeded = 0, txFailed = 0, transfers = [], currencyTransfers = []\<rparr>"

definition recordOpAttempt :: "bool \<Rightarrow> workerResult \<Rightarrow> workerResult" where
  "recordOpAttempt measured r = (if measured then r\<lparr>opAttempted := opAttempted r + 1\<rparr> else r)"

definition recordOpSuccess :: "bool \<Rightarrow> duration \<Rightarrow> workerResult \<Rightarrow> workerResult" where
  "recordOpSuccess measured lat r =
     (if measured then r\<lparr>opSucceeded := opSucceeded r + 1, opLats := opLats r @ [lat]\<rparr> else r)"

definition recordOpFailure :: "bool \<Rightarrow> workerResult \<Rightarrow> workerResult" where
  "recordOpFailure measured r = (if measured then r\<lparr>opFailed := opFailed r + 1\<rparr> else r)"

definition recordTxAttempt :: "bool \<Rightarrow> workerResult \<Rightarrow> workerResult" where
  "recordTxAttempt measured r = (if measured then r\<lparr>txAttempted := txAttempted r + 1\<rparr> else r)"

definition recordTxSuccess :: "bool \<Rightarrow> duration \<Rightarrow> workerResult \<Rightarrow> workerResult" where
  "recordTxSuccess measured lat r =
     (if measured then r\<lparr>txSucceeded := txSucceeded r + 1, txLats := txLats r @ [lat]\<rparr> else r)"

definition recordTxFailure :: "bool \<Rightarrow> duration \<Rightarrow> workerResult \<Rightarrow> workerResult" where
  "recordTxFailure measured lat r =
     (if measured then r\<lparr>txFailed := txFailed r + 1, txLats := txLats r @ [lat]\<rparr> else r)"

definition mergeWorkerResult :: "workerResult \<Rightarrow> workerResult \<Rightarrow> workerResult" where
  "mergeWorkerResult dst src =
     \<lparr>opLats = opLats dst @ opLats src, txLats = txLats dst @ txLats src,
      opAttempted = opAttempted dst + opAttempted src, opSucceeded = opSucceeded dst + opSucceeded src,
      opFailed = opFailed dst + opFailed src, txAttempted = txAttempted dst + txAttempted src,
      txSucceeded = txSucceeded dst + txSucceeded src, txFailed = txFailed dst + txFailed src,
      transfers = transfers dst @ transfers src,
      currencyTransfers = currencyTransfers dst @ currencyTransfers src\<rparr>"

definition merge_all :: "workerResult list \<Rightarrow> workerResult" where
  "merge_all rs = fold (\<lambda>r tot. mergeWorkerResult tot r) rs emptyResult"

section \<open>Percentiles and rates\<close>

text \<open>\<^verbatim>\<open>Duration.Seconds\<close>: whole seconds and the rest, each converted.\<close>

definition Seconds :: "duration \<Rightarrow> float64" where
  "Seconds d =
     (let sec = sgn d * (\<bar>d\<bar> div 1000000000); nsec = d - sec * 1000000000
      in fadd (of_int64 sec) (fdiv (of_int64 nsec) (of_int64 1000000000)))"

definition durMs :: "duration \<Rightarrow> float64" where
  "durMs d = fdiv (of_int64 d) (of_int64 1000000)"

text \<open>The constants 0.50 and 0.95.\<close>

definition p50 :: float64 where "p50 = dy 1073 1"
definition p95 :: float64 where "p95 = dy 1022 4278419646001971"

definition percentile_index :: "nat \<Rightarrow> float64 \<Rightarrow> int" where
  "percentile_index n p =
     (let i = to_int64 (ffloor (fmul (of_int64 (int n)) p)) in if i \<ge> int n then int n - 1 else i)"

definition latPercentile :: "duration list \<Rightarrow> float64 \<Rightarrow> duration" where
  "latPercentile lats p =
     (if lats = [] then 0 else sort lats ! nat (percentile_index (length lats) p))"

record benchSample =
  opAttemptRate :: float64
  opSuccessRate :: float64
  txAttemptRate :: float64
  txSuccessRate :: float64
  opP50 :: duration
  opP95 :: duration
  txP50 :: duration
  txP95 :: duration

definition sampleFromResult :: "duration \<Rightarrow> workerResult \<Rightarrow> benchSample" where
  "sampleFromResult dur res =
     \<lparr>opAttemptRate = fdiv (of_int64 (opAttempted res)) (Seconds dur),
      opSuccessRate = fdiv (of_int64 (opSucceeded res)) (Seconds dur),
      txAttemptRate = fdiv (of_int64 (txAttempted res)) (Seconds dur),
      txSuccessRate = fdiv (of_int64 (txSucceeded res)) (Seconds dur),
      opP50 = latPercentile (opLats res) p50, opP95 = latPercentile (opLats res) p95,
      txP50 = latPercentile (txLats res) p50, txP95 = latPercentile (txLats res) p95\<rparr>"

definition zeroSample :: benchSample where
  "zeroSample = \<lparr>opAttemptRate = f0, opSuccessRate = f0, txAttemptRate = f0, txSuccessRate = f0,
     opP50 = 0, opP95 = 0, txP50 = 0, txP95 = 0\<rparr>"

definition addSample :: "benchSample \<Rightarrow> benchSample \<Rightarrow> benchSample" where
  "addSample tot s =
     \<lparr>opAttemptRate = fadd (opAttemptRate tot) (opAttemptRate s),
      opSuccessRate = fadd (opSuccessRate tot) (opSuccessRate s),
      txAttemptRate = fadd (txAttemptRate tot) (txAttemptRate s),
      txSuccessRate = fadd (txSuccessRate tot) (txSuccessRate s),
      opP50 = opP50 tot + opP50 s, opP95 = opP95 tot + opP95 s,
      txP50 = txP50 tot + txP50 s, txP95 = txP95 tot + txP95 s\<rparr>"

definition avgSamples :: "benchSample list \<Rightarrow> benchSample" where
  "avgSamples samples =
     (if samples = [] then zeroSample
      else (let n = of_int64 (int (length samples)); tot = fold (\<lambda>s t. addSample t s) samples zeroSample;
                avg = (\<lambda>d. to_int64 (fdiv (of_int64 d) n))
            in \<lparr>opAttemptRate = fdiv (opAttemptRate tot) n, opSuccessRate = fdiv (opSuccessRate tot) n,
                txAttemptRate = fdiv (txAttemptRate tot) n, txSuccessRate = fdiv (txSuccessRate tot) n,
                opP50 = avg (opP50 tot), opP95 = avg (opP95 tot),
                txP50 = avg (txP50 tot), txP95 = avg (txP95 tot)\<rparr>))"

section \<open>The report\<close>

text \<open>What \<^verbatim>\<open>fmt\<close> makes of a double with one decimal (\<^verbatim>\<open>%.1f\<close>), a quoted text and a duration.\<close>

record bench_fmt =
  bf_float :: "float64 \<Rightarrow> string"
  bf_quote :: "string \<Rightarrow> string"
  bf_duration :: "duration \<Rightarrow> string"

text \<open>A space before every group of three digits but the first.\<close>

definition formatInt :: "int \<Rightarrow> string" where
  "formatInt n =
     (let s = itoa n in
      if length s \<le> 3 then s
      else concat (map (\<lambda>(i, c). if i > 0 \<and> (length s - i) mod 3 = 0 then [CHR '' '', c] else [c])
             (enumerate 0 s)))"

definition printBenchResults ::
    "bench_fmt \<Rightarrow> duration \<Rightarrow> string \<Rightarrow> int \<Rightarrow> string \<Rightarrow> string \<Rightarrow> workerResult \<Rightarrow> string list" where
  "printBenchResults F dur headerWorkload workers opDesc txDesc res =
     (let s = sampleFromResult dur res; ms = (\<lambda>d. bf_float F (durMs d) @ '' ms'') in
      [''=== Throughput Benchmark (workload='' @ headerWorkload @ '', workers='' @ itoa workers @
         '', duration='' @ bf_duration F dur @ '') ==='',
       ''1 op              : '' @ opDesc, ''1 tx              : '' @ txDesc,
       ''Ops attempted     : '' @ formatInt (opAttempted res), ''Ops succeeded     : '' @ formatInt (opSucceeded res),
       ''Ops failed        : '' @ formatInt (opFailed res),
       ''Ops attempted/s   : '' @ bf_float F (opAttemptRate s), ''Ops succeeded/s   : '' @ bf_float F (opSuccessRate s),
       ''Tx attempted      : '' @ formatInt (txAttempted res), ''Tx succeeded      : '' @ formatInt (txSucceeded res),
       ''Tx failed         : '' @ formatInt (txFailed res),
       ''Tx attempted/s    : '' @ bf_float F (txAttemptRate s), ''Tx succeeded/s    : '' @ bf_float F (txSuccessRate s),
       ''Op p50 latency    : '' @ ms (opP50 s), ''Op p95 latency    : '' @ ms (opP95 s),
       ''Tx p50 latency    : '' @ ms (txP50 s), ''Tx p95 latency    : '' @ ms (txP95 s)])"

definition printAvgResults :: "bench_fmt \<Rightarrow> string \<Rightarrow> benchSample \<Rightarrow> string list" where
  "printAvgResults F label avg =
     (let ms = (\<lambda>d. bf_float F (durMs d) @ '' ms'') in
      [''--- '' @ label @ '' ---'',
       ''Avg Ops attempted/s : '' @ bf_float F (opAttemptRate avg), ''Avg Ops succeeded/s : '' @ bf_float F (opSuccessRate avg),
       ''Avg Tx attempted/s  : '' @ bf_float F (txAttemptRate avg), ''Avg Tx succeeded/s  : '' @ bf_float F (txSuccessRate avg),
       ''Avg Op p50 latency  : '' @ ms (opP50 avg), ''Avg Op p95 latency  : '' @ ms (opP95 avg),
       ''Avg Tx p50 latency  : '' @ ms (txP50 avg), ''Avg Tx p95 latency  : '' @ ms (txP95 avg)])"

definition printVerificationStats :: "string \<Rightarrow> int \<Rightarrow> int \<Rightarrow> string list" where
  "printVerificationStats kind confirmed failed =
     [[], ''=== '' @ kind @ '' Transfer Verification ==='', ''Confirmed transfers : '' @ formatInt confirmed,
      ''Failed / missing    : '' @ formatInt failed]"

section \<open>The export file\<close>

type_synonym csv_files = "string \<rightharpoonup> string"

definition nextRunIndex :: "string \<Rightarrow> csv_files \<Rightarrow> int" where
  "nextRunIndex path fs =
     (if path = [] then 1
      else (case fs path of
              None \<Rightarrow> 1
            | Some data \<Rightarrow>
              if TrimSpace data = [] then 1
              else (case Atoi (TrimSpace (before (CHR '','') (last (split_lines (trim_right (CHR 0x0A) data))))) of
                      None \<Rightarrow> 1
                    | Some n \<Rightarrow> n + 1)))"

definition csv_header :: string where
  "csv_header = ''run_idx,label,tx_succeeded_per_sec,tx_p50_ms,tx_p95_ms''"

definition csv_row :: "bench_fmt \<Rightarrow> int \<Rightarrow> string \<Rightarrow> benchSample \<Rightarrow> string" where
  "csv_row F runIdx label s =
     itoa runIdx @ '', '' @ bf_quote F label @ '', '' @ bf_float F (txSuccessRate s) @ '', '' @
     bf_float F (durMs (txP50 s)) @ '', '' @ bf_float F (durMs (txP95 s))"

text \<open>\<open>opens\<close> says whether the file can be opened; it is created when it does not exist.\<close>

definition appendBenchCSV ::
    "bench_fmt \<Rightarrow> bool \<Rightarrow> string \<Rightarrow> int \<Rightarrow> string \<Rightarrow> benchSample \<Rightarrow> csv_files \<Rightarrow> csv_files" where
  "appendBenchCSV F opens path runIdx label s fs =
     (if path = [] \<or> \<not> opens then fs
      else (let data = (case fs path of None \<Rightarrow> [] | Some d \<Rightarrow> d) in
            fs(path \<mapsto> data @ (if data = [] then csv_header @ nl else []) @ csv_row F runIdx label s @ nl)))"

section \<open>Laws of the counting\<close>

text \<open>
  What the numbers of a report promise: every attempt ended as a success or as a failure, each
  with its latency.
\<close>

definition adds_up :: "workerResult \<Rightarrow> bool" where
  "adds_up r \<longleftrightarrow> opAttempted r = opSucceeded r + opFailed r \<and> txAttempted r = txSucceeded r + txFailed r \<and>
     int (length (opLats r)) = opSucceeded r \<and> int (length (txLats r)) = txAttempted r \<and>
     int (length (transfers r)) + int (length (currencyTransfers r)) = opSucceeded r"

lemmas record_defs = recordOpAttempt_def recordOpSuccess_def recordOpFailure_def
  recordTxAttempt_def recordTxSuccess_def recordTxFailure_def

lemma adds_up_empty: "adds_up emptyResult"
  by (simp add: adds_up_def emptyResult_def)

lemma adds_up_merge: "adds_up a \<Longrightarrow> adds_up b \<Longrightarrow> adds_up (mergeWorkerResult a b)"
  by (simp add: adds_up_def mergeWorkerResult_def)

lemma adds_up_fold: "adds_up a \<Longrightarrow> \<forall>r \<in> set rs. adds_up r \<Longrightarrow> adds_up (fold (\<lambda>r tot. mergeWorkerResult tot r) rs a)"
  by (induction rs arbitrary: a) (simp_all add: adds_up_merge)

lemma adds_up_merge_all: "\<forall>r \<in> set rs. adds_up r \<Longrightarrow> adds_up (merge_all rs)"
  by (simp add: merge_all_def adds_up_fold adds_up_empty)

section \<open>Laws of the percentiles\<close>

lemma floor_index:
  assumes "0 \<le> r" "r div one_units < 2 ^ 63"
  shows "to_int64 (ffloor (Fin r)) = r div one_units"
proof -
  let ?q = "r div one_units"
  have q: "0 \<le> ?q" using assms(1) by (simp add: pos_imp_zdiv_nonneg_iff)
  have "\<bar>?q * one_units\<bar> div one_units = ?q" using q by (simp add: abs_mult abs_of_pos [OF one_units_pos])
  moreover have "sgn (?q * one_units) * ?q = ?q" using q by (cases "?q = 0") (simp_all add: sgn_mult)
  ultimately have "sgn (?q * one_units) * (\<bar>?q * one_units\<bar> div one_units) = ?q" by simp
  then show ?thesis using q assms(2) by (simp only: ffloor.simps to_int64.simps Let_def) simp
qed

lemma index_bounds:
  assumes "fmul (of_int64 (int n)) p = Fin r" "0 \<le> r" "r div one_units < int n" "n \<le> 2 ^ 40"
  shows "percentile_index n p = r div one_units"
proof -
  have "r div one_units < 2 ^ 63" using assms(3,4) by simp
  then show ?thesis using assms(3) by (simp only: percentile_index_def assms(1) floor_index [OF assms(2)] Let_def) simp
qed

lemma percentile_median:
  assumes "0 < n" "n \<le> 2 ^ 40"
  shows "percentile_index n p50 = int n div 2"
proof -
  have "fmul (of_int64 (int n)) p50 = fround (int n * 2 ^ 1073)"
    unfolding p50_def dy_def using assms by (simp add: mul_int64)
  also have "\<dots> = Fin (int n * 2 ^ 1073)"
    by (rule fround_exact, rule representable_dyadic) (use assms in simp_all)
  finally have m: "fmul (of_int64 (int n)) p50 = Fin (int n * 2 ^ 1073)" .
  have one: "one_units = 2 * 2 ^ 1073" by (simp add: one_units_def)
  have d: "int n * 2 ^ 1073 div one_units = int n div 2"
    unfolding one by (rule div_mult_mult2) simp
  show ?thesis unfolding d [symmetric]
    by (rule index_bounds [OF m]) (use assms d in simp_all)
qed

text \<open>0.95 is not a double; the index is still what one expects of it, up to rounding.\<close>

lemma percentile_95:
  assumes "0 < n" "n \<le> 2 ^ 40"
  shows "19 * int n \<le> 20 * (percentile_index n p95 + 1)" "20 * percentile_index n p95 \<le> 19 * int n"
    "0 \<le> percentile_index n p95"
proof -
  let ?b = "4278419646001971 * 2 ^ 1022 :: int"
  let ?m = "int n * ?b"
  have n: "0 < int n" "int n \<le> 2 ^ 40" using assms by simp_all
  have mul: "fmul (of_int64 (int n)) p95 = fround ?m"
    unfolding p95_def dy_def using assms by (simp add: mul_int64)
  have le: "?m \<le> 2 ^ 40 * ?b" using n(2) by (intro mult_right_mono) simp_all
  also have "\<dots> \<le> 2 ^ 2000" by simp
  finally obtain r where r: "fround ?m = Fin r" using fround_finite [of ?m] n by auto
  have err: "\<bar>r - ?m\<bar> * 2 ^ 52 \<le> ?m" using fround_error [OF r] n by simp
  define u :: int where "u = 2 ^ 1022"
  define k where "k = r div one_units"
  define v where "v = int n * u"
  define w where "w = k * u"
  have u: "0 < u" "one_units = 2 ^ 52 * u" by (simp_all add: u_def one_units_def power_add [symmetric])
  have m: "?m = 4278419646001971 * v" by (simp add: u_def v_def)
  have kr: "r = k * one_units + r mod one_units" "0 \<le> r mod one_units" "r mod one_units < one_units"
    by (simp_all add: k_def)
  have "k * one_units = 2 ^ 52 * w" by (simp add: u(2) w_def)
  then have k: "2 ^ 52 * w \<le> r" "r < 2 ^ 52 * w + 2 ^ 52 * u" using kr unfolding u(2) by linarith+
  define a where "a = \<bar>r - 4278419646001971 * v\<bar>"
  have "4503599627370496 * a \<le> 4278419646001971 * v" using err unfolding m a_def by simp
  moreover have "r - 4278419646001971 * v \<le> a" "4278419646001971 * v - r \<le> a"
    unfolding a_def by simp_all
  ultimately have lower: "4503599627370496 * r \<ge> 4503599627370495 * (4278419646001971 * v)"
    and upper: "4503599627370496 * r \<le> 4503599627370497 * (4278419646001971 * v)"
    by simp_all
  have v: "0 < v" "v \<le> 2 ^ 40 * u" using n u(1) by (simp_all add: v_def mult_right_mono)
  have "19 * v < 20 * (w + u) + u" using lower k(2) v by simp
  then have "19 * int n * u < (20 * (k + 1) + 1) * u" by (simp add: v_def w_def algebra_simps)
  then have 1: "19 * int n \<le> 20 * (k + 1)" using u(1) by (simp only: mult_less_cancel_right_pos)
  have "20 * w < 19 * v + u" using upper k(1) v by simp
  then have "20 * k * u < (19 * int n + 1) * u" by (simp add: v_def w_def algebra_simps)
  then have 2: "20 * k \<le> 19 * int n" using u(1) by (simp only: mult_less_cancel_right_pos)
  have "0 \<le> r" using lower v by simp
  moreover have "k < int n" using 2 n by simp
  ultimately have "percentile_index n p95 = k"
    unfolding k_def using index_bounds [OF mul [unfolded r]] assms(2) by simp
  then show "19 * int n \<le> 20 * (percentile_index n p95 + 1)" "20 * percentile_index n p95 \<le> 19 * int n"
    "0 \<le> percentile_index n p95"
    using 1 2 n by simp_all
qed

lemma sorted_ranks:
  assumes "i < length xs" "v = sort xs ! i"
  shows "i < length (filter (\<lambda>x. x \<le> v) xs)" "length xs - i \<le> length (filter (\<lambda>x. v \<le> x) xs)"
proof -
  have len: "length (filter P xs) = length (filter P (sort xs))" for P
    by (metis filter_sort length_sort)
  have "set (take (Suc i) (sort xs)) \<subseteq> {x. x \<le> v}"
    using assms by (auto simp: in_set_conv_nth less_Suc_eq_le intro!: sorted_nth_mono)
  then have "filter (\<lambda>x. x \<le> v) (take (Suc i) (sort xs)) = take (Suc i) (sort xs)"
    by (intro filter_True) auto
  then have "length (filter (\<lambda>x. x \<le> v) (take (Suc i) (sort xs) @ drop (Suc i) (sort xs))) \<ge> Suc i"
    unfolding filter_append using assms(1) by simp
  then show "i < length (filter (\<lambda>x. x \<le> v) xs)" by (simp add: len)
  have "\<forall>x \<in> set (drop i (sort xs)). v \<le> x"
    using assms by (auto simp: in_set_conv_nth intro!: sorted_nth_mono)
  then have "filter (\<lambda>x. v \<le> x) (drop i (sort xs)) = drop i (sort xs)"
    by (intro filter_True) auto
  then have "length xs - i \<le> length (filter (\<lambda>x. v \<le> x) (take i (sort xs) @ drop i (sort xs)))"
    unfolding filter_append by simp
  then show "length xs - i \<le> length (filter (\<lambda>x. v \<le> x) xs)" by (simp add: len)
qed

text \<open>
  The percentiles of a report are what they say: the p50 is one of the latencies,
  with more than half of them at most and at least half of them at least as large, and the p95
  one with at least 95 percent of them at most and 5 percent of them at least as large, although
  0.95 is not a double and the index is computed in doubles.
\<close>

theorem percentiles_have_their_rank:
  assumes "lats \<noteq> []" "length lats \<le> 2 ^ 40"
  shows "latPercentile lats p50 \<in> set lats \<and> latPercentile lats p95 \<in> set lats \<and>
    length lats < 2 * length (filter (\<lambda>x. x \<le> latPercentile lats p50) lats) \<and>
    length lats \<le> 2 * length (filter (\<lambda>x. latPercentile lats p50 \<le> x) lats) \<and>
    19 * length lats \<le> 20 * length (filter (\<lambda>x. x \<le> latPercentile lats p95) lats) \<and>
    length lats \<le> 20 * length (filter (\<lambda>x. latPercentile lats p95 \<le> x) lats)"
proof -
  let ?n = "length lats"
  have n: "0 < ?n" "?n \<le> 2 ^ 40" using assms by simp_all
  define i where "i = nat (percentile_index ?n p50)"
  define j where "j = nat (percentile_index ?n p95)"
  have i: "i < ?n" "i = ?n div 2"
    using percentile_median [OF n] n by (simp_all add: i_def nat_div_distrib)
  have "int j = percentile_index ?n p95" using percentile_95(3) [OF n] by (simp add: j_def)
  then have "int (19 * ?n) \<le> int (20 * (j + 1))" "int (20 * j) \<le> int (19 * ?n)"
    using percentile_95(1,2) [OF n] by simp_all
  then have j: "19 * ?n \<le> 20 * (j + 1)" "20 * j \<le> 19 * ?n" by (simp_all only: of_nat_le_iff)
  then have "j < ?n" using n(1) by linarith
  have v: "latPercentile lats p50 = sort lats ! i" "latPercentile lats p95 = sort lats ! j"
    using assms by (simp_all add: latPercentile_def i_def j_def)
  have "sort lats ! i \<in> set lats" "sort lats ! j \<in> set lats"
    using i(1) \<open>j < ?n\<close> by (metis length_sort nth_mem set_sort)+
  then show ?thesis
    using sorted_ranks [OF i(1) refl] sorted_ranks [OF \<open>j < ?n\<close> refl] i j unfolding v by simp linarith
qed

theorem percentiles_have_their_rank_witness:
  "latPercentile [30, 10, 20] p50 \<in> set [30, 10, 20] \<and>
   19 * length [30, 10, 20 :: int] \<le> 20 * length (filter (\<lambda>x. x \<le> latPercentile [30, 10, 20] p95) [30, 10, 20])"
proof -
  have "length [30, 10, 20 :: int] \<le> 2 ^ 40" by simp
  from percentiles_have_their_rank [OF list.distinct(2) this] show ?thesis by blast
qed

section \<open>Laws of the export file\<close>

text \<open>A file in which every line is finished.\<close>

definition lines_end :: "string \<Rightarrow> csv_files \<Rightarrow> bool" where
  "lines_end path fs \<longleftrightarrow> (\<forall>d. fs path = Some d \<and> d \<noteq> [] \<longrightarrow> last d = CHR 0x0A)"

lemma last_row:
  assumes "s = [] \<or> last s = CHR 0x0A" "row \<noteq> []" "CHR 0x0A \<notin> set row"
  shows "last (split_lines (trim_right (CHR 0x0A) (s @ row @ nl))) = row"
proof -
  have "last row \<noteq> CHR 0x0A" using assms(3) last_in_set [OF assms(2)] by metis
  then have "last (s @ row) \<noteq> CHR 0x0A" using assms(2) by simp
  then have t: "trim_right (CHR 0x0A) (s @ row @ nl) = s @ row"
    using trim_right_end [of "s @ row" "CHR 0x0A"] assms(2) by (simp add: nl_def)
  have "last (split_lines (s @ row)) = row"
  proof (cases "s = []")
    case True
    then show ?thesis using assms(3) by (simp add: split_lines_single)
  next
    case False
    then obtain u where "s = u @ [CHR 0x0A]" using assms(1) by (metis append_butlast_last_id)
    then show ?thesis using assms(3) by (simp add: split_lines_append split_lines_single)
  qed
  then show ?thesis by (simp only: t)
qed

lemma digits_no_newline: "CHR 0x0A \<notin> set (digits n)"
  using digits_all [of n] is_digit_not by (auto simp: list_all_iff)

text \<open>
  Exported benchmark runs are numbered: the index the next invocation reads from the
  file is one more than the index of the row written last, whatever the label and the numbers of
  the row, and the file keeps its lines finished so that this goes on.
\<close>

theorem csv_runs_are_numbered:
  assumes "path \<noteq> []" "lines_end path fs" "0 \<le> n" "n < 2 ^ 63 - 1"
    and "\<And>x. CHR 0x0A \<notin> set (bf_float F x)" "\<And>x. CHR 0x0A \<notin> set (bf_quote F x)"
  shows "nextRunIndex path (appendBenchCSV F True path n label s fs) = n + 1 \<and>
    lines_end path (appendBenchCSV F True path n label s fs)"
proof -
  define d where "d = (case fs path of None \<Rightarrow> [] | Some d \<Rightarrow> d)"
  define e where "e = d @ (if d = [] then csv_header @ nl else [])"
  define row where "row = csv_row F n label s"
  have row: "row = digits (nat n) @ CHR '','' # drop 1 ('', '' @ bf_quote F label @ '', '' @ bf_float F (txSuccessRate s) @
      '', '' @ bf_float F (durMs (txP50 s)) @ '', '' @ bf_float F (durMs (txP95 s)))"
    using assms(3) by (simp add: row_def csv_row_def itoa_nonneg)
  have "e = [] \<or> last e = CHR 0x0A"
    using assms(2) by (auto simp: e_def d_def lines_end_def nl_def split: option.split)
  moreover have "CHR 0x0A \<notin> set row" "row \<noteq> []"
    using assms(3,5,6) digits_no_newline by (auto simp: row_def csv_row_def itoa_nonneg)
  ultimately have l: "last (split_lines (trim_right (CHR 0x0A) (e @ row @ nl))) = row"
    by (intro last_row)
  have "TrimSpace (before (CHR '','') row) = digits (nat n)"
    unfolding row using digits_all [of "nat n"] by (simp only: before_digits TrimSpace_digits)
  moreover have "Atoi (digits (nat n)) = Some n"
    using Atoi_itoa [of n] assms(3,4) by (simp add: itoa_nonneg)
  moreover have "TrimSpace (e @ row @ nl) \<noteq> []"
  proof -
    obtain c t where c: "digits (nat n) = c # t" using digits_all by (cases "digits (nat n)") auto
    then have "c \<in> set (e @ row @ nl)" "\<not> is_space c"
      using digits_all [of "nat n"] is_digit_not [of c] unfolding row by simp_all
    then show ?thesis by (rule TrimSpace_nonempty)
  qed
  moreover have app: "appendBenchCSV F True path n label s fs = fs(path \<mapsto> e @ row @ nl)"
    using assms(1) by (simp add: appendBenchCSV_def Let_def d_def e_def row_def)
  ultimately have "nextRunIndex path (appendBenchCSV F True path n label s fs) = n + 1"
    using assms(1) by (simp add: nextRunIndex_def l)
  then show ?thesis by (simp add: app lines_end_def nl_def)
qed

definition plain_fmt :: bench_fmt where
  "plain_fmt = \<lparr>bf_float = (\<lambda>_. ''0.0''), bf_quote = (\<lambda>_. ''quoted''), bf_duration = (\<lambda>_. ''10s'')\<rparr>"

theorem csv_runs_are_numbered_witness:
  "nextRunIndex ''out.csv'' (appendBenchCSV plain_fmt True ''out.csv'' 41 ''Token'' zeroSample Map.empty) = 42"
  using csv_runs_are_numbered [of "''out.csv''" Map.empty 41 plain_fmt "''Token''" zeroSample]
  by (simp add: lines_end_def plain_fmt_def)

text \<open>Grouping only adds spaces: without them the number is what it was.\<close>

lemma formatInt_groups: "filter (\<lambda>c. c \<noteq> CHR '' '') (formatInt n) = itoa n"
proof -
  have "CHR '' '' \<notin> set (digits k)" for k
    using digits_all [of k] is_digit_not by (auto simp: list_all_iff)
  then have d: "CHR '' '' \<notin> set (itoa n)" by (simp add: itoa_def)
  have "filter (\<lambda>c. c \<noteq> CHR '' '') (concat (map (\<lambda>(i, c). if i > 0 \<and> P i then [CHR '' '', c] else [c])
      (enumerate k s))) = filter (\<lambda>c. c \<noteq> CHR '' '') s" for k s P
    by (induction s arbitrary: k) simp_all
  moreover have "filter (\<lambda>c. c \<noteq> CHR '' '') (itoa n) = itoa n"
    by (rule filter_True) (use d in blast)
  ultimately show ?thesis by (simp add: formatInt_def Let_def)
qed

end
