(* ===== verification/Bench.thy ===== *)
theory Bench
  imports Bench_Report "HOL-Library.Monad_Syntax"
begin

text \<open>
  \<^verbatim>\<open>cmd/testclient/helper.go\<close>, the calls, and \<^verbatim>\<open>cmd/testclient/bench.go\<close>, the workers: how the test
  client calls the Connect services, what one iteration of a benchmark worker does, pools of
  workers that run side by side, and the check of the ledger afterwards.
\<close>

section \<open>Calls\<close>

text \<open>
  The surroundings of one call: the signer with its clock, the channel behind the service, the
  schema validators, and what the PEM texts of a new account's keys decode to.  A channel may do
  what other clients do before the request is handled.
\<close>

record rpc_env =
  re_sign :: sign_env
  re_unix :: int64
  re_channel :: channel
  re_keys :: "string \<Rightarrow> Certificate \<Rightarrow> (error, byte list \<times> byte list \<times> string) outcome"
  re_v_CreateAccount :: "pb_AdminCreateAccount \<Rightarrow> error option"
  re_v_Mint :: "pb_AdminMint \<Rightarrow> error option"
  re_v_GetAccount :: "pb_GetAccount pb_request \<Rightarrow> error option"
  re_v_Transfer :: "pb_Transfer pb_request \<Rightarrow> error option"
  re_v_MintToken :: "pb_MintToken pb_request \<Rightarrow> error option"
  re_v_LookupToken :: "pb_LookupToken pb_request \<Rightarrow> error option"
  re_v_TransferToken :: "pb_TransferToken pb_request \<Rightarrow> error option"
  re_v_Authorize :: "pb_AuthorizeTokenTransfer pb_request \<Rightarrow> error option"
  re_v_Unauthorize :: "pb_UnauthorizeTokenTransfer pb_request \<Rightarrow> error option"
  re_v_BurnToken :: "pb_BurnToken pb_request \<Rightarrow> error option"
  re_v_ClawbackToken :: "pb_ClawbackToken pb_request \<Rightarrow> error option"
  re_v_Subscribe :: "pb_Subscribe pb_request \<Rightarrow> error option"

text \<open>The clients of \<^verbatim>\<open>newClients\<close>, one function per procedure that is called.\<close>

definition call_CreateAccount :: "rpc_env \<Rightarrow> float64 \<Rightarrow> App \<Rightarrow> (string \<times> Certificate) rpc_call" where
  "call_CreateAccount re bal =
     connect_AdminCreateAccount (re_v_CreateAccount re) (re_channel re) \<lparr>pbac_initial_balance = bal\<rparr>"

definition call_Mint :: "rpc_env \<Rightarrow> string \<Rightarrow> float64 \<Rightarrow> App \<Rightarrow> unit rpc_call" where
  "call_Mint re i amount =
     connect_AdminMint (re_v_Mint re) (re_channel re) \<lparr>pbam_account_id = i, pbam_amount = amount\<rparr>"

definition call_Transfer :: "rpc_env \<Rightarrow> pb_Transfer pb_request \<Rightarrow> App \<Rightarrow> unit rpc_call" where
  "call_Transfer re = connect_Transfer (re_v_Transfer re) (re_channel re)"

definition call_MintToken :: "rpc_env \<Rightarrow> pb_MintToken pb_request \<Rightarrow> App \<Rightarrow> unit rpc_call" where
  "call_MintToken re = connect_MintToken (re_v_MintToken re) (re_channel re)"

definition call_Authorize :: "rpc_env \<Rightarrow> pb_AuthorizeTokenTransfer pb_request \<Rightarrow> App \<Rightarrow> unit rpc_call" where
  "call_Authorize re = connect_AuthorizeTokenTransfer (re_v_Authorize re) (re_channel re)"

definition call_Unauthorize :: "rpc_env \<Rightarrow> pb_UnauthorizeTokenTransfer pb_request \<Rightarrow> App \<Rightarrow> unit rpc_call" where
  "call_Unauthorize re = connect_UnauthorizeTokenTransfer (re_v_Unauthorize re) (re_channel re)"

definition call_TransferToken :: "rpc_env \<Rightarrow> pb_TransferToken pb_request \<Rightarrow> App \<Rightarrow> unit rpc_call" where
  "call_TransferToken re = connect_TransferToken (re_v_TransferToken re) (re_channel re)"

definition call_BurnToken :: "rpc_env \<Rightarrow> pb_BurnToken pb_request \<Rightarrow> App \<Rightarrow> unit rpc_call" where
  "call_BurnToken re = connect_BurnToken (re_v_BurnToken re) (re_channel re)"

definition call_ClawbackToken :: "rpc_env \<Rightarrow> pb_ClawbackToken pb_request \<Rightarrow> App \<Rightarrow> unit rpc_call" where
  "call_ClawbackToken re = connect_ClawbackToken (re_v_ClawbackToken re) (re_channel re)"

definition call_LookupToken :: "rpc_env \<Rightarrow> pb_LookupToken pb_request \<Rightarrow> App \<Rightarrow> (pb_Token option) rpc_call" where
  "call_LookupToken re = connect_LookupToken (re_v_LookupToken re) (re_channel re)"

definition call_GetAccount :: "rpc_env \<Rightarrow> pb_GetAccount pb_request \<Rightarrow> App \<Rightarrow> (float64 \<times> float64 \<times> uint64) rpc_call" where
  "call_GetAccount re = connect_GetAccount (re_v_GetAccount re) (re_channel re)"

lemmas call_defs = call_CreateAccount_def call_Mint_def call_Transfer_def call_MintToken_def call_Authorize_def
  call_Unauthorize_def call_TransferToken_def call_BurnToken_def call_ClawbackToken_def call_LookupToken_def
  call_GetAccount_def

text \<open>
  What a caller makes of a failure: a text and the error behind it, unknown when the connection
  broke.
\<close>

type_synonym failure = "string \<times> error option"

definition createTestAccount :: "rpc_env \<Rightarrow> float64 \<Rightarrow> App \<Rightarrow> (failure, accountCreds, App) call" where
  "createTestAccount re initialBalance app =
     (case call_CreateAccount re initialBalance app of
        (Reply (i, cert), app', _) \<Rightarrow>
          (case re_keys re i cert of
             Ok (priv, pub, pem) \<Rightarrow>
               (Ok \<lparr>ac_id = i, ac_privKey = priv, ac_pubKey = pub, ac_certPEM = pem\<rparr>, app')
           | Err e \<Rightarrow> (Err (''decode: '', Some e), app')
           | Panic \<Rightarrow> (Panic, app'))
      | (ReplyFailure e, app', _) \<Rightarrow> (Err (''create account failed: '', Some e), app')
      | (Fault _ e, app', _) \<Rightarrow> (Err (''admin CreateAccount RPC: '', Some e), app')
      | (Died, app', _) \<Rightarrow> (Err (''admin CreateAccount RPC: '', None), app'))"

section \<open>Amounts\<close>

definition f_001 :: float64 where "f_001 = dy 1015 5764607523034235"
definition f_of :: "int \<Rightarrow> float64" where "f_of n = dy 1074 n"

section \<open>One worker\<close>

text \<open>
  The inputs of one iteration: the clock in the condition of the loop, whether the context has
  ended, the clock that decides what is measured, and for each call its surroundings and how long
  it took.
\<close>

record tick =
  tk_loop :: int
  tk_cancelled :: bool
  tk_now :: int
  tk_env1 :: rpc_env
  tk_env2 :: rpc_env
  tk_env3 :: rpc_env
  tk_lat1 :: duration
  tk_lat2 :: duration
  tk_lat3 :: duration

record worker =
  wk_nonce :: uint64
  wk_receiverNonce :: uint64
  wk_warmupEnd :: int
  wk_benchEnd :: int
  wk_running :: bool
  wk_res :: workerResult

type_synonym account_pair = "accountCreds \<times> accountCreds"

definition newWorker :: "duration \<Rightarrow> duration \<Rightarrow> int \<Rightarrow> worker" where
  "newWorker warmup dur now =
     \<lparr>wk_nonce = 0, wk_receiverNonce = 0, wk_warmupEnd = now + warmup, wk_benchEnd = now + warmup + dur,
      wk_running = True, wk_res = emptyResult\<rparr>"

text \<open>The loop's condition and the check of the context; a worker that has returned stays so.\<close>

definition loop_step :: "tick \<Rightarrow> (worker \<times> App \<Rightarrow> worker \<times> App) \<Rightarrow> worker \<times> App \<Rightarrow> worker \<times> App" where
  "loop_step t body = (\<lambda>(w, app).
     if \<not> wk_running w then (w, app)
     else if \<not> tk_loop t < wk_benchEnd w \<or> tk_cancelled t then (w\<lparr>wk_running := False\<rparr>, app)
     else body (w, app))"

definition runCurrencyWorker_body :: "account_pair \<Rightarrow> tick \<Rightarrow> worker \<times> App \<Rightarrow> worker \<times> App" where
  "runCurrencyWorker_body pair t = (\<lambda>(w, app).
     case signTransfer (re_sign (tk_env1 t)) (fst pair) (ac_id (snd pair)) f_001 (wk_nonce w) (re_unix (tk_env1 t)) of
       Ok req \<Rightarrow>
         (let measured = \<not> tk_now t < wk_warmupEnd w; lat = tk_lat1 t;
              res = recordTxAttempt measured (recordOpAttempt measured (wk_res w));
              w1 = w\<lparr>wk_nonce := wk_nonce w + 1\<rparr>
          in case call_Transfer (tk_env1 t) req app of
               (Reply _, app', _) \<Rightarrow>
                 (let res1 = recordTxSuccess measured lat res;
                      res2 = (if measured
                              then res1\<lparr>currencyTransfers := currencyTransfers res1 @ [(snd pair, f_001)]\<rparr>
                              else res1)
                  in (w1\<lparr>wk_res := recordOpSuccess measured lat res2\<rparr>, app'))
             | (_, app', _) \<Rightarrow>
                 (w1\<lparr>wk_res := recordOpFailure measured (recordTxFailure measured lat res)\<rparr>, app'))
     | _ \<Rightarrow> (w, app))"

definition currency_step :: "account_pair \<Rightarrow> tick \<Rightarrow> worker \<times> App \<Rightarrow> worker \<times> App" where
  "currency_step pair t = loop_step t (runCurrencyWorker_body pair t)"

text \<open>A token operation: mint, authorize by the receiver, transfer.\<close>

definition runTokenWorker_body :: "account_pair \<Rightarrow> tick \<Rightarrow> worker \<times> App \<Rightarrow> worker \<times> App" where
  "runTokenWorker_body pair t = (\<lambda>(w, app).
     let (sender, receiver) = pair;
         measured = \<not> tk_now t < wk_warmupEnd w;
         res = recordTxAttempt measured (recordOpAttempt measured (wk_res w));
         give_up = (\<lambda>w res lat. w\<lparr>wk_res := recordOpFailure measured (recordTxFailure measured lat res)\<rparr>)
     in case signMintToken (re_sign (tk_env1 t)) sender (''bench-'' @ itoa (sint (wk_nonce w))) [] (wk_nonce w) of
       Ok (mintReq, rawSig) \<Rightarrow>
       (case call_MintToken (tk_env1 t) mintReq app of
         (Reply _, app1, _) \<Rightarrow>
         (let w1 = w\<lparr>wk_nonce := wk_nonce w + 1\<rparr>;
              res1 = recordTxSuccess measured (tk_lat1 t) res;
              tokenID = tokenIDFromRawSig rawSig
          in case signAuthorizeTokenTransfer (re_sign (tk_env2 t)) receiver (ac_id sender) tokenID (wk_receiverNonce w1) of
            Ok authReq \<Rightarrow>
            (let res2 = recordTxAttempt measured res1
             in case call_Authorize (tk_env2 t) authReq app1 of
               (Reply _, app2, _) \<Rightarrow>
               (let w2 = w1\<lparr>wk_receiverNonce := wk_receiverNonce w1 + 1\<rparr>;
                    res3 = recordTxSuccess measured (tk_lat2 t) res2
                in case signTransferToken (re_sign (tk_env3 t)) sender (ac_id receiver) tokenID (wk_nonce w2) of
                  Ok xferReq \<Rightarrow>
                  (let res4 = recordTxAttempt measured res3
                   in case call_TransferToken (tk_env3 t) xferReq app2 of
                     (Reply _, app3, _) \<Rightarrow>
                     (let w3 = w2\<lparr>wk_nonce := wk_nonce w2 + 1\<rparr>;
                          res5 = recordTxSuccess measured (tk_lat3 t) res4;
                          res6 = (if measured
                                  then res5\<lparr>transfers := transfers res5 @ [(tokenID, receiver)]\<rparr> else res5)
                      in (w3\<lparr>wk_res := recordOpSuccess measured (tk_lat1 t + tk_lat2 t + tk_lat3 t) res6\<rparr>, app3))
                   | (_, app3, _) \<Rightarrow> (give_up w2 res4 (tk_lat3 t), app3))
                | _ \<Rightarrow> (w2\<lparr>wk_res := recordOpFailure measured res3\<rparr>, app2))
             | (_, app2, _) \<Rightarrow> (give_up w1 res2 (tk_lat2 t), app2))
          | _ \<Rightarrow> (w1\<lparr>wk_res := recordOpFailure measured res1\<rparr>, app1))
       | (_, app1, _) \<Rightarrow> (give_up w res (tk_lat1 t), app1))
     | _ \<Rightarrow> (w\<lparr>wk_res := res\<rparr>, app))"

definition token_step :: "account_pair \<Rightarrow> tick \<Rightarrow> worker \<times> App \<Rightarrow> worker \<times> App" where
  "token_step pair t = loop_step t (runTokenWorker_body pair t)"

end
