(* ===== verification/Endpoints.thy ===== *)
theory Endpoints
  imports Bench Subscriptions
begin

text \<open>
  \<^verbatim>\<open>cmd/testclient/helper.go\<close>, the subscriptions of the test client, and \<^verbatim>\<open>cmd/testclient/endpoints.go\<close>:
  the suite that calls every endpoint in turn and reports what passed.
\<close>

section \<open>Subscriptions of the client\<close>

text \<open>What the event service of the server works with; the verifier reads the keys in the App.\<close>

record transport =
  tp_sha1 :: "byte list \<Rightarrow> ScalegraphId"
  tp_marshal :: marshaller
  tp_verify :: "App \<Rightarrow> verify_method"
  tp_ca :: "byte list"
  tp_broker :: "error option"
  tp_unmarshal :: "byte list \<Rightarrow> Event option"
  tp_vapp :: ScalegraphId

text \<open>
  The stream is open once its first, empty message has arrived; the code of an error is that of the
  protocol, unknown when the request was not signed.
\<close>

definition openSubscription ::
    "transport \<Rightarrow> rpc_env \<Rightarrow> accountCreds \<Rightarrow> EventType list \<Rightarrow> App \<Rightarrow> subscriptions \<Rightarrow>
     (rpc_code option \<times> failure, unit, subscriptions) call" where
  "openSubscription tr re acc eventTypes app subs =
     (case signSubscribe (re_sign re) acc eventTypes of
        Ok req \<Rightarrow>
          (case subscribe_open (re_v_Subscribe re) (tp_sha1 tr) (tp_marshal tr) (tp_verify tr app) (tp_ca tr)
                  (tp_broker tr) req subs of
             (Ok _, subs') \<Rightarrow> (Ok (), subs')
           | (Err (code, e), subs') \<Rightarrow> (Err (Some code, [], Some e), subs')
           | (Panic, subs') \<Rightarrow> (Err (None, [], None), subs'))
      | Err e \<Rightarrow> (Err (None, ''sign subscribe: '', Some e), subs)
      | Panic \<Rightarrow> (Panic, subs))"

text \<open>What is published goes to every open stream.\<close>

definition deliver :: "transport \<Rightarrow> published list \<Rightarrow> subscriptions \<Rightarrow> subscriptions" where
  "deliver tr msgs subs =
     subs\<lparr>streams := map (stream_messages (tp_unmarshal tr) (tp_vapp tr) msgs) (streams subs)\<rparr>"

definition position_of :: "string \<Rightarrow> subscription list \<Rightarrow> nat" where
  "position_of i sts = length (takeWhile (\<lambda>st. sub_id st \<noteq> i) sts)"

definition sent_to :: "string \<Rightarrow> subscriptions \<Rightarrow> Event list" where
  "sent_to i subs =
     (if position_of i (streams subs) < length (streams subs)
      then sub_events (streams subs ! position_of i (streams subs)) else [])"

definition close_stream :: "string \<Rightarrow> subscriptions \<Rightarrow> subscriptions" where
  "close_stream i subs = stream_end (position_of i (streams subs)) subs"

text \<open>Events are read until one matches, the stream ends or the time is up.\<close>

datatype wait_end = ChannelClosed | DeadlinePassed

fun waitForEvent :: "(Event \<Rightarrow> bool) \<Rightarrow> wait_end \<Rightarrow> Event list \<Rightarrow> (failure, Event) outcome" where
  "waitForEvent match ChannelClosed [] = Err (''subscription channel closed before matching event'', None)"
| "waitForEvent match DeadlinePassed [] = Err (''timed out waiting for event after '', None)"
| "waitForEvent match ending (ev # evs) = (if match ev then Ok ev else waitForEvent match ending evs)"

definition is_mint_of :: "string \<Rightarrow> Event \<Rightarrow> bool" where
  "is_mint_of tokenID e = (case ev_Data e of Event_MintToken _ tok _ _ \<Rightarrow> tok = tokenID | _ \<Rightarrow> False)"

section \<open>The state of the suite\<close>

record endpointResult =
  er_name :: string
  er_passed :: bool
  er_message :: "failure option"
  er_elapsed :: duration

record suite =
  su_results :: "endpointResult list"
  acc0Nonce :: uint64
  acc1Nonce :: uint64
  mintedTokenID :: string
  su_subs :: subscriptions
  su_app :: App

text \<open>
  What the suite meets: the surroundings of its calls and the time each test took, how many events
  have arrived when the wait for the mint event ends and how it ends, and whether the server has
  noticed that the first stream was cancelled when the last test begins.
\<close>

record suite_env =
  en_rpc :: "nat \<Rightarrow> rpc_env"
  en_elapsed :: "nat \<Rightarrow> duration"
  en_transport :: transport
  en_arrived :: nat
  en_wait_end :: wait_end
  en_released :: bool

definition report_result :: "string \<Rightarrow> duration \<Rightarrow> failure option \<Rightarrow> suite \<Rightarrow> suite" where
  "report_result name elapsed err s =
     s\<lparr>su_results := su_results s @
        [\<lparr>er_name = name, er_passed = (err = None), er_message = err, er_elapsed = elapsed\<rparr>]\<rparr>"

text \<open>A reply, with the words put before an error of the call and before one of the server.\<close>

fun verdict :: "string \<Rightarrow> string \<Rightarrow> 'r rpc \<Rightarrow> failure option" where
  "verdict rpc_words server_words (Reply _) = None"
| "verdict rpc_words server_words (ReplyFailure e) = Some (server_words, Some e)"
| "verdict rpc_words server_words (Fault _ e) = Some (rpc_words, Some e)"
| "verdict rpc_words server_words Died = Some (rpc_words, None)"

text \<open>After a call the App has changed and what was announced is on the streams.\<close>

definition after_call :: "suite_env \<Rightarrow> 'r rpc_call \<Rightarrow> suite \<Rightarrow> suite" where
  "after_call env c s =
     (case c of (_, app', msgs) \<Rightarrow>
        s\<lparr>su_app := app', su_subs := deliver (en_transport env) msgs (su_subs s)\<rparr>)"

text \<open>A test goes on with the message it has signed, or ends with the failure of signing it.\<close>

definition signing :: "string \<Rightarrow> (error, 'q) outcome \<Rightarrow> (failure \<Rightarrow> 's) \<Rightarrow> ('q \<Rightarrow> 's) \<Rightarrow> 's" where
  "signing words o_req give_up go_on =
     (case o_req of Ok req \<Rightarrow> go_on req | Err e \<Rightarrow> give_up (words, Some e) | Panic \<Rightarrow> give_up (words, None))"

section \<open>The tests\<close>

definition test_AdminMint :: "suite_env \<Rightarrow> accountCreds \<Rightarrow> suite \<Rightarrow> suite" where
  "test_AdminMint env acc0 s =
     (let c = call_Mint (en_rpc env 2) (ac_id acc0) (f_of 10) (su_app s) in
      report_result ''AdminService/Mint'' (en_elapsed env 2) (verdict [] [] (fst c)) (after_call env c s))"

definition test_Transfer :: "suite_env \<Rightarrow> accountCreds \<Rightarrow> accountCreds \<Rightarrow> suite \<Rightarrow> suite" where
  "test_Transfer env acc0 acc1 s =
     (let done = report_result ''CurrencyService/Transfer'' (en_elapsed env 3); re = en_rpc env 3 in
      signing ''sign: '' (signTransfer (re_sign re) acc0 (ac_id acc1) f_001 0 (re_unix re))
        (\<lambda>e. done (Some e) s)
        (\<lambda>req. let c = call_Transfer re req (su_app s) in
           done (verdict [] ''server error: '' (fst c)) (after_call env c s)))"

definition test_MintToken :: "suite_env \<Rightarrow> accountCreds \<Rightarrow> suite \<Rightarrow> suite" where
  "test_MintToken env acc0 s =
     (let done = report_result ''TokenService/MintToken + EventService/Subscribe (MINT_TOKEN event)'' (en_elapsed env 4);
          cancelSub = (\<lambda>s. if en_released env then s\<lparr>su_subs := close_stream (ac_id acc0) (su_subs s)\<rparr> else s)
      in case openSubscription (en_transport env) (en_rpc env 4) acc0 [EVENT_TYPE_MINT_TOKEN] (su_app s) (su_subs s) of
           (Ok _, subs) \<Rightarrow>
             (let s1 = s\<lparr>su_subs := subs, acc0Nonce := acc0Nonce s + 1\<rparr> in
              signing ''sign mint: '' (signMintToken (re_sign (en_rpc env 5)) acc0 ''test-token-v1'' [] (acc0Nonce s))
                (\<lambda>e. done (Some e) (cancelSub s1))
                (\<lambda>(req, rawSig).
                   (let expectedTokenID = tokenIDFromRawSig rawSig;
                        c = call_MintToken (en_rpc env 5) req (su_app s1);
                        s2 = after_call env c (s1\<lparr>mintedTokenID := expectedTokenID\<rparr>)
                    in case verdict [] ''server error: '' (fst c) of
                         Some e \<Rightarrow> done (Some e) (cancelSub s2)
                       | None \<Rightarrow>
                         (case waitForEvent (is_mint_of expectedTokenID) (en_wait_end env)
                                (take (en_arrived env) (sent_to (ac_id acc0) (su_subs s2))) of
                            Ok _ \<Rightarrow> done None (cancelSub s2)
                          | Err e \<Rightarrow> done (Some (''event not received: '' @ fst e, snd e)) (cancelSub s2)
                          | Panic \<Rightarrow> s2))))
         | (Err (_, e), subs) \<Rightarrow> done (Some (''open subscription: '' @ fst e, snd e)) (s\<lparr>su_subs := subs\<rparr>)
         | (Panic, subs) \<Rightarrow> done (Some (''open subscription: '', None)) (s\<lparr>su_subs := subs\<rparr>))"

text \<open>The receiver authorizes, the sender transfers; both only when there is a token.\<close>

definition test_Authorize :: "suite_env \<Rightarrow> accountCreds \<Rightarrow> accountCreds \<Rightarrow> suite \<Rightarrow> suite" where
  "test_Authorize env acc0 acc1 s =
     (let done = report_result ''TokenService/AuthorizeTokenTransfer'' (en_elapsed env 6); re = en_rpc env 6 in
      signing ''sign: '' (signAuthorizeTokenTransfer (re_sign re) acc1 (ac_id acc0) (mintedTokenID s) (acc1Nonce s))
        (\<lambda>e. done (Some e) s)
        (\<lambda>req. let c = call_Authorize re req (su_app s); v = verdict [] ''server error: '' (fst c);
             s1 = after_call env c s
           in done v (if v = None then s1\<lparr>acc1Nonce := acc1Nonce s1 + 1\<rparr> else s1)))"

definition test_TransferToken :: "suite_env \<Rightarrow> accountCreds \<Rightarrow> accountCreds \<Rightarrow> suite \<Rightarrow> suite" where
  "test_TransferToken env acc0 acc1 s =
     (let done = report_result ''TokenService/TransferToken'' (en_elapsed env 7); re = en_rpc env 7 in
      signing ''sign: '' (signTransferToken (re_sign re) acc0 (ac_id acc1) (mintedTokenID s) (acc0Nonce s))
        (\<lambda>e. done (Some e) s)
        (\<lambda>req. let c = call_TransferToken re req (su_app s); v = verdict [] ''server error: '' (fst c);
             s1 = after_call env c s
           in done v (if v = None then s1\<lparr>acc0Nonce := acc0Nonce s1 + 1\<rparr> else s1)))"

text \<open>Three tests mint a token of their own first; the nonce counts up whether it works or not.\<close>

definition mint_for ::
    "suite_env \<Rightarrow> nat \<Rightarrow> string \<Rightarrow> string \<Rightarrow> string \<Rightarrow> accountCreds \<Rightarrow> (failure \<Rightarrow> suite \<Rightarrow> suite) \<Rightarrow>
     (string \<Rightarrow> suite \<Rightarrow> suite) \<Rightarrow> suite \<Rightarrow> suite" where
  "mint_for env k words tokenValue claw acc0 give_up go_on s =
     (let re = en_rpc env k; s1 = s\<lparr>acc0Nonce := acc0Nonce s + 1\<rparr> in
      signing words (signMintToken (re_sign re) acc0 tokenValue claw (acc0Nonce s))
        (\<lambda>e. give_up e s1)
        (\<lambda>(req, rawSig).
           let c = call_MintToken re req (su_app s1); s2 = after_call env c s1
           in case verdict ''mint rpc: '' ''mint server error: '' (fst c) of
                Some e \<Rightarrow> give_up e s2
              | None \<Rightarrow> go_on (tokenIDFromRawSig rawSig) s2))"

definition test_Unauthorize :: "suite_env \<Rightarrow> accountCreds \<Rightarrow> accountCreds \<Rightarrow> suite \<Rightarrow> suite" where
  "test_Unauthorize env acc0 acc1 s =
     (let done = report_result ''TokenService/UnauthorizeTokenTransfer'' (en_elapsed env 8) in
      mint_for env 8 ''mint for unauth: '' ''test-token-unauth'' [] acc0 (\<lambda>e. done (Some e))
        (\<lambda>unauthTokenID s1.
           let re = en_rpc env 9 in
           signing ''sign authorize: ''
             (signAuthorizeTokenTransfer (re_sign re) acc1 (ac_id acc0) unauthTokenID (acc1Nonce s1))
             (\<lambda>e. done (Some e) s1)
             (\<lambda>authReq.
                let c = call_Authorize re authReq (su_app s1); s2 = after_call env c s1
                in case verdict ''authorize rpc: '' ''authorize server error: '' (fst c) of
                     Some e \<Rightarrow> done (Some e) s2
                   | None \<Rightarrow>
                     (let s3 = s2\<lparr>acc1Nonce := acc1Nonce s2 + 1\<rparr>; re = en_rpc env 10 in
                      signing ''sign: ''
                        (signUnauthorizeTokenTransfer (re_sign re) acc1 (ac_id acc0) unauthTokenID (acc1Nonce s3))
                        (\<lambda>e. done (Some e) s3)
                        (\<lambda>req. let c = call_Unauthorize re req (su_app s3); v = verdict [] ''server error: '' (fst c);
                             s4 = after_call env c s3
                           in done v (if v = None then s4\<lparr>acc1Nonce := acc1Nonce s4 + 1\<rparr> else s4))))) s)"

definition test_Burn :: "suite_env \<Rightarrow> accountCreds \<Rightarrow> suite \<Rightarrow> suite" where
  "test_Burn env acc0 s =
     (let done = report_result ''TokenService/BurnToken'' (en_elapsed env 11) in
      mint_for env 11 ''mint for burn: '' ''test-token-burn'' [] acc0 (\<lambda>e. done (Some e))
        (\<lambda>burnTokenID s1.
           let re = en_rpc env 12 in
           signing ''sign: '' (signBurnToken (re_sign re) acc0 burnTokenID (acc0Nonce s1))
             (\<lambda>e. done (Some e) s1)
             (\<lambda>req. let c = call_BurnToken re req (su_app s1); v = verdict [] ''server error: '' (fst c);
                  s2 = after_call env c s1
                in done v (if v = None then s2\<lparr>acc0Nonce := acc0Nonce s2 + 1\<rparr> else s2))) s)"

definition test_Clawback :: "suite_env \<Rightarrow> accountCreds \<Rightarrow> accountCreds \<Rightarrow> suite \<Rightarrow> suite" where
  "test_Clawback env acc0 acc1 s =
     (let done = report_result ''TokenService/ClawbackToken'' (en_elapsed env 13) in
      mint_for env 13 ''mint for clawback: '' ''test-token-clawback'' (ac_id acc1) acc0 (\<lambda>e. done (Some e))
        (\<lambda>cbTokenID s1.
           let re = en_rpc env 14 in
           signing ''sign: '' (signClawbackToken (re_sign re) acc1 (ac_id acc0) cbTokenID (acc1Nonce s1))
             (\<lambda>e. done (Some e) s1)
             (\<lambda>req. let c = call_ClawbackToken re req (su_app s1); v = verdict [] ''server error: '' (fst c);
                  s2 = after_call env c s1
                in done v (if v = None then s2\<lparr>acc1Nonce := acc1Nonce s2 + 1\<rparr> else s2))) s)"

definition lookup_verdict :: "string \<Rightarrow> (pb_Token option) rpc \<Rightarrow> failure option" where
  "lookup_verdict tokenID reply =
     (case reply of
        Reply None \<Rightarrow> Some (''expected token in response, got nil'', None)
      | Reply (Some tok) \<Rightarrow>
          (if pbtok_token_id tok \<noteq> tokenID
           then Some (''token ID mismatch: got '' @ pbtok_token_id tok @ '', want '' @ tokenID, None) else None)
      | _ \<Rightarrow> verdict [] ''server error: '' reply)"

definition test_Lookup :: "suite_env \<Rightarrow> accountCreds \<Rightarrow> suite \<Rightarrow> suite" where
  "test_Lookup env acc1 s =
     (let done = report_result ''TokenService/LookupToken'' (en_elapsed env 15); re = en_rpc env 15 in
      signing ''sign: '' (signLookupToken (re_sign re) acc1 (mintedTokenID s))
        (\<lambda>e. done (Some e) s)
        (\<lambda>req. let c = call_LookupToken re req (su_app s) in
           done (lookup_verdict (mintedTokenID s) (fst c)) (after_call env c s)))"

definition duplicate_name :: string where
  "duplicate_name = ''EventService/Subscribe (duplicate '' @ [CHR 0xE2, CHR 0x86, CHR 0x92] @ '' AlreadyExists)''"

definition test_Duplicate :: "suite_env \<Rightarrow> accountCreds \<Rightarrow> suite \<Rightarrow> suite" where
  "test_Duplicate env acc0 s =
     (let done = report_result duplicate_name (en_elapsed env 16);
          tr = en_transport env
      in case openSubscription tr (en_rpc env 16) acc0 [] (su_app s) (su_subs s) of
           (Ok _, subs1) \<Rightarrow>
             (case openSubscription tr (en_rpc env 17) acc0 [] (su_app s) subs1 of
                (Ok _, subs2) \<Rightarrow>
                  done (Some (''expected AlreadyExists error, but second subscription succeeded'', None))
                    (s\<lparr>su_subs := subs2\<rparr>)
              | (Err (code, e), subs2) \<Rightarrow>
                  done (if code = Some CodeAlreadyExists then None
                        else Some (''expected AlreadyExists, got: '' @ fst e, snd e)) (s\<lparr>su_subs := subs2\<rparr>)
              | (Panic, subs2) \<Rightarrow> done (Some (''expected AlreadyExists, got: '', None)) (s\<lparr>su_subs := subs2\<rparr>))
         | (Err (_, e), subs1) \<Rightarrow> done (Some (''first subscription failed: '' @ fst e, snd e)) (s\<lparr>su_subs := subs1\<rparr>)
         | (Panic, subs1) \<Rightarrow> done (Some (''first subscription failed: '', None)) (s\<lparr>su_subs := subs1\<rparr>))"

section \<open>The suite\<close>

definition when_minted :: "(suite \<Rightarrow> suite) \<Rightarrow> suite \<Rightarrow> suite" where
  "when_minted test s = (if mintedTokenID s \<noteq> [] then test s else s)"

definition endpoint_tests :: "suite_env \<Rightarrow> accountCreds \<Rightarrow> accountCreds \<Rightarrow> suite \<Rightarrow> suite" where
  "endpoint_tests env acc0 acc1 s =
     test_Duplicate env acc0
       (when_minted (test_Lookup env acc1)
         (test_Clawback env acc0 acc1
           (test_Burn env acc0
             (test_Unauthorize env acc0 acc1
               (when_minted (\<lambda>s. test_TransferToken env acc0 acc1 (test_Authorize env acc0 acc1 s))
                 (test_MintToken env acc0
                   ((test_Transfer env acc0 acc1 (test_AdminMint env acc0 s))\<lparr>acc0Nonce := 1, acc1Nonce := 0\<rparr>)))))))"

definition RunEndpointTests :: "suite_env \<Rightarrow> subscriptions \<Rightarrow> App \<Rightarrow> suite" where
  "RunEndpointTests env subs app =
     (let s0 = \<lparr>su_results = [], acc0Nonce = 0, acc1Nonce = 0, mintedTokenID = [], su_subs = subs, su_app = app\<rparr>;
          created = (\<lambda>name r app'. report_result name 0 (case r of Ok _ \<Rightarrow> None | Err e \<Rightarrow> Some e | Panic \<Rightarrow> Some ([], None))
            \<circ> su_app_update (\<lambda>_. app'))
      in case createTestAccount (en_rpc env 0) (f_of 100) app of
           (r0, app1) \<Rightarrow>
           (let s1 = created ''AdminService/CreateAccount (acc0)'' r0 app1 s0 in
            case r0 of
              Ok acc0 \<Rightarrow>
              (case createTestAccount (en_rpc env 1) (f_of 100) app1 of
                 (r1, app2) \<Rightarrow>
                 (let s2 = created ''AdminService/CreateAccount (acc1)'' r1 app2 s1 in
                  case r1 of Ok acc1 \<Rightarrow> endpoint_tests env acc0 acc1 s2 | _ \<Rightarrow> s2))
            | _ \<Rightarrow> s1))"

text \<open>\<^verbatim>\<open>cmd/testclient/main.go\<close>: the exit code of the suite.\<close>

definition runEndpoints :: "suite_env \<Rightarrow> subscriptions \<Rightarrow> App \<Rightarrow> int \<times> endpointResult list" where
  "runEndpoints env subs app =
     (let results = su_results (RunEndpointTests env subs app);
          failed = length (filter (\<lambda>r. \<not> er_passed r) results)
      in (if 0 < failed then 1 else 0, results))"

end
