(* ===== verification/Bench_Pool.thy ===== *)
theory Bench_Pool
  imports Bench
begin

text \<open>
  \<^verbatim>\<open>cmd/testclient/bench.go\<close>, the benchmarks: the accounts they set up, the pools of workers, the
  check of the ledger when the workers have returned, and the runs with their reports.
\<close>

section \<open>Accounts\<close>

text \<open>
  The surroundings of the calls of a setup are numbered by the pair and the call; an error says
  which pair it was.
\<close>

fun in_setup :: "string \<Rightarrow> (failure, 'a, App) call \<Rightarrow> (failure, 'a, App) call" where
  "in_setup words (Err e, app) = (Err (words @ fst e, snd e), app)"
| "in_setup words c = c"

lemma in_setup_Ok [simp]: "in_setup words c = (Ok x, app') \<longleftrightarrow> c = (Ok x, app')"
  by (cases "(words, c)" rule: in_setup.cases) auto

fun setupCurrencyAccounts ::
    "(nat \<Rightarrow> nat \<Rightarrow> rpc_env) \<Rightarrow> nat \<Rightarrow> nat \<Rightarrow> App \<Rightarrow> (failure, account_pair list, App) call" where
  "setupCurrencyAccounts re i 0 app = (Ok [], app)"
| "setupCurrencyAccounts re i (Suc n) app =
     (let pair = ''setup currency pair '' @ itoa (int i) in
      sbind (in_setup (pair @ '' sender: '') (createTestAccount (re i 0) (f_of 1000000) app)) (\<lambda>sender app1.
      sbind (in_setup (pair @ '' receiver: '') (createTestAccount (re i 1) f0 app1)) (\<lambda>receiver app2.
      sbind (setupCurrencyAccounts re (Suc i) n app2) (\<lambda>pairs app3.
        (Ok ((sender, receiver) # pairs), app3)))))"

text \<open>The mint looks at the error of the call only, not at the reply.\<close>

definition mint_into :: "rpc_env \<Rightarrow> accountCreds \<Rightarrow> App \<Rightarrow> (failure, unit, App) call" where
  "mint_into re acc app =
     (case call_Mint re (ac_id acc) (f_of 100) app of
        (Fault _ e, app', _) \<Rightarrow> (Err ([], Some e), app')
      | (Died, app', _) \<Rightarrow> (Err ([], None), app')
      | (_, app', _) \<Rightarrow> (Ok (), app'))"

fun setupTokenAccounts ::
    "(nat \<Rightarrow> nat \<Rightarrow> rpc_env) \<Rightarrow> nat \<Rightarrow> nat \<Rightarrow> App \<Rightarrow> (failure, account_pair list, App) call" where
  "setupTokenAccounts re i 0 app = (Ok [], app)"
| "setupTokenAccounts re i (Suc n) app =
     (let pair = ''setup token pair '' @ itoa (int i) in
      sbind (in_setup (pair @ '' sender: '') (createTestAccount (re i 0) (f_of 1000000) app)) (\<lambda>sender app1.
      sbind (in_setup (pair @ '' receiver: '') (createTestAccount (re i 1) (f_of 1000000) app1)) (\<lambda>receiver app2.
      sbind (in_setup (pair @ '' sender mint: '') (mint_into (re i 2) sender app2)) (\<lambda>_ app3.
      sbind (in_setup (pair @ '' receiver mint: '') (mint_into (re i 3) receiver app3)) (\<lambda>_ app4.
      sbind (setupTokenAccounts re (Suc i) n app4) (\<lambda>pairs app5.
        (Ok ((sender, receiver) # pairs), app5)))))))"

section \<open>Pools\<close>

record benchConfig =
  bc_workload :: string
  bc_workers :: nat
  bc_duration :: duration
  bc_warmup :: duration
  bc_iterations :: nat
  bc_export :: string

text \<open>
  The goroutines of a pool: a schedule says which worker makes its next iteration with which
  inputs.  What happens inside an iteration at the same time is part of the channels of its calls.
\<close>

type_synonym schedule = "(nat \<times> tick) list"

definition pool_step ::
    "(account_pair \<Rightarrow> tick \<Rightarrow> worker \<times> App \<Rightarrow> worker \<times> App) \<Rightarrow> account_pair list \<Rightarrow> nat \<times> tick \<Rightarrow>
     worker list \<times> App \<Rightarrow> worker list \<times> App" where
  "pool_step step pairs = (\<lambda>(i, t) (ws, app).
     if i < length ws
     then (case step (pairs ! i) t (ws ! i, app) of (w, app') \<Rightarrow> (ws[i := w], app'))
     else (ws, app))"

definition run_pool ::
    "(account_pair \<Rightarrow> tick \<Rightarrow> worker \<times> App \<Rightarrow> worker \<times> App) \<Rightarrow> benchConfig \<Rightarrow> (nat \<Rightarrow> int) \<Rightarrow>
     account_pair list \<Rightarrow> schedule \<Rightarrow> App \<Rightarrow> workerResult \<times> App" where
  "run_pool step cfg start pairs sched app =
     (let ws0 = map (\<lambda>i. newWorker (bc_warmup cfg) (bc_duration cfg) (start i)) [0..<length pairs] in
      case fold (pool_step step pairs) sched (ws0, app) of
        (ws, app') \<Rightarrow> (merge_all (map wk_res ws), app'))"

text \<open>What a pool meets: its setup calls, when its workers start, and its schedule.\<close>

record pool_env =
  pe_setup :: "nat \<Rightarrow> nat \<Rightarrow> rpc_env"
  pe_start :: "nat \<Rightarrow> int"
  pe_schedule :: schedule

definition runWorkerPool ::
    "benchConfig \<Rightarrow> pool_env \<Rightarrow> string \<Rightarrow> nat \<Rightarrow> App \<Rightarrow> workerResult \<times> App" where
  "runWorkerPool cfg pe workload numWorkers app =
     (if workload = ''currency''
      then (case setupCurrencyAccounts (pe_setup pe) 0 numWorkers app of
              (Ok pairs, app1) \<Rightarrow> run_pool currency_step cfg (pe_start pe) pairs (pe_schedule pe) app1
            | (_, app1) \<Rightarrow> (emptyResult, app1))
      else if workload = ''token''
      then (case setupTokenAccounts (pe_setup pe) 0 numWorkers app of
              (Ok pairs, app1) \<Rightarrow> run_pool token_step cfg (pe_start pe) pairs (pe_schedule pe) app1
            | (_, app1) \<Rightarrow> (emptyResult, app1))
      else (emptyResult, app))"

text \<open>Both kinds of worker side by side; \<open>Inl\<close> schedules a currency worker, \<open>Inr\<close> a token worker.\<close>

definition mixed_step ::
    "account_pair list \<Rightarrow> account_pair list \<Rightarrow> (nat \<times> tick) + (nat \<times> tick) \<Rightarrow>
     (worker list \<times> worker list) \<times> App \<Rightarrow> (worker list \<times> worker list) \<times> App" where
  "mixed_step cpairs tpairs choice = (\<lambda>((cs, ts), app).
     case choice of
       Inl x \<Rightarrow> (case pool_step currency_step cpairs x (cs, app) of (cs', app') \<Rightarrow> ((cs', ts), app'))
     | Inr x \<Rightarrow> (case pool_step token_step tpairs x (ts, app) of (ts', app') \<Rightarrow> ((cs, ts'), app')))"

record mixed_env =
  me_csetup :: "nat \<Rightarrow> nat \<Rightarrow> rpc_env"
  me_tsetup :: "nat \<Rightarrow> nat \<Rightarrow> rpc_env"
  me_start :: "nat \<Rightarrow> int"
  me_schedule :: "((nat \<times> tick) + (nat \<times> tick)) list"

definition runMixedWorkerPool ::
    "benchConfig \<Rightarrow> mixed_env \<Rightarrow> nat \<Rightarrow> nat \<Rightarrow> App \<Rightarrow> (workerResult \<times> workerResult) \<times> App" where
  "runMixedWorkerPool cfg me numCurrency numToken app =
     (case setupCurrencyAccounts (me_csetup me) 0 numCurrency app of
        (Ok cpairs, app1) \<Rightarrow>
        (case setupTokenAccounts (me_tsetup me) 0 numToken app1 of
           (Ok tpairs, app2) \<Rightarrow>
           (let ws = \<lambda>n k. map (\<lambda>i. newWorker (bc_warmup cfg) (bc_duration cfg) (me_start me (k + i))) [0..<n] in
            case fold (mixed_step cpairs tpairs) (me_schedule me)
                   ((ws (length cpairs) 0, ws (length tpairs) (length cpairs)), app2) of
              ((cs, ts), app') \<Rightarrow> ((merge_all (map wk_res cs), merge_all (map wk_res ts)), app'))
         | (_, app2) \<Rightarrow> ((emptyResult, emptyResult), app2))
      | (_, app1) \<Rightarrow> ((emptyResult, emptyResult), app1))"

section \<open>Checking the ledger\<close>

fun verifyTokenTransfers ::
    "(nat \<Rightarrow> rpc_env) \<Rightarrow> nat \<Rightarrow> tokenTransferRecord list \<Rightarrow> App \<Rightarrow> (int \<times> int) \<times> App" where
  "verifyTokenTransfers re k [] app = ((0, 0), app)"
| "verifyTokenTransfers re k ((tokenID, receiver) # recs) app =
     (let (ok, app1) =
        (case signLookupToken (re_sign (re k)) receiver tokenID of
           Ok req \<Rightarrow>
           (case call_LookupToken (re k) req app of
              (Reply tok, app', _) \<Rightarrow> (get_str pbtok_owner tok = ac_id receiver, app')
            | (ReplyFailure _, app', _) \<Rightarrow> ([] = ac_id receiver, app')
            | (_, app', _) \<Rightarrow> (False, app'))
         | _ \<Rightarrow> (False, app))
      in case verifyTokenTransfers re (Suc k) recs app1 of
           ((confirmed, failed), app2) \<Rightarrow>
             (if ok then (confirmed + 1, failed) else (confirmed, failed + 1), app2))"

definition countTransfers :: "currencyTransferRecord list \<Rightarrow> string \<Rightarrow> int" where
  "countTransfers recs receiverID = int (length (filter (\<lambda>r. ac_id (fst r) = receiverID) recs))"

text \<open>The amounts per receiver; the entry keeps the credentials it was made with.\<close>

fun add_entry :: "currencyTransferRecord \<Rightarrow> currencyTransferRecord list \<Rightarrow> currencyTransferRecord list" where
  "add_entry (receiver, amount) [] = [(receiver, amount)]"
| "add_entry (receiver, amount) ((creds, expected) # es) =
     (if ac_id creds = ac_id receiver then (creds, fadd expected amount) # es
      else (creds, expected) # add_entry (receiver, amount) es)"

definition byReceiver :: "currencyTransferRecord list \<Rightarrow> currencyTransferRecord list" where
  "byReceiver recs = fold add_entry recs []"

fun verify_entries ::
    "(nat \<Rightarrow> rpc_env) \<Rightarrow> nat \<Rightarrow> currencyTransferRecord list \<Rightarrow> currencyTransferRecord list \<Rightarrow> App \<Rightarrow>
     (int \<times> int) \<times> App" where
  "verify_entries re k recs [] app = ((0, 0), app)"
| "verify_entries re k recs ((creds, expected) # es) app =
     (let n = countTransfers recs (ac_id creds);
          (ok, app1) =
            (case signGetAccount (re_sign (re k)) creds of
               Ok req \<Rightarrow>
               (case call_GetAccount (re k) req app of
                  (Reply (bal, _, _), app', _) \<Rightarrow> (\<not> flt bal expected, app')
                | (_, app', _) \<Rightarrow> (False, app'))
             | _ \<Rightarrow> (False, app))
      in case verify_entries re (Suc k) recs es app1 of
           ((confirmed, failed), app2) \<Rightarrow>
             (if ok then (confirmed + n, failed) else (confirmed, failed + n), app2))"

text \<open>\<open>ord\<close> is the order in which Go lists the map.\<close>

definition verifyCurrencyTransfers ::
    "(nat \<Rightarrow> rpc_env) \<Rightarrow> (currencyTransferRecord list \<Rightarrow> currencyTransferRecord list) \<Rightarrow>
     currencyTransferRecord list \<Rightarrow> App \<Rightarrow> (int \<times> int) \<times> App" where
  "verifyCurrencyTransfers re ord recs app = verify_entries re 0 recs (ord (byReceiver recs)) app"

section \<open>Runs\<close>

text \<open>What a run has printed, the export files, and the ledger.\<close>

record bench_out =
  bo_lines :: "string list"
  bo_files :: csv_files
  bo_app :: App

text \<open>
  What a run meets: its pools in the order it starts them, the calls of the checks, whether the
  export file can be opened, and how numbers are printed.
\<close>

record bench_env =
  be_fmt :: bench_fmt
  be_opens :: bool
  be_pools :: "nat \<Rightarrow> pool_env"
  be_mixed :: "nat \<Rightarrow> mixed_env"
  be_checks :: "nat \<Rightarrow> nat \<Rightarrow> rpc_env"
  be_order :: "currencyTransferRecord list \<Rightarrow> currencyTransferRecord list"

definition report ::
    "bench_env \<Rightarrow> benchConfig \<Rightarrow> int \<Rightarrow> string \<Rightarrow> string \<Rightarrow> string \<Rightarrow> string \<Rightarrow> workerResult \<Rightarrow> bench_out \<Rightarrow> bench_out" where
  "report be cfg runIdx header label opDesc txDesc res out =
     out\<lparr>bo_lines := bo_lines out @
           printBenchResults (be_fmt be) (bc_duration cfg) header (int (bc_workers cfg)) opDesc txDesc res,
         bo_files := appendBenchCSV (be_fmt be) (be_opens be) (bc_export cfg) runIdx label
           (sampleFromResult (bc_duration cfg) res) (bo_files out)\<rparr>"

definition check_currency :: "bench_env \<Rightarrow> nat \<Rightarrow> workerResult \<Rightarrow> bench_out \<Rightarrow> bench_out" where
  "check_currency be k res out =
     (if currencyTransfers res = [] then out
      else (case verifyCurrencyTransfers (be_checks be k) (be_order be) (currencyTransfers res) (bo_app out) of
              ((confirmed, failed), app') \<Rightarrow>
                out\<lparr>bo_lines := bo_lines out @ printVerificationStats ''Currency'' confirmed failed, bo_app := app'\<rparr>))"

definition check_tokens :: "bench_env \<Rightarrow> nat \<Rightarrow> workerResult \<Rightarrow> bench_out \<Rightarrow> bench_out" where
  "check_tokens be k res out =
     (if transfers res = [] then out
      else (case verifyTokenTransfers (be_checks be k) 0 (transfers res) (bo_app out) of
              ((confirmed, failed), app') \<Rightarrow>
                out\<lparr>bo_lines := bo_lines out @ printVerificationStats ''Token'' confirmed failed, bo_app := app'\<rparr>))"

definition currency_phase :: "bench_env \<Rightarrow> benchConfig \<Rightarrow> int \<Rightarrow> nat \<Rightarrow> bench_out \<Rightarrow> bench_out" where
  "currency_phase be cfg runIdx k out =
     (case runWorkerPool cfg (be_pools be k) ''currency'' (bc_workers cfg) (bo_app out) of
        (res, app') \<Rightarrow>
          check_currency be k res
            (report be cfg runIdx ''currency'' ''Currency'' ''1 op = Transfer'' ''1 tx = Transfer RPC'' res
              (out\<lparr>bo_app := app'\<rparr>)))"

definition token_phase :: "bench_env \<Rightarrow> benchConfig \<Rightarrow> int \<Rightarrow> nat \<Rightarrow> bench_out \<Rightarrow> bench_out" where
  "token_phase be cfg runIdx k out =
     (case runWorkerPool cfg (be_pools be k) ''token'' (bc_workers cfg) (bo_app out) of
        (res, app') \<Rightarrow>
          check_tokens be k res
            (report be cfg runIdx ''token'' ''Token'' ''1 op = MintToken + AuthorizeTokenTransfer + TransferToken''
              ''1 tx = one token RPC (MintToken, AuthorizeTokenTransfer, or TransferToken)'' res
              (out\<lparr>bo_app := app'\<rparr>)))"

definition blank_line :: "bench_out \<Rightarrow> bench_out" where
  "blank_line out = out\<lparr>bo_lines := bo_lines out @ [[]]\<rparr>"

definition mixed_run :: "bench_env \<Rightarrow> benchConfig \<Rightarrow> nat \<Rightarrow> App \<Rightarrow> (workerResult \<times> workerResult) \<times> App" where
  "mixed_run be cfg k app =
     (let half = bc_workers cfg div 2 in
      runMixedWorkerPool cfg (be_mixed be k) half (bc_workers cfg - half) app)"

definition mixed_phase :: "bench_env \<Rightarrow> benchConfig \<Rightarrow> int \<Rightarrow> bench_out \<Rightarrow> bench_out" where
  "mixed_phase be cfg runIdx out =
     (case mixed_run be cfg 0 (bo_app out) of
        ((cRes, tRes), app') \<Rightarrow>
          check_tokens be 3 tRes (check_currency be 2 cRes
            (report be cfg runIdx ''mixed'' ''Mixed'' ''1 op = one currency op or one token op''
              ''1 tx = one underlying RPC from either workload''
              (mergeWorkerResult (mergeWorkerResult emptyResult cRes) tRes) (out\<lparr>bo_app := app'\<rparr>))))"

definition RunBenchmark :: "bench_env \<Rightarrow> benchConfig \<Rightarrow> bench_out \<Rightarrow> bench_out" where
  "RunBenchmark be cfg out =
     (let runIdx = nextRunIndex (bc_export cfg) (bo_files out) in
      if bc_workload cfg = ''currency'' then currency_phase be cfg runIdx 0 out
      else if bc_workload cfg = ''token'' then token_phase be cfg runIdx 0 out
      else if bc_workload cfg = ''mixed''
      then mixed_phase be cfg runIdx
             (blank_line (token_phase be cfg runIdx 1 (blank_line (currency_phase be cfg runIdx 0 out))))
      else out)"

text \<open>The iterations of an averaged run, of one kind of pool.\<close>

fun iterate_pool ::
    "bench_env \<Rightarrow> benchConfig \<Rightarrow> string \<Rightarrow> nat \<Rightarrow> nat \<Rightarrow> App \<Rightarrow> benchSample list \<times> App" where
  "iterate_pool be cfg workload k 0 app = ([], app)"
| "iterate_pool be cfg workload k (Suc n) app =
     (case runWorkerPool cfg (be_pools be k) workload (bc_workers cfg) app of
        (res, app1) \<Rightarrow>
        (case iterate_pool be cfg workload (Suc k) n app1 of
           (samples, app2) \<Rightarrow> (sampleFromResult (bc_duration cfg) res # samples, app2)))"

fun iterate_mixed ::
    "bench_env \<Rightarrow> benchConfig \<Rightarrow> nat \<Rightarrow> nat \<Rightarrow> App \<Rightarrow>
     (benchSample list \<times> benchSample list \<times> benchSample list) \<times> App" where
  "iterate_mixed be cfg k 0 app = (([], [], []), app)"
| "iterate_mixed be cfg k (Suc n) app =
     (case runWorkerPool cfg (be_pools be (2 * k)) ''currency'' (bc_workers cfg) app of
        (cRes, app1) \<Rightarrow>
        (case runWorkerPool cfg (be_pools be (2 * k + 1)) ''token'' (bc_workers cfg) app1 of
           (tRes, app2) \<Rightarrow>
           (case mixed_run be cfg k app2 of
              ((cMix, tMix), app3) \<Rightarrow>
              (case iterate_mixed be cfg (Suc k) n app3 of
                 ((cs, ts, ms), app4) \<Rightarrow>
                   (let sample = sampleFromResult (bc_duration cfg) in
                    ((sample cRes # cs, sample tRes # ts,
                      sample (mergeWorkerResult (mergeWorkerResult emptyResult cMix) tMix) # ms), app4))))))"

definition avg_report :: "bench_env \<Rightarrow> benchConfig \<Rightarrow> int \<Rightarrow> string \<Rightarrow> benchSample \<Rightarrow> bench_out \<Rightarrow> bench_out" where
  "avg_report be cfg runIdx label avg out =
     out\<lparr>bo_files := appendBenchCSV (be_fmt be) (be_opens be) (bc_export cfg) runIdx label avg (bo_files out)\<rparr>"

definition avg_lines :: "bench_env \<Rightarrow> string \<Rightarrow> benchSample \<Rightarrow> bench_out \<Rightarrow> bench_out" where
  "avg_lines be label avg out = out\<lparr>bo_lines := bo_lines out @ printAvgResults (be_fmt be) label avg\<rparr>"

text \<open>The line of each iteration, and the heading of the averages.\<close>

definition progress :: "nat \<Rightarrow> nat \<Rightarrow> string" where
  "progress n i = ''['' @ itoa (int i) @ ''/'' @ itoa (int n) @ ''] ''"

definition progress_lines :: "bench_fmt \<Rightarrow> nat \<Rightarrow> string \<Rightarrow> benchSample list \<Rightarrow> string list" where
  "progress_lines F n workload samples =
     map (\<lambda>(i, s). progress n i @ workload @ '': '' @ bf_float F (opSuccessRate s) @ '' ops/s, '' @
            bf_float F (txSuccessRate s) @ '' tx/s'') (enumerate 1 samples)"

definition mixed_progress_lines ::
    "bench_fmt \<Rightarrow> nat \<Rightarrow> benchSample list \<Rightarrow> benchSample list \<Rightarrow> benchSample list \<Rightarrow> string list" where
  "mixed_progress_lines F n cs ts ms =
     map (\<lambda>(i, c, t, m). progress n i @ ''currency: '' @ bf_float F (opSuccessRate c) @ '' ops/s | token: '' @
            bf_float F (opSuccessRate t) @ '' ops/s | mixed: '' @ bf_float F (opSuccessRate m) @ '' ops/s'')
       (enumerate 1 (zip cs (zip ts ms)))"

definition avg_heading :: "bench_env \<Rightarrow> benchConfig \<Rightarrow> string \<Rightarrow> string list" where
  "avg_heading be cfg workload =
     [[], ''=== Average Benchmark Results ('' @ itoa (int (bc_iterations cfg)) @ '' iterations, workload='' @ workload @
      '', workers='' @ itoa (int (bc_workers cfg)) @ '', duration='' @ bf_duration (be_fmt be) (bc_duration cfg) @
      '') ==='', []]"

definition print_all :: "string list \<Rightarrow> App \<Rightarrow> bench_out \<Rightarrow> bench_out" where
  "print_all lines app out = out\<lparr>bo_lines := bo_lines out @ lines, bo_app := app\<rparr>"

definition RunBenchmarkAvg :: "bench_env \<Rightarrow> benchConfig \<Rightarrow> bench_out \<Rightarrow> bench_out" where
  "RunBenchmarkAvg be cfg out =
     (let n = bc_iterations cfg; runIdx = nextRunIndex (bc_export cfg) (bo_files out); F = be_fmt be in
      if bc_workload cfg = ''currency''
      then (case iterate_pool be cfg ''currency'' 0 n (bo_app out) of
              (samples, app') \<Rightarrow>
              (let avg = avgSamples samples in
               avg_report be cfg runIdx ''Currency'' avg (avg_lines be ''Currency'' avg
                 (print_all (progress_lines F n ''currency'' samples @ avg_heading be cfg ''currency'') app' out))))
      else if bc_workload cfg = ''token''
      then (case iterate_pool be cfg ''token'' 0 n (bo_app out) of
              (samples, app') \<Rightarrow>
              (let avg = avgSamples samples in
               avg_report be cfg runIdx ''Token'' avg (avg_lines be ''Token'' avg
                 (print_all (progress_lines F n ''token'' samples @ avg_heading be cfg ''token'') app' out))))
      else if bc_workload cfg = ''mixed''
      then (case iterate_mixed be cfg 0 n (bo_app out) of
              ((cs, ts, ms), app') \<Rightarrow>
              (let c = avgSamples cs; t = avgSamples ts; m = avgSamples ms in
               avg_report be cfg runIdx ''Mixed'' m (avg_report be cfg runIdx ''Token'' t
                 (avg_report be cfg runIdx ''Currency'' c
                   (avg_lines be ''Mixed (parallel)'' m (blank_line (avg_lines be ''Token Baseline'' t (blank_line
                     (avg_lines be ''Currency Baseline'' c
                       (print_all (mixed_progress_lines F n cs ts ms @ avg_heading be cfg ''mixed'') app' out))))))))))
      else out)"

end
