(* ===== verification/Bench_Laws.thy ===== *)
theory Bench_Laws
  imports Bench_Pool "HOL-Library.Multiset"
begin

text \<open>
  What holds of a benchmark: its numbers add up, the check of the ledger accounts for every
  recorded transfer, the exported runs are numbered, and a currency worker that has been rejected
  once never succeeds again.
\<close>

section \<open>The numbers\<close>

text \<open>A worker's record adds up, and there are at most three calls to an operation.\<close>

definition tally_ok :: "workerResult \<Rightarrow> bool" where
  "tally_ok r \<longleftrightarrow> adds_up r \<and> opAttempted r \<le> txAttempted r \<and> txAttempted r \<le> 3 * opAttempted r \<and>
     opSucceeded r \<le> txSucceeded r"

lemma tally_empty: "tally_ok emptyResult"
  by (simp add: tally_ok_def adds_up_empty) (simp add: emptyResult_def)

lemma tally_merge: "tally_ok a \<Longrightarrow> tally_ok b \<Longrightarrow> tally_ok (mergeWorkerResult a b)"
  unfolding tally_ok_def using adds_up_merge by (auto simp: mergeWorkerResult_def)

lemma tally_fold:
  "tally_ok a \<Longrightarrow> \<forall>r \<in> set rs. tally_ok r \<Longrightarrow> tally_ok (fold (\<lambda>r tot. mergeWorkerResult tot r) rs a)"
  by (induction rs arbitrary: a) (simp_all add: tally_merge)

lemma tally_merge_all: "\<forall>r \<in> set rs. tally_ok r \<Longrightarrow> tally_ok (merge_all rs)"
  by (simp add: merge_all_def tally_fold tally_empty)

lemmas tally_defs = tally_ok_def adds_up_def record_defs

definition keeps_tally :: "(worker \<times> App \<Rightarrow> worker \<times> App) \<Rightarrow> bool" where
  "keeps_tally f \<longleftrightarrow> (\<forall>w app. tally_ok (wk_res w) \<longrightarrow> tally_ok (wk_res (fst (f (w, app)))))"

lemma currency_body_tally: "keeps_tally (runCurrencyWorker_body pair t)"
  unfolding keeps_tally_def
  by (auto simp: runCurrencyWorker_body_def Let_def tally_defs split: outcome.splits rpc.splits prod.splits)

text \<open>Signing fails only for a key of the wrong size.\<close>

lemma signMintToken_Ok: "length (ac_privKey acc) = 64 \<Longrightarrow> \<exists>req raw. signMintToken se acc v c n = Ok (req, raw)"
  by (simp add: signMintToken_def Let_def Sign_def)

lemma token_body_tally:
  assumes "length (ac_privKey (fst pair)) = 64"
  shows "keeps_tally (runTokenWorker_body pair t)"
proof -
  obtain sender receiver where p: "pair = (sender, receiver)" by fastforce
  have "tally_ok (wk_res (fst (runTokenWorker_body pair t (w, app))))" if "tally_ok (wk_res w)" for w app
  proof -
    obtain req raw where "signMintToken (re_sign (tk_env1 t)) sender
        (''bench-'' @ itoa (sint (wk_nonce w))) [] (wk_nonce w) = Ok (req, raw)"
      using signMintToken_Ok [of sender] assms unfolding p fst_conv by blast
    then show ?thesis using that
      by (auto simp: p runTokenWorker_body_def Let_def tally_defs split: outcome.splits rpc.splits prod.splits)
  qed
  then show ?thesis by (simp add: keeps_tally_def)
qed

lemma loop_tally: "keeps_tally body \<Longrightarrow> keeps_tally (loop_step t body)"
  by (simp add: keeps_tally_def loop_step_def)

lemma currency_step_tally: "keeps_tally (currency_step pair t)"
  by (simp add: currency_step_def loop_tally currency_body_tally)

lemma token_step_tally: "length (ac_privKey (fst pair)) = 64 \<Longrightarrow> keeps_tally (token_step pair t)"
  by (simp add: token_step_def loop_tally token_body_tally)

definition workers_ok :: "worker list \<Rightarrow> bool" where
  "workers_ok ws \<longleftrightarrow> (\<forall>w \<in> set ws. tally_ok (wk_res w))"

lemma workers_tally: "workers_ok ws \<Longrightarrow> tally_ok (merge_all (map wk_res ws))"
  by (rule tally_merge_all) (simp add: workers_ok_def)

lemma pool_step_ok:
  assumes "\<forall>p \<in> set pairs. \<forall>t. keeps_tally (step p t)"
    and "workers_ok ws" "length ws = length pairs"
  shows "workers_ok (fst (pool_step step pairs x (ws, app))) \<and>
    length (fst (pool_step step pairs x (ws, app))) = length pairs"
proof (cases x)
  case (Pair i t)
  show ?thesis
  proof (cases "i < length ws")
    case True
    obtain w app' where s: "step (pairs ! i) t (ws ! i, app) = (w, app')" by fastforce
    have "tally_ok (wk_res w)"
      using assms True s unfolding workers_ok_def keeps_tally_def by (metis fst_conv nth_mem)
    then show ?thesis
      using assms(2,3) True set_update_subset_insert [of ws i w] by (auto simp: Pair pool_step_def s workers_ok_def)
  qed (use assms(2,3) in \<open>simp add: Pair pool_step_def\<close>)
qed

lemma pool_fold_ok:
  assumes "\<forall>p \<in> set pairs. \<forall>t. keeps_tally (step p t)"
    and "workers_ok ws" "length ws = length pairs"
  shows "workers_ok (fst (fold (pool_step step pairs) sched (ws, app)))"
  using assms(2,3)
proof (induction sched arbitrary: ws app)
  case (Cons x sched)
  obtain ws' app' where s: "pool_step step pairs x (ws, app) = (ws', app')" by fastforce
  show ?case using Cons.IH [of ws' app'] pool_step_ok [OF assms(1) Cons.prems, of x app] s by simp
qed simp

lemma new_workers_ok: "workers_ok (map (\<lambda>i. newWorker a b (f i)) xs)"
  by (simp add: workers_ok_def newWorker_def tally_empty)

lemma run_pool_tally:
  assumes "\<forall>p \<in> set pairs. \<forall>t. keeps_tally (step p t)"
  shows "tally_ok (fst (run_pool step cfg start pairs sched app))"
proof -
  let ?ws = "map (\<lambda>i. newWorker (bc_warmup cfg) (bc_duration cfg) (start i)) [0..<length pairs]"
  have "workers_ok (fst (fold (pool_step step pairs) sched (?ws, app)))"
    by (rule pool_fold_ok [OF assms new_workers_ok]) simp_all
  then show ?thesis
    by (auto simp: run_pool_def Let_def workers_tally split: prod.split)
qed

text \<open>Keys that decode are Ed25519 private keys, of 64 bytes.\<close>

definition keys_decode :: "rpc_env \<Rightarrow> bool" where
  "keys_decode re \<longleftrightarrow> (\<forall>i cert priv pub pem. re_keys re i cert = Ok (priv, pub, pem) \<longrightarrow> length priv = 64)"

lemma keys_decodeD: "re_keys re i cert = Ok (priv, pub, pem) \<Longrightarrow> keys_decode re \<Longrightarrow> length priv = 64"
  unfolding keys_decode_def by blast

lemma createTestAccount_key:
  "createTestAccount re b app = (Ok acc, app') \<Longrightarrow> keys_decode re \<Longrightarrow> length (ac_privKey acc) = 64"
  by (auto simp: createTestAccount_def dest: keys_decodeD split: rpc.splits prod.splits outcome.splits)

lemma setup_keys:
  "setupTokenAccounts re i n app = (Ok pairs, app') \<Longrightarrow> \<forall>i k. keys_decode (re i k) \<Longrightarrow>
   \<forall>p \<in> set pairs. length (ac_privKey (fst p)) = 64"
proof (induction n arbitrary: i app pairs)
  case (Suc n)
  then obtain acc acc2 app1 ps app2 where acc: "createTestAccount (re i 0) (f_of 1000000) app = (Ok acc, app1)"
    and ps: "setupTokenAccounts re (Suc i) n app2 = (Ok ps, app')" "pairs = (acc, acc2) # ps"
    by (auto simp: sbind_Ok_iff Let_def)
  have "length (ac_privKey acc) = 64" using createTestAccount_key [OF acc] Suc.prems(2) by blast
  then show ?case using Suc.IH [OF ps(1) Suc.prems(2)] by (simp add: ps(2))
qed simp

lemma mixed_fold_ok:
  assumes "\<forall>p \<in> set tpairs. length (ac_privKey (fst p)) = 64"
    and "workers_ok cs" "workers_ok ts" "length cs = length cpairs" "length ts = length tpairs"
  shows "workers_ok (fst (fst (fold (mixed_step cpairs tpairs) sched ((cs, ts), app)))) \<and>
    workers_ok (snd (fst (fold (mixed_step cpairs tpairs) sched ((cs, ts), app))))"
  using assms(2-)
proof (induction sched arbitrary: cs ts app)
  case (Cons x sched)
  have "\<forall>p \<in> set cpairs. \<forall>t. keeps_tally (currency_step p t)" by (simp add: currency_step_tally)
  note c = pool_step_ok [OF this Cons.prems(1,3)]
  have "\<forall>p \<in> set tpairs. \<forall>t. keeps_tally (token_step p t)" using assms(1) by (simp add: token_step_tally)
  note t = pool_step_ok [OF this Cons.prems(2,4)]
  show ?case
  proof (cases x)
    case (Inl y)
    obtain cs' app' where s: "pool_step currency_step cpairs y (cs, app) = (cs', app')" by fastforce
    show ?thesis using Cons.IH [of cs' ts app'] Cons.prems c [of y app] s by (simp add: Inl mixed_step_def)
  next
    case (Inr y)
    obtain ts' app' where s: "pool_step token_step tpairs y (ts, app) = (ts', app')" by fastforce
    show ?thesis using Cons.IH [of cs ts' app'] Cons.prems t [of y app] s by (simp add: Inr mixed_step_def)
  qed
qed simp

lemma mixed_tally:
  assumes "\<forall>i k. keys_decode (me_tsetup me i k)"
  shows "tally_ok (fst (fst (runMixedWorkerPool cfg me nc nt app))) \<and>
    tally_ok (snd (fst (runMixedWorkerPool cfg me nc nt app)))"
proof -
  obtain c app1 where c: "setupCurrencyAccounts (me_csetup me) 0 nc app = (c, app1)" by fastforce
  obtain t app2 where t: "setupTokenAccounts (me_tsetup me) 0 nt app1 = (t, app2)" by fastforce
  show ?thesis
  proof (cases "\<exists>cpairs tpairs. c = Ok cpairs \<and> t = Ok tpairs")
    case False
    then show ?thesis
      by (cases c; cases t) (simp_all add: runMixedWorkerPool_def c t tally_empty)
  next
    case True
    then obtain cpairs tpairs where ok: "c = Ok cpairs" "t = Ok tpairs" by blast
    let ?ws = "\<lambda>n k. map (\<lambda>i. newWorker (bc_warmup cfg) (bc_duration cfg) (me_start me (k + i))) [0..<n]"
    obtain cs ts app3 where f: "fold (mixed_step cpairs tpairs) (me_schedule me)
        ((?ws (length cpairs) 0, ?ws (length tpairs) (length cpairs)), app2) = ((cs, ts), app3)"
      by (metis prod.exhaust)
    have "\<forall>p \<in> set tpairs. length (ac_privKey (fst p)) = 64"
      using setup_keys [OF _ assms] t ok by blast
    then have "workers_ok cs \<and> workers_ok ts"
      using mixed_fold_ok [of tpairs "?ws (length cpairs) 0" "?ws (length tpairs) (length cpairs)" cpairs
          "me_schedule me" app2] f
      by (simp add: new_workers_ok)
    then show ?thesis
      using f by (simp add: runMixedWorkerPool_def c t ok Let_def workers_tally)
  qed
qed

text \<open>
  Property C40.  The numbers of a benchmark add up, whatever the workload, however its workers are
  scheduled and whichever calls fail: every attempt counted has ended as a success or as a failure
  and each call has its latency, for one kind of worker and for both side by side, as long as the
  keys of the new accounts are Ed25519 keys.
\<close>

theorem bench_numbers_add_up:
  assumes "\<forall>i k. keys_decode (pe_setup pe i k)" "\<forall>i k. keys_decode (me_tsetup me i k)"
  shows "tally_ok (fst (runWorkerPool cfg pe workload n app)) \<and>
    (case fst (runMixedWorkerPool cfg me nc nt app) of
       (cRes, tRes) \<Rightarrow> tally_ok (mergeWorkerResult (mergeWorkerResult emptyResult cRes) tRes))"
proof
  show "tally_ok (fst (runWorkerPool cfg pe workload n app))"
    using setup_keys [of "pe_setup pe" 0 n app, OF _ assms(1)]
    by (auto simp: runWorkerPool_def tally_empty split: prod.split outcome.split
        intro!: run_pool_tally currency_step_tally token_step_tally)
  have "tally_ok (fst (fst (runMixedWorkerPool cfg me nc nt app))) \<and>
      tally_ok (snd (fst (runMixedWorkerPool cfg me nc nt app)))"
    using assms(2) by (rule mixed_tally)
  then show "case fst (runMixedWorkerPool cfg me nc nt app) of
      (cRes, tRes) \<Rightarrow> tally_ok (mergeWorkerResult (mergeWorkerResult emptyResult cRes) tRes)"
    by (cases "fst (runMixedWorkerPool cfg me nc nt app)") (simp add: tally_merge tally_empty)
qed

section \<open>The check of the ledger\<close>

lemma token_check_counts:
  "case fst (verifyTokenTransfers re k recs app) of (confirmed, failed) \<Rightarrow>
     0 \<le> confirmed \<and> 0 \<le> failed \<and> confirmed + failed = int (length recs)"
proof (induction recs arbitrary: k app)
  case (Cons r recs)
  obtain tokenID receiver where r: "r = (tokenID, receiver)" by fastforce
  let ?look = "case signLookupToken (re_sign (re k)) receiver tokenID of
       Ok req \<Rightarrow> (case call_LookupToken (re k) req app of
          (Reply tok, app', _) \<Rightarrow> (get_str pbtok_owner tok = ac_id receiver, app')
        | (ReplyFailure _, app', _) \<Rightarrow> ([] = ac_id receiver, app')
        | (_, app', _) \<Rightarrow> (False, app'))
     | _ \<Rightarrow> (False, app)"
  obtain ok app1 where l: "?look = (ok, app1)" by fastforce
  obtain c f app2 where v: "verifyTokenTransfers re (Suc k) recs app1 = ((c, f), app2)" by (metis prod.exhaust)
  show ?case using Cons.IH [of "Suc k" app1] by (simp add: r Let_def l v del: One_nat_def)
qed simp

definition ids :: "currencyTransferRecord list \<Rightarrow> string list" where
  "ids es = map (ac_id \<circ> fst) es"

lemma add_entry_ids:
  "ids (add_entry r es) = (if ac_id (fst r) \<in> set (ids es) then ids es else ids es @ [ac_id (fst r)])"
proof (induction es)
  case (Cons e es)
  then show ?case by (cases r; cases e) (simp add: ids_def)
qed (cases r, simp add: ids_def)

lemma byReceiver_ids: "set (ids (byReceiver recs)) = set (ids recs)" "distinct (ids (byReceiver recs))"
proof -
  have "set (ids (fold add_entry recs es)) = set (ids recs) \<union> set (ids es) \<and>
      (distinct (ids es) \<longrightarrow> distinct (ids (fold add_entry recs es)))" for es
  proof (induction recs arbitrary: es)
    case (Cons r recs)
    have "set (ids (add_entry r es)) = insert (ac_id (fst r)) (set (ids es))" by (auto simp: add_entry_ids)
    moreover have "distinct (ids es) \<longrightarrow> distinct (ids (add_entry r es))" by (simp add: add_entry_ids)
    moreover have "set (ids (r # recs)) = insert (ac_id (fst r)) (set (ids recs))" by (simp add: ids_def)
    ultimately show ?case using Cons [of "add_entry r es"] by auto
  qed (simp add: ids_def)
  from this [of "[]"] show "set (ids (byReceiver recs)) = set (ids recs)" "distinct (ids (byReceiver recs))"
    by (simp_all add: byReceiver_def ids_def)
qed

lemma counts_of_ids:
  assumes "distinct xs" "set (ids recs) \<subseteq> set xs"
  shows "sum_list (map (countTransfers recs) xs) = int (length recs)"
  using assms(2)
proof (induction recs)
  case (Cons r recs)
  have "countTransfers (r # recs) = (\<lambda>x. countTransfers recs x + (if x = ac_id (fst r) then 1 else 0))"
    by (auto simp: countTransfers_def)
  moreover have "sum_list (map (\<lambda>x. if x = ac_id (fst r) then 1 else 0) xs) = (1 :: int)"
    using Cons.prems assms(1) by (simp add: ids_def sum_list_distinct_conv_sum_set)
  ultimately show ?case using Cons by (simp add: sum_list_addf ids_def)
qed (simp add: countTransfers_def [abs_def])

lemma entries_counts:
  "case fst (verify_entries re k recs es app) of (confirmed, failed) \<Rightarrow>
     0 \<le> confirmed \<and> 0 \<le> failed \<and> confirmed + failed = sum_list (map (countTransfers recs) (ids es))"
proof (induction es arbitrary: k app)
  case (Cons e es)
  obtain creds expected where e: "e = (creds, expected)" by fastforce
  let ?look = "case signGetAccount (re_sign (re k)) creds of
       Ok req \<Rightarrow> (case call_GetAccount (re k) req app of
          (Reply (bal, _, _), app', _) \<Rightarrow> (\<not> flt bal expected, app')
        | (_, app', _) \<Rightarrow> (False, app'))
     | _ \<Rightarrow> (False, app)"
  obtain ok app1 where l: "?look = (ok, app1)" by fastforce
  obtain c f app2 where v: "verify_entries re (Suc k) recs es app1 = ((c, f), app2)" by (metis prod.exhaust)
  have "0 \<le> countTransfers recs i" for i by (simp add: countTransfers_def)
  then show ?case using Cons.IH [of "Suc k" app1] by (simp add: e Let_def l v ids_def)
qed (simp add: ids_def)

text \<open>
  The check after a benchmark accounts for every transfer the workers recorded: the
  confirmed and the failed ones it prints add up to the records, for tokens and for currency, in
  whatever order Go lists the receivers and whatever the calls return.
\<close>

theorem checks_account_for_every_transfer:
  assumes "\<And>es. mset (ord es) = mset es"
  shows "(case fst (verifyTokenTransfers re k trecs app) of (confirmed, failed) \<Rightarrow>
      0 \<le> confirmed \<and> 0 \<le> failed \<and> confirmed + failed = int (length trecs)) \<and>
    (case fst (verifyCurrencyTransfers re ord crecs app) of (confirmed, failed) \<Rightarrow>
      0 \<le> confirmed \<and> 0 \<le> failed \<and> confirmed + failed = int (length crecs))"
proof
  have "mset (ids (ord (byReceiver crecs))) = mset (ids (byReceiver crecs))"
    using assms by (simp add: ids_def)
  then have "sum_list (map (countTransfers crecs) (ids (ord (byReceiver crecs)))) =
      sum_list (map (countTransfers crecs) (ids (byReceiver crecs)))"
    by (metis mset_map sum_mset_sum_list)
  also have "\<dots> = int (length crecs)"
    by (rule counts_of_ids) (simp_all add: byReceiver_ids)
  finally show "case fst (verifyCurrencyTransfers re ord crecs app) of (confirmed, failed) \<Rightarrow>
      0 \<le> confirmed \<and> 0 \<le> failed \<and> confirmed + failed = int (length crecs)"
    using entries_counts [of crecs "ord (byReceiver crecs)" re 0 app]
    by (simp add: verifyCurrencyTransfers_def)
qed (rule token_check_counts)

theorem checks_account_for_every_transfer_witness:
  "let creds = \<lparr>ac_id = ''r'', ac_privKey = replicate 64 0, ac_pubKey = [], ac_certPEM = []\<rparr> in
   case fst (verifyCurrencyTransfers re rev [(creds, f_001), (creds, f_001)] app) of
     (confirmed, failed) \<Rightarrow> confirmed + failed = 2"
  using checks_account_for_every_transfer [where ord = rev and re = re and app = app and trecs = "[]" and
      crecs = "[(\<lparr>ac_id = ''r'', ac_privKey = replicate 64 0, ac_pubKey = [], ac_certPEM = []\<rparr>, f_001),
        (\<lparr>ac_id = ''r'', ac_privKey = replicate 64 0, ac_pubKey = [], ac_certPEM = []\<rparr>, f_001)]"]
  by (simp add: Let_def split: prod.splits)

section \<open>A rejected currency worker\<close>

text \<open>
  The channel is the server's queue, and what other clients do before the request is handled does
  not use the accounts in \<open>S\<close>.
\<close>

definition server_channel :: "ScalegraphId set \<Rightarrow> channel \<Rightarrow> bool" where
  "server_channel S ch \<longleftrightarrow>
     (\<exists>s inp sw rw pre. (\<forall>req app. ch req app = sendRequest s inp sw rw req (pre app)) \<and>
        (\<forall>app. \<forall>i \<in> S. nonce_at (pre app) i = nonce_at app i))"

lemma server_channel_send: "server_channel S (sendRequest s inp sw rw)"
  unfolding server_channel_def
  by (rule exI [of _ s], rule exI [of _ inp], rule exI [of _ sw], rule exI [of _ rw], rule exI [of _ id]) simp

definition same_nonces :: "ScalegraphId set \<Rightarrow> App \<Rightarrow> App \<Rightarrow> bool" where
  "same_nonces S app app' \<longleftrightarrow> (\<forall>i \<in> S. nonce_at app' i = nonce_at app i)"

lemma channel_stale:
  assumes "server_channel S ch" "request_nonce req = Some (i, n)" "i \<in> S" "n \<noteq> nonce_at app i"
  shows "\<not> is_ok (fst (ch req app)) \<and> same_nonces S app (fst (snd (ch req app)))"
proof -
  obtain s inp sw rw pre where ch: "ch req app = sendRequest s inp sw rw req (pre app)"
    and pre: "\<And>j. j \<in> S \<Longrightarrow> nonce_at (pre app) j = nonce_at app j"
    using assms(1) unfolding server_channel_def by blast
  have "nonce_stale (pre app) i n"
    using assms(4) unfolding pre [OF assms(3), symmetric] by (auto simp: nonce_stale_def nonce_at_def)
  then obtain r where "handleRequest s inp req (pre app) = (r, pre app, [])" "\<not> is_ok r"
    using stale_request_rejected [OF assms(2)] by blast
  then show ?thesis using pre by (auto simp: ch sendRequest_def same_nonces_def split: wait.split)
qed

text \<open>A signed request that is stale fails, at whatever stage.\<close>

definition fails_quietly :: "ScalegraphId set \<Rightarrow> App \<Rightarrow> 's rpc_call \<Rightarrow> bool" where
  "fails_quietly S app c \<longleftrightarrow> (\<forall>x. fst c \<noteq> Reply x) \<and> same_nonces S app (fst (snd c))"

lemma same_nonces_refl [simp]: "same_nonces S app app"
  by (simp add: same_nonces_def)

lemma built_stale:
  assumes "server_channel S ch" "i \<in> S" "n \<noteq> nonce_at app i"
    and "\<And>r. built = Ok r \<Longrightarrow> request_nonce r = Some (i, n)"
  shows "\<not> is_ok (fst (send_built ch result built app)) \<and> same_nonces S app (fst (snd (send_built ch result built app)))"
proof (cases built)
  case (Ok r)
  from channel_stale [OF assms(1) assms(4) [OF this] assms(2,3)] Ok show ?thesis
    by (auto simp: send_built_def Send_def split: outcome.splits prod.splits)
qed (simp_all add: send_built_def)

lemma unary_stale:
  assumes "server_channel S ch" "i \<in> S" "n \<noteq> nonce_at app i"
    and "\<And>env r. convert req = Ok env \<Longrightarrow> build env = Ok r \<Longrightarrow> request_nonce r = Some (i, n)"
  shows "fails_quietly S app (unary validate convert (\<lambda>env. send_built ch result (build env)) reply req app)"
proof (cases "convert req")
  case (Ok env)
  have "\<not> is_ok (fst (send_built ch result (build env) app)) \<and>
      same_nonces S app (fst (snd (send_built ch result (build env) app)))"
    by (rule built_stale [OF assms(1-3)]) (rule assms(4) [OF Ok])
  then show ?thesis
    by (auto simp: fails_quietly_def unary_def Ok split: option.split outcome.splits prod.splits)
qed (simp_all add: fails_quietly_def unary_def split: option.split)

lemma Transfer_stale:
  assumes "server_channel S (re_channel re)" "ScalegraphIdFromString (ac_id acc) = Ok i" "i \<in> S"
    and "n \<noteq> nonce_at app i" "signTransfer se acc to_id amt n ts = Ok req"
  shows "fails_quietly S app (call_Transfer re req app)"
proof -
  let ?p = "\<lparr>tp_From = ac_id acc, tp_To = to_id, tp_Amount = amt, tp_Nonce = n, tp_Timestamp = ts\<rparr>"
  have req: "convertTransferEnvelope req = sign_payload se acc (TransferPayload_Bytes (se_marshal se)) ?p"
    using assms(5)
    by (cases "Sign (se_sign se) (se_now se) (TransferPayload_Bytes (se_marshal se) ?p) (ac_privKey acc) (ac_id acc)")
      (auto simp: signTransfer_def sign_message_def sign_payload_def convertTransferEnvelope_def
        convert_envelope_def convert_toProtoSig getter_defs)
  show ?thesis
    unfolding call_Transfer_def connect_Transfer_def TransferSigned_def [abs_def]
    by (rule unary_stale [OF assms(1,3,4)])
      (use assms(2) in \<open>auto simp: req sign_payload_def TransferSigned_request_def parse_id_def obind_Ok_iff\<close>)
qed

lemma MintToken_stale:
  assumes "server_channel S (re_channel re)" "ScalegraphIdFromString (ac_id acc) = Ok i" "i \<in> S"
    and "n \<noteq> nonce_at app i" "signMintToken se acc v c n = Ok (req, raw)"
  shows "fails_quietly S app (call_MintToken re req app)"
proof -
  let ?p = "\<lparr>mtp_TokenValue = v, mtp_ClawbackAddress = optional_address c,
     mtp_FreezeAddress = optional_address c, mtp_Nonce = n\<rparr>"
  have req: "convertMintTokenEnvelope req = sign_payload se acc (MintTokenPayload_Bytes (se_marshal se)) ?p"
    using assms(5)
    by (cases "Sign (se_sign se) (se_now se) (MintTokenPayload_Bytes (se_marshal se) ?p) (ac_privKey acc) (ac_id acc)")
      (auto simp: signMintToken_def sign_payload_def convertMintTokenEnvelope_def
        convert_envelope_def convert_toProtoSig getter_defs optional_address_def Let_def)
  show ?thesis
    unfolding call_MintToken_def connect_MintToken_def MintTokenSigned_def [abs_def]
    by (rule unary_stale [OF assms(1,3,4)])
      (use assms(2) in \<open>auto simp: req sign_payload_def Sign_def MintTokenSigned_request_def obind_Ok_iff split: if_splits\<close>)
qed

text \<open>What a worker has achieved so far.\<close>

definition achieved :: "worker \<Rightarrow> int \<times> int \<times> currencyTransferRecord list" where
  "achieved w = (opSucceeded (wk_res w), txSucceeded (wk_res w), currencyTransfers (wk_res w))"

definition ahead :: "ScalegraphId \<Rightarrow> nat \<Rightarrow> worker \<times> App \<Rightarrow> bool" where
  "ahead i k = (\<lambda>(w, app). 0 < unat (wk_nonce w - nonce_at app i) \<and> unat (wk_nonce w - nonce_at app i) + k < 2 ^ 64)"

lemma ahead_steps:
  assumes "ahead i (Suc k) (w, app)" "nonce_at app' i = nonce_at app i"
    and "wk_nonce w' = wk_nonce w \<or> wk_nonce w' = wk_nonce w + 1"
  shows "ahead i k (w', app')"
proof -
  let ?d = "wk_nonce w - nonce_at app i"
  have d: "0 < unat ?d" "unat ?d + Suc k < 2 ^ 64" using assms(1) by (simp_all add: ahead_def)
  then have "unat (?d + 1) = unat ?d + 1" by (simp add: unat_word_ariths)
  moreover have "wk_nonce w + 1 - nonce_at app i = ?d + 1" by (simp add: algebra_simps)
  ultimately have "unat (wk_nonce w + 1 - nonce_at app i) = unat ?d + 1" by (simp only:)
  then show ?thesis using assms(2,3) d by (auto simp: ahead_def)
qed

lemma currency_step_ahead:
  assumes "ahead i (Suc k) (w, app)" "server_channel {i} (re_channel (tk_env1 t))"
    and "ScalegraphIdFromString (ac_id (fst pair)) = Ok i"
    and "currency_step pair t (w, app) = (w', app')"
  shows "ahead i k (w', app') \<and> achieved w' = achieved w \<and> nonce_at app' i = nonce_at app i"
proof -
  note same = ahead_steps [OF assms(1)]
  show ?thesis
  proof (cases "wk_running w \<and> tk_loop t < wk_benchEnd w \<and> \<not> tk_cancelled t \<and>
      (\<exists>req. signTransfer (re_sign (tk_env1 t)) (fst pair) (ac_id (snd pair)) f_001 (wk_nonce w) (re_unix (tk_env1 t)) = Ok req)")
    case True
    then obtain req where sign: "signTransfer (re_sign (tk_env1 t)) (fst pair) (ac_id (snd pair)) f_001
        (wk_nonce w) (re_unix (tk_env1 t)) = Ok req" by blast
    obtain reply app1 msgs where call: "call_Transfer (tk_env1 t) req app = (reply, app1, msgs)"
      by (metis prod.exhaust)
    have "wk_nonce w \<noteq> nonce_at app i" using assms(1) by (auto simp: ahead_def)
    from Transfer_stale [OF assms(2,3) singletonI this sign] call
    have r: "\<And>x. reply \<noteq> Reply x" "nonce_at app1 i = nonce_at app i"
      by (simp_all add: fails_quietly_def same_nonces_def)
    have "app' = app1 \<and> wk_nonce w' = wk_nonce w + 1 \<and> achieved w' = achieved w"
      using assms(4) True call r(1)
      by (cases reply) (auto simp: sign currency_step_def loop_step_def runCurrencyWorker_body_def Let_def
          achieved_def record_defs)
    then show ?thesis using same r(2) by blast
  next
    case False
    then have "app' = app \<and> wk_nonce w' = wk_nonce w \<and> achieved w' = achieved w"
      using assms(4)
      by (auto simp: currency_step_def loop_step_def runCurrencyWorker_body_def achieved_def
          split: outcome.splits if_splits)
    then show ?thesis using same by blast
  qed
qed

lemma currency_fold_ahead:
  assumes "ahead i (length ticks) (w, app)" "\<forall>t \<in> set ticks. server_channel {i} (re_channel (tk_env1 t))"
    and "ScalegraphIdFromString (ac_id (fst pair)) = Ok i"
    and "fold (currency_step pair) ticks (w, app) = (w', app')"
  shows "achieved w' = achieved w \<and> nonce_at app' i = nonce_at app i"
  using assms(1,2,4)
proof (induction ticks arbitrary: w app)
  case (Cons t ticks)
  obtain w1 app1 where s: "currency_step pair t (w, app) = (w1, app1)" by fastforce
  have "server_channel {i} (re_channel (tk_env1 t))" using Cons.prems(2) by simp
  from currency_step_ahead [OF _ this assms(3) s] Cons.prems(1)
  have "ahead i (length ticks) (w1, app1) \<and> achieved w1 = achieved w \<and> nonce_at app1 i = nonce_at app i" by simp
  then show ?case using Cons.IH [of w1 app1] Cons.prems(2,3) s by simp
qed simp

text \<open>
  A currency worker does not recover from a transfer that was not executed: it
  counts its nonce up even when the transfer was refused or never reached the server, so as long
  as nobody else uses the account every later transfer it sends is refused, however many it
  tries, and none of them changes what it has achieved or the nonce of the account.
\<close>

theorem currency_worker_never_recovers:
  assumes "ScalegraphIdFromString (ac_id (fst pair)) = Ok i"
    and "wk_nonce w = nonce_at app i"
    and "currency_step pair t (w, app) = (w1, app1)"
    and "wk_nonce w1 \<noteq> wk_nonce w" "nonce_at app1 i = nonce_at app i"
    and "\<forall>t \<in> set ticks. server_channel {i} (re_channel (tk_env1 t))" "length ticks < 2 ^ 64 - 1"
    and "fold (currency_step pair) ticks (w1, app1) = (w2, app2)"
  shows "achieved w2 = achieved w1 \<and> nonce_at app2 i = nonce_at app i"
proof -
  have "wk_nonce w1 = wk_nonce w + 1"
    using assms(3,4)
    by (auto simp: currency_step_def loop_step_def runCurrencyWorker_body_def Let_def
        split: outcome.splits rpc.splits prod.splits if_splits)
  then have "wk_nonce w1 - nonce_at app1 i = 1" using assms(2,5) by simp
  then have "ahead i (length ticks) (w1, app1)" using assms(7) by (simp add: ahead_def)
  from currency_fold_ahead [OF this assms(6,1,8)] assms(5) show ?thesis by simp
qed

definition toy_rpc :: "(request \<Rightarrow> App \<Rightarrow> response client_call) \<Rightarrow> rpc_env" where
  "toy_rpc ch =
     \<lparr>re_sign = \<lparr>se_sign = \<lambda>_ _. [], se_now = 0, se_marshal = \<lambda>_. None\<rparr>, re_unix = 0, re_channel = ch,
      re_keys = \<lambda>_ _. Ok (replicate 64 0, [], []),
      re_v_CreateAccount = \<lambda>_. None, re_v_Mint = \<lambda>_. None, re_v_GetAccount = \<lambda>_. None,
      re_v_Transfer = \<lambda>_. None, re_v_MintToken = \<lambda>_. None, re_v_LookupToken = \<lambda>_. None,
      re_v_TransferToken = \<lambda>_. None, re_v_Authorize = \<lambda>_. None, re_v_Unauthorize = \<lambda>_. None,
      re_v_BurnToken = \<lambda>_. None, re_v_ClawbackToken = \<lambda>_. None, re_v_Subscribe = \<lambda>_. None\<rparr>"

definition toy_creds :: "nat \<Rightarrow> accountCreds" where
  "toy_creds n = \<lparr>ac_id = id_String (test_id n), ac_privKey = replicate 64 0, ac_pubKey = [], ac_certPEM = []\<rparr>"

definition toy_tick :: "wait \<Rightarrow> tick" where
  "toy_tick sw =
     (let re = toy_rpc (sendRequest toy_server (toy_inputs 7) sw Delivered) in
      \<lparr>tk_loop = 0, tk_cancelled = False, tk_now = 0, tk_env1 = re, tk_env2 = re, tk_env3 = re,
       tk_lat1 = 5, tk_lat2 = 5, tk_lat3 = 5\<rparr>)"

theorem currency_worker_never_recovers_witness:
  "\<exists>w1 w2 app2. currency_step (toy_creds 1, toy_creds 2) (toy_tick TimedOut) (newWorker 0 9 0, cert_app) = (w1, cert_app) \<and>
     opAttempted (wk_res w1) = 1 \<and>
     fold (currency_step (toy_creds 1, toy_creds 2)) (replicate 3 (toy_tick Delivered)) (w1, cert_app) = (w2, app2) \<and>
     opSucceeded (wk_res w2) = 0"
proof -
  let ?pair = "(toy_creds 1, toy_creds 2)"
  obtain w1 app1 where 1: "currency_step ?pair (toy_tick TimedOut) (newWorker 0 9 0, cert_app) = (w1, app1)"
    by fastforce
  have s: "app1 = cert_app" "opAttempted (wk_res w1) = 1" "opSucceeded (wk_res w1) = 0" "wk_nonce w1 = 1"
    using 1 by (auto simp: concrete_simps toy_tick_def toy_rpc_def toy_creds_def currency_step_def loop_step_def
        newWorker_def runCurrencyWorker_body_def Let_def signTransfer_def sign_message_def Sign_def record_defs
        emptyResult_def call_Transfer_def connect_Transfer_def unary_def TransferSigned_def send_built_def
        Send_def sendRequest_def split: outcome.splits rpc.splits)
  obtain w2 app2 where 2: "fold (currency_step ?pair) (replicate 3 (toy_tick Delivered)) (w1, cert_app) = (w2, app2)"
    by fastforce
  have ch: "server_channel {test_id 1} (re_channel (tk_env1 (toy_tick Delivered)))"
    by (simp add: toy_tick_def toy_rpc_def Let_def server_channel_send)
  have "achieved w2 = achieved w1 \<and> nonce_at app2 (test_id 1) = nonce_at cert_app (test_id 1)"
    by (rule currency_worker_never_recovers [OF _ _ 1 [unfolded s(1)] _ _ _ _ 2])
      (use s ch in \<open>simp_all add: toy_creds_def newWorker_def nonce_at_def GetNonce_def concrete_simps\<close>)
  then show ?thesis using 1 2 s by (auto simp: achieved_def)
qed

theorem bench_numbers_add_up_witness:
  "tally_ok (fst (runWorkerPool
     \<lparr>bc_workload = ''token'', bc_workers = 1, bc_duration = 9, bc_warmup = 0, bc_iterations = 1, bc_export = []\<rparr>
     \<lparr>pe_setup = \<lambda>_ _. toy_rpc (sendRequest toy_server (toy_inputs 8) Delivered Delivered), pe_start = \<lambda>_. 0,
       pe_schedule = [(0, toy_tick Delivered)]\<rparr> ''token'' 1 cert_app))"
proof -
  have "keys_decode (toy_rpc ch)" for ch by (simp add: keys_decode_def toy_rpc_def)
  then show ?thesis
    using bench_numbers_add_up [where
        pe = "\<lparr>pe_setup = \<lambda>_ _. toy_rpc (sendRequest toy_server (toy_inputs 8) Delivered Delivered), pe_start = \<lambda>_. 0,
          pe_schedule = [(0, toy_tick Delivered)]\<rparr>" and
        me = "\<lparr>me_csetup = \<lambda>_ _. toy_rpc (sendRequest toy_server (toy_inputs 8) Delivered Delivered),
          me_tsetup = \<lambda>_ _. toy_rpc (sendRequest toy_server (toy_inputs 8) Delivered Delivered),
          me_start = \<lambda>_. 0, me_schedule = []\<rparr>"]
    by simp
qed

end
