(* ===== verification/Endpoint_Laws.thy ===== *)
theory Endpoint_Laws
  imports Endpoints Bench_Laws "HOL-Library.Sublist"
begin

text \<open>
  What the endpoint suite's exit code means: every test of the list has run, has reported once and
  has passed.
\<close>

definition endpoint_names :: "string list" where
  "endpoint_names =
     [''AdminService/CreateAccount (acc0)'', ''AdminService/CreateAccount (acc1)'', ''AdminService/Mint'',
      ''CurrencyService/Transfer'', ''TokenService/MintToken + EventService/Subscribe (MINT_TOKEN event)'',
      ''TokenService/AuthorizeTokenTransfer'', ''TokenService/TransferToken'',
      ''TokenService/UnauthorizeTokenTransfer'', ''TokenService/BurnToken'', ''TokenService/ClawbackToken'',
      ''TokenService/LookupToken'', duplicate_name]"

text \<open>A test adds one result, of its own name, and leaves the minted token alone.\<close>

definition added :: "string \<Rightarrow> suite \<Rightarrow> suite \<Rightarrow> bool" where
  "added name s s' \<longleftrightarrow>
     (\<exists>r. su_results s' = su_results s @ [r] \<and> er_name r = name) \<and> mintedTokenID s' = mintedTokenID s"

definition reports :: "string \<Rightarrow> (suite \<Rightarrow> suite) \<Rightarrow> bool" where
  "reports name test \<longleftrightarrow> (\<forall>s. added name s (test s))"

lemma reportsD: "reports name test \<Longrightarrow> su_results s' = su_results s \<Longrightarrow> mintedTokenID s' = mintedTokenID s \<Longrightarrow>
    added name s (test s')"
  unfolding reports_def added_def by metis

lemma after_call_frame [simp]:
  "su_results (after_call env c s) = su_results s" "mintedTokenID (after_call env c s) = mintedTokenID s"
  by (simp_all add: after_call_def split: prod.split)

lemma report_result_simps [simp]:
  "su_results (report_result name t v s) = su_results s @
     [\<lparr>er_name = name, er_passed = (v = None), er_message = v, er_elapsed = t\<rparr>]"
  "mintedTokenID (report_result name t v s) = mintedTokenID s"
  by (simp_all add: report_result_def)

lemmas test_simps = reports_def added_def signing_def Let_def

lemma report_reports: "reports name (report_result name t v)"
  by (simp add: test_simps)

lemma mint_for_reports:
  assumes "\<And>e. reports name (give_up e)" "\<And>tok. reports name (go_on tok)"
  shows "reports name (mint_for env k words val claw acc give_up go_on)"
  unfolding reports_def mint_for_def signing_def Let_def
  by (auto split: outcome.split option.split intro!: reportsD [OF assms(1)] reportsD [OF assms(2)])

lemma AdminMint_reports: "reports ''AdminService/Mint'' (test_AdminMint env acc0)"
  by (simp add: test_simps test_AdminMint_def)

lemma Transfer_reports: "reports ''CurrencyService/Transfer'' (test_Transfer env acc0 acc1)"
  by (simp add: test_simps test_Transfer_def split: outcome.split)

lemma Authorize_reports: "reports ''TokenService/AuthorizeTokenTransfer'' (test_Authorize env acc0 acc1)"
  by (simp add: test_simps test_Authorize_def split: outcome.split)

lemma TransferToken_reports: "reports ''TokenService/TransferToken'' (test_TransferToken env acc0 acc1)"
  by (simp add: test_simps test_TransferToken_def split: outcome.split)

lemma Unauthorize_reports: "reports ''TokenService/UnauthorizeTokenTransfer'' (test_Unauthorize env acc0 acc1)"
  unfolding test_Unauthorize_def [abs_def] Let_def
  by (rule mint_for_reports [OF report_reports])
    (auto simp: test_simps split: outcome.split option.split)

lemma Burn_reports: "reports ''TokenService/BurnToken'' (test_Burn env acc0)"
  unfolding test_Burn_def [abs_def] Let_def
  by (rule mint_for_reports [OF report_reports])
    (auto simp: test_simps split: outcome.split option.split)

lemma Clawback_reports: "reports ''TokenService/ClawbackToken'' (test_Clawback env acc0 acc1)"
  unfolding test_Clawback_def [abs_def] Let_def
  by (rule mint_for_reports [OF report_reports])
    (auto simp: test_simps split: outcome.split option.split)

lemma Lookup_reports: "reports ''TokenService/LookupToken'' (test_Lookup env acc1)"
  by (simp add: test_simps test_Lookup_def split: outcome.split)

lemma Duplicate_reports: "reports duplicate_name (test_Duplicate env acc0)"
  by (auto simp: test_simps test_Duplicate_def split: outcome.split prod.split)

text \<open>The test with the event: when it passes there is a token.\<close>

lemma waitForEvent_no_panic: "waitForEvent match ending evs \<noteq> Panic"
  by (induction match ending evs rule: waitForEvent.induct) auto

lemma tokenID_not_Nil: "raw \<noteq> [] \<Longrightarrow> tokenIDFromRawSig raw \<noteq> []"
  by (cases raw) (simp_all add: tokenIDFromRawSig_def)

lemma MintToken_reports:
  assumes "\<And>priv data. se_sign (re_sign (en_rpc env 5)) priv data \<noteq> []"
  shows "\<exists>r. su_results (test_MintToken env acc0 s) = su_results s @ [r] \<and> er_name r = endpoint_names ! 4 \<and>
    (er_passed r \<longrightarrow> mintedTokenID (test_MintToken env acc0 s) \<noteq> [])"
proof -
  have raw: "raw \<noteq> []" if "signMintToken (re_sign (en_rpc env 5)) acc v c n = Ok (req, raw)" for acc v c n req raw
    using that assms by (auto simp: signMintToken_def Sign_def Let_def obind_Ok_iff split: if_splits)
  show ?thesis
    by (auto simp: test_MintToken_def signing_def Let_def endpoint_names_def waitForEvent_no_panic
        split: outcome.split prod.split option.split dest!: raw tokenID_not_Nil)
qed

section \<open>The exit code\<close>

definition names :: "suite \<Rightarrow> string list" where
  "names s = map er_name (su_results s)"

definition all_passed :: "suite \<Rightarrow> bool" where
  "all_passed s \<longleftrightarrow> (\<forall>r \<in> set (su_results s). er_passed r)"

lemma reports_frame:
  assumes "reports name test"
  shows "names (test s) = names s @ [name]" "mintedTokenID (test s) = mintedTokenID s"
    "all_passed (test s) \<Longrightarrow> all_passed s"
proof -
  obtain r where r: "su_results (test s) = su_results s @ [r]" "er_name r = name"
      "mintedTokenID (test s) = mintedTokenID s"
    using assms unfolding reports_def added_def by blast
  then show "names (test s) = names s @ [name]" "mintedTokenID (test s) = mintedTokenID s"
    "all_passed (test s) \<Longrightarrow> all_passed s"
    by (simp_all add: names_def all_passed_def)
qed

lemmas frames = reports_frame [OF AdminMint_reports] reports_frame [OF Transfer_reports]
  reports_frame [OF Authorize_reports] reports_frame [OF TransferToken_reports]
  reports_frame [OF Unauthorize_reports] reports_frame [OF Burn_reports] reports_frame [OF Clawback_reports]
  reports_frame [OF Lookup_reports] reports_frame [OF Duplicate_reports]

lemma nonces_frame:
  "names (s\<lparr>acc0Nonce := m, acc1Nonce := n\<rparr>) = names s"
  "mintedTokenID (s\<lparr>acc0Nonce := m, acc1Nonce := n\<rparr>) = mintedTokenID s"
  by (simp_all add: names_def)

lemma some_tests_skipped:
  "subseq [a, b, c, d, e, h, i, j, l] [a, b, c, d, e, f, g, h, i, j, k, l]"
proof -
  have "subseq ([a, b, c, d, e] @ [] @ [h, i, j] @ [] @ [l]) ([a, b, c, d, e] @ [f, g] @ [h, i, j] @ [k] @ [l])"
    by (intro list_emb_append_mono subseq_order.order_refl list_emb_Nil)
  then show ?thesis by simp
qed

text \<open>After the accounts are there either every test reports, or the mint test failed and three are left out.\<close>

lemma endpoint_tests_outcome:
  assumes sig: "\<And>priv data. se_sign (re_sign (en_rpc env 5)) priv data \<noteq> []"
    and s: "names s = take 2 endpoint_names"
  shows "subseq (names (endpoint_tests env acc0 acc1 s)) endpoint_names"
    "all_passed (endpoint_tests env acc0 acc1 s) \<Longrightarrow> names (endpoint_tests env acc0 acc1 s) = endpoint_names"
proof -
  define s2 where "s2 = (test_Transfer env acc0 acc1 (test_AdminMint env acc0 s))\<lparr>acc0Nonce := 1, acc1Nonce := 0\<rparr>"
  define s3 where "s3 = test_MintToken env acc0 s2"
  have fin: "endpoint_tests env acc0 acc1 s = test_Duplicate env acc0
       (when_minted (test_Lookup env acc1) (test_Clawback env acc0 acc1 (test_Burn env acc0
         (test_Unauthorize env acc0 acc1
           (when_minted (\<lambda>s. test_TransferToken env acc0 acc1 (test_Authorize env acc0 acc1 s)) s3)))))"
    by (simp only: endpoint_tests_def s2_def s3_def)
  obtain r where r: "su_results s3 = su_results s2 @ [r]" "er_name r = endpoint_names ! 4"
      "er_passed r \<Longrightarrow> mintedTokenID s3 \<noteq> []"
    using MintToken_reports [OF sig, of acc0 s2] s3_def by blast
  have names3: "names s3 = take 5 endpoint_names"
    using r s by (simp add: names_def [of s3] names_def [of s2, symmetric])
      (simp add: s2_def nonces_frame frames endpoint_names_def)
  have "subseq (names (endpoint_tests env acc0 acc1 s)) endpoint_names \<and>
      (all_passed (endpoint_tests env acc0 acc1 s) \<longrightarrow> names (endpoint_tests env acc0 acc1 s) = endpoint_names)"
  proof (cases "mintedTokenID s3 = []")
    case True
    then have "\<not> all_passed s3" using r by (auto simp: all_passed_def)
    then have "\<not> all_passed (endpoint_tests env acc0 acc1 s)"
      unfolding fin when_minted_def using True by (auto simp: frames(2,5,8,11,14,17,20,23,26) dest!: frames(3,6,9,12,15,18,21,24,27))
    moreover have "subseq (names (endpoint_tests env acc0 acc1 s)) endpoint_names"
      unfolding fin when_minted_def using True names3
      by (simp add: frames endpoint_names_def some_tests_skipped)
    ultimately show ?thesis by blast
  next
    case False
    then have "names (endpoint_tests env acc0 acc1 s) = endpoint_names"
      unfolding fin when_minted_def using names3 by (simp add: frames endpoint_names_def)
    then show ?thesis by simp
  qed
  then show "subseq (names (endpoint_tests env acc0 acc1 s)) endpoint_names"
    "all_passed (endpoint_tests env acc0 acc1 s) \<Longrightarrow> names (endpoint_tests env acc0 acc1 s) = endpoint_names" by blast+
qed

text \<open>
  The endpoint suite reports success only for a complete run: as long as signatures
  are not empty its exit code is zero exactly when every one of the twelve tests has reported and
  passed, and in a run that stops or leaves tests out the tests that do report keep their order
  and report once.
\<close>

theorem suite_passes_only_in_full:
  assumes "\<And>priv data. se_sign (re_sign (en_rpc env 5)) priv data \<noteq> []"
  shows "case runEndpoints env subs app of (code, results) \<Rightarrow>
    subseq (map er_name results) endpoint_names \<and>
    (code = 0 \<longleftrightarrow> map er_name results = endpoint_names \<and> (\<forall>r \<in> set results. er_passed r))"
proof -
  let ?s = "RunEndpointTests env subs app"
  have "subseq (names ?s) endpoint_names \<and> (all_passed ?s \<longrightarrow> names ?s = endpoint_names)"
  proof (cases "\<exists>acc0 acc1 s. ?s = endpoint_tests env acc0 acc1 s \<and> names s = take 2 endpoint_names")
    case True
    then obtain acc0 acc1 s where "?s = endpoint_tests env acc0 acc1 s" "names s = take 2 endpoint_names" by blast
    then show ?thesis using endpoint_tests_outcome [OF assms] by metis
  next
    case False
    obtain r0 app1 where c0: "createTestAccount (en_rpc env 0) (f_of 100) app = (r0, app1)" by fastforce
    obtain r1 app2 where c1: "createTestAccount (en_rpc env 1) (f_of 100) app1 = (r1, app2)" by fastforce
    have "(\<forall>x. r0 \<noteq> Ok x) \<or> (\<forall>x. r1 \<noteq> Ok x)"
    proof (rule ccontr)
      assume "\<not> ?thesis"
      then obtain acc0 acc1 where ok: "r0 = Ok acc0" "r1 = Ok acc1" by blast
      obtain s where "?s = endpoint_tests env acc0 acc1 s" "names s = take 2 endpoint_names"
        using c0 c1 by (simp add: RunEndpointTests_def Let_def ok names_def endpoint_names_def)
      then show False using False by blast
    qed
    then have "(names ?s = take 1 endpoint_names \<or> names ?s = take 2 endpoint_names) \<and> \<not> all_passed ?s"
      using c0 c1
      by (cases r0; cases r1)
        (auto simp: RunEndpointTests_def Let_def names_def all_passed_def endpoint_names_def)
    then show ?thesis using prefix_imp_subseq [OF take_is_prefix] by metis
  qed
  then show ?thesis
    by (auto simp: runEndpoints_def Let_def names_def all_passed_def filter_empty_conv)
qed

theorem suite_passes_only_in_full_witness:
  "\<exists>code results. runEndpoints
     \<lparr>en_rpc = \<lambda>_. toy_rpc (sendRequest toy_server (toy_inputs 8) Delivered Delivered)
         \<lparr>re_sign := \<lparr>se_sign = \<lambda>_ _. [7], se_now = 0, se_marshal = \<lambda>_. None\<rparr>\<rparr>,
      en_elapsed = \<lambda>_. 5,
      en_transport = \<lparr>tp_sha1 = toy_sha1, tp_marshal = \<lambda>_. None, tp_verify = \<lambda>app _ _ _. Ok (), tp_ca = [],
        tp_broker = None, tp_unmarshal = \<lambda>_. None, tp_vapp = test_id 9\<rparr>,
      en_arrived = 0, en_wait_end = DeadlinePassed, en_released = True\<rparr>
     no_subscriptions cert_app = (code, results) \<and> subseq (map er_name results) endpoint_names \<and>
     (code = 0 \<longleftrightarrow> map er_name results = endpoint_names \<and> list_all er_passed results)"
  (is "\<exists>code results. runEndpoints ?env _ _ = _ \<and> _")
proof -
  have "se_sign (re_sign (en_rpc ?env 5)) priv data \<noteq> []" for priv data by simp
  from suite_passes_only_in_full [of ?env no_subscriptions cert_app, OF this] show ?thesis
    by (cases "runEndpoints ?env no_subscriptions cert_app") (simp add: list_all_iff)
qed

end
