(* ===== verification/Load_Test.thy ===== *)
theory Load_Test
  imports Endpoints Bench_Pool
begin

text \<open>
  \<^verbatim>\<open>cmd/testclient/streams.go\<close>, the load test of the event streams, with \<^verbatim>\<open>cmd/testclient/main.go\<close>,
  which picks the mode and prints what came out.
\<close>

section \<open>Durations as texts\<close>

text \<open>\<^verbatim>\<open>Round(time.Millisecond)\<close>, half away from zero, and what \<^verbatim>\<open>String\<close> prints for whole milliseconds.\<close>

definition ms_ns :: int where "ms_ns = 1000000"

definition round_ms :: "duration \<Rightarrow> duration" where
  "round_ms d = (if d < 0 then - ((- d + ms_ns div 2) div ms_ns * ms_ns) else (d + ms_ns div 2) div ms_ns * ms_ns)"

definition ms_fraction :: "int \<Rightarrow> string" where
  "ms_fraction ms =
     (if ms = 0 then [] else ''.'' @ trim_right (CHR ''0'') (replicate (3 - length (itoa ms)) (CHR ''0'') @ itoa ms))"

definition duration_String :: "duration \<Rightarrow> string" where
  "duration_String d =
     (let u = \<bar>d\<bar> div ms_ns; secs = u div 1000; sign = (if d < 0 then ''-'' else []);
          seconds = itoa (secs mod 60) @ ms_fraction (u mod 1000) @ ''s''
      in if u = 0 then ''0s''
         else if u < 1000 then sign @ itoa u @ ''ms''
         else if secs < 60 then sign @ seconds
         else if secs < 3600 then sign @ itoa (secs div 60) @ ''m'' @ seconds
         else sign @ itoa (secs div 3600) @ ''h'' @ itoa (secs div 60 mod 60) @ ''m'' @ seconds)"

text \<open>A result of the endpoint suite as a line; \<open>err_text\<close> prints an error.\<close>

definition endpointResult_String :: "(failure \<Rightarrow> string) \<Rightarrow> endpointResult \<Rightarrow> string" where
  "endpointResult_String err_text r =
     ''  ['' @ (if er_passed r then ''PASS'' else ''FAIL'') @ ''] '' @ pad 55 (er_name r) @ '' ('' @
     duration_String (round_ms (er_elapsed r)) @ '') '' @
     (case er_message r of None \<Rightarrow> [] | Some e \<Rightarrow> err_text e)"

section \<open>The result\<close>

record StreamLoadResult =
  sl_Target :: int
  sl_Connected :: int
  sl_BreakingPoint :: int
  sl_EventsDelivered :: int
  sl_FirstErrors :: "failure list"
  sl_Duration :: duration
  sl_P50 :: duration
  sl_P95 :: duration
  sl_FanoutDelivered :: int
  sl_FanoutFailed :: int
  sl_FanoutP50 :: duration
  sl_FanoutP95 :: duration

definition emptyLoad :: "int \<Rightarrow> StreamLoadResult" where
  "emptyLoad target =
     \<lparr>sl_Target = target, sl_Connected = 0, sl_BreakingPoint = 0, sl_EventsDelivered = 0, sl_FirstErrors = [],
      sl_Duration = 0, sl_P50 = 0, sl_P95 = 0, sl_FanoutDelivered = 0, sl_FanoutFailed = 0, sl_FanoutP50 = 0,
      sl_FanoutP95 = 0\<rparr>"

definition breaking_text :: "StreamLoadResult \<Rightarrow> string" where
  "breaking_text r = (if 0 < sl_BreakingPoint r then itoa (sl_BreakingPoint r) else ''none (limit reached)'')"

definition StreamLoadResult_String :: "StreamLoadResult \<Rightarrow> string" where
  "StreamLoadResult_String r =
     (let dur = \<lambda>d. duration_String (round_ms d) in
      ''breaking point: '' @ breaking_text r @ '' | connected: '' @ itoa (sl_Connected r) @ '' / '' @ itoa (sl_Target r) @
      '' | events delivered: '' @ itoa (sl_EventsDelivered r) @ '' | duration: '' @ dur (sl_Duration r) @
      '' | p50 latency: '' @ dur (sl_P50 r) @ '' | p95 latency: '' @ dur (sl_P95 r) @
      (if 0 < sl_FanoutDelivered r \<or> 0 < sl_FanoutFailed r
       then nl @ ''fanout: delivered: '' @ itoa (sl_FanoutDelivered r) @ '' / '' @
         itoa (sl_FanoutDelivered r + sl_FanoutFailed r) @ '' | p50: '' @ dur (sl_FanoutP50 r) @
         '' | p95: '' @ dur (sl_FanoutP95 r)
       else []))"

section \<open>The world of the test\<close>

record load_config =
  lc_maxStreams :: int
  lc_stepSize :: int
  lc_fanout :: bool

text \<open>
  What the test meets.  The goroutines of a step are numbered; a schedule lists whose turn it is,
  and whoever is not done at its end is let run (the main goroutine waits for all of them).
\<close>

record load_env =
  le_transport :: transport
  le_trigger :: rpc_env
  le_create :: "nat \<Rightarrow> nat \<Rightarrow> rpc_env"
  le_subscribe :: "nat \<Rightarrow> nat \<Rightarrow> rpc_env"
  le_steps :: "nat \<Rightarrow> nat list"
  le_triggerSub :: rpc_env
  le_triggerMint :: rpc_env
  le_triggerArrived :: nat
  le_triggerEnd :: wait_end
  le_triggerLatency :: duration
  le_fanoutMint :: "nat \<Rightarrow> rpc_env"
  le_fanoutArrived :: "nat \<Rightarrow> nat"
  le_fanoutEnd :: "nat \<Rightarrow> wait_end"
  le_fanoutLatency :: "nat \<Rightarrow> duration"
  le_fanoutTurns :: "nat list"
  le_elapsed :: duration

definition run_jobs :: "(nat \<Rightarrow> 's \<Rightarrow> 's) \<Rightarrow> nat \<Rightarrow> nat list \<Rightarrow> 's \<Rightarrow> 's" where
  "run_jobs step n turns s = fold step (filter (\<lambda>i. i < n) turns @ [0..<n] @ [0..<n]) s"

definition add_error :: "failure list \<Rightarrow> failure \<Rightarrow> failure list" where
  "add_error msgs e = (if length msgs < 10 then msgs @ [e] else msgs)"

section \<open>Connecting\<close>

datatype connect_job = Waiting | Created accountCreds | Connected accountCreds | NotConnected failure

definition connect_turn ::
    "load_env \<Rightarrow> float64 \<Rightarrow> nat \<Rightarrow> int \<Rightarrow> nat \<Rightarrow> connect_job list \<times> subscriptions \<times> App \<Rightarrow>
     connect_job list \<times> subscriptions \<times> App" where
  "connect_turn env subBalance k totalBefore i = (\<lambda>(jobs, subs, app).
     let label = ''['' @ itoa (totalBefore + int i) @ '']'' in
     case jobs ! i of
       Waiting \<Rightarrow>
         (case createTestAccount (le_create env k i) subBalance app of
            (Ok acc, app') \<Rightarrow> (jobs[i := Created acc], subs, app')
          | (Err e, app') \<Rightarrow> (jobs[i := NotConnected (label @ '' create account: '' @ fst e, snd e)], subs, app')
          | (Panic, app') \<Rightarrow> (jobs[i := NotConnected (label @ '' create account: '', None)], subs, app'))
     | Created acc \<Rightarrow>
         (let words = label @ '' subscribe ('' @ ac_id acc @ ''): '' in
          case openSubscription (le_transport env) (le_subscribe env k i) acc [] app subs of
            (Ok _, subs') \<Rightarrow> (jobs[i := Connected acc], subs', app)
          | (Err (_, e), subs') \<Rightarrow> (jobs[i := NotConnected (words @ fst e, snd e)], subs', app)
          | (Panic, subs') \<Rightarrow> (jobs[i := NotConnected (words, None)], subs', app))
     | _ \<Rightarrow> (jobs, subs, app))"

definition connected_accs :: "connect_job list \<Rightarrow> accountCreds list" where
  "connected_accs jobs = List.map_filter (\<lambda>j. case j of Connected acc \<Rightarrow> Some acc | _ \<Rightarrow> None) jobs"

definition connect_errors :: "connect_job list \<Rightarrow> failure list" where
  "connect_errors jobs = List.map_filter (\<lambda>j. case j of NotConnected e \<Rightarrow> Some e | _ \<Rightarrow> None) jobs"

record ramp =
  rp_stepIdx :: nat
  rp_total :: int
  rp_stopped :: bool
  rp_breakingPt :: int
  rp_subs :: "accountCreds list"
  rp_errMsgs :: "failure list"
  rp_lines :: "string list"
  rp_streams :: subscriptions
  rp_app :: App

definition pad_left :: "nat \<Rightarrow> string \<Rightarrow> string" where
  "pad_left n s = replicate (n - length s) (CHR '' '') @ s"

definition batch_size :: "load_config \<Rightarrow> int \<Rightarrow> int" where
  "batch_size cfg totalBefore =
     (let remaining = lc_maxStreams cfg - totalBefore in
      if remaining < lc_stepSize cfg then remaining else lc_stepSize cfg)"

text \<open>One step: a batch of goroutines, then their outcomes in order.\<close>

definition ramp_step :: "load_env \<Rightarrow> load_config \<Rightarrow> ramp \<Rightarrow> ramp" where
  "ramp_step env cfg st =
     (let n = nat (batch_size cfg (rp_total st)); k = rp_stepIdx st;
          subBalance = (if lc_fanout cfg then f_of 1 else f0)
      in case run_jobs (connect_turn env subBalance k (rp_total st)) n (le_steps env k)
                (replicate n Waiting, rp_streams st, rp_app st) of
           (jobs, subs, app) \<Rightarrow>
             (let new = connected_accs jobs; failed = connect_errors jobs;
                  newTotal = rp_total st + int (length new);
                  line = ''  Step '' @ pad_left 2 (itoa (int k)) @ '': '' @ pad_left 2 (itoa (int (length new))) @
                    '' connected, '' @ pad_left 2 (itoa (int (length failed))) @ '' failed  (total: '' @
                    pad_left 3 (itoa newTotal) @ '')'' @
                    (if failed = [] then [] else CHR '' '' # [CHR 0xE2, CHR 0x86, CHR 0x90] @ '' BREAKING POINT at '' @ itoa (rp_total st));
                  st1 = st\<lparr>rp_subs := rp_subs st @ new, rp_errMsgs := foldl add_error (rp_errMsgs st) failed,
                    rp_lines := rp_lines st @ [line], rp_streams := subs, rp_app := app, rp_total := newTotal\<rparr>
              in if failed \<noteq> [] then st1\<lparr>rp_breakingPt := rp_total st, rp_stopped := True\<rparr>
                 else st1\<lparr>rp_stepIdx := rp_stepIdx st + 1\<rparr>))"

text \<open>
  The loop; \<open>None\<close> when it does not end.  A batch of negative size cannot be allocated, which ends
  the process.
\<close>

partial_function (option) connect_loop :: "load_env \<Rightarrow> load_config \<Rightarrow> ramp \<Rightarrow> (error, ramp) outcome option" where
  "connect_loop env cfg st =
     (if rp_stopped st \<or> \<not> rp_total st < lc_maxStreams cfg then Some (Ok st)
      else if batch_size cfg (rp_total st) < 0 then Some Panic
      else connect_loop env cfg (ramp_step env cfg st))"

section \<open>The trigger account\<close>

text \<open>Whether its event came, with what is on the error list, the streams and the App then.\<close>

definition trigger_phase ::
    "load_env \<Rightarrow> accountCreds \<Rightarrow> failure list \<times> subscriptions \<times> App \<Rightarrow>
     bool \<times> failure list \<times> subscriptions \<times> App" where
  "trigger_phase env acc = (\<lambda>(msgs, subs, app).
     case openSubscription (le_transport env) (le_triggerSub env) acc [] app subs of
       (Ok _, subs1) \<Rightarrow>
         (let re = le_triggerMint env; close = close_stream (ac_id acc) in
          case signMintToken (re_sign re) acc ''load-test-token'' [] 1 of
            Ok (req, rawSig) \<Rightarrow>
            (case call_MintToken re req app of
               (reply, app', published) \<Rightarrow>
               (let subs2 = deliver (le_transport env) published subs1 in
                case verdict ''trigger mint rpc: '' ''trigger mint server error: '' reply of
                  Some e \<Rightarrow> (False, msgs @ [e], close subs2, app')
                | None \<Rightarrow>
                  (case waitForEvent (is_mint_of (tokenIDFromRawSig rawSig)) (le_triggerEnd env)
                         (take (le_triggerArrived env) (sent_to (ac_id acc) subs2)) of
                     Ok _ \<Rightarrow> (True, msgs, close subs2, app')
                   | Err e \<Rightarrow> (False, msgs @ [(''trigger event wait: '' @ fst e, snd e)], close subs2, app')
                   | Panic \<Rightarrow> (False, msgs, close subs2, app'))))
          | Err e \<Rightarrow> (False, msgs @ [(''sign trigger mint: '', Some e)], close subs1, app)
          | Panic \<Rightarrow> (False, msgs @ [(''sign trigger mint: '', None)], close subs1, app))
     | (Err (_, e), subs1) \<Rightarrow> (False, msgs @ [(''trigger subscription: '' @ fst e, snd e)], subs1, app)
     | (Panic, subs1) \<Rightarrow> (False, msgs @ [(''trigger subscription: '', None)], subs1, app))"

section \<open>Fanout\<close>

datatype fanout_job = NotMinted | Minted string | EventSeen duration | Undelivered

definition fanout_turn ::
    "load_env \<Rightarrow> accountCreds list \<Rightarrow> nat \<Rightarrow> fanout_job list \<times> failure list \<times> subscriptions \<times> App \<Rightarrow>
     fanout_job list \<times> failure list \<times> subscriptions \<times> App" where
  "fanout_turn env accs i = (\<lambda>(jobs, msgs, subs, app).
     let label = ''fanout['' @ itoa (int i) @ '']''; acc = accs ! i; re = le_fanoutMint env i in
     case jobs ! i of
       NotMinted \<Rightarrow>
         (case signMintToken (re_sign re) acc ''fanout-test-token'' [] 1 of
            Ok (req, rawSig) \<Rightarrow>
            (case call_MintToken re req app of
               (reply, app', published) \<Rightarrow>
               (let subs' = deliver (le_transport env) published subs in
                case verdict (label @ '' mint rpc: '') (label @ '' mint server error: '') reply of
                  Some e \<Rightarrow> (jobs[i := Undelivered], add_error msgs e, subs', app')
                | None \<Rightarrow> (jobs[i := Minted (tokenIDFromRawSig rawSig)], msgs, subs', app')))
          | Err e \<Rightarrow> (jobs[i := Undelivered], add_error msgs (label @ '' sign: '', Some e), subs, app)
          | Panic \<Rightarrow> (jobs[i := Undelivered], add_error msgs (label @ '' sign: '', None), subs, app))
     | Minted expectedID \<Rightarrow>
         (case waitForEvent (is_mint_of expectedID) (le_fanoutEnd env i)
                 (take (le_fanoutArrived env i) (sent_to (ac_id acc) subs)) of
            Ok _ \<Rightarrow> (jobs[i := EventSeen (le_fanoutLatency env i)], msgs, subs, app)
          | Err e \<Rightarrow> (jobs[i := Undelivered], add_error msgs (label @ '' event wait: '' @ fst e, snd e), subs, app)
          | Panic \<Rightarrow> (jobs[i := Undelivered], msgs, subs, app))
     | _ \<Rightarrow> (jobs, msgs, subs, app))"

definition fanout_samples :: "fanout_job list \<Rightarrow> duration list" where
  "fanout_samples jobs = List.map_filter (\<lambda>j. case j of EventSeen d \<Rightarrow> Some d | _ \<Rightarrow> None) jobs"

text \<open>The percentiles of the streams; other than in the benchmarks the index is a share of the last one.\<close>

definition sample_at :: "duration list \<Rightarrow> float64 \<Rightarrow> duration" where
  "sample_at samples p =
     (if samples = [] then 0
      else sort samples ! nat (to_int64 (fmul (of_int64 (int (length samples - 1))) p)))"

definition fanout_phase ::
    "load_env \<Rightarrow> accountCreds list \<Rightarrow> failure list \<times> subscriptions \<times> App \<Rightarrow>
     fanout_job list \<times> failure list \<times> subscriptions \<times> App" where
  "fanout_phase env accs = (\<lambda>(msgs, subs, app).
     run_jobs (fanout_turn env accs) (length accs) (le_fanoutTurns env)
       (replicate (length accs) NotMinted, msgs, subs, app))"

section \<open>The test\<close>

definition start_ramp :: "subscriptions \<Rightarrow> App \<Rightarrow> ramp" where
  "start_ramp subs app =
     \<lparr>rp_stepIdx = 1, rp_total = 0, rp_stopped = False, rp_breakingPt = 0, rp_subs = [], rp_errMsgs = [],
      rp_lines = [], rp_streams = subs, rp_app = app\<rparr>"

definition load_phases :: "load_env \<Rightarrow> load_config \<Rightarrow> accountCreds \<Rightarrow> ramp \<Rightarrow> StreamLoadResult \<times> App" where
  "load_phases env cfg triggerAcc st =
     (let base = (emptyLoad (lc_maxStreams cfg))
            \<lparr>sl_Connected := rp_total st, sl_BreakingPoint := rp_breakingPt st, sl_Duration := le_elapsed env\<rparr>
      in if rp_total st = 0 then (base\<lparr>sl_FirstErrors := rp_errMsgs st\<rparr>, rp_app st)
         else
           (case trigger_phase env triggerAcc (rp_errMsgs st, rp_streams st, rp_app st) of
              (got, msgs1, subs1, app1) \<Rightarrow>
              (let latency = (if got then le_triggerLatency env else 0);
                   r1 = base\<lparr>sl_EventsDelivered := (if got then 1 else 0), sl_P50 := latency, sl_P95 := latency\<rparr>
               in if lc_fanout cfg \<and> 0 < rp_total st
                  then (case fanout_phase env (rp_subs st) (msgs1, subs1, app1) of
                          (jobs, msgs2, subs2, app2) \<Rightarrow>
                          (let samples = fanout_samples jobs in
                           (r1\<lparr>sl_FirstErrors := msgs2, sl_FanoutDelivered := int (length samples),
                              sl_FanoutFailed := int (length jobs) - int (length samples),
                              sl_FanoutP50 := sample_at samples p50, sl_FanoutP95 := sample_at samples p95\<rparr>, app2)))
                  else (r1\<lparr>sl_FirstErrors := msgs1\<rparr>, app1))))"

definition RunStreamLoadTest ::
    "load_env \<Rightarrow> load_config \<Rightarrow> subscriptions \<Rightarrow> App \<Rightarrow> (error, StreamLoadResult \<times> App) outcome option" where
  "RunStreamLoadTest env cfg subs app =
     (case createTestAccount (le_trigger env) (f_of 100) app of
        (Ok triggerAcc, app1) \<Rightarrow>
          (case connect_loop env cfg (start_ramp subs app1) of
             None \<Rightarrow> None
           | Some (Ok st) \<Rightarrow> Some (Ok (load_phases env cfg triggerAcc st))
           | Some (Err e) \<Rightarrow> Some (Err e)
           | Some Panic \<Rightarrow> Some Panic)
      | (Err e, app1) \<Rightarrow>
          Some (Ok ((emptyLoad (lc_maxStreams cfg))\<lparr>sl_FirstErrors := [(''create trigger account: '' @ fst e, snd e)]\<rparr>, app1))
      | (Panic, app1) \<Rightarrow>
          Some (Ok ((emptyLoad (lc_maxStreams cfg))\<lparr>sl_FirstErrors := [(''create trigger account: '', None)]\<rparr>, app1)))"

section \<open>The program\<close>

definition runStreams_lines :: "(failure \<Rightarrow> string) \<Rightarrow> StreamLoadResult \<Rightarrow> string list" where
  "runStreams_lines err_text result =
     [[], ''--- Results ---'', StreamLoadResult_String result] @
     (if sl_FirstErrors result \<noteq> []
      then ''Errors (first 10):'' # map (\<lambda>e. ''  '' @ err_text e) (sl_FirstErrors result) else [])"

definition runEndpoints_lines :: "(failure \<Rightarrow> string) \<Rightarrow> string \<Rightarrow> endpointResult list \<Rightarrow> string list" where
  "runEndpoints_lines err_text addr results =
     (let passed = length (filter er_passed results); failed = length results - passed in
      (''=== Endpoint Tests  (server: '' @ addr @ '') ==='') # map (endpointResult_String err_text) results @
      [[], ''--- '' @ itoa (int passed) @ '' passed, '' @ itoa (int failed) @ '' failed ---''])"

text \<open>The deadline of \<^verbatim>\<open>main\<close>: a benchmark of several iterations computes its own, in nanoseconds.\<close>

definition main_timeout :: "string \<Rightarrow> duration \<Rightarrow> benchConfig \<Rightarrow> duration option" where
  "main_timeout mode timeout bcfg =
     (let t = (if mode = ''bench'' \<and> 1 < bc_iterations bcfg
               then int (bc_iterations bcfg) * (3 * (bc_warmup bcfg + bc_duration bcfg) + 10 * 1000000000)
               else timeout)
      in if 0 < t then Some t else None)"

datatype test_part = EndpointTests | StreamTests | Benchmark | AveragedBenchmark

text \<open>What each mode runs, and its exit code given that of the endpoint suite; \<open>None\<close> for an unknown mode, which exits with 2.\<close>

definition mode_parts :: "string \<Rightarrow> benchConfig \<Rightarrow> test_part list option" where
  "mode_parts mode bcfg =
     (if mode = ''endpoints'' then Some [EndpointTests]
      else if mode = ''streams'' then Some [StreamTests]
      else if mode = ''bench'' then Some [if 1 < bc_iterations bcfg then AveragedBenchmark else Benchmark]
      else if mode = ''all'' then Some [EndpointTests, StreamTests]
      else None)"

definition exit_code :: "int \<Rightarrow> test_part list option \<Rightarrow> int" where
  "exit_code suite_code parts =
     (case parts of None \<Rightarrow> 2 | Some ps \<Rightarrow> if EndpointTests \<in> set ps then suite_code else 0)"

end
