(* ===== verification/Load_Laws.thy ===== *)
theory Load_Laws
  imports Load_Test Bench_Laws
begin

text \<open>
  What holds of the load test: when it ends, what its counts mean, and that none of the events it
  waits for is ever sent.
\<close>

section \<open>Goroutines that are waited for\<close>

text \<open>
  Jobs in two stages: with a turn a job moves on, and after the schedule and the wait every job is
  through both.
\<close>

lemma run_jobs_through:
  assumes keep: "\<And>i s. i < n \<Longrightarrow> I s \<Longrightarrow> I (step i s)"
    and up: "\<And>i j s. i < n \<Longrightarrow> I s \<Longrightarrow> rank j s \<le> rank j (step i s)"
    and turn: "\<And>i s. i < n \<Longrightarrow> I s \<Longrightarrow> min 2 (Suc (rank i s)) \<le> rank i (step i s)"
    and "I s"
  shows "I (run_jobs step n turns s)" "j < n \<Longrightarrow> 2 \<le> rank j (run_jobs step n turns s)"
proof -
  have fold: "I (fold step xs s) \<and> min 2 (rank j s + count_list xs j) \<le> rank j (fold step xs s)"
    if "\<forall>i \<in> set xs. i < n" "I s" for xs s j
    using that
  proof (induction xs arbitrary: s)
    case (Cons x xs)
    then have x: "x < n" "I (step x s)" using keep by simp_all
    have "min 2 (rank j s + (if x = j then 1 else 0)) \<le> rank j (step x s)"
      using up [OF x(1) Cons.prems(2), of j] turn [OF x(1) Cons.prems(2)] by auto
    then show ?case using Cons.IH [OF _ x(2)] Cons.prems(1) by auto
  qed simp
  let ?xs = "filter (\<lambda>i. i < n) turns @ [0..<n] @ [0..<n]"
  have all: "\<forall>i \<in> set ?xs. i < n" by auto
  show "I (run_jobs step n turns s)" using fold [OF all \<open>I s\<close>] by (simp add: run_jobs_def)
  assume j: "j < n"
  have "1 \<le> count_list [0..<n] j" using j by (simp add: Suc_le_eq count_list_0_iff flip: neq0_conv)
  then have "2 \<le> count_list ?xs j" by simp
  then show "2 \<le> rank j (run_jobs step n turns s)"
    using fold [OF all \<open>I s\<close>, of j] unfolding run_jobs_def by linarith
qed

section \<open>The steps of the ramp\<close>

fun connect_rank :: "connect_job \<Rightarrow> nat" where
  "connect_rank Waiting = 0"
| "connect_rank (Created _) = 1"
| "connect_rank _ = 2"

lemma connect_turn_rank:
  assumes "i < n" "length (fst s) = n"
  shows "length (fst (connect_turn env bal k base i s)) = n"
    "connect_rank (fst s ! j) \<le> connect_rank (fst (connect_turn env bal k base i s) ! j)"
    "min 2 (Suc (connect_rank (fst s ! i))) \<le> connect_rank (fst (connect_turn env bal k base i s) ! i)"
proof -
  obtain jobs subs app where s: "s = (jobs, subs, app)" by (metis prod_cases3)
  have 1: "length (fst (connect_turn env bal k base i s)) = n \<and>
    connect_rank (fst s ! j) \<le> connect_rank (fst (connect_turn env bal k base i s) ! j) \<and>
    min 2 (Suc (connect_rank (fst s ! i))) \<le> connect_rank (fst (connect_turn env bal k base i s) ! i)"
    using assms
    by (cases "jobs ! i")
      (auto simp: s connect_turn_def Let_def nth_list_update split: outcome.split prod.split)
  show "length (fst (connect_turn env bal k base i s)) = n"
    "connect_rank (fst s ! j) \<le> connect_rank (fst (connect_turn env bal k base i s) ! j)"
    "min 2 (Suc (connect_rank (fst s ! i))) \<le> connect_rank (fst (connect_turn env bal k base i s) ! i)"
    using 1 by blast+
qed

lemma split_jobs:
  assumes "\<forall>j \<in> set jobs. 2 \<le> connect_rank j"
  shows "length (connected_accs jobs) + length (connect_errors jobs) = length jobs"
  using assms
proof (induction jobs)
  case (Cons j jobs)
  then show ?case
    by (cases j) (simp_all add: connected_accs_def connect_errors_def List.map_filter_simps)
qed (simp add: connected_accs_def connect_errors_def List.map_filter_simps)

lemma batch_split:
  assumes "run_jobs (connect_turn env bal k base) n turns (replicate n Waiting, subs, app) = (jobs, subs', app')"
  shows "length (connected_accs jobs) + length (connect_errors jobs) = n"
proof -
  let ?r = "run_jobs (connect_turn env bal k base) n turns (replicate n Waiting, subs, app)"
  note through = run_jobs_through [where I = "\<lambda>s. length (fst s) = n" and rank = "\<lambda>j s. connect_rank (fst s ! j)"
      and step = "connect_turn env bal k base" and n = n]
  have len: "length (fst ?r) = n"
    by (rule through(1); (rule connect_turn_rank | simp); assumption?)
  have rank: "2 \<le> connect_rank (fst ?r ! j)" if "j < n" for j
    by (rule through(2) [OF _ _ _ _ that]; (rule connect_turn_rank | simp); assumption?)
  then have "length jobs = n" "\<forall>j \<in> set jobs. 2 \<le> connect_rank j"
    using assms len rank by (auto simp: in_set_conv_nth)
  then show ?thesis using split_jobs by blast
qed

lemma add_errors:
  "length ms \<le> 10 \<Longrightarrow> length (foldl add_error ms es) \<le> 10"
  "length (foldl add_error ms es) = min (length ms + length es) (max 10 (length ms))"
proof -
  show 1: "length (foldl add_error ms es) = min (length ms + length es) (max 10 (length ms))" for ms
    by (induction es arbitrary: ms) (auto simp: add_error_def)
  show "length ms \<le> 10 \<Longrightarrow> length (foldl add_error ms es) \<le> 10" by (simp add: 1)
qed

text \<open>The state of the ramp while the batches have no failures, and when one has stopped it.\<close>

definition ramp_ok :: "load_config \<Rightarrow> ramp \<Rightarrow> bool" where
  "ramp_ok cfg st \<longleftrightarrow>
     rp_total st = int (length (rp_subs st)) \<and> rp_total st \<le> max 0 (lc_maxStreams cfg) \<and>
     length (rp_errMsgs st) \<le> 10 \<and>
     (if rp_stopped st
      then rp_errMsgs st \<noteq> [] \<and> lc_stepSize cfg dvd rp_breakingPt st \<and> rp_breakingPt st \<le> rp_total st \<and>
        rp_total st < rp_breakingPt st + lc_stepSize cfg \<and> rp_total st < lc_maxStreams cfg
      else rp_breakingPt st = 0 \<and> rp_errMsgs st = [] \<and>
        (lc_stepSize cfg dvd rp_total st \<or> rp_total st = max 0 (lc_maxStreams cfg)))"

lemma start_ok: "ramp_ok cfg (start_ramp subs app)"
  by (simp add: ramp_ok_def start_ramp_def)

lemma ramp_step_cases:
  assumes "0 \<le> batch_size cfg (rp_total st)"
  obtains new failed where "int (length new) + int (length failed) = batch_size cfg (rp_total st)"
    "rp_total (ramp_step env cfg st) = rp_total st + int (length new)"
    "rp_subs (ramp_step env cfg st) = rp_subs st @ new"
    "rp_errMsgs (ramp_step env cfg st) = foldl add_error (rp_errMsgs st) failed"
    "rp_stopped (ramp_step env cfg st) = (failed \<noteq> [] \<or> rp_stopped st)"
    "rp_breakingPt (ramp_step env cfg st) = (if failed \<noteq> [] then rp_total st else rp_breakingPt st)"
proof -
  let ?n = "nat (batch_size cfg (rp_total st))"
  obtain jobs subs app where j: "run_jobs (connect_turn env (if lc_fanout cfg then f_of 1 else f0) (rp_stepIdx st) (rp_total st))
      ?n (le_steps env (rp_stepIdx st)) (replicate ?n Waiting, rp_streams st, rp_app st) = (jobs, subs, app)"
    by (metis prod_cases3)
  show ?thesis
    by (rule that [of "connected_accs jobs" "connect_errors jobs"])
      (use batch_split [OF j] assms in \<open>simp_all add: ramp_step_def Let_def j\<close>)
qed

lemma ramp_step_ok:
  assumes "ramp_ok cfg st" "\<not> rp_stopped st" "rp_total st < lc_maxStreams cfg" "0 < lc_stepSize cfg"
  shows "ramp_ok cfg (ramp_step env cfg st)"
    "rp_stopped (ramp_step env cfg st) \<or> rp_total st < rp_total (ramp_step env cfg st)"
proof -
  have b: "0 < batch_size cfg (rp_total st)" "batch_size cfg (rp_total st) \<le> lc_stepSize cfg"
    "batch_size cfg (rp_total st) \<le> lc_maxStreams cfg - rp_total st"
    "batch_size cfg (rp_total st) \<noteq> lc_stepSize cfg \<longrightarrow> batch_size cfg (rp_total st) = lc_maxStreams cfg - rp_total st"
    using assms(3,4) by (auto simp: batch_size_def Let_def)
  have dvd: "lc_stepSize cfg dvd rp_total st" using assms(1-3) by (auto simp: ramp_ok_def)
  obtain new failed where *: "int (length new) + int (length failed) = batch_size cfg (rp_total st)"
    "rp_total (ramp_step env cfg st) = rp_total st + int (length new)"
    "rp_subs (ramp_step env cfg st) = rp_subs st @ new"
    "rp_errMsgs (ramp_step env cfg st) = foldl add_error (rp_errMsgs st) failed"
    "rp_stopped (ramp_step env cfg st) = (failed \<noteq> [] \<or> rp_stopped st)"
    "rp_breakingPt (ramp_step env cfg st) = (if failed \<noteq> [] then rp_total st else rp_breakingPt st)"
    by (rule ramp_step_cases [of cfg st env]) (use b in simp_all)
  show "rp_stopped (ramp_step env cfg st) \<or> rp_total st < rp_total (ramp_step env cfg st)"
    using * b by (cases "failed = []") auto
  show "ramp_ok cfg (ramp_step env cfg st)"
  proof (cases "failed = []")
    case True
    then show ?thesis using * assms(1-3) b dvd by (auto simp: ramp_ok_def)
  next
    case False
    then have "0 < length failed" by simp
    then have "0 < length (foldl add_error [] failed)" "length (foldl add_error [] failed) \<le> 10"
      by (simp_all add: add_errors(2))
    moreover have "int (length new) < batch_size cfg (rp_total st)" using * \<open>0 < length failed\<close> by linarith
    ultimately show ?thesis using False * assms(1-3) b dvd by (auto simp: ramp_ok_def)
  qed
qed

section \<open>The end of the ramp\<close>

lemma connect_loop_runs:
  assumes "0 < lc_stepSize cfg" "ramp_ok cfg st"
  shows "\<exists>st'. connect_loop env cfg st = Some (Ok st') \<and> ramp_ok cfg st' \<and>
    (rp_stopped st' \<or> \<not> rp_total st' < lc_maxStreams cfg)"
  using assms(2)
proof (induction "nat (lc_maxStreams cfg - rp_total st) + (if rp_stopped st then 0 else 1)"
    arbitrary: st rule: less_induct)
  case less
  show ?case
  proof (cases "rp_stopped st \<or> \<not> rp_total st < lc_maxStreams cfg")
    case True
    then show ?thesis using less.prems by (simp add: connect_loop.simps [of env cfg st])
  next
    case False
    let ?st = "ramp_step env cfg st"
    have ok: "ramp_ok cfg ?st" "rp_stopped ?st \<or> rp_total st < rp_total ?st"
      using ramp_step_ok [OF less.prems] False assms(1) by blast+
    have tot: "rp_total st \<le> rp_total ?st"
      using ramp_step_cases [of cfg st env] False assms(1) by (smt (verit) batch_size_def of_nat_0_le_iff)
    have "\<not> batch_size cfg (rp_total st) < 0" using False assms(1) by (simp add: batch_size_def Let_def)
    then have "connect_loop env cfg st = connect_loop env cfg ?st"
      using False by (simp add: connect_loop.simps [of env cfg st])
    moreover have "nat (lc_maxStreams cfg - rp_total ?st) + (if rp_stopped ?st then 0 else 1) <
        nat (lc_maxStreams cfg - rp_total st) + (if rp_stopped st then 0 else 1)"
      using ok(2) tot False by auto
    ultimately show ?thesis using less.hyps ok(1) by simp
  qed
qed

lemma connect_loop_stuck:
  assumes "lc_stepSize cfg = 0"
  shows "\<not> rp_stopped st \<Longrightarrow> rp_total st < lc_maxStreams cfg \<Longrightarrow> connect_loop env cfg st = None"
proof -
  have same: "\<not> rp_stopped (ramp_step env cfg st) \<and> rp_total (ramp_step env cfg st) = rp_total st"
    if "lc_stepSize cfg = 0" "\<not> rp_stopped st" "rp_total st < lc_maxStreams cfg" for cfg st env
  proof -
    have b: "batch_size cfg (rp_total st) = 0" using that by (simp add: batch_size_def Let_def)
    show ?thesis by (rule ramp_step_cases [of cfg st env]) (use b that in \<open>simp_all flip: of_nat_add\<close>)
  qed
  have "lc_stepSize cfg = 0 \<longrightarrow> rp_stopped st \<or> \<not> rp_total st < lc_maxStreams cfg"
    if "connect_loop env cfg st = Some r" for env cfg st r
  proof (rule connect_loop.raw_induct [OF _ that,
        where P = "\<lambda>env cfg st r. lc_stepSize cfg = 0 \<longrightarrow> rp_stopped st \<or> \<not> rp_total st < lc_maxStreams cfg"])
    fix loop env cfg st r
    assume IH: "\<And>env cfg st r. loop env cfg st = Some r \<Longrightarrow>
        lc_stepSize cfg = 0 \<longrightarrow> rp_stopped st \<or> \<not> rp_total st < lc_maxStreams cfg"
      and body: "(if rp_stopped st \<or> \<not> rp_total st < lc_maxStreams cfg then Some (Ok st)
        else if batch_size cfg (rp_total st) < 0 then Some Panic
        else loop env cfg (ramp_step env cfg st)) = Some r"
    show "lc_stepSize cfg = 0 \<longrightarrow> rp_stopped st \<or> \<not> rp_total st < lc_maxStreams cfg"
      using IH [of env cfg "ramp_step env cfg st" r] body same [of cfg st env] by (auto simp: batch_size_def Let_def split: if_splits)
  qed
  then show "\<not> rp_stopped st \<Longrightarrow> rp_total st < lc_maxStreams cfg \<Longrightarrow> connect_loop env cfg st = None"
    using assms by fastforce
qed

text \<open>
  The load test comes to an end for every number of streams and every step it is
  started with but two: a step of zero makes it loop for ever, and a negative one crashes it, unless
  there is nothing to connect.  In all other cases it returns.
\<close>

theorem load_test_ends:
  "(connect_loop env cfg (start_ramp subs app) = None \<longleftrightarrow> lc_stepSize cfg = 0 \<and> 0 < lc_maxStreams cfg) \<and>
   (connect_loop env cfg (start_ramp subs app) = Some Panic \<longleftrightarrow> lc_stepSize cfg < 0 \<and> 0 < lc_maxStreams cfg) \<and>
   ((\<exists>st. connect_loop env cfg (start_ramp subs app) = Some (Ok st)) \<longleftrightarrow>
      0 < lc_stepSize cfg \<or> lc_maxStreams cfg \<le> 0)"
proof -
  let ?st = "start_ramp subs app"
  have st: "rp_total ?st = 0" "\<not> rp_stopped ?st" by (simp_all add: start_ramp_def)
  consider "lc_maxStreams cfg \<le> 0" | "0 < lc_maxStreams cfg" "lc_stepSize cfg < 0"
    | "0 < lc_maxStreams cfg" "lc_stepSize cfg = 0" | "0 < lc_maxStreams cfg" "0 < lc_stepSize cfg" by linarith
  then show ?thesis
  proof cases
    case 4
    then show ?thesis using connect_loop_runs [OF _ start_ok, of cfg env subs app] by auto
  next
    case 3
    then show ?thesis using connect_loop_stuck [of cfg ?st env] st by simp
  qed (use st in \<open>simp_all add: connect_loop.simps [of env cfg ?st] batch_size_def Let_def\<close>)
qed

text \<open>
  What the ramp reports is what happened: its connected count is the number of streams
  it holds, never more than asked for, and at most ten errors are kept.  Either every batch was
  connected and all the streams asked for are there, with breaking point zero, or the breaking point
  is the number of streams, a multiple of the step, before the batch with the first failure, and
  fewer than a step's worth were added after it.  So a failure in the very first batch has breaking
  point zero too, which is printed as \<^verbatim>\<open>none (limit reached)\<close>.
\<close>

theorem ramp_reports_breaking_point:
  assumes "0 < lc_stepSize cfg" "connect_loop env cfg (start_ramp subs app) = Some (Ok st)"
  shows "rp_total st = int (length (rp_subs st)) \<and> length (rp_errMsgs st) \<le> 10 \<and>
    (if rp_errMsgs st = []
     then rp_total st = max 0 (lc_maxStreams cfg) \<and> rp_breakingPt st = 0
     else lc_stepSize cfg dvd rp_breakingPt st \<and> rp_breakingPt st \<le> rp_total st \<and>
       rp_total st < rp_breakingPt st + lc_stepSize cfg \<and> rp_total st < lc_maxStreams cfg \<and>
       (breaking_text (emptyLoad n\<lparr>sl_BreakingPoint := rp_breakingPt st\<rparr>) = ''none (limit reached)'' \<longleftrightarrow>
          rp_total st < lc_stepSize cfg))"
proof -
  obtain st' where "connect_loop env cfg (start_ramp subs app) = Some (Ok st')" "ramp_ok cfg st'"
    "rp_stopped st' \<or> \<not> rp_total st' < lc_maxStreams cfg"
    using connect_loop_runs [OF assms(1) start_ok] by blast
  then have ok: "ramp_ok cfg st" "rp_stopped st \<or> \<not> rp_total st < lc_maxStreams cfg" using assms(2) by simp_all
  show ?thesis
  proof (cases "rp_stopped st")
    case True
    then have *: "lc_stepSize cfg dvd rp_breakingPt st" "rp_breakingPt st \<le> rp_total st"
      "rp_total st < rp_breakingPt st + lc_stepSize cfg"
      using ok(1) by (simp_all add: ramp_ok_def)
    have "breaking_text (emptyLoad n\<lparr>sl_BreakingPoint := rp_breakingPt st\<rparr>) = ''none (limit reached)'' \<longleftrightarrow>
        rp_total st < lc_stepSize cfg"
    proof (cases "0 < rp_breakingPt st")
      case True
      then have "lc_stepSize cfg \<le> rp_breakingPt st" using *(1) by (rule zdvd_imp_le [rotated])
      moreover have "itoa (rp_breakingPt st) \<noteq> ''none (limit reached)''"
        using True digits_all [of "nat (rp_breakingPt st)"] by (auto simp: itoa_def is_digit_def)
      ultimately show ?thesis using True *(2) by (simp add: breaking_text_def emptyLoad_def)
    next
      case False
      moreover have "0 \<le> rp_total st" using ok(1) by (simp add: ramp_ok_def)
      ultimately have "rp_breakingPt st = 0" using *(1,3) assms(1) zdvd_imp_le [of "lc_stepSize cfg" "- rp_breakingPt st"] by force
      then show ?thesis using *(3) by (simp add: breaking_text_def emptyLoad_def)
    qed
    then show ?thesis using True ok by (simp add: ramp_ok_def)
  next
    case False
    then show ?thesis using ok by (auto simp: ramp_ok_def max_def)
  qed
qed

section \<open>Events that never come\<close>

text \<open>Creating an account leaves the nonce of every id as it was, that of the new account included.\<close>

lemma Mint_nonces: "app_Mint d req app = (r, app') \<Longrightarrow> nonce_at app' i = nonce_at app i"
  by (auto simp: app_Mint_def append_one_def on_entry_def appendTransaction_def newMintTransaction_def
      handleMintTx_def nonce_at_def GetNonce_def Let_def split: op_splits)

lemma Mint_acc_id:
  "app_Mint d req app = (r, app') \<Longrightarrow> accounts app i = Some a \<Longrightarrow> accounts app' i = Some a' \<Longrightarrow> acc_id a' = acc_id a"
  by (auto simp: app_Mint_def append_one_def on_entry_def appendTransaction_def newMintTransaction_def
      handleMintTx_def Let_def split: op_splits)

lemma Create_nonces:
  assumes "CreateAccountWithKeys sha1 d pk cert bal app = (r, app')"
  shows "nonce_at app' i = nonce_at app i" "r = Ok acc \<Longrightarrow> nonce_at app' (acc_id acc) = 0"
proof -
  let ?i = "ScalegraphIdFromPublicKey sha1 pk"
  let ?acc = "newAccountWithPublicKey sha1 (d_genesis d) pk cert"
  let ?app1 = "app\<lparr>accounts := (accounts app)(acc_id ?acc \<mapsto> ?acc)\<rparr>"
  have new: "acc_id ?acc = ?i" "GetNonce ?acc = 0"
    by (simp_all add: newAccountWithPublicKey_def GetNonce_def)
  have "nonce_at app' i = nonce_at app i \<and> (r = Ok acc \<longrightarrow> nonce_at app' (acc_id acc) = 0)"
  proof (cases "accounts app ?i")
    case (Some a)
    then show ?thesis using assms by (auto simp: CreateAccountWithKeys_def Let_def)
  next
    case None
    have 1: "nonce_at ?app1 j = nonce_at app j" for j using new None by (simp add: nonce_at_def)
    have 0: "nonce_at app ?i = 0" using None by (simp add: nonce_at_def)
    obtain m app2 where m: "app_Mint d \<lparr>mr_To = acc_id ?acc, mr_Amount = bal\<rparr> ?app1 = (m, app2)" by fastforce
    have 2: "nonce_at app2 j = nonce_at app j" for j using Mint_nonces [OF m] 1 by simp
    have 3: "acc_id a = ?i" if "accounts app2 ?i = Some a" for a
      using Mint_acc_id [OF m _ that] new by simp
    have 4: "nonce_at (app2\<lparr>accounts := (accounts app2)(?i := None)\<rparr>) j = nonce_at app j" for j
      using 2 0 by (simp add: nonce_at_def)
    show ?thesis
      using assms None m 0 1 2 3 4 new
      by (auto simp: CreateAccountWithKeys_def Let_def split: op_splits)
  qed
  then show "nonce_at app' i = nonce_at app i" "r = Ok acc \<Longrightarrow> nonce_at app' (acc_id acc) = 0" by simp_all
qed

lemma channel_create:
  assumes "server_channel UNIV ch" "ch (ReqAdminCreateAccount q) app = (r, app', msgs)"
  shows "same_nonces UNIV app app'" "r = Ok (CreateAccountResponse acc cert) \<Longrightarrow> nonce_at app' (acc_id acc) = 0"
proof -
  obtain s inp sw rw pre where ch: "ch (ReqAdminCreateAccount q) app = sendRequest s inp sw rw (ReqAdminCreateAccount q) (pre app)"
    and pre: "\<And>j. nonce_at (pre app) j = nonce_at app j"
    using assms(1) unfolding server_channel_def by blast
  obtain r1 app1 msgs1 where h: "handleRequest s inp (ReqAdminCreateAccount q) (pre app) = (r1, app1, msgs1)"
    by (metis prod_cases3)
  have "same_nonces UNIV (pre app) app1 \<and> (r1 = Ok (CreateAccountResponse acc cert) \<longrightarrow> nonce_at app1 (acc_id acc) = 0)"
    using h
    by (auto simp: handleRequest_def handleCreateAccount_def respond_cases Let_def same_nonces_def
        split: op_splits dest: Create_nonces)
  then show "same_nonces UNIV app app'" "r = Ok (CreateAccountResponse acc cert) \<Longrightarrow> nonce_at app' (acc_id acc) = 0"
    using assms(2) pre by (auto simp: ch sendRequest_def h same_nonces_def split: wait.splits)
qed

text \<open>An account that has not sent anything.\<close>

definition unused :: "(ScalegraphId \<Rightarrow> uint64) \<Rightarrow> accountCreds \<Rightarrow> bool" where
  "unused N acc \<longleftrightarrow> (\<exists>i. ScalegraphIdFromString (ac_id acc) = Ok i \<and> N i = 0)"

lemma createTestAccount_unused:
  assumes "server_channel UNIV (re_channel re)" "createTestAccount re bal app = (r, app')"
  shows "nonce_at app' = nonce_at app" "r = Ok acc \<Longrightarrow> unused (nonce_at app) acc"
proof -
  obtain reply app1 msgs where c: "call_CreateAccount re bal app = (reply, app1, msgs)" by (metis prod_cases3)
  have app1: "app1 = app'" using assms(2) c by (auto simp: createTestAccount_def split: rpc.splits outcome.splits)
  obtain r0 app0 msgs0 where ch: "re_channel re (ReqAdminCreateAccount \<lparr>ac_InitialBalance = bal\<rparr>) app = (r0, app0, msgs0)"
    by (metis prod_cases3)
  note cc = channel_create [OF assms(1) ch]
  have "nonce_at app' = nonce_at app \<and> (\<forall>i cert. reply = Reply (i, cert) \<longrightarrow>
      (\<exists>j. i = id_String j \<and> nonce_at app' j = 0))"
    using c ch cc
    by (auto simp: app1 call_CreateAccount_def connect_AdminCreateAccount_def unary_def AdminCreateAccount_def
        Send_def same_nonces_def split: option.splits outcome.splits prod.splits response.splits)
  then have *: "nonce_at app' = nonce_at app" "reply = Reply (i, cert) \<Longrightarrow> \<exists>j. i = id_String j \<and> nonce_at app j = 0"
    for i cert by auto
  show "nonce_at app' = nonce_at app" by (rule *)
  show "unused (nonce_at app) acc" if "r = Ok acc"
    using assms(2) c that *(2)
    by (auto simp: createTestAccount_def unused_def split: rpc.splits outcome.splits)
qed

lemma load_test_returns:
  assumes "0 < lc_stepSize cfg"
  shows "\<exists>r app'. RunStreamLoadTest env cfg subs app = Some (Ok (r, app'))"
proof -
  obtain c app1 where c: "createTestAccount (le_trigger env) (f_of 100) app = (c, app1)" by fastforce
  show ?thesis
  proof (cases c)
    case (Ok acc)
    obtain st where "connect_loop env cfg (start_ramp subs app1) = Some (Ok st)"
      using connect_loop_runs [OF assms start_ok] by blast
    then show ?thesis
      by (cases "load_phases env cfg acc st") (simp add: RunStreamLoadTest_def c Ok)
  qed (simp_all add: RunStreamLoadTest_def c)
qed

text \<open>Nobody but the load test sends anything.\<close>

definition alone :: "load_env \<Rightarrow> bool" where
  "alone env \<longleftrightarrow>
     server_channel UNIV (re_channel (le_trigger env)) \<and>
     (\<forall>k i. server_channel UNIV (re_channel (le_create env k i))) \<and>
     server_channel UNIV (re_channel (le_triggerMint env)) \<and>
     (\<forall>i. server_channel UNIV (re_channel (le_fanoutMint env i)))"

definition job_unused :: "(ScalegraphId \<Rightarrow> uint64) \<Rightarrow> connect_job \<Rightarrow> bool" where
  "job_unused N j = (case j of Created acc \<Rightarrow> unused N acc | Connected acc \<Rightarrow> unused N acc | _ \<Rightarrow> True)"

lemma job_unused_simps [simp]:
  "job_unused N Waiting" "job_unused N (NotConnected e)"
  "job_unused N (Created acc) = unused N acc" "job_unused N (Connected acc) = unused N acc"
  by (simp_all add: job_unused_def)

definition batch_unused :: "(ScalegraphId \<Rightarrow> uint64) \<Rightarrow> nat \<Rightarrow> connect_job list \<times> subscriptions \<times> App \<Rightarrow> bool" where
  "batch_unused N n = (\<lambda>(jobs, subs, app). nonce_at app = N \<and> length jobs = n \<and> list_all (job_unused N) jobs)"

lemma list_all_update: "list_all P xs \<Longrightarrow> P y \<Longrightarrow> list_all P (xs[i := y])"
  unfolding list_all_iff using set_update_subset_insert by fastforce

lemma connect_turn_unused:
  assumes "alone env" "i < n" "batch_unused N n s"
  shows "batch_unused N n (connect_turn env bal k base i s)"
proof -
  obtain jobs subs app where s: "s = (jobs, subs, app)" by (metis prod_cases3)
  have st: "nonce_at app = N" "length jobs = n" "list_all (job_unused N) jobs" "job_unused N (jobs ! i)"
    using assms(2,3) by (simp_all add: batch_unused_def s list_all_length)
  note set = list_all_update [OF st(3)]
  show ?thesis
  proof (cases "jobs ! i")
    case Waiting
    obtain r app' where c: "createTestAccount (le_create env k i) bal app = (r, app')" by fastforce
    have ch: "server_channel UNIV (re_channel (le_create env k i))" using assms(1) by (simp add: alone_def)
    from createTestAccount_unused [OF ch c] st show ?thesis
      by (cases r) (simp_all add: s batch_unused_def connect_turn_def Let_def Waiting c set)
  next
    case (Created acc)
    obtain r subs' where o: "openSubscription (le_transport env) (le_subscribe env k i) acc [] app subs = (r, subs')"
      by fastforce
    have "unused N acc" using st(4) Created by simp
    then show ?thesis using st
      by (cases r) (simp_all add: s batch_unused_def connect_turn_def Let_def Created o set split: prod.split)
  qed (use st in \<open>simp_all add: s batch_unused_def connect_turn_def\<close>)
qed

definition ramp_unused :: "(ScalegraphId \<Rightarrow> uint64) \<Rightarrow> ramp \<Rightarrow> bool" where
  "ramp_unused N st \<longleftrightarrow> nonce_at (rp_app st) = N \<and> (\<forall>acc \<in> set (rp_subs st). unused N acc)"

lemma connected_unused: "list_all (job_unused N) jobs \<Longrightarrow> \<forall>acc \<in> set (connected_accs jobs). unused N acc"
  by (induction jobs)
    (auto simp: connected_accs_def List.map_filter_simps job_unused_def split: connect_job.splits)

lemma ramp_step_unused:
  assumes "alone env" "ramp_unused N st"
  shows "ramp_unused N (ramp_step env cfg st)"
proof -
  let ?n = "nat (batch_size cfg (rp_total st))"
  let ?turn = "connect_turn env (if lc_fanout cfg then f_of 1 else f0) (rp_stepIdx st) (rp_total st)"
  let ?s0 = "(replicate ?n Waiting, rp_streams st, rp_app st)"
  obtain jobs subs app where j: "run_jobs ?turn ?n (le_steps env (rp_stepIdx st)) ?s0 = (jobs, subs, app)"
    by (metis prod_cases3)
  have "batch_unused N ?n (run_jobs ?turn ?n (le_steps env (rp_stepIdx st)) ?s0)"
    unfolding run_jobs_def
  proof -
    have "batch_unused N ?n (fold ?turn xs s)" if "\<forall>i \<in> set xs. i < ?n" "batch_unused N ?n s" for xs s
      using that by (induction xs arbitrary: s) (simp_all add: connect_turn_unused [OF assms(1)])
    moreover have "batch_unused N ?n ?s0" using assms(2) by (simp add: batch_unused_def ramp_unused_def list_all_length)
    ultimately show "batch_unused N ?n (fold ?turn (filter (\<lambda>i. i < ?n) (le_steps env (rp_stepIdx st)) @
        [0..<?n] @ [0..<?n]) ?s0)" by simp
  qed
  then have "nonce_at app = N" "\<forall>acc \<in> set (connected_accs jobs). unused N acc"
    using connected_unused [of N jobs] by (simp_all add: j batch_unused_def)
  then show ?thesis
    using assms(2) by (auto simp: ramp_step_def Let_def j ramp_unused_def)
qed

lemma connect_loop_unused:
  assumes "connect_loop env cfg st = Some r"
  shows "alone env \<longrightarrow> ramp_unused N st \<longrightarrow> (\<forall>st'. r = Ok st' \<longrightarrow> ramp_unused N st')"
proof (rule connect_loop.raw_induct [OF _ assms,
      where P = "\<lambda>env cfg st r. alone env \<longrightarrow> ramp_unused N st \<longrightarrow> (\<forall>st'. r = Ok st' \<longrightarrow> ramp_unused N st')"])
  fix loop env cfg st r
  assume IH: "\<And>env cfg st r. loop env cfg st = Some r \<Longrightarrow>
      alone env \<longrightarrow> ramp_unused N st \<longrightarrow> (\<forall>st'. r = Ok st' \<longrightarrow> ramp_unused N st')"
    and body: "(if rp_stopped st \<or> \<not> rp_total st < lc_maxStreams cfg then Some (Ok st)
        else if batch_size cfg (rp_total st) < 0 then Some Panic
        else loop env cfg (ramp_step env cfg st)) = Some r"
  show "alone env \<longrightarrow> ramp_unused N st \<longrightarrow> (\<forall>st'. r = Ok st' \<longrightarrow> ramp_unused N st')"
  proof (cases "rp_stopped st \<or> \<not> rp_total st < lc_maxStreams cfg")
    case True
    then have "r = Ok st" using body by simp
    then show ?thesis by simp
  next
    case more: False
    show ?thesis
    proof (cases "batch_size cfg (rp_total st) < 0")
      case True
      then have "r = Panic" using body more by simp
      then show ?thesis by simp
    next
      case False
      then have "loop env cfg (ramp_step env cfg st) = Some r" using body more by simp
      from IH [OF this] ramp_step_unused [of env N st cfg] show ?thesis by blast
    qed
  qed
qed

lemma mint_fails:
  assumes "server_channel UNIV (re_channel re)" "unused (nonce_at app) acc"
    and "signMintToken se acc v c 1 = Ok (req, raw)" "call_MintToken re req app = (reply, app', msgs)"
  shows "verdict w1 w2 reply \<noteq> None" "nonce_at app' = nonce_at app"
proof -
  obtain i where i: "ScalegraphIdFromString (ac_id acc) = Ok i" "1 \<noteq> nonce_at app i"
    using assms(2) by (auto simp: unused_def)
  from MintToken_stale [OF assms(1) i(1) UNIV_I i(2) assms(3)] assms(4)
  show "verdict w1 w2 reply \<noteq> None" "nonce_at app' = nonce_at app"
    by (cases reply; auto simp: fails_quietly_def same_nonces_def)+
qed

lemma trigger_fails:
  assumes "alone env" "unused (nonce_at app) acc"
    and "trigger_phase env acc (msgs, subs, app) = (got, msgs', subs', app')"
  shows "\<not> got" "nonce_at app' = nonce_at app"
proof -
  have ch: "server_channel UNIV (re_channel (le_triggerMint env))" using assms(1) by (simp add: alone_def)
  obtain opened subs1 where o: "openSubscription (le_transport env) (le_triggerSub env) acc [] app subs = (opened, subs1)"
    by fastforce
  have "\<not> got \<and> nonce_at app' = nonce_at app"
  proof (cases opened)
    case (Ok u)
    show ?thesis
    proof (cases "signMintToken (re_sign (le_triggerMint env)) acc ''load-test-token'' [] 1")
      case sig: (Ok x)
      obtain req raw where x: "x = (req, raw)" by fastforce
      obtain reply app1 ms where c: "call_MintToken (le_triggerMint env) req app = (reply, app1, ms)"
        by (metis prod_cases3)
      note fails = mint_fails [OF ch assms(2) sig [unfolded x] c]
      obtain e where "verdict ''trigger mint rpc: '' ''trigger mint server error: '' reply = Some e"
        using fails(1) by blast
      then show ?thesis using assms(3) fails(2)
        by (auto simp: trigger_phase_def Let_def o Ok sig x c)
    qed (use assms(3) in \<open>auto simp: trigger_phase_def Let_def o Ok\<close>)
  qed (use assms(3) in \<open>auto simp: trigger_phase_def o split: prod.splits\<close>)
  then show "\<not> got" "nonce_at app' = nonce_at app" by blast+
qed

definition not_delivered :: "fanout_job \<Rightarrow> bool" where
  "not_delivered j \<longleftrightarrow> j = NotMinted \<or> j = Undelivered"

definition fanout_failing ::
    "(ScalegraphId \<Rightarrow> uint64) \<Rightarrow> nat \<Rightarrow> fanout_job list \<times> failure list \<times> subscriptions \<times> App \<Rightarrow> bool" where
  "fanout_failing N n = (\<lambda>(jobs, msgs, subs, app). nonce_at app = N \<and> length jobs = n \<and>
     list_all not_delivered jobs)"

lemma fanout_turn_fails:
  assumes "alone env" "\<forall>acc \<in> set accs. unused N acc" "i < length accs" "fanout_failing N (length accs) s"
  shows "fanout_failing N (length accs) (fanout_turn env accs i s)"
proof -
  obtain jobs msgs subs app where s: "s = (jobs, msgs, subs, app)" by (metis prod_cases4)
  have st: "nonce_at app = N" "length jobs = length accs" "list_all not_delivered jobs"
    "jobs ! i = NotMinted \<or> jobs ! i = Undelivered"
    using assms(3,4) by (simp_all add: fanout_failing_def s list_all_length not_delivered_def)
  have ch: "server_channel UNIV (re_channel (le_fanoutMint env i))" using assms(1) by (simp add: alone_def)
  have "unused (nonce_at app) (accs ! i)" using assms(2,3) st(1) by simp
  note fails = mint_fails [OF ch this]
  have set: "list_all not_delivered (jobs[i := Undelivered])"
    by (rule list_all_update [OF st(3)]) (simp add: not_delivered_def)
  show ?thesis
  proof (cases "jobs ! i = NotMinted")
    case True
    show ?thesis
    proof (cases "signMintToken (re_sign (le_fanoutMint env i)) (accs ! i) ''fanout-test-token'' [] 1")
      case sig: (Ok x)
      obtain req raw where x: "x = (req, raw)" by fastforce
      obtain reply app1 ms where c: "call_MintToken (le_fanoutMint env i) req app = (reply, app1, ms)"
        by (metis prod_cases3)
      note fail = fails [OF sig [unfolded x] c]
      obtain e where "verdict (''fanout['' @ itoa (int i) @ '']'' @ '' mint rpc: '')
          (''fanout['' @ itoa (int i) @ '']'' @ '' mint server error: '') reply = Some e"
        using fail(1) by blast
      then show ?thesis using st(1,2) fail(2) set
        by (simp add: s fanout_failing_def fanout_turn_def Let_def True sig x c)
    qed (use st(1,2) set in \<open>simp_all add: s fanout_failing_def fanout_turn_def Let_def True\<close>)
  next
    case False
    then have "jobs ! i = Undelivered" using st(4) by blast
    then show ?thesis using st by (simp add: s fanout_failing_def fanout_turn_def Let_def)
  qed
qed

lemma fanout_fails:
  assumes "alone env" "\<forall>acc \<in> set accs. unused (nonce_at app) acc"
    and "fanout_phase env accs (msgs, subs, app) = (jobs, msgs', subs', app')"
  shows "fanout_samples jobs = []"
proof -
  let ?n = "length accs"
  have "fanout_failing (nonce_at app) ?n (fold (fanout_turn env accs) xs s)"
    if "\<forall>i \<in> set xs. i < ?n" "fanout_failing (nonce_at app) ?n s" for xs s
    using that by (induction xs arbitrary: s) (simp_all add: fanout_turn_fails [OF assms(1,2)])
  moreover have "fanout_failing (nonce_at app) ?n (replicate ?n NotMinted, msgs, subs, app)"
    by (simp add: fanout_failing_def list_all_length not_delivered_def)
  ultimately have "fanout_failing (nonce_at app) ?n (fanout_phase env accs (msgs, subs, app))"
    by (simp add: fanout_phase_def run_jobs_def)
  then have "list_all not_delivered jobs" using assms(3) by (simp add: fanout_failing_def)
  then show ?thesis
    by (induction jobs) (auto simp: fanout_samples_def not_delivered_def List.map_filter_simps)
qed

text \<open>
  Property C39.  A load test that has the server to itself sees no event: as long as no other client
  changes a nonce during the run, each mint of its new accounts is refused, because the test signs it
  with nonce one while an account that has sent nothing has nonce zero, and the run reports no event
  delivered, neither to the trigger account nor in the fanout phase.  (Another client that signs for
  one of the new accounts before the test does would make its nonce one, and the mint valid.)
\<close>

theorem load_test_sees_no_event:
  assumes "alone env" "RunStreamLoadTest env cfg subs app = Some (Ok (r, app'))"
  shows "sl_EventsDelivered r = 0 \<and> sl_FanoutDelivered r = 0"
proof -
  obtain c app1 where c: "createTestAccount (le_trigger env) (f_of 100) app = (c, app1)" by fastforce
  have ch: "server_channel UNIV (re_channel (le_trigger env))" using assms(1) by (simp add: alone_def)
  note cr = createTestAccount_unused [OF ch c]
  show ?thesis
  proof (cases c)
    case (Ok acc)
    then obtain st where st: "connect_loop env cfg (start_ramp subs app1) = Some (Ok st)"
      and r: "load_phases env cfg acc st = (r, app')"
      using assms(2) c by (auto simp: RunStreamLoadTest_def split: option.splits outcome.splits)
    have "ramp_unused (nonce_at app) (start_ramp subs app1)"
      using cr(1) by (simp add: ramp_unused_def start_ramp_def)
    then have un: "nonce_at (rp_app st) = nonce_at app" "\<forall>acc \<in> set (rp_subs st). unused (nonce_at app) acc"
      using connect_loop_unused [OF st, of "nonce_at app"] assms(1) by (simp_all add: ramp_unused_def)
    obtain got msgs1 subs1 app2 where t: "trigger_phase env acc (rp_errMsgs st, rp_streams st, rp_app st) =
        (got, msgs1, subs1, app2)" by (metis prod_cases4)
    have "unused (nonce_at (rp_app st)) acc" using cr(2) Ok un(1) by simp
    note tf = trigger_fails [OF assms(1) this t]
    obtain jobs msgs2 subs2 app3 where f: "fanout_phase env (rp_subs st) (msgs1, subs1, app2) =
        (jobs, msgs2, subs2, app3)" by (metis prod_cases4)
    have "fanout_samples jobs = []" by (rule fanout_fails [OF assms(1) _ f]) (use tf un in simp)
    then show ?thesis using r tf f
      by (auto simp: load_phases_def Let_def t emptyLoad_def split: if_splits)
  qed (use assms(2) c in \<open>auto simp: RunStreamLoadTest_def emptyLoad_def\<close>)
qed

section \<open>A load test of the test server\<close>

definition toy_load :: load_env where
  "toy_load =
     (let re = toy_rpc (sendRequest toy_server (toy_inputs 8) Delivered Delivered) in
      \<lparr>le_transport = \<lparr>tp_sha1 = toy_sha1, tp_marshal = \<lambda>_. None, tp_verify = \<lambda>app _ _ _. Ok (), tp_ca = [],
         tp_broker = None, tp_unmarshal = \<lambda>_. None, tp_vapp = test_id 9\<rparr>,
       le_trigger = re, le_create = \<lambda>_ _. re, le_subscribe = \<lambda>_ _. re, le_steps = \<lambda>_. [1, 0, 1],
       le_triggerSub = re, le_triggerMint = re, le_triggerArrived = 4, le_triggerEnd = DeadlinePassed,
       le_triggerLatency = 7, le_fanoutMint = \<lambda>_. re, le_fanoutArrived = \<lambda>_. 4,
       le_fanoutEnd = \<lambda>_. DeadlinePassed, le_fanoutLatency = \<lambda>_. 7, le_fanoutTurns = [], le_elapsed = 9\<rparr>)"

lemma toy_load_alone: "alone toy_load"
  by (simp add: alone_def toy_load_def toy_rpc_def Let_def server_channel_send)

theorem ramp_reports_breaking_point_witness:
  "\<exists>st. connect_loop toy_load \<lparr>lc_maxStreams = 3, lc_stepSize = 2, lc_fanout = True\<rparr>
       (start_ramp no_subscriptions cert_app) = Some (Ok st) \<and>
     rp_total st = int (length (rp_subs st)) \<and> length (rp_errMsgs st) \<le> 10 \<and>
     (rp_errMsgs st = [] \<and> rp_total st = 3 \<or> rp_errMsgs st \<noteq> [] \<and> even (rp_breakingPt st))"
proof -
  let ?cfg = "\<lparr>lc_maxStreams = 3, lc_stepSize = 2, lc_fanout = True\<rparr> :: load_config"
  obtain st where st: "connect_loop toy_load ?cfg (start_ramp no_subscriptions cert_app) = Some (Ok st)"
    using connect_loop_runs [OF _ start_ok, of ?cfg toy_load no_subscriptions cert_app] by auto
  have "0 < lc_stepSize ?cfg" by simp
  from ramp_reports_breaking_point [OF this st, of 3] st show ?thesis
    by (cases "rp_errMsgs st = []") simp_all
qed

theorem load_test_sees_no_event_witness:
  "\<exists>r app'. RunStreamLoadTest toy_load \<lparr>lc_maxStreams = 3, lc_stepSize = 2, lc_fanout = True\<rparr>
       no_subscriptions cert_app = Some (Ok (r, app')) \<and>
     sl_EventsDelivered r = 0 \<and> sl_FanoutDelivered r = 0"
proof -
  let ?cfg = "\<lparr>lc_maxStreams = 3, lc_stepSize = 2, lc_fanout = True\<rparr> :: load_config"
  obtain r app' where run: "RunStreamLoadTest toy_load ?cfg no_subscriptions cert_app = Some (Ok (r, app'))"
    using load_test_returns [of ?cfg toy_load no_subscriptions cert_app] by auto
  from load_test_sees_no_event [OF toy_load_alone this] run show ?thesis by blast
qed

end
