(* ===== verification/Routes.thy ===== *)
theory Routes
  imports Rest
begin

text \<open>
  Which requests reach which handler: the route table \<^verbatim>\<open>Start\<close> builds in
  \<^verbatim>\<open>internal/transport/rest/rest.go\<close> and the services it registers in
  \<^verbatim>\<open>internal/transport/connect/connect.go\<close>.  The router of the REST transport is third-party and is
  the argument \<open>mux\<close>: from a table, a method and a path it gives a handler or the status it answers
  itself (404 or 405).
\<close>

section \<open>Transports\<close>

text \<open>
  What the constructors \<^verbatim>\<open>New\<close> of the three packages are given: the address to listen on and, for
  Connect, whether the admin service is exposed.  The terminal has no network address.
\<close>

datatype transport_kind = RestT string | ConnectT string bool | TuiT

fun kind_Address :: "transport_kind \<Rightarrow> string" where
  "kind_Address (RestT address) = address"
| "kind_Address (ConnectT address _) = address"
| "kind_Address TuiT = ''local''"

fun kind_Type :: "transport_kind \<Rightarrow> string" where
  "kind_Type (RestT _) = ''rest''"
| "kind_Type (ConnectT _ _) = ''ConnectRPC''"
| "kind_Type TuiT = ''tui''"

definition as_Transport :: "transport_kind \<Rightarrow> Transport" where
  "as_Transport k = \<lparr>tr_Type = kind_Type k, tr_Address = kind_Address k\<rparr>"

section \<open>REST\<close>

datatype rest_handler =
    SwaggerDocs | HandleHealth | HandleGetMyAccount | HandleTransfer | HandleMintToken
  | HandleAuthorize | HandleUnauthorize | HandleTransferToken | HandleBurnToken | HandleClawback

type_synonym route = "string \<times> string \<times> rest_handler"

definition token_routes :: "route list" where
  "token_routes =
     [(''POST'', ''/mint'', HandleMintToken),
      (''POST'', ''/authorize'', HandleAuthorize),
      (''POST'', ''/unauthorize'', HandleUnauthorize),
      (''POST'', ''/transfer'', HandleTransferToken),
      (''POST'', ''/burn'', HandleBurnToken),
      (''POST'', ''/clawback'', HandleClawback)]"

definition rest_routes :: "route list" where
  "rest_routes =
     [(''GET'', ''/swagger/*'', SwaggerDocs),
      (''GET'', ''/health'', HandleHealth),
      (''POST'', ''/accounts/me'', HandleGetMyAccount),
      (''POST'', ''/transfer'', HandleTransfer)] @
     map (\<lambda>(m, path, h). (m, ''/tokens'' @ path, h)) token_routes"

text \<open>
  The JSON decoder at the type of each body, as the handlers call it; a request has a method, a
  path and the bytes of its body.
\<close>

record body_decoders =
  de_GetAccount :: "byte list \<Rightarrow> GetAccountPayload rest_body"
  de_Transfer :: "byte list \<Rightarrow> TransferPayload rest_body"
  de_MintToken :: "byte list \<Rightarrow> MintTokenPayload rest_body"
  de_Authorize :: "byte list \<Rightarrow> AuthorizeTokenTransferPayload rest_body"
  de_Unauthorize :: "byte list \<Rightarrow> UnauthorizeTokenTransferPayload rest_body"
  de_TransferToken :: "byte list \<Rightarrow> TransferTokenPayload rest_body"
  de_BurnToken :: "byte list \<Rightarrow> BurnTokenPayload rest_body"
  de_Clawback :: "byte list \<Rightarrow> ClawbackTokenPayload rest_body"

record http_request =
  hr_method :: string
  hr_path :: string
  hr_body :: "byte list"

fun rest_handle :: "body_decoders \<Rightarrow> channel \<Rightarrow> rest_handler \<Rightarrow> byte list \<Rightarrow> App \<Rightarrow> rest_call" where
  "rest_handle de ch SwaggerDocs body app = (Http 200 NoBody, app, [])"
| "rest_handle de ch HandleHealth body app = handleHealth app"
| "rest_handle de ch HandleGetMyAccount body app = handleGetMyAccount ch (de_GetAccount de body) app"
| "rest_handle de ch HandleTransfer body app = handleTransfer ch (de_Transfer de body) app"
| "rest_handle de ch HandleMintToken body app = handleMintToken ch (de_MintToken de body) app"
| "rest_handle de ch HandleAuthorize body app = handleAuthorizeTokenTransfer ch (de_Authorize de body) app"
| "rest_handle de ch HandleUnauthorize body app = handleUnauthorizeTokenTransfer ch (de_Unauthorize de body) app"
| "rest_handle de ch HandleTransferToken body app = handleTransferToken ch (de_TransferToken de body) app"
| "rest_handle de ch HandleBurnToken body app = handleBurnToken ch (de_BurnToken de body) app"
| "rest_handle de ch HandleClawback body app = handleClawbackToken ch (de_Clawback de body) app"

type_synonym router = "route list \<Rightarrow> string \<Rightarrow> string \<Rightarrow> nat + rest_handler"

definition rest_transport :: "router \<Rightarrow> body_decoders \<Rightarrow> channel \<Rightarrow> http_request \<Rightarrow> App \<Rightarrow> rest_call" where
  "rest_transport mux de ch req app =
     (case mux rest_routes (hr_method req) (hr_path req) of
        Inl status \<Rightarrow> (Http status NoBody, app, [])
      | Inr h \<Rightarrow> rest_handle de ch h (hr_body req) app)"

section \<open>Connect\<close>

datatype service = CurrencyService | TokenService | EventService | AccountService | AdminService

text \<open>The services on the mux, each with whether the validating interceptor is in front of it.\<close>

definition connect_services :: "bool \<Rightarrow> (service \<times> bool) list" where
  "connect_services exposeAdmin =
     [(CurrencyService, True), (TokenService, True), (EventService, False), (AccountService, True)] @
     (if exposeAdmin then [(AdminService, True)] else [])"

text \<open>The unary calls of the five services; \<open>pb_call\<close> holds the signed ones.\<close>

datatype connect_call =
    Signed pb_call
  | CallGetAccount "pb_GetAccount pb_request"
  | CallAdminCreateAccount pb_AdminCreateAccount
  | CallAdminMint pb_AdminMint

fun service_of :: "connect_call \<Rightarrow> service" where
  "service_of (Signed (PbTransfer _)) = CurrencyService"
| "service_of (Signed _) = TokenService"
| "service_of (CallGetAccount _) = AccountService"
| "service_of (CallAdminCreateAccount _) = AdminService"
| "service_of (CallAdminMint _) = AdminService"

text \<open>\<^verbatim>\<open>validationInterceptor\<close>: the schema validator runs before the handler.\<close>

definition validationInterceptor ::
    "(connect_call \<Rightarrow> error option) \<Rightarrow> bool \<Rightarrow> connect_call \<Rightarrow> error option" where
  "validationInterceptor validator installed call = (if installed then validator call else None)"

text \<open>
  Whether a unary call succeeds, with what it leaves behind; a service that is not on the mux is
  answered with 404.
\<close>

definition connect_transport ::
    "(connect_call \<Rightarrow> error option) \<Rightarrow> bool \<Rightarrow> channel \<Rightarrow> connect_call \<Rightarrow> App \<Rightarrow>
     bool \<times> App \<times> published list" where
  "connect_transport validator exposeAdmin ch call app =
     (case map_of (connect_services exposeAdmin) (service_of call) of
        None \<Rightarrow> (False, app, [])
      | Some installed \<Rightarrow>
        (let validate = validationInterceptor validator installed in
         case call of
           Signed pb \<Rightarrow> connect_serve (\<lambda>pb. validate (Signed pb)) ch pb app
         | CallGetAccount r \<Rightarrow> rpc_success (connect_GetAccount (\<lambda>r. validate (CallGetAccount r)) ch r app)
         | CallAdminCreateAccount r \<Rightarrow>
             rpc_success (connect_AdminCreateAccount (\<lambda>r. validate (CallAdminCreateAccount r)) ch r app)
         | CallAdminMint r \<Rightarrow> rpc_success (connect_AdminMint (\<lambda>r. validate (CallAdminMint r)) ch r app)))"

section \<open>What a network request does\<close>

datatype inbound = InHttp http_request | InConnect connect_call

text \<open>
  The effect of a request that arrives at a transport: the App and what was announced.  A request
  of the other protocol finds no route.
\<close>

fun transport_effect ::
    "router \<Rightarrow> body_decoders \<Rightarrow> (connect_call \<Rightarrow> error option) \<Rightarrow> channel \<Rightarrow> transport_kind \<Rightarrow> inbound \<Rightarrow>
     App \<Rightarrow> App \<times> published list" where
  "transport_effect mux de v ch (RestT _) (InHttp r) app = snd (rest_transport mux de ch r app)"
| "transport_effect mux de v ch (ConnectT _ admin) (InConnect c) app = snd (connect_transport v admin ch c app)"
| "transport_effect mux de v ch _ _ app = (app, [])"

section \<open>Signed requests only\<close>

text \<open>A call leaves the App alone or passes on what one signed request does to it.\<close>

definition forwards :: "channel \<Rightarrow> App \<Rightarrow> App \<times> published list \<Rightarrow> bool" where
  "forwards ch app eff \<longleftrightarrow>
     eff = (app, []) \<or> (\<exists>req. \<not> unsigned_request req \<and> eff = snd (ch req app))"

lemma forwards_nothing [simp]: "forwards ch app (app, [])"
  by (simp add: forwards_def)

lemma snd_Send: "snd (Send ch result req app) = snd (ch req app)"
  by (simp add: Send_def split: prod.splits outcome.splits)

lemma forwards_send_built:
  "(\<And>req. built = Ok req \<Longrightarrow> \<not> unsigned_request req) \<Longrightarrow> forwards ch app (snd (send_built ch result built app))"
  by (cases built) (auto simp: send_built_def snd_Send forwards_def)

lemma built_signed:
  "TransferSigned_request e1 = Ok req \<Longrightarrow> \<not> unsigned_request req"
  "MintTokenSigned_request e2 = Ok req \<Longrightarrow> \<not> unsigned_request req"
  "AuthorizeTokenTransferSigned_request e3 = Ok req \<Longrightarrow> \<not> unsigned_request req"
  "UnauthorizeTokenTransferSigned_request e4 = Ok req \<Longrightarrow> \<not> unsigned_request req"
  "TransferTokenSigned_request e5 = Ok req \<Longrightarrow> \<not> unsigned_request req"
  "BurnTokenSigned_request e6 = Ok req \<Longrightarrow> \<not> unsigned_request req"
  "LookupTokenSigned_request e7 = Ok req \<Longrightarrow> \<not> unsigned_request req"
  "ClawbackTokenSigned_request e8 = Ok req \<Longrightarrow> \<not> unsigned_request req"
  "FreezeTokenSigned_request e9 = Ok req \<Longrightarrow> \<not> unsigned_request req"
  "UnfreezeTokenSigned_request e10 = Ok req \<Longrightarrow> \<not> unsigned_request req"
  by (auto simp: client_request_defs obind_Ok_iff)

lemma forwards_Send: "\<not> unsigned_request req \<Longrightarrow> forwards ch app (snd (Send ch result req app))"
  by (auto simp: snd_Send forwards_def)

lemma forwards_client:
  "forwards ch app (snd (TransferSigned ch e1 app))"
  "forwards ch app (snd (MintTokenSigned ch e2 app))"
  "forwards ch app (snd (AuthorizeTokenTransferSigned ch e3 app))"
  "forwards ch app (snd (UnauthorizeTokenTransferSigned ch e4 app))"
  "forwards ch app (snd (TransferTokenSigned ch e5 app))"
  "forwards ch app (snd (BurnTokenSigned ch e6 app))"
  "forwards ch app (snd (LookupTokenSigned ch e7 app))"
  "forwards ch app (snd (ClawbackTokenSigned ch e8 app))"
  "forwards ch app (snd (FreezeTokenSigned ch e9 app))"
  "forwards ch app (snd (UnfreezeTokenSigned ch e10 app))"
  "forwards ch app (snd (client_GetAccount ch i e11 app))"
  by (simp_all only: TransferSigned_def MintTokenSigned_def AuthorizeTokenTransferSigned_def
      UnauthorizeTokenTransferSigned_def TransferTokenSigned_def BurnTokenSigned_def LookupTokenSigned_def
      ClawbackTokenSigned_def FreezeTokenSigned_def UnfreezeTokenSigned_def client_GetAccount_def)
    (rule forwards_send_built, erule built_signed | rule forwards_Send, simp)+

lemma forwards_signed_endpoint:
  "(\<And>e. forwards ch app (snd (client_op e app))) \<Longrightarrow> forwards ch app (snd (signed_endpoint client_op body app))"
  by (auto simp: signed_endpoint_def split: option.splits prod.splits outcome.splits) (metis snd_conv)+

lemma forwards_unary:
  "(\<And>e. forwards ch app (snd (client_op e app))) \<Longrightarrow> forwards ch app (snd (unary v convert client_op reply req app))"
  by (auto simp: unary_def split: option.splits prod.splits outcome.splits) (metis snd_conv)+

lemma forwards_handleGetMyAccount: "forwards ch app (snd (handleGetMyAccount ch body app))"
  by (auto simp: handleGetMyAccount_def split: option.splits prod.splits outcome.splits)
    (metis forwards_client(11) snd_conv)+

lemma forwards_rest: "forwards ch app (snd (rest_transport mux de ch req app))"
proof -
  have "forwards ch app (snd (rest_handle de ch h body app))" for h body
    by (cases h) (auto simp: rest_handlers handleHealth_def
        intro!: forwards_signed_endpoint forwards_client forwards_handleGetMyAccount)
  then show ?thesis by (simp add: rest_transport_def split: sum.split)
qed

lemma forwards_connect:
  assumes "service_of call \<noteq> AdminService"
  shows "forwards ch app (snd (connect_transport v admin ch call app))"
proof -
  have "forwards ch app (snd (connect_serve v' ch pb app))" for v' pb
    by (cases pb) (auto simp: connect_handlers rpc_success_def intro!: forwards_unary forwards_client)
  moreover have "forwards ch app (snd (rpc_success (connect_GetAccount v' ch r app)))" for v' r
    by (auto simp: connect_GetAccount_def rpc_success_def intro!: forwards_unary forwards_client)
  ultimately show ?thesis using assms
    by (cases call) (auto simp: connect_transport_def Let_def split: option.split)
qed

text \<open>Without the flag the admin service is not on the mux.\<close>

lemma admin_not_exposed:
  "service_of call = AdminService \<Longrightarrow> connect_transport v False ch call app = (False, app, [])"
  by (simp add: connect_transport_def connect_services_def)

fun exposes_admin :: "transport_kind \<Rightarrow> bool" where
  "exposes_admin (ConnectT _ admin) = admin"
| "exposes_admin _ = False"

lemma forwards_transport:
  "\<not> exposes_admin k \<Longrightarrow> forwards ch app (transport_effect mux de v ch k r app)"
  by (cases k; cases r) (auto simp: forwards_rest admin_not_exposed intro: forwards_connect split: prod.split,
      metis admin_not_exposed forwards_connect forwards_nothing snd_conv)

section \<open>What the server makes of a signed request\<close>

lemma change_authorised:
  assumes "handleRequest s inp req app = (r, app', msgs)" "\<not> unsigned_request req" "app' \<noteq> app"
  shows "\<exists>v. srv_verifier s = Some v \<and> authorised s v inp app req"
proof -
  obtain h where h: "handler (lib_sha1 (srv_lib s)) inp req = Some h"
    using assms(1,3) by (auto simp: handleRequest_def split: option.splits)
  have some: "\<exists>c. request_Verify (lib_sha1 (srv_lib s)) (srv_marshal s) vm (srv_caPublicKey s) req = Some c" for vm
    using assms(2) h by (cases req) auto
  show ?thesis
  proof (cases "srv_verifier s")
    case None
    with some [of "\<lambda>_ _ _. Panic"] assms(1,3) h show ?thesis by (auto simp: handleRequest_def)
  next
    case (Some v)
    obtain c where c: "request_Verify (lib_sha1 (srv_lib s)) (srv_marshal s) (server_verify s v inp app)
        (srv_caPublicKey s) req = Some c" using some by blast
    with assms(1,3) h Some have "c = Ok ()"
      by (cases c) (auto simp: handleRequest_def)
    with c Some show ?thesis by (auto intro: verified_authorised)
  qed
qed

text \<open>
  Whatever arrives at a REST transport, at any method, path and body and for any router, or at a
  Connect transport that does not expose the admin service: when the App is different afterwards,
  one authorised request has been handled, and the App and the announcements are what it leaves.
\<close>

lemma network_changes_are_authorised:
  assumes "transport_effect mux de valid (sendRequest s inp sw rw) k r app = (app', msgs)"
    and "\<not> exposes_admin k" "app' \<noteq> app"
  shows "\<exists>v req. srv_verifier s = Some v \<and> authorised s v inp app req \<and> \<not> unsigned_request req \<and>
    snd (handleRequest s inp req app) = (app', msgs)"
proof -
  obtain req where req: "\<not> unsigned_request req" "snd (sendRequest s inp sw rw req app) = (app', msgs)"
    using forwards_transport [OF assms(2), of "sendRequest s inp sw rw" app mux de valid r] assms(1,3)
    by (auto simp: forwards_def)
  with assms(3) have "sw = Delivered" by (cases sw) (auto simp: sendRequest_def)
  with req(2) have h: "snd (handleRequest s inp req app) = (app', msgs)"
    by (auto simp: sendRequest_def split: prod.splits)
  then obtain res where "handleRequest s inp req app = (res, app', msgs)"
    by (cases "handleRequest s inp req app") auto
  from change_authorised [OF this req(1) assms(3)] req(1) h show ?thesis by blast
qed

text \<open>A router for concrete runs: the first route whose method and path are the request's.\<close>

definition exact_mux :: router where
  "exact_mux table m path =
     (case map_of (map (\<lambda>(m, path, h). ((m, path), h)) table) (m, path) of
        None \<Rightarrow> Inl 404
      | Some h \<Rightarrow> Inr h)"

definition toy_decoders :: body_decoders where
  "toy_decoders = \<lparr>de_GetAccount = \<lambda>_. None, de_Transfer = \<lambda>_. json_body toy_envelope, de_MintToken = \<lambda>_. None,
     de_Authorize = \<lambda>_. None, de_Unauthorize = \<lambda>_. None, de_TransferToken = \<lambda>_. None,
     de_BurnToken = \<lambda>_. None, de_Clawback = \<lambda>_. None\<rparr>"

definition toy_post :: inbound where
  "toy_post = InHttp \<lparr>hr_method = ''POST'', hr_path = ''/transfer'', hr_body = []\<rparr>"

lemma toy_post_effect:
  "transport_effect exact_mux toy_decoders (\<lambda>_. None) (sendRequest toy_server (toy_inputs 7) Delivered Delivered)
     (RestT ''localhost:8080'') toy_post cert_app = (toy_after, toy_msgs)"
proof -
  have "TransferSigned_request toy_envelope = Ok (ReqTransfer (toy_signed_transfer (dy 1073 6)))"
    by (simp add: client_request_defs toy_envelope_def parse_id_def toy_signed_transfer_def toy_transfer_def)
  then show ?thesis
    by (simp add: toy_post_def rest_transport_def exact_mux_def rest_routes_def token_routes_def toy_decoders_def
        rest_handlers signed_endpoint_def json_body_def TransferSigned_def send_built_def Send_def
        sendRequest_def toy_request_handled envelope_eta)
qed

lemma toy_after_differs: "toy_after \<noteq> cert_app"
proof
  assume "toy_after = cert_app"
  then have "accounts toy_after (test_id 1) = Some (cert_acct 1)" by (simp add: concrete_simps)
  then show False using toy_after_sent [of "cert_acct 1"]
    by (simp add: sent_def cert_acct_def toy_acct_def chain_txs_new chain_txs_append)
qed

text \<open>An administrative mint asks for nothing but the account.\<close>

lemma AdminMint_run:
  assumes "accounts app i = Some a"
  shows "\<exists>app'. AdminMint (sendRequest s inp Delivered Delivered) i amt app = (Ok (), app', []) \<and>
    map_option balance (accounts app' i) = Some (fadd (balance a) amt)"
proof -
  obtain app' a' where "app_Mint (in_draws inp) \<lparr>mr_To = i, mr_Amount = amt\<rparr> app = (Ok (), app')"
    and "accounts app' i = Some a'" "balance a' = fadd (balance a) amt"
    using assms
    by (simp add: app_Mint_def append_one_def on_entry_def appendTransaction_def newMintTransaction_def
        handleMintTx_def Let_def)
  then show ?thesis
    by (auto simp: AdminMint_def Send_def sendRequest_def handleRequest_def handleAdminMint_def publishEvent_def)
qed

text \<open>The flag matters: with the admin service exposed, an unsigned message creates funds.\<close>

theorem exposed_admin_mints:
  assumes "accounts app i = Some a"
  shows "\<exists>app'. transport_effect mux de (\<lambda>_. None) (sendRequest s inp Delivered Delivered) (ConnectT addr True)
      (InConnect (CallAdminMint \<lparr>pbam_account_id = id_String i, pbam_amount = amt\<rparr>)) app = (app', []) \<and>
    map_option balance (accounts app' i) = Some (fadd (balance a) amt)"
  using AdminMint_run [OF assms, of s inp amt]
  by (auto simp: connect_transport_def connect_services_def connect_AdminMint_def unary_def
      validationInterceptor_def rpc_success_def parse_id_def)

section \<open>Every REST operation is reachable\<close>

text \<open>
  What the router documents for a path without wildcards: a request at the method and path of a
  registered route goes to that route.
\<close>

definition serves_static :: "router \<Rightarrow> bool" where
  "serves_static mux \<longleftrightarrow>
     (\<forall>table m path h. (m, path, h) \<in> set table \<and> distinct (map (\<lambda>(m, path, h). (m, path)) table) \<and>
        CHR ''*'' \<notin> set path \<longrightarrow> mux table m path = Inr h)"

fun endpoint_path :: "signed_call \<Rightarrow> string option" where
  "endpoint_path (CallTransfer _) = Some ''/transfer''"
| "endpoint_path (CallMintToken _) = Some ''/tokens/mint''"
| "endpoint_path (CallAuthorize _) = Some ''/tokens/authorize''"
| "endpoint_path (CallUnauthorize _) = Some ''/tokens/unauthorize''"
| "endpoint_path (CallTransferToken _) = Some ''/tokens/transfer''"
| "endpoint_path (CallBurnToken _) = Some ''/tokens/burn''"
| "endpoint_path (CallClawback _) = Some ''/tokens/clawback''"
| "endpoint_path _ = None"

fun decodes_to :: "body_decoders \<Rightarrow> byte list \<Rightarrow> signed_call \<Rightarrow> bool" where
  "decodes_to de body (CallTransfer e) \<longleftrightarrow> de_Transfer de body = json_body e"
| "decodes_to de body (CallMintToken e) \<longleftrightarrow> de_MintToken de body = json_body e"
| "decodes_to de body (CallAuthorize e) \<longleftrightarrow> de_Authorize de body = json_body e"
| "decodes_to de body (CallUnauthorize e) \<longleftrightarrow> de_Unauthorize de body = json_body e"
| "decodes_to de body (CallTransferToken e) \<longleftrightarrow> de_TransferToken de body = json_body e"
| "decodes_to de body (CallBurnToken e) \<longleftrightarrow> de_BurnToken de body = json_body e"
| "decodes_to de body (CallClawback e) \<longleftrightarrow> de_Clawback de body = json_body e"
| "decodes_to de body _ \<longleftrightarrow> False"

lemma rest_routes_distinct: "distinct (map (\<lambda>(m, path, h). (m, path)) rest_routes)"
  by (simp add: rest_routes_def token_routes_def)

lemma serves_route:
  assumes "serves_static mux"
  shows "(m, path, h) \<in> set rest_routes \<Longrightarrow> CHR ''*'' \<notin> set path \<Longrightarrow> mux rest_routes m path = Inr h"
  using assms rest_routes_distinct by (auto simp: serves_static_def)

lemma rest_route:
  "(''POST'', ''/transfer'', HandleTransfer) \<in> set rest_routes"
  "(''POST'', ''/tokens/mint'', HandleMintToken) \<in> set rest_routes"
  "(''POST'', ''/tokens/authorize'', HandleAuthorize) \<in> set rest_routes"
  "(''POST'', ''/tokens/unauthorize'', HandleUnauthorize) \<in> set rest_routes"
  "(''POST'', ''/tokens/transfer'', HandleTransferToken) \<in> set rest_routes"
  "(''POST'', ''/tokens/burn'', HandleBurnToken) \<in> set rest_routes"
  "(''POST'', ''/tokens/clawback'', HandleClawback) \<in> set rest_routes"
  by (simp_all add: rest_routes_def token_routes_def)

theorem endpoints_reach_their_handlers:
  assumes "serves_static mux" "endpoint_path c = Some path" "decodes_to de body c"
  shows "rest_transport mux de ch \<lparr>hr_method = ''POST'', hr_path = path, hr_body = body\<rparr> app = rest_serve ch c app"
  using assms(2,3)
  by (cases c) (auto simp: rest_transport_def rest_route [THEN serves_route [OF assms(1)]])

end
