(* ===== verification/Loop.thy ===== *)
theory Loop
  imports Server_Runs
begin

text \<open>
  The server's goroutine in \<^verbatim>\<open>internal/server/server.go\<close> beside its clients: the buffered request
  channel, \<^verbatim>\<open>Start\<close>, the \<^verbatim>\<open>select\<close> of \<^verbatim>\<open>run\<close>, the cancellation of its context and the drain at
  shutdown, one step each and in any order the scheduler may choose.
\<close>

section \<open>State\<close>

datatype loop_phase = LoopNew | LoopRunning | LoopDraining | LoopEnded | LoopCrashed

text \<open>
  A request waits with what its handling will read from outside.  The last two fields are the
  history: every request put on the channel and every response given, in order.
\<close>

type_synonym queued = "inputs \<times> request"

record server_proc =
  sp_phase :: loop_phase
  sp_cancelled :: bool
  sp_queue :: "queued list"
  sp_app :: App
  sp_sent :: "queued list"
  sp_replies :: "(error, response) outcome list"

definition new_proc :: "App \<Rightarrow> server_proc" where
  "new_proc app = \<lparr>sp_phase = LoopNew, sp_cancelled = False, sp_queue = [], sp_app = app, sp_sent = [], sp_replies = []\<rparr>"

text \<open>The capacity of \<^verbatim>\<open>requestChan\<close>.\<close>

definition requestChan_cap :: nat where
  "requestChan_cap = 1000"

text \<open>
  \<^verbatim>\<open>Start\<close>: without a CA or a verifier the goroutine is not started; \<^verbatim>\<open>NewWithCA\<close> makes the verifier from
  the CA, so there is one exactly when there is the other.
\<close>

definition server_Start :: "Server \<Rightarrow> server_proc \<Rightarrow> server_proc" where
  "server_Start s p = (if srv_verifier s = None then p else p\<lparr>sp_phase := LoopRunning\<rparr>)"

section \<open>Steps\<close>

text \<open>
  Who makes a step: a client or user outside, the program itself, or the one who stops it.  A
  cancelled loop may go on serving for a while: \<^verbatim>\<open>select\<close> picks any case that is ready.  A panic
  ends the process, after which nothing happens.
\<close>

datatype actor = Outside | Program | Stopper

inductive loop_step :: "Server \<Rightarrow> actor \<Rightarrow> server_proc \<Rightarrow> server_proc \<Rightarrow> bool" for s where
  Enqueue: "sp_phase p \<noteq> LoopCrashed \<Longrightarrow> length (sp_queue p) < requestChan_cap \<Longrightarrow>
    loop_step s Outside p (p\<lparr>sp_queue := sp_queue p @ [x], sp_sent := sp_sent p @ [x]\<rparr>)"
| Serve: "sp_phase p = LoopRunning \<Longrightarrow> sp_queue p = (inp, req) # q \<Longrightarrow>
    handleRequest s inp req (sp_app p) = (r, app', msgs) \<Longrightarrow> r \<noteq> Panic \<Longrightarrow>
    loop_step s Program p (p\<lparr>sp_queue := q, sp_app := app', sp_replies := sp_replies p @ [r]\<rparr>)"
| Crash: "sp_phase p = LoopRunning \<Longrightarrow> sp_queue p = (inp, req) # q \<Longrightarrow>
    handleRequest s inp req (sp_app p) = (Panic, app', msgs) \<Longrightarrow>
    loop_step s Program p (p\<lparr>sp_phase := LoopCrashed, sp_queue := q, sp_app := app'\<rparr>)"
| Cancel: "sp_phase p \<noteq> LoopCrashed \<Longrightarrow> loop_step s Stopper p (p\<lparr>sp_cancelled := True\<rparr>)"
| BeginDrain: "sp_phase p = LoopRunning \<Longrightarrow> sp_cancelled p \<Longrightarrow>
    loop_step s Program p (p\<lparr>sp_phase := LoopDraining\<rparr>)"
| DrainOne: "sp_phase p = LoopDraining \<Longrightarrow> sp_queue p = x # q \<Longrightarrow>
    loop_step s Program p (p\<lparr>sp_queue := q, sp_replies := sp_replies p @ drainRequests [x]\<rparr>)"
| EndDrain: "sp_phase p = LoopDraining \<Longrightarrow> sp_queue p = [] \<Longrightarrow>
    loop_step s Program p (p\<lparr>sp_phase := LoopEnded\<rparr>)"

inductive_cases loop_programE: "loop_step s Program p p'"

definition any_loop_step :: "Server \<Rightarrow> server_proc \<Rightarrow> server_proc \<Rightarrow> bool" where
  "any_loop_step s p p' \<longleftrightarrow> (\<exists>a. loop_step s a p p')"

section \<open>The loop and the queue\<close>

lemma server_run_snoc:
  "server_run s qs app = (rs, app1, True) \<Longrightarrow> handleRequest s inp req app1 = (r, app2, msgs) \<Longrightarrow>
     server_run s (qs @ [(inp, req)]) app = (if r = Panic then (rs, app2, False) else (rs @ [r], app2, True))"
proof (induction s qs app arbitrary: rs rule: server_run.induct)
  case (1 s app)
  then show ?case by (cases r) auto
next
  case (2 s inp' req' rest app)
  obtain r1 appm ms where h: "handleRequest s inp' req' app = (r1, appm, ms)" by (metis prod_cases3)
  obtain rs' app' al where t: "server_run s rest appm = (rs', app', al)" by (metis prod_cases3)
  from "2.prems"(1) h t have r1: "r1 \<noteq> Panic" and eqs: "rs = r1 # rs'" "app' = app1" "al"
    by (cases r1; auto)+
  have "server_run s (rest @ [(inp, req)]) appm =
      (if r = Panic then (rs', app2, False) else (rs' @ [r], app2, True))"
    using "2.IH" h t r1 eqs "2.prems"(2) by (cases r1) auto
  then show ?case using h r1 eqs by (cases r1) auto
qed

lemma drainRequests_append: "drainRequests (xs @ ys) = drainRequests xs @ drainRequests ys"
  by (simp add: drainRequests_def)

definition stopping :: "server_proc \<Rightarrow> bool" where
  "stopping p \<longleftrightarrow> sp_phase p = LoopDraining \<or> sp_phase p = LoopEnded"

text \<open>
  The abstract view: some prefix of what was sent has been served, as \<^const>\<open>server_run\<close> serves a
  list, what follows has been drained, and the rest is in the channel.
\<close>

definition loop_view :: "Server \<Rightarrow> App \<Rightarrow> queued list \<Rightarrow> queued list \<Rightarrow> server_proc \<Rightarrow> bool" where
  "loop_view s app served drained p \<longleftrightarrow>
     sp_sent p = served @ drained @ sp_queue p \<and>
     (\<exists>rs. server_run s served app = (rs, sp_app p, sp_phase p \<noteq> LoopCrashed) \<and>
       sp_replies p = rs @ drainRequests drained)"

definition loop_ok :: "Server \<Rightarrow> App \<Rightarrow> server_proc \<Rightarrow> bool" where
  "loop_ok s app p \<longleftrightarrow>
     length (sp_queue p) \<le> requestChan_cap \<and> (stopping p \<longrightarrow> sp_cancelled p) \<and>
     (\<exists>served drained. loop_view s app served drained p \<and>
        (drained \<noteq> [] \<longrightarrow> stopping p) \<and> (sp_phase p = LoopNew \<longrightarrow> served = []))"

lemma loop_okI:
  "loop_view s app served drained p \<Longrightarrow> length (sp_queue p) \<le> requestChan_cap \<Longrightarrow>
   (stopping p \<Longrightarrow> sp_cancelled p) \<Longrightarrow> (drained \<noteq> [] \<Longrightarrow> stopping p) \<Longrightarrow>
   (sp_phase p = LoopNew \<Longrightarrow> served = []) \<Longrightarrow> loop_ok s app p"
  by (auto simp: loop_ok_def)

lemma loop_ok_start: "loop_ok s app (server_Start s (new_proc app))"
  by (cases "srv_verifier s"; intro loop_okI [of _ _ "[]" "[]"])
    (simp_all add: loop_view_def server_Start_def new_proc_def drainRequests_def stopping_def)

lemma loop_ok_step:
  assumes "loop_step s a p p'" "loop_ok s app p"
  shows "loop_ok s app p'"
proof -
  obtain served drained where v: "loop_view s app served drained p" "drained \<noteq> [] \<longrightarrow> stopping p"
    "sp_phase p = LoopNew \<longrightarrow> served = []" "length (sp_queue p) \<le> requestChan_cap" "stopping p \<longrightarrow> sp_cancelled p"
    using assms(2) by (auto simp: loop_ok_def)
  then obtain rs where rs: "sp_sent p = served @ drained @ sp_queue p"
    "server_run s served app = (rs, sp_app p, sp_phase p \<noteq> LoopCrashed)" "sp_replies p = rs @ drainRequests drained"
    by (auto simp: loop_view_def)
  show ?thesis
    using assms(1)
  proof (cases rule: loop_step.cases)
    case (Serve inp req q r app' msgs)
    with v rs server_run_snoc [of s served app rs "sp_app p" inp req r app' msgs] show ?thesis
      by (intro loop_okI [of _ _ "served @ [(inp, req)]" "[]"])
        (auto simp: loop_view_def stopping_def drainRequests_def)
  next
    case (Crash inp req q app' msgs)
    with v rs server_run_snoc [of s served app rs "sp_app p" inp req Panic app' msgs] show ?thesis
      by (intro loop_okI [of _ _ "served @ [(inp, req)]" "[]"])
        (auto simp: loop_view_def stopping_def drainRequests_def)
  next
    case (DrainOne x q)
    with v rs show ?thesis
      by (intro loop_okI [of _ _ served "drained @ [x]"])
        (auto simp: loop_view_def stopping_def drainRequests_append)
  qed (use v rs in \<open>auto simp: loop_view_def stopping_def intro!: loop_okI [of _ _ served drained]\<close>)
qed

interpretation request_loop: transition_invariant
    "\<lambda>p. p = server_Start s (new_proc app)" "any_loop_step s" "loop_ok s app" for s app
  by unfold_locales (auto simp: loop_ok_start any_loop_step_def intro: loop_ok_step)

lemma request_loop_keeps: "(any_loop_step s)\<^sup>*\<^sup>* p q \<Longrightarrow> loop_ok s app p \<Longrightarrow> loop_ok s app q"
  by (induction rule: rtranclp_induct) (auto simp: any_loop_step_def intro: loop_ok_step)

text \<open>
  Property C18.  The server's goroutine, interleaved in any way with its clients and with its
  shutdown, refines the sequential server.  What has been put on the channel is, in order, a part
  that was served exactly as \<^const>\<open>server_run\<close> serves that list, with the App it leaves, a part that
  was answered with the shutdown error, and what is still in the channel, at most 1000 requests.
  Nothing is answered twice, skipped or reordered, no request is turned away before the context is
  cancelled, none is served after the first one was turned away, and a server without a verifier
  serves nothing.
\<close>

theorem loop_refines_server_run:
  assumes "(any_loop_step s)\<^sup>*\<^sup>* (server_Start s (new_proc app)) p"
  shows "\<exists>served drained rs. sp_sent p = served @ drained @ sp_queue p \<and>
    server_run s served app = (rs, sp_app p, sp_phase p \<noteq> LoopCrashed) \<and>
    sp_replies p = rs @ drainRequests drained \<and>
    (drained \<noteq> [] \<longrightarrow> sp_cancelled p) \<and> length (sp_queue p) \<le> 1000 \<and>
    (srv_verifier s = None \<longrightarrow> served @ drained = [])"
proof -
  have "srv_verifier s = None \<longrightarrow> sp_phase p = LoopNew"
    using assms
  proof (induction rule: rtranclp_induct)
    case base
    show ?case by (simp add: server_Start_def new_proc_def)
  next
    case (step q r)
    then show ?case by (auto simp: any_loop_step_def elim!: loop_step.cases)
  qed
  moreover have "loop_ok s app p" by (rule request_loop.reachable_inv [OF refl assms])
  then obtain served drained where "loop_view s app served drained p" "drained \<noteq> [] \<longrightarrow> stopping p"
    "stopping p \<longrightarrow> sp_cancelled p" "sp_phase p = LoopNew \<longrightarrow> served = []"
    "length (sp_queue p) \<le> requestChan_cap"
    by (auto simp: loop_ok_def)
  ultimately show ?thesis
    by (intro exI [of _ served] exI [of _ drained])
      (auto simp: loop_view_def requestChan_cap_def stopping_def)
qed

section \<open>Shutdown\<close>

lemma drain_completes:
  "sp_phase p = LoopDraining \<Longrightarrow>
   (loop_step s Program)\<^sup>*\<^sup>* p (p\<lparr>sp_phase := LoopEnded, sp_queue := [],
      sp_replies := sp_replies p @ drainRequests (sp_queue p)\<rparr>)"
proof (induction "sp_queue p" arbitrary: p)
  case Nil
  have "loop_step s Program p (p\<lparr>sp_phase := LoopEnded\<rparr>)"
    by (rule EndDrain) (use Nil in simp_all)
  moreover have "p\<lparr>sp_phase := LoopEnded\<rparr> =
      p\<lparr>sp_phase := LoopEnded, sp_queue := [], sp_replies := sp_replies p @ drainRequests (sp_queue p)\<rparr>"
    using Nil(1) [symmetric] by (cases p) (simp add: drainRequests_def)
  ultimately show ?case by (simp only: r_into_rtranclp)
next
  case (Cons x q)
  let ?p = "p\<lparr>sp_queue := q, sp_replies := sp_replies p @ drainRequests [x]\<rparr>"
  have "loop_step s Program p ?p" by (rule DrainOne) (use Cons in simp_all)
  moreover have "(loop_step s Program)\<^sup>*\<^sup>* ?p (?p\<lparr>sp_phase := LoopEnded, sp_queue := [],
      sp_replies := sp_replies ?p @ drainRequests (sp_queue ?p)\<rparr>)"
    by (rule Cons.hyps(1)) (use Cons in simp_all)
  ultimately show ?case
    using Cons.hyps(2) [symmetric] drainRequests_append [of "[x]" q]
    by (simp add: converse_rtranclp_into_rtranclp)
qed

text \<open>
  The drain is meant to keep clients from hanging.  It does so for what is in the channel; a
  request that is put there after it has ended, which no one prevents, is never answered.
\<close>

theorem late_requests_are_not_answered:
  assumes "(any_loop_step s)\<^sup>*\<^sup>* p p'" "sp_phase p = LoopEnded"
  shows "sp_phase p' = LoopEnded \<and> sp_replies p' = sp_replies p \<and>
    (\<exists>late. sp_sent p' = sp_sent p @ late \<and> sp_queue p' = sp_queue p @ late)"
  using assms(1)
proof (induction rule: rtranclp_induct)
  case base
  then show ?case using assms(2) by simp
next
  case (step q r)
  then show ?case by (auto simp: any_loop_step_def elim!: loop_step.cases)
qed

text \<open>Without new requests, every step of the goroutine brings it closer to its end.\<close>

fun phase_weight :: "loop_phase \<Rightarrow> nat" where
  "phase_weight LoopRunning = 2"
| "phase_weight LoopDraining = 1"
| "phase_weight _ = 0"

definition loop_weight :: "server_proc \<Rightarrow> nat" where
  "loop_weight p = length (sp_queue p) + phase_weight (sp_phase p)"

lemma loop_program_decreases: "loop_step s Program p p' \<Longrightarrow> loop_weight p' < loop_weight p"
  by (erule loop_programE) (auto simp: loop_weight_def)

lemma loop_progress:
  assumes "sp_cancelled p" "sp_phase p = LoopRunning \<or> sp_phase p = LoopDraining"
  shows "\<exists>p'. loop_step s Program p p'"
proof (cases "sp_phase p = LoopRunning")
  case True
  then show ?thesis using BeginDrain assms(1) by blast
next
  case False
  then show ?thesis using assms(2) DrainOne EndDrain by (cases "sp_queue p") blast+
qed

lemma loop_can_step:
  assumes "sp_phase p \<in> {LoopRunning, LoopDraining}" "sp_queue p \<noteq> []"
  shows "\<exists>p'. loop_step s Program p p'"
proof -
  obtain inp req q where q: "sp_queue p = (inp, req) # q" using assms(2) by (cases "sp_queue p") auto
  obtain r app' ms where h: "handleRequest s inp req (sp_app p) = (r, app', ms)" by (metis prod_cases3)
  show ?thesis using assms(1) q h Serve [OF _ q h] Crash [OF _ q] DrainOne [OF _ q]
    by (cases "r = Panic") blast+
qed

section \<open>Every request is answered\<close>

text \<open>A run of the process in which the goroutine makes \<open>n\<close> steps, whatever the others do between.\<close>

inductive loop_run :: "Server \<Rightarrow> nat \<Rightarrow> server_proc \<Rightarrow> server_proc \<Rightarrow> bool" for s where
  Start: "loop_run s 0 p p"
| Own: "loop_run s n p q \<Longrightarrow> loop_step s Program q r \<Longrightarrow> loop_run s (Suc n) p r"
| Other: "loop_run s n p q \<Longrightarrow> loop_step s a q r \<Longrightarrow> a \<noteq> Program \<Longrightarrow> loop_run s n p r"

lemma loop_run_steps: "loop_run s n p q \<Longrightarrow> (any_loop_step s)\<^sup>*\<^sup>* p q"
  by (induction rule: loop_run.induct)
    (auto simp: any_loop_step_def intro: rtranclp.rtrancl_into_rtrancl)

text \<open>The App after a list of requests, and the reply to each of them.\<close>

definition app_after :: "Server \<Rightarrow> queued list \<Rightarrow> App \<Rightarrow> App" where
  "app_after s qs app = fst (snd (server_run s qs app))"

definition reply_to :: "Server \<Rightarrow> queued list \<Rightarrow> App \<Rightarrow> nat \<Rightarrow> (error, response) outcome" where
  "reply_to s qs app j =
     (case qs ! j of (inp, req) \<Rightarrow> fst (handleRequest s inp req (app_after s (take j qs) app)))"

lemma server_run_replies:
  "server_run s qs app = (rs, app', al) \<Longrightarrow> j < length rs \<Longrightarrow> rs ! j = reply_to s qs app j"
proof (induction s qs app arbitrary: rs j rule: server_run.induct)
  case (2 s inp req rest app)
  obtain r1 app1 ms where h: "handleRequest s inp req app = (r1, app1, ms)" by (metis prod_cases3)
  obtain rs' app'' al' where t: "server_run s rest app1 = (rs', app'', al')" by (metis prod_cases3)
  show ?case
  proof (cases "r1 = Panic")
    case False
    then have rs: "rs = r1 # rs'" and al: "app' = app''" "al = al'"
      using "2.prems"(1) h t by (auto split: outcome.splits)
    show ?thesis
    proof (cases j)
      case 0
      then show ?thesis using h rs by (simp add: reply_to_def app_after_def)
    next
      case (Suc i)
      have "fst (snd (server_run s ((inp, req) # take i rest) app)) = fst (snd (server_run s (take i rest) app1))"
        using h False by (cases r1) (auto split: prod.splits)
      moreover have "rs' ! i = reply_to s rest app1 i"
        using "2.IH" h t False "2.prems"(2) rs al Suc by (cases r1) auto
      ultimately show ?thesis using rs Suc by (simp add: reply_to_def app_after_def)
    qed
  qed (use "2.prems" h in simp)
qed simp

lemma server_run_length:
  "server_run s qs app = (rs, app', True) \<Longrightarrow> length rs = length qs"
  by (induction s qs app arbitrary: rs rule: server_run.induct) (auto split: prod.splits outcome.splits)

lemma server_run_length_le:
  "server_run s qs app = (rs, app', al) \<Longrightarrow> length rs \<le> length qs"
  by (induction s qs app arbitrary: rs al rule: server_run.induct)
    (fastforce split: prod.splits outcome.splits)+

text \<open>What the replies given so far are, in any reachable state.\<close>

lemma loop_replies:
  assumes "loop_ok s app p" "j < length (sp_replies p)"
  shows "sp_replies p ! j = reply_to s (sp_sent p) app j \<or>
    sp_cancelled p \<and> sp_replies p ! j = Err ServerShuttingDown"
proof -
  obtain served drained rs where v: "sp_sent p = served @ drained @ sp_queue p"
    "server_run s served app = (rs, sp_app p, sp_phase p \<noteq> LoopCrashed)"
    "sp_replies p = rs @ drainRequests drained" "drained \<noteq> [] \<longrightarrow> sp_cancelled p"
    using assms(1) by (auto simp: loop_ok_def loop_view_def)
  show ?thesis
  proof (cases "j < length rs")
    case True
    then have j: "j < length served" using server_run_length_le [OF v(2)] by simp
    have "sp_replies p ! j = reply_to s served app j"
      using server_run_replies [OF v(2) True] True v(3) by (simp add: nth_append)
    moreover have "reply_to s (sp_sent p) app j = reply_to s served app j"
      using j v(1) by (simp add: reply_to_def nth_append)
    ultimately show ?thesis by simp
  next
    case False
    have d: "drainRequests drained ! i = Err ServerShuttingDown" if "i < length (drainRequests drained)" for i
      using that by (simp add: drainRequests_def)
    have "j - length rs < length (drainRequests drained)" using False assms(2) v(3) by simp
    moreover from this have "drained \<noteq> []" by (auto simp: drainRequests_def)
    ultimately show ?thesis using False v(3,4) d by (simp add: nth_append)
  qed
qed

lemma loop_accounting:
  assumes "loop_ok s app p" "sp_phase p \<noteq> LoopCrashed"
  shows "length (sp_sent p) = length (sp_replies p) + length (sp_queue p)"
  using assms server_run_length
  by (fastforce simp: loop_ok_def loop_view_def drainRequests_def)

text \<open>
  Every step of the goroutine answers a request, begins the drain or ends it, and it ends with
  nothing in the channel.
\<close>

lemma loop_run_counts:
  assumes "loop_run s n p q" "loop_ok s app p" "sp_phase p \<in> {LoopRunning, LoopDraining}"
    and "sp_phase q \<noteq> LoopCrashed"
  shows "sp_phase q \<in> {LoopRunning, LoopDraining, LoopEnded} \<and>
    length (sp_replies q) + phase_weight (sp_phase p) = length (sp_replies p) + n + phase_weight (sp_phase q) \<and>
    (\<exists>new. sp_sent q = sp_sent p @ new) \<and>
    (sp_phase q = LoopEnded \<longrightarrow> length (sp_sent p) \<le> length (sp_replies q))"
  using assms
proof (induction rule: loop_run.induct)
  case (Own n p q r)
  have ok: "loop_ok s app q" by (rule request_loop_keeps [OF loop_run_steps [OF Own.hyps(1)] Own.prems(1)])
  from Own.hyps(2) show ?case
  proof (cases rule: loop_step.cases)
    case EndDrain
    then show ?thesis using Own loop_accounting [OF ok] by auto
  qed (use Own in \<open>auto simp: drainRequests_def\<close>)
next
  case (Other n p q a r)
  from Other.hyps(2) show ?case
    by (cases rule: loop_step.cases) (use Other in auto)
qed auto

text \<open>
  Property C17.  Every request is answered, in the order in which the requests were put on the
  channel.  From any state the started server can be in before the end of its drain: a request that
  has been put on the channel is answered by the time the goroutine has made one step more than
  there are requests in the channel, whatever clients and whoever stops the server do in between,
  unless a request panics and takes the process down; and as long as something is in the channel
  the goroutine can make a step.  The answer to request number \<open>j\<close> is what handling it returns on
  the App that the requests before it leave, or the shutdown error once the context is cancelled.
  The App stays reachable throughout.
\<close>

theorem every_request_answered:
  assumes "(any_loop_step s)\<^sup>*\<^sup>* (server_Start s (new_proc app)) p"
    and "sp_phase p \<in> {LoopRunning, LoopDraining}" "loop_run s n p p'" "sp_phase p' \<noteq> LoopCrashed"
    and "j < length (sp_sent p)"
  shows "(length (sp_queue p) < n \<longrightarrow> j < length (sp_replies p')) \<and>
    (sp_queue p \<noteq> [] \<longrightarrow> (\<exists>p1. loop_step s Program p p1)) \<and>
    (j < length (sp_replies p') \<longrightarrow> sp_replies p' ! j = reply_to s (sp_sent p) app j \<or>
       sp_cancelled p' \<and> sp_replies p' ! j = Err ServerShuttingDown) \<and>
    (app_reachable (lib_sha1 (srv_lib s)) app \<longrightarrow> app_reachable (lib_sha1 (srv_lib s)) (sp_app p'))"
proof (intro conjI impI)
  have ok: "loop_ok s app p" by (rule request_loop.reachable_inv [OF refl assms(1)])
  have ok': "loop_ok s app p'" by (rule request_loop_keeps [OF loop_run_steps [OF assms(3)] ok])
  note counts = loop_run_counts [OF assms(3) ok assms(2,4)]
  have acc: "length (sp_sent p) = length (sp_replies p) + length (sp_queue p)"
    using loop_accounting [OF ok] assms(2) by auto
  show "j < length (sp_replies p')" if "length (sp_queue p) < n"
    using counts acc that assms(2,5) by (cases "sp_phase p'") auto
  show "\<exists>p1. loop_step s Program p p1" if "sp_queue p \<noteq> []"
    using loop_can_step [OF assms(2) that] .
  show "sp_replies p' ! j = reply_to s (sp_sent p) app j \<or>
       sp_cancelled p' \<and> sp_replies p' ! j = Err ServerShuttingDown" if "j < length (sp_replies p')"
  proof -
    obtain new where "sp_sent p' = sp_sent p @ new" using counts by blast
    then have "reply_to s (sp_sent p') app j = reply_to s (sp_sent p) app j"
      using assms(5) by (simp add: reply_to_def nth_append)
    with loop_replies [OF ok' that] show ?thesis by simp
  qed
  show "app_reachable (lib_sha1 (srv_lib s)) (sp_app p')" if "app_reachable (lib_sha1 (srv_lib s)) app"
  proof -
    obtain served rs al where "server_run s served app = (rs, sp_app p', al)"
      using ok' by (auto simp: loop_ok_def loop_view_def)
    from server_run_steps [OF this] that show ?thesis by (auto simp: app_reachable_def)
  qed
qed

section \<open>A concrete run\<close>

abbreviation count_request :: queued where
  "count_request \<equiv> (toy_inputs 7, ReqAccountCount)"

definition toy_waiting :: "queued list \<Rightarrow> server_proc" where
  "toy_waiting q = \<lparr>sp_phase = LoopRunning, sp_cancelled = False, sp_queue = q, sp_app = cert_app,
     sp_sent = q, sp_replies = []\<rparr>"

definition toy_run_end :: server_proc where
  "toy_run_end = \<lparr>sp_phase = LoopEnded, sp_cancelled = True, sp_queue = [], sp_app = cert_app,
     sp_sent = [count_request, count_request], sp_replies = [Ok (AccountCountResponse 2), Err ServerShuttingDown]\<rparr>"

lemma count_handled: "handleRequest toy_server (toy_inputs 7) ReqAccountCount cert_app =
    (Ok (AccountCountResponse 2), cert_app, [])"
  by (simp add: handleRequest_def publishEvent_def concrete_simps AccountCount_def)

lemma toy_run: "(any_loop_step toy_server)\<^sup>*\<^sup>* (server_Start toy_server (new_proc cert_app)) toy_run_end"
proof -
  let ?P = "\<lambda>ph c q r snt. \<lparr>sp_phase = ph, sp_cancelled = c, sp_queue = q, sp_app = cert_app, sp_sent = snt, sp_replies = r\<rparr>"
  let ?x = count_request and ?r = "[Ok (AccountCountResponse 2)]"
  have step: "loop_step toy_server a p p' \<Longrightarrow> (any_loop_step toy_server)\<^sup>*\<^sup>* p' p'' \<Longrightarrow>
      (any_loop_step toy_server)\<^sup>*\<^sup>* p p''" for a p p' p''
    by (rule converse_rtranclp_into_rtranclp) (auto simp: any_loop_step_def)
  have "loop_step toy_server Outside (?P LoopRunning False [] [] []) (?P LoopRunning False [?x] [] [?x])"
    using Enqueue [of "?P LoopRunning False [] [] []" _ ?x] by (simp add: requestChan_cap_def)
  moreover have "loop_step toy_server Program (?P LoopRunning False [?x] [] [?x]) (?P LoopRunning False [] ?r [?x])"
    using Serve [of "?P LoopRunning False [?x] [] [?x]"] by (simp add: count_handled)
  moreover have "loop_step toy_server Stopper (?P LoopRunning False [] ?r [?x]) (?P LoopRunning True [] ?r [?x])"
    using Cancel [of "?P LoopRunning False [] ?r [?x]"] by simp
  moreover have "loop_step toy_server Program (?P LoopRunning True [] ?r [?x]) (?P LoopDraining True [] ?r [?x])"
    using BeginDrain [of "?P LoopRunning True [] ?r [?x]"] by simp
  moreover have "loop_step toy_server Outside (?P LoopDraining True [] ?r [?x]) (?P LoopDraining True [?x] ?r [?x, ?x])"
    using Enqueue [of "?P LoopDraining True [] ?r [?x]" _ ?x] by (simp add: requestChan_cap_def)
  moreover have "(loop_step toy_server Program)\<^sup>*\<^sup>* (?P LoopDraining True [?x] ?r [?x, ?x]) toy_run_end"
    using drain_completes [of "?P LoopDraining True [?x] ?r [?x, ?x]"] by (simp add: toy_run_end_def drainRequests_def)
  then have "(any_loop_step toy_server)\<^sup>*\<^sup>* (?P LoopDraining True [?x] ?r [?x, ?x]) toy_run_end"
    by (rule rtranclp_mono [THEN predicate2D, rotated]) (auto simp: any_loop_step_def)
  ultimately have "(any_loop_step toy_server)\<^sup>*\<^sup>* (?P LoopRunning False [] [] []) toy_run_end"
    by (blast intro: step)
  then show ?thesis by (simp add: server_Start_def new_proc_def toy_server_def NewWithCA_def)
qed

theorem loop_refines_server_run_witness:
  "\<exists>served drained rs. sp_sent toy_run_end = served @ drained @ sp_queue toy_run_end \<and>
    server_run toy_server served cert_app = (rs, sp_app toy_run_end, True) \<and>
    sp_replies toy_run_end = rs @ drainRequests drained"
  using loop_refines_server_run [OF toy_run] by (auto simp: toy_run_end_def)

theorem every_request_answered_witness:
  "\<exists>p'. loop_run toy_server 2 (toy_waiting [count_request]) p' \<and>
     sp_replies p' ! 0 = Ok (AccountCountResponse 2)"
proof -
  let ?P = "\<lambda>ph c q r. \<lparr>sp_phase = ph, sp_cancelled = c, sp_queue = q, sp_app = cert_app,
      sp_sent = [count_request], sp_replies = r\<rparr>"
  let ?r = "[Ok (AccountCountResponse 2)]"
  have "loop_step toy_server Program (toy_waiting [count_request]) (?P LoopRunning False [] ?r)"
    using Serve [of "toy_waiting [count_request]"] by (simp add: toy_waiting_def count_handled)
  then have "loop_run toy_server 1 (toy_waiting [count_request]) (?P LoopRunning False [] ?r)"
    using Own [OF Start] by simp
  moreover have "loop_step toy_server Stopper (?P LoopRunning False [] ?r) (?P LoopRunning True [] ?r)"
    using Cancel [of "?P LoopRunning False [] ?r"] by simp
  ultimately have "loop_run toy_server 1 (toy_waiting [count_request]) (?P LoopRunning True [] ?r)"
    by (rule Other) simp
  moreover have "loop_step toy_server Program (?P LoopRunning True [] ?r) (?P LoopDraining True [] ?r)"
    using BeginDrain [of "?P LoopRunning True [] ?r"] by simp
  ultimately have run: "loop_run toy_server (Suc 1) (toy_waiting [count_request]) (?P LoopDraining True [] ?r)"
    by (rule Own)
  have "loop_step toy_server Outside (toy_waiting []) (toy_waiting [count_request])"
    using Enqueue [of "toy_waiting []" _ count_request] by (simp add: requestChan_cap_def toy_waiting_def)
  then have "(any_loop_step toy_server)\<^sup>*\<^sup>* (server_Start toy_server (new_proc cert_app)) (toy_waiting [count_request])"
    by (auto simp: any_loop_step_def toy_waiting_def server_Start_def new_proc_def toy_server_def NewWithCA_def
        intro!: r_into_rtranclp)
  from every_request_answered [OF this _ run, of 0]
  have "0 < length (sp_replies (?P LoopDraining True [] ?r))" by (simp add: toy_waiting_def)
  with run show ?thesis by (intro exI [of _ "?P LoopDraining True [] ?r"]) (simp add: numeral_2_eq_2)
qed

end
