(* ===== verification/Lifecycle.thy ===== *)
theory Lifecycle
  imports Routes Loop
begin

text \<open>
  Starting and stopping: the goroutines of a virtual app (\<^verbatim>\<open>internal/server/virtual_app.go\<close>) and of
  its transports (\<^verbatim>\<open>transport/rest/rest.go\<close>, \<^verbatim>\<open>transport/connect/connect.go\<close>,
  \<^verbatim>\<open>transport/tui/tui.go\<close>), and \<^verbatim>\<open>Stop\<close> of the server, which stops every virtual app and then its own
  loop.  \<^verbatim>\<open>http.Server\<close> is taken as documented: after \<^verbatim>\<open>Shutdown\<close> it accepts nothing, whether or not
  \<^verbatim>\<open>ListenAndServe\<close> had been reached.
\<close>

section \<open>Transports\<close>

text \<open>
  The \<^verbatim>\<open>http.Server\<close> of a transport: not made yet, listening, refused by the network (which is
  logged only), or shut down; and how far the goroutine has got that runs \<^verbatim>\<open>Start\<close>.
\<close>

datatype listener = NoServer | Serving | Refused | ShutDown

datatype routine = Launched | Waiting | Returned

record transport_run =
  tn_kind :: transport_kind
  tn_listener :: listener
  tn_routine :: routine

definition launch :: "transport_kind \<Rightarrow> transport_run" where
  "launch k = \<lparr>tn_kind = k, tn_listener = NoServer, tn_routine = Launched\<rparr>"

text \<open>
  \<^verbatim>\<open>Stop\<close> of the three transports: a server that is there is shut down; the terminal has nothing to
  stop.
\<close>

definition rest_Stop :: "transport_run \<Rightarrow> transport_run" where
  "rest_Stop t = (if tn_listener t = NoServer then t else t\<lparr>tn_listener := ShutDown\<rparr>)"

definition connect_Stop :: "transport_run \<Rightarrow> transport_run" where
  "connect_Stop t = (if tn_listener t = NoServer then t else t\<lparr>tn_listener := ShutDown\<rparr>)"

definition tui_Stop :: "transport_run \<Rightarrow> transport_run" where
  "tui_Stop t = t"

definition transport_Stop :: "transport_run \<Rightarrow> transport_run" where
  "transport_Stop t =
     (case tn_kind t of RestT _ \<Rightarrow> rest_Stop t | ConnectT _ _ \<Rightarrow> connect_Stop t | TuiT \<Rightarrow> tui_Stop t)"

text \<open>
  \<^verbatim>\<open>Start\<close> up to its wait.  \<open>free\<close> says whether the address can be listened on; Connect returns at once
  when its validator cannot be built.  The terminal runs its program, whatever the context.
\<close>

definition listen :: "bool \<Rightarrow> transport_run \<Rightarrow> transport_run" where
  "listen free t = t\<lparr>tn_listener := if free then Serving else Refused, tn_routine := Waiting\<rparr>"

definition rest_Start :: "bool \<Rightarrow> transport_run \<Rightarrow> transport_run" where
  "rest_Start free t = listen free t"

definition connect_Start :: "bool \<Rightarrow> bool \<Rightarrow> transport_run \<Rightarrow> transport_run" where
  "connect_Start validator free t = (if validator then listen free t else t\<lparr>tn_routine := Returned\<rparr>)"

definition tui_Start :: "transport_run \<Rightarrow> transport_run" where
  "tui_Start t = t\<lparr>tn_routine := Waiting\<rparr>"

text \<open>After the context is done the HTTP transports stop themselves and return.\<close>

inductive start_step :: "bool \<Rightarrow> transport_run \<Rightarrow> transport_run \<Rightarrow> bool" for cancelled where
  StartRest: "tn_routine t = Launched \<Longrightarrow> tn_kind t = RestT address \<Longrightarrow>
    start_step cancelled t (rest_Start free t)"
| StartConnect: "tn_routine t = Launched \<Longrightarrow> tn_kind t = ConnectT address admin \<Longrightarrow>
    start_step cancelled t (connect_Start validator free t)"
| StartTui: "tn_routine t = Launched \<Longrightarrow> tn_kind t = TuiT \<Longrightarrow> start_step cancelled t (tui_Start t)"
| ContextDone: "cancelled \<Longrightarrow> tn_routine t = Waiting \<Longrightarrow> tn_kind t \<noteq> TuiT \<Longrightarrow>
    start_step cancelled t ((transport_Stop t)\<lparr>tn_routine := Returned\<rparr>)"

lemmas transport_defs = rest_Stop_def connect_Stop_def tui_Stop_def transport_Stop_def listen_def
  rest_Start_def connect_Start_def tui_Start_def

text \<open>The program of the terminal ends when its user quits.\<close>

definition user_quits :: "transport_run \<Rightarrow> transport_run option" where
  "user_quits t =
     (if tn_kind t = TuiT \<and> tn_routine t = Waiting then Some (t\<lparr>tn_routine := Returned\<rparr>) else None)"

section \<open>Virtual apps\<close>

record vapp_run =
  vr_cancelled :: bool
  vr_busOpen :: bool
  vr_transports :: "transport_kind list"
  vr_runs :: "transport_run list"

definition new_vapp_run :: "transport_kind list \<Rightarrow> vapp_run" where
  "new_vapp_run ks = \<lparr>vr_cancelled = False, vr_busOpen = True, vr_transports = ks, vr_runs = []\<rparr>"

text \<open>\<^verbatim>\<open>Start\<close> launches a goroutine for every transport; it is called once.\<close>

definition vapp_Start :: "vapp_run \<Rightarrow> vapp_run" where
  "vapp_Start v = v\<lparr>vr_runs := map launch (vr_transports v)\<rparr>"

text \<open>\<^verbatim>\<open>Stop\<close> up to its wait, and the condition of the wait.\<close>

definition vapp_Stop :: "vapp_run \<Rightarrow> vapp_run" where
  "vapp_Stop v = v\<lparr>vr_cancelled := True, vr_busOpen := False, vr_runs := map transport_Stop (vr_runs v)\<rparr>"

definition vapp_waited :: "vapp_run \<Rightarrow> bool" where
  "vapp_waited v \<longleftrightarrow> list_all (\<lambda>t. tn_routine t = Returned) (vr_runs v)"

inductive vapp_step :: "actor \<Rightarrow> vapp_run \<Rightarrow> vapp_run \<Rightarrow> bool" where
  Goroutine: "i < length (vr_runs v) \<Longrightarrow> start_step (vr_cancelled v) (vr_runs v ! i) t \<Longrightarrow>
    vapp_step Program v (v\<lparr>vr_runs := (vr_runs v)[i := t]\<rparr>)"
| Quit: "i < length (vr_runs v) \<Longrightarrow> user_quits (vr_runs v ! i) = Some t \<Longrightarrow>
    vapp_step Outside v (v\<lparr>vr_runs := (vr_runs v)[i := t]\<rparr>)"

inductive_cases vapp_programE: "vapp_step Program v v'"

text \<open>A goroutine that has returned leaves no listener behind, and one that has not begun has none.\<close>

definition run_ok :: "transport_run \<Rightarrow> bool" where
  "run_ok t \<longleftrightarrow>
     (tn_routine t = Launched \<or> tn_kind t = TuiT \<longrightarrow> tn_listener t = NoServer) \<and>
     (tn_routine t = Returned \<longrightarrow> tn_listener t \<noteq> Serving)"

definition vapp_ok :: "vapp_run \<Rightarrow> bool" where
  "vapp_ok v \<longleftrightarrow> list_all run_ok (vr_runs v)"

lemma run_ok_steps:
  "run_ok (launch k)"
  "run_ok t \<Longrightarrow> run_ok (transport_Stop t)"
  "start_step c t t' \<Longrightarrow> run_ok t \<Longrightarrow> run_ok t'"
  "user_quits t = Some t' \<Longrightarrow> run_ok t \<Longrightarrow> run_ok t'"
  by (auto simp: run_ok_def launch_def transport_defs user_quits_def elim!: start_step.cases
      split: if_splits transport_kind.splits)

lemma transport_Stop_frame [simp]:
  "tn_routine (transport_Stop t) = tn_routine t" "tn_kind (transport_Stop t) = tn_kind t"
  by (simp_all add: transport_defs split: transport_kind.split)

lemma vapp_ok_start: "vapp_ok (vapp_Start (new_vapp_run ks))"
  by (simp add: vapp_ok_def vapp_Start_def list_all_iff run_ok_steps)

lemma vapp_ok_Stop: "vapp_ok v \<Longrightarrow> vapp_ok (vapp_Stop v)"
  by (auto simp: vapp_ok_def vapp_Stop_def list_all_iff run_ok_steps)

lemma vapp_ok_step: "vapp_step a v v' \<Longrightarrow> vapp_ok v \<Longrightarrow> vapp_ok v'"
  by (erule vapp_step.cases) (auto simp: vapp_ok_def list_all_length nth_list_update intro: run_ok_steps)

lemma stopped_serves_nothing:
  "vapp_ok v \<Longrightarrow> vapp_waited v \<Longrightarrow> t \<in> set (vr_runs v) \<Longrightarrow> tn_listener t \<noteq> Serving"
  by (auto simp: vapp_ok_def vapp_waited_def run_ok_def list_all_iff)

lemma waited_is_final: "vapp_waited v \<Longrightarrow> \<not> vapp_step a v v'"
  by (auto simp: vapp_waited_def list_all_length user_quits_def elim!: vapp_step.cases start_step.cases)

lemma waited_Stop: "vapp_waited (vapp_Stop v) \<longleftrightarrow> vapp_waited v"
  by (simp add: vapp_waited_def vapp_Stop_def list_all_iff)

section \<open>Termination of the goroutines\<close>

fun routine_weight :: "routine \<Rightarrow> nat" where
  "routine_weight Launched = 2"
| "routine_weight Waiting = 1"
| "routine_weight Returned = 0"

definition vapp_weight :: "vapp_run \<Rightarrow> nat" where
  "vapp_weight v = sum_list (map (\<lambda>t. routine_weight (tn_routine t)) (vr_runs v))"

lemma sum_list_decreases:
  "i < length xs \<Longrightarrow> (f x :: nat) < f (xs ! i) \<Longrightarrow> sum_list (map f (xs[i := x])) < sum_list (map f xs)"
  by (induction xs arbitrary: i) (auto split: nat.splits simp: less_Suc_eq_0_disj nth_Cons')

lemma start_step_weight: "start_step c t t' \<Longrightarrow> routine_weight (tn_routine t') < routine_weight (tn_routine t)"
  by (erule start_step.cases) (auto simp: rest_Start_def connect_Start_def listen_def tui_Start_def)

lemma vapp_step_decreases: "vapp_step a v v' \<Longrightarrow> vapp_weight v' < vapp_weight v"
  by (erule vapp_step.cases)
    (auto simp: vapp_weight_def user_quits_def start_step_weight intro!: sum_list_decreases split: if_splits)

lemma Stop_weight [simp]: "vapp_weight (vapp_Stop v) = vapp_weight v"
  by (simp add: vapp_weight_def vapp_Stop_def o_def)

text \<open>A stopped virtual app whose goroutines cannot go on has ended, but for a terminal still in use.\<close>

definition terminal_in_use :: "vapp_run \<Rightarrow> bool" where
  "terminal_in_use v \<longleftrightarrow> (\<exists>t\<in>set (vr_runs v). tn_kind t = TuiT \<and> tn_routine t = Waiting)"

lemma vapp_progress:
  assumes "vr_cancelled v" "\<not> vapp_waited v" "\<not> terminal_in_use v"
  shows "\<exists>v'. vapp_step Program v v'"
proof -
  obtain i where i: "i < length (vr_runs v)" "tn_routine (vr_runs v ! i) \<noteq> Returned"
    using assms(2) by (auto simp: vapp_waited_def list_all_length)
  with assms(3) have "tn_kind (vr_runs v ! i) \<noteq> TuiT \<or> tn_routine (vr_runs v ! i) = Launched"
    by (cases "tn_routine (vr_runs v ! i)") (auto simp: terminal_in_use_def)
  then have "\<exists>t. start_step (vr_cancelled v) (vr_runs v ! i) t"
    using i(2) assms(1) start_step.intros
    by (cases "tn_routine (vr_runs v ! i)"; cases "tn_kind (vr_runs v ! i)") (blast | simp)+
  with i(1) show ?thesis using Goroutine by blast
qed

end
