(* ===== verification/Shutdown.thy ===== *)
theory Shutdown
  imports Lifecycle
begin

text \<open>
  The running process: its virtual apps, the server's goroutine and \<^verbatim>\<open>Stop\<close> of
  \<^verbatim>\<open>internal/server/server.go\<close>, which stops the virtual apps one after the other, cancels the
  server's context and waits for the goroutine.  \<open>order\<close> is the order in which the virtual apps are
  stopped: the listing of the registry, which is the order of a Go map, behind the terminal's app
  when \<^verbatim>\<open>main\<close> stops that one itself.
\<close>

section \<open>The process\<close>

datatype stop_phase = Up | StoppingApps "nat list" | StoppingLoop | Down

record world =
  wo_vapps :: "vapp_run list"
  wo_loop :: server_proc
  wo_stop :: stop_phase

definition not_crashed :: "world \<Rightarrow> bool" where
  "not_crashed w \<longleftrightarrow> sp_phase (wo_loop w) \<noteq> LoopCrashed"

text \<open>The loop of \<^verbatim>\<open>Stop\<close> at the apps that are left: stop the next one, or cancel the context.\<close>

fun stop_apps :: "nat list \<Rightarrow> world \<Rightarrow> world" where
  "stop_apps [] w = w\<lparr>wo_loop := (wo_loop w)\<lparr>sp_cancelled := True\<rparr>, wo_stop := StoppingLoop\<rparr>"
| "stop_apps (k # ks) w =
     w\<lparr>wo_vapps := (wo_vapps w)[k := vapp_Stop (wo_vapps w ! k)], wo_stop := StoppingApps (k # ks)\<rparr>"

inductive world_step :: "Server \<Rightarrow> nat list \<Rightarrow> actor \<Rightarrow> world \<Rightarrow> world \<Rightarrow> bool" for s order where
  AppStep: "not_crashed w \<Longrightarrow> k < length (wo_vapps w) \<Longrightarrow> vapp_step a (wo_vapps w ! k) v \<Longrightarrow>
    world_step s order a w (w\<lparr>wo_vapps := (wo_vapps w)[k := v]\<rparr>)"
| LoopStep: "loop_step s a (wo_loop w) p \<Longrightarrow> a \<noteq> Stopper \<Longrightarrow> world_step s order a w (w\<lparr>wo_loop := p\<rparr>)"
| BeginStop: "not_crashed w \<Longrightarrow> wo_stop w = Up \<Longrightarrow> world_step s order Stopper w (stop_apps order w)"
| NextApp: "not_crashed w \<Longrightarrow> wo_stop w = StoppingApps (k # ks) \<Longrightarrow> vapp_waited (wo_vapps w ! k) \<Longrightarrow>
    world_step s order Program w (stop_apps ks w)"
| Joined: "not_crashed w \<Longrightarrow> wo_stop w = StoppingLoop \<Longrightarrow>
    sp_phase (wo_loop w) = LoopNew \<or> sp_phase (wo_loop w) = LoopEnded \<Longrightarrow>
    world_step s order Program w (w\<lparr>wo_stop := Down\<rparr>)"

inductive_cases world_programE: "world_step s order Program w w'"

definition any_world_step :: "Server \<Rightarrow> nat list \<Rightarrow> world \<Rightarrow> world \<Rightarrow> bool" where
  "any_world_step s order w w' \<longleftrightarrow> (\<exists>a. world_step s order a w w')"

text \<open>The process once everything has been launched; each virtual app has the transports of \<open>kss\<close>.\<close>

definition world_start :: "Server \<Rightarrow> App \<Rightarrow> transport_kind list list \<Rightarrow> world" where
  "world_start s app kss =
     \<lparr>wo_vapps = map (\<lambda>ks. vapp_Start (new_vapp_run ks)) kss, wo_loop = server_Start s (new_proc app), wo_stop = Up\<rparr>"

section \<open>Invariant\<close>

definition halted :: "vapp_run \<Rightarrow> bool" where
  "halted v \<longleftrightarrow> vapp_waited v \<and> vr_cancelled v \<and> \<not> vr_busOpen v"

lemma halted_Stop: "vapp_waited v \<Longrightarrow> halted (vapp_Stop v)"
  by (simp add: halted_def waited_Stop) (simp add: vapp_Stop_def)

lemma halted_stays: "halted v \<Longrightarrow> halted (vapp_Stop v)"
  by (rule halted_Stop) (simp add: halted_def)

lemma halted_final: "halted v \<Longrightarrow> \<not> vapp_step a v v'"
  by (simp add: halted_def waited_is_final)

definition halted_at :: "world \<Rightarrow> nat set \<Rightarrow> bool" where
  "halted_at w ks \<longleftrightarrow> (\<forall>k\<in>ks. halted (wo_vapps w ! k))"

fun stop_ok :: "nat list \<Rightarrow> world \<Rightarrow> stop_phase \<Rightarrow> bool" where
  "stop_ok order w Up \<longleftrightarrow> True"
| "stop_ok order w (StoppingApps ks) \<longleftrightarrow>
     (\<exists>stopped k rest. ks = k # rest \<and> order = stopped @ ks \<and> halted_at w (set stopped) \<and>
       vr_cancelled (wo_vapps w ! k) \<and> \<not> vr_busOpen (wo_vapps w ! k))"
| "stop_ok order w StoppingLoop \<longleftrightarrow> halted_at w (set order) \<and> sp_cancelled (wo_loop w)"
| "stop_ok order w Down \<longleftrightarrow> halted_at w (set order) \<and> sp_cancelled (wo_loop w) \<and>
     (sp_phase (wo_loop w) = LoopNew \<or> sp_phase (wo_loop w) = LoopEnded)"

definition world_ok :: "Server \<Rightarrow> App \<Rightarrow> nat \<Rightarrow> nat list \<Rightarrow> world \<Rightarrow> bool" where
  "world_ok s app n order w \<longleftrightarrow>
     loop_ok s app (wo_loop w) \<and> (srv_verifier s \<noteq> None \<longrightarrow> sp_phase (wo_loop w) \<noteq> LoopNew) \<and>
     length (wo_vapps w) = n \<and> list_all vapp_ok (wo_vapps w) \<and> stop_ok order w (wo_stop w)"

lemma world_ok_start: "world_ok s app (length kss) order (world_start s app kss)"
proof -
  have "srv_verifier s \<noteq> None \<longrightarrow> sp_phase (server_Start s (new_proc app)) \<noteq> LoopNew"
    by (simp add: server_Start_def)
  then show ?thesis by (simp add: world_ok_def world_start_def loop_ok_start list_all_iff vapp_ok_start)
qed

lemma stop_apps_ok:
  assumes "set order \<subseteq> {..<length (wo_vapps w)}" "order = stopped @ ks" "halted_at w (set stopped)"
  shows "stop_ok order (stop_apps ks w) (wo_stop (stop_apps ks w))"
proof (cases ks)
  case (Cons k rest)
  have k: "k < length (wo_vapps w)" using assms(1,2) Cons by auto
  have "halted ((wo_vapps w)[k := vapp_Stop (wo_vapps w ! k)] ! i)" if "i \<in> set stopped" for i
    using that assms(3) k by (auto simp: halted_at_def nth_list_update intro: halted_stays)
  with k show ?thesis using assms(2) Cons
    by (auto simp: halted_at_def vapp_Stop_def)
qed (use assms(2,3) in \<open>simp add: halted_at_def\<close>)

lemma vapp_step_keeps: "vapp_step a v v' \<Longrightarrow> vr_cancelled v' = vr_cancelled v \<and> vr_busOpen v' = vr_busOpen v"
  by (erule vapp_step.cases) auto

lemma vapp_step_keeps_at:
  assumes "vapp_step a (vs ! k) v"
  shows "vr_cancelled (vs[k := v] ! j) = vr_cancelled (vs ! j)" "vr_busOpen (vs[k := v] ! j) = vr_busOpen (vs ! j)"
proof -
  have "vs[k := v] ! j = v \<and> j = k \<or> vs[k := v] ! j = vs ! j"
    by (metis list_update_beyond not_le nth_list_update_eq nth_list_update_neq)
  then show "vr_cancelled (vs[k := v] ! j) = vr_cancelled (vs ! j)" "vr_busOpen (vs[k := v] ! j) = vr_busOpen (vs ! j)"
    using vapp_step_keeps [OF assms] by auto
qed

lemma loop_step_keeps:
  "loop_step s a p p' \<Longrightarrow> sp_cancelled p \<Longrightarrow> sp_cancelled p'"
  "loop_step s a p p' \<Longrightarrow> sp_phase p \<noteq> LoopNew \<Longrightarrow> sp_phase p' \<noteq> LoopNew"
  "loop_step s a p p' \<Longrightarrow> sp_phase p = LoopNew \<or> sp_phase p = LoopEnded \<Longrightarrow> sp_phase p' = sp_phase p"
  by (auto elim!: loop_step.cases)

lemma stop_ok_vapp:
  assumes "stop_ok order w st" "vapp_step a (wo_vapps w ! k) v"
  shows "stop_ok order (w\<lparr>wo_vapps := (wo_vapps w)[k := v]\<rparr>) st"
proof -
  have "halted_at (w\<lparr>wo_vapps := (wo_vapps w)[k := v]\<rparr>) ks" if "halted_at w ks" for ks
  proof -
    have "k \<notin> ks" using that assms(2) by (auto simp: halted_at_def dest: halted_final)
    then show ?thesis using that by (auto simp: halted_at_def) (metis nth_list_update_neq)
  qed
  with assms(1) show ?thesis
    by (cases st) (auto simp: vapp_step_keeps_at [OF assms(2)])
qed

lemma stop_ok_loop:
  assumes "stop_ok order w st" "loop_step s a (wo_loop w) p"
  shows "stop_ok order (w\<lparr>wo_loop := p\<rparr>) st"
  using assms(1) loop_step_keeps(1,3) [OF assms(2)] by (cases st) (auto simp: halted_at_def)

lemma stop_apps_frame:
  "length (wo_vapps (stop_apps ks w)) = length (wo_vapps w)"
  "set ks \<subseteq> {..<length (wo_vapps w)} \<Longrightarrow> list_all vapp_ok (wo_vapps w) \<Longrightarrow> list_all vapp_ok (wo_vapps (stop_apps ks w))"
  "sp_phase (wo_loop (stop_apps ks w)) = sp_phase (wo_loop w)"
  "not_crashed w \<Longrightarrow> loop_ok s app (wo_loop w) \<Longrightarrow> loop_ok s app (wo_loop (stop_apps ks w))"
  subgoal by (cases ks) simp_all
  subgoal by (cases ks) (auto simp: list_all_length nth_list_update vapp_ok_Stop)
  subgoal by (cases ks) simp_all
  subgoal by (cases ks) (auto simp: not_crashed_def intro: loop_ok_step loop_step.Cancel)
  done

lemma stop_apps_world:
  assumes "world_ok s app n order w" "not_crashed w" "set order \<subseteq> {..<n}" "order = stopped @ ks" "halted_at w (set stopped)"
  shows "world_ok s app n order (stop_apps ks w)"
proof -
  have n: "length (wo_vapps w) = n" using assms(1) by (simp add: world_ok_def)
  have "stop_ok order (stop_apps ks w) (wo_stop (stop_apps ks w))"
    by (rule stop_apps_ok) (use assms(3,4,5) n in simp_all)
  moreover have "set ks \<subseteq> {..<length (wo_vapps w)}" using assms(3,4) n by auto
  ultimately show ?thesis
    using assms(1,2) by (simp add: world_ok_def stop_apps_frame)
qed

lemma world_ok_step:
  assumes "world_step s order a w w'" "world_ok s app n order w" "set order \<subseteq> {..<n}"
  shows "world_ok s app n order w'"
  using assms(1)
proof (cases rule: world_step.cases)
  case (AppStep k v)
  with assms(2) show ?thesis
    by (auto simp: world_ok_def stop_ok_vapp list_all_length nth_list_update intro: vapp_ok_step)
next
  case (LoopStep p)
  with assms(2) show ?thesis
    by (auto simp: world_ok_def stop_ok_loop loop_ok_step dest: loop_step_keeps(2))
next
  case BeginStop
  then show ?thesis using stop_apps_world [OF assms(2) _ assms(3), of "[]" order] by (simp add: halted_at_def)
next
  case (NextApp k ks)
  with assms(2) obtain stopped where st: "order = stopped @ k # ks" "halted_at w (set stopped)" "halted (wo_vapps w ! k)"
    by (auto simp: world_ok_def halted_def)
  then have "halted_at w (set (stopped @ [k]))" by (auto simp: halted_at_def)
  with stop_apps_world [OF assms(2) NextApp(3) assms(3), of "stopped @ [k]" ks] st(1) NextApp(2)
  show ?thesis by simp
next
  case Joined
  with assms(2) show ?thesis by (auto simp: world_ok_def halted_at_def)
qed

text \<open>What holds as long as the apps to be stopped are those that are there.\<close>

interpretation process: transition_invariant "\<lambda>w. w = world_start s app kss"
    "\<lambda>w w'. any_world_step s order w w'"
    "\<lambda>w. set order \<subseteq> {..<length kss} \<longrightarrow> world_ok s app (length kss) order w" for s app kss order
  by unfold_locales (auto simp: world_ok_start any_world_step_def intro: world_ok_step)

lemma world_reachable_ok:
  "(any_world_step s order)\<^sup>*\<^sup>* (world_start s app kss) w \<Longrightarrow> set order \<subseteq> {..<length kss} \<Longrightarrow>
     world_ok s app (length kss) order w"
  using process.reachable_inv [OF refl] by blast

section \<open>What is left when Stop returns\<close>

text \<open>
  Nothing runs any more: no bus is open, every goroutine has returned and no HTTP server accepts
  connections, and the loop has ended after serving and then draining what was on the channel.
\<close>

definition shut_down :: "Server \<Rightarrow> App \<Rightarrow> world \<Rightarrow> bool" where
  "shut_down s app w \<longleftrightarrow>
     list_all (\<lambda>v. \<not> vr_busOpen v \<and> list_all (\<lambda>t. tn_routine t = Returned \<and> tn_listener t \<noteq> Serving) (vr_runs v))
       (wo_vapps w) \<and>
     sp_phase (wo_loop w) = LoopEnded \<and>
     (\<exists>served drained rs. sp_sent (wo_loop w) = served @ drained @ sp_queue (wo_loop w) \<and>
        server_run s served app = (rs, sp_app (wo_loop w), True) \<and>
        sp_replies (wo_loop w) = rs @ drainRequests drained)"

lemma down_halted:
  assumes "world_ok s app n order w" "set order = {..<n}" "wo_stop w = Down" "k < length (wo_vapps w)"
  shows "halted (wo_vapps w ! k)"
  using assms by (auto simp: world_ok_def halted_at_def)

lemma down_is_shut_down:
  assumes "(any_world_step s order)\<^sup>*\<^sup>* (world_start s app kss) w" "set order = {..<length kss}"
    and "wo_stop w = Down" "srv_verifier s = Some v"
  shows "shut_down s app w"
proof -
  have ok: "world_ok s app (length kss) order w" using world_reachable_ok [OF assms(1)] assms(2) by simp
  then have vapps: "list_all (\<lambda>v. halted v \<and> vapp_ok v) (wo_vapps w)"
    using down_halted [OF ok assms(2,3)] by (auto simp: world_ok_def list_all_length)
  have ended: "sp_phase (wo_loop w) = LoopEnded" using ok assms(3,4) by (auto simp: world_ok_def)
  have "list_all (\<lambda>v. \<not> vr_busOpen v \<and> list_all (\<lambda>t. tn_routine t = Returned \<and> tn_listener t \<noteq> Serving) (vr_runs v))
      (wo_vapps w)"
    using vapps by (rule list.pred_mono_strong) (auto simp: halted_def vapp_waited_def list_all_iff stopped_serves_nothing)
  then show ?thesis
    using ok ended by (auto simp: shut_down_def world_ok_def loop_ok_def loop_view_def)
qed


section \<open>Termination\<close>

fun stop_weight :: "stop_phase \<Rightarrow> nat" where
  "stop_weight (StoppingApps ks) = Suc (length ks)"
| "stop_weight StoppingLoop = 1"
| "stop_weight _ = 0"

definition world_weight :: "world \<Rightarrow> nat" where
  "world_weight w = sum_list (map vapp_weight (wo_vapps w)) + loop_weight (wo_loop w) + stop_weight (wo_stop w)"

lemma map_same: "f x = f (xs ! k) \<Longrightarrow> map f (xs[k := x]) = map f xs"
  by (induction xs arbitrary: k) (auto split: nat.splits)

lemma stop_apps_weight:
  "sum_list (map vapp_weight (wo_vapps (stop_apps ks w))) = sum_list (map vapp_weight (wo_vapps w))"
  "loop_weight (wo_loop (stop_apps ks w)) = loop_weight (wo_loop w)"
  "stop_weight (wo_stop (stop_apps ks w)) = Suc (length ks)"
  by (cases ks; simp add: loop_weight_def map_same)+

lemma world_step_decreases: "world_step s order Program w w' \<Longrightarrow> world_weight w' < world_weight w"
  by (erule world_programE)
    (auto simp: world_weight_def stop_apps_weight dest: loop_program_decreases vapp_step_decreases
      intro!: sum_list_decreases)

lemma world_run_length: "(world_step s order Program ^^ n) w w' \<Longrightarrow> n + world_weight w' \<le> world_weight w"
  by (induction n arbitrary: w') (fastforce dest: world_step_decreases)+

lemma world_progress:
  assumes "world_ok s app n order w" "set order \<subseteq> {..<n}" "wo_stop w \<noteq> Up" "wo_stop w \<noteq> Down" "not_crashed w"
    and "\<And>v. v \<in> set (wo_vapps w) \<Longrightarrow> \<not> terminal_in_use v"
  shows "\<exists>w'. world_step s order Program w w'"
proof (cases "wo_stop w")
  case (StoppingApps ks)
  then obtain stopped k rest where st: "ks = k # rest" "order = stopped @ ks" "vr_cancelled (wo_vapps w ! k)"
    using assms(1) by (auto simp: world_ok_def)
  have k: "k < length (wo_vapps w)" using assms(1,2) st by (auto simp: world_ok_def)
  show ?thesis
  proof (cases "vapp_waited (wo_vapps w ! k)")
    case True
    then show ?thesis using NextApp assms(5) StoppingApps st(1) by blast
  next
    case False
    then obtain v where "vapp_step Program (wo_vapps w ! k) v"
      using vapp_progress st(3) k assms(6) by (metis nth_mem)
    then show ?thesis using AppStep assms(5) k by blast
  qed
next
  case StoppingLoop
  with assms(1) have "sp_cancelled (wo_loop w)" by (simp add: world_ok_def)
  then show ?thesis
    using loop_progress [of "wo_loop w" s] LoopStep Joined StoppingLoop assms(5)
    by (cases "sp_phase (wo_loop w)") (blast | simp add: not_crashed_def)+
qed (use assms(3,4) in simp_all)

text \<open>The kinds of the transports never change.\<close>

definition world_kinds :: "world \<Rightarrow> transport_kind list list" where
  "world_kinds w = map (\<lambda>v. map tn_kind (vr_runs v)) (wo_vapps w)"

lemma start_step_kind: "start_step c t t' \<Longrightarrow> tn_kind t' = tn_kind t"
  by (erule start_step.cases) (simp_all add: rest_Start_def connect_Start_def listen_def tui_Start_def)

lemma vapp_step_kinds: "vapp_step a v v' \<Longrightarrow> map tn_kind (vr_runs v') = map tn_kind (vr_runs v)"
  by (erule vapp_step.cases)
    (auto simp: user_quits_def dest: start_step_kind intro!: map_same split: if_splits)

lemma stop_apps_kinds: "world_kinds (stop_apps ks w) = world_kinds w"
  by (cases ks) (simp_all add: world_kinds_def map_same vapp_Stop_def o_def)

lemma world_step_kinds: "world_step s order a w w' \<Longrightarrow> world_kinds w' = world_kinds w"
  by (erule world_step.cases) (auto simp: stop_apps_kinds, auto simp: world_kinds_def vapp_step_kinds intro!: map_same)

lemma reachable_kinds:
  assumes "(any_world_step s order)\<^sup>*\<^sup>* (world_start s app kss) w"
  shows "world_kinds w = kss"
  using assms
proof (induction rule: rtranclp_induct)
  case base
  have "map tn_kind (vr_runs (vapp_Start (new_vapp_run ks))) = ks" for ks
    by (simp add: vapp_Start_def new_vapp_run_def launch_def o_def)
  then show ?case by (simp add: world_kinds_def world_start_def o_def)
next
  case (step u v)
  then show ?case by (auto simp: any_world_step_def world_step_kinds)
qed

lemma no_terminal:
  assumes "TuiT \<notin> set (concat kss)" "world_kinds w = kss" "v \<in> set (wo_vapps w)"
  shows "\<not> terminal_in_use v"
proof
  assume "terminal_in_use v"
  then obtain t where "t \<in> set (vr_runs v)" "tn_kind t = TuiT" by (auto simp: terminal_in_use_def)
  then have "TuiT \<in> set (map tn_kind (vr_runs v))" by force
  moreover have "map tn_kind (vr_runs v) \<in> set kss" using assms(2,3) by (auto simp: world_kinds_def)
  ultimately show False using assms(1) by auto
qed

lemma program_keeps_stopping: "world_step s order Program w w' \<Longrightarrow> wo_stop w \<noteq> Up \<Longrightarrow> wo_stop w' \<noteq> Up"
proof (erule world_programE)
  fix ks show "wo_stop w \<noteq> Up \<Longrightarrow> w' = stop_apps ks w \<Longrightarrow> wo_stop w' \<noteq> Up" by (cases ks) simp_all
qed simp_all

lemma program_run:
  assumes "(world_step s order Program ^^ n) w w'"
  shows "(any_world_step s order)\<^sup>*\<^sup>* w w'" "wo_stop w \<noteq> Up \<Longrightarrow> wo_stop w' \<noteq> Up"
proof -
  have "(world_step s order Program)\<^sup>*\<^sup>* w w'" using assms by (rule relpowp_imp_rtranclp)
  then show "(any_world_step s order)\<^sup>*\<^sup>* w w'"
    by (rule rtranclp_mono [THEN predicate2D, rotated]) (auto simp: any_world_step_def)
  show "wo_stop w \<noteq> Up \<Longrightarrow> wo_stop w' \<noteq> Up"
    using assms by (induction n arbitrary: w') (auto dest: program_keeps_stopping)
qed

text \<open>
  Property C20.  A shutdown that has begun comes to its end.  When clients send nothing more, the
  program makes only finitely many further steps, at most \<^const>\<open>world_weight\<close> of them (two for each
  goroutine, one for each request in the channel and each app to be stopped, and three), and it
  stops making them only when \<^verbatim>\<open>Stop\<close> has returned or a request has crashed the process, unless a
  virtual app runs a terminal that its user has not left.  No wait is ever for something that
  cannot happen, whatever the order of the steps so far.
\<close>

theorem shutdown_terminates:
  assumes "(any_world_step s order)\<^sup>*\<^sup>* (world_start s app kss) w" "set order \<subseteq> {..<length kss}"
    and "wo_stop w \<noteq> Up" "(world_step s order Program ^^ n) w w'"
  shows "n \<le> world_weight w \<and>
    (wo_stop w' = Down \<or> sp_phase (wo_loop w') = LoopCrashed \<or>
     (TuiT \<in> set (concat kss) \<and> list_ex terminal_in_use (wo_vapps w')) \<or>
     (\<exists>w''. world_step s order Program w' w''))"
proof -
  have reach: "(any_world_step s order)\<^sup>*\<^sup>* (world_start s app kss) w'"
    using assms(1) program_run(1) [OF assms(4)] by (rule rtranclp_trans)
  have stop: "wo_stop w' \<noteq> Up" by (rule program_run(2) [OF assms(4,3)])
  have ok: "world_ok s app (length kss) order w'" by (rule world_reachable_ok [OF reach assms(2)])
  have "(\<forall>v\<in>set (wo_vapps w'). \<not> terminal_in_use v) \<or>
      (TuiT \<in> set (concat kss) \<and> list_ex terminal_in_use (wo_vapps w'))"
    using no_terminal [OF _ reachable_kinds [OF reach]] by (auto simp: list_ex_iff)
  then show ?thesis
    using world_run_length [OF assms(4)] world_progress [OF ok assms(2) stop] unfolding not_crashed_def by fastforce
qed

section \<open>The terminal\<close>

text \<open>
  \<^verbatim>\<open>main\<close> says that it waits until the user exits the terminal; it waits for a signal.  The user's
  exit lets the goroutine return, and nothing else: the process goes on.
\<close>

theorem leaving_the_terminal_stops_nothing:
  assumes "(\<lambda>w w'. world_step s order Program w w' \<or> world_step s order Outside w w')\<^sup>*\<^sup>* w w'" "wo_stop w = Up"
  shows "wo_stop w' = Up"
  using assms(1)
proof (induction rule: rtranclp_induct)
  case base
  show ?case by (rule assms(2))
next
  case (step u v)
  then show ?case by (auto elim!: world_step.cases)
qed

text \<open>
  And a stop waits for the user: \<^verbatim>\<open>Stop\<close> of the terminal's transport does nothing and its \<^verbatim>\<open>Start\<close> does
  not look at the context, so the wait of the virtual app lasts as long as the program is in use.
\<close>

lemma terminal_stays:
  "vapp_step Program v v' \<Longrightarrow> terminal_in_use v \<Longrightarrow> terminal_in_use v'"
proof (erule vapp_programE)
  fix i t
  assume v: "v' = v\<lparr>vr_runs := (vr_runs v)[i := t]\<rparr>" "i < length (vr_runs v)"
    "start_step (vr_cancelled v) (vr_runs v ! i) t" and "terminal_in_use v"
  then obtain j where j: "j < length (vr_runs v)" "tn_kind (vr_runs v ! j) = TuiT" "tn_routine (vr_runs v ! j) = Waiting"
    by (auto simp: terminal_in_use_def in_set_conv_nth)
  with v(3) have "i \<noteq> j" by (auto elim!: start_step.cases)
  with j v(1) have "j < length (vr_runs v')" "vr_runs v' ! j = vr_runs v ! j" by simp_all
  with j show "terminal_in_use v'" unfolding terminal_in_use_def by (metis nth_mem)
qed

theorem stop_waits_for_the_terminal:
  assumes "(world_step s order Program)\<^sup>*\<^sup>* w w'" "wo_stop w = StoppingApps (k # ks)"
    and "k < length (wo_vapps w)" "terminal_in_use (wo_vapps w ! k)"
  shows "wo_stop w' = StoppingApps (k # ks) \<and> k < length (wo_vapps w') \<and> terminal_in_use (wo_vapps w' ! k)"
  using assms(1)
proof (induction rule: rtranclp_induct)
  case base
  show ?case using assms(2-4) by simp
next
  case (step u v)
  have "\<not> vapp_waited (wo_vapps u ! k)"
    using step.IH by (force simp: vapp_waited_def terminal_in_use_def list_all_iff)
  with step show ?case
    by (auto elim!: world_programE simp: nth_list_update terminal_stays)
qed

section \<open>A concrete shutdown\<close>

text \<open>One REST app; it is stopped while it listens.\<close>

definition toy_world :: "bool \<Rightarrow> listener \<Rightarrow> routine \<Rightarrow> bool \<Rightarrow> loop_phase \<Rightarrow> stop_phase \<Rightarrow> world" where
  "toy_world stopped l r cancelled ph st =
     \<lparr>wo_vapps = [\<lparr>vr_cancelled = stopped, vr_busOpen = \<not> stopped, vr_transports = [RestT ''localhost:8080''],
        vr_runs = [\<lparr>tn_kind = RestT ''localhost:8080'', tn_listener = l, tn_routine = r\<rparr>]\<rparr>],
      wo_loop = \<lparr>sp_phase = ph, sp_cancelled = cancelled, sp_queue = [], sp_app = cert_app, sp_sent = [], sp_replies = []\<rparr>,
      wo_stop = st\<rparr>"

abbreviation toy_steps :: "actor \<Rightarrow> world \<Rightarrow> world \<Rightarrow> bool" where
  "toy_steps \<equiv> world_step toy_server [0]"

lemma toy_world_start:
  "world_start toy_server cert_app [[RestT ''localhost:8080'']] = toy_world False NoServer Launched False LoopRunning Up"
  by (simp add: world_start_def toy_world_def vapp_Start_def new_vapp_run_def launch_def server_Start_def
      new_proc_def toy_server_def NewWithCA_def)

lemma toy_listen:
  "toy_steps Program (toy_world False NoServer Launched False LoopRunning Up)
     (toy_world False Serving Waiting False LoopRunning Up)"
  using AppStep [of "toy_world False NoServer Launched False LoopRunning Up" 0 Program _ toy_server "[0]",
      OF _ _ Goroutine [of 0, OF _ StartRest [where free = True]]]
  by (simp add: toy_world_def not_crashed_def transport_defs)

lemma toy_begin:
  "toy_steps Stopper (toy_world False Serving Waiting False LoopRunning Up)
     (toy_world True ShutDown Waiting False LoopRunning (StoppingApps [0]))"
  using BeginStop [of "toy_world False Serving Waiting False LoopRunning Up" toy_server "[0]"]
  by (simp add: toy_world_def not_crashed_def vapp_Stop_def transport_defs)

lemma toy_returns:
  "toy_steps Program (toy_world True ShutDown Waiting False LoopRunning (StoppingApps [0]))
     (toy_world True ShutDown Returned False LoopRunning (StoppingApps [0]))"
  using AppStep [of "toy_world True ShutDown Waiting False LoopRunning (StoppingApps [0])" 0 Program _ toy_server "[0]",
      OF _ _ Goroutine [of 0, OF _ ContextDone]]
  by (simp add: toy_world_def not_crashed_def transport_defs)

lemma toy_next:
  "toy_steps Program (toy_world True ShutDown Returned False LoopRunning (StoppingApps [0]))
     (toy_world True ShutDown Returned True LoopRunning StoppingLoop)"
  using NextApp [of "toy_world True ShutDown Returned False LoopRunning (StoppingApps [0])" 0 "[]" toy_server "[0]"]
  by (simp add: toy_world_def not_crashed_def vapp_waited_def)

lemma toy_drain:
  "toy_steps Program (toy_world True ShutDown Returned True LoopRunning StoppingLoop)
     (toy_world True ShutDown Returned True LoopDraining StoppingLoop)"
  "toy_steps Program (toy_world True ShutDown Returned True LoopDraining StoppingLoop)
     (toy_world True ShutDown Returned True LoopEnded StoppingLoop)"
  "toy_steps Program (toy_world True ShutDown Returned True LoopEnded StoppingLoop)
     (toy_world True ShutDown Returned True LoopEnded Down)"
  using LoopStep [OF BeginDrain, of "toy_world True ShutDown Returned True LoopRunning StoppingLoop" toy_server "[0]"]
    LoopStep [OF EndDrain, of "toy_world True ShutDown Returned True LoopDraining StoppingLoop" toy_server "[0]"]
    Joined [of "toy_world True ShutDown Returned True LoopEnded StoppingLoop" toy_server "[0]"]
  by (simp_all add: toy_world_def not_crashed_def)

lemma toy_begun:
  "(any_world_step toy_server [0])\<^sup>*\<^sup>* (world_start toy_server cert_app [[RestT ''localhost:8080'']])
     (toy_world True ShutDown Waiting False LoopRunning (StoppingApps [0]))"
  unfolding toy_world_start using toy_listen toy_begin any_world_step_def
  by (meson converse_rtranclp_into_rtranclp rtranclp.rtrancl_refl)

lemma toy_shutdown:
  "(toy_steps Program ^^ 5) (toy_world True ShutDown Waiting False LoopRunning (StoppingApps [0]))
     (toy_world True ShutDown Returned True LoopEnded Down)"
proof -
  have "(toy_steps Program ^^ Suc (Suc (Suc (Suc (Suc 0)))))
      (toy_world True ShutDown Waiting False LoopRunning (StoppingApps [0]))
      (toy_world True ShutDown Returned True LoopEnded Down)"
    by (rule relpowp_Suc_I relpowp_0_I toy_returns toy_next toy_drain)+
  then show ?thesis by (simp add: numeral_eq_Suc)
qed


theorem shutdown_terminates_witness:
  "5 \<le> world_weight (toy_world True ShutDown Waiting False LoopRunning (StoppingApps [0]))"
  using shutdown_terminates [OF toy_begun _ _ toy_shutdown] by (simp add: toy_world_def)

end
