(* ===== verification/Emulator.thy ===== *)
theory Emulator
  imports Mcp Shutdown Text_Format "HOL-Library.Sublist"
begin

text \<open>
  The emulator's own program, \<^verbatim>\<open>cmd/app/main.go\<close>, from the parsed flags to the running process: the
  logger, the certificate authority, the server, the virtual apps with their transports, the agent
  interface and the terminal; \<^verbatim>\<open>CreateVirtualApp\<close> of \<^verbatim>\<open>internal/server/server.go\<close>.
\<close>

section \<open>Flags and logging\<close>

record flags =
  fl_tui :: bool
  fl_rest :: int
  fl_grpc :: int
  fl_mcp :: string
  fl_exposeAdmin :: bool
  fl_logLevel :: string
  fl_logFormat :: string
  fl_logFile :: string

text \<open>The values of the flags that are not given.\<close>

definition no_flags :: flags where
  "no_flags = \<lparr>fl_tui = False, fl_rest = 0, fl_grpc = 0, fl_mcp = [], fl_exposeAdmin = False,
     fl_logLevel = ''info'', fl_logFormat = ''text'', fl_logFile = []\<rparr>"

datatype level = LevelDebug | LevelInfo | LevelWarn | LevelError

datatype log_writer = ToStdout | ToFile string | ToNowhere

record logging =
  lg_writer :: log_writer
  lg_level :: level
  lg_addSource :: bool
  lg_json :: bool

definition setupLogging :: "log_writer \<Rightarrow> string \<Rightarrow> string \<Rightarrow> logging" where
  "setupLogging w logLevel logFormat =
     (let level = (if logLevel = ''debug'' then LevelDebug
                   else if logLevel = ''info'' then LevelInfo
                   else if logLevel = ''warn'' then LevelWarn
                   else if logLevel = ''error'' then LevelError
                   else LevelInfo)
      in \<lparr>lg_writer = w, lg_level = level, lg_addSource = (level = LevelDebug), lg_json = (logFormat = ''json'')\<rparr>)"

text \<open>\<open>opens\<close> says which files can be opened for appending.\<close>

definition setupFileLogging :: "(string \<Rightarrow> bool) \<Rightarrow> string \<Rightarrow> string \<Rightarrow> string \<Rightarrow> logging" where
  "setupFileLogging opens logFile logLevel logFormat =
     setupLogging (if opens logFile then ToFile logFile else ToNowhere) logLevel logFormat"

definition setupStdoutLogging :: "string \<Rightarrow> string \<Rightarrow> logging" where
  "setupStdoutLogging logLevel logFormat = setupLogging ToStdout logLevel logFormat"

definition main_logging :: "(string \<Rightarrow> bool) \<Rightarrow> flags \<Rightarrow> logging" where
  "main_logging opens fl =
     (if fl_tui fl
      then setupFileLogging opens (if fl_logFile fl = [] then ''/tmp/sg-emulator.log'' else fl_logFile fl)
             (fl_logLevel fl) (fl_logFormat fl)
      else setupStdoutLogging (fl_logLevel fl) (fl_logFormat fl))"

text \<open>While the terminal is drawn nothing is logged to it, also when the file cannot be opened.\<close>

lemma terminal_is_not_logged_to: "fl_tui fl \<Longrightarrow> lg_writer (main_logging opens fl) \<noteq> ToStdout"
  by (simp add: main_logging_def setupFileLogging_def setupLogging_def Let_def)

section \<open>Virtual apps\<close>

text \<open>\<open>draw\<close> is the outcome of \<^verbatim>\<open>NewScalegraphId\<close>.\<close>

definition CreateVirtualApp ::
    "(error, ScalegraphId) outcome \<Rightarrow> Registry \<Rightarrow> (error, VirtualApp, Registry) call" where
  "CreateVirtualApp draw reg =
     (case draw of
        Panic \<Rightarrow> (Panic, reg)
      | Err e \<Rightarrow> (Err e, reg)
      | Ok i \<Rightarrow>
        (let vapp = newVirtualApp i in
         case Register vapp reg of
           (Panic, reg') \<Rightarrow> (Panic, reg')
         | (Err e, reg') \<Rightarrow> (Err e, reg')
         | (Ok _, reg') \<Rightarrow> (Ok vapp, reg')))"

text \<open>
  The process as \<^verbatim>\<open>main\<close> builds it.  \<open>em_draws\<close> counts the calls of \<^verbatim>\<open>CreateVirtualApp\<close>; \<open>em_apps\<close> are
  the virtual apps that were started, with their transport, \<open>em_terminal\<close> the position of the
  terminal's among them and \<open>em_mcp\<close> the address of the agent interface.
\<close>

record emulator =
  em_logging :: logging
  em_server :: Server
  em_registry :: Registry
  em_draws :: nat
  em_apps :: "(ScalegraphId \<times> transport_kind) list"
  em_mcp :: "string option"
  em_terminal :: "nat option"

text \<open>
  Create, add the transport and start; the registry holds a pointer to the virtual app, so it sees
  the transport.  Without success the emulator goes on as it was.
\<close>

definition create_app ::
    "(nat \<Rightarrow> (error, ScalegraphId) outcome) \<Rightarrow> transport_kind \<Rightarrow> emulator \<Rightarrow> bool \<times> emulator" where
  "create_app ids k em =
     (case CreateVirtualApp (ids (em_draws em)) (em_registry em) of
        (r, reg) \<Rightarrow>
          (let em' = em\<lparr>em_registry := reg, em_draws := Suc (em_draws em)\<rparr> in
           case r of
             Ok vapp \<Rightarrow> (True, em'\<lparr>
               em_registry := reg\<lparr>byID := (byID reg)(vapp_ID vapp \<mapsto> AddTransport (as_Transport k) vapp)\<rparr>,
               em_apps := em_apps em' @ [(vapp_ID vapp, k)]\<rparr>)
           | _ \<Rightarrow> (False, em')))"

definition rest_address :: "nat \<Rightarrow> string" where
  "rest_address i = ''localhost:'' @ itoa (8080 + int i)"

definition grpc_address :: "nat \<Rightarrow> string" where
  "grpc_address i = ''localhost:'' @ itoa (50051 + int i)"

text \<open>The two loops; an index whose virtual app cannot be created is skipped.\<close>

definition create_apps ::
    "(nat \<Rightarrow> (error, ScalegraphId) outcome) \<Rightarrow> (nat \<Rightarrow> transport_kind) \<Rightarrow> int \<Rightarrow> emulator \<Rightarrow> emulator" where
  "create_apps ids kind n em = fold (\<lambda>i em. snd (create_app ids (kind i) em)) [0..<nat n] em"

section \<open>main\<close>

text \<open>What the process finds: the working directory, the files with the CA in them, and what it draws.\<close>

record environment =
  ev_cwd :: "string option"
  ev_opens :: "string \<Rightarrow> bool"
  ev_keys :: key_lib
  ev_os :: os_env
  ev_issue :: issue_env
  ev_caKey :: "(byte list \<times> byte list) option"
  ev_files :: files
  ev_ids :: "nat \<Rightarrow> (error, ScalegraphId) outcome"
  ev_lib :: crypto_lib
  ev_marshal :: marshaller
  ev_proto :: "Event \<Rightarrow> byte list option"

datatype startup = ExitCode int | Started emulator

definition wire_apps :: "environment \<Rightarrow> flags \<Rightarrow> emulator \<Rightarrow> startup" where
  "wire_apps ev fl em =
     (let em1 = create_apps (ev_ids ev) (\<lambda>i. RestT (rest_address i)) (fl_rest fl) em;
          em2 = create_apps (ev_ids ev) (\<lambda>i. ConnectT (grpc_address i) (fl_exposeAdmin fl)) (fl_grpc fl) em1;
          em3 = em2\<lparr>em_mcp := if fl_mcp fl = [] then None else Some (fl_mcp fl)\<rparr>
      in if fl_tui fl
         then (case create_app (ev_ids ev) TuiT em3 of
                 (False, em4) \<Rightarrow> ExitCode 1
               | (True, em4) \<Rightarrow> Started (em4\<lparr>em_terminal := Some (length (em_apps em3))\<rparr>))
         else Started em3)"

definition main_start :: "environment \<Rightarrow> flags \<Rightarrow> startup \<times> files" where
  "main_start ev fl =
     (case ev_cwd ev of
        None \<Rightarrow> (ExitCode 1, ev_files ev)
      | Some cwd \<Rightarrow>
        (case NewCA (ev_keys ev) (ev_os ev) (ev_issue ev) cwd (ev_caKey ev) (ev_files ev) of
           (Ok ca, fs) \<Rightarrow>
             (wire_apps ev fl \<lparr>em_logging = main_logging (ev_opens ev) fl,
                em_server = NewWithCA (ev_lib ev) (ev_marshal ev) (ev_proto ev) (ca_certificate ca) (ca_publicKey ca),
                em_registry = NewRegistry, em_draws = 0, em_apps = [], em_mcp = None, em_terminal = None\<rparr>, fs)
         | (Err e, fs) \<Rightarrow> (ExitCode 1, fs)
         | (Panic, fs) \<Rightarrow> (ExitCode 2, fs)))"

section \<open>What the flags ask for\<close>

definition network_kinds :: "flags \<Rightarrow> transport_kind list" where
  "network_kinds fl =
     map (\<lambda>i. RestT (rest_address i)) [0..<nat (fl_rest fl)] @
     map (\<lambda>i. ConnectT (grpc_address i) (fl_exposeAdmin fl)) [0..<nat (fl_grpc fl)]"

definition wired_kinds :: "flags \<Rightarrow> transport_kind list" where
  "wired_kinds fl = network_kinds fl @ (if fl_tui fl then [TuiT] else [])"

definition create_all ::
    "(nat \<Rightarrow> (error, ScalegraphId) outcome) \<Rightarrow> transport_kind list \<Rightarrow> emulator \<Rightarrow> emulator" where
  "create_all ids ks em = fold (\<lambda>k em. snd (create_app ids k em)) ks em"

lemma create_apps_all: "create_apps ids kind n em = create_all ids (map kind [0..<nat n]) em"
  by (simp add: create_apps_def create_all_def fold_map o_def)

lemma create_all_append: "create_all ids (ks @ ls) em = create_all ids ls (create_all ids ks em)"
  by (simp add: create_all_def)

definition registered :: "ScalegraphId \<times> transport_kind \<Rightarrow> ScalegraphId \<times> VirtualApp" where
  "registered = (\<lambda>(i, k). (i, \<lparr>vapp_ID = i, vapp_transports = [as_Transport k]\<rparr>))"

text \<open>The registry holds exactly the apps that were started, each with its one transport.\<close>

definition em_ok :: "emulator \<Rightarrow> bool" where
  "em_ok em \<longleftrightarrow> distinct (map fst (em_apps em)) \<and> byID (em_registry em) = map_of (map registered (em_apps em))"

lemma create_app_cases:
  obtains (created) i em' where "ids (em_draws em) = Ok i" "byID (em_registry em) i = None"
      "create_app ids k em = (True, em')" "em_apps em' = em_apps em @ [(i, k)]"
      "byID (em_registry em') = (byID (em_registry em))(i \<mapsto> snd (registered (i, k)))"
      "em_draws em' = Suc (em_draws em)" "em_server em' = em_server em"
  | (skipped) em' where "create_app ids k em = (False, em')" "em_apps em' = em_apps em"
      "byID (em_registry em') = byID (em_registry em)" "em_draws em' = Suc (em_draws em)" "em_server em' = em_server em"
      "\<And>i. ids (em_draws em) = Ok i \<Longrightarrow> byID (em_registry em) i \<noteq> None"
proof (cases "ids (em_draws em)")
  case (Ok i)
  show thesis
  proof (cases "byID (em_registry em) i")
    case None
    with Ok show thesis
      by (intro created [of i "snd (create_app ids k em)"])
        (simp_all add: create_app_def CreateVirtualApp_def Let_def Register_def newVirtualApp_def AddTransport_def registered_def)
  next
    case (Some v)
    with Ok show thesis
      by (intro skipped [of "snd (create_app ids k em)"])
        (simp_all add: create_app_def CreateVirtualApp_def Let_def Register_def newVirtualApp_def)
  qed
qed (use skipped [of "snd (create_app ids k em)"] in \<open>simp_all add: create_app_def CreateVirtualApp_def Let_def\<close>)

lemma map_of_append_new: "i \<notin> fst ` set xs \<Longrightarrow> map_of (xs @ [(i, v)]) = (map_of xs)(i \<mapsto> v)"
proof (induction xs)
  case (Cons p xs)
  then show ?case by (cases p) (auto simp: fun_eq_iff)
qed simp

lemma fst_registered [simp]: "fst (registered p) = fst p"
  by (simp add: registered_def split: prod.split)

lemma create_app_ok: "em_ok em \<Longrightarrow> em_ok (snd (create_app ids k em))"
proof (cases rule: create_app_cases [of ids em k])
  case (created i em')
  assume ok: "em_ok em"
  then have new: "i \<notin> fst ` set (map registered (em_apps em))"
    using created(2) by (simp add: em_ok_def map_of_eq_None_iff)
  then have "i \<notin> set (map fst (em_apps em))" by (simp add: image_image)
  moreover have "registered (i, k) = (i, snd (registered (i, k)))" by (simp add: registered_def)
  ultimately show ?thesis using ok created map_of_append_new [OF new] by (simp add: em_ok_def)
qed (simp add: em_ok_def)

lemma create_all_ok: "em_ok em \<Longrightarrow> em_ok (create_all ids ks em)"
  by (induction ks arbitrary: em) (simp_all add: create_all_def create_app_ok)

lemma create_all_kinds:
  "\<exists>new. em_apps (create_all ids ks em) = em_apps em @ new \<and> subseq (map snd new) ks"
proof (induction ks arbitrary: em)
  case (Cons k ks)
  show ?case
  proof (cases rule: create_app_cases [of ids em k])
    case (created i em')
    obtain new where "em_apps (create_all ids ks em') = em_apps em' @ new" "subseq (map snd new) ks"
      using Cons by blast
    with created show ?thesis
      by (intro exI [of _ "(i, k) # new"]) (simp add: create_all_def)
  next
    case (skipped em')
    with Cons [of em'] show ?thesis by (auto simp: create_all_def)
  qed
qed (simp add: create_all_def)

lemma create_all_server: "em_server (create_all ids ks em) = em_server em"
proof (induction ks arbitrary: em)
  case (Cons k ks)
  then show ?case by (cases rule: create_app_cases [of ids em k]) (simp_all add: create_all_def)
qed (simp add: create_all_def)

lemma create_all_full:
  assumes "em_ok em" "map fst (em_apps em) = map f [0..<em_draws em]"
    and "\<And>n. n < em_draws em + length ks \<Longrightarrow> ids n = Ok (f n)" "inj_on f {..<em_draws em + length ks}"
  shows "map snd (em_apps (create_all ids ks em)) = map snd (em_apps em) @ ks"
  using assms
proof (induction ks arbitrary: em)
  case (Cons k ks)
  let ?n = "em_draws em"
  have "f ?n \<notin> f ` {..<?n}" using Cons.prems(4) by (auto dest: inj_onD)
  then have "f ?n \<notin> set (map fst (em_apps em))"
    using Cons.prems(2) by (auto simp: atLeast0LessThan)
  then have "byID (em_registry em) (f ?n) = None"
    using Cons.prems(1) by (simp add: em_ok_def map_of_eq_None_iff image_image)
  then obtain em' where em': "create_app ids k em = (True, em')" "em_apps em' = em_apps em @ [(f ?n, k)]" "em_draws em' = Suc ?n"
    using Cons.prems(3) [of ?n] by (cases rule: create_app_cases [of ids em k]) auto
  have "em_ok em'" using create_app_ok [OF Cons.prems(1), of ids k] em'(1) by simp
  then have "map snd (em_apps (create_all ids ks em')) = map snd (em_apps em') @ ks"
    using Cons.prems(2,3,4) em' by (intro Cons.IH) (simp_all add: atLeastLessThanSuc)
  with em' show ?case by (simp add: create_all_def)
qed (simp add: create_all_def)

lemma create_app_mcp:
  "create_app ids k (em\<lparr>em_mcp := m\<rparr>) = (fst (create_app ids k em), (snd (create_app ids k em))\<lparr>em_mcp := m\<rparr>)"
  by (simp add: create_app_def Let_def split: prod.split outcome.split)

lemma wire_apps_eq:
  "wire_apps ev fl em =
     (let em' = create_all (ev_ids ev) (network_kinds fl) em;
          mcp = (if fl_mcp fl = [] then None else Some (fl_mcp fl))
      in if fl_tui fl
         then (case create_app (ev_ids ev) TuiT (em'\<lparr>em_mcp := mcp\<rparr>) of
                 (False, em4) \<Rightarrow> ExitCode 1
               | (True, em4) \<Rightarrow> Started (em4\<lparr>em_terminal := Some (length (em_apps em'))\<rparr>))
         else Started (em'\<lparr>em_mcp := mcp\<rparr>))"
  by (simp add: wire_apps_def network_kinds_def create_apps_all create_all_append [symmetric] Let_def
      split: prod.split bool.split)

lemma wire_apps_Started:
  assumes "wire_apps ev fl em = Started em'"
  shows "em_apps em' = em_apps (create_all (ev_ids ev) (wired_kinds fl) em) \<and>
    em_registry em' = em_registry (create_all (ev_ids ev) (wired_kinds fl) em) \<and>
    em_server em' = em_server em \<and> (fl_tui fl \<longrightarrow> em_apps em' \<noteq> []) \<and>
    em_terminal em' = (if fl_tui fl then Some (length (em_apps em') - 1) else em_terminal em)"
proof -
  let ?ids = "ev_ids ev" and ?em = "create_all (ev_ids ev) (network_kinds fl) em"
  define mcp where "mcp = (if fl_mcp fl = [] then None else Some (fl_mcp fl))"
  note w = wire_apps_eq [of ev fl em, folded mcp_def]
  show ?thesis
  proof (cases "fl_tui fl")
    case True
    have k: "create_all ?ids (wired_kinds fl) em = snd (create_app ?ids TuiT ?em)"
      using True by (simp add: wired_kinds_def create_all_def)
    show ?thesis
    proof (cases rule: create_app_cases [of ?ids ?em TuiT])
      case (created i em4)
      then have "em' = em4\<lparr>em_mcp := mcp, em_terminal := Some (length (em_apps ?em))\<rparr>"
        using assms w True by (simp add: create_app_mcp Let_def)
      with created k True show ?thesis by (simp add: create_all_server)
    next
      case (skipped em4)
      with assms w True show ?thesis by (simp add: create_app_mcp Let_def)
    qed
  next
    case False
    with w assms have "em' = ?em\<lparr>em_mcp := mcp\<rparr>" by (simp add: Let_def)
    moreover have "em_terminal (create_all ?ids ks e) = em_terminal e" for ks e
    proof (induction ks arbitrary: e)
      case (Cons k ks)
      then show ?case by (simp add: create_all_def create_app_def Let_def split: prod.split outcome.split)
    qed (simp add: create_all_def)
    ultimately show ?thesis using False by (simp add: wired_kinds_def create_all_server)
  qed
qed

lemma main_start_Started:
  assumes "main_start ev fl = (Started em, fs)"
  shows "\<exists>em0. wire_apps ev fl em0 = Started em \<and> em_apps em0 = [] \<and> em_draws em0 = 0 \<and> em_ok em0 \<and>
    em_terminal em0 = None \<and> srv_verifier (em_server em0) \<noteq> None"
  using assms
  by (auto simp: main_start_def em_ok_def NewRegistry_def NewWithCA_def split: option.splits prod.splits outcome.splits)

section \<open>Addresses\<close>

lemma itoa_inject: "0 \<le> a \<Longrightarrow> 0 \<le> b \<Longrightarrow> itoa a = itoa b \<longleftrightarrow> a = b"
  by (metis decimal_digits itoa_nonneg nat_eq_iff2 option.inject)

text \<open>The two ranges of ports meet when there are more than 41971 REST apps.\<close>

lemma addresses_distinct:
  assumes "fl_rest fl \<le> 41971"
  shows "distinct (map kind_Address (wired_kinds fl))"
proof -
  have neq: "rest_address i = grpc_address j \<longleftrightarrow> i = j + 41971" for i j
    by (auto simp: rest_address_def grpc_address_def itoa_inject)
  have loc: "rest_address i \<noteq> ''local''" "grpc_address i \<noteq> ''local''" for i
    by (simp_all add: rest_address_def grpc_address_def)
  have inj: "inj rest_address" "inj grpc_address"
    by (auto simp: inj_def rest_address_def grpc_address_def itoa_inject)
  then show ?thesis
    using assms
    by (auto simp: wired_kinds_def network_kinds_def distinct_map o_def neq loc loc [symmetric] intro: inj_on_subset)
qed

theorem ports_collide_beyond: "rest_address 41971 = grpc_address 0"
  by (simp add: rest_address_def grpc_address_def)

section \<open>What main starts\<close>

lemma Count_apps: "em_ok em \<Longrightarrow> Count (em_registry em) = int (length (em_apps em))"
proof -
  assume ok: "em_ok em"
  then have "dom (byID (em_registry em)) = set (map fst (em_apps em))"
    by (simp add: em_ok_def dom_map_of_conv_image_fst image_image)
  then show ?thesis using ok distinct_card [of "map fst (em_apps em)"] by (simp add: Count_def em_ok_def)
qed

lemma started_process:
  assumes "main_start ev fl = (Started em, fs)"
  shows "em_ok em" "subseq (map snd (em_apps em)) (wired_kinds fl)" "srv_verifier (em_server em) \<noteq> None"
    "em_terminal em = (if fl_tui fl then Some (length (em_apps em) - 1) else None)" "fl_tui fl \<Longrightarrow> em_apps em \<noteq> []"
proof -
  obtain em0 where em0: "wire_apps ev fl em0 = Started em" "em_apps em0 = []" "em_ok em0"
    "em_terminal em0 = None" "srv_verifier (em_server em0) \<noteq> None"
    using main_start_Started [OF assms] by blast
  note w = wire_apps_Started [OF em0(1)]
  have "em_ok (create_all (ev_ids ev) (wired_kinds fl) em0)" by (rule create_all_ok [OF em0(3)])
  with w show "em_ok em" by (simp add: em_ok_def)
  show "subseq (map snd (em_apps em)) (wired_kinds fl)"
    using w create_all_kinds [of "ev_ids ev" "wired_kinds fl" em0] em0(2) by auto
  show "srv_verifier (em_server em) \<noteq> None" using w em0(5) by simp
  show "em_terminal em = (if fl_tui fl then Some (length (em_apps em) - 1) else None)" using w em0(4) by simp
  show "fl_tui fl \<Longrightarrow> em_apps em \<noteq> []" using w by blast
qed

lemma apps_registered:
  assumes "em_ok em" "(i, k) \<in> set (em_apps em)"
  shows "GetByID i (em_registry em) = Some \<lparr>vapp_ID = i, vapp_transports = [as_Transport k]\<rparr>"
proof -
  have "distinct (map fst (map registered (em_apps em)))" using assms(1) by (simp add: em_ok_def o_def)
  moreover have "(i, \<lparr>vapp_ID = i, vapp_transports = [as_Transport k]\<rparr>) \<in> set (map registered (em_apps em))"
    using assms(2) by (force simp: registered_def)
  ultimately show ?thesis using assms(1) by (simp add: GetByID_def em_ok_def map_of_eq_Some_iff)
qed

lemma started_properties:
  assumes "main_start ev fl = (Started em, fs)"
  shows "distinct (map fst (em_apps em)) \<and> Count (em_registry em) = int (length (em_apps em)) \<and>
    list_all (\<lambda>(i, k). GetByID i (em_registry em) = Some \<lparr>vapp_ID = i, vapp_transports = [as_Transport k]\<rparr>) (em_apps em) \<and>
    (fl_rest fl \<le> 41971 \<longrightarrow> distinct (map (\<lambda>(i, k). kind_Address k) (em_apps em))) \<and>
    list_all (\<lambda>(i, k). exposes_admin k \<longrightarrow> fl_exposeAdmin fl) (em_apps em)"
proof -
  note em = started_process [OF assms]
  have "subseq (map kind_Address (map snd (em_apps em))) (map kind_Address (wired_kinds fl))"
    by (rule subseq_map [OF em(2)])
  then have "distinct (map kind_Address (map snd (em_apps em)))" if "fl_rest fl \<le> 41971"
    using addresses_distinct [OF that] by (metis distinct_nthsI subseq_conv_nths)
  moreover have "fl_exposeAdmin fl" if "(i, k) \<in> set (em_apps em)" "exposes_admin k" for i k
  proof -
    have "set (map snd (em_apps em)) \<subseteq> set (wired_kinds fl)"
      using em(2) set_nths_subset by (metis subseq_conv_nths)
    then have "k \<in> set (wired_kinds fl)" using that(1) by force
    with that(2) show ?thesis by (auto simp: wired_kinds_def network_kinds_def split: if_splits)
  qed
  ultimately show ?thesis
    using em(1,2) apps_registered [OF em(1)] Count_apps [OF em(1)]
    by (auto simp: em_ok_def list_all_iff o_def split_def)
qed

text \<open>
  Which apps the draws allow: call number \<open>n\<close> of \<^verbatim>\<open>CreateVirtualApp\<close> succeeds when it draws an id and
  no earlier call has drawn the same one, and then the app has the transport number \<open>n\<close> of the flags.
\<close>

definition fresh_draw :: "(nat \<Rightarrow> (error, ScalegraphId) outcome) \<Rightarrow> nat \<Rightarrow> bool" where
  "fresh_draw ids n \<longleftrightarrow> (\<exists>i. ids n = Ok i) \<and> (\<forall>m<n. ids m \<noteq> ids n)"

definition granted :: "(nat \<Rightarrow> (error, ScalegraphId) outcome) \<Rightarrow> transport_kind list \<Rightarrow>
    (ScalegraphId \<times> transport_kind) list" where
  "granted ids ks = map (\<lambda>n. (case ids n of Ok i \<Rightarrow> i, ks ! n)) (List.filter (fresh_draw ids) [0..<length ks])"

lemma granted_snoc:
  "granted ids (ks @ [k]) = granted ids ks @
     (if fresh_draw ids (length ks) then [(case ids (length ks) of Ok i \<Rightarrow> i, k)] else [])"
  by (auto simp: granted_def nth_append intro: map_cong)

lemma granted_ids: "fst ` set (granted ids ks) = {i. \<exists>n<length ks. ids n = Ok i}"
proof (intro set_eqI iffI)
  fix i assume "i \<in> {i. \<exists>n<length ks. ids n = Ok i}"
  then obtain n where n: "n < length ks" "ids n = Ok i" by blast
  define m where "m = (LEAST m. ids m = Ok i)"
  have m: "ids m = Ok i" "m \<le> n" using n(2) unfolding m_def by (auto intro: LeastI Least_le)
  have "ids j \<noteq> Ok i" if "j < m" for j using not_less_Least [of j "\<lambda>m. ids m = Ok i"] that by (simp add: m_def)
  then have "fresh_draw ids m" using m(1) by (auto simp: fresh_draw_def)
  then show "i \<in> fst ` set (granted ids ks)"
    using m n(1) by (auto simp: granted_def image_image intro!: image_eqI [of _ _ m])
qed (auto simp: granted_def fresh_draw_def)

text \<open>The loops create exactly these.\<close>

lemma create_app_fresh:
  assumes "em_ok em" "em_apps em = granted ids ks" "em_draws em = length ks"
  shows "fst (create_app ids k em) = fresh_draw ids (length ks) \<and>
    em_apps (snd (create_app ids k em)) = granted ids (ks @ [k]) \<and>
    em_draws (snd (create_app ids k em)) = length (ks @ [k])"
proof -
  have free: "byID (em_registry em) i = None \<longleftrightarrow> (\<forall>n<length ks. ids n \<noteq> Ok i)" for i
    using assms(1,2) granted_ids [of ids ks]
    by (auto simp: em_ok_def map_of_eq_None_iff image_image)
  show ?thesis
  proof (cases rule: create_app_cases [of ids em k])
    case (created i em')
    then have "fresh_draw ids (length ks)" using free [of i] assms(3) by (auto simp: fresh_draw_def)
    then show ?thesis using created assms(2,3) by (simp add: granted_snoc)
  next
    case (skipped em')
    then have "\<not> fresh_draw ids (length ks)" using free assms(3) by (auto simp: fresh_draw_def)
    then show ?thesis using skipped assms(2,3) by (simp add: granted_snoc)
  qed
qed

lemma create_all_granted:
  assumes "em_ok em" "em_apps em = []" "em_draws em = 0"
  shows "em_apps (create_all ids ks em) = granted ids ks \<and> em_draws (create_all ids ks em) = length ks"
proof (induction ks rule: rev_induct)
  case Nil
  show ?case using assms by (simp add: create_all_def granted_def)
next
  case (snoc k ks)
  then show ?case
    using create_app_fresh [OF create_all_ok [OF assms(1)], of ids ks ids ks k]
    by (simp add: create_all_append) (simp add: create_all_def)
qed

lemma wire_apps_granted:
  assumes "em_ok em" "em_apps em = []" "em_draws em = 0"
  shows "if fl_tui fl \<and> \<not> fresh_draw (ev_ids ev) (length (network_kinds fl))
    then wire_apps ev fl em = ExitCode 1
    else \<exists>em'. wire_apps ev fl em = Started em' \<and> em_apps em' = granted (ev_ids ev) (wired_kinds fl) \<and>
      em_mcp em' = (if fl_mcp fl = [] then None else Some (fl_mcp fl))"
proof -
  let ?em = "create_all (ev_ids ev) (network_kinds fl) em"
  have em: "em_ok ?em" "em_apps ?em = granted (ev_ids ev) (network_kinds fl)"
    "em_draws ?em = length (network_kinds fl)"
    using create_all_ok [OF assms(1)] create_all_granted [OF assms] by simp_all
  obtain b em4 where k: "create_app (ev_ids ev) TuiT ?em = (b, em4)" by fastforce
  have "b = fresh_draw (ev_ids ev) (length (network_kinds fl))"
    "em_apps em4 = granted (ev_ids ev) (network_kinds fl @ [TuiT])"
    using create_app_fresh [OF em, of TuiT] k by simp_all
  then show ?thesis using em(2) k
    by (cases b) (auto simp: wire_apps_eq Let_def create_app_mcp wired_kinds_def)
qed

text \<open>
  Property C22.  The process that \<^verbatim>\<open>main\<close> starts is the one the flags ask for.  Without a working
  directory or a certificate authority, and when the terminal's app cannot be created, \<^verbatim>\<open>main\<close> exits
  with code 1.  Otherwise the started virtual apps are exactly these, in this order: for each
  transport that the flags ask for, the REST ports from 8080, the Connect ports from 50051 and then
  the terminal, the one whose call of \<^verbatim>\<open>CreateVirtualApp\<close> drew an id that no earlier call drew, with
  the port of its position also when earlier apps were skipped.  The registry lists exactly them,
  under ids of their own, each with its one transport; with at most 41971 REST apps no two
  transports share an address; the admin service is exposed only when the flag says so, the agent
  interface runs at its address exactly when there is one, and the server has the key of the CA.
\<close>

theorem startup_matches_the_flags:
  "case ev_cwd ev of
     None \<Rightarrow> main_start ev fl = (ExitCode 1, ev_files ev)
   | Some cwd \<Rightarrow>
     (case NewCA (ev_keys ev) (ev_os ev) (ev_issue ev) cwd (ev_caKey ev) (ev_files ev) of
        (Err e, fs) \<Rightarrow> main_start ev fl = (ExitCode 1, fs)
      | (Panic, fs) \<Rightarrow> main_start ev fl = (ExitCode 2, fs)
      | (Ok ca, fs) \<Rightarrow>
        if fl_tui fl \<and> \<not> fresh_draw (ev_ids ev) (length (network_kinds fl))
        then main_start ev fl = (ExitCode 1, fs)
        else \<exists>em. main_start ev fl = (Started em, fs) \<and>
          em_apps em = granted (ev_ids ev) (wired_kinds fl) \<and>
          distinct (map fst (em_apps em)) \<and> Count (em_registry em) = int (length (em_apps em)) \<and>
          list_all (\<lambda>(i, k). GetByID i (em_registry em) = Some \<lparr>vapp_ID = i, vapp_transports = [as_Transport k]\<rparr>) (em_apps em) \<and>
          (fl_rest fl \<le> 41971 \<longrightarrow> distinct (map (\<lambda>(i, k). kind_Address k) (em_apps em))) \<and>
          list_all (\<lambda>(i, k). exposes_admin k \<longrightarrow> fl_exposeAdmin fl) (em_apps em) \<and>
          em_mcp em = (if fl_mcp fl = [] then None else Some (fl_mcp fl)) \<and>
          em_terminal em = (if fl_tui fl then Some (length (em_apps em) - 1) else None) \<and>
          srv_caPublicKey (em_server em) = ca_publicKey ca)"
proof (cases "ev_cwd ev")
  case (Some cwd)
  obtain r fs where ca: "NewCA (ev_keys ev) (ev_os ev) (ev_issue ev) cwd (ev_caKey ev) (ev_files ev) = (r, fs)"
    by fastforce
  show ?thesis
  proof (cases r)
    case (Ok c)
    define em0 where "em0 = \<lparr>em_logging = main_logging (ev_opens ev) fl,
      em_server = NewWithCA (ev_lib ev) (ev_marshal ev) (ev_proto ev) (ca_certificate c) (ca_publicKey c),
      em_registry = NewRegistry, em_draws = 0, em_apps = [], em_mcp = None, em_terminal = None\<rparr>"
    have run: "main_start ev fl = (wire_apps ev fl em0, fs)"
      using Some ca Ok by (simp add: main_start_def em0_def)
    have em0: "em_ok em0" "em_apps em0 = []" "em_draws em0 = 0" by (simp_all add: em0_def em_ok_def NewRegistry_def)
    show ?thesis
    proof (cases "fl_tui fl \<and> \<not> fresh_draw (ev_ids ev) (length (network_kinds fl))")
      case True
      then show ?thesis using Some ca Ok run wire_apps_granted [OF em0, of fl ev] by simp
    next
      case False
      then obtain em where em: "wire_apps ev fl em0 = Started em"
        "em_apps em = granted (ev_ids ev) (wired_kinds fl)"
        "em_mcp em = (if fl_mcp fl = [] then None else Some (fl_mcp fl))"
        using wire_apps_granted [OF em0, of fl ev] by auto
      have start: "main_start ev fl = (Started em, fs)" using run em(1) by simp
      have "srv_caPublicKey (em_server em) = ca_publicKey c"
        using wire_apps_Started [OF em(1)] by (simp add: em0_def NewWithCA_def)
      with start em(2,3) started_properties [OF start] started_process(4) [OF start] Some ca Ok False
      show ?thesis by (intro exI [of _ em] | simp)+
    qed
  qed (use Some ca in \<open>simp_all add: main_start_def\<close>)
qed (simp add: main_start_def)

theorem startup_creates_every_app:
  assumes "main_start ev fl = (Started em, fs)" "inj_on f {..<length (wired_kinds fl)}"
    and "\<And>n. n < length (wired_kinds fl) \<Longrightarrow> ev_ids ev n = Ok (f n)"
  shows "map snd (em_apps em) = wired_kinds fl"
proof -
  obtain em0 where em0: "wire_apps ev fl em0 = Started em" "em_apps em0 = []" "em_draws em0 = 0" "em_ok em0"
    using main_start_Started [OF assms(1)] by blast
  have "map snd (em_apps (create_all (ev_ids ev) (wired_kinds fl) em0)) = map snd (em_apps em0) @ wired_kinds fl"
    by (rule create_all_full [OF em0(4), of f]) (use em0 assms(2,3) in simp_all)
  then show ?thesis using wire_apps_Started [OF em0(1)] em0(2) by simp
qed

section \<open>From the flags to the ledger\<close>

text \<open>
  Property C21.  Unless the process was started with \<^verbatim>\<open>-expose-admin\<close>, nothing that arrives over its
  REST and Connect ports changes the ledger without a valid signature.  Take any transport of a
  process that \<^verbatim>\<open>main\<close> has started without the flag and any HTTP request or Connect call that
  arrives there, whatever the router, the decoders, the validator and the timeouts do: when the
  App is different afterwards, then one request was handled that the verifier found signed by the
  account it acts for, over its own fields, and the App and the announcements are what it left.
\<close>

theorem unsigned_changes_need_the_flag:
  assumes "main_start ev fl = (Started em, fs)" "\<not> fl_exposeAdmin fl" "(i, k) \<in> set (em_apps em)"
    and "transport_effect mux de valid (sendRequest (em_server em) inp sw rw) k r app = (app', msgs)" "app' \<noteq> app"
  shows "\<exists>v req. srv_verifier (em_server em) = Some v \<and> authorised (em_server em) v inp app req \<and>
    \<not> unsigned_request req \<and> snd (handleRequest (em_server em) inp req app) = (app', msgs)"
proof (rule network_changes_are_authorised [OF assms(4) _ assms(5)])
  have "set (map snd (em_apps em)) \<subseteq> set (wired_kinds fl)"
    using started_process(2) [OF assms(1)] set_nths_subset by (metis subseq_conv_nths)
  then have "k \<in> set (wired_kinds fl)" using assms(3) by force
  then show "\<not> exposes_admin k" using assms(2) by (auto simp: wired_kinds_def network_kinds_def split: if_splits)
qed

text \<open>
  The running process, and the order of its shutdown: with the terminal \<^verbatim>\<open>main\<close> stops the
  terminal's app before the server stops all of them, as the registry lists them.
\<close>

definition emulator_world :: "emulator \<Rightarrow> world" where
  "emulator_world em = world_start (em_server em) NewApp (map (\<lambda>(i, k). [k]) (em_apps em))"

definition stop_order :: "emulator \<Rightarrow> nat list \<Rightarrow> nat list" where
  "stop_order em listing = (case em_terminal em of Some k \<Rightarrow> k # listing | None \<Rightarrow> listing)"

lemma stop_order_all:
  assumes "main_start ev fl = (Started em, fs)" "set listing = {..<length (em_apps em)}"
  shows "set (stop_order em listing) = {..<length (em_apps em)}"
proof -
  have "length (em_apps em) - 1 \<in> set listing" if "fl_tui fl"
    unfolding assms(2) using started_process(5) [OF assms(1) that] by simp
  then show ?thesis
    using started_process(4) [OF assms(1)] by (simp add: stop_order_def insert_absorb flip: assms(2))
qed

text \<open>
  Whatever happens to a started process, its ledger is one that the operations of the application
  reach, so what is proved of reachable ledgers holds at every moment.
\<close>

theorem running_ledger_is_reachable:
  assumes "main_start ev fl = (Started em, fs)" "set listing = {..<length (em_apps em)}"
    and "(any_world_step (em_server em) (stop_order em listing))\<^sup>*\<^sup>* (emulator_world em) w"
  shows "app_reachable (lib_sha1 (srv_lib (em_server em))) (sp_app (wo_loop w))"
proof -
  have "set (stop_order em listing) \<subseteq> {..<length (map (\<lambda>(i, k). [k]) (em_apps em))}"
    using stop_order_all [OF assms(1,2)] by simp
  from world_reachable_ok [OF assms(3) [unfolded emulator_world_def] this]
  obtain served rs where "server_run (em_server em) served NewApp =
      (rs, sp_app (wo_loop w), sp_phase (wo_loop w) \<noteq> LoopCrashed)"
    by (auto simp: world_ok_def loop_ok_def loop_view_def)
  from server_run_steps [OF this] show ?thesis by (simp add: app_reachable_def)
qed

section \<open>A concrete start\<close>

text \<open>The CA is in the files; every draw of an id succeeds.\<close>

definition toy_environment :: environment where
  "toy_environment = \<lparr>ev_cwd = Some ''d'', ev_opens = \<lambda>_. True,
     ev_keys = toy_key_lib\<lparr>pem_Decode := \<lambda>bs. Some (if bs = [1] then PRIVATE_KEY else CERTIFICATE, bs),
       ParsePKCS8PrivateKey := \<lambda>_. Some (Ed25519Key (replicate 32 0 @ toy_key32 0)), ParseCertificate := \<lambda>_. Some (toy_cert 0)\<rparr>,
     ev_os = toy_os, ev_issue = toy_issue, ev_caKey = None,
     ev_files = [caKeyPath ''d'' \<mapsto> [1], caCertPath ''d'' \<mapsto> [2]],
     ev_ids = \<lambda>n. Ok (test_id n), ev_lib = toy_lib, ev_marshal = \<lambda>_. None, ev_proto = \<lambda>_. Some []\<rparr>"

definition toy_flags :: flags where
  "toy_flags = no_flags\<lparr>fl_rest := 1, fl_tui := True\<rparr>"

lemma toy_CA: "\<exists>ca. NewCA (ev_keys toy_environment) toy_os toy_issue ''d'' None (ev_files toy_environment) =
    (Ok ca, ev_files toy_environment) \<and> ca_certificate ca = toy_cert 0 \<and> ca_publicKey ca = toy_key32 0"
  by (simp add: NewCA_def CAExists_def toy_environment_def ca_load_def LoadCA_def ReadFile_def caKeyPath_def caCertPath_def
      DecodePrivateKeyPEM_def ParseCertificatePEM_def PRIVATE_KEY_def CERTIFICATE_def key_Public_def)

lemma toy_started: "\<exists>em. main_start toy_environment toy_flags = (Started em, ev_files toy_environment) \<and>
    em_server em = toy_server \<and> em_apps em = [(test_id 0, RestT ''localhost:8080''), (test_id 1, TuiT)]"
proof -
  have env: "ev_cwd toy_environment = Some ''d''" "ev_os toy_environment = toy_os" "ev_issue toy_environment = toy_issue"
    "ev_caKey toy_environment = None" "ev_ids toy_environment = (\<lambda>n. Ok (test_id n))" "ev_lib toy_environment = toy_lib"
    "ev_marshal toy_environment = (\<lambda>_. None)" "ev_proto toy_environment = (\<lambda>_. Some [])"
    by (simp_all add: toy_environment_def)
  have addr: "rest_address 0 = ''localhost:8080''"
    by (simp add: rest_address_def itoa_def digits.simps hexdigit_def char_of_def bit_0)
  have wire: "\<exists>em'. wire_apps toy_environment toy_flags em = Started em' \<and> em_server em' = em_server em \<and>
      em_apps em' = [(test_id 0, RestT ''localhost:8080''), (test_id 1, TuiT)]"
    if "em_registry em = NewRegistry" "em_draws em = 0" "em_apps em = []" for em
    using that
    by (simp add: wire_apps_def create_apps_def create_app_def CreateVirtualApp_def Register_def newVirtualApp_def
        NewRegistry_def toy_flags_def no_flags_def env addr test_id_eq Let_def)
  obtain ca where ca: "NewCA (ev_keys toy_environment) toy_os toy_issue ''d'' None (ev_files toy_environment) =
      (Ok ca, ev_files toy_environment)" "ca_certificate ca = toy_cert 0" "ca_publicKey ca = toy_key32 0"
    using toy_CA by blast
  define em0 where "em0 = \<lparr>em_logging = main_logging (ev_opens toy_environment) toy_flags, em_server = toy_server,
    em_registry = NewRegistry, em_draws = 0, em_apps = [], em_mcp = None, em_terminal = None\<rparr>"
  have "main_start toy_environment toy_flags = (wire_apps toy_environment toy_flags em0, ev_files toy_environment)"
    by (simp add: main_start_def env ca em0_def toy_server_def)
  with wire [of em0] show ?thesis by (auto simp: em0_def)
qed

theorem startup_matches_the_flags_witness:
  "\<exists>em. main_start toy_environment toy_flags = (Started em, ev_files toy_environment) \<and>
     map snd (em_apps em) = wired_kinds toy_flags \<and> Count (em_registry em) = 2 \<and>
     distinct (map (\<lambda>(i, k). kind_Address k) (em_apps em))"
proof -
  have env: "ev_cwd toy_environment = Some ''d''" "ev_os toy_environment = toy_os" "ev_issue toy_environment = toy_issue"
    "ev_caKey toy_environment = None" "ev_ids toy_environment = (\<lambda>n. Ok (test_id n))"
    by (simp_all add: toy_environment_def)
  have fresh: "fresh_draw (\<lambda>n. Ok (test_id n)) 0" "fresh_draw (\<lambda>n. Ok (test_id n)) 1"
    by (simp_all add: fresh_draw_def test_id_eq)
  have kinds: "length (network_kinds toy_flags) = 1" "length (wired_kinds toy_flags) = 2" "fl_rest toy_flags \<le> 41971"
    by (simp_all add: network_kinds_def wired_kinds_def toy_flags_def no_flags_def)
  obtain ca where "NewCA (ev_keys toy_environment) toy_os toy_issue ''d'' None (ev_files toy_environment) =
      (Ok ca, ev_files toy_environment)" using toy_CA by blast
  with startup_matches_the_flags [of toy_environment toy_flags] env fresh kinds
  obtain em where em: "main_start toy_environment toy_flags = (Started em, ev_files toy_environment)"
    "em_apps em = granted (\<lambda>n. Ok (test_id n)) (wired_kinds toy_flags)"
    "Count (em_registry em) = int (length (em_apps em))"
    "distinct (map (\<lambda>(i, k). kind_Address k) (em_apps em))"
    by auto
  have g: "map snd (granted (\<lambda>n. Ok (test_id n)) ks) = ks" if "length ks = 2" for ks
    using that fresh by (auto simp: granted_def numeral_2_eq_2 length_Suc_conv)
  from em g [OF kinds(2)] kinds(2) show ?thesis by (metis length_map of_nat_numeral)
qed

theorem unsigned_changes_need_the_flag_witness:
  "\<exists>em v req. main_start toy_environment toy_flags = (Started em, ev_files toy_environment) \<and>
     authorised (em_server em) v (toy_inputs 7) cert_app req \<and>
     snd (handleRequest (em_server em) (toy_inputs 7) req cert_app) = (toy_after, toy_msgs)"
proof -
  obtain em where em: "main_start toy_environment toy_flags = (Started em, ev_files toy_environment)"
    "em_server em = toy_server" "em_apps em = [(test_id 0, RestT ''localhost:8080''), (test_id 1, TuiT)]"
    using toy_started by blast
  have "\<not> fl_exposeAdmin toy_flags" by (simp add: toy_flags_def no_flags_def)
  moreover have "(test_id 0, RestT ''localhost:8080'') \<in> set (em_apps em)" by (simp add: em(3))
  ultimately show ?thesis
    using unsigned_changes_need_the_flag [OF em(1) _ _ toy_post_effect [folded em(2)] toy_after_differs] em(1)
    by blast
qed

text \<open>
  What is proved of shutdown holds of every process that is started this way; with the terminal
  its app is stopped twice, which changes nothing.
\<close>

theorem started_process_shuts_down:
  assumes "main_start ev fl = (Started em, fs)" "set listing = {..<length (em_apps em)}"
    and "(any_world_step (em_server em) (stop_order em listing))\<^sup>*\<^sup>* (emulator_world em) w" "wo_stop w = Down"
  shows "shut_down (em_server em) NewApp w"
proof -
  obtain v where "srv_verifier (em_server em) = Some v" using started_process(3) [OF assms(1)] by blast
  moreover have "set (stop_order em listing) = {..<length (map (\<lambda>(i, k). [k]) (em_apps em))}"
    using stop_order_all [OF assms(1,2)] by simp
  ultimately show ?thesis
    using down_is_shut_down [OF assms(3) [unfolded emulator_world_def] _ assms(4)] by blast
qed

section \<open>The agent interface\<close>

text \<open>
  \<^verbatim>\<open>RunHTTPServer\<close> of \<^verbatim>\<open>internal/transport/mcp/mcp.go\<close>, which \<^verbatim>\<open>main\<close> runs in a goroutine: it listens,
  and a second goroutine shuts it down when the context of \<^verbatim>\<open>main\<close> is done.
\<close>

record process =
  pr_world :: world
  pr_agent :: "listener option"
  pr_ctxDone :: bool

definition agent_listens :: "bool \<Rightarrow> listener \<Rightarrow> listener" where
  "agent_listens free l = (if l = NoServer then if free then Serving else Refused else l)"

definition agent_shutdown :: "listener \<Rightarrow> listener" where
  "agent_shutdown l = (if l = Refused then Refused else ShutDown)"

text \<open>
  The context is cancelled by the first deferred call of \<^verbatim>\<open>main\<close>, hence the last to run: after
  \<^verbatim>\<open>Stop\<close> has returned, right before the process exits.
\<close>

inductive process_step :: "Server \<Rightarrow> nat list \<Rightarrow> process \<Rightarrow> process \<Rightarrow> bool" for s order where
  ServerSide: "any_world_step s order (pr_world p) w \<Longrightarrow> process_step s order p (p\<lparr>pr_world := w\<rparr>)"
| AgentListens: "pr_agent p = Some l \<Longrightarrow>
    process_step s order p (p\<lparr>pr_agent := Some (agent_listens free l)\<rparr>)"
| AgentShutdown: "pr_agent p = Some l \<Longrightarrow> pr_ctxDone p \<Longrightarrow>
    process_step s order p (p\<lparr>pr_agent := Some (agent_shutdown l)\<rparr>)"
| MainReturns: "wo_stop (pr_world p) = Down \<Longrightarrow> process_step s order p (p\<lparr>pr_ctxDone := True\<rparr>)"

definition process_start :: "emulator \<Rightarrow> process" where
  "process_start em = \<lparr>pr_world = emulator_world em, pr_agent = map_option (\<lambda>_. NoServer) (em_mcp em), pr_ctxDone = False\<rparr>"

text \<open>
  The agent interface outlives the server: until \<^verbatim>\<open>main\<close> is about to return, nothing shuts it down,
  so it accepts requests that the ended loop never answers.
\<close>

theorem agent_interface_outlives_the_server:
  assumes "(process_step s order)\<^sup>*\<^sup>* p p'" "pr_agent p = Some Serving" "\<not> pr_ctxDone p'"
  shows "pr_agent p' = Some Serving"
proof -
  have "pr_ctxDone p' \<or> pr_agent p' = Some Serving"
    using assms(1)
  proof (induction rule: rtranclp_induct)
    case base
    show ?case using assms(2) by simp
  next
    case (step q r)
    then show ?case by (auto simp: agent_listens_def elim!: process_step.cases)
  qed
  with assms(3) show ?thesis by simp
qed

text \<open>
  The comment beside the admin handlers says that they are gated by the flag at the transport
  layer.  The agent interface is not: started without the flag, it mints for whoever asks.
\<close>

theorem agent_interface_is_not_gated:
  assumes "main_start ev fl = (Started em, fs)" "fl_mcp fl \<noteq> []" "\<not> fl_tui fl" "accounts app i = Some a"
    and "me_channel env 0 = sendRequest (em_server em) inp Delivered Delivered"
  shows "em_mcp em = Some (fl_mcp fl) \<and>
    (\<exists>r app'. registerTools env (Tool_admin_mint \<lparr>ama_To = id_String i, ama_Amount = amt\<rparr>) app = (r, app', []) \<and>
       map_option balance (accounts app' i) = Some (fadd (balance a) amt))"
proof -
  have "em_mcp em = Some (fl_mcp fl)"
    using assms(1-3) by (auto simp: main_start_def wire_apps_def Let_def split: option.splits prod.splits outcome.splits)
  moreover obtain app' where "AdminMint (me_channel env 0) i amt app = (Ok (), app', [])"
    "map_option balance (accounts app' i) = Some (fadd (balance a) amt)"
    using AdminMint_run [OF assms(4), of "em_server em" inp amt] assms(5) by auto
  ultimately show ?thesis
    by (simp add: mcp_admin_mint_def locally_def parse_field_def parse_id_def)
qed

end
