(* ===== verification/Trace.thy ===== *)
theory Trace
  imports Prelude
begin

text \<open>
  \<^verbatim>\<open>internal/trace/trace.go\<close>: the trace id a Go context carries.  A context is the list of the pairs
  that \<^verbatim>\<open>context.WithValue\<close> has put in front of each other; the key of this package has a type of its
  own, so no other package can use it.
\<close>

datatype context_key = TraceIDKey | OtherKey string

datatype context_value = StringValue string | OtherValue

type_synonym go_context = "(context_key \<times> context_value) list"

definition WithTraceID :: "string \<Rightarrow> go_context \<Rightarrow> go_context" where
  "WithTraceID traceID ctx = (TraceIDKey, StringValue traceID) # ctx"

text \<open>\<open>uuid\<close> is what \<^verbatim>\<open>uuid.New().String()\<close> returns.\<close>

definition NewTraceID :: "string \<Rightarrow> go_context \<Rightarrow> go_context" where
  "NewTraceID uuid ctx = WithTraceID uuid ctx"

definition GetTraceID :: "go_context \<Rightarrow> string" where
  "GetTraceID ctx = (case map_of ctx TraceIDKey of Some (StringValue s) \<Rightarrow> s | _ \<Rightarrow> [])"

lemma GetTraceID_With [simp]: "GetTraceID (WithTraceID traceID ctx) = traceID"
  by (simp add: GetTraceID_def WithTraceID_def)

lemma GetTraceID_New: "GetTraceID (NewTraceID uuid ctx) = uuid"
  by (simp add: NewTraceID_def)

text \<open>Values of other packages do not hide the trace id, and the innermost id counts.\<close>

lemma trace_id_survives: "GetTraceID (map (\<lambda>(k, v). (OtherKey k, v)) others @ ctx) = GetTraceID ctx"
proof -
  have "map_of (map (\<lambda>(k, v). (OtherKey k, v)) others) TraceIDKey = None"
    by (induction others) auto
  then show ?thesis by (simp add: GetTraceID_def map_add_def)
qed

lemma no_trace_id: "TraceIDKey \<notin> fst ` set ctx \<Longrightarrow> GetTraceID ctx = []"
  by (simp add: GetTraceID_def map_of_eq_None_iff [THEN iffD2])

end
