(* ===== verification/Spec2Isabelle.thy ===== *)
theory Spec2Isabelle
  imports Subscriptions Mcp_Laws Tui_Screens Reply_Types Endpoint_Laws Load_Laws Emulator Trace
begin

text \<open>
  The ledger emulator sg-emulator (Go).  Clients send signed requests over a channel to one
  server goroutine, which checks the signature, runs the operation on the ledger application
  and announces the event; the ledger keeps, for every account, a balance, a minimum balance
  requirement, a token store and a chain of transactions.

  \<^bold>\<open>Parts and theories.\<close>  \<open>Prelude\<close>: outcomes of Go calls (\<open>Ok\<close>, \<open>Err\<close>, \<open>Panic\<close>), finite
  maps, transition systems with an invariant.  \<open>Float64\<close>: IEEE doubles as multiples of
  \<open>2 ^ -1074\<close>, with rounding to nearest even, infinities and NaN.  \<open>Ids\<close>
  (\<^verbatim>\<open>scalegraph/id.go\<close>, \<^verbatim>\<open>crypto/hash.go\<close>): 160-bit ids and their hexadecimal text.
  \<open>Errors\<close>: every error value.  \<open>Crypto\<close> (\<^verbatim>\<open>crypto/signer.go\<close>, \<^verbatim>\<open>crypto/verifiable.go\<close>): the
  signed payloads and \<^verbatim>\<open>VerifyRequest\<close>.  \<open>Tokens\<close>, \<open>Transactions\<close>, \<open>Chain\<close>, \<open>Accounts\<close>
  (\<^verbatim>\<open>scalegraph/token.go\<close>, \<^verbatim>\<open>transaction.go\<close>, \<^verbatim>\<open>block.go\<close> and \<^verbatim>\<open>blockchain.go\<close>, \<^verbatim>\<open>account.go\<close>): the
  ledger's data, with one handler and one rollback handler per transaction type.
  \<open>Requests\<close> (\<^verbatim>\<open>scalegraph/requests.go\<close>): the requests and their \<^verbatim>\<open>Verify\<close> methods.  \<open>TwoPhase\<close>:
  the pattern by which a transaction is appended to two accounts and rolled back on the first
  when the second refuses.  \<open>App\<close> (\<^verbatim>\<open>scalegraph/app.go\<close>): every operation of the application.
  \<open>Verifier\<close> (\<^verbatim>\<open>verifier/verifier.go\<close>), \<open>Registry\<close> (\<^verbatim>\<open>server/registry.go\<close>, \<^verbatim>\<open>virtual_app.go\<close>),
  \<open>Events\<close> (\<^verbatim>\<open>server/event_builder.go\<close>), \<open>Server\<close> (\<^verbatim>\<open>server/server.go\<close>) and \<open>Client\<close>
  (\<^verbatim>\<open>server/client.go\<close>).  \<open>Keys\<close> (\<^verbatim>\<open>crypto/keypair.go\<close>, \<^verbatim>\<open>crypto/cert.go\<close>) and \<open>CA\<close> (\<^verbatim>\<open>ca/*.go\<close>): key
  pairs, their PEM files and the certificate authority.  \<open>Base64\<close> (the standard library's
  encoding), \<open>Converters\<close> and \<open>Connect\<close> (\<^verbatim>\<open>transport/connect\<close>): protobuf messages to envelopes,
  the handlers and the event subscriptions.  \<open>Rest\<close> (\<^verbatim>\<open>transport/rest/rest.go\<close>): the REST handlers;
  \<open>Routes\<close>: the route table of REST and the services of Connect.  \<open>Loop\<close> (\<^verbatim>\<open>server/server.go\<close>): the
  server's goroutine beside its clients on the bounded channel; \<open>Lifecycle\<close> (\<^verbatim>\<open>virtual_app.go\<close>, the
  \<^verbatim>\<open>Start\<close> and \<^verbatim>\<open>Stop\<close> of the transports): the goroutines of a virtual app; \<open>Shutdown\<close>: the process made of
  both, with \<^verbatim>\<open>Stop\<close> of the server; \<open>Emulator\<close> (\<^verbatim>\<open>cmd/app/main.go\<close>): from the flags to that process.
  \<open>Trace\<close> (\<^verbatim>\<open>trace/trace.go\<close>): the trace id of a context.
  \<open>Mcp\<close> (\<^verbatim>\<open>transport/mcp/mcp.go\<close>): the tools of the agent interface and the signed requests it hands out.
  \<open>Testclient\<close> (\<^verbatim>\<open>cmd/testclient/helper.go\<close>): how the test client signs and writes requests;
  \<open>Bench_Report\<close>, \<open>Bench\<close> and \<open>Bench_Pool\<close> (\<^verbatim>\<open>bench.go\<close>): the counting, the workers and the runs of its
  benchmarks; \<open>Endpoints\<close> (\<^verbatim>\<open>endpoints.go\<close>) and \<open>Load_Test\<close> (\<^verbatim>\<open>streams.go\<close>, \<^verbatim>\<open>main.go\<close>): its endpoint suite
  and its load test of the event streams.  \<open>Float_Arith\<close> adds products, quotients and conversions
  to \<open>Float64\<close>, \<open>Text_Format\<close> the little of \<^verbatim>\<open>strconv\<close>, \<^verbatim>\<open>strings\<close> and \<^verbatim>\<open>fmt\<close> that is used.
  \<open>Tui_Model\<close> and \<open>Tui\<close> (\<^verbatim>\<open>tui/model.go\<close>, \<^verbatim>\<open>commands.go\<close>, \<^verbatim>\<open>update.go\<close>): the state of the terminal
  interface and its update function, one function per view; \<open>Tui_View\<close> (\<^verbatim>\<open>view.go\<close>): what each view draws.

  \<^bold>\<open>How they meet.\<close>  The transports and the terminal reach the server only through \<open>Client\<close>,
  whose channel they get as an argument: a function from a request and the App as the server
  finds it to the response, the App afterwards and what was announced.  \<open>sendRequest\<close> is that
  function for a server, with the timeouts of both directions.  The server verifies a request
  with \<open>Verifier\<close> over the keys in the App, runs an operation of \<open>App\<close>, and publishes the event
  \<open>Events\<close> builds; the streams of \<open>Connect\<close> read what is published.  \<open>Emulator\<close> makes the authority of
  \<open>CA\<close>, a server on it and the virtual apps of \<open>Registry\<close> with the transports of \<open>Routes\<close>; \<open>Shutdown\<close>
  runs them as goroutines.

  \<^bold>\<open>Correspondence.\<close>  A struct is a record, a Go method a function of the same name that takes
  the state and returns its outcome with the state as it leaves it, so that a failing call that
  has already changed something shows it.  Operations of the application have the prefix
  \<^verbatim>\<open>app_\<close>, those of the client that would clash the prefix \<^verbatim>\<open>client_\<close>.  What a call draws or
  reads from outside (fresh ids, clocks, new credentials, the order in which a Go map is
  listed) is an argument.  SHA-1, Ed25519, X.509 and the JSON and protobuf encoders are
  parameters: the records \<open>crypto_lib\<close> and \<open>Server\<close> hold them.  Nonces and timestamps are 64-bit
  words, balances doubles.

  \<^bold>\<open>Lemmas.\<close>  \<open>Account_Laws\<close>: the account invariant (balance and nonce are the replay of the
  chain) and that a rollback undoes its append.  \<open>App_Laws\<close>: the steps of the application,
  reachability, and the invariant in every reachable state.  \<open>Money\<close>: transfers, mints and
  account creation on every branch, conservation, solvency.  \<open>Token_Ops\<close> and \<open>Token_Runs\<close>: the
  token operations on every branch, with concrete runs.  \<open>Ledger\<close>: failed operations leave no
  trace.  \<open>Ownership\<close>: single owners, and nonces that never come back.  \<open>Mbr\<close>: the accounting
  of the minimum balance and its drift under freezing.  \<open>Server_Laws\<close> and \<open>Server_Runs\<close>: what
  a handled request proves about its signer, nonces, publication.  The interfaces are locales:
  \<open>tx_log\<close> (a chain as a list), \<open>two_phase\<close> (append and rollback of two accounts),
  \<open>transition_invariant\<close>, \<open>signature_verifier\<close>, and \<open>tui_world\<close> with its extension \<open>tui_session\<close>
  (what an update of the terminal may rely on), and \<open>mcp_world\<close> (what a tool of the agent interface may
  rely on); each is interpreted on the model's own
  definitions.  \<open>Tui_Laws\<close>, \<open>Tui_Session\<close> and \<open>Tui_Props\<close>: terminal sessions as step sequences,
  the invariant of the indices each view uses, and the properties of sessions.  \<open>Tui_Screens\<close>: what
  sessions show on the screen.
  \<open>Subscriptions\<close>: the life of event streams.  \<open>Mcp_Laws\<close>: what a tool call does to the ledger, and
  what becomes of a signed request that is handed out.  \<open>Reply_Types\<close>: each answer has the type the
  client asserts.  \<open>Bench_Laws\<close>, \<open>Endpoint_Laws\<close> and \<open>Load_Laws\<close>: what the numbers, the exit code and
  the counts of the test client mean, for every schedule of its goroutines.  \<open>Routes\<close> and
  \<open>Emulator\<close>: what the network can do to the ledger, and what the flags start.  \<open>Loop\<close>: the concurrent
  loop refines the sequential one, and answers each request within a bounded number of its steps.  \<open>Lifecycle\<close> and \<open>Shutdown\<close>: invariants of starting and stopping,
  and a measure that every step of the program decreases, which with progress gives termination;
  their steps are labelled with who makes them (\<open>Outside\<close>, \<open>Program\<close>, \<open>Stopper\<close>).  This theory holds the properties of the whole server.

  \<^bold>\<open>Bounds.\<close>  No fuel is used: every loop of the code modelled here walks a finite list or
  chain, but for the ramp of the load test, a partial function whose value is \<open>None\<close> when it does
  not end, and no fuel bounds the steps of a process: their number is bounded by a measure.  The
  request channel holds 1000 requests.  The largest capacity a slice can be made with is an argument
  of \<open>GetKClosest\<close>.  Theorems on the nonce assume that an account has sent fewer than \<open>2 ^ 64\<close>
  transactions; the counter wraps there.

  \<^bold>\<open>What is idealised.\<close>  The server runs its requests in one goroutine, so the mutexes do not
  appear.  The code shares \<^verbatim>\<open>*Token\<close> pointers between a store and the transactions of a chain;
  freezing mutates the token in place, so a token recorded in an old transaction shares its
  frozen flag in the code, while the model keeps it as it was recorded.  The stores themselves
  never share a token.  Log output, \<^verbatim>\<open>String\<close> methods and trace ids are left out.

  An update of the terminal is one call: the goroutines of the widget library are not there, and
  a panic of the server behind the channel ends the process (\<open>Killed\<close>) as opposed to a panic of
  the interface itself (\<open>Crash\<close>).  The publication of an event and its delivery to the open
  streams is one step, and event types outside the enumeration are left out.  A file that exists can
  be read; what the operating system refuses is the making of directories and the writing.  The
  round trips of the key encoders (\<open>key_lib_ok\<close>) are stated for all keys they encode.  The messages of
  an event are those handed to a bus; that a closed bus refuses them has no effect on the server.

  \<^bold>\<open>Not modelled.\<close>  The agent protocol and the wording of its texts, the styles of the terminal, the
  HTTP servers beyond listening and shutting down, the router, the schema validator and the JSON
  decoder (arguments), the message bus of a virtual app but for its messages and its closing, the
  parsing of flags, the delivery of signals, log output, the HTTP clients of the test client, and
  the generated code and mocks.  A request in flight when its HTTP server is shut down is one that a
  client may still put on the channel.
\<close>

section \<open>Properties of the server\<close>

text \<open>
  Property C3.  Whenever the server answers a request with success, either the request is one
  of the five kinds that carry no signature, or its envelope holds a signature the verifier
  found authentic, of the account the operation acts for (the sender, the token owner, the
  freeze authority, the receiver of a clawback, the CA for a new account), over a payload whose
  fields are the request's own.  Without a verifier only the unsigned kinds succeed.
\<close>

theorem successful_requests_are_authorised:
  assumes "handleRequest s inp req app = (Ok resp, app', msgs)"
  shows "unsigned_request req \<or> (\<exists>v. srv_verifier s = Some v \<and> authorised s v inp app req)"
proof (cases "request_Verify (lib_sha1 (srv_lib s)) (srv_marshal s) (\<lambda>_ _ _. Panic)
    (srv_caPublicKey s) req")
  case None
  obtain h where "handler (lib_sha1 (srv_lib s)) inp req = Some h"
    by (rule handleRequest_ok [OF assms]) (rule that; assumption)
  with None have "unsigned_request req" by (cases req) auto
  then show ?thesis ..
next
  case (Some c)
  have signed: "\<exists>c. request_Verify (lib_sha1 (srv_lib s)) (srv_marshal s) vm (srv_caPublicKey s) req = Some c" for vm
    using Some by (cases req) auto
  show ?thesis
  proof (cases "srv_verifier s")
    case None
    then show ?thesis using assms Some
      by (auto simp: handleRequest_def Let_def split: option.splits outcome.splits prod.splits)
  next
    case v: (Some v)
    obtain check where "request_Verify (lib_sha1 (srv_lib s)) (srv_marshal s)
        (server_verify s v inp app) (srv_caPublicKey s) req = Some check"
      using signed by blast
    with handleRequest_verified [OF assms v] verified_authorised v show ?thesis by metis
  qed
qed

theorem successful_requests_are_authorised_witness:
  "authorised toy_server toy_verifier (toy_inputs 7) cert_app (ReqTransfer (toy_signed_transfer (dy 1073 6)))"
  using successful_requests_are_authorised [OF toy_request_handled] by (simp add: concrete_simps)

text \<open>
  Property C4.  No request is executed twice.  Once the server has handled a request that uses
  nonce \<open>n\<close> of account \<open>i\<close>, then after any further requests, of any clients, every request that
  presents nonce \<open>n\<close> for account \<open>i\<close> again, the same one or another, fails and changes nothing;
  the only assumption is that the account has signed fewer than \<open>2 ^ 64\<close> transactions.
\<close>

theorem nonce_used_once:
  assumes "app_ok (lib_sha1 (srv_lib s)) app"
    and "handleRequest s inp req app = (Ok resp, app1, msgs)" "request_nonce req = Some (i, n)"
    and "server_run s queue app1 = (rs, app2, alive)"
    and "\<And>a. accounts app2 i = Some a \<Longrightarrow> sent i a < 2 ^ 64"
    and "request_nonce req2 = Some (i, n)"
  shows "\<exists>r. handleRequest s inp2 req2 app2 = (r, app2, []) \<and> \<not> is_ok r"
  by (rule used_nonce_rejected [OF assms])

theorem nonce_used_once_witness:
  "\<exists>r. handleRequest toy_server (toy_inputs 8) (ReqTransfer (toy_signed_transfer (dy 1073 6))) toy_after
     = (r, toy_after, []) \<and> \<not> is_ok r"
proof -
  show ?thesis
    using nonce_used_once [of toy_server cert_app "toy_inputs 7"
        "ReqTransfer (toy_signed_transfer (dy 1073 6))" TransferResponse toy_after toy_msgs "test_id 1" 0
        "[]" "[]" toy_after True "ReqTransfer (toy_signed_transfer (dy 1073 6))" "toy_inputs 8"]
      cert_app_ok toy_request_handled toy_after_sent
    by (simp add: concrete_simps)
qed

text \<open>
  Property C23.  A handled request is announced to exactly its participants: when its event can be
  marshalled, on every registered virtual app one message goes to the topic of each account
  involved, in the order of the request, and to no other topic.  When the event cannot be
  marshalled it is announced to nobody, and a request that failed is announced to nobody.  Whether
  and how events are marshalled has no influence on the result of the request or on the App.
  Transfers, authorizations, clawbacks and freezes reach both parties, a token mint the minter and
  the clawback authority.
\<close>

theorem events_reach_participants:
  assumes "handleRequest s inp req app = (r, app', msgs)"
  shows "map (\<lambda>m. (pub_vapp m, pub_topic m)) msgs =
    (case r of
       Ok resp \<Rightarrow>
         if event_marshals s inp req resp
         then concat (map (\<lambda>v. map (\<lambda>acc. (vapp_ID v, topic_prefix @ acc)) (participants req)) (in_vapps inp))
         else []
     | _ \<Rightarrow> []) \<and>
    (\<exists>msgs'. handleRequest (s\<lparr>srv_proto := f\<rparr>) inp req app = (r, app', msgs'))"
proof (cases r)
  case (Ok resp)
  have "publishEvent s inp req resp = Ok msgs"
    using assms Ok publishEvent_no_error [of s]
    by (auto simp: handleRequest_def Let_def split: option.splits outcome.splits prod.splits if_splits)
  then show ?thesis using publishEvent_topics handleRequest_proto_indep [OF assms] Ok by auto
qed (use handleRequest_published [OF assms] handleRequest_proto_indep [OF assms] in \<open>cases "msgs = []"; auto\<close>)+

theorem events_reach_participants_witness:
  "map (\<lambda>m. (pub_vapp m, pub_topic m)) toy_msgs =
   [(test_id 9, topic_prefix @ id_String (test_id 1)), (test_id 9, topic_prefix @ id_String (test_id 2))]"
  using events_reach_participants [OF toy_request_handled]
  by (simp add: concrete_simps newVirtualApp_def event_marshals_def)

text \<open>
  Token requests never touch funds: minting, authorizing, transferring, clawing
  back, freezing, burning or looking up a token leaves the balance of every account as it was,
  whether the request succeeds, fails, is rolled back or panics.
\<close>

theorem token_requests_keep_balances:
  assumes "handleRequest s inp req app = (r, app', msgs)" "token_request req"
  shows "map_option balance (accounts app' i) = map_option balance (accounts app i)"
proof -
  consider "app' = app" | h where "handler (lib_sha1 (srv_lib s)) inp req = Some h" "app' = snd (h app)"
    using handleRequest_state [OF assms(1)] by blast
  then have "balances app' = balances app"
  proof cases
    case 2
    then show ?thesis using token_handler_keeps_balances [OF 2(1) assms(2) prod.collapse [symmetric]] by simp
  qed simp
  then show ?thesis by (metis balances_def)
qed

definition toy_lookup :: request where
  "toy_lookup = ReqLookupToken \<lparr>lt_TokenID = toy_key, lt_AccountID = test_id 1, lt_SignedEnvelope = None\<rparr>"

theorem token_requests_keep_balances_witness:
  "map_option balance (accounts (fst (snd (handleRequest toy_server (toy_inputs 7) toy_lookup cert_app))) (test_id 1))
     = Some (dy 1073 20)"
proof -
  obtain r app' msgs where h: "handleRequest toy_server (toy_inputs 7) toy_lookup cert_app = (r, app', msgs)"
    by (metis prod_cases3)
  show ?thesis
    using token_requests_keep_balances [OF h, of "test_id 1"]
    by (simp add: h) (simp add: toy_lookup_def concrete_simps)
qed

text \<open>
  A clawback request for a token that has no clawback address takes the whole
  server down.  If its signature is accepted, handling it panics in the processing goroutine,
  which nothing recovers: the request and every request queued behind it get no response.
\<close>

theorem clawback_without_address_stops_server:
  assumes "srv_verifier s = Some v"
    and "ClawbackTokenRequest_Verify (lib_sha1 (srv_lib s)) (srv_marshal s) (server_verify s v inp app)
           (srv_caPublicKey s) req = Ok ()"
    and "accounts app (ct_From req) = Some a" "ct_To req \<in> dom (accounts app)"
    and "GetToken (ct_TokenId req) a = Some tok" "clawbackAddress tok = None"
  shows "server_run s ((inp, ReqClawback req) # queue) app = ([], app, False)"
proof -
  obtain c where "accounts app (ct_To req) = Some c" using assms(4) by blast
  then have "app_ClawbackToken (in_draws inp) req app = (Panic, app)"
    using assms(3,5,6) by (simp add: app_ClawbackToken_def)
  then show ?thesis using assms(1,2) by (simp add: handleRequest_def)
qed

definition stuck_app :: App where
  "stuck_app = \<lparr>accounts = [test_id 1 \<mapsto> (cert_acct 1)\<lparr>tokenStore := [toy_key \<mapsto> toy_token None None]\<rparr>,
     test_id 2 \<mapsto> cert_acct 2]\<rparr>"

definition toy_signed_claw :: ClawbackTokenRequest where
  "toy_signed_claw = toy_claw\<lparr>ct_SignedEnvelope := Some \<lparr>Payload =
     \<lparr>ctp_From = id_String (test_id 1), ctp_To = id_String (test_id 2), ctp_TokenID = toy_key,
      ctp_Nonce = 0\<rparr>, env_Signature = toy_signature 2\<rparr>\<rparr>"

theorem clawback_without_address_stops_server_witness:
  "server_run toy_server [(toy_inputs 7, ReqClawback toy_signed_claw), (toy_inputs 8, ReqAccountCount)]
     stuck_app = ([], stuck_app, False)"
proof -
  have res: "resolveSigner toy_lib toy_verifier stuck_app (id_String (test_id 2)) = Ok (toy_cert 2, toy_key32 2)"
    by (simp add: resolveSigner_def concrete_simps GetAccountCertAndPublicKey_def stuck_app_def cert_acct_def)
  have "ClawbackTokenRequest_Verify toy_sha1 (srv_marshal toy_server)
      (server_verify toy_server toy_verifier (toy_inputs 7) stuck_app) (toy_key32 0) toy_signed_claw = Ok ()"
    using res by (simp add: Verify_defs VerifyRequest_Some_iff server_verify_def toy_signed_claw_def
        toy_claw_def concrete_simps VerifyEnvelopeData_iff
        valid_signature_def fresh_def goUnix_def goSub_def)
  then show ?thesis
    using clawback_without_address_stops_server [of toy_server toy_verifier "toy_inputs 7" stuck_app toy_signed_claw
        "(cert_acct 1)\<lparr>tokenStore := [toy_key \<mapsto> toy_token None None]\<rparr>" "toy_token None None"]
    by (simp add: concrete_simps stuck_app_def toy_signed_claw_def toy_claw_def GetToken_Some)
qed

text \<open>
  \<^verbatim>\<open>MintRequest\<close> and the two admin requests are not authenticated by the server:
  whoever can put a request on its channel can create funds in any known account, for any
  amount, with no signature; only the admin variant leaves subscribers uninformed.
\<close>

theorem minting_is_unauthenticated:
  assumes "accounts app i = Some a" "\<And>e. srv_proto s e \<noteq> None"
  shows "\<exists>app' msgs app''.
    handleRequest s inp (ReqMint \<lparr>mr_To = i, mr_Amount = amt\<rparr>) app = (Ok MintResponse, app', msgs) \<and>
    map_option balance (accounts app' i) = Some (fadd (balance a) amt) \<and>
    map pub_topic msgs = map (\<lambda>_. topic_prefix @ id_String i) (in_vapps inp) \<and>
    handleRequest s inp (ReqAdminMint \<lparr>am_To = i, am_Amount = amt\<rparr>) app = (Ok AdminMintResponse, app'', []) \<and>
    map_option balance (accounts app'' i) = Some (fadd (balance a) amt)"
proof -
  obtain app' a' where m: "app_Mint (in_draws inp) \<lparr>mr_To = i, mr_Amount = amt\<rparr> app = (Ok (), app')"
    and a': "accounts app' i = Some a'" "balance a' = fadd (balance a) amt"
    using assms(1)
    by (simp add: app_Mint_def append_one_def on_entry_def appendTransaction_def newMintTransaction_def
        handleMintTx_def Let_def)
  have p: "\<exists>msgs. publishEvent s inp (ReqMint \<lparr>mr_To = i, mr_Amount = amt\<rparr>) MintResponse = Ok msgs"
    using assms(2) by (auto simp: publishEvent_def Let_def split: option.split)
  then obtain msgs where msgs:
    "publishEvent s inp (ReqMint \<lparr>mr_To = i, mr_Amount = amt\<rparr>) MintResponse = Ok msgs" ..
  have "map pub_topic msgs = map snd (map (\<lambda>m. (pub_vapp m, pub_topic m)) msgs)" by simp
  also have "\<dots> = map (\<lambda>_. topic_prefix @ id_String i) (in_vapps inp)"
    unfolding publishEvent_topics [OF msgs] using assms(2)
    by (simp add: event_marshals_def map_concat o_def split: outcome.split option.split)
  finally show ?thesis
    using m a' msgs
    by (simp add: handleRequest_def handleMint_def handleAdminMint_def publishEvent_def [of _ _ "ReqAdminMint r" for r])
qed

theorem minting_is_unauthenticated_witness:
  "\<exists>app' msgs. handleRequest toy_server (toy_inputs 7) (ReqMint \<lparr>mr_To = test_id 2, mr_Amount = dy 1073 5\<rparr>) cert_app
      = (Ok MintResponse, app', msgs) \<and> map_option balance (accounts app' (test_id 2)) = Some (dy 1073 25)"
  using minting_is_unauthenticated [of cert_app "test_id 2" "cert_acct 2" toy_server "toy_inputs 7" "dy 1073 5"]
  by (auto simp: concrete_simps fadd_dy)

end
